(* ===== verification/Prelude.thy ===== *)
theory Prelude
  imports Main "HOL-Library.Word" "HOL-Library.Char_ord"
begin

text \<open>
  Shared vocabulary of the development: the machine integers and byte strings of the Rust
  source, the standard-library operations the crate uses on them (searching, splitting, UTF-8
  checking, trimming, integer parsing, big- and little-endian encodings), and the generic lemmas
  the component theories prove with.

  Conventions: \<open>u8\<close>, \<open>u16\<close>, \<open>u32\<close>, \<open>u64\<close> are machine words; a \<open>usize\<close> that only counts
  is a \<open>nat\<close>; a \<open>&[u8]\<close> is a \<open>u8 list\<close>; a \<open>&str\<close> is a \<open>string\<close>, the list of its UTF-8
  bytes; a \<open>Result<T, E>\<close> is \<open>'e + 't\<close> with \<open>Inl\<close> for \<open>Err\<close>.
\<close>

section \<open>Collections of proof hints\<close>

named_theorems wire_simps \<open>byte-level encodings and their lengths\<close>
named_theorems io_simps \<open>one-step equations of the transport model\<close>
named_theorems step_frame \<open>frame facts: which fields an operation leaves alone\<close>

section \<open>Machine integers\<close>

type_synonym u8 = "8 word"
type_synonym u16 = "16 word"
type_synonym u32 = "32 word"
type_synonym u64 = "64 word"
type_synonym bytes = "u8 list"

abbreviation (input) u64_max :: nat where "u64_max \<equiv> 18446744073709551615"

text \<open>\<open>u64::saturating_add\<close>; \<open>saturating_sub\<close> is the truncating \<open>-\<close> of \<open>nat\<close>.\<close>

definition sat_add64 :: "nat \<Rightarrow> nat \<Rightarrow> nat" where
  "sat_add64 a b = min (a + b) u64_max"

definition sat_mul64 :: "nat \<Rightarrow> nat \<Rightarrow> nat" where
  "sat_mul64 a b = min (a * b) u64_max"

lemma word_eq_iff_unat: "a = b \<longleftrightarrow> unat a = unat b"
  by (rule word_unat_eq_iff)

lemma unat_u8_less [simp]: "unat (b :: u8) < 256"
  using unsigned_less [of b] by simp

lemma unat_u16_less [simp]: "unat (b :: u16) < 65536"
  using unsigned_less [of b] by simp

lemma unat_of_nat_u8: "n < 256 \<Longrightarrow> unat (word_of_nat n :: u8) = n"
  by (simp add: unat_of_nat)

lemma unat_of_nat_u16: "n < 65536 \<Longrightarrow> unat (word_of_nat n :: u16) = n"
  by (simp add: unat_of_nat)

lemma unat_of_nat_u32: "n < 4294967296 \<Longrightarrow> unat (word_of_nat n :: u32) = n"
  by (simp add: unat_of_nat)

lemmas unat_of_nat_bounded = unat_of_nat_u8 unat_of_nat_u16 unat_of_nat_u32

text \<open>A property of every byte is a finite check.\<close>

lemma all_u8_iff: "(\<forall>b :: u8. P b) \<longleftrightarrow> (\<forall>n < 256. P (word_of_nat n))"
proof
  assume r: "\<forall>n < 256. P (word_of_nat n)"
  show "\<forall>b :: u8. P b"
  proof
    fix b :: u8
    have "P (word_of_nat (unat b))" using r unat_u8_less by blast
    then show "P b" by simp
  qed
qed simp

section \<open>Strings and bytes\<close>

definition char_byte :: "char \<Rightarrow> u8" where
  "char_byte c = word_of_nat (of_char c)"

definition byte_char :: "u8 \<Rightarrow> char" where
  "byte_char b = char_of (unat b)"

definition as_bytes :: "string \<Rightarrow> bytes" where
  "as_bytes s = map char_byte s"

definition of_bytes :: "bytes \<Rightarrow> string" where
  "of_bytes bs = map byte_char bs"

lemma of_char_less_256 [simp]: "(of_char c :: nat) < 256"
  by (rule of_char_of [THEN subst]) simp

lemma byte_char_char_byte [simp]: "byte_char (char_byte c) = c"
  by (simp add: byte_char_def char_byte_def unat_of_nat_u8)

lemma char_byte_byte_char [simp]: "char_byte (byte_char b) = b"
  by (simp add: byte_char_def char_byte_def)

lemma of_bytes_as_bytes [simp]: "of_bytes (as_bytes s) = s"
  by (simp add: of_bytes_def as_bytes_def comp_def)

lemma as_bytes_of_bytes [simp]: "as_bytes (of_bytes bs) = bs"
  by (simp add: of_bytes_def as_bytes_def comp_def)

lemma length_as_bytes [simp, wire_simps]: "length (as_bytes s) = length s"
  by (simp add: as_bytes_def)

lemma length_of_bytes [simp]: "length (of_bytes bs) = length bs"
  by (simp add: of_bytes_def)

lemma as_bytes_append [simp]: "as_bytes (s @ t) = as_bytes s @ as_bytes t"
  by (simp add: as_bytes_def)

lemma of_bytes_append [simp]: "of_bytes (s @ t) = of_bytes s @ of_bytes t"
  by (simp add: of_bytes_def)

section \<open>Searching and splitting\<close>

text \<open>\<open>iter().position(..)\<close> and \<open>str::find\<close> of a character class.\<close>

fun position :: "('a \<Rightarrow> bool) \<Rightarrow> 'a list \<Rightarrow> nat option" where
  "position P [] = None"
| "position P (x # xs) = (if P x then Some 0 else map_option Suc (position P xs))"

lemma position_None_iff: "position P xs = None \<longleftrightarrow> (\<forall>x \<in> set xs. \<not> P x)"
  by (induction xs) auto

lemma position_SomeD:
  "position P xs = Some i \<Longrightarrow> i < length xs \<and> P (xs ! i) \<and> (\<forall>x \<in> set (take i xs). \<not> P x)"
proof (induction xs arbitrary: i)
  case (Cons x xs)
  then show ?case by (cases i) (auto split: if_splits)
qed simp

lemma position_append_hit:
  "\<forall>x \<in> set xs. \<not> P x \<Longrightarrow> P y \<Longrightarrow> position P (xs @ y # ys) = Some (length xs)"
  by (induction xs) auto

lemma position_append_miss:
  "\<forall>x \<in> set xs. \<not> P x \<Longrightarrow> position P (xs @ ys) = map_option ((+) (length xs)) (position P ys)"
proof (induction xs)
  case Nil
  then show ?case by (cases "position P ys") auto
next
  case (Cons x xs)
  then show ?case by (cases "position P ys") auto
qed

text \<open>\<open>windows(n).position(|w| w == pat)\<close>: the first place where \<open>pat\<close> occurs.\<close>

fun find_sub :: "'a list \<Rightarrow> 'a list \<Rightarrow> nat option" where
  "find_sub pat [] = (if pat = [] then Some 0 else None)"
| "find_sub pat (x # xs) =
     (if take (length pat) (x # xs) = pat then Some 0 else map_option Suc (find_sub pat xs))"

lemma find_sub_SomeD:
  "find_sub pat xs = Some i \<Longrightarrow> take (length pat) (drop i xs) = pat \<and> i + length pat \<le> length xs"
proof (induction xs arbitrary: i)
  case Nil
  then show ?case by (auto split: if_splits)
next
  case (Cons x xs)
  show ?case
  proof (cases "take (length pat) (x # xs) = pat")
    case True
    then have "length pat \<le> length (x # xs)" by (metis length_take min.cobounded1)
    with True Cons.prems show ?thesis by simp
  next
    case False
    with Cons.prems obtain j where "find_sub pat xs = Some j" "i = Suc j"
      by (auto split: if_splits)
    with Cons.IH show ?thesis by auto
  qed
qed

text \<open>\<open>str::split\<close> on a character class: always at least one piece.\<close>

fun split_on :: "('a \<Rightarrow> bool) \<Rightarrow> 'a list \<Rightarrow> 'a list list" where
  "split_on P [] = [[]]"
| "split_on P (x # xs) =
     (if P x then [] # split_on P xs
      else case split_on P xs of [] \<Rightarrow> [[x]] | p # ps \<Rightarrow> (x # p) # ps)"

lemma split_on_not_Nil [simp]: "split_on P xs \<noteq> []"
  by (induction xs) (auto split: list.splits)

lemma split_on_pieces: "p \<in> set (split_on P xs) \<Longrightarrow> x \<in> set p \<Longrightarrow> \<not> P x \<and> x \<in> set xs"
proof (induction xs arbitrary: p)
  case (Cons y ys)
  obtain q qs where q: "split_on P ys = q # qs" by (cases "split_on P ys") auto
  from Cons.prems q consider "P y" "p = [] \<or> p \<in> set (split_on P ys)"
    | "\<not> P y" "p = y # q" | "\<not> P y" "p \<in> set qs"
    by (auto split: if_splits)
  then show ?case
  proof cases
    case 1
    with Cons.IH Cons.prems(2) show ?thesis by auto
  next
    case 2
    with Cons.IH [of q] Cons.prems(2) q show ?thesis by auto
  next
    case 3
    with Cons.IH [of p] Cons.prems(2) q show ?thesis by auto
  qed
qed simp

lemma split_on_none: "\<forall>x \<in> set xs. \<not> P x \<Longrightarrow> split_on P xs = [xs]"
  by (induction xs) auto

lemma split_on_append:
  "\<forall>x \<in> set xs. \<not> P x \<Longrightarrow> P y \<Longrightarrow> split_on P (xs @ y # ys) = xs # split_on P ys"
  by (induction xs) auto

section \<open>Fixed-width encodings\<close>

text \<open>\<open>u16::to_be_bytes\<close>, \<open>u32::to_le_bytes\<close> and their inverses.\<close>

definition u16_be :: "u16 \<Rightarrow> bytes" where
  "u16_be w = [ucast (drop_bit 8 w), ucast w]"

definition u16_of_be :: "u8 \<Rightarrow> u8 \<Rightarrow> u16" where
  "u16_of_be hi lo = push_bit 8 (ucast hi) + ucast lo"

definition u32_le :: "u32 \<Rightarrow> bytes" where
  "u32_le w = [ucast w, ucast (drop_bit 8 w), ucast (drop_bit 16 w), ucast (drop_bit 24 w)]"

definition u32_of_le :: "u8 \<Rightarrow> u8 \<Rightarrow> u8 \<Rightarrow> u8 \<Rightarrow> u32" where
  "u32_of_le b0 b1 b2 b3 =
     ucast b0 + push_bit 8 (ucast b1) + push_bit 16 (ucast b2) + push_bit 24 (ucast b3)"

lemma length_u16_be [simp, wire_simps]: "length (u16_be w) = 2"
  by (simp add: u16_be_def)

lemma length_u32_le [simp, wire_simps]: "length (u32_le w) = 4"
  by (simp add: u32_le_def)

lemma unat_u16_of_be: "unat (u16_of_be hi lo) = unat hi * 256 + unat lo"
proof -
  have b: "unat hi * 256 + unat lo < 65536"
    using unat_u8_less [of hi] unat_u8_less [of lo] by linarith
  have e: "u16_of_be hi lo = word_of_nat (unat hi * 256 + unat lo)"
    by (simp add: u16_of_be_def push_bit_eq_mult mult.commute)
  show ?thesis by (simp only: e unat_of_nat_u16 [OF b])
qed

lemma unat_low_byte: "unat (ucast (w :: 'a :: len word) :: u8) = unat w mod 256"
  if "8 \<le> LENGTH('a)"
  using that by (simp add: unsigned_ucast_eq take_bit_eq_mod min_def)

lemma u16_be_roundtrip [wire_simps]:
  "u16_of_be (ucast (drop_bit 8 w)) (ucast w) = w"
proof -
  have "unat w div 256 * 256 + unat w mod 256 = unat w" by simp
  moreover have "unat w div 256 mod 256 = unat w div 256"
    using unat_u16_less [of w] by (intro mod_less) linarith
  ultimately show ?thesis
    by (simp add: word_eq_iff_unat unat_u16_of_be unat_low_byte
        unat_drop_bit_eq drop_bit_eq_div [where 'a = nat])
qed

lemma unat_u32_of_le:
  "unat (u32_of_le b0 b1 b2 b3) =
     unat b0 + 256 * unat b1 + 65536 * unat b2 + 16777216 * unat b3"
proof -
  let ?n = "unat b0 + 256 * unat b1 + 65536 * unat b2 + 16777216 * unat b3"
  have b: "?n < 4294967296"
    using unat_u8_less [of b0] unat_u8_less [of b1] unat_u8_less [of b2] unat_u8_less [of b3]
    by linarith
  have e: "u32_of_le b0 b1 b2 b3 = word_of_nat ?n"
    by (simp add: u32_of_le_def push_bit_eq_mult mult.commute)
  show ?thesis by (simp only: e unat_of_nat_u32 [OF b])
qed

lemma u32_le_roundtrip [wire_simps]:
  "u32_of_le (ucast w) (ucast (drop_bit 8 w)) (ucast (drop_bit 16 w)) (ucast (drop_bit 24 w)) = w"
proof -
  have digits: "n mod 256 + 256 * (n div 256 mod 256) + 65536 * (n div 65536 mod 256)
      + 16777216 * (n div 16777216) = n" if "n < 4294967296" for n :: nat
  proof -
    have "n = n mod 256 + 256 * (n div 256)" by simp
    moreover have "n div 256 = n div 256 mod 256 + 256 * (n div 65536)"
      using mod_mult_div_eq [of "n div 256" 256] by (simp add: div_mult2_eq [symmetric])
    moreover have "n div 65536 = n div 65536 mod 256 + 256 * (n div 16777216)"
      using mod_mult_div_eq [of "n div 65536" 256] by (simp add: div_mult2_eq [symmetric])
    ultimately show ?thesis by linarith
  qed
  have b: "unat w < 4294967296"
    using unsigned_less [of w] by simp
  have m: "unat w div 16777216 mod 256 = unat w div 16777216"
    using b by (intro mod_less) linarith
  from digits [OF b] show ?thesis
    by (simp add: m word_eq_iff_unat unat_u32_of_le unat_low_byte
        unat_drop_bit_eq drop_bit_eq_div [where 'a = nat])
qed

end
