(* ===== verification/RustStr.thy ===== *)
theory RustStr
  imports Prelude
begin

text \<open>
  The parts of Rust's standard string library the crate relies on, as functions on byte strings:
  \<open>str::from_utf8\<close>, \<open>trim\<close> and its one-sided forms (Unicode white space in its UTF-8 encoding),
  the ASCII classes, unsigned integer parsing and decimal or hexadecimal formatting.
\<close>

section \<open>ASCII classes\<close>

abbreviation code :: "char \<Rightarrow> nat" where "code c \<equiv> of_char c"

definition is_ascii_digit :: "char \<Rightarrow> bool" where
  "is_ascii_digit c \<longleftrightarrow> 48 \<le> code c \<and> code c \<le> 57"

definition is_ascii_upper :: "char \<Rightarrow> bool" where
  "is_ascii_upper c \<longleftrightarrow> 65 \<le> code c \<and> code c \<le> 90"

definition is_ascii_lower :: "char \<Rightarrow> bool" where
  "is_ascii_lower c \<longleftrightarrow> 97 \<le> code c \<and> code c \<le> 122"

definition is_ascii_alphabetic :: "char \<Rightarrow> bool" where
  "is_ascii_alphabetic c \<longleftrightarrow> is_ascii_upper c \<or> is_ascii_lower c"

definition is_ascii_alphanumeric :: "char \<Rightarrow> bool" where
  "is_ascii_alphanumeric c \<longleftrightarrow> is_ascii_alphabetic c \<or> is_ascii_digit c"

definition to_ascii_upper :: "char \<Rightarrow> char" where
  "to_ascii_upper c = (if is_ascii_lower c then char_of (code c - 32) else c)"

definition to_ascii_lower :: "char \<Rightarrow> char" where
  "to_ascii_lower c = (if is_ascii_upper c then char_of (code c + 32) else c)"

definition eq_ignore_ascii_case :: "string \<Rightarrow> string \<Rightarrow> bool" where
  "eq_ignore_ascii_case s t \<longleftrightarrow> map to_ascii_lower s = map to_ascii_lower t"

lemmas ascii_defs = is_ascii_digit_def is_ascii_upper_def is_ascii_lower_def
  is_ascii_alphabetic_def is_ascii_alphanumeric_def

section \<open>UTF-8\<close>

definition utf8_cont :: "nat \<Rightarrow> bool" where
  "utf8_cont b \<longleftrightarrow> 128 \<le> b \<and> b \<le> 191"

text \<open>The second byte a three- and a four-byte sequence may have after its first.\<close>

definition utf8_second3 :: "nat \<Rightarrow> nat \<Rightarrow> bool" where
  "utf8_second3 a b \<longleftrightarrow>
     (if a = 224 then 160 \<le> b \<and> b \<le> 191
      else if a = 237 then 128 \<le> b \<and> b \<le> 159
      else 225 \<le> a \<and> a \<le> 239 \<and> utf8_cont b)"

definition utf8_second4 :: "nat \<Rightarrow> nat \<Rightarrow> bool" where
  "utf8_second4 a b \<longleftrightarrow>
     (if a = 240 then 144 \<le> b \<and> b \<le> 191
      else if a = 244 then 128 \<le> b \<and> b \<le> 143
      else 241 \<le> a \<and> a \<le> 243 \<and> utf8_cont b)"

fun utf8_ok :: "nat list \<Rightarrow> bool" where
  "utf8_ok [] = True"
| "utf8_ok (a # r) =
     (if a < 128 then utf8_ok r
      else case r of
        [] \<Rightarrow> False
      | b # r1 \<Rightarrow>
          if 194 \<le> a \<and> a \<le> 223 then utf8_cont b \<and> utf8_ok r1
          else case r1 of
            [] \<Rightarrow> False
          | c # r2 \<Rightarrow>
              if 224 \<le> a \<and> a \<le> 239 then utf8_second3 a b \<and> utf8_cont c \<and> utf8_ok r2
              else case r2 of
                [] \<Rightarrow> False
              | d # r3 \<Rightarrow> utf8_second4 a b \<and> utf8_cont c \<and> utf8_cont d \<and> utf8_ok r3)"

definition from_utf8 :: "bytes \<Rightarrow> string option" where
  "from_utf8 bs = (if utf8_ok (map unat bs) then Some (of_bytes bs) else None)"

lemma utf8_ok_ascii: "\<forall>b \<in> set ns. b < 128 \<Longrightarrow> utf8_ok ns"
  by (induction ns) auto

lemma unat_as_bytes: "map unat (as_bytes s) = map code s"
  by (simp add: as_bytes_def char_byte_def unat_of_nat_u8 comp_def)

lemma from_utf8_ascii: "\<forall>c \<in> set s. code c < 128 \<Longrightarrow> from_utf8 (as_bytes s) = Some s"
  by (simp add: from_utf8_def unat_as_bytes utf8_ok_ascii)

lemma from_utf8_SomeD: "from_utf8 bs = Some s \<Longrightarrow> as_bytes s = bs"
  by (auto simp: from_utf8_def split: if_splits)

section \<open>White space\<close>

text \<open>The UTF-8 encodings of the characters with the Unicode property \<open>White_Space\<close>.\<close>

definition white_space :: "string list" where
  "white_space =
     map (\<lambda>b. [char_of b]) [9, 10, 11, 12, 13, 32 :: nat] @
     map (map char_of)
       ([[194, 133], [194, 160], [225, 154, 128]] @
        map (\<lambda>k. [226, 128, k]) [128, 129, 130, 131, 132, 133, 134, 135, 136, 137, 138] @
        [[226, 128, 168], [226, 128, 169], [226, 128, 175], [226, 129, 159],
         [227, 128, 128 :: nat]])"

text \<open>Drop members of \<open>ws\<close> from the front while one matches; no member is empty.\<close>

function strip_front :: "string list \<Rightarrow> string \<Rightarrow> string" where
  "strip_front ws s =
     (case find (\<lambda>w. w \<noteq> [] \<and> take (length w) s = w) ws of
        None \<Rightarrow> s
      | Some w \<Rightarrow> strip_front ws (drop (length w) s))"
  by pat_completeness auto
termination
proof (relation "measure (\<lambda>(ws, s). length s)")
  fix ws s w
  assume "find (\<lambda>w. w \<noteq> [] \<and> take (length w) s = w) ws = Some w"
  then have "w \<noteq> []" "take (length w) s = w"
    by (auto simp: find_Some_iff)
  then have "length w > 0" "s \<noteq> []" by auto
  then show "((ws, drop (length w) s), ws, s) \<in> measure (\<lambda>(ws, s). length s)"
    by simp
qed simp

declare strip_front.simps [simp del]

definition trim_start :: "string \<Rightarrow> string" where
  "trim_start s = strip_front white_space s"

definition trim_end :: "string \<Rightarrow> string" where
  "trim_end s = rev (strip_front (map rev white_space) (rev s))"

definition trim :: "string \<Rightarrow> string" where
  "trim s = trim_end (trim_start s)"

lemma strip_front_suffix: "\<exists>p. s = p @ strip_front ws s"
proof (induction ws s rule: strip_front.induct)
  case (1 ws s)
  show ?case
  proof (cases "find (\<lambda>w. w \<noteq> [] \<and> take (length w) s = w) ws")
    case None
    then show ?thesis by (subst strip_front.simps) simp
  next
    case (Some w)
    from "1" [OF Some] obtain p where "drop (length w) s = p @ strip_front ws (drop (length w) s)"
      by blast
    then have "s = (take (length w) s @ p) @ strip_front ws (drop (length w) s)"
      by (metis append.assoc append_take_drop_id)
    moreover have "strip_front ws s = strip_front ws (drop (length w) s)"
      using Some by (subst strip_front.simps) simp
    ultimately show ?thesis by metis
  qed
qed

lemma strip_front_drops:
  "\<exists>xs. set xs \<subseteq> set ws \<and> [] \<notin> set xs \<and> s = concat xs @ strip_front ws s"
proof (induction ws s rule: strip_front.induct)
  case (1 ws s)
  show ?case
  proof (cases "find (\<lambda>w. w \<noteq> [] \<and> take (length w) s = w) ws")
    case None
    then show ?thesis by (intro exI [of _ "[]"], subst strip_front.simps) simp
  next
    case (Some w)
    then have w: "w \<in> set ws" "w \<noteq> []" "take (length w) s = w"
      by (auto simp: find_Some_iff)
    from "1" [OF Some] obtain xs where xs: "set xs \<subseteq> set ws" "[] \<notin> set xs"
      "drop (length w) s = concat xs @ strip_front ws (drop (length w) s)"
      by blast
    then have "s = concat (w # xs) @ strip_front ws (drop (length w) s)"
      using w(3) by (metis append.assoc append_take_drop_id concat.simps(2))
    moreover have "strip_front ws s = strip_front ws (drop (length w) s)"
      using Some by (subst strip_front.simps) simp
    moreover have "set (w # xs) \<subseteq> set ws" "[] \<notin> set (w # xs)" using w xs by auto
    ultimately show ?thesis by metis
  qed
qed

lemma length_strip_front_le: "length (strip_front ws s) \<le> length s"
  by (metis strip_front_suffix length_append le_add2)

lemma set_strip_front_subset: "set (strip_front ws s) \<subseteq> set s"
  by (metis strip_front_suffix set_append Un_upper2)

lemma set_trim_subset: "set (trim s) \<subseteq> set s"
  unfolding trim_def trim_end_def trim_start_def
  by (metis set_rev set_strip_front_subset subset_trans)

text \<open>Text that neither begins nor ends with a byte of a white-space character is left alone.\<close>

lemma strip_front_id:
  assumes "\<forall>w \<in> set ws. w \<noteq> [] \<longrightarrow> s = [] \<or> hd s \<noteq> hd w"
  shows "strip_front ws s = s"
proof -
  have "\<not> (w \<noteq> [] \<and> take (length w) s = w)" if "w \<in> set ws" for w
    using assms that by (cases w; cases s) auto
  then have "find (\<lambda>w. w \<noteq> [] \<and> take (length w) s = w) ws = None"
    by (simp add: find_None_iff)
  then show ?thesis by (subst strip_front.simps) simp
qed

lemma white_space_ends:
  "\<forall>w \<in> set white_space. w \<noteq> [] \<and> (code (hd w) \<le> 32 \<or> 128 \<le> code (hd w))
     \<and> (code (last w) \<le> 32 \<or> 128 \<le> code (last w))"
  by (simp add: white_space_def)

lemma trim_id:
  assumes "s = [] \<or> (32 < code (hd s) \<and> code (hd s) < 128 \<and> 32 < code (last s) \<and> code (last s) < 128)"
  shows "trim s = s"
proof -
  have "s = [] \<or> hd s \<noteq> hd w" if "w \<in> set white_space" for w
    using bspec [OF white_space_ends that] assms by auto
  then have front: "trim_start s = s"
    unfolding trim_start_def by (intro strip_front_id) blast
  have "s = [] \<or> last s \<noteq> last w" if "w \<in> set white_space" for w
    using bspec [OF white_space_ends that] assms by auto
  then have "\<forall>w \<in> set white_space. s = [] \<or> last s \<noteq> last w" by blast
  then have "rev s = [] \<or> hd (rev s) \<noteq> hd v" if "v \<in> set (map rev white_space)" for v
    using that by (auto simp: hd_rev)
  then have "strip_front (map rev white_space) (rev s) = rev s"
    by (intro strip_front_id) blast
  with front show ?thesis by (simp add: trim_def trim_end_def)
qed

text \<open>Text that begins with a visible ASCII character is not all white space.\<close>

lemma trim_end_visible:
  assumes "32 < code c" "code c < 128"
  shows "trim_end (c # s) \<noteq> []"
proof
  assume e: "trim_end (c # s) = []"
  obtain xs where xs: "set xs \<subseteq> set (map rev white_space)" "[] \<notin> set xs"
    "rev (c # s) = concat xs @ strip_front (map rev white_space) (rev (c # s))"
    using strip_front_drops by blast
  then have "rev (c # s) = concat xs" using e by (simp add: trim_end_def)
  then have cs: "c # s = concat (rev (map rev xs))" by (metis rev_concat rev_rev_ident rev_map)
  then obtain w ws where w: "rev (map rev xs) = w # ws" by (cases "rev (map rev xs)") auto
  then have "w \<in> set (rev (map rev xs))" by simp
  with xs(1,2) have "w \<in> set white_space" "w \<noteq> []" by auto
  with cs w have "hd w = c" by (cases w) auto
  with bspec [OF white_space_ends \<open>w \<in> set white_space\<close>] assms show False by simp
qed

section \<open>Integers\<close>

definition digit_value :: "char \<Rightarrow> nat" where
  "digit_value c = code c - 48"

definition digits_value :: "string \<Rightarrow> nat" where
  "digits_value s = foldl (\<lambda>n c. 10 * n + digit_value c) 0 s"

text \<open>
  \<open>str::parse\<close> for an unsigned type with \<open>bound\<close> values: one optional \<open>+\<close>, then at least
  one digit and only digits; an empty string, a \<open>-\<close> and an overflow are errors.
\<close>

definition parse_unsigned :: "nat \<Rightarrow> string \<Rightarrow> nat option" where
  "parse_unsigned bound s =
     (let ds = (case s of [] \<Rightarrow> [] | c # cs \<Rightarrow> if c = CHR ''+'' then cs else s)
      in if ds = [] \<or> \<not> list_all is_ascii_digit ds then None
         else if digits_value ds < bound then Some (digits_value ds) else None)"

abbreviation parse_u8 :: "string \<Rightarrow> nat option" where "parse_u8 \<equiv> parse_unsigned 256"
abbreviation parse_u16 :: "string \<Rightarrow> nat option" where "parse_u16 \<equiv> parse_unsigned 65536"
abbreviation parse_u32 :: "string \<Rightarrow> nat option" where "parse_u32 \<equiv> parse_unsigned 4294967296"
abbreviation parse_u64 :: "string \<Rightarrow> nat option" where
  "parse_u64 \<equiv> parse_unsigned 18446744073709551616"

lemma parse_unsigned_bound: "parse_unsigned bound s = Some n \<Longrightarrow> n < bound"
  by (auto simp: parse_unsigned_def Let_def split: if_splits)

lemma parse_unsigned_empty [simp]: "parse_unsigned bound [] = None"
  by (simp add: parse_unsigned_def)

lemma parse_unsigned_minus [simp]: "parse_unsigned bound (CHR ''-'' # s) = None"
  by (simp add: parse_unsigned_def is_ascii_digit_def)

fun dec :: "nat \<Rightarrow> string" where
  "dec n = (if n < 10 then [char_of (48 + n)] else dec (n div 10) @ [char_of (48 + n mod 10)])"

declare dec.simps [simp del]

lemma is_ascii_digit_char_of: "k < 10 \<Longrightarrow> is_ascii_digit (char_of (48 + k :: nat))"
  by (simp add: is_ascii_digit_def)

lemma dec_digits: "list_all is_ascii_digit (dec n) \<and> dec n \<noteq> [] \<and> digits_value (dec n) = n"
proof (induction n rule: dec.induct)
  case (1 n)
  show ?case
  proof (cases "n < 10")
    case True
    then show ?thesis
      by (simp add: dec.simps [of n] is_ascii_digit_char_of digits_value_def digit_value_def)
  next
    case False
    with "1" have "list_all is_ascii_digit (dec (n div 10))" "digits_value (dec (n div 10)) = n div 10"
      by simp_all
    with False show ?thesis
      by (simp add: dec.simps [of n] is_ascii_digit_char_of digits_value_def digit_value_def)
  qed
qed

lemma dec_not_plus: "dec n = c # cs \<Longrightarrow> c \<noteq> CHR ''+''"
  using dec_digits [of n] by (auto simp: is_ascii_digit_def)

lemma parse_dec: "n < bound \<Longrightarrow> parse_unsigned bound (dec n) = Some n"
  using dec_digits [of n] dec_not_plus [of n]
  by (cases "dec n") (auto simp: parse_unsigned_def)

lemma trim_dec [simp]: "trim (dec n) = dec n"
proof -
  have "is_ascii_digit c" if "c \<in> set (dec n)" for c
    using dec_digits [of n] that by (simp add: list_all_iff)
  moreover have "hd (dec n) \<in> set (dec n)" "last (dec n) \<in> set (dec n)"
    using dec_digits [of n] by simp_all
  ultimately have "is_ascii_digit (hd (dec n))" "is_ascii_digit (last (dec n))" by blast+
  then show ?thesis by (intro trim_id) (simp add: is_ascii_digit_def)
qed

definition hex_digit :: "nat \<Rightarrow> char" where
  "hex_digit k = char_of (if k < 10 then 48 + k else 87 + k)"

text \<open>\<open>{:08x}\<close> of a 32-bit value: exactly eight lower-case digits.\<close>

fun hex_pad :: "nat \<Rightarrow> nat \<Rightarrow> string" where
  "hex_pad 0 n = []"
| "hex_pad (Suc k) n = hex_pad k (n div 16) @ [hex_digit (n mod 16)]"

lemma length_hex_pad [simp]: "length (hex_pad k n) = k"
  by (induction k arbitrary: n) simp_all

text \<open>\<open>str::get(..k)\<close>: nothing past the end or inside a character.\<close>

definition str_get_to :: "nat \<Rightarrow> string \<Rightarrow> string option" where
  "str_get_to k s = (if k < length s \<and> utf8_cont (code (s ! k)) \<or> length s < k then None else Some (take k s))"

end
