(* ===== verification/Io.thy ===== *)
theory Io
  imports RustStr
begin

text \<open>
  The transport seam of \<open>src/io/mod.rs\<close>: the error types, the timer, and the deadline-bounded
  reads and writes every protocol client goes through.

  The peer, the socket and the clock are not part of the crate. They are a script the model is
  run against (record \<open>io\<close>): the reads the peer answers, each with the delay after which it is
  ready, the outcome of each write, and whether sleeping fails. The end of the read script is the
  peer closing the stream. Every theorem quantifies over the script, so it holds for every
  schedule of arrivals, stalls, failures and closings.
\<close>

section \<open>Errors\<close>

text \<open>\<open>embedded_io_async::ErrorKind\<close>, the third-party trait's failure kinds; the enum is
  non-exhaustive, which \<open>EkUnlisted\<close> stands for.\<close>

datatype error_kind =
  EkConnectionRefused | EkConnectionAborted | EkConnectionReset | EkNotConnected | EkTimedOut
  | EkAddrInUse | EkAddrNotAvailable | EkInvalidInput | EkBrokenPipe | EkOutOfMemory
  | EkInterrupted | EkPermissionDenied | EkUnsupported | EkInvalidData | EkNotFound
  | EkAlreadyExists | EkWriteZero | EkOther | EkUnlisted

datatype certificate_failure =
  UntrustedAnchor | NameMismatch | Expired | NotYetValid | Revoked | UnsupportedAlgorithm
  | InvalidPurpose | Missing | Malformed | IncompleteTrustStore | PinMismatch | Unspecified

datatype timer_error = TimerExhausted | TimerOther string

datatype socket_error =
  ConnectionRefused | ConnectionAborted | ConnectionReset | NotConnected | TimedOut
  | AddressInUse | AddressNotAvailable | InvalidInput | CertificateInvalid certificate_failure
  | ResourceExhausted | Other string

datatype liveness = WriteZombie | Stale

text \<open>\<open>crate::error::Error\<close>.\<close>

datatype error =
  Network socket_error
  | TimerFailure timer_error
  | TlsHandshakeFailed
  | ProtocolViolation string
  | Serialization string
  | NotConfigured string
  | Liveness liveness
  | AccessDenied
  | Timeout
  | DiskWriteFailure
  | FtpReply string nat string
  | TunnelReply string int
  | ModelMismatch string
  | Backpressure
  | InvalidArgument string
  | InvalidState string

text \<open>The \<open>Debug\<close> name of a kind, as \<open>format!("{kind:?}")\<close> prints it.\<close>

fun kind_debug :: "error_kind \<Rightarrow> string" where
  "kind_debug EkInterrupted = ''Interrupted''"
| "kind_debug EkPermissionDenied = ''PermissionDenied''"
| "kind_debug EkUnsupported = ''Unsupported''"
| "kind_debug EkInvalidData = ''InvalidData''"
| "kind_debug EkNotFound = ''NotFound''"
| "kind_debug EkAlreadyExists = ''AlreadyExists''"
| "kind_debug EkWriteZero = ''WriteZero''"
| "kind_debug EkOther = ''Other''"
| "kind_debug _ = []"

fun map_embedded_io_error_kind :: "error_kind \<Rightarrow> socket_error" where
  "map_embedded_io_error_kind EkConnectionRefused = ConnectionRefused"
| "map_embedded_io_error_kind EkConnectionAborted = ConnectionAborted"
| "map_embedded_io_error_kind EkConnectionReset = ConnectionReset"
| "map_embedded_io_error_kind EkNotConnected = NotConnected"
| "map_embedded_io_error_kind EkTimedOut = TimedOut"
| "map_embedded_io_error_kind EkAddrInUse = AddressInUse"
| "map_embedded_io_error_kind EkAddrNotAvailable = AddressNotAvailable"
| "map_embedded_io_error_kind EkInvalidInput = InvalidInput"
| "map_embedded_io_error_kind EkBrokenPipe = ConnectionReset"
| "map_embedded_io_error_kind EkOutOfMemory = ResourceExhausted"
| "map_embedded_io_error_kind EkUnlisted = ConnectionReset"
| "map_embedded_io_error_kind k = Other (''non-network I/O error: '' @ kind_debug k)"

fun timer_failure_error :: "timer_error \<Rightarrow> string \<Rightarrow> socket_error" where
  "timer_failure_error TimerExhausted ctx = ResourceExhausted"
| "timer_failure_error (TimerOther msg) ctx = Other (ctx @ '': '' @ msg)"

text \<open>\<open>None\<close> is \<open>Ok(())\<close>: the sleep ran to its end.\<close>

definition deadline_error :: "timer_error option \<Rightarrow> socket_error" where
  "deadline_error r =
     (case r of None \<Rightarrow> TimedOut | Some e \<Rightarrow> timer_failure_error e ''deadline timer failed'')"

section \<open>The environment\<close>

datatype timer = DummyTimer | PlatformTimer

fun has_real_clock :: "timer \<Rightarrow> bool" where
  "has_real_clock DummyTimer = False"
| "has_real_clock PlatformTimer = True"

datatype peer_read = PeerData bytes | PeerFail error_kind

text \<open>The outcome of one \<open>write_all\<close> or \<open>flush\<close>: when it completes, how many bytes a failed or
  cancelled write had already pushed out, and its result.\<close>

datatype peer_write = PeerWrite (write_delay: nat) (write_partial: nat)
  (write_result: "error_kind option")

record io =
  now :: nat
  sleep_error :: "timer_error option"
  inbound :: "(nat \<times> peer_read) list"
  write_script :: "peer_write list"
  outbound :: bytes

definition now_millis :: "timer \<Rightarrow> io \<Rightarrow> nat" where
  "now_millis t s = (if has_real_clock t then now s else 0)"

text \<open>An absolute deadline \<open>budget_ms\<close> ahead, or \<open>None\<close> without a real clock.\<close>

definition ftps_deadline_from_ms :: "timer \<Rightarrow> nat \<Rightarrow> io \<Rightarrow> nat option" where
  "ftps_deadline_from_ms t budget_ms s =
     (if has_real_clock t then Some (sat_add64 (now_millis t s) budget_ms) else None)"

definition ftps_deadline_ms :: "timer \<Rightarrow> nat \<Rightarrow> io \<Rightarrow> nat option" where
  "ftps_deadline_ms t budget_secs s = ftps_deadline_from_ms t (sat_mul64 budget_secs 1000) s"

text \<open>
  Racing against \<open>timer.sleep(ms)\<close>: how long the other side has, and the error if it loses.
  A sleep that fails is ready at once, so the other side wins only if it is ready already
  (it is polled first).
\<close>

definition sleep_race :: "nat \<Rightarrow> io \<Rightarrow> nat \<times> socket_error" where
  "sleep_race ms s =
     (case sleep_error s of
        None \<Rightarrow> (ms, deadline_error None)
      | Some e \<Rightarrow> (0, deadline_error (Some e)))"

section \<open>Reading\<close>

text \<open>The stream's own \<open>read\<close> of at most \<open>cap\<close> bytes; an empty result is the end of the stream.\<close>

fun socket_read :: "nat \<Rightarrow> io \<Rightarrow> (error_kind + bytes) \<times> io" where
  "socket_read cap s =
     (case inbound s of
        [] \<Rightarrow> (Inr [], s)
      | (d, PeerData bs) # r \<Rightarrow>
          (Inr (take cap bs),
           s\<lparr>now := now s + d,
             inbound := (if drop cap bs = [] then r else (0, PeerData (drop cap bs)) # r)\<rparr>)
      | (d, PeerFail k) # r \<Rightarrow> (Inl k, s\<lparr>now := now s + d, inbound := r\<rparr>))"

declare socket_read.simps [simp del]

text \<open>When the next read is ready, and the stream after waiting that long in vain.\<close>

definition next_delay :: "io \<Rightarrow> nat" where
  "next_delay s = (case inbound s of [] \<Rightarrow> 0 | (d, _) # _ \<Rightarrow> d)"

definition wait_for :: "nat \<Rightarrow> io \<Rightarrow> io" where
  "wait_for ms s =
     s\<lparr>now := now s + ms,
       inbound := (case inbound s of [] \<Rightarrow> [] | (d, e) # r \<Rightarrow> (d - ms, e) # r)\<rparr>"

text \<open>One \<open>read\<close> step raced against a deadline, with the end of the stream still \<open>Inr []\<close>
  (\<open>read_transfer_chunk\<close> of the FTPS data channel).\<close>

definition read_transfer_chunk :: "nat \<Rightarrow> nat option \<Rightarrow> io \<Rightarrow> (socket_error + bytes) \<times> io" where
  "read_transfer_chunk cap deadline s =
     (case deadline of
        None \<Rightarrow>
          (case socket_read cap s of
             (Inl k, s') \<Rightarrow> (Inl (map_embedded_io_error_kind k), s')
           | (Inr bs, s') \<Rightarrow> (Inr bs, s'))
      | Some dl \<Rightarrow>
          (let remaining = dl - now s in
           if remaining = 0 then (Inl TimedOut, s)
           else case sleep_race remaining s of (limit, lost) \<Rightarrow>
             if next_delay s \<le> limit then
               (case socket_read cap s of
                  (Inl k, s') \<Rightarrow> (Inl (map_embedded_io_error_kind k), s')
                | (Inr bs, s') \<Rightarrow> (Inr bs, s'))
             else (Inl lost, wait_for limit s)))"

text \<open>\<open>read_chunk\<close>: the same step, with the end of the stream reported as a reset.\<close>

definition read_chunk :: "nat \<Rightarrow> nat option \<Rightarrow> io \<Rightarrow> (socket_error + bytes) \<times> io" where
  "read_chunk cap deadline s =
     (case read_transfer_chunk cap deadline s of
        (Inl e, s') \<Rightarrow> (Inl e, s')
      | (Inr bs, s') \<Rightarrow> (if bs = [] then (Inl ConnectionReset, s') else (Inr bs, s')))"

text \<open>All bytes the peer's script still delivers.\<close>

fun event_bytes :: "nat \<times> peer_read \<Rightarrow> bytes" where
  "event_bytes (d, PeerData bs) = bs"
| "event_bytes (d, PeerFail k) = []"

definition stream_bytes :: "io \<Rightarrow> bytes" where
  "stream_bytes s = concat (map event_bytes (inbound s))"

lemma socket_read_ok:
  "socket_read cap s = (Inr bs, s') \<Longrightarrow>
     length bs \<le> cap \<and> stream_bytes s = bs @ stream_bytes s' \<and> outbound s' = outbound s"
  by (auto simp: socket_read.simps stream_bytes_def split: list.splits prod.splits
      peer_read.splits if_splits)

lemma socket_read_err:
  "socket_read cap s = (Inl k, s') \<Longrightarrow>
     stream_bytes s' = stream_bytes s \<and> outbound s' = outbound s"
  by (auto simp: socket_read.simps stream_bytes_def split: list.splits prod.splits
      peer_read.splits if_splits)

lemma wait_for_frame [step_frame]:
  "stream_bytes (wait_for ms s) = stream_bytes s" "outbound (wait_for ms s) = outbound s"
  by (auto simp: wait_for_def stream_bytes_def split: list.splits)
    (metis event_bytes.simps peer_read.exhaust)

lemma read_transfer_chunk_ok:
  assumes "read_transfer_chunk cap deadline s = (Inr bs, s')"
  shows "length bs \<le> cap \<and> stream_bytes s = bs @ stream_bytes s' \<and> outbound s' = outbound s"
  using assms by (auto simp: read_transfer_chunk_def Let_def dest!: socket_read_ok
      split: option.splits prod.splits sum.splits if_splits)

lemma read_transfer_chunk_err:
  assumes "read_transfer_chunk cap deadline s = (Inl e, s')"
  shows "stream_bytes s' = stream_bytes s \<and> outbound s' = outbound s"
  using assms by (auto simp: read_transfer_chunk_def Let_def step_frame dest!: socket_read_err
      split: option.splits prod.splits sum.splits if_splits)

lemma read_chunk_ok:
  assumes "read_chunk cap deadline s = (Inr bs, s')"
  shows "bs \<noteq> []" "length bs \<le> cap" "stream_bytes s = bs @ stream_bytes s'"
    "outbound s' = outbound s"
  using assms by (auto simp: read_chunk_def dest!: read_transfer_chunk_ok
      split: prod.splits sum.splits if_splits)

lemma read_chunk_err:
  assumes "read_chunk cap deadline s = (Inl e, s')"
  shows "stream_bytes s' = stream_bytes s" "outbound s' = outbound s"
  using assms read_transfer_chunk_ok [of cap deadline s "[]" s']
  by (auto simp: read_chunk_def dest!: read_transfer_chunk_err
      split: prod.splits sum.splits if_splits)

text \<open>A script without failures, in which every read delivers something.\<close>

definition smooth :: "io \<Rightarrow> bool" where
  "smooth s \<longleftrightarrow> (\<forall>ev \<in> set (inbound s). \<exists>d bs. ev = (d, PeerData bs) \<and> bs \<noteq> [])"

lemma read_chunk_smooth:
  assumes "smooth s" "read_chunk cap None s = (r, s')" "0 < cap"
  shows "smooth s' \<and> (\<forall>e. r = Inl e \<longrightarrow> stream_bytes s' = [])"
  using assms
  by (fastforce simp: read_chunk_def read_transfer_chunk_def socket_read.simps smooth_def
      stream_bytes_def split: list.splits prod.splits peer_read.splits if_splits)

text \<open>What every read step keeps, every reader built from read steps keeps: the readers' theories add
  their functions to this locale.\<close>

locale chunk_invariant =
  fixes P :: "io \<Rightarrow> bool" and deadline :: "nat option"
  assumes chunk: "read_chunk cap deadline s = (r, s') \<Longrightarrow> P s \<Longrightarrow> P s'"

lemma socket_read_write_side:
  "socket_read cap s = (r, s') \<Longrightarrow>
     write_script s' = write_script s \<and> outbound s' = outbound s \<and> sleep_error s' = sleep_error s"
  by (auto simp: socket_read.simps split: list.splits prod.splits peer_read.splits if_splits)

lemma read_chunk_write_side:
  "read_chunk cap deadline s = (r, s') \<Longrightarrow>
     write_script s' = write_script s \<and> outbound s' = outbound s \<and> sleep_error s' = sleep_error s"
  by (auto simp: read_chunk_def read_transfer_chunk_def wait_for_def dest: socket_read_write_side
      split: option.splits prod.splits sum.splits if_splits)

interpretation write_side: chunk_invariant
  "\<lambda>s. write_script s = w \<and> outbound s = out" deadline for w out deadline
  by unfold_locales (use read_chunk_write_side in auto)

interpretation smooth_stream: chunk_invariant smooth None
proof
  fix cap s and r :: "socket_error + bytes" and s'
  assume "read_chunk cap None s = (r, s')" "smooth s"
  then show "smooth s'"
    by (fastforce simp: read_chunk_def read_transfer_chunk_def socket_read.simps smooth_def
        split: list.splits prod.splits peer_read.splits if_splits)
qed

section \<open>Writing\<close>

definition next_write :: "io \<Rightarrow> peer_write \<times> io" where
  "next_write s =
     (case write_script s of
        [] \<Rightarrow> (PeerWrite 0 0 None, s)
      | w # r \<Rightarrow> (w, s\<lparr>write_script := r\<rparr>))"

text \<open>
  A future that runs the writes \<open>ops\<close> in order (a \<open>flush\<close> is a write of no bytes), with
  \<open>limit\<close> milliseconds left before the sleep it races wins (\<open>None\<close>: no race).
\<close>

definition sent :: "nat \<Rightarrow> bytes \<Rightarrow> io \<Rightarrow> io" where
  "sent ms bs s = s\<lparr>now := now s + ms, outbound := outbound s @ bs\<rparr>"

definition beaten :: "(nat \<times> socket_error) option \<Rightarrow> nat \<Rightarrow> (nat \<times> socket_error) option" where
  "beaten limit d =
     (case limit of None \<Rightarrow> None | Some (ms, lost) \<Rightarrow> if ms < d then Some (ms, lost) else None)"

definition less_time :: "(nat \<times> socket_error) option \<Rightarrow> nat \<Rightarrow> (nat \<times> socket_error) option" where
  "less_time limit d = map_option (\<lambda>(ms, lost). (ms - d, lost)) limit"

fun write_ops :: "(nat \<times> socket_error) option \<Rightarrow> bytes list \<Rightarrow> io \<Rightarrow> (socket_error + unit) \<times> io"
where
  "write_ops limit [] s = (Inr (), s)"
| "write_ops limit (op # ops) s =
     (case next_write s of (PeerWrite d partial res, s1) \<Rightarrow>
        (case beaten limit d of
           Some (ms, lost) \<Rightarrow> (Inl lost, sent ms (take partial op) s1)
         | None \<Rightarrow>
             (case res of
                None \<Rightarrow> write_ops (less_time limit d) ops (sent d op s1)
              | Some k \<Rightarrow> (Inl (map_embedded_io_error_kind k), sent d (take partial op) s1))))"

text \<open>\<open>with_deadline\<close> around such a future: bounded only under a real clock.\<close>

definition write_with_budget :: "timer \<Rightarrow> nat \<Rightarrow> bytes list \<Rightarrow> io \<Rightarrow> (socket_error + unit) \<times> io" where
  "write_with_budget t budget_ms ops s =
     write_ops (if has_real_clock t then Some (sleep_race budget_ms s) else None) ops s"

text \<open>\<open>write_bounded\<close>: one write raced against an absolute deadline.\<close>

definition write_bounded :: "bytes \<Rightarrow> nat option \<Rightarrow> io \<Rightarrow> (error + unit) \<times> io" where
  "write_bounded op deadline s =
     (case deadline of
        None \<Rightarrow>
          (case write_ops None [op] s of
             (Inl e, s') \<Rightarrow> (Inl (Network e), s') | (Inr _, s') \<Rightarrow> (Inr (), s'))
      | Some dl \<Rightarrow>
          (let remaining = dl - now s in
           if remaining = 0 then (Inl (Network TimedOut), s)
           else case write_ops (Some (sleep_race remaining s)) [op] s of
             (Inl e, s') \<Rightarrow> (Inl (Network e), s') | (Inr _, s') \<Rightarrow> (Inr (), s')))"

lemma next_write_frame [step_frame]:
  "next_write s = (w, s') \<Longrightarrow>
     inbound s' = inbound s \<and> outbound s' = outbound s \<and> now s' = now s
     \<and> sleep_error s' = sleep_error s"
  by (auto simp: next_write_def split: list.splits)

lemma sent_frame [step_frame]:
  "inbound (sent ms bs s) = inbound s" "sleep_error (sent ms bs s) = sleep_error s"
  "outbound (sent ms bs s) = outbound s @ bs" "now (sent ms bs s) = now s + ms"
  by (simp_all add: sent_def)

lemma write_ops_frame:
  "write_ops limit ops s = (r, s') \<Longrightarrow>
     inbound s' = inbound s \<and> sleep_error s' = sleep_error s
     \<and> (\<exists>p. outbound s' = outbound s @ p \<and> (\<exists>q. concat ops = p @ q)
          \<and> (r = Inr () \<longrightarrow> p = concat ops))"
proof (induction limit ops s arbitrary: r s' rule: write_ops.induct)
  case (2 limit op ops s)
  obtain d partial res s1 where w: "next_write s = (PeerWrite d partial res, s1)"
    by (metis peer_write.exhaust surj_pair)
  note fr = next_write_frame [OF w]
  have tk: "\<exists>q. op @ concat ops = take partial op @ q"
    by (metis append.assoc append_take_drop_id)
  show ?case
  proof (cases "beaten limit d")
    case beat: (Some x)
    with "2.prems" w fr tk show ?thesis by (cases x) (auto simp: step_frame)
  next
    case race: None
    show ?thesis
    proof (cases res)
      case None
      with "2.prems" w race have "write_ops (less_time limit d) ops (sent d op s1) = (r, s')"
        by simp
      from "2.IH" [OF w [symmetric] refl race None this] fr show ?thesis
        by (auto simp: step_frame)
    next
      case (Some k)
      with "2.prems" w race fr tk show ?thesis by (auto simp: step_frame)
    qed
  qed
qed simp

text \<open>Evaluation of the transport on a concrete script.\<close>

lemmas io_eval = ftps_deadline_ms_def ftps_deadline_from_ms_def sat_add64_def sat_mul64_def
  now_millis_def read_chunk_def read_transfer_chunk_def sleep_race_def next_delay_def wait_for_def
  socket_read.simps deadline_error_def write_with_budget_def write_bounded_def next_write_def
  beaten_def less_time_def sent_def

end
