(* ===== verification/Reader.thy ===== *)
theory Reader
  imports Io
begin

text \<open>
  The contract the crate's stream readers share: a call may stop early (a timeout, a failed
  read), and the bytes it has already taken off the stream stay in the reader's state, so a later
  call resumes where it stopped. MQTT frames, FTP reply lines and camera frames are read by three
  different state machines that all promise this; the locale states it once and the lemmas about
  sequences of calls are proved from it.
\<close>

text \<open>\<open>n\<close> calls in a row, whatever each returns.\<close>

fun calls :: "('st \<Rightarrow> io \<Rightarrow> 'r \<times> 'st \<times> io) \<Rightarrow> nat \<Rightarrow> 'st \<Rightarrow> io \<Rightarrow> 'r list \<times> 'st \<times> io" where
  "calls step 0 st s = ([], st, s)"
| "calls step (Suc n) st s =
     (case step st s of (r, st1, s1) \<Rightarrow>
      case calls step n st1 s1 of (rs, st', s') \<Rightarrow> (r # rs, st', s'))"

lemma length_calls: "calls step n st s = (rs, st', s') \<Longrightarrow> length rs = n"
  by (induction n arbitrary: st s rs) (auto split: prod.splits)

lemma calls_one:
  "step st s = (r, st1, s1) \<Longrightarrow> calls step n st1 s1 = (rs, st', s') \<Longrightarrow>
     calls step (Suc n) st s = (r # rs, st', s')"
  by simp

text \<open>What the successful calls returned.\<close>

fun oks :: "('e + 'a) list \<Rightarrow> 'a list" where
  "oks [] = []"
| "oks (Inl e # rs) = oks rs"
| "oks (Inr a # rs) = a # oks rs"

text \<open>
  \<open>holds st p\<close>: the reader in state \<open>st\<close> has taken the bytes \<open>p\<close> off the stream and not yet
  handed them to its caller. \<open>accounts r u\<close>: the result \<open>r\<close> is what the bytes \<open>u\<close> stand for.
\<close>

locale resumable_reader =
  fixes step :: "'st \<Rightarrow> io \<Rightarrow> 'r \<times> 'st \<times> io"
    and holds :: "'st \<Rightarrow> bytes \<Rightarrow> bool"
    and accounts :: "'r \<Rightarrow> bytes \<Rightarrow> bool"
  assumes step_accounts: "holds st p \<Longrightarrow> step st s = (r, st', s') \<Longrightarrow>
      \<exists>u p'. p @ stream_bytes s = u @ p' @ stream_bytes s' \<and> holds st' p' \<and> accounts r u"
begin

lemma calls_account:
  "holds st p \<Longrightarrow> calls step n st s = (rs, st', s') \<Longrightarrow>
     \<exists>us p'. p @ stream_bytes s = concat us @ p' @ stream_bytes s' \<and> holds st' p'
       \<and> list_all2 accounts rs us"
proof (induction n arbitrary: st p s rs)
  case 0
  then have "p @ stream_bytes s = concat [] @ p @ stream_bytes s' \<and> holds st' p
      \<and> list_all2 accounts rs []"
    by simp
  then show ?case by blast
next
  case (Suc n)
  obtain r st1 s1 where one: "step st s = (r, st1, s1)" by (metis surj_pair)
  with Suc.prems(2) obtain rs1 where rest: "calls step n st1 s1 = (rs1, st', s')"
    and rs: "rs = r # rs1"
    by (auto split: prod.splits)
  from step_accounts [OF Suc.prems(1) one] obtain u p1 where
    u: "p @ stream_bytes s = u @ p1 @ stream_bytes s1" and h: "holds st1 p1" and a: "accounts r u"
    by blast
  from Suc.IH [OF h rest] obtain us p' where
    us: "p1 @ stream_bytes s1 = concat us @ p' @ stream_bytes s'" "holds st' p'"
    "list_all2 accounts rs1 us"
    by blast
  then have "p @ stream_bytes s = concat (u # us) @ p' @ stream_bytes s' \<and> holds st' p'
      \<and> list_all2 accounts rs (u # us)"
    using u a rs by simp
  then show ?case by blast
qed

end

end
