(* ===== verification/MqttCodec.thy ===== *)
theory MqttCodec
  imports Io
begin

unbundle bit_operations_syntax

text \<open>
  The MQTT 3.1.1 packet encoders of \<open>src/mqtt/client/codec.rs\<close>: the remaining-length varint, the
  length-prefixed strings and the packets the client sends. \<open>debug_assert!\<close>s are not modelled:
  the definitions give the release behaviour for every argument.
\<close>

abbreviation (input) PACKET_TYPE_CONNACK :: u8 where "PACKET_TYPE_CONNACK \<equiv> 2"
abbreviation (input) PACKET_TYPE_PUBLISH :: u8 where "PACKET_TYPE_PUBLISH \<equiv> 3"
abbreviation (input) PACKET_TYPE_PUBACK :: u8 where "PACKET_TYPE_PUBACK \<equiv> 4"
abbreviation (input) PACKET_TYPE_SUBACK :: u8 where "PACKET_TYPE_SUBACK \<equiv> 9"
abbreviation (input) PACKET_TYPE_PINGRESP :: u8 where "PACKET_TYPE_PINGRESP \<equiv> 13"

abbreviation (input) HEADER_CONNECT :: u8 where "HEADER_CONNECT \<equiv> 0x10"
abbreviation (input) HEADER_SUBSCRIBE :: u8 where "HEADER_SUBSCRIBE \<equiv> 0x82"
abbreviation (input) HEADER_PUBLISH_QOS1 :: u8 where "HEADER_PUBLISH_QOS1 \<equiv> 0x32"
abbreviation (input) HEADER_PUBACK :: u8 where "HEADER_PUBACK \<equiv> 0x40"
abbreviation (input) HEADER_PINGREQ :: u8 where "HEADER_PINGREQ \<equiv> 0xC0"

abbreviation (input) MQTT_KEEP_ALIVE_SECS :: u16 where "MQTT_KEEP_ALIVE_SECS \<equiv> 30"
abbreviation (input) MQTT_MAX_REMAINING_LENGTH :: nat where "MQTT_MAX_REMAINING_LENGTH \<equiv> 268435455"

fun encode_remaining_length :: "nat \<Rightarrow> bytes" where
  "encode_remaining_length len =
     (let byte = word_of_nat (len mod 128); rest = len div 128 in
      if rest > 0 then (byte OR 128) # encode_remaining_length rest else [byte])"

declare encode_remaining_length.simps [simp del]

definition qos_of :: "u8 \<Rightarrow> u8" where
  "qos_of header = drop_bit 1 (header AND 6)"

text \<open>\<open>put_str\<close> appends to a buffer; the length prefix is the low 16 bits of the length.\<close>

definition put_str :: "bytes \<Rightarrow> string \<Rightarrow> bytes" where
  "put_str buf s = buf @ u16_be (word_of_nat (length s)) @ as_bytes s"

definition frame :: "u8 \<Rightarrow> bytes \<Rightarrow> bytes" where
  "frame header body = header # encode_remaining_length (length body) @ body"

definition encode_connect :: "string \<Rightarrow> string \<Rightarrow> string \<Rightarrow> bytes" where
  "encode_connect client_id username password =
     (let p = put_str [] ''MQTT'' @ [0x04] @ [0xC2] @ u16_be MQTT_KEEP_ALIVE_SECS;
          p = put_str p client_id;
          p = put_str p username;
          p = put_str p password
      in frame HEADER_CONNECT p)"

definition encode_subscribe :: "u16 \<Rightarrow> string \<Rightarrow> bytes" where
  "encode_subscribe packet_id topic =
     frame HEADER_SUBSCRIBE (put_str (u16_be packet_id) topic @ [1])"

definition encode_publish_qos1 :: "u16 \<Rightarrow> string \<Rightarrow> bytes \<Rightarrow> bytes" where
  "encode_publish_qos1 packet_id topic payload =
     frame HEADER_PUBLISH_QOS1 (put_str [] topic @ u16_be packet_id @ payload)"

definition encode_puback :: "u16 \<Rightarrow> bytes" where
  "encode_puback packet_id = [HEADER_PUBACK, 0x02] @ u16_be packet_id"

definition encode_pingreq :: bytes where
  "encode_pingreq = [HEADER_PINGREQ, 0x00]"

section \<open>The varint\<close>

lemma encode_remaining_length_not_Nil [simp]: "encode_remaining_length n \<noteq> []"
  by (subst encode_remaining_length.simps) (simp add: Let_def)

lemma length_encode_remaining_length:
  "n < 128 ^ Suc k \<Longrightarrow> length (encode_remaining_length n) \<le> Suc k"
proof (induction k arbitrary: n)
  case 0
  then show ?case by (subst encode_remaining_length.simps) (simp add: Let_def)
next
  case (Suc k)
  then have "n div 128 < 128 ^ Suc k"
    by (simp add: less_mult_imp_div_less mult.commute)
  from Suc.IH [OF this] show ?case
    by (subst encode_remaining_length.simps) (simp add: Let_def)
qed

text \<open>Seven value bits and the continuation bit of one varint byte.\<close>

lemma varint_byte_bits:
  assumes "m < 128"
  shows "unat ((word_of_nat m :: u8) AND 127) = m" "(word_of_nat m :: u8) AND 128 = 0"
    "unat (((word_of_nat m :: u8) OR 128) AND 127) = m" "((word_of_nat m :: u8) OR 128) AND 128 \<noteq> 0"
proof -
  have "\<forall>m < 128. unat ((word_of_nat m :: u8) AND 127) = m \<and> (word_of_nat m :: u8) AND 128 = 0
    \<and> unat (((word_of_nat m :: u8) OR 128) AND 127) = m \<and> ((word_of_nat m :: u8) OR 128) AND 128 \<noteq> 0"
    by code_simp
  with assms show "unat ((word_of_nat m :: u8) AND 127) = m" "(word_of_nat m :: u8) AND 128 = 0"
    "unat (((word_of_nat m :: u8) OR 128) AND 127) = m" "((word_of_nat m :: u8) OR 128) AND 128 \<noteq> 0"
    by blast+
qed

text \<open>Reference decoder of the varint: the value and the bytes after it.\<close>

fun decode_remaining_length :: "bytes \<Rightarrow> (nat \<times> bytes) option" where
  "decode_remaining_length [] = None"
| "decode_remaining_length (b # bs) =
     (if b AND 128 = 0 then Some (unat (b AND 127), bs)
      else map_option (\<lambda>(v, r). (unat (b AND 127) + 128 * v, r)) (decode_remaining_length bs))"

lemma decode_encode_remaining_length:
  "decode_remaining_length (encode_remaining_length n @ r) = Some (n, r)"
proof (induction n rule: encode_remaining_length.induct)
  case (1 n)
  have b: "n mod 128 < 128" by simp
  show ?case
  proof (cases "n div 128 > 0")
    case True
    with "1" have "decode_remaining_length (encode_remaining_length (n div 128) @ r) = Some (n div 128, r)"
      by simp
    with True show ?thesis
      by (subst encode_remaining_length.simps) (simp add: Let_def varint_byte_bits [OF b])
  next
    case False
    then have n: "n < 128" by (simp add: div_eq_0_iff)
    with False show ?thesis
      by (subst encode_remaining_length.simps) (simp add: Let_def varint_byte_bits [OF n])
  qed
qed

lemma length_put_str [wire_simps]: "length (put_str buf s) = length buf + 2 + length s"
  by (simp add: put_str_def)

lemma frame_not_Nil [simp]: "frame h body \<noteq> []"
  by (simp add: frame_def)

end
