(* ===== verification/MqttFrame.thy ===== *)
theory MqttFrame
  imports Reader MqttCodec
begin

text \<open>
  The resumable frame reader of \<open>src/mqtt/client/frame.rs\<close>: \<open>FrameReadState\<close> and
  \<open>read_exact_packet\<close>, stage by stage (header byte, remaining length, payload). A call that times
  out leaves the state where the next call resumes; a rejected frame poisons the reader.
  The reference is a byte-at-a-time automaton, \<open>feed\<close>.
\<close>

text \<open>The two build targets whose size limits differ (\<open>cfg\<close> on \<open>std\<close> and \<open>esp-idf\<close>).\<close>

datatype target = Host | Embedded

fun MQTT_MAX_PAYLOAD_BYTES :: "target \<Rightarrow> nat" where
  "MQTT_MAX_PAYLOAD_BYTES Host = 1048576"
| "MQTT_MAX_PAYLOAD_BYTES Embedded = 65536"

abbreviation (input) MQTT_READ_TIMEOUT_SECS :: nat where "MQTT_READ_TIMEOUT_SECS \<equiv> 30"
abbreviation (input) MQTT_WRITE_TIMEOUT_SECS :: nat where "MQTT_WRITE_TIMEOUT_SECS \<equiv> 30"
abbreviation (input) PAYLOAD_GROWTH_CHUNK :: nat where "PAYLOAD_GROWTH_CHUNK \<equiv> 2048"
abbreviation (input) READ_SCRATCH_BYTES :: nat where "READ_SCRATCH_BYTES \<equiv> 256"

text \<open>\<open>ReadingRemainingLength header value multiplier\<close>;
  \<open>ReadingPayload header buf target_len\<close>.\<close>

datatype frame_read_state =
  Idle
  | ReadingRemainingLength u8 nat nat
  | ReadingPayload u8 bytes nat
  | Poisoned

definition read_one_byte :: "nat option \<Rightarrow> io \<Rightarrow> (socket_error + u8) \<times> io" where
  "read_one_byte deadline s =
     (case read_chunk 1 deadline s of
        (Inl e, s') \<Rightarrow> (Inl e, s')
      | (Inr bs, s') \<Rightarrow> (Inr (hd bs), s'))"

lemma read_one_byte_ok:
  assumes "read_one_byte deadline s = (Inr b, s')"
  shows "stream_bytes s = b # stream_bytes s'"
proof -
  from assms obtain bs where r: "read_chunk 1 deadline s = (Inr bs, s')" and b: "b = hd bs"
    by (auto simp: read_one_byte_def split: prod.splits sum.splits)
  from read_chunk_ok(1,2) [OF r] have "bs = [b]"
    using b by (cases bs) auto
  with read_chunk_ok(3) [OF r] show ?thesis by simp
qed

lemma read_one_byte_err:
  "read_one_byte deadline s = (Inl e, s') \<Longrightarrow> stream_bytes s' = stream_bytes s"
  by (auto simp: read_one_byte_def dest: read_chunk_err split: prod.splits sum.splits)

section \<open>The stages\<close>

text \<open>The varint loop. Each pass takes a byte off the stream, so it ends.\<close>

function read_remaining_length ::
  "nat option \<Rightarrow> u8 \<Rightarrow> nat \<Rightarrow> nat \<Rightarrow> io \<Rightarrow> (socket_error + nat) \<times> frame_read_state \<times> io" where
  "read_remaining_length deadline header v mult s =
     (case read_one_byte deadline s of
        (Inl e, s') \<Rightarrow> (Inl e, ReadingRemainingLength header v mult, s')
      | (Inr b, s') \<Rightarrow>
          (let v' = v + unat (b AND 127) * mult in
           if b AND 128 = 0 then (Inr v', ReadingRemainingLength header v' mult, s')
           else let mult' = mult * 128 in
             if mult' > 128 * 128 * 128 then (Inl InvalidInput, Poisoned, s')
             else read_remaining_length deadline header v' mult' s'))"
  by pat_completeness auto
termination
  by (relation "measure (\<lambda>(_, _, _, _, s). length (stream_bytes s))")
    (auto dest!: read_one_byte_ok [OF sym])

declare read_remaining_length.simps [simp del]

text \<open>The inner loop of the payload: \<open>remaining\<close> bytes through the scratch buffer.\<close>

function fill_want ::
  "nat option \<Rightarrow> nat \<Rightarrow> bytes \<Rightarrow> io \<Rightarrow> socket_error option \<times> bytes \<times> io" where
  "fill_want deadline remaining buf s =
     (if remaining = 0 then (None, buf, s)
      else case read_chunk (min remaining READ_SCRATCH_BYTES) deadline s of
        (Inl e, s') \<Rightarrow> (Some e, buf, s')
      | (Inr bs, s') \<Rightarrow> fill_want deadline (remaining - length bs) (buf @ bs) s')"
  by pat_completeness auto
termination
proof (relation "measure (\<lambda>(_, remaining, _, _). remaining)")
  fix deadline :: "nat option" and remaining buf s r s' bs
  assume "remaining \<noteq> 0" "(r, s') = read_chunk (min remaining READ_SCRATCH_BYTES) deadline s"
    "r = Inr bs"
  then have "bs \<noteq> []" using read_chunk_ok(1) by metis
  with \<open>remaining \<noteq> 0\<close> show "((deadline, remaining - length bs, buf @ bs, s'), deadline, remaining, buf, s)
      \<in> measure (\<lambda>(_, remaining, _, _). remaining)"
    by simp
qed simp

declare fill_want.simps [simp del]

lemma fill_want_appends:
  "fill_want deadline remaining buf s = (r, buf', s') \<Longrightarrow>
     \<exists>u. buf' = buf @ u \<and> stream_bytes s = u @ stream_bytes s' \<and> length u \<le> remaining
       \<and> (r = None \<longleftrightarrow> length u = remaining) \<and> outbound s' = outbound s"
proof (induction deadline remaining buf s rule: fill_want.induct)
  case (1 deadline remaining buf s)
  show ?case
  proof (cases "remaining = 0")
    case True
    with "1.prems" show ?thesis by (simp add: fill_want.simps)
  next
    case False
    obtain x s1 where x: "read_chunk (min remaining READ_SCRATCH_BYTES) deadline s = (x, s1)"
      by (metis surj_pair)
    show ?thesis
    proof (cases x)
      case (Inl e)
      with False x "1.prems" show ?thesis
        by (auto simp: fill_want.simps [of deadline remaining] dest: read_chunk_err)
    next
      case (Inr bs)
      with False x "1.prems" have rec: "fill_want deadline (remaining - length bs) (buf @ bs) s1 = (r, buf', s')"
        by (simp add: fill_want.simps [of deadline remaining])
      from read_chunk_ok [OF x [unfolded Inr]] have
        bs: "length bs \<le> remaining" "stream_bytes s = bs @ stream_bytes s1" "outbound s1 = outbound s"
        by simp_all
      from "1.IH" [OF False x [symmetric] Inr rec] obtain u where
        "buf' = (buf @ bs) @ u" "stream_bytes s1 = u @ stream_bytes s'"
        "length u \<le> remaining - length bs" "r = None \<longleftrightarrow> length u = remaining - length bs"
        "outbound s' = outbound s1"
        by blast
      with bs show ?thesis by (intro exI [of _ "bs @ u"]) auto
    qed
  qed
qed

text \<open>The outer loop: grow the buffer by at most one chunk per pass until it is full.\<close>

function fill_payload :: "nat option \<Rightarrow> nat \<Rightarrow> bytes \<Rightarrow> io \<Rightarrow> socket_error option \<times> bytes \<times> io" where
  "fill_payload deadline target_len buf s =
     (if length buf < target_len then
        (let want = min (target_len - length buf) PAYLOAD_GROWTH_CHUNK in
         case fill_want deadline want buf s of
           (Some e, buf', s') \<Rightarrow> (Some e, buf', s')
         | (None, buf', s') \<Rightarrow> fill_payload deadline target_len buf' s')
      else (None, buf, s))"
  by pat_completeness auto
termination
proof (relation "measure (\<lambda>(_, target_len, buf, _). target_len - length buf)")
  fix deadline :: "nat option" and target_len and buf :: bytes and s want r y buf' s'
  assume less: "length buf < target_len" and want: "want = min (target_len - length buf) PAYLOAD_GROWTH_CHUNK"
    and x: "(r, y) = fill_want deadline want buf s" "(buf', s') = y" "r = None"
  then have "fill_want deadline want buf s = (None, buf', s')" by simp
  from fill_want_appends [OF this] have "length buf' = length buf + want" by auto
  with less want show "((deadline, target_len, buf', s'), deadline, target_len, buf, s)
      \<in> measure (\<lambda>(_, target_len, buf, _). target_len - length buf)"
    by auto
qed simp

declare fill_payload.simps [simp del]

definition read_header_stage ::
  "nat option \<Rightarrow> frame_read_state \<Rightarrow> io \<Rightarrow> (socket_error + unit) \<times> frame_read_state \<times> io" where
  "read_header_stage deadline st s =
     (case st of
        Idle \<Rightarrow>
          (case read_one_byte deadline s of
             (Inl e, s') \<Rightarrow> (Inl e, Idle, s')
           | (Inr header, s') \<Rightarrow> (Inr (), ReadingRemainingLength header 0 1, s'))
      | _ \<Rightarrow> (Inr (), st, s))"

definition read_length_stage ::
  "target \<Rightarrow> nat option \<Rightarrow> frame_read_state \<Rightarrow> io
     \<Rightarrow> (socket_error + unit) \<times> frame_read_state \<times> io" where
  "read_length_stage tgt deadline st s =
     (case st of
        ReadingRemainingLength header v mult \<Rightarrow>
          (case read_remaining_length deadline header v mult s of
             (Inl e, st', s') \<Rightarrow> (Inl e, st', s')
           | (Inr rem_len, st', s') \<Rightarrow>
               if rem_len > MQTT_MAX_PAYLOAD_BYTES tgt then (Inl InvalidInput, Poisoned, s')
               else (Inr (), ReadingPayload header [] rem_len, s'))
      | _ \<Rightarrow> (Inr (), st, s))"

text \<open>The last stage. Only a \<open>ReadingPayload\<close> state reaches it; the last branch is the source's
  \<open>unreachable!\<close>, which \<open>read_exact_packet_reaches_payload\<close> below shows is never taken.\<close>

definition read_payload_stage ::
  "nat option \<Rightarrow> frame_read_state \<Rightarrow> io \<Rightarrow> (socket_error + u8 \<times> bytes) \<times> frame_read_state \<times> io" where
  "read_payload_stage deadline st s =
     (case st of
        ReadingPayload header buf target_len \<Rightarrow>
          (case fill_payload deadline target_len buf s of
             (Some e, buf', s') \<Rightarrow> (Inl e, ReadingPayload header buf' target_len, s')
           | (None, buf', s') \<Rightarrow> (Inr (header, buf'), Idle, s'))
      | _ \<Rightarrow> (Inl (Other ''unreachable''), st, s))"

definition read_exact_packet ::
  "target \<Rightarrow> timer \<Rightarrow> nat \<Rightarrow> frame_read_state \<Rightarrow> io
     \<Rightarrow> (socket_error + u8 \<times> bytes) \<times> frame_read_state \<times> io" where
  "read_exact_packet tgt t budget_ms st s =
     (let deadline = ftps_deadline_from_ms t budget_ms s in
      if st = Poisoned then (Inl InvalidInput, st, s)
      else case read_header_stage deadline st s of
        (Inl e, st1, s1) \<Rightarrow> (Inl e, st1, s1)
      | (Inr _, st1, s1) \<Rightarrow>
          (case read_length_stage tgt deadline st1 s1 of
             (Inl e, st2, s2) \<Rightarrow> (Inl e, st2, s2)
           | (Inr _, st2, s2) \<Rightarrow> read_payload_stage deadline st2 s2))"

section \<open>What the bytes on the wire mean\<close>

text \<open>\<open>vs\<close> is a varint of at most four bytes with value \<open>n\<close>.\<close>

definition varint_of :: "bytes \<Rightarrow> nat \<Rightarrow> bool" where
  "varint_of vs n \<longleftrightarrow> decode_remaining_length vs = Some (n, []) \<and> length vs \<le> 4"

text \<open>\<open>u\<close> is the wire form of a frame with this header and body that the client accepts.\<close>

definition frame_wire :: "target \<Rightarrow> u8 \<Rightarrow> bytes \<Rightarrow> bytes \<Rightarrow> bool" where
  "frame_wire tgt h body u \<longleftrightarrow>
     (\<exists>vs. u = h # vs @ body \<and> varint_of vs (length body)
        \<and> length body \<le> MQTT_MAX_PAYLOAD_BYTES tgt)"

definition more_follow :: "bytes \<Rightarrow> bool" where
  "more_follow vs \<longleftrightarrow> (\<forall>b \<in> set vs. b AND 128 \<noteq> 0)"

fun varint_value :: "bytes \<Rightarrow> nat" where
  "varint_value [] = 0"
| "varint_value (b # bs) = unat (b AND 127) + 128 * varint_value bs"

lemma varint_value_snoc:
  "varint_value (vs @ [b]) = varint_value vs + unat (b AND 127) * 128 ^ length vs"
  by (induction vs) (simp_all add: algebra_simps)

lemma decode_more_follow:
  "more_follow vs \<Longrightarrow> b AND 128 = 0 \<Longrightarrow>
     decode_remaining_length (vs @ b # r) = Some (varint_value (vs @ [b]), r)"
  by (induction vs) (auto simp: more_follow_def)

lemma decode_append:
  "decode_remaining_length vs = Some (n, r) \<Longrightarrow> decode_remaining_length (vs @ x) = Some (n, r @ x)"
  by (induction vs arbitrary: n) (auto split: if_splits)

text \<open>The bytes a reader in a given state has taken and not handed over.\<close>

fun frame_holds :: "target \<Rightarrow> frame_read_state \<Rightarrow> bytes \<Rightarrow> bool" where
  "frame_holds tgt Idle p \<longleftrightarrow> p = []"
| "frame_holds tgt (ReadingRemainingLength h v m) p \<longleftrightarrow>
     (\<exists>vs. p = h # vs \<and> more_follow vs \<and> length vs \<le> 3
        \<and> m = 128 ^ length vs \<and> v = varint_value vs)"
| "frame_holds tgt (ReadingPayload h buf n) p \<longleftrightarrow>
     (\<exists>vs. p = h # vs @ buf \<and> varint_of vs n \<and> n \<le> MQTT_MAX_PAYLOAD_BYTES tgt
        \<and> length buf \<le> n)"
| "frame_holds tgt Poisoned p \<longleftrightarrow>
     (\<exists>h vs. p = h # vs \<and>
        (more_follow vs \<and> length vs = 4
         \<or> (\<exists>n. varint_of vs n \<and> MQTT_MAX_PAYLOAD_BYTES tgt < n)))"

fun frame_accounts :: "target \<Rightarrow> socket_error + u8 \<times> bytes \<Rightarrow> bytes \<Rightarrow> bool" where
  "frame_accounts tgt (Inr (h, body)) u \<longleftrightarrow> frame_wire tgt h body u"
| "frame_accounts tgt (Inl e) u \<longleftrightarrow> u = []"

lemma power_128_le: "k \<le> 3 \<longleftrightarrow> (128 :: nat) ^ k \<le> 2097152"
proof -
  have "(128 :: nat) ^ k \<le> 128 ^ 3 \<longleftrightarrow> k \<le> 3"
    by (rule power_increasing_iff) simp
  then show ?thesis by simp
qed

text \<open>One pass of the varint loop, by what it reads.\<close>

lemma read_remaining_length_step [io_simps]:
  "read_one_byte deadline s = (Inl e, s1) \<Longrightarrow>
     read_remaining_length deadline h v m s = (Inl e, ReadingRemainingLength h v m, s1)"
  "read_one_byte deadline s = (Inr b, s1) \<Longrightarrow> b AND 128 = 0 \<Longrightarrow>
     read_remaining_length deadline h v m s
       = (Inr (v + unat (b AND 127) * m), ReadingRemainingLength h (v + unat (b AND 127) * m) m, s1)"
  "read_one_byte deadline s = (Inr b, s1) \<Longrightarrow> b AND 128 \<noteq> 0 \<Longrightarrow> m * 128 > 2097152 \<Longrightarrow>
     read_remaining_length deadline h v m s = (Inl InvalidInput, Poisoned, s1)"
  "read_one_byte deadline s = (Inr b, s1) \<Longrightarrow> b AND 128 \<noteq> 0 \<Longrightarrow> \<not> m * 128 > 2097152 \<Longrightarrow>
     read_remaining_length deadline h v m s
       = read_remaining_length deadline h (v + unat (b AND 127) * m) (m * 128) s1"
  by (subst read_remaining_length.simps, simp add: Let_def)+

lemma read_remaining_length_spec:
  assumes "read_remaining_length deadline h (varint_value vs) (128 ^ length vs) s = (r, st', s')"
    and "more_follow vs" "length vs \<le> 3"
  shows "\<exists>u. stream_bytes s = u @ stream_bytes s' \<and>
    (case r of
       Inr n \<Rightarrow> varint_of (vs @ u) n
     | Inl e \<Rightarrow> frame_holds tgt st' (h # vs @ u) \<and> (st' = Poisoned \<or> (\<exists>v m. st' = ReadingRemainingLength h v m)))"
  using assms
proof (induction "length (stream_bytes s)" arbitrary: s vs rule: less_induct)
  case less
  obtain x s1 where x: "read_one_byte deadline s = (x, s1)" by (metis surj_pair)
  show ?case
  proof (cases x)
    case (Inl e)
    with x less.prems have "r = Inl e" "s' = s1"
      "st' = ReadingRemainingLength h (varint_value vs) (128 ^ length vs)"
      by (simp_all add: io_simps)
    with less.prems(2,3) read_one_byte_err [of deadline s e s1] x Inl show ?thesis
      by (intro exI [of _ "[]"]) simp
  next
    case (Inr b)
    with x have st: "stream_bytes s = b # stream_bytes s1" by (simp add: read_one_byte_ok)
    show ?thesis
    proof (cases "b AND 128 = 0")
      case True
      with x Inr less.prems(1) have "r = Inr (varint_value (vs @ [b]))" "s' = s1"
        by (simp_all add: varint_value_snoc io_simps)
      with st decode_more_follow [OF less.prems(2) True, of "[]"] less.prems(3) show ?thesis
        by (intro exI [of _ "[b]"]) (simp add: varint_of_def)
    next
      case False
      with less.prems(2) have mf: "more_follow (vs @ [b])" by (auto simp: more_follow_def)
      show ?thesis
      proof (cases "length vs = 3")
        case True
        with x Inr False less.prems(1)
        have "r = Inl InvalidInput" "st' = Poisoned" "s' = s1"
          by (simp_all add: io_simps)
        with st mf True show ?thesis by (intro exI [of _ "[b]"]) auto
      next
        case small: False
        with less.prems(3) have "length (vs @ [b]) \<le> 3" by simp
        moreover from this have "\<not> 128 ^ length vs * 128 > (2097152 :: nat)"
          using power_128_le [of "length (vs @ [b])"] by (simp add: mult.commute)
        with x Inr False less.prems(1) have rec: "read_remaining_length deadline h (varint_value (vs @ [b]))
            (128 ^ length (vs @ [b])) s1 = (r, st', s')"
          by (simp add: io_simps varint_value_snoc mult.commute)
        ultimately obtain u where "stream_bytes s1 = u @ stream_bytes s'" and
          "case r of Inr n \<Rightarrow> varint_of ((vs @ [b]) @ u) n
           | Inl e \<Rightarrow> frame_holds tgt st' (h # (vs @ [b]) @ u)
               \<and> (st' = Poisoned \<or> (\<exists>v m. st' = ReadingRemainingLength h v m))"
          using less.hyps [OF _ rec mf] st by auto
        with st show ?thesis by (intro exI [of _ "b # u"]) (auto split: sum.splits)
      qed
    qed
  qed
qed

lemma fill_payload_spec:
  assumes "fill_payload deadline n buf s = (r, buf', s')" "length buf \<le> n"
  shows "\<exists>u. buf' = buf @ u \<and> stream_bytes s = u @ stream_bytes s' \<and> length buf' \<le> n
    \<and> (r = None \<longleftrightarrow> length buf' = n) \<and> outbound s' = outbound s"
  using assms
proof (induction "n - length buf" arbitrary: buf s rule: less_induct)
  case less
  show ?case
  proof (cases "length buf < n")
    case False
    with less.prems show ?thesis by (simp add: fill_payload.simps)
  next
    case True
    let ?want = "min (n - length buf) PAYLOAD_GROWTH_CHUNK"
    obtain x b1 s1 where x: "fill_want deadline ?want buf s = (x, b1, s1)" by (metis prod_cases3)
    from fill_want_appends [OF x] obtain u where
      u: "b1 = buf @ u" "stream_bytes s = u @ stream_bytes s1" "length u \<le> ?want"
      "x = None \<longleftrightarrow> length u = ?want" "outbound s1 = outbound s"
      by blast
    show ?thesis
    proof (cases x)
      case (Some e)
      with True x less.prems(1) have "r = Some e" "buf' = b1" "s' = s1"
        by (simp_all add: fill_payload.simps [of deadline n buf])
      with u less.prems(2) True Some show ?thesis by (intro exI [of _ u]) auto
    next
      case None
      with True x less.prems(1) have rec: "fill_payload deadline n b1 s1 = (r, buf', s')"
        by (simp add: fill_payload.simps [of deadline n buf])
      have "n - length b1 < n - length buf" "length b1 \<le> n"
        using u None True by auto
      from less.hyps [OF this(1) rec this(2)] obtain w where
        "buf' = b1 @ w" "stream_bytes s1 = w @ stream_bytes s'" "length buf' \<le> n"
        "r = None \<longleftrightarrow> length buf' = n" "outbound s' = outbound s1"
        by blast
      with u show ?thesis by (intro exI [of _ "u @ w"]) simp
    qed
  qed
qed

lemma read_header_stage_spec:
  assumes "frame_holds tgt st p" "read_header_stage deadline st s = (r, st', s')" "st \<noteq> Poisoned"
  shows "\<exists>u. stream_bytes s = u @ stream_bytes s' \<and> frame_holds tgt st' (p @ u)
    \<and> st' \<noteq> Poisoned \<and> (r = Inr () \<longrightarrow> st' \<noteq> Idle)"
proof (cases "st = Idle")
  case True
  obtain x s1 where x: "read_one_byte deadline s = (x, s1)" by (metis surj_pair)
  show ?thesis
  proof (cases x)
    case (Inl e)
    with True assms x read_one_byte_err [of deadline s e s1] show ?thesis
      by (auto simp: read_header_stage_def)
  next
    case (Inr b)
    with x read_one_byte_ok have "stream_bytes s = b # stream_bytes s1" by blast
    with True assms x Inr show ?thesis
      by (intro exI [of _ "[b]"]) (auto simp: read_header_stage_def more_follow_def)
  qed
next
  case False
  with assms show ?thesis
    by (intro exI [of _ "[]"]) (auto simp: read_header_stage_def split: frame_read_state.splits)
qed

lemma read_length_stage_spec:
  assumes "frame_holds tgt st p" "read_length_stage tgt deadline st s = (r, st', s')"
    "st \<noteq> Poisoned" "st \<noteq> Idle"
  shows "\<exists>u. stream_bytes s = u @ stream_bytes s' \<and> frame_holds tgt st' (p @ u)
    \<and> (r = Inr () \<longrightarrow> (\<exists>h buf n. st' = ReadingPayload h buf n))"
proof (cases st)
  case (ReadingRemainingLength h v m)
  with assms(1) obtain vs where vs: "p = h # vs" "more_follow vs" "length vs \<le> 3"
    "m = 128 ^ length vs" "v = varint_value vs"
    by auto
  obtain x st1 s1 where x: "read_remaining_length deadline h v m s = (x, st1, s1)"
    by (metis prod_cases3)
  from read_remaining_length_spec [OF x [unfolded vs(4,5)] vs(2,3)] obtain u where
    u: "stream_bytes s = u @ stream_bytes s1" and c: "case x of
       Inr n \<Rightarrow> varint_of (vs @ u) n
     | Inl e \<Rightarrow> frame_holds tgt st1 (h # vs @ u) \<and> (st1 = Poisoned \<or> (\<exists>v m. st1 = ReadingRemainingLength h v m))"
    by blast
  show ?thesis
  proof (cases x)
    case (Inl e)
    with assms(2) ReadingRemainingLength x u c vs(1) show ?thesis
      by (auto simp: read_length_stage_def)
  next
    case (Inr n)
    with assms(2) ReadingRemainingLength x u c vs(1) show ?thesis
      by (intro exI [of _ u]) (auto simp: read_length_stage_def split: if_splits)
  qed
next
  case ReadingPayload
  with assms show ?thesis by (intro exI [of _ "[]"]) (auto simp: read_length_stage_def)
qed (use assms in auto)

lemma read_payload_stage_spec:
  assumes "frame_holds tgt (ReadingPayload h buf n) p"
    "read_payload_stage deadline (ReadingPayload h buf n) s = (r, st', s')"
  shows "\<exists>u p'. p @ stream_bytes s = u @ p' @ stream_bytes s' \<and> frame_holds tgt st' p'
    \<and> frame_accounts tgt r u"
proof -
  from assms(1) obtain vs where vs: "p = h # vs @ buf" "varint_of vs n"
    "n \<le> MQTT_MAX_PAYLOAD_BYTES tgt" "length buf \<le> n"
    by auto
  obtain x b1 s1 where x: "fill_payload deadline n buf s = (x, b1, s1)" by (metis prod_cases3)
  from fill_payload_spec [OF x vs(4)] obtain u where u: "b1 = buf @ u"
    "stream_bytes s = u @ stream_bytes s1" "length b1 \<le> n" "x = None \<longrightarrow> length b1 = n"
    by blast
  show ?thesis
  proof (cases x)
    case (Some e)
    with assms(2) x have "r = Inl e" "st' = ReadingPayload h b1 n" "s' = s1"
      by (simp_all add: read_payload_stage_def)
    with u vs show ?thesis by (intro exI [of _ "[]"] exI [of _ "p @ u"]) auto
  next
    case None
    with assms(2) x have "r = Inr (h, b1)" "st' = Idle" "s' = s1"
      by (simp_all add: read_payload_stage_def)
    with u vs None show ?thesis
      by (intro exI [of _ "p @ u"] exI [of _ "[]"]) (auto simp: frame_wire_def)
  qed
qed

lemma read_exact_packet_accounts:
  assumes "frame_holds tgt st p" "read_exact_packet tgt t budget st s = (r, st', s')"
  shows "\<exists>u p'. p @ stream_bytes s = u @ p' @ stream_bytes s' \<and> frame_holds tgt st' p'
    \<and> frame_accounts tgt r u"
proof (cases "st = Poisoned")
  case True
  with assms show ?thesis
    by (intro exI [of _ "[]"] exI [of _ p]) (auto simp: read_exact_packet_def Let_def)
next
  case False
  let ?dl = "ftps_deadline_from_ms t budget s"
  obtain r1 st1 s1 where 1: "read_header_stage ?dl st s = (r1, st1, s1)" by (metis prod_cases3)
  obtain r2 st2 s2 where 2: "read_length_stage tgt ?dl st1 s1 = (r2, st2, s2)" by (metis prod_cases3)
  from read_header_stage_spec [OF assms(1) 1 False] obtain u1 where
    u1: "stream_bytes s = u1 @ stream_bytes s1" "frame_holds tgt st1 (p @ u1)" "st1 \<noteq> Poisoned"
    "r1 = Inr () \<longrightarrow> st1 \<noteq> Idle"
    by blast
  show ?thesis
  proof (cases r1)
    case (Inl e)
    with assms(2) False 1 have "r = Inl e" "st' = st1" "s' = s1"
      by (simp_all add: read_exact_packet_def Let_def)
    with u1 show ?thesis by (intro exI [of _ "[]"] exI [of _ "p @ u1"]) simp
  next
    case (Inr x)
    with u1 have "st1 \<noteq> Idle" by simp
    from read_length_stage_spec [OF u1(2) 2 u1(3) this] obtain u2 where
      u2: "stream_bytes s1 = u2 @ stream_bytes s2" "frame_holds tgt st2 ((p @ u1) @ u2)"
      "r2 = Inr () \<longrightarrow> (\<exists>h buf n. st2 = ReadingPayload h buf n)"
      by blast
    show ?thesis
    proof (cases r2)
      case (Inl e)
      with Inr assms(2) False 1 2 have "r = Inl e" "st' = st2" "s' = s2"
        by (simp_all add: read_exact_packet_def Let_def)
      with u1 u2 show ?thesis by (intro exI [of _ "[]"] exI [of _ "(p @ u1) @ u2"]) simp
    next
      case 22: (Inr y)
      with u2 obtain h buf n where st2: "st2 = ReadingPayload h buf n" by auto
      from 22 Inr assms(2) False 1 2 have "read_payload_stage ?dl st2 s2 = (r, st', s')"
        by (simp add: read_exact_packet_def Let_def)
      from read_payload_stage_spec [OF u2(2) [unfolded st2] this [unfolded st2]] u1 u2(1)
      show ?thesis by simp
    qed
  qed
qed

interpretation mqtt_reader:
  resumable_reader "\<lambda>st s. read_exact_packet tgt t budget st s" "frame_holds tgt" "frame_accounts tgt"
  for tgt t budget
  by unfold_locales (rule read_exact_packet_accounts)

text \<open>The wire form is uniquely readable: two frames that start the same stream are equal.\<close>

lemma frame_wire_unique:
  assumes "frame_wire tgt h body u" "u @ x = frame h' body' @ y"
  shows "h = h' \<and> body = body' \<and> u = frame h' body' \<and> x = y"
proof -
  from assms(1) obtain vs where vs: "u = h # vs @ body" "varint_of vs (length body)"
    by (auto simp: frame_wire_def)
  from assms(2) vs(1) have hd: "h = h'" and
    tl: "vs @ (body @ x) = encode_remaining_length (length body') @ (body' @ y)"
    by (simp_all add: frame_def)
  from vs(2) have "decode_remaining_length (vs @ (body @ x)) = Some (length body, body @ x)"
    using decode_append [of vs "length body" "[]"] by (simp add: varint_of_def)
  moreover have "decode_remaining_length (encode_remaining_length (length body') @ (body' @ y))
      = Some (length body', body' @ y)"
    by (rule decode_encode_remaining_length)
  ultimately have "length body = length body'" "body @ x = body' @ y"
    using tl by simp_all
  then have "body = body'" "x = y" by simp_all
  with hd tl vs(1) show ?thesis by (simp add: frame_def)
qed

lemma accounted_frames_prefix:
  assumes "list_all2 (frame_accounts tgt) rs us"
    "concat us @ x = concat (map (\<lambda>(h, b). frame h b) fs)"
  shows "\<exists>fs'. fs = oks rs @ fs' \<and> x = concat (map (\<lambda>(h, b). frame h b) fs')"
  using assms
proof (induction rs us arbitrary: fs rule: list_all2_induct)
  case Nil
  then show ?case by simp
next
  case (Cons r rs u us)
  show ?case
  proof (cases r)
    case (Inl e)
    with Cons show ?thesis by simp
  next
    case (Inr hb)
    obtain h b where hb: "hb = (h, b)" by (metis surj_pair)
    with Inr Cons.hyps have w: "frame_wire tgt h b u" by simp
    then have "u \<noteq> []" by (auto simp: frame_wire_def)
    with Cons.prems obtain h' b' fs1 where fs: "fs = (h', b') # fs1" by (cases fs) auto
    with Cons.prems have "u @ (concat us @ x) = frame h' b' @ concat (map (\<lambda>(h, b). frame h b) fs1)"
      by simp
    from frame_wire_unique [OF w this] Cons.IH [of fs1] fs Inr hb show ?thesis by auto
  qed
qed

section \<open>An undisturbed stream\<close>

text \<open>
  Without a deadline, on a stream that neither fails nor closes early, a call only stops short
  when every byte the peer sends has been taken.
\<close>

lemma read_one_byte_smooth:
  "smooth s \<Longrightarrow> read_one_byte None s = (r, s') \<Longrightarrow>
     smooth s' \<and> (\<forall>e. r = Inl e \<longrightarrow> stream_bytes s' = [])"
  by (auto simp: read_one_byte_def split: prod.splits sum.splits dest: read_chunk_smooth)

lemma read_remaining_length_smooth:
  "smooth s \<Longrightarrow> read_remaining_length None h v m s = (r, st', s') \<Longrightarrow>
     smooth s' \<and> (\<forall>e. r = Inl e \<longrightarrow> stream_bytes s' = [] \<or> st' = Poisoned)"
proof (induction "length (stream_bytes s)" arbitrary: s v m rule: less_induct)
  case less
  obtain x s1 where x: "read_one_byte None s = (x, s1)" by (metis surj_pair)
  note sm = read_one_byte_smooth [OF less.prems(1) x]
  show ?case
  proof (cases x)
    case (Inl e)
    with x sm less.prems(2) show ?thesis by (auto simp: io_simps)
  next
    case (Inr b)
    with x have "length (stream_bytes s1) < length (stream_bytes s)"
      by (simp add: read_one_byte_ok)
    from less.hyps [OF this] sm x Inr less.prems(2) show ?thesis
      by (cases "b AND 128 = 0"; cases "m * 128 > 2097152") (auto simp: io_simps)
  qed
qed

lemma fill_want_smooth:
  "smooth s \<Longrightarrow> fill_want None n buf s = (r, buf', s') \<Longrightarrow>
     smooth s' \<and> (\<forall>e. r = Some e \<longrightarrow> stream_bytes s' = [])"
proof (induction "None :: nat option" n buf s rule: fill_want.induct)
  case (1 n buf s)
  show ?case
  proof (cases "n = 0")
    case True
    with "1.prems" show ?thesis by (simp add: fill_want.simps)
  next
    case False
    obtain x s1 where x: "read_chunk (min n READ_SCRATCH_BYTES) None s = (x, s1)"
      by (metis surj_pair)
    from False have "0 < min n READ_SCRATCH_BYTES" by simp
    from read_chunk_smooth [OF "1.prems"(1) x this] "1.hyps" [OF False x [symmetric]]
      False x "1.prems"(2)
    show ?thesis by (cases x) (auto simp: fill_want.simps [of None n])
  qed
qed

lemma fill_payload_smooth:
  "smooth s \<Longrightarrow> fill_payload None n buf s = (r, buf', s') \<Longrightarrow>
     smooth s' \<and> (\<forall>e. r = Some e \<longrightarrow> stream_bytes s' = [])"
proof (induction "None :: nat option" n buf s rule: fill_payload.induct)
  case (1 n buf s)
  let ?want = "min (n - length buf) PAYLOAD_GROWTH_CHUNK"
  obtain x b1 s1 where x: "fill_want None ?want buf s = (x, b1, s1)" by (metis prod_cases3)
  note sm = fill_want_smooth [OF "1.prems"(1) x]
  show ?case
  proof (cases "length buf < n")
    case True
    show ?thesis
    proof (cases x)
      case None
      with "1.hyps" [OF True refl x [symmetric] None refl] sm x True "1.prems" show ?thesis
        by (simp add: fill_payload.simps [of None n buf])
    next
      case (Some e)
      with sm x True "1.prems" show ?thesis by (auto simp: fill_payload.simps [of None n buf])
    qed
  next
    case False
    with "1.prems" show ?thesis by (simp add: fill_payload.simps)
  qed
qed

lemma read_payload_stage_stops:
  assumes "read_payload_stage None (ReadingPayload h buf n) s = (Inl e, st', s')" "smooth s"
    "length buf \<le> n"
  shows "stream_bytes s' = [] \<and> (\<exists>buf'. st' = ReadingPayload h buf' n \<and> length buf' < n)"
proof -
  obtain x b1 s1 where x: "fill_payload None n buf s = (x, b1, s1)" by (metis prod_cases3)
  from fill_payload_smooth [OF assms(2) x] fill_payload_spec [OF x assms(3)] x assms(1)
  show ?thesis by (cases x) (auto simp: read_payload_stage_def)
qed

lemma read_exact_packet_smooth:
  assumes "smooth s" "read_exact_packet tgt DummyTimer budget st s = (Inl e, st', s')"
    "st \<noteq> Poisoned" "frame_holds tgt st p"
  shows "st' = Poisoned
    \<or> stream_bytes s' = [] \<and> (\<forall>h buf n. st' = ReadingPayload h buf n \<longrightarrow> length buf < n)"
proof -
  let ?dl = "None :: nat option"
  have dl: "ftps_deadline_from_ms DummyTimer budget s = None"
    by (simp add: ftps_deadline_from_ms_def)
  obtain r1 st1 s1 where 1: "read_header_stage ?dl st s = (r1, st1, s1)" by (metis prod_cases3)
  obtain r2 st2 s2 where 2: "read_length_stage tgt ?dl st1 s1 = (r2, st2, s2)" by (metis prod_cases3)
  from read_header_stage_spec [OF assms(4) 1 assms(3)] obtain u1 where
    u1: "frame_holds tgt st1 (p @ u1)" "st1 \<noteq> Poisoned" "r1 = Inr () \<longrightarrow> st1 \<noteq> Idle"
    by blast
  have sm1: "smooth s1 \<and> (\<forall>e. r1 = Inl e \<longrightarrow> stream_bytes s1 = [] \<and> st1 = Idle)"
    using 1 assms(1) read_one_byte_smooth [OF assms(1)]
    by (fastforce simp: read_header_stage_def split: frame_read_state.splits prod.splits sum.splits)
  have sm2: "smooth s2 \<and> (\<forall>e. r2 = Inl e \<longrightarrow>
      st2 = Poisoned \<or> stream_bytes s2 = [] \<and> (\<forall>h buf n. st2 \<noteq> ReadingPayload h buf n))"
  proof (cases st1)
    case (ReadingRemainingLength h v m)
    obtain x st3 s3 where x: "read_remaining_length None h v m s1 = (x, st3, s3)"
      by (metis prod_cases3)
    from u1(1) ReadingRemainingLength obtain vs where vs: "more_follow vs" "length vs \<le> 3"
      "m = 128 ^ length vs" "v = varint_value vs"
      by auto
    from read_remaining_length_spec [OF x [unfolded vs(3,4)] vs(1,2)]
      read_remaining_length_smooth [OF conjunct1 [OF sm1] x] 2 ReadingRemainingLength x
    show ?thesis by (cases x) (auto simp: read_length_stage_def split: if_splits)
  qed (use 2 sm1 in \<open>auto simp: read_length_stage_def\<close>)
  show ?thesis
  proof (cases r1)
    case (Inl e1)
    with assms(2,3) 1 sm1 show ?thesis by (auto simp: read_exact_packet_def Let_def dl)
  next
    case i1: (Inr x)
    with u1(2,3) have ni: "st1 \<noteq> Idle" by simp
    show ?thesis
    proof (cases r2)
      case (Inl e2)
      with i1 assms(2,3) 1 2 sm2 show ?thesis by (auto simp: read_exact_packet_def Let_def dl)
    next
      case i2: (Inr y)
      with read_length_stage_spec [OF u1(1) 2 u1(2) ni] obtain u2 h buf n where
        st2: "st2 = ReadingPayload h buf n" "frame_holds tgt st2 ((p @ u1) @ u2)"
        by auto
      from i2 i1 assms(2,3) 1 2 have "read_payload_stage None st2 s2 = (Inl e, st', s')"
        by (simp add: read_exact_packet_def Let_def dl)
      with st2 sm2 read_payload_stage_stops [of h buf n s2 e st' s'] show ?thesis by auto
    qed
  qed
qed

text \<open>A reader that has taken a whole acceptable frame, or more, is neither poisoned nor waiting.\<close>

lemma decode_more_follow_None: "more_follow vs \<Longrightarrow> decode_remaining_length vs = None"
  by (induction vs) (auto simp: more_follow_def)

lemma decode_prefix_whole:
  assumes "decode_remaining_length vs = Some (m, [])"
    "vs @ x = encode_remaining_length n @ y"
  shows "m = n \<and> x = y"
proof -
  from assms(1) have "decode_remaining_length (vs @ x) = Some (m, x)"
    using decode_append [of vs m "[]"] by simp
  with assms(2) show ?thesis by (simp add: decode_encode_remaining_length)
qed

lemma length_encode_max:
  "n \<le> MQTT_MAX_REMAINING_LENGTH \<Longrightarrow> length (encode_remaining_length n) \<le> 4"
  using length_encode_remaining_length [of n 3] by simp

lemma more_follow_not_varint:
  assumes "more_follow vs" "length vs = 4" "vs @ x = encode_remaining_length n @ y"
    "n \<le> MQTT_MAX_REMAINING_LENGTH"
  shows False
proof -
  let ?e = "encode_remaining_length n"
  have "?e = take (length ?e) (vs @ x)" using assms(3) by simp
  also have "\<dots> = take (length ?e) vs"
    using length_encode_max [OF assms(4)] assms(2) by simp
  finally have "?e = take (length ?e) vs" .
  then have "more_follow ?e" using assms(1) by (metis in_set_takeD more_follow_def)
  with decode_more_follow_None [of ?e] decode_encode_remaining_length [of n "[]"] show False
    by simp
qed

lemma frame_holds_whole:
  assumes "frame_holds tgt st p" "p @ x = frame h body @ y"
    "length body \<le> MQTT_MAX_PAYLOAD_BYTES tgt"
  shows "st \<noteq> Poisoned"
    and "x = [] \<Longrightarrow> \<exists>h buf. st = ReadingPayload h buf (length buf)"
proof -
  have le: "length body \<le> MQTT_MAX_REMAINING_LENGTH"
    using assms(3) by (cases tgt) simp_all
  show "st \<noteq> Poisoned"
  proof
    assume "st = Poisoned"
    with assms(1) obtain h' vs where "p = h' # vs"
      and c: "more_follow vs \<and> length vs = 4 \<or> (\<exists>n. varint_of vs n \<and> MQTT_MAX_PAYLOAD_BYTES tgt < n)"
      by auto
    with assms(2) have "vs @ x = encode_remaining_length (length body) @ (body @ y)"
      by (simp add: frame_def)
    with c assms(3) le more_follow_not_varint [of vs x "length body" "body @ y"]
      decode_prefix_whole [of vs _ x "length body" "body @ y"]
    show False by (fastforce simp: varint_of_def)
  qed
  assume x: "x = []"
  show "\<exists>h buf. st = ReadingPayload h buf (length buf)"
  proof (cases st)
    case Idle
    with assms x show ?thesis by simp
  next
    case (ReadingRemainingLength h' v m)
    with assms(1,2) x have "more_follow (encode_remaining_length (length body) @ (body @ y))"
      by (auto simp: frame_def)
    with decode_more_follow_None decode_encode_remaining_length show ?thesis by fastforce
  next
    case (ReadingPayload h' buf n)
    with assms(1,2) x obtain vs where "vs @ buf = encode_remaining_length (length body) @ (body @ y)"
      "varint_of vs n" "length buf \<le> n"
      by (auto simp: frame_def)
    with decode_prefix_whole [of vs n buf "length body" "body @ y"] ReadingPayload show ?thesis
      by (auto simp: varint_of_def)
  next
    case Poisoned
    with \<open>st \<noteq> Poisoned\<close> show ?thesis by simp
  qed
qed

lemma read_exact_packet_reaches_payload:
  assumes "st \<noteq> Poisoned" "read_header_stage deadline st s = (Inr u, st1, s1)"
    "read_length_stage tgt deadline st1 s1 = (Inr v, st2, s2)"
  shows "\<exists>h buf n. st2 = ReadingPayload h buf n"
  using assms by (auto simp: read_header_stage_def read_length_stage_def
      split: frame_read_state.splits prod.splits sum.splits if_splits)

text \<open>The reader is poisoned only by a protocol violation.\<close>

lemma read_remaining_length_poisoned:
  "read_remaining_length deadline h v m s = (r, Poisoned, s') \<Longrightarrow> r = Inl InvalidInput"
proof (induction "length (stream_bytes s)" arbitrary: s v m rule: less_induct)
  case less
  obtain x s1 where x: "read_one_byte deadline s = (x, s1)" by (metis surj_pair)
  show ?case
  proof (cases x)
    case (Inl e)
    with x less.prems show ?thesis by (simp add: io_simps)
  next
    case (Inr b)
    with x have "length (stream_bytes s1) < length (stream_bytes s)"
      by (simp add: read_one_byte_ok)
    from less.hyps [OF this] x Inr less.prems show ?thesis
      by (cases "b AND 128 = 0"; cases "m * 128 > 2097152") (auto simp: io_simps)
  qed
qed

lemma read_exact_packet_poisoned:
  "read_exact_packet tgt t budget st s = (r, Poisoned, s') \<Longrightarrow> r = Inl InvalidInput"
  by (auto simp: read_exact_packet_def read_header_stage_def read_length_stage_def
      read_payload_stage_def Let_def dest: read_remaining_length_poisoned
      split: if_splits prod.splits sum.splits frame_read_state.splits option.splits)

text \<open>A call only takes bytes off the stream, and writes nothing. A successful one leaves the reader
  idle, and takes something off unless it finished a frame that was already all there.\<close>

lemma read_one_byte_frame:
  "read_one_byte deadline s = (r, s') \<Longrightarrow>
     length (stream_bytes s') \<le> length (stream_bytes s) \<and> outbound s' = outbound s"
  by (auto simp: read_one_byte_def split: prod.splits sum.splits
      dest: read_chunk_err read_chunk_ok)

lemma read_remaining_length_frame:
  "read_remaining_length deadline h v m s = (r, st', s') \<Longrightarrow>
     length (stream_bytes s') \<le> length (stream_bytes s) \<and> outbound s' = outbound s"
proof (induction "length (stream_bytes s)" arbitrary: s v m rule: less_induct)
  case less
  obtain x s1 where x: "read_one_byte deadline s = (x, s1)" by (metis surj_pair)
  note fr = read_one_byte_frame [OF x]
  show ?case
  proof (cases x)
    case (Inl e)
    with x less.prems fr show ?thesis by (simp add: io_simps)
  next
    case (Inr b)
    with x have "length (stream_bytes s1) < length (stream_bytes s)"
      by (simp add: read_one_byte_ok)
    from less.hyps [OF this] x Inr less.prems fr show ?thesis
      by (cases "b AND 128 = 0"; cases "m * 128 > 2097152") (fastforce simp: io_simps)+
  qed
qed

lemma fill_payload_frame:
  "fill_payload deadline n buf s = (r, buf', s') \<Longrightarrow>
     length (stream_bytes s') \<le> length (stream_bytes s) \<and> outbound s' = outbound s"
  using fill_payload_spec [of deadline n buf s r buf' s']
  by (cases "length buf \<le> n") (auto simp: fill_payload.simps [of deadline n buf s])

lemma read_stages_frame:
  "read_header_stage deadline st s = (a, st1, s1) \<Longrightarrow>
     length (stream_bytes s1) \<le> length (stream_bytes s) \<and> outbound s1 = outbound s"
  "read_length_stage tgt deadline st s = (a, st1, s1) \<Longrightarrow>
     length (stream_bytes s1) \<le> length (stream_bytes s) \<and> outbound s1 = outbound s"
  "read_payload_stage deadline st s = (b, st1, s1) \<Longrightarrow>
     length (stream_bytes s1) \<le> length (stream_bytes s) \<and> outbound s1 = outbound s"
  by (auto simp: read_header_stage_def read_length_stage_def read_payload_stage_def
      dest: read_one_byte_frame read_remaining_length_frame fill_payload_frame
      split: frame_read_state.splits prod.splits sum.splits if_splits option.splits)

lemma read_header_stage_takes:
  "read_header_stage deadline Idle s = (Inr u, st1, s1) \<Longrightarrow>
     length (stream_bytes s1) < length (stream_bytes s)"
  by (auto simp: read_header_stage_def read_one_byte_ok split: prod.splits sum.splits)

lemma read_exact_packet_stages:
  assumes "read_exact_packet tgt t budget st s = (Inr hb, st', s')"
  shows "\<exists>d u v st1 s1 st2 s2. st \<noteq> Poisoned \<and> read_header_stage d st s = (Inr u, st1, s1)
    \<and> read_length_stage tgt d st1 s1 = (Inr v, st2, s2)
    \<and> read_payload_stage d st2 s2 = (Inr hb, st', s')"
  using assms by (auto simp: read_exact_packet_def Let_def split: if_splits prod.splits sum.splits)
    blast+

lemma read_exact_packet_frame:
  "read_exact_packet tgt t budget st s = (r, st', s') \<Longrightarrow>
     length (stream_bytes s') \<le> length (stream_bytes s) \<and> outbound s' = outbound s"
  by (fastforce simp: read_exact_packet_def Let_def dest: read_stages_frame
      split: if_splits prod.splits sum.splits)

lemma read_exact_packet_progress:
  assumes "read_exact_packet tgt t budget st s = (Inr hb, st', s')"
  shows "st' = Idle" "st = Idle \<Longrightarrow> length (stream_bytes s') < length (stream_bytes s)"
proof -
  from read_exact_packet_stages [OF assms] obtain d u v st1 s1 st2 s2 where
    h: "read_header_stage d st s = (Inr u, st1, s1)"
    and l: "read_length_stage tgt d st1 s1 = (Inr v, st2, s2)"
    and p: "read_payload_stage d st2 s2 = (Inr hb, st', s')"
    by blast
  from p show "st' = Idle"
    by (auto simp: read_payload_stage_def split: frame_read_state.splits prod.splits option.splits)
  show "length (stream_bytes s') < length (stream_bytes s)" if "st = Idle"
    using read_header_stage_takes [of d s u st1 s1] h l p that read_stages_frame by fastforce
qed

context chunk_invariant
begin

lemma one_byte: "read_one_byte deadline s = (r, s') \<Longrightarrow> P s \<Longrightarrow> P s'"
  by (auto simp: read_one_byte_def dest: chunk split: prod.splits sum.splits)

lemma remaining_length:
  "read_remaining_length deadline h v m s = (r, st', s') \<Longrightarrow> P s \<Longrightarrow> P s'"
proof (induction "length (stream_bytes s)" arbitrary: s v m rule: less_induct)
  case less
  obtain x s1 where x: "read_one_byte deadline s = (x, s1)" by (metis surj_pair)
  note p = one_byte [OF x less.prems(2)]
  show ?case
  proof (cases x)
    case (Inl e)
    with x less.prems p show ?thesis by (simp add: io_simps)
  next
    case (Inr b)
    with x have "length (stream_bytes s1) < length (stream_bytes s)"
      by (simp add: read_one_byte_ok)
    from less.hyps [OF this _ p] x Inr less.prems p show ?thesis
      by (cases "b AND 128 = 0"; cases "m * 128 > 2097152") (auto simp: io_simps)
  qed
qed

lemma want: "fill_want deadline remaining buf s = (r, buf', s') \<Longrightarrow> P s \<Longrightarrow> P s'"
proof (induction remaining arbitrary: buf s rule: less_induct)
  case (less remaining)
  obtain x s1 where x: "read_chunk (min remaining READ_SCRATCH_BYTES) deadline s = (x, s1)"
    by (metis surj_pair)
  note p = chunk [OF x less.prems(2)]
  show ?case
  proof (cases "remaining = 0 \<or> (\<exists>e. x = Inl e)")
    case True
    with x less.prems p show ?thesis
      by (auto simp: fill_want.simps [of deadline remaining] split: if_splits)
  next
    case False
    then obtain bs where bs: "remaining \<noteq> 0" "x = Inr bs" by (cases x) auto
    with read_chunk_ok(1) x have "remaining - length bs < remaining" by fastforce
    from less.IH [OF this _ p] bs x less.prems(1) show ?thesis
      by (auto simp: fill_want.simps [of deadline remaining])
  qed
qed

lemma payload: "fill_payload deadline n buf s = (r, buf', s') \<Longrightarrow> P s \<Longrightarrow> P s'"
proof (induction "n - length buf" arbitrary: buf s rule: less_induct)
  case less
  let ?want = "min (n - length buf) PAYLOAD_GROWTH_CHUNK"
  obtain x b1 s1 where x: "fill_want deadline ?want buf s = (x, b1, s1)" by (metis prod_cases3)
  note p = want [OF x less.prems(2)]
  show ?case
  proof (cases "length buf < n \<and> x = None")
    case True
    with fill_want_appends [OF x] have "n - length b1 < n - length buf" by auto
    from less.hyps [OF this _ p] True x less.prems(1) show ?thesis
      by (auto simp: fill_payload.simps [of deadline n buf] Let_def)
  next
    case False
    with x less.prems p show ?thesis
      by (auto simp: fill_payload.simps [of deadline n buf] Let_def split: if_splits option.splits)
  qed
qed

lemma stages:
  "read_header_stage deadline st s = (a, st1, s1) \<Longrightarrow> P s \<Longrightarrow> P s1"
  "read_length_stage tgt deadline st s = (a, st1, s1) \<Longrightarrow> P s \<Longrightarrow> P s1"
  "read_payload_stage deadline st s = (b, st1, s1) \<Longrightarrow> P s \<Longrightarrow> P s1"
  by (auto simp: read_header_stage_def read_length_stage_def read_payload_stage_def
      intro: one_byte remaining_length payload
      split: frame_read_state.splits prod.splits sum.splits if_splits option.splits)

lemma packet:
  assumes "read_exact_packet tgt t budget st s = (r, st', s')"
    "ftps_deadline_from_ms t budget s = deadline" "P s"
  shows "P s'"
proof -
  obtain a st1 s1 where h: "read_header_stage deadline st s = (a, st1, s1)" by (metis prod_cases3)
  obtain b st2 s2 where l: "read_length_stage tgt deadline st1 s1 = (b, st2, s2)" by (metis prod_cases3)
  obtain x st3 s3 where p: "read_payload_stage deadline st2 s2 = (x, st3, s3)" by (metis prod_cases3)
  note P1 = stages(1) [OF h assms(3)]
  note P2 = stages(2) [OF l P1]
  note P3 = stages(3) [OF p P2]
  show ?thesis
    using assms h l p P1 P2 P3 by (auto simp: read_exact_packet_def split: if_splits sum.splits)
qed

end

text \<open>Evaluation of the reader on a concrete script.\<close>

lemmas frame_eval = io_eval Let_def read_exact_packet_def read_header_stage_def
  read_length_stage_def read_payload_stage_def read_one_byte_def read_remaining_length.simps
  fill_payload.simps fill_want.simps

lemmas encode_eval = frame_def encode_remaining_length.simps

text \<open>A frame that is all there is delivered.\<close>

lemma read_exact_packet_delivers:
  assumes "smooth s" "stream_bytes s = frame h body @ rest"
    "length body \<le> MQTT_MAX_PAYLOAD_BYTES tgt"
  shows "\<exists>s'. read_exact_packet tgt DummyTimer budget Idle s = (Inr (h, body), Idle, s')
    \<and> stream_bytes s' = rest"
proof -
  obtain r st' s' where r: "read_exact_packet tgt DummyTimer budget Idle s = (r, st', s')"
    by (metis prod_cases3)
  from read_exact_packet_accounts [OF _ r, of "[]"] obtain u p where
    u: "frame h body @ rest = u @ p @ stream_bytes s'" "frame_holds tgt st' p" "frame_accounts tgt r u"
    using assms(2) by auto
  show ?thesis
  proof (cases r)
    case (Inl e)
    with read_exact_packet_smooth [OF assms(1) r [unfolded Inl], of "[]"]
      frame_holds_whole [OF u(2) _ assms(3), of "stream_bytes s'" h rest] u
    show ?thesis by auto
  next
    case (Inr hb)
    with r have "st' = Idle"
      by (auto simp: read_exact_packet_def read_payload_stage_def Let_def
          split: if_splits prod.splits sum.splits frame_read_state.splits option.splits)
    moreover obtain h1 b1 where "hb = (h1, b1)" by (metis surj_pair)
    ultimately show ?thesis
      using u Inr r frame_wire_unique [of tgt h1 b1 u "p @ stream_bytes s'" h body rest] by auto
  qed
qed

section \<open>Properties\<close>

text \<open>C1. Whatever the timing of the peer and however many calls time out on the way, the frames
  \<open>read_exact_packet\<close> returns are the frames the peer sent, in order, none lost, repeated or
  altered; what has been read of an unfinished frame is kept in the reader's state.\<close>

theorem mqtt_frames_in_order:
  assumes "calls (\<lambda>st s. read_exact_packet tgt t budget st s) n Idle s = (rs, st', s')"
    and "stream_bytes s = concat (map (\<lambda>(h, b). frame h b) fs)"
  shows "\<exists>fs' p. fs = oks rs @ fs' \<and> frame_holds tgt st' p
    \<and> p @ stream_bytes s' = concat (map (\<lambda>(h, b). frame h b) fs')"
proof -
  from mqtt_reader.calls_account [OF _ assms(1), of "[]"] obtain us p where
    "stream_bytes s = concat us @ (p @ stream_bytes s')" "frame_holds tgt st' p"
    "list_all2 (frame_accounts tgt) rs us"
    by auto
  with accounted_frames_prefix [of tgt rs us "p @ stream_bytes s'" fs] assms(2) show ?thesis
    by auto
qed

text \<open>Two frames arrive in two pieces; the first call times out inside the first frame.\<close>

theorem mqtt_frames_in_order_witness:
  "\<exists>rs st' s' fs' p.
     calls (\<lambda>st s. read_exact_packet Host PlatformTimer 50 st s) 2 Idle
       \<lparr>now = 0, sleep_error = None,
        inbound = [(10, PeerData [0x30, 2, 1]), (80, PeerData [2, 0x40, 1, 7])],
        write_script = [], outbound = []\<rparr> = (rs, st', s')
     \<and> rs = [Inl TimedOut, Inr (0x30, [1, 2])]
     \<and> [(0x30, [1, 2]), (0x40, [7])] = oks rs @ fs'
     \<and> p @ stream_bytes s' = concat (map (\<lambda>(h, b). frame h b) fs')"
proof -
  let ?step = "\<lambda>st s. read_exact_packet Host PlatformTimer 50 st s"
  let ?s = "\<lparr>now = 0, sleep_error = None,
    inbound = [(10, PeerData [0x30, 2, 1]), (80, PeerData [2, 0x40, 1, 7])],
    write_script = [], outbound = []\<rparr> :: io"
  let ?s1 = "\<lparr>now = 50, sleep_error = None, inbound = [(40, PeerData [2, 0x40, 1, 7])],
    write_script = [], outbound = []\<rparr> :: io"
  let ?s2 = "\<lparr>now = 90, sleep_error = None, inbound = [(0, PeerData [0x40, 1, 7])],
    write_script = [], outbound = []\<rparr> :: io"
  have 1: "?step Idle ?s = (Inl TimedOut, ReadingPayload 0x30 [1] 2, ?s1)"
    by (simp add: frame_eval)
  have 2: "?step (ReadingPayload 0x30 [1] 2) ?s1 = (Inr (0x30, [1, 2]), Idle, ?s2)"
    by (simp add: frame_eval)
  have c: "calls ?step 2 Idle ?s = ([Inl TimedOut, Inr (0x30, [1, 2])], Idle, ?s2)"
    unfolding numeral_2_eq_2 by (intro calls_one [where step = ?step, OF 1] calls_one [where step = ?step, OF 2]) simp
  have "stream_bytes ?s = concat (map (\<lambda>(h, b). frame h b) [(0x30, [1, 2]), (0x40, [7])])"
    by (simp add: stream_bytes_def encode_eval)
  from mqtt_frames_in_order [OF c this] c show ?thesis by blast
qed

text \<open>C9. On a stream that delivers its bytes, in whatever pieces, a frame within the payload limit
  is returned whole and the reader is left at the first byte after it.\<close>

theorem mqtt_frame_delivered:
  assumes "smooth s" "stream_bytes s = frame h body @ rest"
    "length body \<le> MQTT_MAX_PAYLOAD_BYTES tgt"
  shows "\<exists>s'. read_exact_packet tgt DummyTimer budget Idle s = (Inr (h, body), Idle, s')
    \<and> stream_bytes s' = rest"
  by (rule read_exact_packet_delivers [OF assms])

theorem mqtt_frame_delivered_witness:
  "\<exists>s'. read_exact_packet Embedded DummyTimer 0 Idle
       \<lparr>now = 0, sleep_error = None, inbound = [(5, PeerData [0x40, 2]), (7, PeerData [1, 2, 0xD0])],
        write_script = [], outbound = []\<rparr> = (Inr (0x40, [1, 2]), Idle, s')
     \<and> stream_bytes s' = [0xD0]"
  by (rule mqtt_frame_delivered) (simp_all add: smooth_def stream_bytes_def encode_eval)

text \<open>A frame that declares more than the payload limit is refused before any of its payload is
  read, and the reader is poisoned: every later call fails at once and takes nothing off the
  stream.\<close>

theorem mqtt_oversize_poisons:
  assumes "smooth s" "stream_bytes s = h # encode_remaining_length n @ rest"
    "MQTT_MAX_PAYLOAD_BYTES tgt < n" "n \<le> MQTT_MAX_REMAINING_LENGTH"
  shows "\<exists>s'. read_exact_packet tgt DummyTimer budget Idle s = (Inl InvalidInput, Poisoned, s')
    \<and> stream_bytes s' = rest
    \<and> (\<forall>t b s2. read_exact_packet tgt t b Poisoned s2 = (Inl InvalidInput, Poisoned, s2))"
proof -
  obtain r st' s' where r: "read_exact_packet tgt DummyTimer budget Idle s = (r, st', s')"
    by (metis prod_cases3)
  from read_exact_packet_accounts [OF _ r, of "[]"] obtain u p where
    u: "h # encode_remaining_length n @ rest = u @ p @ stream_bytes s'" "frame_holds tgt st' p"
    "frame_accounts tgt r u"
    using assms(2) by auto
  note whole = decode_prefix_whole [of _ _ _ n rest]
  have "\<exists>e. r = Inl e"
  proof (cases r)
    case (Inr hb)
    with u(3) obtain h1 vs b1 where "u = h1 # vs @ b1" "decode_remaining_length vs = Some (length b1, [])"
      "length b1 \<le> MQTT_MAX_PAYLOAD_BYTES tgt"
      by (cases hb) (auto simp: frame_wire_def varint_of_def)
    with u(1) assms(3) whole [of vs "length b1" "b1 @ p @ stream_bytes s'"] show ?thesis by auto
  qed simp
  then obtain e where e: "r = Inl e" ..
  with u have p: "h # encode_remaining_length n @ rest = p @ stream_bytes s'" by simp
  have "st' = Poisoned"
  proof (rule ccontr)
    assume np: "st' \<noteq> Poisoned"
    with read_exact_packet_smooth [OF assms(1) r [unfolded e], of "[]"] have "stream_bytes s' = []"
      by simp
    with p have "p = h # encode_remaining_length n @ rest" by simp
    with np u(2) assms(3) whole [of _ _ _] decode_more_follow_None decode_encode_remaining_length
    show False by (cases st') (fastforce simp: varint_of_def)+
  qed
  moreover from this u(2) obtain h2 vs where "p = h2 # vs"
    and c: "more_follow vs \<and> length vs = 4 \<or> (\<exists>n. varint_of vs n \<and> MQTT_MAX_PAYLOAD_BYTES tgt < n)"
    by auto
  moreover from this(1) p have v: "vs @ stream_bytes s' = encode_remaining_length n @ rest" by simp
  ultimately have "stream_bytes s' = rest"
    using more_follow_not_varint [OF _ _ v assms(4)] whole [OF _ v] by (auto simp: varint_of_def)
  with \<open>st' = Poisoned\<close> r e read_exact_packet_poisoned show ?thesis
    by (fastforce simp: read_exact_packet_def)
qed

theorem mqtt_oversize_poisons_witness:
  "\<exists>s'. read_exact_packet Embedded DummyTimer 0 Idle
       \<lparr>now = 0, sleep_error = None, inbound = [(0, PeerData [0x30, 0x81, 0x80, 0x04, 9])],
        write_script = [], outbound = []\<rparr> = (Inl InvalidInput, Poisoned, s')
     \<and> stream_bytes s' = [9]
     \<and> (\<forall>t b s2. read_exact_packet Embedded t b Poisoned s2 = (Inl InvalidInput, Poisoned, s2))"
  by (rule mqtt_oversize_poisons [where n = 65537])
    (simp_all add: smooth_def stream_bytes_def encode_eval)

end
