(* ===== verification/Json.thy ===== *)
theory Json
  imports Complex_Main Prelude
begin

text \<open>
  A JSON document as \<open>serde_json::Value\<close> presents it: objects are maps with unique keys,
  iterated in key order (the crate is built without \<open>preserve_order\<close>), integers that fit
  64 bits are kept as integers and every other number is a finite double, which is a rational.
  \<open>serde_json::from_slice\<close> itself is third-party code: the operations that call it take it as
  an argument.
\<close>

datatype json_number = PosInt nat | NegInt int | Float rat

datatype json =
  JNull | JBool bool | JNumber json_number | JString string | JArray "json list"
  | JObject "(string \<times> json) list"

fun as_object :: "json \<Rightarrow> (string \<times> json) list option" where
  "as_object (JObject m) = Some m"
| "as_object _ = None"

fun as_str :: "json \<Rightarrow> string option" where
  "as_str (JString s) = Some s"
| "as_str _ = None"

fun as_array :: "json \<Rightarrow> json list option" where
  "as_array (JArray xs) = Some xs"
| "as_array _ = None"

text \<open>\<open>Number::as_u64\<close> and \<open>Number::as_i64\<close>: the integers of that range, never a double.\<close>

fun number_as_u64 :: "json_number \<Rightarrow> nat option" where
  "number_as_u64 (PosInt n) = Some n"
| "number_as_u64 _ = None"

fun number_as_i64 :: "json_number \<Rightarrow> int option" where
  "number_as_i64 (PosInt n) = (if n < 9223372036854775808 then Some (int n) else None)"
| "number_as_i64 (NegInt i) = Some i"
| "number_as_i64 (Float _) = None"

fun number_as_f64 :: "json_number \<Rightarrow> rat" where
  "number_as_f64 (PosInt n) = of_nat n"
| "number_as_f64 (NegInt i) = of_int i"
| "number_as_f64 (Float q) = q"

text \<open>\<open>Value::get\<close> with a string key.\<close>

definition jget :: "string \<Rightarrow> json \<Rightarrow> json option" where
  "jget k j = (case j of JObject m \<Rightarrow> map_of m k | _ \<Rightarrow> None)"

lemma jget_object [simp]: "jget k (JObject m) = map_of m k"
  by (simp add: jget_def)

text \<open>\<open>Iterator::find_map\<close>.\<close>

fun find_map :: "('a \<Rightarrow> 'b option) \<Rightarrow> 'a list \<Rightarrow> 'b option" where
  "find_map f [] = None"
| "find_map f (x # xs) = (case f x of None \<Rightarrow> find_map f xs | Some y \<Rightarrow> Some y)"

lemma find_map_SomeD: "find_map f xs = Some y \<Longrightarrow> \<exists>x \<in> set xs. f x = Some y"
  by (induction xs) (auto split: option.splits)

lemma find_map_None: "find_map f xs = None \<longleftrightarrow> (\<forall>x \<in> set xs. f x = None)"
  by (induction xs) (auto split: option.splits)

end
