(* ===== verification/Pending.thy ===== *)
theory Pending
  imports MqttFrame Json "HOL-Library.Sublist"
begin

text \<open>
  The buffer of messages that arrived while a caller was waiting for another one
  (\<open>src/mqtt/client/pending.rs\<close>): a queue with a cap on the bytes it holds, which makes room by
  dropping its oldest entries. The locale \<open>byte_queue\<close> is the contract of such a queue; the
  client's lemmas about any sequence of operations are proved from it.
\<close>

section \<open>Messages\<close>

record mqtt_message =
  m_topic :: string
  m_payload :: bytes

fun MQTT_PENDING_BUFFER_MAX_BYTES :: "target \<Rightarrow> nat" where
  "MQTT_PENDING_BUFFER_MAX_BYTES Host = 2097152"
| "MQTT_PENDING_BUFFER_MAX_BYTES Embedded = 262144"

definition message_size :: "mqtt_message \<Rightarrow> nat" where
  "message_size msg = length (m_topic msg) + length (m_payload msg)"

text \<open>The buffer of the client: the messages and their accounted size.\<close>

record pending =
  pending_messages :: "mqtt_message list"
  pending_bytes :: nat

section \<open>Operations\<close>

text \<open>The eviction loop of \<open>push_pending\<close>; \<open>saturating_sub\<close> is the \<open>-\<close> of \<open>nat\<close>.\<close>

fun evict :: "nat \<Rightarrow> nat \<Rightarrow> mqtt_message list \<Rightarrow> nat \<Rightarrow> mqtt_message list \<times> nat" where
  "evict cap incoming [] held = ([], held)"
| "evict cap incoming (m # ms) held =
     (if held + incoming > cap then evict cap incoming ms (held - message_size m)
      else (m # ms, held))"

definition push_pending :: "target \<Rightarrow> mqtt_message \<Rightarrow> pending \<Rightarrow> pending" where
  "push_pending tgt msg p =
     (let incoming = message_size msg;
          (ms, held) = evict (MQTT_PENDING_BUFFER_MAX_BYTES tgt) incoming
            (pending_messages p) (pending_bytes p)
      in \<lparr>pending_messages = ms @ [msg], pending_bytes = held + incoming\<rparr>)"

fun find_index :: "nat \<Rightarrow> ('a \<Rightarrow> 'b option) \<Rightarrow> 'a list \<Rightarrow> (nat \<times> 'b) option" where
  "find_index i f [] = None"
| "find_index i f (x # xs) =
     (case f x of Some r \<Rightarrow> Some (i, r) | None \<Rightarrow> find_index (Suc i) f xs)"

definition take_pending_matching ::
  "(mqtt_message \<Rightarrow> 'b option) \<Rightarrow> pending \<Rightarrow> 'b option \<times> pending" where
  "take_pending_matching matcher p =
     (case find_index 0 matcher (pending_messages p) of
        None \<Rightarrow> (None, p)
      | Some (i, r) \<Rightarrow>
          (Some r,
           \<lparr>pending_messages = take i (pending_messages p) @ drop (Suc i) (pending_messages p),
            pending_bytes = pending_bytes p - message_size (pending_messages p ! i)\<rparr>))"

definition take_pending :: "pending \<Rightarrow> mqtt_message option \<times> pending" where
  "take_pending p =
     (case pending_messages p of
        [] \<Rightarrow> (None, p)
      | m # ms \<Rightarrow>
          (Some m, \<lparr>pending_messages = ms, pending_bytes = pending_bytes p - message_size m\<rparr>))"

section \<open>The contract\<close>

text \<open>A run of a queue: pushes (\<open>Some m\<close>) and pops (\<open>None\<close>), with what the pops returned.\<close>

fun queue_run :: "('m \<Rightarrow> 'q \<Rightarrow> 'q) \<Rightarrow> ('q \<Rightarrow> 'm option \<times> 'q) \<Rightarrow> 'm option list \<Rightarrow> 'q
    \<Rightarrow> 'm list \<times> 'q" where
  "queue_run push pop [] q = ([], q)"
| "queue_run push pop (Some m # ops) q = queue_run push pop ops (push m q)"
| "queue_run push pop (None # ops) q =
     (case pop q of (r, q1) \<Rightarrow>
      case queue_run push pop ops q1 of (out, q') \<Rightarrow>
        ((case r of None \<Rightarrow> out | Some m \<Rightarrow> m # out), q'))"

fun pushed :: "'m option list \<Rightarrow> 'm list" where
  "pushed [] = []"
| "pushed (Some m # ops) = m # pushed ops"
| "pushed (None # ops) = pushed ops"

text \<open>
  \<open>items q\<close> are the entries, oldest first. A push appends, after dropping some of the oldest, and
  drops none when the new entry fits; a take returns the oldest; taking a match removes one entry
  and keeps the order of the others. The accounted size is always the true one.
\<close>

locale byte_queue =
  fixes items :: "'q \<Rightarrow> 'm list"
    and used :: "'q \<Rightarrow> nat"
    and cost :: "'m \<Rightarrow> nat"
    and cap :: nat
    and push :: "'m \<Rightarrow> 'q \<Rightarrow> 'q"
    and pop :: "'q \<Rightarrow> 'm option \<times> 'q"
  assumes push_items: "used q = sum_list (map cost (items q)) \<Longrightarrow>
      \<exists>n. items (push m q) = drop n (items q) @ [m]
        \<and> (n = 0 \<longleftrightarrow> items q = [] \<or> used q + cost m \<le> cap)"
    and push_used: "used q = sum_list (map cost (items q)) \<Longrightarrow>
      used (push m q) = sum_list (map cost (items (push m q)))"
    and push_cap: "used q = sum_list (map cost (items q)) \<Longrightarrow> cost m \<le> cap \<Longrightarrow>
      used (push m q) \<le> cap"
    and pop_items: "pop q = (r, q') \<Longrightarrow>
      (case items q of [] \<Rightarrow> r = None \<and> q' = q | m # ms \<Rightarrow> r = Some m \<and> items q' = ms)"
    and pop_used: "used q = sum_list (map cost (items q)) \<Longrightarrow> pop q = (r, q') \<Longrightarrow>
      used q' = sum_list (map cost (items q'))"
begin

definition sound :: "'q \<Rightarrow> bool" where
  "sound q \<longleftrightarrow> used q = sum_list (map cost (items q))"

lemma sound_push: "sound q \<Longrightarrow> sound (push m q)"
  using push_used by (simp add: sound_def)

lemma sound_pop: "sound q \<Longrightarrow> pop q = (r, q') \<Longrightarrow> sound q'"
  using pop_used by (simp add: sound_def)

lemma run_sound: "sound q \<Longrightarrow> queue_run push pop ops q = (out, q') \<Longrightarrow> sound q'"
  by (induction ops arbitrary: q out rule: pushed.induct)
    (auto dest: sound_push sound_pop split: prod.splits)

lemma pop_le_used:
  assumes "sound q" "pop q = (r, q')"
  shows "used q' \<le> used q"
  using pop_items [OF assms(2)] assms(1) sound_pop [OF assms]
  by (cases "items q") (auto simp: sound_def)

text \<open>Within the cap at every point, if every entry alone is.\<close>

lemma run_capped:
  "sound q \<Longrightarrow> used q \<le> cap \<Longrightarrow> \<forall>m \<in> set (pushed ops). cost m \<le> cap \<Longrightarrow>
     queue_run push pop ops q = (out, q') \<Longrightarrow> used q' \<le> cap"
proof (induction ops arbitrary: q out rule: pushed.induct)
  case (2 m ops)
  have "used (push m q) \<le> cap" using "2.prems" push_cap [of q m] by (simp add: sound_def)
  show ?case using "2.IH" [OF sound_push] "2.prems" \<open>used (push m q) \<le> cap\<close> by auto
next
  case (3 ops)
  obtain r q1 where p: "pop q = (r, q1)" by (metis surj_pair)
  with "3.prems" obtain out1 where r: "queue_run push pop ops q1 = (out1, q')" by (auto split: prod.splits)
  show ?case
    using "3.IH" [OF _ _ _ r] "3.prems" sound_pop [OF _ p] pop_le_used [OF _ p]
    by simp
qed simp

text \<open>Entries come out in the order they went in; none twice, none made up.\<close>

lemma run_fifo:
  "sound q \<Longrightarrow> queue_run push pop ops q = (out, q') \<Longrightarrow> subseq (out @ items q') (items q @ pushed ops)"
proof (induction ops arbitrary: q out rule: pushed.induct)
  case (2 m ops)
  obtain n where n: "items (push m q) = drop n (items q) @ [m]"
    using push_items [of q m] "2.prems" by (auto simp: sound_def)
  have "subseq (drop n (items q) @ [m] @ pushed ops) (items q @ [m] @ pushed ops)"
    by (intro list_emb_append_mono) (simp_all add: suffix_drop suffix_imp_subseq)
  moreover have "subseq (out @ items q') (items (push m q) @ pushed ops)"
    using "2.IH" [of "push m q" out] "2.prems" sound_push by auto
  ultimately show ?case using n by (simp add: subseq_order.order_trans)
next
  case (3 ops)
  obtain r q1 where p: "pop q = (r, q1)" by (metis surj_pair)
  with "3.prems" obtain out1 where r: "queue_run push pop ops q1 = (out1, q')"
    and out: "out = (case r of None \<Rightarrow> out1 | Some m \<Rightarrow> m # out1)"
    by (auto split: prod.splits)
  note ih = "3.IH" [OF sound_pop [OF "3.prems"(1) p] r]
  show ?case using ih out pop_items [OF p] by (cases "items q") auto
qed simp

end

section \<open>The model keeps it\<close>

lemma evict_result:
  "held = sum_list (map message_size ms) \<Longrightarrow> evict cap incoming ms held = (ms', held') \<Longrightarrow>
     held' = sum_list (map message_size ms') \<and> (ms' = [] \<or> held' + incoming \<le> cap)
     \<and> (\<exists>n. ms' = drop n ms \<and> (n = 0 \<longleftrightarrow> ms = [] \<or> held + incoming \<le> cap))"
proof (induction cap incoming ms held rule: evict.induct)
  case (2 cap incoming m ms held)
  show ?case
  proof (cases "held + incoming > cap")
    case True
    with "2.prems" have "evict cap incoming ms (held - message_size m) = (ms', held')" by simp
    with "2.IH" [OF True] "2.prems"(1) have "held' = sum_list (map message_size ms')
      \<and> (ms' = [] \<or> held' + incoming \<le> cap) \<and> (\<exists>n. ms' = drop n ms)"
      by simp blast
    then obtain n where r: "held' = sum_list (map message_size ms')" "ms' = [] \<or> held' + incoming \<le> cap" "ms' = drop n ms"
      by blast
    with True have "ms' = drop (Suc n) (m # ms) \<and> (Suc n = 0 \<longleftrightarrow> m # ms = [] \<or> held + incoming \<le> cap)"
      by simp
    with r show ?thesis by blast
  next
    case False
    with "2.prems" show ?thesis by (intro conjI exI [of _ 0]) auto
  qed
qed auto

interpretation pq: byte_queue pending_messages pending_bytes message_size
  "MQTT_PENDING_BUFFER_MAX_BYTES tgt" "push_pending tgt" take_pending for tgt
proof
  fix q :: pending and m and r :: "mqtt_message option" and q'
  obtain ms held where e: "evict (MQTT_PENDING_BUFFER_MAX_BYTES tgt) (message_size m)
      (pending_messages q) (pending_bytes q) = (ms, held)"
    by (metis surj_pair)
  {
    assume "pending_bytes q = sum_list (map message_size (pending_messages q))"
    note ev = evict_result [OF this e]
    show "\<exists>n. pending_messages (push_pending tgt m q) = drop n (pending_messages q) @ [m]
        \<and> (n = 0 \<longleftrightarrow> pending_messages q = []
            \<or> pending_bytes q + message_size m \<le> MQTT_PENDING_BUFFER_MAX_BYTES tgt)"
      using e ev by (auto simp: push_pending_def)
    show "pending_bytes (push_pending tgt m q)
        = sum_list (map message_size (pending_messages (push_pending tgt m q)))"
      using e ev by (simp add: push_pending_def)
    show "pending_bytes (push_pending tgt m q) \<le> MQTT_PENDING_BUFFER_MAX_BYTES tgt"
      if "message_size m \<le> MQTT_PENDING_BUFFER_MAX_BYTES tgt"
      using that e ev by (auto simp: push_pending_def)
  next
    assume p: "take_pending q = (r, q')"
    then show "case pending_messages q of [] \<Rightarrow> r = None \<and> q' = q
        | m # ms \<Rightarrow> r = Some m \<and> pending_messages q' = ms"
      by (auto simp: take_pending_def split: list.splits)
    show "pending_bytes q' = sum_list (map message_size (pending_messages q'))"
      if "pending_bytes q = sum_list (map message_size (pending_messages q))"
      using p that by (auto simp: take_pending_def split: list.splits)
  }
qed

lemma find_index_SomeD:
  "find_index i f xs = Some (j, r) \<Longrightarrow>
     \<exists>k. j = i + k \<and> k < length xs \<and> f (xs ! k) = Some r \<and> (\<forall>x \<in> set (take k xs). f x = None)"
proof (induction xs arbitrary: i)
  case (Cons x xs)
  show ?case
  proof (cases "f x")
    case None
    with Cons.prems have "find_index (Suc i) f xs = Some (j, r)" by simp
    with Cons.IH obtain k where "j = Suc i + k" "k < length xs" "f (xs ! k) = Some r"
      "\<forall>x \<in> set (take k xs). f x = None"
      by blast
    with None show ?thesis by (intro exI [of _ "Suc k"]) auto
  next
    case (Some r')
    with Cons.prems show ?thesis by (intro exI [of _ 0]) auto
  qed
qed simp

lemma find_index_NoneD: "find_index i f xs = None \<Longrightarrow> \<forall>x \<in> set xs. f x = None"
  by (induction xs arbitrary: i) (auto split: option.splits)

lemma take_pending_matching_cases:
  assumes "take_pending_matching f p = (r, p')"
  shows "(r = None \<and> p' = p \<and> (\<forall>m \<in> set (pending_messages p). f m = None)) \<or>
    (\<exists>xs m ys x. pending_messages p = xs @ m # ys \<and> (\<forall>m \<in> set xs. f m = None) \<and> f m = Some x
      \<and> r = Some x \<and> pending_messages p' = xs @ ys
      \<and> pending_bytes p' = pending_bytes p - message_size m)"
proof (cases "find_index 0 f (pending_messages p)")
  case None
  with assms find_index_NoneD [OF None] show ?thesis by (auto simp: take_pending_matching_def)
next
  case (Some jr)
  obtain j x where jr: "jr = (j, x)" by (metis surj_pair)
  from find_index_SomeD [OF Some [unfolded jr]] have
    j: "j < length (pending_messages p)" "f (pending_messages p ! j) = Some x"
    "\<forall>m \<in> set (take j (pending_messages p)). f m = None"
    by auto
  let ?ms = "pending_messages p"
  from Some jr assms j have "?ms = take j ?ms @ ?ms ! j # drop (Suc j) ?ms \<and> r = Some x
      \<and> pending_messages p' = take j ?ms @ drop (Suc j) ?ms
      \<and> pending_bytes p' = pending_bytes p - message_size (?ms ! j)"
    by (auto simp: take_pending_matching_def id_take_nth_drop [symmetric])
  with j show ?thesis by metis
qed

lemma take_pending_matching_sound:
  assumes "pq.sound p" "take_pending_matching f p = (r, p')"
  shows "pq.sound p' \<and> pending_bytes p' \<le> pending_bytes p"
  using take_pending_matching_cases [OF assms(2)] assms(1)
  by (auto simp: pq.sound_def)

section \<open>Properties\<close>

text \<open>C32. Whatever messages are buffered and taken in whatever order, messages come out in the order
  they arrived, the size the buffer accounts for is the true size of what it holds, and it never
  exceeds its cap.\<close>

theorem pending_buffer_correct:
  assumes "queue_run (push_pending tgt) take_pending ops \<lparr>pending_messages = [], pending_bytes = 0\<rparr> = (out, p)"
    and "\<forall>m \<in> set (pushed ops). message_size m \<le> MQTT_PENDING_BUFFER_MAX_BYTES tgt"
  shows "subseq (out @ pending_messages p) (pushed ops)
    \<and> pending_bytes p = sum_list (map message_size (pending_messages p))
    \<and> pending_bytes p \<le> MQTT_PENDING_BUFFER_MAX_BYTES tgt"
proof -
  let ?q = "\<lparr>pending_messages = [], pending_bytes = 0\<rparr>"
  have s: "pq.sound ?q" by (simp add: pq.sound_def)
  from pq.run_fifo [OF s assms(1)] pq.run_sound [OF s assms(1)] pq.run_capped [OF s _ assms(2,1)]
  show ?thesis by (simp add: pq.sound_def)
qed

theorem pending_buffer_correct_witness:
  "\<exists>p. queue_run (push_pending Embedded) take_pending
      [Some \<lparr>m_topic = ''a'', m_payload = [1, 2]\<rparr>, Some \<lparr>m_topic = ''b'', m_payload = [3]\<rparr>, None]
      \<lparr>pending_messages = [], pending_bytes = 0\<rparr> = ([\<lparr>m_topic = ''a'', m_payload = [1, 2]\<rparr>], p)
    \<and> pending_bytes p = sum_list (map message_size (pending_messages p))
    \<and> pending_bytes p \<le> MQTT_PENDING_BUFFER_MAX_BYTES Embedded"
proof -
  let ?a = "\<lparr>m_topic = ''a'', m_payload = [1, 2]\<rparr>" and ?b = "\<lparr>m_topic = ''b'', m_payload = [3]\<rparr>"
  have r: "queue_run (push_pending Embedded) take_pending [Some ?a, Some ?b, None]
      \<lparr>pending_messages = [], pending_bytes = 0\<rparr>
    = ([?a], \<lparr>pending_messages = [?b], pending_bytes = 2\<rparr>)"
    by (simp add: push_pending_def take_pending_def message_size_def)
  from pending_buffer_correct [OF r] r show ?thesis
    by (simp add: message_size_def)
qed

end
