(* ===== verification/MqttClient.thy ===== *)
theory MqttClient
  imports Pending "HOL-Library.AList"
begin

text \<open>
  The MQTT session (\<open>src/mqtt/client/mod.rs\<close>): the handshake, publishing at QoS 1, the polling
  loop with its automatic acknowledgements and keepalives, the write guard that survives a
  cancelled write, and the watchdog \<open>tick_zombie_check\<close>.

  The fields \<open>pending_messages\<close> and \<open>pending_bytes\<close> of the client are the record \<open>pending\<close>.
  The map \<open>in_flight\<close> is an association list with distinct keys. \<open>js\<close> is
  \<open>serde_json::from_slice\<close>. A future dropped at an \<open>await\<close> is modelled where it matters, in the
  middle of a write, by the \<open>_cancelled\<close> operations.
\<close>

abbreviation (input) MQTT_IN_FLIGHT_LIMIT :: nat where "MQTT_IN_FLIGHT_LIMIT \<equiv> 200"
abbreviation (input) MQTT_IN_FLIGHT_TTL_SECS :: nat where "MQTT_IN_FLIGHT_TTL_SECS \<equiv> 120"
abbreviation (input) MQTT_ZOMBIE_TIMEOUT_SECS :: nat where "MQTT_ZOMBIE_TIMEOUT_SECS \<equiv> 10"
abbreviation (input) MQTT_STALE_CONNECTION_SECS :: nat where "MQTT_STALE_CONNECTION_SECS \<equiv> 60"
abbreviation (input) MQTT_PING_INTERVAL_SECS :: nat where "MQTT_PING_INTERVAL_SECS \<equiv> 20"
abbreviation (input) MQTT_READ_TIMEOUT_SECS :: nat where "MQTT_READ_TIMEOUT_SECS \<equiv> 30"
abbreviation (input) MQTT_WRITE_TIMEOUT_SECS :: nat where "MQTT_WRITE_TIMEOUT_SECS \<equiv> 30"
abbreviation (input) SUBSCRIBE_PACKET_ID :: u16 where "SUBSCRIBE_PACKET_ID \<equiv> 1"

text \<open>\<open>a += b\<close> on \<open>u32\<close>, which wraps in a release build.\<close>

definition add_u32 :: "nat \<Rightarrow> nat \<Rightarrow> nat" where
  "add_u32 a b = (a + b) mod 4294967296"

section \<open>State\<close>

record echo_key =
  ek_command :: string
  ek_sequence_id :: nat

record mqtt_client =
  mq_stream :: io
  request_topic :: string
  mq_serial :: string
  next_packet_id :: u16
  in_flight :: "(u16 \<times> nat) list"
  mq_pending :: pending
  write_pending_secs :: "nat option"
  write_pending_echo :: "echo_key option"
  secs_since_last_message :: nat
  read_state :: frame_read_state
  last_outbound_ms :: "nat option"
  write_poisoned :: bool
  write_in_progress :: bool

definition advance_packet_id :: "u16 \<Rightarrow> u16" where
  "advance_packet_id current = (let next = current + 1 in if next = 0 then 1 else next)"

text \<open>Topics.\<close>

definition report_topic :: "string \<Rightarrow> string" where
  "report_topic serial = ''device/'' @ serial @ ''/report''"

definition request_topic_of :: "string \<Rightarrow> string" where
  "request_topic_of serial = ''device/'' @ serial @ ''/request''"

section \<open>Command echoes\<close>

fun parse_sequence_id :: "json \<Rightarrow> nat option" where
  "parse_sequence_id (JString s) = parse_u32 (trim s)"
| "parse_sequence_id (JNumber n) =
     (case number_as_u64 n of None \<Rightarrow> None
      | Some k \<Rightarrow> if k < 4294967296 then Some k else None)"
| "parse_sequence_id _ = None"

definition echo_of_member :: "json \<Rightarrow> echo_key option" where
  "echo_of_member inner =
     (case jget ''command'' inner of None \<Rightarrow> None
      | Some c \<Rightarrow>
     (case as_str c of None \<Rightarrow> None
      | Some command \<Rightarrow>
     (case jget ''sequence_id'' inner of None \<Rightarrow> None
      | Some q \<Rightarrow>
     (case parse_sequence_id q of None \<Rightarrow> None
      | Some n \<Rightarrow> Some \<lparr>ek_command = command, ek_sequence_id = n\<rparr>))))"

definition echo_key :: "(bytes \<Rightarrow> json option) \<Rightarrow> bytes \<Rightarrow> echo_key option" where
  "echo_key js payload =
     (case js payload of None \<Rightarrow> None
      | Some v \<Rightarrow>
     (case as_object v of None \<Rightarrow> None
      | Some m \<Rightarrow> find_map (\<lambda>(k, inner). echo_of_member inner) m))"

text \<open>\<open>ACK_CORRELATED_COMMANDS\<close>: the commands the firmware echoes, by their wire names.\<close>

definition ack_correlated_commands :: "string list" where
  "ack_correlated_commands =
     [''pause'', ''resume'', ''stop'', ''gcode_line'', ''clean_print_error'', ''calibration'',
      ''print_speed'', ''ledctrl'', ''ams_filament_setting'', ''ams_filament_drying'',
      ''extrusion_cali_get'', ''extrusion_cali_set'', ''extrusion_cali_sel'',
      ''extrusion_cali_del'', ''get_version'', ''skip_objects'', ''project_file'',
      ''ams_control'', ''ams_get_rfid'', ''ams_change_filament'', ''set_airduct'',
      ''print_option'', ''buzzer_ctrl'', ''get_access_code'',
      ''set_against_continued_heating_mode'']"

definition command_echoes :: "string \<Rightarrow> bool" where
  "command_echoes command = (command \<in> set ack_correlated_commands)"

section \<open>Writing\<close>

definition network :: "(socket_error + 'a) \<times> io \<Rightarrow> (error + 'a) \<times> io" where
  "network x = (case x of (Inl e, s) \<Rightarrow> (Inl (Network e), s) | (Inr a, s) \<Rightarrow> (Inr a, s))"

text \<open>A frame is a \<open>write_all\<close> and a \<open>flush\<close>.\<close>

definition write_frame :: "bytes \<Rightarrow> io \<Rightarrow> (error + unit) \<times> io" where
  "write_frame packet s = network (write_ops None [packet, []] s)"

definition write_frame_with_timer :: "timer \<Rightarrow> bytes \<Rightarrow> io \<Rightarrow> (error + unit) \<times> io" where
  "write_frame_with_timer t packet s =
     (if \<not> has_real_clock t then write_frame packet s
      else network (write_ops (Some (sleep_race (MQTT_WRITE_TIMEOUT_SECS * 1000) s)) [packet, []] s))"

definition note_cancelled :: "mqtt_client \<Rightarrow> mqtt_client" where
  "note_cancelled c = (if write_in_progress c then c\<lparr>write_poisoned := True\<rparr> else c)"

definition write_frame_guarded ::
  "timer \<Rightarrow> bytes \<Rightarrow> mqtt_client \<Rightarrow> (error + unit) \<times> mqtt_client" where
  "write_frame_guarded t packet c0 =
     (let c = note_cancelled c0 in
      if write_poisoned c then (Inl (Network ConnectionAborted), c)
      else case write_frame_with_timer t packet (mq_stream c) of
        (r, s) \<Rightarrow>
          let c = c\<lparr>mq_stream := s, write_in_progress := False\<rparr> in
          case r of
            Inl e \<Rightarrow> (Inl e, c\<lparr>write_poisoned := True\<rparr>)
          | Inr _ \<Rightarrow>
              (Inr (), if has_real_clock t
                       then c\<lparr>last_outbound_ms := Some (now_millis t (mq_stream c))\<rparr> else c))"

text \<open>The write side is dead: poisoned, or about to be when the next write is tried.\<close>

definition dead :: "mqtt_client \<Rightarrow> bool" where
  "dead c \<longleftrightarrow> write_poisoned c \<or> write_in_progress c"

text \<open>The same call dropped while its write is pending, after \<open>k\<close> bytes of the packet.\<close>

definition write_frame_cancelled :: "nat \<Rightarrow> bytes \<Rightarrow> mqtt_client \<Rightarrow> mqtt_client" where
  "write_frame_cancelled k packet c0 =
     (let c = note_cancelled c0 in
      if write_poisoned c then c
      else c\<lparr>write_in_progress := True, mq_stream := sent 0 (take k packet) (mq_stream c)\<rparr>)"

section \<open>Handshake\<close>

definition read_expect ::
  "target \<Rightarrow> frame_read_state \<Rightarrow> u8 \<Rightarrow> string \<Rightarrow> nat \<Rightarrow> io
     \<Rightarrow> (error + bytes) \<times> frame_read_state \<times> io" where
  "read_expect tgt st packet_type what min_len s =
     (case read_exact_packet tgt DummyTimer (MQTT_READ_TIMEOUT_SECS * 1000) st s of
        (Inl e, st', s') \<Rightarrow> (Inl (Network e), st', s')
      | (Inr (header, body), st', s') \<Rightarrow>
          (if drop_bit 4 header \<noteq> packet_type
           then Inl (ProtocolViolation (''expected '' @ what @ '' frame, got packet type ''
                  @ dec (unat (drop_bit 4 header))))
           else if length body < min_len
           then Inl (ProtocolViolation (''short '' @ what @ '' payload ('' @ dec (length body)
                  @ '' bytes)''))
           else Inr body, st', s'))"

definition with_stream :: "io \<Rightarrow> string \<Rightarrow> mqtt_client" where
  "with_stream s serial =
     \<lparr>mq_stream = s, request_topic = request_topic_of serial, mq_serial = serial,
      next_packet_id = SUBSCRIBE_PACKET_ID + 1, in_flight = [],
      mq_pending = \<lparr>pending_messages = [], pending_bytes = 0\<rparr>,
      write_pending_secs = None, write_pending_echo = None, secs_since_last_message = 0,
      read_state = Idle, last_outbound_ms = None, write_poisoned = False,
      write_in_progress = False\<rparr>"

text \<open>The verdict on a CONNACK return code.\<close>

definition connack_verdict :: "u8 \<Rightarrow> error option" where
  "connack_verdict rc =
     (if rc = 0 then None
      else if rc = 4 \<or> rc = 5 then Some AccessDenied
      else Some (ProtocolViolation (''Broker rejected connection with CONNACK return code ''
             @ dec (unat rc))))"

text \<open>\<open>conn_id\<close> is the value the process-wide connection counter hands out.\<close>

definition connect :: "target \<Rightarrow> nat \<Rightarrow> string \<Rightarrow> string \<Rightarrow> io \<Rightarrow> (error + mqtt_client) \<times> io" where
  "connect tgt conn_id serial access_code s =
     (let client_id = ''bambino_'' @ serial @ ''_'' @ dec conn_id in
      case write_frame (encode_connect client_id ''bblp'' access_code) s of
        (Inl e, s1) \<Rightarrow> (Inl e, s1)
      | (Inr _, s1) \<Rightarrow>
     (case read_expect tgt Idle PACKET_TYPE_CONNACK ''CONNACK'' 2 s1 of
        (Inl e, st, s2) \<Rightarrow> (Inl e, s2)
      | (Inr body, st, s2) \<Rightarrow>
     (case connack_verdict (body ! 1) of
        Some e \<Rightarrow> (Inl e, s2)
      | None \<Rightarrow>
     (case write_frame (encode_subscribe SUBSCRIBE_PACKET_ID (report_topic serial)) s2 of
        (Inl e, s3) \<Rightarrow> (Inl e, s3)
      | (Inr _, s3) \<Rightarrow>
     (case read_expect tgt st PACKET_TYPE_SUBACK ''SUBACK'' 3 s3 of
        (Inl e, st', s4) \<Rightarrow> (Inl e, s4)
      | (Inr body, st', s4) \<Rightarrow>
          if u16_of_be (body ! 0) (body ! 1) \<noteq> SUBSCRIBE_PACKET_ID
          then (Inl (ProtocolViolation ''SUBACK echoed an unexpected packet id''), s4)
          else if body ! 2 > 2
          then (Inl (ProtocolViolation ''Subscription rejected by physical broker''), s4)
          else (Inr (with_stream s4 serial), s4))))))"

section \<open>Publishing\<close>

text \<open>\<open>publish_keyed\<close> up to its write: the refusals, or the packet id and the packet.\<close>

definition publish_begin ::
  "target \<Rightarrow> bytes \<Rightarrow> mqtt_client \<Rightarrow> (error + u16 \<times> bytes) \<times> mqtt_client" where
  "publish_begin tgt payload c =
     (if length (in_flight c) \<ge> MQTT_IN_FLIGHT_LIMIT then (Inl Backpressure, c)
      else if length payload > MQTT_MAX_PAYLOAD_BYTES tgt
      then (Inl (ProtocolViolation ''MQTT payload exceeds MQTT_MAX_PAYLOAD_BYTES''), c)
      else let packet_id = next_packet_id c in
        (Inr (packet_id, encode_publish_qos1 packet_id (request_topic c) payload),
         c\<lparr>next_packet_id := advance_packet_id packet_id\<rparr>))"

definition publish_keyed ::
  "target \<Rightarrow> timer \<Rightarrow> bytes \<Rightarrow> echo_key option \<Rightarrow> mqtt_client \<Rightarrow> (error + u16) \<times> mqtt_client" where
  "publish_keyed tgt t payload echo c =
     (case publish_begin tgt payload c of
        (Inl e, c1) \<Rightarrow> (Inl e, c1)
      | (Inr (packet_id, packet), c1) \<Rightarrow>
     (case write_frame_guarded t packet c1 of
        (Inl e, c2) \<Rightarrow> (Inl e, c2)
      | (Inr _, c2) \<Rightarrow>
          let c3 = c2\<lparr>in_flight := AList.update packet_id 0 (in_flight c2)\<rparr> in
          (Inr packet_id,
           if write_pending_secs c3 = None
           then c3\<lparr>write_pending_secs := Some 0,
                   write_pending_echo :=
                     (case echo of None \<Rightarrow> None
                      | Some k \<Rightarrow> if command_echoes (ek_command k) then Some k else None)\<rparr>
           else c3)))"

definition publish_command ::
  "(bytes \<Rightarrow> json option) \<Rightarrow> target \<Rightarrow> timer \<Rightarrow> bytes \<Rightarrow> mqtt_client \<Rightarrow> (error + u16) \<times> mqtt_client"
where
  "publish_command js tgt t payload c = publish_keyed tgt t payload (echo_key js payload) c"

definition publish_cancelled :: "target \<Rightarrow> nat \<Rightarrow> bytes \<Rightarrow> mqtt_client \<Rightarrow> mqtt_client" where
  "publish_cancelled tgt k payload c =
     (case publish_begin tgt payload c of
        (Inl e, c1) \<Rightarrow> c1
      | (Inr (packet_id, packet), c1) \<Rightarrow> write_frame_cancelled k packet c1)"

section \<open>Keepalive\<close>

definition send_ping :: "timer \<Rightarrow> mqtt_client \<Rightarrow> (error + unit) \<times> mqtt_client" where
  "send_ping t c = write_frame_guarded t encode_pingreq c"

definition send_keepalive_if_due :: "timer \<Rightarrow> mqtt_client \<Rightarrow> (error + unit) \<times> mqtt_client" where
  "send_keepalive_if_due t c =
     (if \<not> has_real_clock t then (Inr (), c)
      else case last_outbound_ms c of
        None \<Rightarrow> (Inr (), c\<lparr>last_outbound_ms := Some (now_millis t (mq_stream c))\<rparr>)
      | Some since \<Rightarrow>
          if now_millis t (mq_stream c) - since < MQTT_PING_INTERVAL_SECS * 1000 then (Inr (), c)
          else send_ping t c)"

section \<open>Polling\<close>

text \<open>The fields of a PUBLISH packet: topic, QoS, packet id, payload.\<close>

definition parse_publish :: "u8 \<Rightarrow> bytes \<Rightarrow> error + string \<times> u8 \<times> u16 option \<times> bytes" where
  "parse_publish header buf =
     (let qos = qos_of header in
      if length buf < 2 then Inl (ProtocolViolation ''Short publish payload'')
      else let topic_len = unat (u16_of_be (buf ! 0) (buf ! 1)) in
        if length buf < 2 + topic_len then Inl (ProtocolViolation ''Invalid topic length bounds'')
        else case from_utf8 (take topic_len (drop 2 buf)) of
          None \<Rightarrow> Inl (ProtocolViolation ''Non-UTF8 topic name'')
        | Some topic \<Rightarrow>
            let start = 2 + topic_len in
            if qos \<ge> 1 then
              if length buf < start + 2
              then Inl (ProtocolViolation ''Missing packet ID in QoS 1+'')
              else Inr (topic, qos, Some (u16_of_be (buf ! start) (buf ! (start + 1))),
                        drop (start + 2) buf)
            else Inr (topic, qos, None, drop start buf))"

text \<open>A received message settles the pending write, if it is the echo it waits for.\<close>

definition settle_write :: "(bytes \<Rightarrow> json option) \<Rightarrow> bytes \<Rightarrow> mqtt_client \<Rightarrow> mqtt_client" where
  "settle_write js payload c =
     (let should_clear =
        (case write_pending_echo c of
           Some expected \<Rightarrow> echo_key js payload = Some expected
         | None \<Rightarrow> write_pending_secs c \<noteq> None)
      in if should_clear then c\<lparr>write_pending_secs := None, write_pending_echo := None\<rparr> else c)"

text \<open>
  One packet. \<open>Inr None\<close>: nothing for the caller, read on. \<open>Inr (Some (msg, ack))\<close>: a message, to
  be acknowledged with this packet id first.
\<close>

definition dispatch ::
  "(bytes \<Rightarrow> json option) \<Rightarrow> u8 \<Rightarrow> bytes \<Rightarrow> mqtt_client
     \<Rightarrow> (error + (mqtt_message \<times> u16 option) option) \<times> mqtt_client" where
  "dispatch js header buf c =
     (let packet_type = drop_bit 4 header in
      if packet_type = PACKET_TYPE_PUBLISH then
        (case parse_publish header buf of
           Inl e \<Rightarrow> (Inl e, c)
         | Inr (topic, qos, packet_id, payload) \<Rightarrow>
             (Inr (Some (\<lparr>m_topic = topic, m_payload = payload\<rparr>,
                         if qos = 1 then packet_id else None)),
              settle_write js payload c))
      else if packet_type = PACKET_TYPE_PUBACK then
        (if length buf < 2 then (Inl (ProtocolViolation ''Invalid PUBACK length''), c)
         else (Inr None, c\<lparr>in_flight := AList.delete (u16_of_be (buf ! 0) (buf ! 1)) (in_flight c)\<rparr>))
      else (Inr None, c))"

lemma network_simps [io_simps]:
  "network (Inl e, s) = (Inl (Network e), s)" "network (Inr a, s) = (Inr a, s)"
  by (simp_all add: network_def)

text \<open>What a write does: the inbound side is untouched, and what goes out is the packet or a
  beginning of it.\<close>

lemma write_frame_with_timer_result:
  assumes "write_frame_with_timer t packet s = (r, s')"
  shows "inbound s' = inbound s"
    "\<exists>p q. outbound s' = outbound s @ p \<and> packet = p @ q \<and> (r = Inr () \<longrightarrow> q = [])"
proof -
  from assms obtain limit r0 where w: "write_ops limit [packet, []] s = (r0, s')"
    and r: "r = Inr () \<longrightarrow> r0 = Inr ()"
    by (auto simp: write_frame_with_timer_def write_frame_def network_def
        split: if_splits prod.splits sum.splits)
  from write_ops_frame [OF w] r show "inbound s' = inbound s"
    "\<exists>p q. outbound s' = outbound s @ p \<and> packet = p @ q \<and> (r = Inr () \<longrightarrow> q = [])"
    by auto
qed

lemma write_frame_guarded_stream:
  assumes "write_frame_guarded t packet c = (r, c')"
  shows "stream_bytes (mq_stream c') = stream_bytes (mq_stream c) \<and> read_state c' = read_state c"
  using assms write_frame_with_timer_result(1)
  by (fastforce simp: write_frame_guarded_def note_cancelled_def Let_def stream_bytes_def
      split: if_splits prod.splits sum.splits)

lemma send_keepalive_stream:
  assumes "send_keepalive_if_due t c = (r, c')"
  shows "stream_bytes (mq_stream c') = stream_bytes (mq_stream c) \<and> read_state c' = read_state c"
  using assms by (auto simp: send_keepalive_if_due_def send_ping_def
      dest: write_frame_guarded_stream split: if_splits option.splits)

lemma settle_write_stream [simp]:
  "mq_stream (settle_write js p c) = mq_stream c" "read_state (settle_write js p c) = read_state c"
  by (simp_all add: settle_write_def Let_def)

lemma dispatch_stream:
  "dispatch js h buf c = (r, c') \<Longrightarrow> mq_stream c' = mq_stream c \<and> read_state c' = read_state c"
  by (auto simp: dispatch_def Let_def split: if_splits sum.splits prod.splits)

abbreviation poll_measure :: "mqtt_client \<Rightarrow> nat" where
  "poll_measure c \<equiv> 2 * length (stream_bytes (mq_stream c)) + (if read_state c = Idle then 0 else 1)"

lemma poll_round_decreases:
  assumes "send_keepalive_if_due t c = (u, c1)"
    "read_exact_packet tgt t budget (read_state c1) (mq_stream c1) = (Inr hb, st, s)"
    "dispatch js h buf (c1\<lparr>read_state := st, mq_stream := s, secs_since_last_message := 0\<rparr>)
      = (r, c2)"
  shows "poll_measure c2 < poll_measure c"
  using send_keepalive_stream [OF assms(1)] read_exact_packet_frame [OF assms(2)]
    read_exact_packet_progress [OF assms(2)] dispatch_stream [OF assms(3)]
  by (cases "read_state c = Idle") auto

text \<open>The loop of \<open>poll_wire\<close> up to the message it returns. Every round that comes back to its start
  has taken a frame off the stream, so it ends.\<close>

function poll_frames ::
  "(bytes \<Rightarrow> json option) \<Rightarrow> target \<Rightarrow> timer \<Rightarrow> mqtt_client
     \<Rightarrow> (error + mqtt_message \<times> u16 option) \<times> mqtt_client" where
  "poll_frames js tgt t c =
     (case send_keepalive_if_due t c of
        (Inl e, c1) \<Rightarrow> (Inl e, c1)
      | (Inr _, c1) \<Rightarrow>
     (case read_exact_packet tgt t (MQTT_READ_TIMEOUT_SECS * 1000) (read_state c1) (mq_stream c1) of
        (Inl e, st, s) \<Rightarrow> (Inl (Network e), c1\<lparr>read_state := st, mq_stream := s\<rparr>)
      | (Inr (header, buf), st, s) \<Rightarrow>
     (case dispatch js header buf
             (c1\<lparr>read_state := st, mq_stream := s, secs_since_last_message := 0\<rparr>) of
        (Inl e, c2) \<Rightarrow> (Inl e, c2)
      | (Inr (Some m), c2) \<Rightarrow> (Inr m, c2)
      | (Inr None, c2) \<Rightarrow> poll_frames js tgt t c2)))"
  by pat_completeness auto
termination
proof (relation "measure (\<lambda>(js, tgt, t, c). poll_measure c)", goal_cases)
  case (2 js tgt t c x c1 u y z hb h buf st s r c2 m)
  from 2(3,4) have "read_exact_packet tgt t (MQTT_READ_TIMEOUT_SECS * 1000) (read_state c1) (mq_stream c1)
      = (Inr hb, st, s)"
    using 2(5,6) by simp
  from poll_round_decreases [OF 2(1) [symmetric] this 2(7) [symmetric]] show ?case by simp
qed simp

declare poll_frames.simps [simp del]

text \<open>The message is parked at the front of the buffer while its acknowledgement is written, so that a
  poll cancelled there does not lose it.\<close>

definition park :: "mqtt_message \<Rightarrow> mqtt_client \<Rightarrow> mqtt_client" where
  "park msg c =
     c\<lparr>mq_pending := \<lparr>pending_messages = msg # pending_messages (mq_pending c),
         pending_bytes = pending_bytes (mq_pending c) + message_size msg\<rparr>\<rparr>"

text \<open>The last branch of \<open>poll_wire\<close> is the source's \<open>expect\<close>, never taken because the message has
  just been parked; a failed acknowledgement is only logged.\<close>

definition poll_wire ::
  "(bytes \<Rightarrow> json option) \<Rightarrow> target \<Rightarrow> timer \<Rightarrow> mqtt_client \<Rightarrow> (error + mqtt_message) \<times> mqtt_client"
where
  "poll_wire js tgt t c =
     (case poll_frames js tgt t c of
        (Inl e, c1) \<Rightarrow> (Inl e, c1)
      | (Inr (msg, None), c1) \<Rightarrow> (Inr msg, c1)
      | (Inr (msg, Some packet_id), c1) \<Rightarrow>
          (case write_frame_guarded t (encode_puback packet_id) (park msg c1) of
             (_, c2) \<Rightarrow>
               (case take_pending (mq_pending c2) of
                  (Some m, p) \<Rightarrow> (Inr m, c2\<lparr>mq_pending := p\<rparr>)
                | (None, p) \<Rightarrow> (Inl (InvalidState ''message parked above''), c2))))"

text \<open>The poll dropped while the acknowledgement is being written. On a dead write side that write is
  refused at once, so there is nothing to drop.\<close>

definition poll_wire_cancelled ::
  "(bytes \<Rightarrow> json option) \<Rightarrow> target \<Rightarrow> timer \<Rightarrow> nat \<Rightarrow> mqtt_client \<Rightarrow> mqtt_client" where
  "poll_wire_cancelled js tgt t k c =
     (case poll_frames js tgt t c of
        (Inr (msg, Some packet_id), c1) \<Rightarrow>
          if dead c1 then snd (poll_wire js tgt t c)
          else write_frame_cancelled k (encode_puback packet_id) (park msg c1)
      | (_, c1) \<Rightarrow> c1)"

definition poll_telemetry ::
  "(bytes \<Rightarrow> json option) \<Rightarrow> target \<Rightarrow> timer \<Rightarrow> mqtt_client \<Rightarrow> (error + mqtt_message) \<times> mqtt_client"
where
  "poll_telemetry js tgt t c =
     (case take_pending (mq_pending c) of
        (Some m, p) \<Rightarrow> (Inr m, c\<lparr>mq_pending := p\<rparr>)
      | (None, p) \<Rightarrow> poll_wire js tgt t c)"

definition is_poisoned :: "mqtt_client \<Rightarrow> bool" where
  "is_poisoned c \<longleftrightarrow> write_poisoned c \<or> read_state c = Poisoned"

section \<open>Watchdog\<close>

definition tick_zombie_check :: "nat \<Rightarrow> mqtt_client \<Rightarrow> (liveness + unit) \<times> mqtt_client" where
  "tick_zombie_check elapsed c =
     (let c1 = c\<lparr>in_flight := filter (\<lambda>(_, age). age < MQTT_IN_FLIGHT_TTL_SECS)
                   (map (\<lambda>(packet_id, age). (packet_id, add_u32 age elapsed)) (in_flight c))\<rparr>;
          c2 = c1\<lparr>write_pending_secs := map_option (\<lambda>secs. add_u32 secs elapsed) (write_pending_secs c1)\<rparr>
      in if (case write_pending_secs c2 of None \<Rightarrow> False | Some secs \<Rightarrow> secs \<ge> MQTT_ZOMBIE_TIMEOUT_SECS)
         then (Inl WriteZombie, c2)
         else let c3 = c2\<lparr>secs_since_last_message := add_u32 (secs_since_last_message c2) elapsed\<rparr> in
           if secs_since_last_message c3 \<ge> MQTT_STALE_CONNECTION_SECS then (Inl Stale, c3)
           else (Inr (), c3))"

end
