(* ===== verification/MqttSession.thy ===== *)
theory MqttSession
  imports MqttClient
begin

text \<open>
  The session as a state machine: every operation a caller can run on a \<open>MqttClient\<close>, including a
  future dropped in the middle of a write or between two rounds of the polling loop, is a step, and the invariants hold in every reachable
  state. Then the behaviour of the handshake, of publishing and of the watchdog.
\<close>

section \<open>Steps\<close>

inductive session_step ::
  "(bytes \<Rightarrow> json option) \<Rightarrow> target \<Rightarrow> mqtt_client \<Rightarrow> mqtt_client \<Rightarrow> bool" for js tgt where
  publish: "publish_command js tgt t payload c = (r, c') \<Longrightarrow> session_step js tgt c c'"
| publish_drop: "session_step js tgt c (publish_cancelled tgt k payload c)"
| poll: "poll_telemetry js tgt t c = (r, c') \<Longrightarrow> session_step js tgt c c'"
| wire: "poll_wire js tgt t c = (r, c') \<Longrightarrow> session_step js tgt c c'"
| wire_drop: "session_step js tgt c (poll_wire_cancelled js tgt t k c)"
| wire_round: "send_keepalive_if_due t c = (Inr (), c1) \<Longrightarrow>
    read_exact_packet tgt t (MQTT_READ_TIMEOUT_SECS * 1000) (read_state c1) (mq_stream c1)
      = (Inr (h, buf), st, s) \<Longrightarrow>
    dispatch js h buf (c1\<lparr>read_state := st, mq_stream := s, secs_since_last_message := 0\<rparr>)
      = (Inr None, c') \<Longrightarrow>
    session_step js tgt c c'"
| set_aside: "poll_wire js tgt t c = (Inr msg, c') \<Longrightarrow>
    session_step js tgt c (c'\<lparr>mq_pending := push_pending tgt msg (mq_pending c')\<rparr>)"
| take_match: "take_pending_matching (f :: mqtt_message \<Rightarrow> mqtt_message option) (mq_pending c) = (r, p) \<Longrightarrow>
    session_step js tgt c (c\<lparr>mq_pending := p\<rparr>)"
| ping: "send_ping t c = (r, c') \<Longrightarrow> session_step js tgt c c'"
| ping_drop: "session_step js tgt c (write_frame_cancelled k encode_pingreq c)"
| tick: "tick_zombie_check elapsed c = (r, c') \<Longrightarrow> session_step js tgt c c'"

text \<open>States reachable from a fresh session over the connection \<open>s\<close>.\<close>

inductive reachable ::
  "(bytes \<Rightarrow> json option) \<Rightarrow> target \<Rightarrow> io \<Rightarrow> string \<Rightarrow> mqtt_client \<Rightarrow> bool" for js tgt s serial where
  start: "reachable js tgt s serial (with_stream s serial)"
| step: "reachable js tgt s serial c \<Longrightarrow> session_step js tgt c c' \<Longrightarrow> reachable js tgt s serial c'"

section \<open>What goes out\<close>

definition is_packet :: "bytes \<Rightarrow> bool" where
  "is_packet p \<longleftrightarrow> (\<exists>h body. p = frame h body)"

text \<open>From \<open>c\<close> to \<open>c'\<close> only whole packets went out, and part of one only if the write side died of it;
  a dead write side sends nothing.\<close>

definition wrote :: "mqtt_client \<Rightarrow> mqtt_client \<Rightarrow> bool" where
  "wrote c c' \<longleftrightarrow>
     (if dead c then dead c' \<and> outbound (mq_stream c') = outbound (mq_stream c)
      else \<exists>ps tail. outbound (mq_stream c') = outbound (mq_stream c) @ concat ps @ tail
        \<and> (\<forall>p \<in> set ps. is_packet p) \<and> (tail \<noteq> [] \<longrightarrow> dead c'))"

lemma wrote_nothing:
  "outbound (mq_stream c') = outbound (mq_stream c) \<Longrightarrow> dead c' = dead c \<Longrightarrow> wrote c c'"
  by (auto simp: wrote_def intro!: exI [of _ "[]"])

lemma wrote_trans:
  assumes "wrote c c1" "wrote c1 c2"
  shows "wrote c c2"
proof (cases "dead c")
  case True
  with assms show ?thesis by (simp add: wrote_def)
next
  case alive: False
  with assms(1) obtain ps tail where
    p: "outbound (mq_stream c1) = outbound (mq_stream c) @ concat ps @ tail"
    "\<forall>p \<in> set ps. is_packet p" "tail \<noteq> [] \<longrightarrow> dead c1"
    by (auto simp: wrote_def)
  show ?thesis
  proof (cases "dead c1")
    case True
    with assms(2) alive p show ?thesis by (auto simp: wrote_def)
  next
    case False
    with assms(2) obtain qs tail' where
      "outbound (mq_stream c2) = outbound (mq_stream c1) @ concat qs @ tail'"
      "\<forall>p \<in> set qs. is_packet p" "tail' \<noteq> [] \<longrightarrow> dead c2"
      by (auto simp: wrote_def)
    with p False alive have "outbound (mq_stream c2) = outbound (mq_stream c) @ concat (ps @ qs) @ tail'
        \<and> (\<forall>p \<in> set (ps @ qs). is_packet p) \<and> (tail' \<noteq> [] \<longrightarrow> dead c2)"
      by auto
    with alive show ?thesis unfolding wrote_def by (simp only: if_False) blast
  qed
qed

lemma is_packet_encodings:
  "is_packet (encode_publish_qos1 i topic payload)" "is_packet (encode_puback i)"
  "is_packet encode_pingreq"
proof -
  show "is_packet (encode_publish_qos1 i topic payload)"
    by (auto simp: is_packet_def encode_publish_qos1_def)
  have "encode_puback i = frame HEADER_PUBACK (u16_be i)"
    by (simp add: encode_puback_def encode_eval)
  then show "is_packet (encode_puback i)" by (auto simp: is_packet_def)
  have "encode_pingreq = frame HEADER_PINGREQ []"
    by (simp add: encode_pingreq_def encode_eval)
  then show "is_packet encode_pingreq" by (auto simp: is_packet_def)
qed

text \<open>A write changes the stream and the three fields about writing, nothing else.\<close>

definition same_session :: "mqtt_client \<Rightarrow> mqtt_client \<Rightarrow> bool" where
  "same_session c c' \<longleftrightarrow>
     in_flight c' = in_flight c \<and> next_packet_id c' = next_packet_id c
     \<and> mq_pending c' = mq_pending c \<and> read_state c' = read_state c
     \<and> write_pending_secs c' = write_pending_secs c \<and> write_pending_echo c' = write_pending_echo c
     \<and> secs_since_last_message c' = secs_since_last_message c
     \<and> request_topic c' = request_topic c"

lemma write_frame_guarded_same: "write_frame_guarded t p c = (r, c') \<Longrightarrow> same_session c c'"
  by (auto simp: write_frame_guarded_def note_cancelled_def Let_def same_session_def
      split: if_splits prod.splits sum.splits)

lemma write_frame_cancelled_same: "same_session c (write_frame_cancelled k p c)"
  by (simp add: write_frame_cancelled_def note_cancelled_def Let_def same_session_def)

lemma send_keepalive_same: "send_keepalive_if_due t c = (r, c') \<Longrightarrow> same_session c c'"
  by (auto simp: send_keepalive_if_due_def send_ping_def same_session_def
      dest: write_frame_guarded_same [unfolded same_session_def] split: if_splits option.splits)

lemma write_frame_guarded_wrote:
  assumes "write_frame_guarded t packet c = (r, c')" "is_packet packet"
  shows "wrote c c'" "\<not> dead c \<Longrightarrow> r = Inr () \<Longrightarrow>
    \<not> dead c' \<and> outbound (mq_stream c') = outbound (mq_stream c) @ packet"
proof -
  show "wrote c c'"
  proof (cases "dead c")
    case True
    with assms show ?thesis
      by (auto simp: write_frame_guarded_def note_cancelled_def wrote_def dead_def split: if_splits)
  next
    case False
    then have nc: "note_cancelled c = c" "\<not> write_poisoned c"
      by (auto simp: note_cancelled_def dead_def)
    obtain r1 s1 where w: "write_frame_with_timer t packet (mq_stream c) = (r1, s1)"
      by (metis surj_pair)
    from write_frame_with_timer_result(2) [OF w] obtain p q where
      pq: "outbound s1 = outbound (mq_stream c) @ p" "packet = p @ q" "r1 = Inr () \<longrightarrow> q = []"
      by blast
    show ?thesis
    proof (cases r1)
      case (Inl e)
      with assms w nc have "dead c'" "outbound (mq_stream c') = outbound (mq_stream c) @ concat [] @ p"
        using pq by (auto simp: write_frame_guarded_def dead_def)
      with False show ?thesis unfolding wrote_def by (metis empty_iff empty_set)
    next
      case (Inr u)
      with assms w nc pq have "outbound (mq_stream c') = outbound (mq_stream c) @ concat [packet] @ []"
        by (auto simp: write_frame_guarded_def Let_def)
      with False assms(2) show ?thesis unfolding wrote_def
        by (metis empty_iff empty_set set_ConsD)
    qed
  qed
  assume "\<not> dead c" "r = Inr ()"
  with assms show "\<not> dead c' \<and> outbound (mq_stream c') = outbound (mq_stream c) @ packet"
    using write_frame_with_timer_result(2)
    by (fastforce simp: write_frame_guarded_def note_cancelled_def dead_def Let_def
        split: if_splits prod.splits sum.splits)
qed

lemma write_frame_cancelled_wrote:
  assumes "is_packet packet"
  shows "wrote c (write_frame_cancelled k packet c)"
proof (cases "dead c")
  case True
  then show ?thesis
    by (auto simp: write_frame_cancelled_def note_cancelled_def wrote_def dead_def)
next
  case False
  then have "dead (write_frame_cancelled k packet c)"
    "outbound (mq_stream (write_frame_cancelled k packet c))
      = outbound (mq_stream c) @ concat [] @ take k packet"
    by (auto simp: write_frame_cancelled_def note_cancelled_def dead_def step_frame)
  with False show ?thesis unfolding wrote_def by (metis empty_iff empty_set)
qed

lemma send_keepalive_wrote: "send_keepalive_if_due t c = (r, c') \<Longrightarrow> wrote c c'"
  by (auto simp: send_keepalive_if_due_def send_ping_def
      intro: wrote_nothing write_frame_guarded_wrote is_packet_encodings simp: dead_def
      split: if_splits option.splits)

section \<open>The invariants\<close>

definition ids_ok :: "mqtt_client \<Rightarrow> bool" where
  "ids_ok c \<longleftrightarrow> next_packet_id c \<noteq> 0 \<and> distinct (map fst (in_flight c))
     \<and> 0 \<notin> fst ` set (in_flight c) \<and> length (in_flight c) \<le> MQTT_IN_FLIGHT_LIMIT"

definition read_ok :: "target \<Rightarrow> mqtt_client \<Rightarrow> bool" where
  "read_ok tgt c \<longleftrightarrow> (\<exists>p. frame_holds tgt (read_state c) p)"

definition pending_ok :: "target \<Rightarrow> mqtt_client \<Rightarrow> bool" where
  "pending_ok tgt c \<longleftrightarrow> pq.sound (mq_pending c) \<and>
     pending_bytes (mq_pending c) \<le> MQTT_PENDING_BUFFER_MAX_BYTES tgt
       + (if dead c then MQTT_MAX_PAYLOAD_BYTES tgt else 0)"

lemma advance_packet_id_nonzero [simp]: "advance_packet_id i \<noteq> 0"
  by (simp add: advance_packet_id_def Let_def)

lemma ids_ok_cong: "same_session c c' \<Longrightarrow> ids_ok c \<Longrightarrow> ids_ok c'"
  by (simp add: ids_ok_def same_session_def)

lemma read_ok_cong: "same_session c c' \<Longrightarrow> read_ok tgt c \<Longrightarrow> read_ok tgt c'"
  by (simp add: read_ok_def same_session_def)

lemma ids_ok_filter: "ids_ok c \<Longrightarrow> ids_ok (c\<lparr>in_flight := filter P (in_flight c)\<rparr>)"
  by (auto simp: ids_ok_def distinct_map_filter intro: le_trans [OF length_filter_le])

lemma ids_ok_delete: "ids_ok c \<Longrightarrow> ids_ok (c\<lparr>in_flight := AList.delete k (in_flight c)\<rparr>)"
  by (simp add: AList.delete_eq ids_ok_filter)

lemma ids_ok_settle [simp]: "ids_ok (settle_write js p c) = ids_ok c"
  by (simp add: settle_write_def ids_ok_def Let_def)

lemma ids_ok_insert:
  assumes "ids_ok c" "length (in_flight c) < MQTT_IN_FLIGHT_LIMIT" "i \<noteq> 0"
  shows "ids_ok (c\<lparr>in_flight := AList.update i 0 (in_flight c)\<rparr>)"
proof -
  have "length (AList.update i 0 xs) \<le> Suc (length xs)" for xs :: "(u16 \<times> nat) list"
    by (induction xs) auto
  then have "length (AList.update i 0 (in_flight c)) \<le> MQTT_IN_FLIGHT_LIMIT"
    using assms(2) by (meson Suc_leI le_trans)
  with assms show ?thesis
    by (auto simp: ids_ok_def AList.distinct_update AList.dom_update)
qed

lemma read_exact_packet_keeps:
  assumes "frame_holds tgt st p" "read_exact_packet tgt t b st s = (r, st', s')"
  shows "\<exists>p'. frame_holds tgt st' p'"
    "r = Inr (h, body) \<Longrightarrow> length body \<le> MQTT_MAX_PAYLOAD_BYTES tgt"
  using read_exact_packet_accounts [OF assms] by (auto simp: frame_wire_def)

lemma parse_publish_size:
  assumes "parse_publish h buf = Inr (topic, qos, i, payload)"
  shows "length topic + length payload \<le> length buf"
proof -
  from assms obtain n where n: "length buf \<ge> 2 + n" "from_utf8 (take n (drop 2 buf)) = Some topic"
    "length payload \<le> length buf - (2 + n)"
    by (auto simp: parse_publish_def Let_def not_less
        intro!: that [of "unat (u16_of_be (buf ! 0) (buf ! 1))"] split: if_splits option.splits)
  from from_utf8_SomeD [OF n(2)] have "length topic = length (take n (drop 2 buf))"
    by (metis length_as_bytes)
  with n(1,3) show ?thesis by simp
qed

lemma dispatch_keeps:
  assumes "dispatch js h buf c = (r, c')"
  shows "ids_ok c \<Longrightarrow> ids_ok c'" "mq_pending c' = mq_pending c" "wrote c c'"
    "r = Inr (Some (m, a)) \<Longrightarrow> message_size m \<le> length buf"
proof -
  show "ids_ok c \<Longrightarrow> ids_ok c'"
    using assms by (auto simp: dispatch_def Let_def ids_ok_delete ids_ok_settle
        split: if_splits sum.splits prod.splits)
  show "mq_pending c' = mq_pending c"
    using assms by (auto simp: dispatch_def settle_write_def Let_def
        split: if_splits sum.splits prod.splits)
  show "wrote c c'"
    using assms by (intro wrote_nothing) (auto simp: dispatch_def settle_write_def dead_def Let_def
        split: if_splits sum.splits prod.splits)
  show "message_size m \<le> length buf" if "r = Inr (Some (m, a))"
    using assms that by (auto simp: dispatch_def message_size_def Let_def
        dest: parse_publish_size split: if_splits sum.splits prod.splits)
qed

text \<open>One round of the polling loop.\<close>

lemma keepalive_keeps:
  assumes "send_keepalive_if_due t c = (u, c1)" "read_ok tgt c"
  shows "read_ok tgt c1" "ids_ok c \<longrightarrow> ids_ok c1" "mq_pending c1 = mq_pending c" "wrote c c1"
proof -
  note same = send_keepalive_same [OF assms(1)]
  show "read_ok tgt c1" "ids_ok c \<longrightarrow> ids_ok c1" "mq_pending c1 = mq_pending c" "wrote c c1"
    using read_ok_cong [OF same] ids_ok_cong [OF same] send_keepalive_wrote [OF assms(1)] assms(2) same
    by (auto simp: same_session_def)
qed

lemma read_keeps:
  assumes "read_exact_packet tgt t b (read_state c) (mq_stream c) = (x, st, s)" "read_ok tgt c"
  shows "read_ok tgt (c\<lparr>read_state := st, mq_stream := s\<rparr>)"
    "wrote c (c\<lparr>read_state := st, mq_stream := s\<rparr>)"
    "x = Inr (h, buf) \<Longrightarrow> length buf \<le> MQTT_MAX_PAYLOAD_BYTES tgt"
proof -
  from assms(2) obtain p where "frame_holds tgt (read_state c) p" by (auto simp: read_ok_def)
  note rk = read_exact_packet_keeps [OF this assms(1)]
  show "read_ok tgt (c\<lparr>read_state := st, mq_stream := s\<rparr>)" using rk(1) by (simp add: read_ok_def)
  show "wrote c (c\<lparr>read_state := st, mq_stream := s\<rparr>)"
    using read_exact_packet_frame [OF assms(1)] by (intro wrote_nothing) (auto simp: dead_def)
  show "x = Inr (h, buf) \<Longrightarrow> length buf \<le> MQTT_MAX_PAYLOAD_BYTES tgt" using rk(2) .
qed

lemma round_keeps:
  assumes k: "send_keepalive_if_due t c = (u, c1)"
    and rd: "read_exact_packet tgt t b (read_state c1) (mq_stream c1) = (Inr (h, buf), st, s)"
    and d: "dispatch js h buf (c1\<lparr>read_state := st, mq_stream := s, secs_since_last_message := 0\<rparr>)
      = (y, c2)"
    and ok: "read_ok tgt c"
  shows "read_ok tgt c2" "ids_ok c \<longrightarrow> ids_ok c2" "mq_pending c2 = mq_pending c" "wrote c c2"
    "y = Inr (Some (m, a)) \<Longrightarrow> message_size m \<le> MQTT_MAX_PAYLOAD_BYTES tgt"
proof -
  let ?c = "c1\<lparr>read_state := st, mq_stream := s\<rparr>"
  let ?c2 = "c1\<lparr>read_state := st, mq_stream := s, secs_since_last_message := 0\<rparr>"
  note k1 = keepalive_keeps [OF k ok] and dk = dispatch_keeps [OF d] and ds = dispatch_stream [OF d]
  note rk = read_keeps [OF rd k1(1)]
  show "read_ok tgt c2" using rk(1) ds by (simp add: read_ok_def)
  show "ids_ok c \<longrightarrow> ids_ok c2" using k1(2) dk(1) by (auto simp: ids_ok_def)
  show "mq_pending c2 = mq_pending c" using dk(2) k1(3) by simp
  have "wrote ?c ?c2" by (rule wrote_nothing) (simp_all add: dead_def)
  with k1(4) rk(2) dk(3) show "wrote c c2" using wrote_trans by blast
  show "y = Inr (Some (m, a)) \<Longrightarrow> message_size m \<le> MQTT_MAX_PAYLOAD_BYTES tgt"
    using dk(4) rk(3) by fastforce
qed

lemma poll_frames_keeps:
  assumes "poll_frames js tgt t c = (r, c')" "read_ok tgt c"
  shows "read_ok tgt c' \<and> (ids_ok c \<longrightarrow> ids_ok c') \<and> mq_pending c' = mq_pending c \<and> wrote c c'
    \<and> (\<forall>m a. r = Inr (m, a) \<longrightarrow> message_size m \<le> MQTT_MAX_PAYLOAD_BYTES tgt)"
  using assms
proof (induction js tgt t c rule: poll_frames.induct)
  case (1 js tgt t c)
  note unfold = poll_frames.simps [of js tgt t c]
  obtain u c1 where k: "send_keepalive_if_due t c = (u, c1)" by (metis surj_pair)
  note c1 = keepalive_keeps [OF k "1.prems"(2)]
  obtain x st s where rd: "read_exact_packet tgt t (MQTT_READ_TIMEOUT_SECS * 1000)
      (read_state c1) (mq_stream c1) = (x, st, s)"
    by (metis prod_cases3)
  note rk = read_keeps [OF rd c1(1)]
  consider (ping) e where "u = Inl e" | (read) e where "u = Inr ()" "x = Inl e"
    | (frame) h buf where "u = Inr ()" "x = Inr (h, buf)"
    by (cases u; cases x) auto
  then show ?case
  proof cases
    case ping
    with k "1.prems"(1) c1 show ?thesis by (auto simp: unfold)
  next
    case read
    with k rd "1.prems"(1) c1 rk wrote_trans [OF c1(4) rk(2)] show ?thesis
      by (auto simp: unfold ids_ok_def)
  next
    case frame
    let ?c2 = "c1\<lparr>read_state := st, mq_stream := s, secs_since_last_message := 0\<rparr>"
    obtain y c2 where d: "dispatch js h buf ?c2 = (y, c2)" by (metis surj_pair)
    note rd' = rd [unfolded frame(2)]
    note c2 = round_keeps [OF k rd' d "1.prems"(2)]
    show ?thesis
    proof (cases "y = Inr None")
      case True
      with k rd frame d "1.prems"(1) have "poll_frames js tgt t c2 = (r, c')"
        by (simp add: unfold)
      with "1.IH" [OF k [symmetric] frame(1) rd [symmetric] frame(2) refl refl d [symmetric] True refl] c2
      show ?thesis using wrote_trans by auto
    next
      case False
      with k rd frame d "1.prems"(1) c2 show ?thesis
        by (auto simp: unfold split: sum.splits option.splits)
    qed
  qed
qed

lemma publish_begin_keeps:
  assumes "publish_begin tgt payload c = (r, c')"
  shows "wrote c c'" "ids_ok c \<Longrightarrow> ids_ok c'" "mq_pending c' = mq_pending c" "read_ok tgt c' = read_ok tgt c"
    "dead c' = dead c"
    "ids_ok c \<Longrightarrow> r = Inr (i, packet) \<Longrightarrow>
      is_packet packet \<and> i \<noteq> 0 \<and> length (in_flight c') < MQTT_IN_FLIGHT_LIMIT"
proof -
  show "wrote c c'"
    using assms by (intro wrote_nothing) (auto simp: publish_begin_def dead_def Let_def split: if_splits)
qed (use assms in \<open>auto simp: publish_begin_def ids_ok_def read_ok_def dead_def Let_def
      is_packet_encodings split: if_splits\<close>)

lemma publish_keeps:
  assumes "publish_keyed tgt t payload echo c = (r, c')" "ids_ok c"
  shows "wrote c c' \<and> ids_ok c' \<and> mq_pending c' = mq_pending c \<and> read_ok tgt c' = read_ok tgt c"
proof -
  obtain x c1 where b: "publish_begin tgt payload c = (x, c1)" by (metis surj_pair)
  note pb = publish_begin_keeps [OF b]
  show ?thesis
  proof (cases x)
    case (Inl e)
    with assms b pb show ?thesis by (auto simp: publish_keyed_def)
  next
    case (Inr ip)
    obtain i packet where ip: "ip = (i, packet)" by (metis surj_pair)
    with pb(6) [OF assms(2)] Inr have p: "is_packet packet" "i \<noteq> 0"
      "length (in_flight c1) < MQTT_IN_FLIGHT_LIMIT"
      by auto
    obtain y c2 where w: "write_frame_guarded t packet c1 = (y, c2)" by (metis surj_pair)
    note same = write_frame_guarded_same [OF w]
    have c2: "ids_ok c2" "wrote c c2" "mq_pending c2 = mq_pending c" "read_ok tgt c2 = read_ok tgt c"
      "length (in_flight c2) < MQTT_IN_FLIGHT_LIMIT"
    proof -
      show "ids_ok c2" using ids_ok_cong [OF same] pb(2) [OF assms(2)] .
      show "wrote c c2" using wrote_trans [OF pb(1) write_frame_guarded_wrote(1) [OF w p(1)]] .
    qed (use same pb(3,4) p(3) in \<open>simp_all add: same_session_def read_ok_def\<close>)
    have keep: "wrote c (c2\<lparr>in_flight := m, write_pending_secs := a, write_pending_echo := b\<rparr>)"
      "wrote c (c2\<lparr>in_flight := m\<rparr>)" for m a b
      by (rule wrote_trans [OF c2(2) wrote_nothing]; simp add: dead_def)+
    show ?thesis
      using assms(1) b Inr ip w c2 ids_ok_insert [OF c2(1,5) p(2)] keep
      by (auto simp: publish_keyed_def read_ok_def ids_ok_def Let_def split: sum.splits if_splits)
  qed
qed

lemma park_keeps:
  "wrote c (park m c)" "ids_ok (park m c) = ids_ok c" "read_ok tgt (park m c) = read_ok tgt c"
  "dead (park m c) = dead c"
  by (auto simp: park_def ids_ok_def read_ok_def dead_def intro: wrote_nothing)

lemma poll_wire_keeps:
  assumes "poll_wire js tgt t c = (r, c')" "read_ok tgt c" "ids_ok c"
  shows "wrote c c' \<and> ids_ok c' \<and> read_ok tgt c' \<and> mq_pending c' = mq_pending c
    \<and> (\<forall>m. r = Inr m \<longrightarrow> message_size m \<le> MQTT_MAX_PAYLOAD_BYTES tgt)"
proof -
  obtain x c1 where f: "poll_frames js tgt t c = (x, c1)" by (metis surj_pair)
  note pf = poll_frames_keeps [OF f assms(2)]
  consider (plain) "\<nexists>m i. x = Inr (m, Some i)" | (ack) m i where "x = Inr (m, Some i)" by blast
  then show ?thesis
  proof cases
    case plain
    with assms f pf show ?thesis
      by (auto simp: poll_wire_def split: sum.splits option.splits)
  next
    case ack
    obtain y c2 where w: "write_frame_guarded t (encode_puback i) (park m c1) = (y, c2)"
      by (metis surj_pair)
    note same = write_frame_guarded_same [OF w]
    have "wrote c c2"
      using pf park_keeps(1) write_frame_guarded_wrote(1) [OF w is_packet_encodings(2)] wrote_trans
      by blast
    moreover have "wrote c2 (c2\<lparr>mq_pending := p\<rparr>)" for p
      by (rule wrote_nothing) (simp_all add: dead_def)
    moreover have "take_pending (mq_pending c2) = (Some m, mq_pending c)"
      using same pf by (simp add: same_session_def park_def take_pending_def)
    moreover from this have "r = Inr m" "c' = c2\<lparr>mq_pending := mq_pending c\<rparr>"
      using assms(1) f ack w by (simp_all add: poll_wire_def)
    moreover have "ids_ok c2" "read_ok tgt c2"
      using ids_ok_cong [OF same] read_ok_cong [OF same] pf assms(3) by (simp_all add: park_keeps)
    ultimately show ?thesis
      using pf ack wrote_trans by (simp add: ids_ok_def read_ok_def)
  qed
qed

lemma ids_ok_same_keys:
  assumes "map fst xs = map fst (in_flight c)" "ids_ok c"
  shows "ids_ok (c\<lparr>in_flight := xs\<rparr>)"
proof -
  have "length xs = length (in_flight c)" using arg_cong [OF assms(1), of length] by simp
  moreover have "fst ` set xs = fst ` set (in_flight c)" using arg_cong [OF assms(1), of set] by simp
  ultimately show ?thesis using assms by (simp add: ids_ok_def)
qed

lemma tick_keeps:
  assumes "tick_zombie_check elapsed c = (r, c')"
  shows "wrote c c'" "ids_ok c \<Longrightarrow> ids_ok c'" "read_ok tgt c' = read_ok tgt c"
    "mq_pending c' = mq_pending c" "dead c' = dead c"
proof -
  let ?age = "map (\<lambda>(packet_id, age). (packet_id, add_u32 age elapsed)) (in_flight c)"
  have f: "in_flight c' = filter (\<lambda>(_, age). age < MQTT_IN_FLIGHT_TTL_SECS) ?age"
    and same: "mq_stream c' = mq_stream c" "next_packet_id c' = next_packet_id c"
    and "read_ok tgt c' = read_ok tgt c" "mq_pending c' = mq_pending c" "dead c' = dead c"
    using assms by (auto simp: tick_zombie_check_def read_ok_def dead_def Let_def split: if_splits)
  then show "read_ok tgt c' = read_ok tgt c" "mq_pending c' = mq_pending c" "dead c' = dead c" by simp_all
  then show "wrote c c'" using same by (intro wrote_nothing) simp_all
  have "map fst ?age = map fst (in_flight c)" by (simp add: split_def comp_def)
  with ids_ok_same_keys have "ids_ok c \<Longrightarrow> ids_ok (c\<lparr>in_flight := ?age\<rparr>)" by blast
  then show "ids_ok c \<Longrightarrow> ids_ok c'"
    using ids_ok_filter [of "c\<lparr>in_flight := ?age\<rparr>"] f same by (simp add: ids_ok_def)
qed

text \<open>The buffer. A dead write side stays dead, and the one message an acknowledgement dropped midway
  leaves behind is the only one that can stand above the cap.\<close>

lemma wrote_dead: "wrote c c' \<Longrightarrow> dead c \<Longrightarrow> dead c'"
  by (simp add: wrote_def)

lemma pending_ok_mono:
  "pending_ok tgt c \<Longrightarrow> mq_pending c' = mq_pending c \<Longrightarrow> wrote c c' \<Longrightarrow> pending_ok tgt c'"
  using wrote_dead by (auto simp: pending_ok_def split: if_splits)

lemma cap_fits: "MQTT_MAX_PAYLOAD_BYTES tgt \<le> MQTT_PENDING_BUFFER_MAX_BYTES tgt"
  by (cases tgt) simp_all

lemma pending_ok_take:
  assumes "pending_ok tgt c" "take_pending (mq_pending c) = (r, p)"
  shows "pending_ok tgt (c\<lparr>mq_pending := p\<rparr>)"
  using assms pq.sound_pop [OF _ assms(2)] pq.pop_le_used [OF _ assms(2)]
  by (auto simp: pending_ok_def dead_def)

lemma pending_ok_match:
  assumes "pending_ok tgt c" "take_pending_matching f (mq_pending c) = (r, p)"
  shows "pending_ok tgt (c\<lparr>mq_pending := p\<rparr>)"
  using assms take_pending_matching_sound [OF _ assms(2)] by (auto simp: pending_ok_def dead_def)

lemma pending_ok_push:
  assumes "pending_ok tgt c" "message_size m \<le> MQTT_MAX_PAYLOAD_BYTES tgt"
  shows "pending_ok tgt (c\<lparr>mq_pending := push_pending tgt m (mq_pending c)\<rparr>)"
  using assms pq.sound_push [of "mq_pending c" tgt m] pq.push_cap [of "mq_pending c" m tgt] cap_fits [of tgt]
  by (auto simp: pending_ok_def pq.sound_def)

lemma pending_ok_park:
  assumes "pending_ok tgt c" "message_size m \<le> MQTT_MAX_PAYLOAD_BYTES tgt" "\<not> dead c"
    "same_session (park m c) c'" "dead c'"
  shows "pending_ok tgt c'"
  using assms by (auto simp: pending_ok_def same_session_def park_def pq.sound_def)

text \<open>Everything together, step by step.\<close>

definition session_ok :: "target \<Rightarrow> mqtt_client \<Rightarrow> bool" where
  "session_ok tgt c \<longleftrightarrow> ids_ok c \<and> read_ok tgt c \<and> pending_ok tgt c"

lemma session_ok_start: "session_ok tgt (with_stream s serial)"
  by (auto simp: session_ok_def with_stream_def ids_ok_def read_ok_def pending_ok_def pq.sound_def
      intro: exI [of _ "[]"])

lemma poll_wire_ok:
  assumes "poll_wire js tgt t c = (r, c')" "session_ok tgt c"
  shows "session_ok tgt c'" "wrote c c'" "r = Inr m \<Longrightarrow> message_size m \<le> MQTT_MAX_PAYLOAD_BYTES tgt"
  using poll_wire_keeps [OF assms(1)] assms(2) pending_ok_mono by (auto simp: session_ok_def)

lemma write_cancelled_ok:
  assumes "is_packet p" "session_ok tgt c"
  shows "session_ok tgt (write_frame_cancelled k p c)"
  using assms write_frame_cancelled_same [of c k p] write_frame_cancelled_wrote [OF assms(1), of c k]
    ids_ok_cong read_ok_cong pending_ok_mono
  by (simp add: session_ok_def same_session_def) blast

lemma publish_drop_ok:
  assumes "session_ok tgt c"
  shows "session_ok tgt (publish_cancelled tgt k payload c) \<and> wrote c (publish_cancelled tgt k payload c)"
proof -
  obtain x c1 where b: "publish_begin tgt payload c = (x, c1)" by (metis surj_pair)
  note pb = publish_begin_keeps [OF b]
  have c1: "session_ok tgt c1"
    using pb(1-5) assms pending_ok_mono [of tgt c c1] by (simp add: session_ok_def)
  show ?thesis
  proof (cases x)
    case (Inl e)
    with b c1 pb(1) show ?thesis by (simp add: publish_cancelled_def)
  next
    case (Inr ip)
    obtain i packet where ip: "ip = (i, packet)" by (metis surj_pair)
    with pb(6) Inr assms have "is_packet packet" by (auto simp: session_ok_def)
    with b Inr ip c1 pb(1) write_cancelled_ok
      wrote_trans [OF pb(1) write_frame_cancelled_wrote [of packet c1 k]] show ?thesis
      by (simp add: publish_cancelled_def)
  qed
qed

lemma wire_drop_ok:
  assumes "session_ok tgt c"
  shows "session_ok tgt (poll_wire_cancelled js tgt t k c) \<and> wrote c (poll_wire_cancelled js tgt t k c)"
proof -
  obtain x c1 where f: "poll_frames js tgt t c = (x, c1)" by (metis surj_pair)
  have pf: "read_ok tgt c1" "ids_ok c1" "mq_pending c1 = mq_pending c" "wrote c c1"
    "\<forall>m a. x = Inr (m, a) \<longrightarrow> message_size m \<le> MQTT_MAX_PAYLOAD_BYTES tgt"
    using poll_frames_keeps [OF f] assms by (auto simp: session_ok_def)
  have c1: "session_ok tgt c1" using pf(1-4) assms pending_ok_mono [of tgt c c1] by (simp add: session_ok_def)
  consider (plain) "\<nexists>m i. x = Inr (m, Some i)" | (ack) m i where "x = Inr (m, Some i)" by blast
  then show ?thesis
  proof cases
    case plain
    with f c1 pf(4) show ?thesis
      by (auto simp: poll_wire_cancelled_def split: sum.splits option.splits)
  next
    case ack
    show ?thesis
    proof (cases "dead c1")
      case True
      with f ack poll_wire_ok [OF _ assms, of js t "fst (poll_wire js tgt t c)"] show ?thesis
        by (simp add: poll_wire_cancelled_def)
    next
      case False
      let ?c' = "write_frame_cancelled k (encode_puback i) (park m c1)"
      have d: "dead ?c'" using False
        by (simp add: write_frame_cancelled_def note_cancelled_def park_def dead_def)
      note same = write_frame_cancelled_same [of "park m c1" k "encode_puback i"]
      have "session_ok tgt ?c'"
        using ids_ok_cong [OF same] read_ok_cong [OF same] pending_ok_park [OF _ _ False same d]
          park_keeps pf ack c1 by (simp add: session_ok_def)
      moreover have "wrote c ?c'"
        using pf(4) park_keeps(1) write_frame_cancelled_wrote [OF is_packet_encodings(2)] wrote_trans
        by blast
      ultimately show ?thesis using f ack False by (simp add: poll_wire_cancelled_def)
    qed
  qed
qed

lemma ping_ok:
  assumes "write_frame_guarded t encode_pingreq c = (r, c')" "session_ok tgt c"
  shows "session_ok tgt c'" "wrote c c'"
proof -
  note same = write_frame_guarded_same [OF assms(1)]
  show w: "wrote c c'" by (rule write_frame_guarded_wrote [OF assms(1) is_packet_encodings(3)])
  then show "session_ok tgt c'"
    using ids_ok_cong [OF same] read_ok_cong [OF same] pending_ok_mono [of tgt c c'] same assms(2)
    by (simp add: session_ok_def same_session_def)
qed

lemma session_ok_pending:
  assumes "session_ok tgt c" "pending_ok tgt (c\<lparr>mq_pending := p\<rparr>)"
  shows "session_ok tgt (c\<lparr>mq_pending := p\<rparr>)" "wrote c (c\<lparr>mq_pending := p\<rparr>)"
  using assms by (auto simp: session_ok_def ids_ok_def read_ok_def dead_def intro: wrote_nothing)

lemma poll_telemetry_ok:
  assumes "poll_telemetry js tgt t c = (r, c')" "session_ok tgt c"
  shows "session_ok tgt c' \<and> wrote c c'"
proof (cases "take_pending (mq_pending c)")
  case (Pair m p)
  show ?thesis
  proof (cases m)
    case None
    with Pair assms show ?thesis
      using poll_wire_ok [of js tgt t c r c'] by (simp add: poll_telemetry_def)
  next
    case (Some x)
    have "pending_ok tgt (c\<lparr>mq_pending := p\<rparr>)"
      using pending_ok_take [OF _ Pair] assms(2) by (simp add: session_ok_def)
    with Some Pair assms session_ok_pending [OF assms(2)] show ?thesis
      by (auto simp: poll_telemetry_def)
  qed
qed

lemma publish_ok:
  assumes "publish_keyed tgt t payload echo c = (r, c')" "session_ok tgt c"
  shows "session_ok tgt c'" "wrote c c'"
  using publish_keeps [OF assms(1)] assms(2) pending_ok_mono [of tgt c c'] by (auto simp: session_ok_def)

lemma round_ok:
  assumes "send_keepalive_if_due t c = (u, c1)"
    "read_exact_packet tgt t b (read_state c1) (mq_stream c1) = (Inr (h, buf), st, s)"
    "dispatch js h buf (c1\<lparr>read_state := st, mq_stream := s, secs_since_last_message := 0\<rparr>) = (y, c')"
    "session_ok tgt c"
  shows "session_ok tgt c'" "wrote c c'"
  using round_keeps [OF assms(1-3)] assms(4) pending_ok_mono [of tgt c c'] by (auto simp: session_ok_def)

lemma tick_ok:
  assumes "tick_zombie_check elapsed c = (r, c')" "session_ok tgt c"
  shows "session_ok tgt c'" "wrote c c'"
  using tick_keeps [OF assms(1)] assms(2) pending_ok_mono [of tgt c c'] by (auto simp: session_ok_def)

lemma session_step_ok:
  "session_step js tgt c c' \<Longrightarrow> session_ok tgt c \<Longrightarrow> session_ok tgt c' \<and> wrote c c'"
proof (induction rule: session_step.cases)
  case (publish t payload c r c')
  then show ?case using publish_ok [of tgt t payload "echo_key js payload" c r c'] by (simp add: publish_command_def)
next
  case (publish_drop c k payload)
  then show ?case using publish_drop_ok by blast
next
  case (poll t c r c')
  then show ?case using poll_telemetry_ok by blast
next
  case (wire t c r c')
  then show ?case using poll_wire_ok by blast
next
  case (wire_drop c t k)
  then show ?case using wire_drop_ok by blast
next
  case (wire_round t c c1 h buf st s c')
  then show ?case using round_ok [of t c "Inr ()" c1 tgt] by simp
next
  case (set_aside t c msg c')
  then have p: "session_ok tgt c'" "wrote c c'" "message_size msg \<le> MQTT_MAX_PAYLOAD_BYTES tgt"
    using poll_wire_ok by blast+
  then have "pending_ok tgt (c'\<lparr>mq_pending := push_pending tgt msg (mq_pending c')\<rparr>)"
    by (simp add: session_ok_def pending_ok_push)
  with p set_aside session_ok_pending wrote_trans show ?case by blast
next
  case (take_match f c r p)
  then have "pending_ok tgt (c\<lparr>mq_pending := p\<rparr>)"
    using pending_ok_match by (auto simp: session_ok_def)
  with take_match session_ok_pending show ?case by blast
next
  case (ping t c r c')
  then show ?case using ping_ok [of t c r c' tgt] by (simp add: send_ping_def)
next
  case (ping_drop c k)
  then show ?case
    using write_cancelled_ok [OF is_packet_encodings(3)] write_frame_cancelled_wrote [OF is_packet_encodings(3)]
    by blast
next
  case (tick elapsed c r c')
  then show ?case using tick_ok by blast
qed

lemma reachable_ok:
  "reachable js tgt s serial c \<Longrightarrow> session_ok tgt c \<and> wrote (with_stream s serial) c"
proof (induction rule: reachable.induct)
  case start
  show ?case using session_ok_start by (simp add: wrote_nothing)
next
  case (step c c')
  then show ?case using session_step_ok wrote_trans by blast
qed

section \<open>Properties of every session\<close>



text \<open>In every reachable state the packet ids awaiting an acknowledgement are distinct, non-zero
  and at most 200, and the next id is non-zero.\<close>

theorem mqtt_in_flight_bounded:
  assumes "reachable js tgt s serial c"
  shows "distinct (map fst (in_flight c)) \<and> 0 \<notin> fst ` set (in_flight c)
    \<and> length (in_flight c) \<le> 200 \<and> next_packet_id c \<noteq> 0"
  using reachable_ok [OF assms] by (simp add: session_ok_def ids_ok_def)

theorem mqtt_in_flight_bounded_witness:
  "length (in_flight (snd (publish_command (\<lambda>_. None) Host DummyTimer [1]
     (with_stream \<lparr>now = 0, sleep_error = None, inbound = [], write_script = [], outbound = []\<rparr> ''S'')))) \<le> 200"
proof -
  let ?s = "\<lparr>now = 0, sleep_error = None, inbound = [], write_script = [], outbound = []\<rparr> :: io"
  have "reachable (\<lambda>_. None) Host ?s ''S''
      (snd (publish_command (\<lambda>_. None) Host DummyTimer [1] (with_stream ?s ''S'')))"
    by (rule reachable.step [OF reachable.start session_step.publish [OF surjective_pairing]])
  from mqtt_in_flight_bounded [OF this] show ?thesis by blast
qed

text \<open>The buffer of set-aside messages accounts for exactly the bytes it holds and stays within its
  cap; only after a write was torn may it hold one message more, the one whose acknowledgement was
  being written.\<close>

theorem mqtt_pending_bounded:
  assumes "reachable js tgt s serial c"
  shows "pending_bytes (mq_pending c) = sum_list (map message_size (pending_messages (mq_pending c)))
    \<and> pending_bytes (mq_pending c) \<le> MQTT_PENDING_BUFFER_MAX_BYTES tgt
        + (if write_poisoned c \<or> write_in_progress c then MQTT_MAX_PAYLOAD_BYTES tgt else 0)"
  using reachable_ok [OF assms] by (simp add: session_ok_def pending_ok_def pq.sound_def dead_def)

theorem mqtt_pending_bounded_witness:
  "pending_bytes (mq_pending (snd (poll_telemetry (\<lambda>_. None) Embedded DummyTimer
     (with_stream \<lparr>now = 0, sleep_error = None, inbound = [(0, PeerData [0x30, 3, 0, 1, 65])],
       write_script = [], outbound = []\<rparr> ''S'')))) \<le> 262144 + 65536"
proof -
  let ?s = "\<lparr>now = 0, sleep_error = None, inbound = [(0, PeerData [0x30, 3, 0, 1, 65])],
       write_script = [], outbound = []\<rparr> :: io"
  let ?c = "snd (poll_telemetry (\<lambda>_. None) Embedded DummyTimer (with_stream ?s ''S''))"
  have "pending_bytes (mq_pending ?c) \<le> MQTT_PENDING_BUFFER_MAX_BYTES Embedded
      + (if write_poisoned ?c \<or> write_in_progress ?c then MQTT_MAX_PAYLOAD_BYTES Embedded else 0)"
    by (rule conjunct2 [OF mqtt_pending_bounded [OF reachable.step [OF reachable.start
          session_step.poll [OF surjective_pairing]]]])
  then show ?thesis by (simp split: if_splits)
qed

end
