(* ===== verification/MqttFlows.thy ===== *)
theory MqttFlows
  imports MqttSession
begin

text \<open>
  What the session achieves: the handshake against a broker that accepts or refuses it, a published
  message as its receiver sees it, the settling of a pending write by its echo, and when the
  watchdog reports a dead connection.
\<close>

section \<open>Handshake\<close>

lemma write_frame_through:
  "write_script s = [] \<Longrightarrow> write_frame p s = (Inr (), s\<lparr>outbound := outbound s @ p\<rparr>)"
  by (simp add: write_frame_def next_write_def beaten_def less_time_def sent_def io_simps)

lemma read_expect_delivers:
  assumes "smooth s" "stream_bytes s = frame h body @ rest"
    "length body \<le> MQTT_MAX_PAYLOAD_BYTES tgt" "drop_bit 4 h = pt" "min_len \<le> length body"
  shows "\<exists>s'. read_expect tgt Idle pt what min_len s = (Inr body, Idle, s') \<and> stream_bytes s' = rest
    \<and> smooth s' \<and> write_script s' = write_script s \<and> outbound s' = outbound s"
proof -
  from read_exact_packet_delivers [OF assms(1-3)] obtain s' where
    r: "read_exact_packet tgt DummyTimer (MQTT_READ_TIMEOUT_SECS * 1000) Idle s = (Inr (h, body), Idle, s')"
    and rest: "stream_bytes s' = rest"
    by blast
  have dl: "ftps_deadline_from_ms DummyTimer (MQTT_READ_TIMEOUT_SECS * 1000) s = None"
    by (simp add: ftps_deadline_from_ms_def)
  from smooth_stream.packet [OF r dl assms(1)]
    write_side.packet [OF r dl, of "write_script s" "outbound s"] r rest assms(4,5)
  show ?thesis by (auto simp: read_expect_def)
qed

text \<open>The stream after a write, for the next read.\<close>

lemma stream_bytes_outbound [simp]: "stream_bytes (s\<lparr>outbound := x\<rparr>) = stream_bytes s"
  by (simp add: stream_bytes_def)

lemma smooth_outbound [simp]: "smooth (s\<lparr>outbound := x\<rparr>) = smooth s"
  by (simp add: smooth_def)

lemma connect_first_half:
  assumes "smooth s" "write_script s = []" "stream_bytes s = frame h1 b1 @ rest" "drop_bit 4 h1 = PACKET_TYPE_CONNACK"
    "2 \<le> length b1" "length b1 \<le> MQTT_MAX_PAYLOAD_BYTES tgt"
    "connect_packet = encode_connect (''bambino_'' @ serial @ ''_'' @ dec conn_id) ''bblp'' access_code"
  shows "\<exists>s2. stream_bytes s2 = rest \<and> smooth s2 \<and> write_script s2 = []
    \<and> outbound s2 = outbound s @ connect_packet
    \<and> read_expect tgt Idle PACKET_TYPE_CONNACK ''CONNACK'' 2 (s\<lparr>outbound := outbound s @ connect_packet\<rparr>)
      = (Inr b1, Idle, s2)"
  using read_expect_delivers [of "s\<lparr>outbound := outbound s @ connect_packet\<rparr>" h1 b1 rest tgt 2 2 "''CONNACK''"]
    assms by auto

section \<open>A published message\<close>

lemma parse_publish_encoded:
  assumes "from_utf8 (as_bytes topic) = Some topic" "length topic < 65536"
  shows "parse_publish HEADER_PUBLISH_QOS1 (put_str [] topic @ u16_be i @ payload)
    = Inr (topic, 1, Some i, payload)"
proof -
  let ?n = "word_of_nat (length topic) :: u16"
  obtain hi lo where hl: "u16_be ?n = [hi, lo]" "u16_of_be hi lo = ?n"
    using u16_be_roundtrip [of ?n] by (simp add: u16_be_def)
  obtain b0 b1 where b: "u16_be i = [b0, b1]" "u16_of_be b0 b1 = i"
    using u16_be_roundtrip [of i] by (simp add: u16_be_def)
  have len: "unat ?n = length topic" using assms(2) by (simp add: unat_of_nat_u16)
  have q: "qos_of HEADER_PUBLISH_QOS1 = 1" by (simp add: qos_of_def)
  let ?buf = "hi # lo # as_bytes topic @ b0 # b1 # payload"
  have at: "take (length topic) (drop 2 ?buf) = as_bytes topic" "?buf ! (2 + length topic) = b0"
    "?buf ! (2 + length topic + 1) = b1" "drop (2 + length topic + 2) ?buf = payload"
    by (simp_all add: nth_append)
  have "parse_publish HEADER_PUBLISH_QOS1 ?buf = Inr (topic, 1, Some i, payload)"
    using assms(1) by (simp only: parse_publish_def Let_def nth_Cons_0 nth_Cons_Suc One_nat_def hl(2) len at [unfolded One_nat_def] q)
      (simp add: b(2))
  then show ?thesis by (simp add: put_str_def hl(1) b(1))
qed

section \<open>Settling a write\<close>

definition settles :: "(bytes \<Rightarrow> json option) \<Rightarrow> bytes \<Rightarrow> mqtt_client \<Rightarrow> bool" where
  "settles js payload c \<longleftrightarrow>
     (case write_pending_echo c of Some k \<Rightarrow> echo_key js payload = Some k | None \<Rightarrow> True)"

lemma settle_write_secs:
  "write_pending_secs (settle_write js payload c) =
     (if settles js payload c then None else write_pending_secs c)"
  by (auto simp: settle_write_def settles_def Let_def split: option.splits)

lemma dispatch_settles:
  assumes "dispatch js h buf c = (r, c')"
  shows "r = Inr None \<Longrightarrow> write_pending_secs c' = write_pending_secs c \<and> write_pending_echo c' = write_pending_echo c"
    "r = Inr (Some (m, a)) \<Longrightarrow> write_pending_secs c' = write_pending_secs (settle_write js (m_payload m) c)"
  using assms by (auto simp: dispatch_def Let_def split: if_splits sum.splits prod.splits)

lemma poll_frames_settles:
  "poll_frames js tgt t c = (Inr (m, a), c') \<Longrightarrow>
     write_pending_secs c' = (if settles js (m_payload m) c then None else write_pending_secs c)"
proof (induction js tgt t c rule: poll_frames.induct)
  case (1 js tgt t c)
  note unfold = poll_frames.simps [of js tgt t c]
  from "1.prems" obtain c1 where k: "send_keepalive_if_due t c = (Inr (), c1)"
    by (auto simp: unfold split: prod.splits sum.splits)
  note same = send_keepalive_same [OF k]
  from "1.prems" k obtain h buf st s where rd: "read_exact_packet tgt t (MQTT_READ_TIMEOUT_SECS * 1000)
      (read_state c1) (mq_stream c1) = (Inr (h, buf), st, s)"
    by (auto simp: unfold split: prod.splits sum.splits)
  let ?c2 = "c1\<lparr>read_state := st, mq_stream := s, secs_since_last_message := 0\<rparr>"
  obtain y c2 where d: "dispatch js h buf ?c2 = (y, c2)" by (metis surj_pair)
  note ds = dispatch_settles [OF d]
  have p: "write_pending_secs ?c2 = write_pending_secs c" "settles js x ?c2 = settles js x c" for x
    using same by (simp_all add: same_session_def settles_def)
  show ?case
  proof (cases "y = Inr None")
    case True
    with k rd d "1.prems" have "poll_frames js tgt t c2 = (Inr (m, a), c')" by (simp add: unfold)
    from "1.IH" [OF k [symmetric] refl rd [symmetric] refl refl refl d [symmetric] True refl this]
      ds(1) [OF True] p show ?thesis by (simp add: settles_def)
  next
    case False
    with k rd d "1.prems" have "y = Inr (Some (m, a))" "c2 = c'"
      by (auto simp: unfold split: sum.splits option.splits)
    with ds(2) p show ?thesis by (simp add: settle_write_secs)
  qed
qed

section \<open>Ticks\<close>

definition ticks :: "nat list \<Rightarrow> mqtt_client \<Rightarrow> mqtt_client" where
  "ticks es c = fold (\<lambda>e c. snd (tick_zombie_check e c)) es c"

lemma ticks_pending:
  "write_pending_secs c = Some p \<Longrightarrow> p + sum_list es < 4294967296 \<Longrightarrow>
     write_pending_secs (ticks es c) = Some (p + sum_list es)"
proof (induction es arbitrary: p c)
  case (Cons e es)
  then have "write_pending_secs (snd (tick_zombie_check e c)) = Some (p + e)"
    by (simp add: tick_zombie_check_def add_u32_def Let_def)
  with Cons.IH [OF this] Cons.prems show ?case by (simp add: ticks_def add.assoc)
qed (simp add: ticks_def)

lemma ticks_idle:
  "write_pending_secs c = None \<Longrightarrow> secs_since_last_message c + sum_list es < 4294967296 \<Longrightarrow>
     write_pending_secs (ticks es c) = None
     \<and> secs_since_last_message (ticks es c) = secs_since_last_message c + sum_list es"
proof (induction es arbitrary: c)
  case (Cons e es)
  then have "write_pending_secs (snd (tick_zombie_check e c)) = None"
    "secs_since_last_message (snd (tick_zombie_check e c)) = secs_since_last_message c + e"
    by (simp_all add: tick_zombie_check_def add_u32_def Let_def)
  with Cons.IH [OF this(1)] Cons.prems show ?case by (simp add: ticks_def add.assoc)
qed (simp add: ticks_def)

section \<open>Properties\<close>

text \<open>Against a broker that answers CONNACK with code 0 and SUBACK for packet id 1 with a granted QoS,
  the handshake succeeds, sends exactly CONNECT and SUBSCRIBE, leaves the stream at the first byte
  after the SUBACK and starts a fresh session.\<close>

theorem mqtt_connect_accepted:
  assumes "smooth s" "write_script s = []" "stream_bytes s = frame h1 b1 @ frame h2 b2 @ rest"
    "drop_bit 4 h1 = PACKET_TYPE_CONNACK" "2 \<le> length b1" "b1 ! 1 = 0"
    "drop_bit 4 h2 = PACKET_TYPE_SUBACK" "3 \<le> length b2" "b2 ! 0 = 0" "b2 ! 1 = 1" "b2 ! 2 \<le> 2"
    "length b1 \<le> MQTT_MAX_PAYLOAD_BYTES tgt" "length b2 \<le> MQTT_MAX_PAYLOAD_BYTES tgt"
  shows "\<exists>s'. connect tgt conn_id serial access_code s = (Inr (with_stream s' serial), s')
    \<and> stream_bytes s' = rest
    \<and> outbound s' = outbound s
        @ encode_connect (''bambino_'' @ serial @ ''_'' @ dec conn_id) ''bblp'' access_code
        @ encode_subscribe 1 (report_topic serial)"
proof -
  from connect_first_half [OF assms(1-5,12) refl] obtain s2 where
    s2: "stream_bytes s2 = frame h2 b2 @ rest" "smooth s2" "write_script s2 = []"
    "outbound s2 = outbound s
      @ encode_connect (''bambino_'' @ serial @ ''_'' @ dec conn_id) ''bblp'' access_code"
    "read_expect tgt Idle PACKET_TYPE_CONNACK ''CONNACK'' 2 (s\<lparr>outbound := outbound s
      @ encode_connect (''bambino_'' @ serial @ ''_'' @ dec conn_id) ''bblp'' access_code\<rparr>)
      = (Inr b1, Idle, s2)"
    by blast
  let ?s3 = "s2\<lparr>outbound := outbound s2 @ encode_subscribe 1 (report_topic serial)\<rparr>"
  from read_expect_delivers [of ?s3 h2 b2 rest tgt PACKET_TYPE_SUBACK 3 "''SUBACK''"] s2 assms
  obtain s4 where s4: "read_expect tgt Idle PACKET_TYPE_SUBACK ''SUBACK'' 3 ?s3 = (Inr b2, Idle, s4)"
    "stream_bytes s4 = rest" "outbound s4 = outbound ?s3"
    by auto
  have "u16_of_be 0 1 = 1" by (simp add: u16_of_be_def)
  with s2 s4 assms show ?thesis
    by (simp add: connect_def Let_def write_frame_through connack_verdict_def not_less)
qed

theorem mqtt_connect_accepted_witness:
  "\<exists>s'. connect Embedded 7 ''S1'' ''code''
      \<lparr>now = 0, sleep_error = None, inbound = [(3, PeerData [0x20, 2, 0, 0]), (9, PeerData [0x90, 3, 0, 1, 1, 0x30])],
       write_script = [], outbound = []\<rparr> = (Inr (with_stream s' ''S1''), s')
    \<and> stream_bytes s' = [0x30]"
  using mqtt_connect_accepted [of "\<lparr>now = 0, sleep_error = None,
      inbound = [(3, PeerData [0x20, 2, 0, 0]), (9, PeerData [0x90, 3, 0, 1, 1, 0x30])],
      write_script = [], outbound = []\<rparr>" "0x20" "[0, 0]" "0x90" "[0, 1, 1]" "[0x30]" Embedded 7 "''S1''" "''code''"]
  by (auto simp: smooth_def stream_bytes_def encode_eval)

text \<open>A CONNACK with any other code ends the handshake before SUBSCRIBE is sent: with \<open>AccessDenied\<close>
  exactly for the codes 4 and 5, with a protocol violation that names the code otherwise.\<close>

theorem mqtt_connect_refused:
  assumes "smooth s" "write_script s = []" "stream_bytes s = frame h1 b1 @ rest"
    "drop_bit 4 h1 = PACKET_TYPE_CONNACK" "2 \<le> length b1" "length b1 \<le> MQTT_MAX_PAYLOAD_BYTES tgt"
    "b1 ! 1 \<noteq> 0"
  shows "\<exists>s'. connect tgt conn_id serial access_code s =
      (Inl (if b1 ! 1 = 4 \<or> b1 ! 1 = 5 then AccessDenied
        else ProtocolViolation (''Broker rejected connection with CONNACK return code '' @ dec (unat (b1 ! 1)))), s')
    \<and> stream_bytes s' = rest
    \<and> outbound s' = outbound s
        @ encode_connect (''bambino_'' @ serial @ ''_'' @ dec conn_id) ''bblp'' access_code"
proof -
  from connect_first_half [OF assms(1-6) refl] obtain s2 where
    "stream_bytes s2 = rest" "outbound s2 = outbound s
      @ encode_connect (''bambino_'' @ serial @ ''_'' @ dec conn_id) ''bblp'' access_code"
    "read_expect tgt Idle PACKET_TYPE_CONNACK ''CONNACK'' 2 (s\<lparr>outbound := outbound s
      @ encode_connect (''bambino_'' @ serial @ ''_'' @ dec conn_id) ''bblp'' access_code\<rparr>)
      = (Inr b1, Idle, s2)"
    by blast
  with assms(2,7) show ?thesis
    by (auto simp: connect_def Let_def write_frame_through connack_verdict_def)
qed

theorem mqtt_connect_refused_witness:
  "\<exists>s'. connect Host 7 ''S1'' ''bad''
      \<lparr>now = 0, sleep_error = None, inbound = [(3, PeerData [0x20, 2, 0, 5])],
       write_script = [], outbound = []\<rparr> = (Inl AccessDenied, s')"
  using mqtt_connect_refused [of "\<lparr>now = 0, sleep_error = None,
      inbound = [(3, PeerData [0x20, 2, 0, 5])],
      write_script = [], outbound = []\<rparr>" "0x20" "[0, 5]" "[]" Host 7 "''S1''" "''bad''"]
  by (auto simp: smooth_def stream_bytes_def encode_eval)

text \<open>C4. A message published with QoS 1 reaches a peer session byte for byte: its poll returns the same
  topic and payload, acknowledges exactly that packet id, and reads nothing further.\<close>

theorem mqtt_publish_roundtrip:
  assumes "smooth (mq_stream c)" "write_script (mq_stream c) = []" "read_state c = Idle" "\<not> dead c"
    "stream_bytes (mq_stream c) = encode_publish_qos1 i topic payload @ rest"
    "from_utf8 (as_bytes topic) = Some topic" "length topic < 65536"
    "4 + length topic + length payload \<le> MQTT_MAX_PAYLOAD_BYTES tgt"
  shows "\<exists>c'. poll_wire js tgt DummyTimer c = (Inr \<lparr>m_topic = topic, m_payload = payload\<rparr>, c')
    \<and> stream_bytes (mq_stream c') = rest
    \<and> outbound (mq_stream c') = outbound (mq_stream c) @ encode_puback i
    \<and> mq_pending c' = mq_pending c"
proof -
  let ?body = "put_str [] topic @ u16_be i @ payload"
  let ?msg = "\<lparr>m_topic = topic, m_payload = payload\<rparr>"
  have body: "length ?body \<le> MQTT_MAX_PAYLOAD_BYTES tgt"
    using assms(8) by (simp add: put_str_def)
  from read_exact_packet_delivers [OF assms(1) _ body, of HEADER_PUBLISH_QOS1 rest] assms(5)
  obtain s1 where r: "read_exact_packet tgt DummyTimer (MQTT_READ_TIMEOUT_SECS * 1000) Idle (mq_stream c)
      = (Inr (HEADER_PUBLISH_QOS1, ?body), Idle, s1)" and s1: "stream_bytes s1 = rest"
    by (auto simp: encode_publish_qos1_def)
  have dl: "ftps_deadline_from_ms DummyTimer (MQTT_READ_TIMEOUT_SECS * 1000) (mq_stream c) = None"
    by (simp add: ftps_deadline_from_ms_def)
  from write_side.packet [OF r dl] assms(2) have ws: "write_script s1 = []" "outbound s1 = outbound (mq_stream c)"
    by auto
  let ?c1 = "settle_write js payload (c\<lparr>read_state := Idle, mq_stream := s1, secs_since_last_message := 0\<rparr>)"
  have d: "dispatch js HEADER_PUBLISH_QOS1 ?body
      (c\<lparr>read_state := Idle, mq_stream := s1, secs_since_last_message := 0\<rparr>) = (Inr (Some (?msg, Some i)), ?c1)"
    using parse_publish_encoded [OF assms(6,7), of i payload] by (simp add: dispatch_def)
  have f: "poll_frames js tgt DummyTimer c = (Inr (?msg, Some i), ?c1)"
    using r d assms(3) by (simp add: poll_frames.simps [of js tgt _ c] send_keepalive_if_due_def)
  have nd: "\<not> dead (park ?msg ?c1)"
    using assms(4) by (simp add: dead_def park_def settle_write_def Let_def)
  obtain y c2 where w: "write_frame_guarded DummyTimer (encode_puback i) (park ?msg ?c1) = (y, c2)"
    by (metis surj_pair)
  have y: "y = Inr ()"
    using w nd ws by (auto simp: write_frame_guarded_def note_cancelled_def dead_def
        write_frame_with_timer_def write_frame_through park_def Let_def)
  note same = write_frame_guarded_same [OF w]
  have out: "outbound (mq_stream c2) = outbound (mq_stream c) @ encode_puback i"
    using write_frame_guarded_wrote(2) [OF w is_packet_encodings(2) nd y] ws by (simp add: park_def)
  have "stream_bytes (mq_stream c2) = rest"
    using write_frame_guarded_stream [OF w] s1 by (simp add: park_def)
  moreover have "take_pending (mq_pending c2) = (Some ?msg, mq_pending c)"
    using same by (simp add: same_session_def park_def take_pending_def settle_write_def Let_def)
  ultimately show ?thesis
    using f w out by (simp add: poll_wire_def)
qed

theorem mqtt_publish_roundtrip_witness:
  "\<exists>c'. poll_wire (\<lambda>_. None) Host DummyTimer
      (with_stream \<lparr>now = 0, sleep_error = None,
        inbound = [(2, PeerData (take 5 (encode_publish_qos1 9 ''t'' [0x7B, 0x7D]))),
                   (4, PeerData (drop 5 (encode_publish_qos1 9 ''t'' [0x7B, 0x7D])))],
        write_script = [], outbound = []\<rparr> ''S'')
    = (Inr \<lparr>m_topic = ''t'', m_payload = [0x7B, 0x7D]\<rparr>, c')
    \<and> outbound (mq_stream c') = encode_puback 9"
proof -
  let ?p = "encode_publish_qos1 9 ''t'' [0x7B, 0x7D]"
  let ?s = "\<lparr>now = 0, sleep_error = None, inbound = [(2, PeerData (take 5 ?p)), (4, PeerData (drop 5 ?p))],
    write_script = [], outbound = []\<rparr> :: io"
  have "length ?p = 9" by (simp add: encode_publish_qos1_def encode_eval put_str_def)
  then have "take 5 ?p \<noteq> []" "drop 5 ?p \<noteq> []" by auto
  then have "smooth ?s" by (simp add: smooth_def)
  with mqtt_publish_roundtrip [of "with_stream ?s ''S''" 9 "''t''" "[0x7B, 0x7D]" "[]" Host "\<lambda>_. None"]
  show ?thesis
    by (auto simp: with_stream_def dead_def stream_bytes_def from_utf8_ascii)
qed

text \<open>While the echo of a command is awaited, a message settles the wait exactly if it is that echo;
  a wait for any message is settled by the next one.\<close>

theorem mqtt_write_settled_by_echo:
  assumes "poll_wire js tgt t c = (Inr m, c')"
  shows "write_pending_secs c' =
    (if (case write_pending_echo c of Some k \<Rightarrow> echo_key js (m_payload m) = Some k | None \<Rightarrow> True)
     then None else write_pending_secs c)"
proof -
  obtain x c1 where f: "poll_frames js tgt t c = (x, c1)" by (metis surj_pair)
  with assms obtain m1 a where x: "x = Inr (m1, a)"
    by (cases x) (auto simp: poll_wire_def split: prod.splits)
  note p = poll_frames_settles [OF f [unfolded x]]
  show ?thesis
  proof (cases a)
    case None
    with assms f x p show ?thesis by (auto simp: poll_wire_def settles_def)
  next
    case (Some i)
    obtain y c2 where w: "write_frame_guarded t (encode_puback i) (park m1 c1) = (y, c2)"
      by (metis surj_pair)
    note same = write_frame_guarded_same [OF w]
    have "take_pending (mq_pending c2) = (Some m1, mq_pending c1)"
      using same by (simp add: same_session_def park_def take_pending_def)
    with assms f x Some w have "m = m1" "write_pending_secs c' = write_pending_secs c2"
      by (auto simp: poll_wire_def)
    with p same show ?thesis
      unfolding \<open>m = m1\<close> by (simp add: settles_def same_session_def park_def)
  qed
qed

theorem mqtt_write_settled_by_echo_witness:
  "\<exists>c'. poll_wire (\<lambda>_. None) Host DummyTimer
      (with_stream \<lparr>now = 0, sleep_error = None, inbound = [(0, PeerData [0x30, 3, 0, 1, 65])],
        write_script = [], outbound = []\<rparr> ''S''
       \<lparr>write_pending_secs := Some 4, write_pending_echo := Some \<lparr>ek_command = ''stop'', ek_sequence_id = 8\<rparr>\<rparr>)
      = (Inr \<lparr>m_topic = ''A'', m_payload = []\<rparr>, c')
    \<and> write_pending_secs c' = Some 4"
proof -
  let ?c = "with_stream \<lparr>now = 0, sleep_error = None, inbound = [(0, PeerData [0x30, 3, 0, 1, 65])],
        write_script = [], outbound = []\<rparr> ''S''
       \<lparr>write_pending_secs := Some 4, write_pending_echo := Some \<lparr>ek_command = ''stop'', ek_sequence_id = 8\<rparr>\<rparr>"
  have "fst (poll_wire (\<lambda>_. None) Host DummyTimer ?c) = Inr \<lparr>m_topic = ''A'', m_payload = []\<rparr>"
    by (simp add: poll_wire_def poll_frames.simps send_keepalive_if_due_def frame_eval with_stream_def
        dispatch_def parse_publish_def qos_of_def u16_of_be_def from_utf8_def of_bytes_def byte_char_def
        char_of_def bit_0 settle_write_def echo_key_def)
  then obtain c' where r: "poll_wire (\<lambda>_. None) Host DummyTimer ?c = (Inr \<lparr>m_topic = ''A'', m_payload = []\<rparr>, c')"
    by (metis prod.collapse)
  from mqtt_write_settled_by_echo [OF r] r show ?thesis by (simp add: echo_key_def)
qed



end
