(* ===== verification/Tunnel.thy ===== *)
theory Tunnel
  imports Json Io
begin

text \<open>
  The file tunnel (\<open>src/file_tunnel/\<close>): the frame header and the login fields, frames on the wire,
  the two-step handshake, requests and their replies, and the poisoning of a session that can no
  longer tell which reply belongs to which request.

  The JSON text is written and read by code that \<open>serde\<close> derives, and the digest is the \<open>md5\<close>
  crate's: both are third-party and are the fields of the record \<open>serde\<close>, which every operation
  takes as an argument. A request is the JSON object it serializes to, fields in source order.
\<close>

section \<open>Identity\<close>

abbreviation (input) ACCESS_CODE_LEN :: nat where "ACCESS_CODE_LEN \<equiv> 8"
abbreviation (input) SERIAL_MAX_LEN :: nat where "SERIAL_MAX_LEN \<equiv> 20"
abbreviation (input) LAN_USERNAME :: string where "LAN_USERNAME \<equiv> ''bblp''"

definition validate_access_code :: "string \<Rightarrow> error + unit" where
  "validate_access_code access_code =
     (if length access_code \<noteq> ACCESS_CODE_LEN \<or> \<not> list_all is_ascii_alphanumeric access_code
      then Inl (InvalidArgument ''access code must be exactly 8 ASCII letters or digits'')
      else Inr ())"

definition validate_serial :: "string \<Rightarrow> error + unit" where
  "validate_serial serial =
     (if serial = [] \<or> length serial > SERIAL_MAX_LEN \<or> \<not> list_all is_ascii_alphanumeric serial
      then Inl (InvalidArgument ''serial must be 1-20 ASCII letters or digits'')
      else Inr ())"

definition validate_identity :: "string \<Rightarrow> string \<Rightarrow> error + unit" where
  "validate_identity serial access_code =
     (case validate_serial serial of Inl e \<Rightarrow> Inl e | Inr _ \<Rightarrow> validate_access_code access_code)"

section \<open>Frames\<close>

abbreviation (input) FRAME_HEADER_LEN :: nat where "FRAME_HEADER_LEN \<equiv> 16"
abbreviation (input) MAGIC_LOGIN :: u32 where "MAGIC_LOGIN \<equiv> 0x0101013F"
abbreviation (input) MAGIC_LOGIN_ACK :: u32 where "MAGIC_LOGIN_ACK \<equiv> 0x0001013F"
abbreviation (input) MAGIC_CTRL :: u32 where "MAGIC_CTRL \<equiv> 0x0102013F"
abbreviation (input) MAGIC_CTRL_REPLY :: u32 where "MAGIC_CTRL_REPLY \<equiv> 0x0002013F"
abbreviation (input) MAGIC_REJECT :: u32 where "MAGIC_REJECT \<equiv> 0x0003013F"
abbreviation (input) LOGIN_FIELD_LEN :: nat where "LOGIN_FIELD_LEN \<equiv> 8"
abbreviation (input) MTYPE_CTRL :: nat where "MTYPE_CTRL \<equiv> 0x3001"
abbreviation (input) MTYPE_SETUP :: nat where "MTYPE_SETUP \<equiv> 0x3003"
abbreviation (input) FILE_TUNNEL_HANDSHAKE_TIMEOUT_SECS :: nat where
  "FILE_TUNNEL_HANDSHAKE_TIMEOUT_SECS \<equiv> 8"
abbreviation (input) FILE_TUNNEL_READ_TIMEOUT_SECS :: nat where "FILE_TUNNEL_READ_TIMEOUT_SECS \<equiv> 30"
abbreviation (input) FILE_TUNNEL_WRITE_TIMEOUT_SECS :: nat where "FILE_TUNNEL_WRITE_TIMEOUT_SECS \<equiv> 30"
abbreviation (input) MAX_SKIPPED_FRAMES :: nat where "MAX_SKIPPED_FRAMES \<equiv> 64"
abbreviation (input) CANCEL_MAX_SKIPPED_FRAMES :: nat where "CANCEL_MAX_SKIPPED_FRAMES \<equiv> 256"
abbreviation (input) HANDSHAKE_MAX_FRAME_PAYLOAD :: nat where "HANDSHAKE_MAX_FRAME_PAYLOAD \<equiv> 1024"
abbreviation (input) DEFAULT_MAX_FRAME_PAYLOAD :: nat where "DEFAULT_MAX_FRAME_PAYLOAD \<equiv> 4194304"

record frame_header =
  payload_len :: u32
  magic :: u32
  seq :: u32

definition encode_header :: "frame_header \<Rightarrow> bytes" where
  "encode_header h = u32_le (payload_len h) @ u32_le (magic h) @ u32_le (seq h) @ replicate 4 0"

definition header_word :: "bytes \<Rightarrow> nat \<Rightarrow> u32" where
  "header_word bs i = u32_of_le (bs ! i) (bs ! (i + 1)) (bs ! (i + 2)) (bs ! (i + 3))"

definition decode_header :: "bytes \<Rightarrow> frame_header" where
  "decode_header bs =
     \<lparr>payload_len = header_word bs 0, magic = header_word bs 4, seq = header_word bs 8\<rparr>"

text \<open>\<open>build_login_payload\<close>: two zero-padded fields of eight bytes.\<close>

definition build_login_payload :: "string \<Rightarrow> error + bytes" where
  "build_login_payload access_code =
     (case validate_access_code access_code of
        Inl e \<Rightarrow> Inl e
      | Inr _ \<Rightarrow>
          let out = replicate (2 * LOGIN_FIELD_LEN) 0;
              user = as_bytes LAN_USERNAME;
              out = user @ drop (length user) out;
              login = as_bytes access_code
          in Inr (take LOGIN_FIELD_LEN out @ login @ drop (LOGIN_FIELD_LEN + length login) out))"

definition jnum :: "nat \<Rightarrow> json" where
  "jnum n = JNumber (PosInt n)"

definition setup_json :: "string \<Rightarrow> json" where
  "setup_json pid = JObject
     [(''sequence'', jnum 0), (''mtype'', jnum MTYPE_SETUP),
      (''req'', JObject
        [(''t_av'', jnum 1), (''mtype'', jnum MTYPE_CTRL), (''peer_t'', jnum 3),
         (''pid'', JString pid), (''ver'', JString ''02.03.00.00'')])]"

definition setup_pid :: "u32 \<Rightarrow> string" where
  "setup_pid s = hex_pad 8 (unat s)"

definition request_json :: "nat \<Rightarrow> u32 \<Rightarrow> json \<Rightarrow> json" where
  "request_json cmdtype sequence req = JObject
     [(''mtype'', jnum MTYPE_CTRL), (''cmdtype'', jnum cmdtype), (''sequence'', jnum (unat sequence)),
      (''req'', req)]"

abbreviation (input) BINARY_SEPARATOR :: bytes where "BINARY_SEPARATOR \<equiv> [10, 10]"

definition encode_request ::
  "(json \<Rightarrow> error + bytes) \<Rightarrow> nat \<Rightarrow> u32 \<Rightarrow> json \<Rightarrow> bytes \<Rightarrow> error + bytes" where
  "encode_request to_vec cmdtype sequence req binary =
     (case to_vec (request_json cmdtype sequence req) of
        Inl e \<Rightarrow> Inl e
      | Inr out \<Rightarrow> Inr (if binary \<noteq> [] then out @ BINARY_SEPARATOR @ binary else out))"

definition split_payload :: "bytes \<Rightarrow> bytes \<times> bytes" where
  "split_payload payload =
     (case find_sub BINARY_SEPARATOR payload of
        Some i \<Rightarrow> (take i payload, drop (i + 2) payload)
      | None \<Rightarrow> (payload, []))"

section \<open>Replies\<close>

record 'r envelope =
  env_cmdtype :: "nat option"
  env_sequence :: "nat option"
  env_result :: "int option"
  env_reply :: "'r option"

definition is_notify :: "'r envelope \<Rightarrow> bool" where
  "is_notify e \<longleftrightarrow> env_result e = None \<and> (case env_cmdtype e of None \<Rightarrow> False | Some c \<Rightarrow> c \<ge> 0x100)"

record wire_file =
  wf_name :: string
  wf_path :: string
  wf_time :: nat
  wf_size :: nat

record download_reply =
  dl_offset :: nat
  dl_total :: nat
  dl_size :: nat
  dl_file_md5 :: "string option"
  dl_mem_param_size :: "nat option"

record mem_download_status =
  ms_result :: "int option"
  ms_size :: "nat option"

definition accepted :: "mem_download_status \<Rightarrow> bool" where
  "accepted m \<longleftrightarrow> (case ms_result m of None \<Rightarrow> False | Some r \<Rightarrow> r \<noteq> 1) \<and> ms_size m \<noteq> Some 0"

record sub_file_reply =
  sf_path :: string
  sf_size :: nat
  sf_more_fragments :: bool

record upload_init_reply =
  up_chunk_size :: nat
  up_offset :: nat

record serde =
  to_vec :: "json \<Rightarrow> error + bytes"
  from_any :: "bytes \<Rightarrow> unit envelope option"
  from_media :: "bytes \<Rightarrow> string list envelope option"
  from_list :: "bytes \<Rightarrow> wire_file list envelope option"
  from_download :: "bytes \<Rightarrow> download_reply envelope option"
  from_sub_file :: "bytes \<Rightarrow> sub_file_reply envelope option"
  from_upload_init :: "bytes \<Rightarrow> upload_init_reply envelope option"
  from_status :: "bytes \<Rightarrow> mem_download_status option"
  md5_hex :: "bytes \<Rightarrow> string"

text \<open>The parser's own message, which follows the colon, is left out.\<close>

definition parse_envelope :: "(bytes \<Rightarrow> 'r envelope option) \<Rightarrow> bytes \<Rightarrow> string \<Rightarrow> error + 'r envelope"
where
  "parse_envelope from json what =
     (case from json of
        None \<Rightarrow> Inl (Serialization (''file tunnel '' @ what @ '': ''))
      | Some e \<Rightarrow> Inr e)"

section \<open>Frames on the wire\<close>

definition tn_write_frame ::
  "timer \<Rightarrow> u32 \<Rightarrow> u32 \<Rightarrow> bytes \<Rightarrow> io \<Rightarrow> (error + unit) \<times> u32 \<times> io" where
  "tn_write_frame t frame_seq mg payload s =
     (if length payload \<ge> 4294967296
      then (Inl (InvalidArgument ''file tunnel frame over 4 GiB''), frame_seq, s)
      else
        let header = encode_header
              \<lparr>payload_len = word_of_nat (length payload), magic = mg, seq = frame_seq\<rparr>;
            frame_seq' = frame_seq + 1;
            deadline = ftps_deadline_ms t FILE_TUNNEL_WRITE_TIMEOUT_SECS s
        in case write_bounded header deadline s of
             (Inl e, s1) \<Rightarrow> (Inl e, frame_seq', s1)
           | (Inr _, s1) \<Rightarrow>
          (case (if payload \<noteq> [] then write_bounded payload deadline s1 else (Inr (), s1)) of
             (Inl e, s2) \<Rightarrow> (Inl e, frame_seq', s2)
           | (Inr _, s2) \<Rightarrow>
          (case write_bounded [] deadline s2 of (r, s3) \<Rightarrow> (r, frame_seq', s3))))"

text \<open>Fill a buffer of \<open>n\<close> bytes.\<close>

function read_exact_bounded :: "nat option \<Rightarrow> nat \<Rightarrow> io \<Rightarrow> (error + bytes) \<times> io" where
  "read_exact_bounded deadline n s =
     (if n = 0 then (Inr [], s)
      else case read_chunk n deadline s of
        (Inl e, s1) \<Rightarrow> (Inl (Network e), s1)
      | (Inr bs, s1) \<Rightarrow>
          (case read_exact_bounded deadline (n - length bs) s1 of
             (Inl e, s2) \<Rightarrow> (Inl e, s2)
           | (Inr r, s2) \<Rightarrow> (Inr (bs @ r), s2)))"
  by pat_completeness auto
termination
proof (relation "measure (\<lambda>(_, n, _). n)")
  fix deadline n s r s1 bs
  assume "n \<noteq> 0" "(r, s1) = read_chunk n deadline s" "r = Inr bs"
  then have "bs \<noteq> []" using read_chunk_ok(1) by metis
  with \<open>n \<noteq> 0\<close> show "((deadline, n - length bs, s1), deadline, n, s) \<in> measure (\<lambda>(_, n, _). n)"
    by simp
qed simp

declare read_exact_bounded.simps [simp del]

definition read_frame ::
  "timer \<Rightarrow> nat \<Rightarrow> nat \<Rightarrow> io \<Rightarrow> (error + frame_header \<times> bytes) \<times> io" where
  "read_frame t budget_secs max_payload s =
     (let deadline = ftps_deadline_ms t budget_secs s in
      case read_exact_bounded deadline FRAME_HEADER_LEN s of
        (Inl e, s1) \<Rightarrow> (Inl e, s1)
      | (Inr hb, s1) \<Rightarrow>
          let header = decode_header hb; len = unat (payload_len header) in
          if len > max_payload
          then (Inl (ProtocolViolation (''file tunnel frame declares '' @ dec len
                 @ '' bytes, over the '' @ dec max_payload @ '' byte limit'')), s1)
          else case read_exact_bounded deadline len s1 of
            (Inl e, s2) \<Rightarrow> (Inl e, s2)
          | (Inr payload, s2) \<Rightarrow> (Inr (header, payload), s2))"

definition rejected :: error where
  "rejected = ProtocolViolation ''file tunnel refused the session (reject frame 0x0003013F); the printer does not serve the file tunnel to this client''"

section \<open>Handshake\<close>

definition require_success :: "string \<Rightarrow> int option \<Rightarrow> error + unit" where
  "require_success command result =
     (case result of
        Some r \<Rightarrow> if r = 0 then Inr () else Inl (TunnelReply command r)
      | None \<Rightarrow> Inl (ProtocolViolation (''file tunnel '' @ command @ '' reply carries no result'')))"

definition handshake :: "serde \<Rightarrow> string \<Rightarrow> timer \<Rightarrow> u32 \<Rightarrow> io \<Rightarrow> (error + unit) \<times> u32 \<times> io" where
  "handshake sd access_code t frame_seq s =
     (case build_login_payload access_code of
        Inl e \<Rightarrow> (Inl e, frame_seq, s)
      | Inr login \<Rightarrow>
     (case tn_write_frame t frame_seq MAGIC_LOGIN login s of
        (Inl e, q1, s1) \<Rightarrow> (Inl e, q1, s1)
      | (Inr _, q1, s1) \<Rightarrow>
     (case read_frame t FILE_TUNNEL_HANDSHAKE_TIMEOUT_SECS HANDSHAKE_MAX_FRAME_PAYLOAD s1 of
        (Inl e, s2) \<Rightarrow> (Inl e, q1, s2)
      | (Inr (ack, _), s2) \<Rightarrow>
      if magic ack = MAGIC_REJECT then (Inl rejected, q1, s2)
      else
     (case to_vec sd (setup_json (setup_pid q1)) of
        Inl e \<Rightarrow> (Inl e, q1, s2)
      | Inr setup \<Rightarrow>
     (case tn_write_frame t q1 MAGIC_CTRL setup s2 of
        (Inl e, q3, s3) \<Rightarrow> (Inl e, q3, s3)
      | (Inr _, q3, s3) \<Rightarrow>
     (case read_frame t FILE_TUNNEL_HANDSHAKE_TIMEOUT_SECS HANDSHAKE_MAX_FRAME_PAYLOAD s3 of
        (Inl e, s4) \<Rightarrow> (Inl e, q3, s4)
      | (Inr (header, payload), s4) \<Rightarrow>
      if magic header = MAGIC_REJECT then (Inl rejected, q3, s4)
      else
     (case parse_envelope (from_any sd) (fst (split_payload payload)) ''setup reply'' of
        Inl e \<Rightarrow> (Inl e, q3, s4)
      | Inr reply \<Rightarrow> (require_success ''setup'' (env_result reply), q3, s4))))))))"

section \<open>The session\<close>

record tunnel =
  tn_stream :: io
  max_frame_payload :: nat
  frame_seq :: u32
  next_sequence :: u32
  poisoned :: bool

text \<open>\<open>tls\<close> stands for the TLS connector, \<open>unix_millis\<close> for the platform's wall clock.\<close>

definition tunnel_connect ::
  "serde \<Rightarrow> (string \<Rightarrow> socket_error + io) \<Rightarrow> nat option \<Rightarrow> timer \<Rightarrow> string \<Rightarrow> string \<Rightarrow> error + tunnel"
where
  "tunnel_connect sd tls unix_millis t serial access_code =
     (case validate_identity serial access_code of
        Inl e \<Rightarrow> Inl e
      | Inr _ \<Rightarrow>
     (case tls serial of
        Inl e \<Rightarrow> Inl (Network e)
      | Inr s \<Rightarrow>
      let start = word_of_nat (case unix_millis of Some ms \<Rightarrow> ms | None \<Rightarrow> now_millis t s) in
      (case handshake sd access_code t start s of
         (Inl e, _, _) \<Rightarrow> Inl e
       | (Inr _, q, s1) \<Rightarrow>
           Inr \<lparr>tn_stream = s1, max_frame_payload = DEFAULT_MAX_FRAME_PAYLOAD, frame_seq = q,
                next_sequence = 1, poisoned = False\<rparr>)))"

definition check_poisoned :: "tunnel \<Rightarrow> error + unit" where
  "check_poisoned c =
     (if poisoned c
      then Inl (ProtocolViolation ''file tunnel session is out of sync after an earlier failure; reconnect'')
      else Inr ())"

definition poison :: "error \<Rightarrow> tunnel \<Rightarrow> (error + 'a) \<times> tunnel" where
  "poison e c = (Inl e, c\<lparr>poisoned := True\<rparr>)"

text \<open>\<open>wrapping_add(1).max(1)\<close>.\<close>

definition bump_sequence :: "u32 \<Rightarrow> u32" where
  "bump_sequence q = max (q + 1) 1"

definition send_request ::
  "serde \<Rightarrow> timer \<Rightarrow> nat \<Rightarrow> json \<Rightarrow> bytes \<Rightarrow> tunnel \<Rightarrow> (error + u32) \<times> tunnel" where
  "send_request sd t cmdtype req binary c0 =
     (let sequence = next_sequence c0;
          c = c0\<lparr>next_sequence := bump_sequence sequence\<rparr>
      in case encode_request (to_vec sd) cmdtype sequence req binary of
           Inl e \<Rightarrow> (Inl e, c)
         | Inr payload \<Rightarrow>
        (case tn_write_frame t (frame_seq c) MAGIC_CTRL payload (tn_stream c) of
           (Inl e, q, s) \<Rightarrow> poison e (c\<lparr>frame_seq := q, tn_stream := s\<rparr>)
         | (Inr _, q, s) \<Rightarrow> (Inr sequence, c\<lparr>frame_seq := q, tn_stream := s\<rparr>)))"

text \<open>One frame while a reply is awaited: \<open>Inr None\<close> is a notification or a stale reply, skipped.\<close>

definition reply_frame_step ::
  "serde \<Rightarrow> timer \<Rightarrow> nat \<Rightarrow> u32 \<Rightarrow> tunnel \<Rightarrow> (error + bytes option) \<times> tunnel" where
  "reply_frame_step sd t cmdtype sequence c0 =
     (case read_frame t FILE_TUNNEL_READ_TIMEOUT_SECS (max_frame_payload c0) (tn_stream c0) of
        (Inl e, s) \<Rightarrow> poison e (c0\<lparr>tn_stream := s\<rparr>)
      | (Inr (header, payload), s) \<Rightarrow>
          let c = c0\<lparr>tn_stream := s\<rparr> in
          if magic header = MAGIC_REJECT then poison rejected c
          else case parse_envelope (from_any sd) (fst (split_payload payload)) ''reply'' of
            Inl e \<Rightarrow> poison e c
          | Inr head \<Rightarrow>
              if is_notify head then (Inr None, c)
              else if env_sequence head = Some (unat sequence)
                \<and> (case env_cmdtype head of None \<Rightarrow> True | Some k \<Rightarrow> k = cmdtype)
              then (Inr (Some payload), c)
              else (Inr None, c))"

text \<open>\<open>n\<close> is how many more frames may be read; \<open>max_skipped\<close> only appears in the message.\<close>

fun read_reply_frames ::
  "serde \<Rightarrow> timer \<Rightarrow> nat \<Rightarrow> u32 \<Rightarrow> nat \<Rightarrow> nat \<Rightarrow> tunnel \<Rightarrow> (error + bytes) \<times> tunnel" where
  "read_reply_frames sd t cmdtype sequence max_skipped 0 c =
     poison (ProtocolViolation (''file tunnel sent '' @ dec max_skipped
       @ '' unrelated frames without answering'')) c"
| "read_reply_frames sd t cmdtype sequence max_skipped (Suc n) c =
     (case reply_frame_step sd t cmdtype sequence c of
        (Inl e, c1) \<Rightarrow> (Inl e, c1)
      | (Inr (Some payload), c1) \<Rightarrow> (Inr payload, c1)
      | (Inr None, c1) \<Rightarrow> read_reply_frames sd t cmdtype sequence max_skipped n c1)"

definition read_reply_frame_within ::
  "serde \<Rightarrow> timer \<Rightarrow> nat \<Rightarrow> u32 \<Rightarrow> nat \<Rightarrow> tunnel \<Rightarrow> (error + bytes) \<times> tunnel" where
  "read_reply_frame_within sd t cmdtype sequence max_skipped c =
     read_reply_frames sd t cmdtype sequence max_skipped (Suc max_skipped) c"

definition read_reply_frame ::
  "serde \<Rightarrow> timer \<Rightarrow> nat \<Rightarrow> u32 \<Rightarrow> tunnel \<Rightarrow> (error + bytes) \<times> tunnel" where
  "read_reply_frame sd t cmdtype sequence c =
     read_reply_frame_within sd t cmdtype sequence MAX_SKIPPED_FRAMES c"

abbreviation (input) CMD_TASK_CANCEL :: nat where "CMD_TASK_CANCEL \<equiv> 0x1000"

definition abandon :: "serde \<Rightarrow> timer \<Rightarrow> u32 \<Rightarrow> tunnel \<Rightarrow> tunnel" where
  "abandon sd t sequence c =
     (case send_request sd t CMD_TASK_CANCEL
             (JObject [(''tasks'', JArray [jnum (unat sequence)])]) [] c of
        (Inl _, c1) \<Rightarrow> c1\<lparr>poisoned := True\<rparr>
      | (Inr cancel_seq, c1) \<Rightarrow>
          (case read_reply_frame_within sd t CMD_TASK_CANCEL cancel_seq CANCEL_MAX_SKIPPED_FRAMES c1 of
             (Inl _, c2) \<Rightarrow> c2\<lparr>poisoned := True\<rparr>
           | (Inr payload, c2) \<Rightarrow>
               (case parse_envelope (from_any sd) (fst (split_payload payload)) ''TASK_CANCEL'' of
                  Inl _ \<Rightarrow> c2\<lparr>poisoned := True\<rparr>
                | Inr env \<Rightarrow> if env_result env = Some 0 then c2 else c2\<lparr>poisoned := True\<rparr>)))"

definition single_reply ::
  "serde \<Rightarrow> (bytes \<Rightarrow> 'r envelope option) \<Rightarrow> 'r \<Rightarrow> timer \<Rightarrow> string \<Rightarrow> nat \<Rightarrow> json \<Rightarrow> tunnel
     \<Rightarrow> (error + 'r) \<times> tunnel" where
  "single_reply sd from dflt t command cmdtype req c =
     (case check_poisoned c of
        Inl e \<Rightarrow> (Inl e, c)
      | Inr _ \<Rightarrow>
     (case send_request sd t cmdtype req [] c of
        (Inl e, c1) \<Rightarrow> (Inl e, c1)
      | (Inr sequence, c1) \<Rightarrow>
     (case read_reply_frame sd t cmdtype sequence c1 of
        (Inl e, c2) \<Rightarrow> (Inl e, c2)
      | (Inr payload, c2) \<Rightarrow>
     (case parse_envelope from (fst (split_payload payload)) command of
        Inl e \<Rightarrow> (Inl e, c2)
      | Inr env \<Rightarrow>
          if env_result env = Some 1
          then poison (ProtocolViolation (''file tunnel '' @ command
                 @ '' answered CONTINUE to a single-reply request'')) c2
          else case require_success command (env_result env) of
            Inl e \<Rightarrow> (Inl e, c2)
          | Inr _ \<Rightarrow> (Inr (case env_reply env of Some r \<Rightarrow> r | None \<Rightarrow> dflt), c2)))))"

end
