(* ===== verification/TunnelOps.thy ===== *)
theory TunnelOps
  imports Tunnel
begin

text \<open>
  The commands of the file tunnel client (\<open>src/file_tunnel/client.rs\<close>): listings, deletion,
  downloads and their integrity checks, members of stored files, uploads. The sink of a download
  is a function from the fragments it has had so far and the next one to its verdict; the source of
  an upload (\<open>src/upload.rs\<close>) is its length and its \<open>read_at\<close>.
\<close>

datatype file_kind = Timelapse | Video | Model

fun as_wire :: "file_kind \<Rightarrow> string" where
  "as_wire Timelapse = ''timelapse''"
| "as_wire Video = ''video''"
| "as_wire Model = ''model''"

record tunnel_file =
  tf_name :: string
  tf_path :: "string option"
  tf_time :: nat
  tf_size :: nat
  tf_storage :: "string option"

abbreviation (input) CMD_LIST_INFO :: nat where "CMD_LIST_INFO \<equiv> 1"
abbreviation (input) CMD_SUB_FILE :: nat where "CMD_SUB_FILE \<equiv> 2"
abbreviation (input) CMD_FILE_DEL :: nat where "CMD_FILE_DEL \<equiv> 3"
abbreviation (input) CMD_FILE_DOWNLOAD :: nat where "CMD_FILE_DOWNLOAD \<equiv> 4"
abbreviation (input) CMD_FILE_UPLOAD :: nat where "CMD_FILE_UPLOAD \<equiv> 5"
abbreviation (input) CMD_REQUEST_MEDIA_ABILITY :: nat where "CMD_REQUEST_MEDIA_ABILITY \<equiv> 7"

definition result_name :: "int \<Rightarrow> string option" where
  "result_name r = map_of
     [(0, ''SUCCESS''), (1, ''CONTINUE''), (2, ''ERROR_JSON''), (3, ''ERROR_PIPE''),
      (4, ''ERROR_CANCEL''), (5, ''ERROR_RES_BUSY''), (6, ''ERROR_TIME_OUT''),
      (10, ''FILE_NO_EXIST''), (11, ''FILE_NAME_INVALID''), (12, ''FILE_SIZE_ERR''),
      (13, ''FILE_OPEN_ERR''), (14, ''FILE_READ_WRITE_ERR''), (15, ''FILE_CHECK_ERR''),
      (16, ''FILE_TYPE_ERR''), (17, ''STORAGE_UNAVAILABLE''), (18, ''API_VERSION_UNSUPPORT''),
      (19, ''FILE_EXIST''), (20, ''STORAGE_SPACE_NOT_ENOUGH''), (21, ''FILE_CREATE_ERR''),
      (22, ''FILE_WRITE_ERR''), (23, ''MD5_COMPARE_ERR''), (24, ''FILE_RENAME_ERR''),
      (25, ''SEND_ERR'')] r"

text \<open>\<open>skip_serializing_if = "Option::is_none"\<close>.\<close>

definition opt_field :: "string \<Rightarrow> string option \<Rightarrow> (string \<times> json) list" where
  "opt_field k v = (case v of None \<Rightarrow> [] | Some s \<Rightarrow> [(k, JString s)])"

section \<open>Listing and deletion\<close>

definition media_ability :: "serde \<Rightarrow> timer \<Rightarrow> tunnel \<Rightarrow> (error + string list) \<times> tunnel" where
  "media_ability sd t c =
     single_reply sd (from_media sd) [] t ''REQUEST_MEDIA_ABILITY'' CMD_REQUEST_MEDIA_ABILITY
       (JObject [(''peer'', JString ''studio''), (''api_version'', jnum 2)]) c"

definition list_files ::
  "serde \<Rightarrow> timer \<Rightarrow> file_kind \<Rightarrow> string option \<Rightarrow> tunnel \<Rightarrow> (error + tunnel_file list) \<times> tunnel" where
  "list_files sd t kind storage c =
     (case single_reply sd (from_list sd) [] t ''LIST_INFO'' CMD_LIST_INFO
             (JObject ([(''type'', JString (as_wire kind))] @ opt_field ''storage'' storage
               @ [(''api_version'', jnum 2), (''notify'', JString ''DETAIL'')])) c of
        (Inl e, c1) \<Rightarrow> (Inl e, c1)
      | (Inr files, c1) \<Rightarrow>
          (if kind \<noteq> Timelapse \<and> list_ex (\<lambda>f. wf_path f = []) files
           then Inl (ProtocolViolation ''file tunnel listing has entries without a path; this firmware lists only timelapses'')
           else Inr (map (\<lambda>f. \<lparr>tf_name = wf_name f,
                  tf_path = (if wf_path f = [] then None else Some (wf_path f)),
                  tf_time = wf_time f, tf_size = wf_size f, tf_storage = storage\<rparr>) files), c1))"

definition delete_file :: "serde \<Rightarrow> timer \<Rightarrow> tunnel_file \<Rightarrow> tunnel \<Rightarrow> (error + unit) \<times> tunnel" where
  "delete_file sd t file c =
     (let target = (case tf_path file of Some p \<Rightarrow> p | None \<Rightarrow> tf_name file);
          req = JObject [(if tf_path file \<noteq> None then ''paths'' else ''delete'', JArray [JString target])]
      in single_reply sd (from_any sd) () t ''FILE_DEL'' CMD_FILE_DEL req c)"

section \<open>Downloads\<close>

text \<open>What one reply frame means, and what the client does about it.\<close>

datatype fragment_verdict =
    FragDone nat
  | FragMore bytes
  | FragSkip
  | FragFail error
  | FragPoison error
  | FragAbandon error

text \<open>\<open>binary.get(..n)\<close>.\<close>

definition get_prefix :: "bytes \<Rightarrow> nat \<Rightarrow> bytes option" where
  "get_prefix bs n = (if n \<le> length bs then Some (take n bs) else None)"

text \<open>An error while fragments are still to come poisons the session, one on the last frame does not.\<close>

definition fail_or :: "(error \<Rightarrow> fragment_verdict) \<Rightarrow> bool \<Rightarrow> error \<Rightarrow> fragment_verdict" where
  "fail_or f cont e = (if cont then f e else FragFail e)"

text \<open>The status blob in front of an in-memory download.\<close>

definition status_fragment ::
  "serde \<Rightarrow> string \<Rightarrow> nat \<Rightarrow> bool \<Rightarrow> bytes \<Rightarrow> fragment_verdict" where
  "status_fragment sd command n cont binary =
     (case (case get_prefix binary n of None \<Rightarrow> None | Some b \<Rightarrow> from_status sd b) of
        None \<Rightarrow> FragPoison (ProtocolViolation (''file tunnel '' @ command
            @ '' status blob is missing or malformed''))
      | Some status \<Rightarrow>
          if \<not> accepted status
          then fail_or FragAbandon cont (TunnelReply command (if ms_size status = Some 0 then 12 else 2))
          else if cont then FragSkip
          else FragFail (ProtocolViolation (''file tunnel '' @ command @ '' ended after its status blob'')))"

text \<open>A data fragment against what has been received: \<open>chunks\<close> are the fragments sunk so far, with
  \<open>received\<close> bytes in all.\<close>

definition data_fragment ::
  "serde \<Rightarrow> string \<Rightarrow> nat option \<Rightarrow> (bytes list \<Rightarrow> bytes \<Rightarrow> error option) \<Rightarrow> bytes list \<Rightarrow> nat
     \<Rightarrow> bool \<Rightarrow> download_reply \<Rightarrow> bytes \<Rightarrow> fragment_verdict \<times> bytes list" where
  "data_fragment sd command max_total sink chunks received cont body binary =
     (if (case max_total of None \<Rightarrow> False | Some m \<Rightarrow> dl_total body > m)
      then (fail_or FragAbandon cont (ProtocolViolation (''file tunnel '' @ command @ '': ''
              @ dec (dl_total body) @ '' bytes exceeds the '' @ dec (the max_total) @ '' byte limit'')), chunks)
      else if sat_add64 received (dl_size body) > dl_total body
      then (fail_or FragPoison cont (ProtocolViolation (''file tunnel '' @ command @ '' fragment of ''
              @ dec (dl_size body) @ '' bytes at '' @ dec received @ '' runs past the ''
              @ dec (dl_total body) @ '' byte total'')), chunks)
      else if dl_offset body \<noteq> received
      then (fail_or FragPoison cont (ProtocolViolation (''file tunnel '' @ command @ '' fragment at offset ''
              @ dec (dl_offset body) @ '' after '' @ dec received @ '' bytes'')), chunks)
      else case get_prefix binary (dl_size body) of
        None \<Rightarrow> (fail_or FragPoison cont (ProtocolViolation (''file tunnel '' @ command @ '' fragment declares ''
              @ dec (dl_size body) @ '' bytes but carries '' @ dec (length binary))), chunks)
      | Some chunk \<Rightarrow>
          (case sink chunks chunk of
             Some e \<Rightarrow> (fail_or FragAbandon cont e, chunks)
           | None \<Rightarrow>
               let chunks' = chunks @ [chunk]; received' = received + dl_size body in
               (if cont then FragMore chunk
                else if received' \<noteq> dl_total body
                then FragFail (ProtocolViolation (''file tunnel '' @ command @ '' ended at ''
                       @ dec received' @ '' of '' @ dec (dl_total body) @ '' bytes''))
                else case dl_file_md5 body of
                  None \<Rightarrow> FragFail (ProtocolViolation (''file tunnel '' @ command
                       @ '' final frame carries no file_md5''))
                | Some expected \<Rightarrow>
                    if \<not> eq_ignore_ascii_case (md5_hex sd (concat chunks')) expected
                    then FragFail (ProtocolViolation (''file tunnel '' @ command @ '' MD5 mismatch''))
                    else FragDone received', chunks')))"

definition no_download :: download_reply where
  "no_download = \<lparr>dl_offset = 0, dl_total = 0, dl_size = 0, dl_file_md5 = None, dl_mem_param_size = None\<rparr>"

definition download_fragment ::
  "serde \<Rightarrow> string \<Rightarrow> nat option \<Rightarrow> (bytes list \<Rightarrow> bytes \<Rightarrow> error option) \<Rightarrow> bytes list \<Rightarrow> nat
     \<Rightarrow> bytes \<Rightarrow> fragment_verdict \<times> bytes list" where
  "download_fragment sd command max_total sink chunks received payload =
     (case split_payload payload of (json, binary) \<Rightarrow>
      case parse_envelope (from_download sd) json command of
        Inl e \<Rightarrow> (FragPoison e, chunks)
      | Inr env \<Rightarrow>
          let cont = (env_result env = Some 1) in
          case (if cont then Inr () else require_success command (env_result env)) of
            Inl e \<Rightarrow> (FragFail e, chunks)
          | Inr _ \<Rightarrow>
              let body = (case env_reply env of Some r \<Rightarrow> r | None \<Rightarrow> no_download) in
              case dl_mem_param_size body of
                Some n \<Rightarrow> (status_fragment sd command n cont binary, chunks)
              | None \<Rightarrow> data_fragment sd command max_total sink chunks received cont body binary)"

lemma read_exact_bounded_ok:
  "read_exact_bounded deadline n s = (Inr bs, s') \<Longrightarrow>
     length bs = n \<and> stream_bytes s = bs @ stream_bytes s' \<and> outbound s' = outbound s"
proof (induction deadline n s arbitrary: bs s' rule: read_exact_bounded.induct)
  case (1 deadline n s)
  show ?case
  proof (cases "n = 0")
    case True
    with "1.prems" show ?thesis by (simp add: read_exact_bounded.simps)
  next
    case False
    with "1.prems" obtain b s1 r where b: "read_chunk n deadline s = (Inr b, s1)"
      and r: "read_exact_bounded deadline (n - length b) s1 = (Inr r, s')" and bs: "bs = b @ r"
      by (auto simp: read_exact_bounded.simps [of deadline n s] split: prod.splits sum.splits)
    from "1.IH" [OF False b [symmetric] refl r] read_chunk_ok [OF b] bs show ?thesis by simp
  qed
qed

lemma read_exact_bounded_shrinks:
  "read_exact_bounded deadline n s = (r, s') \<Longrightarrow>
     length (stream_bytes s') \<le> length (stream_bytes s) \<and> outbound s' = outbound s"
proof (induction deadline n s arbitrary: r s' rule: read_exact_bounded.induct)
  case (1 deadline n s)
  obtain x s1 where x: "read_chunk n deadline s = (x, s1)" by (metis surj_pair)
  show ?case
  proof (cases "n = 0 \<or> (\<exists>e. x = Inl e)")
    case True
    with "1.prems" x show ?thesis
      by (auto simp: read_exact_bounded.simps [of deadline n s] dest: read_chunk_err split: if_splits)
  next
    case False
    then obtain b where b: "n \<noteq> 0" "x = Inr b" by (cases x) auto
    obtain y s2 where y: "read_exact_bounded deadline (n - length b) s1 = (y, s2)" by (metis surj_pair)
    with "1.prems" x b have "s' = s2"
      by (auto simp: read_exact_bounded.simps [of deadline n s] split: sum.splits)
    with "1.IH" [OF b(1) x [symmetric] b(2) y] read_chunk_ok [OF x [unfolded b(2)]] show ?thesis by simp
  qed
qed

lemma read_frame_takes:
  "read_frame t budget limit s = (Inr hp, s') \<Longrightarrow> length (stream_bytes s') < length (stream_bytes s)"
  by (auto simp: read_frame_def Let_def dest!: read_exact_bounded_ok split: prod.splits sum.splits if_splits)

lemma read_reply_frames_takes:
  "read_reply_frames sd t cmdtype sequence m n c = (Inr payload, c') \<Longrightarrow>
     length (stream_bytes (tn_stream c')) < length (stream_bytes (tn_stream c))"
proof (induction sd t cmdtype sequence m n c rule: read_reply_frames.induct)
  case (2 sd t cmdtype sequence m n c)
  obtain x c1 where x: "reply_frame_step sd t cmdtype sequence c = (x, c1)" by (metis surj_pair)
  with "2.prems" obtain p where p: "x = Inr p" by (cases x) auto
  with x have l: "length (stream_bytes (tn_stream c1)) < length (stream_bytes (tn_stream c))"
    by (auto simp: reply_frame_step_def poison_def Let_def dest: read_frame_takes
        split: prod.splits sum.splits if_splits)
  show ?case
  proof (cases p)
    case None
    with "2.prems" x p have "read_reply_frames sd t cmdtype sequence m n c1 = (Inr payload, c')" by simp
    from "2.IH" [OF x [symmetric] p None this] l show ?thesis by simp
  next
    case (Some q)
    with "2.prems" x p l show ?thesis by simp
  qed
qed (simp add: poison_def)

lemma read_reply_frame_takes:
  "read_reply_frame sd t cmdtype sequence c = (Inr payload, c') \<Longrightarrow>
     length (stream_bytes (tn_stream c')) < length (stream_bytes (tn_stream c))"
  unfolding read_reply_frame_def read_reply_frame_within_def by (rule read_reply_frames_takes)

text \<open>The loop of \<open>receive_download\<close>, with the fragments handed to the sink as its third result. Each
  round takes a frame off the stream.\<close>

function receive_fragments ::
  "serde \<Rightarrow> timer \<Rightarrow> string \<Rightarrow> u32 \<Rightarrow> nat option \<Rightarrow> (bytes list \<Rightarrow> bytes \<Rightarrow> error option)
     \<Rightarrow> bytes list \<Rightarrow> nat \<Rightarrow> tunnel \<Rightarrow> (error + nat) \<times> bytes list \<times> tunnel" where
  "receive_fragments sd t command sequence max_total sink chunks received c =
     (case read_reply_frame sd t CMD_FILE_DOWNLOAD sequence c of
        (Inl e, c1) \<Rightarrow> (Inl e, chunks, c1)
      | (Inr payload, c1) \<Rightarrow>
     (case download_fragment sd command max_total sink chunks received payload of
        (FragDone n, chunks') \<Rightarrow> (Inr n, chunks', c1)
      | (FragFail e, chunks') \<Rightarrow> (Inl e, chunks', c1)
      | (FragPoison e, chunks') \<Rightarrow> (Inl e, chunks', c1\<lparr>poisoned := True\<rparr>)
      | (FragAbandon e, chunks') \<Rightarrow> (Inl e, chunks', abandon sd t sequence c1)
      | (FragSkip, chunks') \<Rightarrow>
          receive_fragments sd t command sequence max_total sink chunks' received c1
      | (FragMore chunk, chunks') \<Rightarrow>
          receive_fragments sd t command sequence max_total sink chunks' (received + length chunk) c1))"
  by pat_completeness auto
termination
  by (relation "measure (\<lambda>(_, _, _, _, _, _, _, _, c). length (stream_bytes (tn_stream c)))")
    (auto dest!: read_reply_frame_takes [OF sym])

declare receive_fragments.simps [simp del]

definition receive_download ::
  "serde \<Rightarrow> timer \<Rightarrow> string \<Rightarrow> u32 \<Rightarrow> nat option \<Rightarrow> (bytes list \<Rightarrow> bytes \<Rightarrow> error option) \<Rightarrow> tunnel
     \<Rightarrow> (error + nat) \<times> bytes list \<times> tunnel" where
  "receive_download sd t command sequence max_total sink c =
     receive_fragments sd t command sequence max_total sink [] 0 c"

definition download ::
  "serde \<Rightarrow> timer \<Rightarrow> tunnel_file \<Rightarrow> (bytes list \<Rightarrow> bytes \<Rightarrow> error option) \<Rightarrow> tunnel
     \<Rightarrow> (error + nat) \<times> bytes list \<times> tunnel" where
  "download sd t file sink c =
     (case check_poisoned c of
        Inl e \<Rightarrow> (Inl e, [], c)
      | Inr _ \<Rightarrow>
     (case send_request sd t CMD_FILE_DOWNLOAD
             (JObject (opt_field ''path'' (tf_path file)
               @ opt_field ''file'' (if tf_path file = None then Some (tf_name file) else None)
               @ [(''offset'', jnum 0)])) [] c of
        (Inl e, c1) \<Rightarrow> (Inl e, [], c1)
      | (Inr sequence, c1) \<Rightarrow>
          receive_download sd t ''FILE_DOWNLOAD'' sequence None sink c1))"

definition request_running_job_member ::
  "serde \<Rightarrow> timer \<Rightarrow> string \<Rightarrow> tunnel \<Rightarrow> (error + u32) \<times> tunnel" where
  "request_running_job_member sd t member c =
     (case check_poisoned c of
        Inl e \<Rightarrow> (Inl e, c)
      | Inr _ \<Rightarrow>
      if member = [] then (Inl (InvalidArgument ''running-job member path is empty''), c)
      else case to_vec sd (JObject
          [(''sequence_id'', jnum (unat (next_sequence c))), (''version'', jnum 1),
           (''peer_host'', JString ''studio''), (''command'', JString ''get_project_file''),
           (''file_rel_path'', JString member)]) of
        Inl e \<Rightarrow> (Inl e, c)
      | Inr param \<Rightarrow>
          send_request sd t CMD_FILE_DOWNLOAD
            (JObject [(''path'', JString ''mem:/16''), (''offset'', jnum 0),
              (''mem_dl_param_size'', jnum (length param))]) param c)"

definition read_running_job_member ::
  "serde \<Rightarrow> timer \<Rightarrow> string \<Rightarrow> nat \<Rightarrow> tunnel \<Rightarrow> (error + bytes) \<times> tunnel" where
  "read_running_job_member sd t member max_bytes c =
     (case request_running_job_member sd t member c of
        (Inl e, c1) \<Rightarrow> (Inl e, c1)
      | (Inr sequence, c1) \<Rightarrow>
     (case receive_download sd t ''FILE_DOWNLOAD mem:/16'' sequence (Some max_bytes) (\<lambda>_ _. None) c1 of
        (Inl e, _, c2) \<Rightarrow> (Inl e, c2)
      | (Inr _, chunks, c2) \<Rightarrow> (Inr (concat chunks), c2)))"

text \<open>\<open>out\<close> is a buffer of \<open>cap\<close> bytes; the result is what was written at its start.\<close>

definition read_running_job_member_into ::
  "serde \<Rightarrow> timer \<Rightarrow> string \<Rightarrow> nat \<Rightarrow> tunnel \<Rightarrow> (error + nat) \<times> bytes \<times> tunnel" where
  "read_running_job_member_into sd t member cap c =
     (case request_running_job_member sd t member c of
        (Inl e, c1) \<Rightarrow> (Inl e, [], c1)
      | (Inr sequence, c1) \<Rightarrow>
     (case receive_download sd t ''FILE_DOWNLOAD mem:/16'' sequence (Some cap)
             (\<lambda>chunks chunk. if length (concat chunks) + length chunk \<le> cap then None
                else Some (ProtocolViolation ''fragment past the buffer'')) c1 of
        (Inl e, chunks, c2) \<Rightarrow> (Inl e, concat chunks, c2)
      | (Inr _, chunks, c2) \<Rightarrow> (Inr (length (concat chunks)), concat chunks, c2)))"

section \<open>Members of a stored file\<close>

text \<open>What one \<open>SUB_FILE\<close> reply means: more bytes, or the end of the read, with or without giving up on
  fragments still to come.\<close>

datatype sub_verdict =
    SubMore bytes
  | SubEnd "error + bytes option"
  | SubAbandon "error + bytes option"
  | SubPoison error

definition sub_end :: "bool \<Rightarrow> error + bytes option \<Rightarrow> sub_verdict" where
  "sub_end cont r = (if cont then SubAbandon r else SubEnd r)"

definition sub_fragment :: "serde \<Rightarrow> nat \<Rightarrow> bytes \<Rightarrow> bytes \<Rightarrow> sub_verdict" where
  "sub_fragment sd max_bytes out payload =
     (case split_payload payload of (json, binary) \<Rightarrow>
      case parse_envelope (from_sub_file sd) json ''SUB_FILE'' of
        Inl e \<Rightarrow> SubPoison e
      | Inr env \<Rightarrow>
          let cont = (env_result env = Some 1) in
          case (if cont then Inr () else require_success ''SUB_FILE'' (env_result env)) of
            Inl e \<Rightarrow> SubEnd (Inl e)
          | Inr _ \<Rightarrow>
              let body = (case env_reply env of Some r \<Rightarrow> r
                    | None \<Rightarrow> \<lparr>sf_path = [], sf_size = 0, sf_more_fragments = False\<rparr>) in
              if sf_size body = 0 then sub_end cont (Inr None)
              else case get_prefix binary (sf_size body) of
                None \<Rightarrow>
                  let e = ProtocolViolation (''file tunnel SUB_FILE fragment declares ''
                        @ dec (sf_size body) @ '' bytes but carries '' @ dec (length binary)) in
                  if cont then SubPoison e else SubEnd (Inl e)
              | Some chunk \<Rightarrow>
                  if length out + length chunk > max_bytes
                  then sub_end cont (Inl (ProtocolViolation (''file tunnel SUB_FILE member exceeds the ''
                         @ dec max_bytes @ '' byte limit'')))
                  else if sf_more_fragments body \<and> cont then SubMore (out @ chunk)
                  else sub_end cont (Inr (Some (out @ chunk))))"

function read_sub_file ::
  "serde \<Rightarrow> timer \<Rightarrow> u32 \<Rightarrow> nat \<Rightarrow> bytes \<Rightarrow> tunnel \<Rightarrow> (error + bytes option) \<times> tunnel" where
  "read_sub_file sd t sequence max_bytes out c =
     (case read_reply_frame sd t CMD_SUB_FILE sequence c of
        (Inl e, c1) \<Rightarrow> (Inl e, c1)
      | (Inr payload, c1) \<Rightarrow>
     (case sub_fragment sd max_bytes out payload of
        SubPoison e \<Rightarrow> poison e c1
      | SubEnd r \<Rightarrow> (r, c1)
      | SubAbandon r \<Rightarrow> (r, abandon sd t sequence c1)
      | SubMore out' \<Rightarrow> read_sub_file sd t sequence max_bytes out' c1))"
  by pat_completeness auto
termination
  by (relation "measure (\<lambda>(_, _, _, _, _, c). length (stream_bytes (tn_stream c)))")
    (auto dest!: read_reply_frame_takes [OF sym])

declare read_sub_file.simps [simp del]

definition read_file_member ::
  "serde \<Rightarrow> timer \<Rightarrow> tunnel_file \<Rightarrow> string \<Rightarrow> nat \<Rightarrow> tunnel \<Rightarrow> (error + bytes option) \<times> tunnel" where
  "read_file_member sd t file member max_bytes c =
     (case check_poisoned c of
        Inl e \<Rightarrow> (Inl e, c)
      | Inr _ \<Rightarrow>
     (case tf_path file of
        None \<Rightarrow> (Inl (InvalidArgument ''SUB_FILE needs the file's path, which its listing didn't give''), c)
      | Some path \<Rightarrow>
      if member = [] then (Inl (InvalidArgument ''file member path is empty''), c)
      else case send_request sd t CMD_SUB_FILE
          (JObject ([(''paths'', JArray [JString (path @ ''#'' @ member)])]
            @ opt_field ''storage'' (tf_storage file))) [] c of
        (Inl e, c1) \<Rightarrow> (Inl e, c1)
      | (Inr sequence, c1) \<Rightarrow> read_sub_file sd t sequence max_bytes [] c1))"

section \<open>Lemmas on downloads\<close>

lemma data_fragment_chunks:
  assumes "data_fragment sd command max_total sink chunks received cont body binary = (v, chunks')"
    "received = length (concat chunks)"
  shows "v = FragDone n \<Longrightarrow> n = length (concat chunks') \<and> n = dl_total body
      \<and> (\<exists>m. dl_file_md5 body = Some m \<and> eq_ignore_ascii_case (md5_hex sd (concat chunks')) m)
      \<and> (\<forall>l. max_total = Some l \<longrightarrow> n \<le> l)"
    "v = FragMore chunk \<Longrightarrow> chunks' = chunks @ [chunk]"
    "v \<noteq> FragSkip"
  using assms by (auto simp: data_fragment_def fail_or_def get_prefix_def Let_def
      split: if_splits option.splits)

lemma status_fragment_cases:
  "status_fragment sd command n cont binary \<noteq> FragDone k"
  "status_fragment sd command n cont binary \<noteq> FragMore chunk"
  by (auto simp: status_fragment_def fail_or_def split: option.splits)

text \<open>What a finished download has been checked against.\<close>

definition checked :: "serde \<Rightarrow> nat option \<Rightarrow> bytes list \<Rightarrow> nat \<Rightarrow> bool" where
  "checked sd max_total chunks n \<longleftrightarrow> n = length (concat chunks)
     \<and> (\<exists>m. eq_ignore_ascii_case (md5_hex sd (concat chunks)) m)
     \<and> (\<forall>l. max_total = Some l \<longrightarrow> n \<le> l)"

end
