(* ===== verification/Upload.thy ===== *)
theory Upload
  imports Io RustStr
begin

text \<open>
  The source of an upload (\<open>src/upload.rs\<close>): what it promises and the one bounded read every upload is
  built from. Both the FTPS and the file tunnel client read from it.
\<close>

text \<open>An \<open>UploadSource\<close>: its length and what it reads at an offset into a buffer of a given size.\<close>

record upload_source =
  src_len :: nat
  src_read_at :: "nat \<Rightarrow> nat \<Rightarrow> error + bytes"

text \<open>\<open>impl UploadSource for &[u8]\<close>.\<close>

definition slice_source :: "bytes \<Rightarrow> upload_source" where
  "slice_source data =
     \<lparr>src_len = length data, src_read_at = (\<lambda>offset cap. Inr (take cap (drop offset data)))\<rparr>"

definition read_next :: "upload_source \<Rightarrow> nat \<Rightarrow> nat \<Rightarrow> error + bytes" where
  "read_next src offset cap =
     (let want = min (src_len src - offset) cap in
      case src_read_at src offset want of
        Inl e \<Rightarrow> Inl e
      | Inr bs \<Rightarrow>
          if bs = [] \<and> want > 0
          then Inl (InvalidArgument (''upload source ended at offset '' @ dec offset
                 @ '', short of its length of '' @ dec (src_len src)))
          else if length bs > want
          then Inl (InvalidArgument (''upload source returned more bytes than asked for at offset ''
                 @ dec offset))
          else Inr bs)"

lemma read_next_nonempty:
  "read_next src offset cap = Inr bs \<Longrightarrow> offset < src_len src \<Longrightarrow> 0 < cap \<Longrightarrow> bs \<noteq> []"
  by (auto simp: read_next_def Let_def split: sum.splits if_splits)

lemma read_next_length: "read_next src offset cap = Inr bs \<Longrightarrow> length bs \<le> cap"
  by (auto simp: read_next_def Let_def split: sum.splits if_splits)

end
