(* ===== verification/TunnelUpload.thy ===== *)
theory TunnelUpload
  imports TunnelOps Upload
begin

text \<open>
  Uploads through the file tunnel (\<open>FileTunnelClient::upload\<close>): negotiating the
  fragment size and start, hashing what the printer already has, sending the rest in fragments, the
  last with the digest of the whole file, and draining the progress replies.
\<close>

text \<open>Reading until \<open>want\<close> bytes are there. Only a request for nothing may be answered with nothing, so
  every round adds to the buffer while the source has bytes left; the branch for an empty answer is
  the loop standing still.\<close>

function fill_from :: "upload_source \<Rightarrow> nat \<Rightarrow> nat \<Rightarrow> bytes \<Rightarrow> error + bytes" where
  "fill_from src offset want buf =
     (if length buf < want then
        (case read_next src (offset + length buf) (want - length buf) of
           Inl e \<Rightarrow> Inl e
         | Inr bs \<Rightarrow>
             if bs = [] then Inl (InvalidState ''upload source stands still'')
             else fill_from src offset want (buf @ bs))
      else Inr buf)"
  by pat_completeness auto
termination
  by (relation "measure (\<lambda>(_, _, want, buf). want - length buf)") (auto intro!: diff_less_mono2)

declare fill_from.simps [simp del]

lemma fill_from_length:
  "fill_from src offset want buf = Inr r \<Longrightarrow> length buf \<le> want \<Longrightarrow> length r = want"
proof (induction src offset want buf rule: fill_from.induct)
  case (1 src offset want buf)
  show ?case
  proof (cases "length buf < want")
    case True
    with "1.prems" obtain bs where bs: "read_next src (offset + length buf) (want - length buf) = Inr bs"
      "bs \<noteq> []" "fill_from src offset want (buf @ bs) = Inr r"
      by (auto simp: fill_from.simps [of src offset want buf] split: sum.splits if_splits)
    from "1.IH" [OF True bs(1,2,3)] read_next_length [OF bs(1)] True show ?thesis by simp
  next
    case False
    with "1.prems" show ?thesis by (simp add: fill_from.simps [of src offset want buf])
  qed
qed

text \<open>The bytes before \<open>start\<close>, for the digest.\<close>

function hash_prefix :: "upload_source \<Rightarrow> nat \<Rightarrow> nat \<Rightarrow> bytes \<Rightarrow> error + bytes" where
  "hash_prefix src chunk_len start hashed =
     (if length hashed < start then
        (case read_next src (length hashed) (min (start - length hashed) chunk_len) of
           Inl e \<Rightarrow> Inl e
         | Inr bs \<Rightarrow>
             if bs = [] then Inl (InvalidState ''upload source stands still'')
             else hash_prefix src chunk_len start (hashed @ bs))
      else Inr hashed)"
  by pat_completeness auto
termination
  by (relation "measure (\<lambda>(_, _, start, hashed). start - length hashed)") (auto intro!: diff_less_mono2)

declare hash_prefix.simps [simp del]

text \<open>The fragments: \<open>todo\<close> are still to send, \<open>index\<close> is the next one's number, \<open>hashed\<close> all bytes the
  digest has consumed. The second result is what went out: each fragment with its offset and digest.\<close>

fun send_chunks ::
  "serde \<Rightarrow> timer \<Rightarrow> u32 \<Rightarrow> upload_source \<Rightarrow> nat \<Rightarrow> nat \<Rightarrow> nat \<Rightarrow> nat \<Rightarrow> bytes \<Rightarrow> tunnel
     \<Rightarrow> (error + unit) \<times> (nat \<times> bytes \<times> string option) list \<times> tunnel" where
  "send_chunks sd t sequence src chunk_len 0 index offset hashed c = (Inr (), [], c)"
| "send_chunks sd t sequence src chunk_len (Suc todo) index offset hashed c =
     (let want = min (src_len src - offset) chunk_len in
      case fill_from src offset want [] of
        Inl e \<Rightarrow>
          (Inl e, [], if index = 0 then abandon sd t sequence c else c\<lparr>poisoned := True\<rparr>)
      | Inr chunk \<Rightarrow>
          let hashed' = hashed @ chunk;
              file_md5 = (if todo = 0 then Some (md5_hex sd hashed') else None)
          in case encode_request (to_vec sd) CMD_FILE_UPLOAD sequence
              (JObject ([(''frag_id'', jnum (index mod 4294967296)), (''offset'', jnum offset),
                 (''size'', jnum (length chunk))] @ opt_field ''file_md5'' file_md5)) chunk of
            Inl e \<Rightarrow> (Inl e, [], c)
          | Inr frame \<Rightarrow>
              (case tn_write_frame t (frame_seq c) MAGIC_CTRL frame (tn_stream c) of
                 (Inl e, q, s) \<Rightarrow> (Inl e, [], c\<lparr>frame_seq := q, tn_stream := s, poisoned := True\<rparr>)
               | (Inr _, q, s) \<Rightarrow>
                   (case send_chunks sd t sequence src chunk_len todo (Suc index)
                          (offset + length chunk) hashed' (c\<lparr>frame_seq := q, tn_stream := s\<rparr>) of
                      (r, sofar, c') \<Rightarrow> (r, (offset, chunk, file_md5) # sofar, c'))))"

text \<open>The progress replies; \<open>n\<close> is how many may still come.\<close>

fun drain_upload :: "serde \<Rightarrow> timer \<Rightarrow> u32 \<Rightarrow> nat \<Rightarrow> tunnel \<Rightarrow> (error + unit) \<times> tunnel" where
  "drain_upload sd t sequence 0 c =
     poison (ProtocolViolation ''file tunnel FILE_UPLOAD sent progress frames without a final reply'') c"
| "drain_upload sd t sequence (Suc n) c =
     (case read_reply_frame sd t CMD_FILE_UPLOAD sequence c of
        (Inl e, c1) \<Rightarrow> (Inl e, c1)
      | (Inr payload, c1) \<Rightarrow>
          (case parse_envelope (from_any sd) (fst (split_payload payload)) ''FILE_UPLOAD'' of
             Inl e \<Rightarrow> poison e c1
           | Inr env \<Rightarrow>
               if env_result env = Some 1 then drain_upload sd t sequence n c1
               else (require_success ''FILE_UPLOAD'' (env_result env), c1)))"

text \<open>What the printer asked for: the fragment size in bytes and the offset to start at.\<close>

definition upload_plan :: "nat \<Rightarrow> nat \<Rightarrow> upload_init_reply \<Rightarrow> (nat \<times> nat) option" where
  "upload_plan limit whole init =
     (let chunk_len = up_chunk_size init * 1024 in
      if chunk_len < 18446744073709551616 \<and> 0 < chunk_len \<and> chunk_len \<le> limit \<and> up_offset init < whole
      then Some (chunk_len, up_offset init) else None)"

definition upload_verdict :: "int option \<Rightarrow> error + unit" where
  "upload_verdict result =
     (if result = Some 1 \<or> result = Some 19 then Inr ()
      else if result = Some 0
      then Inl (ProtocolViolation ''file tunnel FILE_UPLOAD init finished without asking for data'')
      else require_success ''FILE_UPLOAD'' result)"

text \<open>From the accepted plan on; the ghost result is what was sent.\<close>

definition upload_body ::
  "serde \<Rightarrow> timer \<Rightarrow> u32 \<Rightarrow> upload_source \<Rightarrow> nat \<Rightarrow> nat \<Rightarrow> tunnel
     \<Rightarrow> (error + unit) \<times> (nat \<times> bytes \<times> string option) list \<times> tunnel" where
  "upload_body sd t sequence src chunk_len start c =
     (case hash_prefix src chunk_len start [] of
        Inl e \<Rightarrow> (Inl e, [], abandon sd t sequence c)
      | Inr hashed \<Rightarrow>
          let chunk_count = (src_len src - start + chunk_len - 1) div chunk_len in
          case send_chunks sd t sequence src chunk_len chunk_count 0 start hashed c of
            (Inl e, sofar, c1) \<Rightarrow> (Inl e, sofar, c1)
          | (Inr _, sofar, c1) \<Rightarrow>
              (case drain_upload sd t sequence (chunk_count + MAX_SKIPPED_FRAMES) c1 of
                 (r, c2) \<Rightarrow> (r, sofar, c2)))"

definition upload ::
  "serde \<Rightarrow> timer \<Rightarrow> string \<Rightarrow> string \<Rightarrow> upload_source \<Rightarrow> tunnel
     \<Rightarrow> (error + unit) \<times> (nat \<times> bytes \<times> string option) list \<times> tunnel" where
  "upload sd t storage name src c =
     (case check_poisoned c of
        Inl e \<Rightarrow> (Inl e, [], c)
      | Inr _ \<Rightarrow>
      if storage = [] \<or> name = []
      then (Inl (InvalidArgument ''upload needs a storage label and a file name''), [], c)
      else if src_len src = 0 then (Inl (InvalidArgument ''upload of an empty file''), [], c)
      else
     (case send_request sd t CMD_FILE_UPLOAD
             (JObject [(''type'', JString ''model''), (''storage'', JString storage),
               (''path'', JString name), (''total'', jnum (src_len src))]) [] c of
        (Inl e, c1) \<Rightarrow> (Inl e, [], c1)
      | (Inr sequence, c1) \<Rightarrow>
     (case read_reply_frame sd t CMD_FILE_UPLOAD sequence c1 of
        (Inl e, c2) \<Rightarrow> (Inl e, [], c2)
      | (Inr payload, c2) \<Rightarrow>
     (case parse_envelope (from_upload_init sd) (fst (split_payload payload)) ''FILE_UPLOAD init'' of
        Inl e \<Rightarrow> (Inl e, [], c2\<lparr>poisoned := True\<rparr>)
      | Inr env \<Rightarrow>
     (case upload_verdict (env_result env) of
        Inl e \<Rightarrow> (Inl e, [], c2)
      | Inr _ \<Rightarrow>
          let init = (case env_reply env of Some r \<Rightarrow> r | None \<Rightarrow> \<lparr>up_chunk_size = 0, up_offset = 0\<rparr>) in
          case upload_plan (max_frame_payload c2) (src_len src) init of
            None \<Rightarrow>
              (Inl (ProtocolViolation (''file tunnel FILE_UPLOAD init asked for '' @ dec (up_chunk_size init)
                 @ '' KiB chunks from offset '' @ dec (up_offset init) @ '' of a '' @ dec (src_len src)
                 @ '' byte file, which this client can't send (frame limit ''
                 @ dec (max_frame_payload c2) @ '' bytes)'')),
               [], abandon sd t sequence c2)
          | Some (chunk_len, start) \<Rightarrow> upload_body sd t sequence src chunk_len start c2)))))"

section \<open>Lemmas\<close>

text \<open>A slice is read as it is.\<close>

lemma read_next_slice:
  assumes "offset < length data" "0 < cap"
  shows "read_next (slice_source data) offset cap = Inr (take cap (drop offset data))"
  using assms by (auto simp: read_next_def slice_source_def Let_def min_def)

lemma fill_from_slice:
  assumes "offset + want \<le> length data" "length buf \<le> want" "buf = take (length buf) (drop offset data)"
  shows "fill_from (slice_source data) offset want buf = Inr (take want (drop offset data))"
proof (cases "length buf < want")
  case True
  let ?r = "take (want - length buf) (drop (offset + length buf) data)"
  have "read_next (slice_source data) (offset + length buf) (want - length buf) = Inr ?r"
    using True assms(1) by (intro read_next_slice) auto
  moreover have "?r \<noteq> []" using True assms(1) by auto
  moreover have whole: "buf @ ?r = take want (drop offset data)"
    using assms True by (metis drop_drop add.commute le_add_diff_inverse take_add)
  moreover have "fill_from (slice_source data) offset want (take want (drop offset data))
      = Inr (take want (drop offset data))"
    using assms(1) by (subst fill_from.simps) simp
  ultimately show ?thesis
    by (simp add: fill_from.simps [of _ _ _ buf] True)
next
  case False
  with assms have "buf = take want (drop offset data)" by (metis le_antisym linorder_not_less)
  with False show ?thesis by (subst fill_from.simps) simp
qed

lemma hash_prefix_slice:
  assumes "start \<le> length data" "0 < k" "m \<le> start"
  shows "hash_prefix (slice_source data) k start (take m data) = Inr (take start data)"
  using assms(3)
proof (induction "start - m" arbitrary: m rule: less_induct)
  case less
  have m: "length (take m data) = m" using less.prems assms(1) by simp
  show ?case
  proof (cases "m < start")
    case True
    let ?n = "min (start - m) k"
    have r: "read_next (slice_source data) m ?n = Inr (take ?n (drop m data))"
      using True assms by (intro read_next_slice) auto
    have ne: "?n \<noteq> 0" "take ?n (drop m data) \<noteq> []" using True assms by auto
    have "hash_prefix (slice_source data) k start (take m data)
        = hash_prefix (slice_source data) k start (take (m + ?n) data)"
      by (subst hash_prefix.simps) (use m True r ne in \<open>simp add: take_add del: min_less_iff_conj\<close>)
    also have "\<dots> = Inr (take start data)"
      using less.hyps [of "m + ?n"] True assms(2) by simp
    finally show ?thesis .
  next
    case False
    with less.prems m show ?thesis by (subst hash_prefix.simps) simp
  qed
qed

text \<open>Fragments of a slice: they are consecutive, together the rest of the data, and only the last
  carries the digest, which is that of the whole.\<close>

definition fragment_of :: "bytes \<Rightarrow> nat \<times> bytes \<times> string option \<Rightarrow> bool" where
  "fragment_of data f \<longleftrightarrow> (case f of (offset, chunk, m) \<Rightarrow>
     offset + length chunk \<le> length data \<and> chunk = take (length chunk) (drop offset data))"

lemma send_chunks_slice:
  assumes "send_chunks sd t sequence (slice_source data) k todo index offset (take offset data) c
      = (Inr (), out, c')"
    "offset \<le> length data" "length data - offset \<le> todo * k" "0 < todo \<Longrightarrow> (todo - 1) * k < length data - offset"
    "0 < k"
  shows "concat (map (fst \<circ> snd) out) = drop offset data \<and> list_all (fragment_of data) out
    \<and> length out = todo
    \<and> (0 < todo \<longrightarrow> map (snd \<circ> snd) out = replicate (todo - 1) None @ [Some (md5_hex sd data)])"
  using assms
proof (induction todo arbitrary: index offset c out)
  case 0
  then show ?case by simp
next
  case (Suc todo)
  let ?want = "min (length data - offset) k"
  let ?chunk = "take ?want (drop offset data)"
  let ?md5 = "if todo = 0 then Some (md5_hex sd (take offset data @ ?chunk)) else None"
  have f: "fill_from (slice_source data) offset ?want [] = Inr ?chunk"
    by (rule fill_from_slice) (use Suc.prems(2) in auto)
  have len: "length ?chunk = ?want" by simp
  have h: "take offset data @ ?chunk = take (offset + ?want) data" by (simp add: take_add)
  from Suc.prems(1) f obtain q s out' where
    rest: "send_chunks sd t sequence (slice_source data) k todo (Suc index) (offset + ?want)
        (take (offset + ?want) data) (c\<lparr>frame_seq := q, tn_stream := s\<rparr>) = (Inr (), out', c')"
    and out: "out = (offset, ?chunk, ?md5) # out'"
    by (auto simp: slice_source_def Let_def h simp del: take_take split: sum.splits prod.splits)
  have nonempty: "offset < length data" using Suc.prems(4) by simp
  have bounds: "offset + ?want \<le> length data" "length data - (offset + ?want) \<le> todo * k"
    using Suc.prems(2,3) by auto
  have more: "(todo - 1) * k < length data - (offset + ?want)" if "0 < todo"
  proof -
    from that obtain j where j: "todo = Suc j" by (cases todo) auto
    with Suc.prems(4) have "Suc j * k < length data - offset" by simp
    with j show ?thesis by auto
  qed
  note ih = Suc.IH [OF rest bounds more Suc.prems(5)]
  have "?chunk @ drop (offset + ?want) data = drop offset data"
    by (metis append_take_drop_id drop_drop add.commute)
  moreover have "todo = 0 \<Longrightarrow> take offset data @ ?chunk = data"
  proof -
    assume "todo = 0"
    with Suc.prems(3) have "?want = length data - offset" by simp
    with Suc.prems(2) show ?thesis by (simp add: h)
  qed
  ultimately show ?case
    using ih out bounds(1) len by (cases todo) (auto simp: fragment_of_def)
qed

end
