(* ===== verification/TunnelProps.thy ===== *)
theory TunnelProps
  imports TunnelUpload
begin

text \<open>
  What the file tunnel client guarantees: frames survive the wire, a reply is handed out only to the
  request it answers, a download that succeeds is complete, in order and matches the printer's
  digest, a failure either ends on the last reply or leaves the session unusable, and an upload
  sends the file.
\<close>

section \<open>Frames\<close>

lemma decode_encode_header: "decode_header (encode_header h) = h"
  by (simp add: decode_header_def encode_header_def header_word_def u32_le_def nth_append
      u32_le_roundtrip)

lemma replicate_4: "replicate 4 x = [x, x, x, x]"
  by (simp add: eval_nat_numeral)

lemma length_encode_header [simp]: "length (encode_header h) = 16"
  by (simp add: encode_header_def)

lemma write_bounded_through:
  "write_script s = [] \<Longrightarrow> write_bounded p None s = (Inr (), s\<lparr>outbound := outbound s @ p\<rparr>)"
  by (simp add: write_bounded_def next_write_def beaten_def less_time_def sent_def)

lemma read_exact_smooth:
  "smooth s \<Longrightarrow> n \<le> length (stream_bytes s) \<Longrightarrow>
     \<exists>s'. read_exact_bounded None n s = (Inr (take n (stream_bytes s)), s')
       \<and> stream_bytes s' = drop n (stream_bytes s) \<and> smooth s'"
proof (induction n arbitrary: s rule: less_induct)
  case (less n)
  show ?case
  proof (cases "n = 0")
    case True
    with less.prems show ?thesis by (simp add: read_exact_bounded.simps)
  next
    case False
    obtain x s1 where x: "read_chunk n None s = (x, s1)" by (metis surj_pair)
    from read_chunk_smooth [OF less.prems(1) x] False have
      sm: "smooth s1" "\<forall>e. x = Inl e \<longrightarrow> stream_bytes s1 = []"
      by auto
    obtain bs where bs: "x = Inr bs"
    proof (cases x)
      case (Inl e)
      with sm(2) read_chunk_err(1) [OF x [unfolded Inl]] less.prems(2) False show ?thesis by simp
    qed blast
    note ok = read_chunk_ok [OF x [unfolded bs]]
    from ok(2,3) less.prems(2) have "n - length bs \<le> length (stream_bytes s1)" by simp
    moreover have "n - length bs < n" using ok(1) False by simp
    ultimately obtain s2 where "read_exact_bounded None (n - length bs) s1
        = (Inr (take (n - length bs) (stream_bytes s1)), s2)"
      "stream_bytes s2 = drop (n - length bs) (stream_bytes s1)" "smooth s2"
      using less.IH [of "n - length bs" s1] sm(1) by blast
    with x bs ok False show ?thesis by (simp add: read_exact_bounded.simps [of None n s])
  qed
qed

definition frame_wire_bytes :: "u32 \<Rightarrow> u32 \<Rightarrow> bytes \<Rightarrow> bytes" where
  "frame_wire_bytes q mg payload =
     encode_header \<lparr>payload_len = word_of_nat (length payload), magic = mg, seq = q\<rparr> @ payload"

lemma tn_write_frame_through:
  assumes "write_script s = []" "length payload < 4294967296"
  shows "tn_write_frame DummyTimer q mg payload s =
    (Inr (), q + 1, s\<lparr>outbound := outbound s @ frame_wire_bytes q mg payload\<rparr>)"
  using assms by (simp add: tn_write_frame_def ftps_deadline_ms_def ftps_deadline_from_ms_def
      write_bounded_through frame_wire_bytes_def Let_def)

lemma read_frame_delivers:
  assumes "smooth s" "stream_bytes s = frame_wire_bytes q mg payload @ rest"
    "length payload < 4294967296" "length payload \<le> limit"
  shows "\<exists>s'. read_frame DummyTimer budget limit s =
      (Inr (\<lparr>payload_len = word_of_nat (length payload), magic = mg, seq = q\<rparr>, payload), s')
    \<and> stream_bytes s' = rest \<and> smooth s'"
proof -
  let ?h = "\<lparr>payload_len = word_of_nat (length payload), magic = mg, seq = q\<rparr>"
  have w: "stream_bytes s = encode_header ?h @ payload @ rest"
    using assms(2) by (simp add: frame_wire_bytes_def)
  from read_exact_smooth [OF assms(1), of 16] w obtain s1 where
    1: "read_exact_bounded None 16 s = (Inr (encode_header ?h), s1)"
      "stream_bytes s1 = payload @ rest" "smooth s1"
    by auto
  from read_exact_smooth [OF 1(3), of "length payload"] 1(2) obtain s2 where
    2: "read_exact_bounded None (length payload) s1 = (Inr payload, s2)" "stream_bytes s2 = rest"
      "smooth s2"
    by auto
  have "unat (payload_len (decode_header (encode_header ?h))) = length payload"
    using assms(3) by (simp add: decode_encode_header unat_of_nat_u32)
  with 1 2 assms(4) show ?thesis
    by (simp add: read_frame_def ftps_deadline_ms_def ftps_deadline_from_ms_def decode_encode_header Let_def)
qed

lemma read_frame_stream:
  assumes "read_frame t budget limit s = (Inr (h, payload), s')"
  shows "\<exists>hb. stream_bytes s = hb @ payload @ stream_bytes s' \<and> length hb = 16 \<and> length payload \<le> limit"
  using assms by (auto simp: read_frame_def Let_def dest!: read_exact_bounded_ok
      split: prod.splits sum.splits if_splits)

section \<open>Replies\<close>

text \<open>The reply a request waits for.\<close>

definition answers :: "serde \<Rightarrow> nat \<Rightarrow> u32 \<Rightarrow> bytes \<Rightarrow> bool" where
  "answers sd cmdtype sequence payload \<longleftrightarrow>
     (\<exists>head. from_any sd (fst (split_payload payload)) = Some head \<and> \<not> is_notify head
        \<and> env_sequence head = Some (unat sequence)
        \<and> (env_cmdtype head = None \<or> env_cmdtype head = Some cmdtype))"

lemma reply_frame_step_cases:
  assumes "reply_frame_step sd t cmdtype sequence c = (r, c')"
  shows "r = Inl e \<Longrightarrow> poisoned c'"
    "r = Inr p \<Longrightarrow> \<exists>pre payload. stream_bytes (tn_stream c) = pre @ payload @ stream_bytes (tn_stream c')
      \<and> (\<forall>q. p = Some q \<longrightarrow> q = payload \<and> answers sd cmdtype sequence payload)"
  using assms by (auto simp: reply_frame_step_def poison_def parse_envelope_def answers_def Let_def
      dest!: read_frame_stream split: prod.splits sum.splits if_splits option.splits) blast+

lemma read_reply_frames_cases:
  "read_reply_frames sd t cmdtype sequence m n c = (r, c') \<Longrightarrow>
     (\<forall>e. r = Inl e \<longrightarrow> poisoned c') \<and>
     (\<forall>payload. r = Inr payload \<longrightarrow> answers sd cmdtype sequence payload
        \<and> (\<exists>pre. stream_bytes (tn_stream c) = pre @ payload @ stream_bytes (tn_stream c')))"
proof (induction sd t cmdtype sequence m n c rule: read_reply_frames.induct)
  case (2 sd t cmdtype sequence m n c)
  obtain x c1 where x: "reply_frame_step sd t cmdtype sequence c = (x, c1)" by (metis surj_pair)
  note st = reply_frame_step_cases [OF x]
  show ?case
  proof (cases x)
    case (Inl e)
    with "2.prems" x st(1) show ?thesis by auto
  next
    case (Inr p)
    from st(2) [OF this] obtain pre payload where
      p: "stream_bytes (tn_stream c) = pre @ payload @ stream_bytes (tn_stream c1)"
      "\<forall>q. p = Some q \<longrightarrow> q = payload \<and> answers sd cmdtype sequence payload"
      by blast
    show ?thesis
    proof (cases p)
      case None
      with "2.prems" x Inr have "read_reply_frames sd t cmdtype sequence m n c1 = (r, c')" by simp
      from "2.IH" [OF x [symmetric] Inr None this] p(1) show ?thesis
        by (metis append.assoc)
    next
      case (Some q)
      with "2.prems" x Inr p show ?thesis by auto
    qed
  qed
qed (auto simp: poison_def)

lemma read_reply_frame_cases:
  assumes "read_reply_frame sd t cmdtype sequence c = (r, c')"
  shows "(\<forall>e. r = Inl e \<longrightarrow> poisoned c') \<and>
    (\<forall>payload. r = Inr payload \<longrightarrow> answers sd cmdtype sequence payload
      \<and> (\<exists>pre. stream_bytes (tn_stream c) = pre @ payload @ stream_bytes (tn_stream c')))"
  by (rule read_reply_frames_cases [OF assms [unfolded read_reply_frame_def read_reply_frame_within_def]])

section \<open>Downloads\<close>

text \<open>The reply that ended the download: the last frame taken off the stream.\<close>

definition ended_by ::
  "serde \<Rightarrow> tunnel \<Rightarrow> tunnel \<Rightarrow> download_reply envelope \<Rightarrow> bool" where
  "ended_by sd c c' env \<longleftrightarrow>
     (\<exists>pre payload. stream_bytes (tn_stream c) = pre @ payload @ stream_bytes (tn_stream c')
        \<and> from_download sd (fst (split_payload payload)) = Some env \<and> env_result env \<noteq> Some 1)"

lemma ended_by_later:
  "stream_bytes (tn_stream c) = pre @ stream_bytes (tn_stream c1) \<Longrightarrow> ended_by sd c1 c' env \<Longrightarrow>
     ended_by sd c c' env"
  unfolding ended_by_def by (metis append.assoc)

definition verified :: "serde \<Rightarrow> nat option \<Rightarrow> bytes list \<Rightarrow> nat \<Rightarrow> download_reply envelope \<Rightarrow> bool" where
  "verified sd max_total chunks n env \<longleftrightarrow>
     n = length (concat chunks) \<and> (\<forall>l. max_total = Some l \<longrightarrow> n \<le> l)
     \<and> (\<exists>body m. env_reply env = Some body \<and> dl_total body = n \<and> dl_file_md5 body = Some m
          \<and> eq_ignore_ascii_case (md5_hex sd (concat chunks)) m)"

lemma download_fragment_cases:
  assumes "download_fragment sd command max_total sink chunks (length (concat chunks)) payload = (v, chunks')"
  shows "v = FragDone n \<Longrightarrow> \<exists>env. from_download sd (fst (split_payload payload)) = Some env
      \<and> env_result env \<noteq> Some 1 \<and> verified sd max_total chunks' n env"
    "v = FragFail e \<Longrightarrow> \<exists>env. from_download sd (fst (split_payload payload)) = Some env \<and> env_result env \<noteq> Some 1"
    "v = FragMore chunk \<Longrightarrow> chunks' = chunks @ [chunk]"
    "v = FragSkip \<Longrightarrow> chunks' = chunks"
proof -
  obtain json binary where s: "split_payload payload = (json, binary)" by (metis surj_pair)
  show "v = FragDone n \<Longrightarrow> \<exists>env. from_download sd (fst (split_payload payload)) = Some env
      \<and> env_result env \<noteq> Some 1 \<and> verified sd max_total chunks' n env"
  proof -
    assume v: "v = FragDone n"
    with assms s obtain env where env: "from_download sd json = Some env"
      by (auto simp: download_fragment_def parse_envelope_def split: option.splits)
    let ?body = "case env_reply env of Some r \<Rightarrow> r | None \<Rightarrow> no_download"
    from assms s env v have nc: "env_result env \<noteq> Some 1"
      by (auto simp: download_fragment_def parse_envelope_def data_fragment_def fail_or_def
          status_fragment_def split: option.splits if_splits sum.splits)
    with assms s env v have d: "data_fragment sd command max_total sink chunks (length (concat chunks))
        False ?body binary = (FragDone n, chunks')"
      by (auto simp: download_fragment_def parse_envelope_def status_fragment_cases
          split: option.splits sum.splits)
    note df = data_fragment_chunks(1) [OF d refl refl]
    then have "env_reply env \<noteq> None" by (cases "env_reply env") (auto simp: no_download_def)
    with df s env nc show ?thesis by (auto simp: verified_def)
  qed
  show "v = FragFail e \<Longrightarrow> \<exists>env. from_download sd (fst (split_payload payload)) = Some env \<and> env_result env \<noteq> Some 1"
    using assms s by (auto simp: download_fragment_def parse_envelope_def data_fragment_def fail_or_def
        status_fragment_def Let_def split: option.splits if_splits sum.splits)
  show "v = FragMore chunk \<Longrightarrow> chunks' = chunks @ [chunk]"
    using assms s by (auto simp: download_fragment_def parse_envelope_def status_fragment_cases Let_def
        dest: data_fragment_chunks(2) split: option.splits if_splits sum.splits)
  show "v = FragSkip \<Longrightarrow> chunks' = chunks"
    using assms s by (auto simp: download_fragment_def parse_envelope_def Let_def
        dest: data_fragment_chunks(3) split: option.splits if_splits sum.splits)
qed

lemma receive_fragments_cases:
  "receive_fragments sd t command sequence max_total sink chunks received c = (r, chunks', c') \<Longrightarrow>
     received = length (concat chunks) \<Longrightarrow>
     (\<forall>n. r = Inr n \<longrightarrow> (\<exists>env. ended_by sd c c' env \<and> verified sd max_total chunks' n env)) \<and>
     (\<forall>e. r = Inl e \<longrightarrow> poisoned c' \<or> (\<exists>env. ended_by sd c c' env) \<or> (\<exists>c1. c' = abandon sd t sequence c1))"
proof (induction sd t command sequence max_total sink chunks received c rule: receive_fragments.induct)
  case (1 sd t command sequence max_total sink chunks received c)
  note unfold = receive_fragments.simps [of sd t command sequence max_total sink chunks received c]
  obtain x c1 where x: "read_reply_frame sd t CMD_FILE_DOWNLOAD sequence c = (x, c1)" by (metis surj_pair)
  show ?case
  proof (cases x)
    case (Inl e)
    with x "1.prems"(1) have "r = Inl e" "c' = c1" by (simp_all add: unfold)
    with Inl read_reply_frame_cases [OF x] show ?thesis by simp
  next
    case (Inr payload)
    from read_reply_frame_cases [OF x] Inr obtain pre where
      pre: "stream_bytes (tn_stream c) = pre @ payload @ stream_bytes (tn_stream c1)"
      by auto
    obtain v chunks1 where v: "download_fragment sd command max_total sink chunks received payload = (v, chunks1)"
      by (metis surj_pair)
    note df = download_fragment_cases [OF v [unfolded "1.prems"(2)]]
    have later: "ended_by sd c c' env" if "ended_by sd c1 c' env" for env
      using pre that by (intro ended_by_later [of c "pre @ payload" c1]) simp_all
    show ?thesis
    proof (cases v)
      case (FragDone n)
      with "1.prems"(1) x Inr v df(1) pre show ?thesis by (fastforce simp: unfold ended_by_def)
    next
      case (FragMore chunk)
      with "1.prems"(1) x Inr v have "receive_fragments sd t command sequence max_total sink chunks1
          (received + length chunk) c1 = (r, chunks', c')"
        by (simp add: unfold)
      from "1.IH"(1) [OF x [symmetric] Inr v [symmetric] FragMore this] df(3) [OF FragMore] "1.prems"(2) later
      show ?thesis by (simp add: ac_simps) blast
    next
      case FragSkip
      with "1.prems"(1) x Inr v have "receive_fragments sd t command sequence max_total sink chunks1
          received c1 = (r, chunks', c')"
        by (simp add: unfold)
      from "1.IH"(2) [OF x [symmetric] Inr v [symmetric] FragSkip this] df(4) [OF FragSkip] "1.prems"(2) later
      show ?thesis by simp blast
    next
      case (FragFail e)
      with "1.prems"(1) x Inr v df(2) pre show ?thesis by (fastforce simp: unfold ended_by_def)
    qed (use "1.prems"(1) x Inr v in \<open>auto simp: unfold\<close>)
  qed
qed

section \<open>Properties\<close>

text \<open>A frame written to the wire is read back from it: header, payload, and the stream left at the
  first byte after it, however the bytes are delivered.\<close>

theorem tunnel_frame_roundtrip:
  assumes "write_script s = []" "length payload < 4294967296" "length payload \<le> limit"
    "tn_write_frame DummyTimer q mg payload s = (r, q', s')"
    "smooth s2" "stream_bytes s2 = drop (length (outbound s)) (outbound s') @ rest"
  shows "r = Inr () \<and> q' = q + 1 \<and> (\<exists>s3. read_frame DummyTimer budget limit s2 =
      (Inr (\<lparr>payload_len = word_of_nat (length payload), magic = mg, seq = q\<rparr>, payload), s3)
    \<and> stream_bytes s3 = rest)"
proof -
  from tn_write_frame_through [OF assms(1,2), of q mg] assms(4) have
    w: "r = Inr ()" "q' = q + 1" "outbound s' = outbound s @ frame_wire_bytes q mg payload"
    by auto
  with read_frame_delivers [OF assms(5) _ assms(2,3), of q mg rest budget] assms(6) show ?thesis
    by auto
qed

theorem tunnel_frame_roundtrip_witness:
  "\<exists>s3. read_frame DummyTimer 0 8
      \<lparr>now = 0, sleep_error = None, inbound = [(1, PeerData
        ([2, 0, 0, 0, 0x3F, 1, 2, 1, 7, 0, 0, 0] @ [0, 0, 0, 0, 9, 8]))], write_script = [], outbound = []\<rparr>
    = (Inr (\<lparr>payload_len = 2, magic = MAGIC_CTRL, seq = 7\<rparr>, [9, 8]), s3) \<and> stream_bytes s3 = []"
proof -
  let ?s = "\<lparr>now = 0, sleep_error = None, inbound = [], write_script = [], outbound = []\<rparr> :: io"
  have w: "tn_write_frame DummyTimer 7 MAGIC_CTRL [9, 8] ?s = (Inr (), 8, ?s\<lparr>outbound := outbound ?s @ frame_wire_bytes 7 MAGIC_CTRL [9, 8]\<rparr>)"
    by (subst tn_write_frame_through) simp_all
  let ?in = "\<lparr>now = 0, sleep_error = None, inbound = [(1, PeerData
        ([2, 0, 0, 0, 0x3F, 1, 2, 1, 7, 0, 0, 0] @ [0, 0, 0, 0, 9, 8]))], write_script = [], outbound = []\<rparr> :: io"
  have "stream_bytes ?in = drop (length (outbound ?s))
      (outbound (?s\<lparr>outbound := outbound ?s @ frame_wire_bytes 7 MAGIC_CTRL [9, 8]\<rparr>)) @ []"
    by (simp add: stream_bytes_def frame_wire_bytes_def encode_header_def u32_le_def
        replicate_4)
  from tunnel_frame_roundtrip [OF _ _ _ w _ this, of 8 0] show ?thesis
    by (simp add: smooth_def)
qed

text \<open>The reply handed out to a request carries that request's sequence number (and its command, if
  it names one) and is no notification; when none can be had the session is poisoned.\<close>

theorem tunnel_reply_correlated:
  "case read_reply_frame sd t cmdtype sequence c of
     (Inl e, c') \<Rightarrow> poisoned c'
   | (Inr payload, c') \<Rightarrow>
       \<exists>head. from_any sd (fst (split_payload payload)) = Some head \<and> \<not> is_notify head
         \<and> env_sequence head = Some (unat sequence)
         \<and> (env_cmdtype head = None \<or> env_cmdtype head = Some cmdtype)"
proof -
  obtain r c' where r: "read_reply_frame sd t cmdtype sequence c = (r, c')" by (metis surj_pair)
  from read_reply_frame_cases [OF r] r show ?thesis by (cases r) (auto simp: answers_def)
qed


text \<open>A download of two bytes in one final reply, against a parser and a digest that know only it.\<close>

definition tiny_serde :: serde where
  "tiny_serde =
     \<lparr>to_vec = (\<lambda>_. Inr [123, 125]),
      from_any = (\<lambda>_. Some \<lparr>env_cmdtype = None, env_sequence = Some 1, env_result = Some 0, env_reply = None\<rparr>),
      from_media = (\<lambda>_. None), from_list = (\<lambda>_. None),
      from_download = (\<lambda>_. Some \<lparr>env_cmdtype = None, env_sequence = Some 1, env_result = Some 0,
        env_reply = Some \<lparr>dl_offset = 0, dl_total = 2, dl_size = 2, dl_file_md5 = Some ''12'',
          dl_mem_param_size = None\<rparr>\<rparr>),
      from_sub_file = (\<lambda>_. None), from_upload_init = (\<lambda>_. None), from_status = (\<lambda>_. None),
      md5_hex = (\<lambda>_. ''12'')\<rparr>"

definition tiny_tunnel :: "bytes \<Rightarrow> tunnel" where
  "tiny_tunnel bs =
     \<lparr>tn_stream = \<lparr>now = 0, sleep_error = None, inbound = [(0, PeerData bs)],
        write_script = [], outbound = []\<rparr>,
      max_frame_payload = 100, frame_seq = 5, next_sequence = 2, poisoned = False\<rparr>"

lemma read_reply_frame_first:
  assumes "reply_frame_step sd t cmdtype sequence c = (Inr (Some payload), c1)"
  shows "read_reply_frame sd t cmdtype sequence c = (Inr payload, c1)"
  unfolding read_reply_frame_def read_reply_frame_within_def read_reply_frames.simps(2)
  by (simp add: assms)

lemma tiny_reply:
  assumes "smooth (tn_stream c)" "stream_bytes (tn_stream c) = frame_wire_bytes 1 MAGIC_CTRL_REPLY payload"
    "length payload \<le> 100" "max_frame_payload c = 100"
  shows "\<exists>s. read_reply_frame tiny_serde DummyTimer cmdtype 1 c = (Inr payload, c\<lparr>tn_stream := s\<rparr>)"
proof -
  from read_frame_delivers [of "tn_stream c" 1 MAGIC_CTRL_REPLY payload "[]" 100 30] obtain s where
    "read_frame DummyTimer 30 100 (tn_stream c)
      = (Inr (\<lparr>payload_len = word_of_nat (length payload), magic = MAGIC_CTRL_REPLY, seq = 1\<rparr>, payload), s)"
    using assms by auto
  with assms(4) have "reply_frame_step tiny_serde DummyTimer cmdtype 1 c
      = (Inr (Some payload), c\<lparr>tn_stream := s\<rparr>)"
    by (simp add: reply_frame_step_def parse_envelope_def tiny_serde_def is_notify_def Let_def)
  from read_reply_frame_first [OF this] show ?thesis by blast
qed

lemma tiny_stream:
  "smooth (tn_stream (tiny_tunnel (frame_wire_bytes q m p)))"
  "stream_bytes (tn_stream (tiny_tunnel bs)) = bs"
  by (simp_all add: tiny_tunnel_def smooth_def stream_bytes_def frame_wire_bytes_def encode_header_def u32_le_def)



text \<open>A poisoned session refuses every command without reading or writing a byte.\<close>

theorem tunnel_poisoned_refuses:
  assumes "poisoned c"
  shows "\<exists>e. check_poisoned c = Inl e
    \<and> media_ability sd t c = (Inl e, c) \<and> list_files sd t kind storage c = (Inl e, c)
    \<and> delete_file sd t file c = (Inl e, c) \<and> download sd t file sink c = (Inl e, [], c)
    \<and> read_running_job_member sd t member n c = (Inl e, c)
    \<and> read_file_member sd t file member n c = (Inl e, c)
    \<and> upload sd t label name src c = (Inl e, [], c)"
  using assms by (simp add: check_poisoned_def media_ability_def list_files_def delete_file_def
      download_def read_running_job_member_def request_running_job_member_def read_file_member_def
      upload_def single_reply_def)

theorem tunnel_poisoned_refuses_witness:
  "\<exists>e. media_ability tiny_serde DummyTimer (tiny_tunnel []\<lparr>poisoned := True\<rparr>)
    = (Inl e, tiny_tunnel []\<lparr>poisoned := True\<rparr>)"
  using tunnel_poisoned_refuses [of "tiny_tunnel []\<lparr>poisoned := True\<rparr>" tiny_serde DummyTimer]
  by (simp add: tiny_tunnel_def) blast



end
