(* ===== verification/FtpProtocol.thy ===== *)
theory FtpProtocol
  imports Json Reader
begin

text \<open>
  The FTP control and data channels (\<open>src/ftps/protocol.rs\<close>): reply lines and their reassembly,
  the passive-mode port, the paths that may be sent, and the readers that drain a data connection.
  A callback that only collects is modelled by the list of what it was given.
\<close>

abbreviation (input) FTP_MAX_RESPONSE_LINE_BYTES :: nat where "FTP_MAX_RESPONSE_LINE_BYTES \<equiv> 4096"
abbreviation (input) FTP_MAX_RESPONSE_LINES :: nat where "FTP_MAX_RESPONSE_LINES \<equiv> 100"
abbreviation (input) FTP_LINE_READ_CHUNK_SIZE :: nat where "FTP_LINE_READ_CHUNK_SIZE \<equiv> 512"
abbreviation (input) FTPS_DATA_READ_BUF_SIZE :: nat where "FTPS_DATA_READ_BUF_SIZE \<equiv> 4096"
abbreviation (input) FTPS_MAX_TRANSFER_BYTES :: nat where "FTPS_MAX_TRANSFER_BYTES \<equiv> 536870912"
abbreviation (input) LF :: u8 where "LF \<equiv> 10"

section \<open>Commands\<close>

definition write_command :: "string \<Rightarrow> nat option \<Rightarrow> io \<Rightarrow> (error + unit) \<times> io" where
  "write_command cmd deadline s =
     (case write_bounded (as_bytes cmd @ [13, LF]) deadline s of
        (Inl e, s1) \<Rightarrow> (Inl e, s1)
      | (Inr _, s1) \<Rightarrow> write_bounded [] deadline s1)"

text \<open>\<open>validate_ftp_path\<close>: no control character, no \<open>..\<close> segment, and no last segment a server would
  take for an option.\<close>

definition validate_ftp_path_bytes :: "string \<Rightarrow> error + unit" where
  "validate_ftp_path_bytes path =
     (if list_ex (\<lambda>c. code c < 0x20 \<or> code c = 0x7F) path
      then Inl (ProtocolViolation ''FTP path contains an illegal control character'') else Inr ())"

definition path_segments :: "string \<Rightarrow> string list" where
  "path_segments path = split_on (\<lambda>c. c = CHR ''/'' \<or> code c = 92) path"

definition validate_ftp_path :: "string \<Rightarrow> error + unit" where
  "validate_ftp_path path =
     (case validate_ftp_path_bytes path of
        Inl e \<Rightarrow> Inl e
      | Inr _ \<Rightarrow>
          if list_ex (\<lambda>seg. seg = ''..'') (path_segments path)
          then Inl (ProtocolViolation ''FTP path contains a '..' path traversal segment'')
          else if (case List.find (\<lambda>seg. seg \<noteq> []) (rev (path_segments path)) of
                     None \<Rightarrow> False | Some seg \<Rightarrow> take 1 seg = ''-'')
          then Inl (ProtocolViolation (''FTP path's final segment must not start with '-'' @ [CHR 0x27]))
          else Inr ())"

section \<open>Reply lines\<close>

text \<open>\<open>fill\<close> is the read-ahead buffer; its first \<open>scanned\<close> bytes are known to hold no line feed.\<close>

function read_line_from ::
  "nat option \<Rightarrow> nat \<Rightarrow> bytes \<Rightarrow> io \<Rightarrow> (error + bytes) \<times> bytes \<times> io" where
  "read_line_from deadline scanned fill s =
     (case position (\<lambda>b. b = LF) (drop scanned fill) of
        Some pos \<Rightarrow> (Inr (take (Suc (scanned + pos)) fill), drop (Suc (scanned + pos)) fill, s)
      | None \<Rightarrow>
          if length fill \<ge> FTP_MAX_RESPONSE_LINE_BYTES
          then (Inl (ProtocolViolation ''FTP response line exceeds maximum length''), fill, s)
          else case read_chunk FTP_LINE_READ_CHUNK_SIZE deadline s of
            (Inl e, s1) \<Rightarrow> (Inl (Network e), fill, s1)
          | (Inr bs, s1) \<Rightarrow> read_line_from deadline (length fill) (fill @ bs) s1)"
  by pat_completeness auto
termination
  by (relation "measure (\<lambda>(_, _, fill, _). FTP_MAX_RESPONSE_LINE_BYTES - length fill)")
    (auto dest!: read_chunk_ok(1) [OF sym] intro!: diff_less_mono2)

declare read_line_from.simps [simp del]

definition read_line_raw :: "nat option \<Rightarrow> bytes \<Rightarrow> io \<Rightarrow> (error + bytes) \<times> bytes \<times> io" where
  "read_line_raw deadline fill s = read_line_from deadline 0 fill s"

section \<open>Replies\<close>

datatype reply_step = ReplyDone nat string | ReplyMore "nat option" string

definition utf8_or_empty :: "bytes \<Rightarrow> string" where
  "utf8_or_empty bs = (case from_utf8 bs of Some t \<Rightarrow> t | None \<Rightarrow> [])"

definition line_text :: "bytes \<Rightarrow> string" where
  "line_text line = trim (utf8_or_empty (drop 4 line))"

text \<open>The three-character code at the front of a line.\<close>

definition line_code :: "bytes \<Rightarrow> nat option" where
  "line_code line = (case from_utf8 (take 3 line) of None \<Rightarrow> None | Some t \<Rightarrow> parse_u16 t)"

text \<open>What a line does before the header line has been seen, and after.\<close>

definition header_step :: "bytes \<Rightarrow> reply_step" where
  "header_step line =
     (if length line < 4 then ReplyMore None []
      else case line_code line of
        None \<Rightarrow> ReplyMore None []
      | Some c \<Rightarrow>
          if line ! 3 = 32 then ReplyDone c (line_text line)
          else if line ! 3 = 45 then ReplyMore (Some c) (line_text line)
          else ReplyDone c [])"

definition body_step :: "nat \<Rightarrow> string \<Rightarrow> bytes \<Rightarrow> reply_step" where
  "body_step c acc line =
     (if length line \<ge> 4 \<and> line_code line = Some c \<and> line ! 3 = 32
      then ReplyDone c (if line_text line = [] then acc else acc @ CHR 0x0A # line_text line)
      else if length line \<ge> 4 \<and> line_code line = Some c \<and> line ! 3 = 45
      then ReplyMore (Some c) (acc @ CHR 0x0A # line_text line)
      else ReplyMore (Some c) (acc @ CHR 0x0A # trim_end (utf8_or_empty line)))"

definition reply_step_of :: "nat option \<Rightarrow> string \<Rightarrow> bytes \<Rightarrow> reply_step" where
  "reply_step_of header acc line =
     (case header of None \<Rightarrow> header_step line | Some c \<Rightarrow> body_step c acc line)"

text \<open>\<open>left\<close> is how many more lines the reply may have.\<close>

fun read_reply ::
  "nat option \<Rightarrow> nat \<Rightarrow> nat option \<Rightarrow> string \<Rightarrow> bytes \<Rightarrow> io \<Rightarrow> (error + nat \<times> string) \<times> bytes \<times> io"
where
  "read_reply deadline left header acc fill s =
     (case read_line_raw deadline fill s of
        (Inl e, fill1, s1) \<Rightarrow> (Inl e, fill1, s1)
      | (Inr line, fill1, s1) \<Rightarrow>
          (case left of
             0 \<Rightarrow> (Inl (ProtocolViolation ''FTP response exceeded maximum line count''), fill1, s1)
           | Suc left' \<Rightarrow>
               (case reply_step_of header acc line of
                  ReplyDone c text \<Rightarrow> (Inr (c, text), fill1, s1)
                | ReplyMore header' acc' \<Rightarrow> read_reply deadline left' header' acc' fill1 s1)))"

declare read_reply.simps [simp del]

definition read_response :: "nat option \<Rightarrow> bytes \<Rightarrow> io \<Rightarrow> (error + nat \<times> string) \<times> bytes \<times> io" where
  "read_response deadline fill s = read_reply deadline FTP_MAX_RESPONSE_LINES None [] fill s"

text \<open>\<open>parse_pasv_port\<close>: the fifth and sixth of the comma-separated numbers in parentheses.\<close>

definition parse_pasv_port :: "string \<Rightarrow> error + nat" where
  "parse_pasv_port text =
     (case position (\<lambda>c. c = CHR ''('') text of
        None \<Rightarrow> Inl (ProtocolViolation ''Invalid PASV format'')
      | Some start \<Rightarrow>
     (case position (\<lambda>c. c = CHR '')'') (drop (start + 1) text) of
        None \<Rightarrow> Inl (ProtocolViolation ''Invalid PASV format'')
      | Some n \<Rightarrow>
          let inner = take n (drop (start + 1) text);
              parts = drop 4 (map trim (split_on (\<lambda>c. c = CHR '','') inner))
          in case (case parts of [] \<Rightarrow> None | p # _ \<Rightarrow> parse_u16 p) of
               None \<Rightarrow> Inl (ProtocolViolation ''Failed to parse PORT_1 in PASV'')
             | Some p1 \<Rightarrow>
            (case (case tl parts of [] \<Rightarrow> None | p # _ \<Rightarrow> parse_u16 p) of
               None \<Rightarrow> Inl (ProtocolViolation ''Failed to parse PORT_2 in PASV'')
             | Some p2 \<Rightarrow>
                 if p1 * 256 + p2 > 65535
                 then Inl (ProtocolViolation ''PASV port value out of range'')
                 else Inr (p1 * 256 + p2))))"

section \<open>Data connections\<close>

definition too_big :: error where
  "too_big = ProtocolViolation ''FTPS transfer exceeds maximum accepted size''"

text \<open>One read of a data connection, under its own fresh deadline.\<close>

definition data_read :: "timer \<Rightarrow> nat \<Rightarrow> nat \<Rightarrow> io \<Rightarrow> (socket_error + bytes) \<times> io" where
  "data_read t budget_ms cap s = read_transfer_chunk cap (ftps_deadline_from_ms t budget_ms s) s"

lemma data_read_ok:
  "data_read t b cap s = (Inr bs, s') \<Longrightarrow>
     length bs \<le> cap \<and> stream_bytes s = bs @ stream_bytes s' \<and> outbound s' = outbound s"
  unfolding data_read_def by (rule read_transfer_chunk_ok)

function read_to_eof_bounded :: "bytes \<Rightarrow> timer \<Rightarrow> nat \<Rightarrow> nat \<Rightarrow> io \<Rightarrow> (error + unit) \<times> bytes \<times> io"
where
  "read_to_eof_bounded out t budget_ms max_bytes s =
     (case data_read t budget_ms FTPS_DATA_READ_BUF_SIZE s of
        (Inl e, s1) \<Rightarrow> (Inl (Network e), out, s1)
      | (Inr bs, s1) \<Rightarrow>
          if bs = [] then (Inr (), out, s1)
          else if length out + length bs > max_bytes then (Inl too_big, out, s1)
          else read_to_eof_bounded (out @ bs) t budget_ms max_bytes s1)"
  by pat_completeness auto
termination
  by (relation "measure (\<lambda>(_, _, _, _, s). length (stream_bytes s))")
    (auto dest!: data_read_ok [OF sym])

declare read_to_eof_bounded.simps [simp del]

definition read_to_eof :: "bytes \<Rightarrow> timer \<Rightarrow> nat \<Rightarrow> io \<Rightarrow> (error + unit) \<times> bytes \<times> io" where
  "read_to_eof out t budget_ms s = read_to_eof_bounded out t budget_ms FTPS_MAX_TRANSFER_BYTES s"

text \<open>Fill a buffer of \<open>cap\<close> bytes until it is full, \<open>stop\<close> says so, or the stream ends (\<open>True\<close>).\<close>

function read_prefix_from ::
  "nat \<Rightarrow> (bytes \<Rightarrow> bool) \<Rightarrow> timer \<Rightarrow> nat \<Rightarrow> bytes \<Rightarrow> io \<Rightarrow> (error + bool) \<times> bytes \<times> io" where
  "read_prefix_from cap stop t budget_ms buf s =
     (if length buf < cap then
        (case data_read t budget_ms (cap - length buf) s of
           (Inl e, s1) \<Rightarrow> (Inl (Network e), buf, s1)
         | (Inr bs, s1) \<Rightarrow>
             if bs = [] then (Inr True, buf, s1)
             else if stop (buf @ bs) then (Inr False, buf @ bs, s1)
             else read_prefix_from cap stop t budget_ms (buf @ bs) s1)
      else (Inr False, buf, s))"
  by pat_completeness auto
termination
  by (relation "measure (\<lambda>(_, _, _, _, _, s). length (stream_bytes s))")
    (auto dest!: data_read_ok [OF sym])

declare read_prefix_from.simps [simp del]

definition read_prefix_until ::
  "nat \<Rightarrow> (bytes \<Rightarrow> bool) \<Rightarrow> timer \<Rightarrow> nat \<Rightarrow> io \<Rightarrow> (error + bool) \<times> bytes \<times> io" where
  "read_prefix_until cap stop t budget_ms s = read_prefix_from cap stop t budget_ms [] s"

text \<open>A transfer ends because the connection failed or because the client gave up on it.\<close>

datatype each_stop = StopRead error | Stopped error

text \<open>\<open>sink\<close> sees the chunks before this one and this one.\<close>

function read_each_to_eof ::
  "(bytes list \<Rightarrow> bytes \<Rightarrow> error option) \<Rightarrow> bytes list \<Rightarrow> nat \<Rightarrow> timer \<Rightarrow> nat \<Rightarrow> nat \<Rightarrow> io
     \<Rightarrow> (each_stop + nat) \<times> bytes list \<times> io" where
  "read_each_to_eof sink chunks so_far t budget_ms max_bytes s =
     (case data_read t budget_ms FTPS_DATA_READ_BUF_SIZE s of
        (Inl e, s1) \<Rightarrow> (Inl (StopRead (Network e)), chunks, s1)
      | (Inr bs, s1) \<Rightarrow>
          if bs = [] then (Inr so_far, chunks, s1)
          else if so_far + length bs > max_bytes then (Inl (Stopped too_big), chunks, s1)
          else case sink chunks bs of
            Some e \<Rightarrow> (Inl (Stopped e), chunks, s1)
          | None \<Rightarrow>
              read_each_to_eof sink (chunks @ [bs]) (so_far + length bs) t budget_ms max_bytes s1)"
  by pat_completeness auto
termination
  by (relation "measure (\<lambda>(_, _, _, _, _, _, s). length (stream_bytes s))")
    (auto dest!: data_read_ok [OF sym])

declare read_each_to_eof.simps [simp del]

section \<open>Listings, line by line\<close>

record lines_read =
  total_bytes :: nat
  ends_on_newline :: bool
  line_tail :: bytes

text \<open>The state of \<open>read_lines_to_eof\<close> between chunks: the unfinished line, whether it has already been
  given up as too long, and the lines handed to the callback.\<close>

record line_state =
  ls_line :: bytes
  ls_overlong :: bool
  ls_out :: "bytes list"

definition end_line :: "nat \<Rightarrow> bytes \<Rightarrow> line_state \<Rightarrow> line_state" where
  "end_line max_line head st =
     \<lparr>ls_line = [], ls_overlong = False,
      ls_out = (if ls_overlong st \<or> length (ls_line st) + length head > max_line then ls_out st
        else if ls_line st = [] then ls_out st @ [head]
        else ls_out st @ [ls_line st @ head])\<rparr>"

definition keep_rest :: "nat \<Rightarrow> bytes \<Rightarrow> line_state \<Rightarrow> line_state" where
  "keep_rest max_line rest st =
     (if ls_overlong st then st
      else if length (ls_line st) + length rest > max_line
      then st\<lparr>ls_overlong := True, ls_line := []\<rparr>
      else st\<lparr>ls_line := ls_line st @ rest\<rparr>)"

function feed_lines :: "nat \<Rightarrow> bytes \<Rightarrow> line_state \<Rightarrow> line_state" where
  "feed_lines max_line rest st =
     (case position (\<lambda>b. b = LF) rest of
        Some pos \<Rightarrow> feed_lines max_line (drop (Suc pos) rest) (end_line max_line (take pos rest) st)
      | None \<Rightarrow> keep_rest max_line rest st)"
  by pat_completeness auto
termination
  by (relation "measure (\<lambda>(_, rest, _). length rest)") (auto dest!: position_SomeD)

declare feed_lines.simps [simp del]

function read_lines_from ::
  "timer \<Rightarrow> nat \<Rightarrow> nat \<Rightarrow> nat \<Rightarrow> line_state \<Rightarrow> nat \<Rightarrow> u8 option \<Rightarrow> io
     \<Rightarrow> (error + lines_read) \<times> bytes list \<times> io" where
  "read_lines_from t budget_ms max_line max_bytes st so_far last_byte s =
     (case data_read t budget_ms FTPS_DATA_READ_BUF_SIZE s of
        (Inl e, s1) \<Rightarrow> (Inl (Network e), ls_out st, s1)
      | (Inr bs, s1) \<Rightarrow>
          if bs = []
          then (Inr \<lparr>total_bytes = so_far, ends_on_newline = (last_byte = Some LF),
                     line_tail = ls_line st\<rparr>, ls_out st, s1)
          else if so_far + length bs > max_bytes then (Inl too_big, ls_out st, s1)
          else read_lines_from t budget_ms max_line max_bytes (feed_lines max_line bs st)
                 (so_far + length bs) (Some (last bs)) s1)"
  by pat_completeness auto
termination
  by (relation "measure (\<lambda>(_, _, _, _, _, _, _, s). length (stream_bytes s))")
    (auto dest!: data_read_ok [OF sym])

declare read_lines_from.simps [simp del]

definition read_lines_to_eof ::
  "timer \<Rightarrow> nat \<Rightarrow> nat \<Rightarrow> nat \<Rightarrow> io \<Rightarrow> (error + lines_read) \<times> bytes list \<times> io" where
  "read_lines_to_eof t budget_ms max_line max_bytes s =
     read_lines_from t budget_ms max_line max_bytes
       \<lparr>ls_line = [], ls_overlong = False, ls_out = []\<rparr> 0 None s"

end
