(* ===== verification/FtpChannel.thy ===== *)
theory FtpChannel
  imports FtpProtocol
begin

text \<open>
  What the FTP channels guarantee: reply lines come out whole and in order through any number of
  timeouts, multi-line replies are put together, accepted paths cannot smuggle in a second command,
  and a listing is cut into the same lines however the connection delivers it.
\<close>

section \<open>Lines\<close>

definition is_line :: "bytes \<Rightarrow> bool" where
  "is_line l \<longleftrightarrow> (\<exists>x. l = x @ [LF] \<and> LF \<notin> set x)"

lemma first_line_unique:
  "x @ LF # a = y @ LF # b \<Longrightarrow> LF \<notin> set x \<Longrightarrow> LF \<notin> set y \<Longrightarrow> x = y \<and> a = b"
proof (induction x arbitrary: y)
  case Nil
  then show ?case by (cases y) auto
next
  case (Cons h x)
  then show ?case by (cases y) auto
qed

lemma position_LF_split:
  assumes "position (\<lambda>b. b = LF) xs = Some pos"
  shows "take (Suc pos) xs = take pos xs @ [LF]" "LF \<notin> set (take pos xs)"
    "xs = take pos xs @ LF # drop (Suc pos) xs"
proof -
  from position_SomeD [OF assms] have p: "pos < length xs" "xs ! pos = LF" by simp_all
  then show "take (Suc pos) xs = take pos xs @ [LF]" by (simp add: take_Suc_conv_app_nth)
  from position_SomeD [OF assms] show "LF \<notin> set (take pos xs)" by auto
  show "xs = take pos xs @ LF # drop (Suc pos) xs"
    using id_take_nth_drop [OF p(1)] p(2) by simp
qed

lemma position_None_LF: "position (\<lambda>b. b = LF) xs = None \<longleftrightarrow> LF \<notin> set xs"
  by (auto simp: position_None_iff)

lemma read_line_from_accounts:
  "read_line_from deadline scanned fill s = (r, fill', s') \<Longrightarrow> LF \<notin> set (take scanned fill) \<Longrightarrow>
     scanned \<le> length fill \<Longrightarrow>
     (case r of Inl e \<Rightarrow> fill @ stream_bytes s = fill' @ stream_bytes s'
      | Inr line \<Rightarrow> is_line line \<and> fill @ stream_bytes s = line @ fill' @ stream_bytes s')"
proof (induction deadline scanned fill s rule: read_line_from.induct)
  case (1 deadline scanned fill s)
  note unfold = read_line_from.simps [of deadline scanned fill s]
  show ?case
  proof (cases "position (\<lambda>b. b = LF) (drop scanned fill)")
    case (Some pos)
    note sp = position_LF_split [OF Some]
    have "take (Suc (scanned + pos)) fill = take scanned fill @ take (Suc pos) (drop scanned fill)"
      by (metis add_Suc_right take_add)
    with sp "1.prems"(2) have "is_line (take (Suc (scanned + pos)) fill)"
      by (auto simp: is_line_def)
    with Some "1.prems"(1) show ?thesis by (auto simp: unfold)
  next
    case None
    show ?thesis
    proof (cases "length fill \<ge> FTP_MAX_RESPONSE_LINE_BYTES")
      case True
      with None "1.prems"(1) show ?thesis by (auto simp: unfold)
    next
      case False
      obtain x s1 where x: "read_chunk FTP_LINE_READ_CHUNK_SIZE deadline s = (x, s1)" by (metis surj_pair)
      show ?thesis
      proof (cases x)
        case (Inl e)
        with None False x "1.prems"(1) show ?thesis by (auto simp: unfold dest: read_chunk_err)
      next
        case (Inr bs)
        from None "1.prems"(2) have "LF \<notin> set fill"
          by (metis Un_iff append_take_drop_id position_None_LF set_append)
        with "1.IH" [OF None False x [symmetric] Inr] None False x Inr "1.prems"(1)
          read_chunk_ok(3) [OF x [unfolded Inr]]
        show ?thesis by (auto simp: unfold split: sum.splits)
      qed
    qed
  qed
qed

text \<open>One call under its own deadline, as every command of the client makes it.\<close>

definition line_step :: "timer \<Rightarrow> nat \<Rightarrow> bytes \<Rightarrow> io \<Rightarrow> (error + bytes) \<times> bytes \<times> io" where
  "line_step t secs fill s = read_line_raw (ftps_deadline_ms t secs s) fill s"

fun line_accounts :: "error + bytes \<Rightarrow> bytes \<Rightarrow> bool" where
  "line_accounts (Inl e) u \<longleftrightarrow> u = []"
| "line_accounts (Inr l) u \<longleftrightarrow> u = l \<and> is_line l"

interpretation ftp_reader: resumable_reader "line_step t secs" "\<lambda>fill p. p = fill" line_accounts
  for t secs
proof
  fix fill p s r fill' s'
  assume "p = fill" "line_step t secs fill s = (r, fill', s')"
  with read_line_from_accounts [of "ftps_deadline_ms t secs s" 0 fill s r fill' s']
  show "\<exists>u p'. p @ stream_bytes s = u @ p' @ stream_bytes s' \<and> p' = fill' \<and> line_accounts r u"
    by (cases r) (auto simp: line_step_def read_line_raw_def)
qed

lemma accounted_lines:
  "list_all2 line_accounts rs us \<Longrightarrow> concat us = concat (oks rs) \<and> list_all is_line (oks rs)"
proof (induction rule: list_all2_induct)
  case (Cons r rs u us)
  then show ?case by (cases r) auto
qed simp

section \<open>Delivery\<close>

lemma read_line_from_delivers:
  "smooth s \<Longrightarrow> fill @ stream_bytes s = l @ LF # rest \<Longrightarrow> LF \<notin> set l \<Longrightarrow> length l < 4096 \<Longrightarrow>
     scanned \<le> length fill \<Longrightarrow> LF \<notin> set (take scanned fill) \<Longrightarrow>
     \<exists>fill' s'. read_line_from None scanned fill s = (Inr (l @ [LF]), fill', s')
       \<and> fill' @ stream_bytes s' = rest \<and> smooth s'"
proof (induction "None :: nat option" scanned fill s rule: read_line_from.induct)
  case (1 scanned fill s)
  note unfold = read_line_from.simps [of None scanned fill s]
  show ?case
  proof (cases "position (\<lambda>b. b = LF) (drop scanned fill)")
    case (Some pos)
    let ?line = "take (Suc (scanned + pos)) fill" and ?fill = "drop (Suc (scanned + pos)) fill"
    have r: "read_line_from None scanned fill s = (Inr ?line, ?fill, s)" using Some by (simp add: unfold)
    from read_line_from_accounts [OF r "1.prems"(6,5)] have "is_line ?line" by simp
    then obtain x where x: "?line = x @ [LF]" "LF \<notin> set x" by (auto simp: is_line_def)
    have "fill @ stream_bytes s = (?line @ ?fill) @ stream_bytes s" by (simp only: append_take_drop_id)
    with x(1) "1.prems"(2) have "x @ LF # (?fill @ stream_bytes s) = l @ LF # rest"
      by (simp only: append.assoc append_Cons append_Nil)
    from first_line_unique [OF this x(2) "1.prems"(3)] have "x = l \<and> ?fill @ stream_bytes s = rest" .
    with r x "1.prems"(1) show ?thesis by auto
  next
    case None
    have nl: "LF \<notin> set fill"
      using None "1.prems"(6) by (metis Un_iff append_take_drop_id position_None_LF set_append)
    then have len: "length fill \<le> length l"
    proof (rule contrapos_np)
      assume "\<not> length fill \<le> length l"
      with "1.prems"(2) have "fill ! length l = LF"
        by (metis nth_append nth_append_length not_le)
      with \<open>\<not> length fill \<le> length l\<close> show "LF \<in> set fill" by (metis not_le nth_mem)
    qed
    with "1.prems"(4) have small: "\<not> length fill \<ge> FTP_MAX_RESPONSE_LINE_BYTES" by simp
    obtain x s1 where x: "read_chunk FTP_LINE_READ_CHUNK_SIZE None s = (x, s1)" by (metis surj_pair)
    note sm = read_chunk_smooth [OF "1.prems"(1) x]
    have "stream_bytes s \<noteq> []"
    proof
      assume "stream_bytes s = []"
      with "1.prems"(2) have "LF \<in> set fill" by simp
      with nl show False ..
    qed
    moreover have "stream_bytes s = []" if "x = Inl e" for e
      using sm that read_chunk_err(1) [OF x [unfolded that]] by simp
    ultimately obtain bs where bs: "x = Inr bs" by (cases x) auto
    note ok = read_chunk_ok [OF x [unfolded bs]]
    have "(fill @ bs) @ stream_bytes s1 = l @ LF # rest" using ok(3) "1.prems"(2) by simp
    from "1.hyps" [OF None small x [symmetric] bs _ this "1.prems"(3,4)] sm nl
    obtain fill' s' where "read_line_from None (length fill) (fill @ bs) s1 = (Inr (l @ [LF]), fill', s')"
      "fill' @ stream_bytes s' = rest" "smooth s'"
      by auto
    with None small x bs show ?thesis by (simp add: unfold)
  qed
qed

text \<open>A reply given line by line.\<close>

fun reply_of :: "nat option \<Rightarrow> string \<Rightarrow> bytes list \<Rightarrow> (nat \<times> string) option" where
  "reply_of header acc [] = None"
| "reply_of header acc (line # ls) =
     (case reply_step_of header acc line of
        ReplyDone c text \<Rightarrow> if ls = [] then Some (c, text) else None
      | ReplyMore header' acc' \<Rightarrow> reply_of header' acc' ls)"

lemma read_reply_delivers:
  "smooth s \<Longrightarrow> fill @ stream_bytes s = concat ls @ rest \<Longrightarrow>
     \<forall>l \<in> set ls. is_line l \<and> length l \<le> 4096 \<Longrightarrow> length ls \<le> left \<Longrightarrow>
     reply_of header acc ls = Some ct \<Longrightarrow>
     \<exists>fill' s'. read_reply None left header acc fill s = (Inr ct, fill', s')
       \<and> fill' @ stream_bytes s' = rest"
proof (induction ls arbitrary: left header acc fill s)
  case (Cons line ls)
  from Cons.prems(3) obtain x where x: "line = x @ [LF]" "LF \<notin> set x" "length x < 4096"
    by (auto simp: is_line_def)
  from read_line_from_delivers [OF Cons.prems(1) _ x(2,3), of fill "concat ls @ rest" 0] Cons.prems(2) x(1)
  obtain fill1 s1 where l: "read_line_raw None fill s = (Inr line, fill1, s1)"
    "fill1 @ stream_bytes s1 = concat ls @ rest" "smooth s1"
    by (auto simp: read_line_raw_def)
  from Cons.prems(4) obtain left' where left': "left = Suc left'" by (cases left) auto
  show ?case
  proof (cases "reply_step_of header acc line")
    case (ReplyDone c msg)
    with Cons.prems(5) l left' show ?thesis
      by (auto simp: left' read_reply.simps [of None "Suc left'"] split: if_splits)
  next
    case (ReplyMore header' acc')
    with Cons.prems(5) have "reply_of header' acc' ls = Some ct" by simp
    from Cons.IH [OF l(3,2) _ _ this, of left'] Cons.prems(3,4) left' obtain fill' s' where
      "read_reply None left' header' acc' fill1 s1 = (Inr ct, fill', s')" "fill' @ stream_bytes s' = rest"
      by auto
    with l ReplyMore left' show ?thesis
      by (simp add: left' read_reply.simps [of None "Suc left'"])
  qed
qed simp

section \<open>Listings\<close>

lemma keep_rest_then_end:
  "end_line m (xs @ head) st = end_line m head (keep_rest m xs st)"
  by (auto simp: end_line_def keep_rest_def)

lemma keep_rest_append: "keep_rest m (xs @ ys) st = keep_rest m ys (keep_rest m xs st)"
  by (auto simp: keep_rest_def)

lemma feed_lines_none: "LF \<notin> set xs \<Longrightarrow> feed_lines m xs st = keep_rest m xs st"
  using position_None_LF [of xs] by (simp add: feed_lines.simps [of m xs])

lemma feed_lines_line:
  assumes "LF \<notin> set x"
  shows "feed_lines m (x @ LF # ys) st = feed_lines m ys (end_line m x st)"
proof -
  have "position (\<lambda>b. b = LF) (x @ LF # ys) = Some (length x)"
    using assms by (intro position_append_hit) auto
  then show ?thesis by (simp add: feed_lines.simps [of m "x @ LF # ys"])
qed

text \<open>Feeding two pieces is feeding them joined.\<close>

lemma feed_lines_append: "feed_lines m (xs @ ys) st = feed_lines m ys (feed_lines m xs st)"
proof (induction m xs st rule: feed_lines.induct)
  case (1 m xs st)
  show ?case
  proof (cases "position (\<lambda>b. b = LF) xs")
    case None
    then have nl: "LF \<notin> set xs" by (simp add: position_None_LF)
    show ?thesis
    proof (cases "position (\<lambda>b. b = LF) ys")
      case None
      then have "LF \<notin> set ys" by (simp add: position_None_LF)
      with nl show ?thesis by (simp add: feed_lines_none keep_rest_append)
    next
      case (Some pos)
      note sp = position_LF_split [OF Some]
      have "feed_lines m (xs @ ys) st = feed_lines m ((xs @ take pos ys) @ LF # drop (Suc pos) ys) st"
        by (subst sp(3)) simp
      also have "\<dots> = feed_lines m (drop (Suc pos) ys) (end_line m (xs @ take pos ys) st)"
        using nl sp(2) by (intro feed_lines_line) simp
      finally show ?thesis
        using Some nl by (simp add: feed_lines_none keep_rest_then_end feed_lines.simps [of m ys])
    qed
  next
    case (Some pos)
    note sp = position_LF_split [OF Some]
    have "feed_lines m (xs @ ys) st = feed_lines m (take pos xs @ LF # (drop (Suc pos) xs @ ys)) st"
      by (subst sp(3)) simp
    also have "\<dots> = feed_lines m (drop (Suc pos) xs @ ys) (end_line m (take pos xs) st)"
      by (rule feed_lines_line [OF sp(2)])
    finally show ?thesis using "1.IH" [OF Some] Some by (simp add: feed_lines.simps [of m xs])
  qed
qed

definition no_lines :: line_state where
  "no_lines = \<lparr>ls_line = [], ls_overlong = False, ls_out = []\<rparr>"

text \<open>The reference: cut at every line feed, drop what is too long.\<close>

lemma feed_lines_reference:
  "feed_lines m bs \<lparr>ls_line = [], ls_overlong = False, ls_out = out\<rparr> =
     (let ps = split_on (\<lambda>b. b = LF) bs; tl = last ps in
      \<lparr>ls_line = (if length tl \<le> m then tl else []), ls_overlong = (\<not> length tl \<le> m),
       ls_out = out @ filter (\<lambda>l. length l \<le> m) (butlast ps)\<rparr>)"
proof (induction "length bs" arbitrary: bs out rule: less_induct)
  case less
  show ?case
  proof (cases "position (\<lambda>b. b = LF) bs")
    case None
    then have nl: "LF \<notin> set bs" by (simp add: position_None_LF)
    then have "split_on (\<lambda>b. b = LF) bs = [bs]" by (intro split_on_none) auto
    with nl show ?thesis by (auto simp: feed_lines_none keep_rest_def)
  next
    case (Some pos)
    note sp = position_LF_split [OF Some]
    let ?x = "take pos bs" and ?r = "drop (Suc pos) bs"
    from position_SomeD [OF Some] have "length ?r < length bs" by auto
    note ih = less.hyps [OF this]
    have "split_on (\<lambda>b. b = LF) bs = ?x # split_on (\<lambda>b. b = LF) ?r"
      using sp(2) by (subst sp(3), intro split_on_append) auto
    moreover have "feed_lines m bs \<lparr>ls_line = [], ls_overlong = False, ls_out = out\<rparr> =
        feed_lines m ?r (end_line m ?x \<lparr>ls_line = [], ls_overlong = False, ls_out = out\<rparr>)"
      using Some by (simp add: feed_lines.simps [of m bs])
    ultimately show ?thesis
      using ih [of "if length ?x \<le> m then out @ [?x] else out"]
      by (auto simp: end_line_def Let_def split: if_splits)
  qed
qed

lemma data_read_smooth:
  assumes "smooth s" "data_read DummyTimer b cap s = (r, s')" "0 < cap"
  shows "smooth s' \<and> (\<exists>bs. r = Inr bs \<and> (bs = [] \<longleftrightarrow> stream_bytes s = []))"
  using assms
  by (fastforce simp: data_read_def ftps_deadline_from_ms_def read_transfer_chunk_def socket_read.simps
      smooth_def stream_bytes_def split: list.splits prod.splits peer_read.splits if_splits)

lemma read_lines_from_smooth:
  "smooth s \<Longrightarrow> so_far + length (stream_bytes s) \<le> max_bytes \<Longrightarrow>
     \<exists>s'. read_lines_from DummyTimer b m max_bytes st so_far lb s =
       (Inr \<lparr>total_bytes = so_far + length (stream_bytes s),
          ends_on_newline = ((if stream_bytes s = [] then lb else Some (last (stream_bytes s))) = Some LF),
          line_tail = ls_line (if stream_bytes s = [] then st else feed_lines m (stream_bytes s) st)\<rparr>,
        ls_out (if stream_bytes s = [] then st else feed_lines m (stream_bytes s) st), s')
     \<and> stream_bytes s' = []"
proof (induction "length (stream_bytes s)" arbitrary: s so_far st lb rule: less_induct)
  case less
  note unfold = read_lines_from.simps [of DummyTimer b m max_bytes st so_far lb s]
  obtain r s1 where d: "data_read DummyTimer b FTPS_DATA_READ_BUF_SIZE s = (r, s1)" by (metis surj_pair)
  from data_read_smooth [OF less.prems(1) d] obtain bs where
    bs: "smooth s1" "r = Inr bs" "bs = [] \<longleftrightarrow> stream_bytes s = []"
    by auto
  note ok = data_read_ok [OF d [unfolded bs(2)]]
  show ?case
  proof (cases "bs = []")
    case True
    with d bs ok show ?thesis by (simp add: unfold)
  next
    case False
    with ok have l: "length (stream_bytes s1) < length (stream_bytes s)"
      "so_far + length bs + length (stream_bytes s1) \<le> max_bytes"
      using less.prems(2) by simp_all
    let ?S = "stream_bytes s1"
    have "feed_lines m (bs @ ?S) st = (if ?S = [] then feed_lines m bs st else feed_lines m ?S (feed_lines m bs st))"
      by (cases "?S = []") (simp_all add: feed_lines_append)
    moreover have "last (bs @ ?S) = (if ?S = [] then last bs else last ?S)" "stream_bytes s = bs @ ?S" "bs @ ?S \<noteq> []"
      using False ok by simp_all
    moreover have "read_lines_from DummyTimer b m max_bytes st so_far lb s
        = read_lines_from DummyTimer b m max_bytes (feed_lines m bs st) (so_far + length bs) (Some (last bs)) s1"
      using d bs(2) False l(2) by (simp add: unfold)
    moreover note less.hyps [OF l(1) bs(1) l(2), of "feed_lines m bs st" "Some (last bs)"]
    ultimately show ?thesis by (cases "?S = []") (simp_all add: add.assoc)
  qed
qed

section \<open>Replies of plain lines\<close>

abbreviation crlf :: string where "crlf \<equiv> [CHR 0x0D, CHR 0x0A]"

definition plain :: "string \<Rightarrow> bool" where
  "plain x \<longleftrightarrow> list_all (\<lambda>ch. code ch < 128 \<and> code ch \<noteq> 10) x \<and> length x \<le> 4000"

lemma char_byte_LF: "char_byte ch = LF \<longleftrightarrow> code ch = 10"
  by (simp add: char_byte_def word_eq_iff_unat unat_of_nat_u8)

lemma plain_line: "plain x \<Longrightarrow> plain y \<Longrightarrow> length x + length y \<le> 4090 \<Longrightarrow> is_line (as_bytes (x @ y @ crlf)) \<and> length (as_bytes (x @ y @ crlf)) \<le> 4096"
proof -
  assume p: "plain x" "plain y" "length x + length y \<le> 4090"
  have "as_bytes (x @ y @ crlf) = as_bytes (x @ y @ [CHR 0x0D]) @ [LF]"
    by (simp add: as_bytes_def char_byte_def)
  moreover have "LF \<notin> set (as_bytes (x @ y @ [CHR 0x0D]))"
    using p by (auto simp: as_bytes_def plain_def list_all_iff char_byte_LF)
  ultimately show ?thesis using p(3) by (auto simp: is_line_def)
qed

lemma utf8_plain: "plain x \<Longrightarrow> utf8_or_empty (as_bytes (x @ crlf)) = x @ crlf"
  by (subst utf8_or_empty_def, subst from_utf8_ascii) (auto simp: plain_def list_all_iff)

lemma line_code_plain:
  assumes "plain d" "length d = 3"
  shows "line_code (as_bytes (d @ r)) = parse_u16 d"
proof -
  have "take 3 (as_bytes (d @ r)) = as_bytes d" using assms(2) by (simp add: as_bytes_def)
  moreover have "from_utf8 (as_bytes d) = Some d"
    using assms(1) by (intro from_utf8_ascii) (auto simp: plain_def list_all_iff)
  ultimately show ?thesis by (simp add: line_code_def)
qed

lemma code_line_parts:
  assumes "length d = 3" "plain x"
  shows "length (as_bytes (d @ k # x @ crlf)) \<ge> 4" "as_bytes (d @ k # x @ crlf) ! 3 = char_byte k"
    "line_text (as_bytes (d @ k # x @ crlf)) = trim (x @ crlf)"
proof -
  have "drop 4 (as_bytes (d @ k # x @ crlf)) = as_bytes (x @ crlf)"
    using assms(1) by (simp add: as_bytes_def)
  then show "line_text (as_bytes (d @ k # x @ crlf)) = trim (x @ crlf)"
    using utf8_plain [OF assms(2)] by (simp add: line_text_def)
qed (use assms(1) in \<open>simp_all add: as_bytes_def nth_append\<close>)

lemma reply_of_middles:
  assumes "\<forall>m \<in> set middles. plain m \<and> line_code (as_bytes (m @ crlf)) \<noteq> Some c"
  shows "reply_of (Some c) acc (map (\<lambda>m. as_bytes (m @ crlf)) middles @ ls)
    = (if ls = [] then None
       else reply_of (Some c) (acc @ concat (map (\<lambda>m. CHR 0x0A # trim_end (m @ crlf)) middles)) ls)"
  using assms
proof (induction middles arbitrary: acc)
  case Nil
  then show ?case by simp
next
  case (Cons m middles)
  then show ?case using utf8_plain [of m]
    by (simp add: reply_step_of_def body_step_def del: as_bytes_append)
qed

section \<open>Properties\<close>

text \<open>C13. Whatever times out or fails on the way, the reply lines handed out are the bytes the server
  sent, cut after every line feed, in order; what has been read of an unfinished line is kept.\<close>

theorem ftp_lines_in_order:
  assumes "calls (line_step t secs) n fill s = (rs, fill', s')"
  shows "fill @ stream_bytes s = concat (oks rs) @ fill' @ stream_bytes s'
    \<and> list_all (\<lambda>l. \<exists>x. l = x @ [LF] \<and> LF \<notin> set x) (oks rs)"
proof -
  from ftp_reader.calls_account [OF refl assms] obtain us where
    "fill @ stream_bytes s = concat us @ fill' @ stream_bytes s'" "list_all2 line_accounts rs us"
    by blast
  with accounted_lines [of rs us] show ?thesis by (simp add: is_line_def [abs_def])
qed

theorem ftp_lines_in_order_witness:
  "\<exists>rs fill' s'. calls (line_step PlatformTimer 1) 2 []
      \<lparr>now = 0, sleep_error = None, inbound = [(5, PeerData [50, 50]), (2000, PeerData [48, 10, 49])],
       write_script = [], outbound = []\<rparr> = (rs, fill', s')
    \<and> [50, 50, 48, 10, 49] = concat (oks rs) @ fill' @ stream_bytes s'"
proof -
  let ?s = "\<lparr>now = 0, sleep_error = None, inbound = [(5, PeerData [50, 50]), (2000, PeerData [48, 10, 49])],
       write_script = [], outbound = []\<rparr>"
  obtain rs fill' s' where c: "calls (line_step PlatformTimer 1) 2 [] ?s = (rs, fill', s')"
    by (metis prod_cases3)
  from ftp_lines_in_order [OF c] c show ?thesis
    by (intro exI [of _ rs] exI [of _ fill'] exI [of _ s']) (simp add: stream_bytes_def)
qed

text \<open>A multi-line reply is put together from its lines: the code of its first line, the texts joined
  by line feeds, and the channel left at the first byte after its last line.\<close>

theorem ftp_multiline_reply:
  assumes "smooth s" "stream_bytes s = as_bytes (d @ CHR ''-'' # first @ crlf)
      @ concat (map (\<lambda>m. as_bytes (m @ crlf)) middles) @ as_bytes (d @ CHR '' '' # final @ crlf) @ rest"
    "length d = 3" "parse_u16 d = Some c" "plain d" "plain first" "plain final"
    "\<forall>m \<in> set middles. plain m \<and> line_code (as_bytes (m @ crlf)) \<noteq> Some c" "length middles \<le> 98"
  shows "\<exists>fill' s'. read_response None [] s =
      (Inr (c, trim (first @ crlf) @ concat (map (\<lambda>m. CHR 0x0A # trim_end (m @ crlf)) middles)
        @ (if trim (final @ crlf) = [] then [] else CHR 0x0A # trim (final @ crlf))), fill', s')
    \<and> fill' @ stream_bytes s' = rest"
proof -
  let ?l1 = "as_bytes (d @ CHR ''-'' # first @ crlf)" and ?l2 = "as_bytes (d @ CHR '' '' # final @ crlf)"
  let ?ms = "map (\<lambda>m. as_bytes (m @ crlf)) middles"
  let ?acc = "trim (first @ crlf) @ concat (map (\<lambda>m. CHR 0x0A # trim_end (m @ crlf)) middles)"
  have dd: "plain (d @ [CHR ''-''])" "plain (d @ [CHR '' ''])" "plain []" using assms(3,5) by (auto simp: plain_def)
  have ch: "char_byte (CHR ''-'') = 45" "char_byte (CHR '' '') = 32" by (simp_all add: char_byte_def)
  note p1 = code_line_parts [OF assms(3,6), of "CHR ''-''"] and p2 = code_line_parts [OF assms(3,7), of "CHR '' ''"]
  note c1 = line_code_plain [OF assms(5,3)]
  have lines: "\<forall>l \<in> set (?l1 # ?ms @ [?l2]). is_line l \<and> length l \<le> 4096"
    using plain_line [OF dd(1) assms(6)] plain_line [OF dd(2) assms(7)] plain_line [OF dd(3)] assms(3,6,7,8)
    by (auto simp: plain_def)
  have h: "reply_step_of None [] ?l1 = ReplyMore (Some c) (trim (first @ crlf))"
    using p1 c1 assms(3,4) ch by (simp add: reply_step_of_def header_step_def del: as_bytes_append)
  have e: "reply_step_of (Some c) ?acc ?l2 = ReplyDone c (?acc
      @ (if trim (final @ crlf) = [] then [] else CHR 0x0A # trim (final @ crlf)))"
    using p2 c1 assms(3,4) ch by (simp add: reply_step_of_def body_step_def del: as_bytes_append)
  have "reply_of None [] (?l1 # ?ms @ [?l2]) = Some (c, ?acc
      @ (if trim (final @ crlf) = [] then [] else CHR 0x0A # trim (final @ crlf)))"
    using h e reply_of_middles [OF assms(8), of "trim (first @ crlf)" "[?l2]"] by simp
  from read_reply_delivers [OF assms(1) _ lines _ this, of "[]" rest 100] assms(2,9)
  show ?thesis by (simp add: read_response_def)
qed

theorem ftp_multiline_reply_witness:
  "\<exists>text fill' s'. read_response None [] \<lparr>now = 0, sleep_error = None,
      inbound = [(1, PeerData (as_bytes (''211-Features'' @ crlf @ '' SIZE'' @ crlf))),
                 (1, PeerData (as_bytes (''211 End'' @ crlf)))], write_script = [], outbound = []\<rparr>
    = (Inr (211, text), fill', s') \<and> fill' @ stream_bytes s' = []"
proof -
  have p: "plain ''211''" "plain ''Features''" "plain ''End''" "plain '' SIZE''"
    by (simp_all add: plain_def)
  have n: "parse_u16 ''211'' = Some 211"
    by (simp add: parse_unsigned_def is_ascii_digit_def digits_value_def digit_value_def)
  have m: "line_code (as_bytes ('' SIZE'' @ crlf)) \<noteq> Some 211"
    by (simp add: line_code_def as_bytes_def char_byte_def from_utf8_def of_bytes_def byte_char_def
        parse_unsigned_def is_ascii_digit_def char_of_def bit_0)
  let ?s = "\<lparr>now = 0, sleep_error = None,
      inbound = [(1, PeerData (as_bytes (''211-Features'' @ crlf @ '' SIZE'' @ crlf))),
                 (1, PeerData (as_bytes (''211 End'' @ crlf)))], write_script = [], outbound = []\<rparr> :: io"
  have s: "smooth ?s" "stream_bytes ?s = as_bytes (''211'' @ CHR ''-'' # ''Features'' @ crlf)
      @ concat (map (\<lambda>m. as_bytes (m @ crlf)) ['' SIZE'']) @ as_bytes (''211'' @ CHR '' '' # ''End'' @ crlf) @ []"
    by (simp_all add: smooth_def stream_bytes_def as_bytes_def)
  from ftp_multiline_reply [OF s _ n p(1-3)] m p(4) show ?thesis by auto
qed

text \<open>C18. A listing is cut into the same lines however the connection delivers it: the callback gets
  every line, in order, except those over the limit, and the result tells the size, whether the
  last line was finished, and what of it there is.\<close>

theorem ftp_listing_lines:
  assumes "smooth s" "stream_bytes s \<noteq> []" "length (stream_bytes s) \<le> max_bytes"
  shows "\<exists>s'. read_lines_to_eof DummyTimer b m max_bytes s =
    (let ps = split_on (\<lambda>b. b = LF) (stream_bytes s) in
      (Inr \<lparr>total_bytes = length (stream_bytes s), ends_on_newline = (last (stream_bytes s) = LF),
         line_tail = (if length (last ps) \<le> m then last ps else [])\<rparr>,
       filter (\<lambda>l. length l \<le> m) (butlast ps), s'))"
  using read_lines_from_smooth [OF assms(1), of 0 max_bytes b m no_lines None] assms(2,3)
    feed_lines_reference [of m "stream_bytes s" "[]"]
  by (auto simp: read_lines_to_eof_def no_lines_def Let_def)

theorem ftp_listing_lines_witness:
  "\<exists>s'. read_lines_to_eof DummyTimer 0 3 100 \<lparr>now = 0, sleep_error = None,
      inbound = [(0, PeerData [65, 66]), (1, PeerData [67, 10, 68, 69, 70, 71, 10, 72])],
      write_script = [], outbound = []\<rparr>
    = (Inr \<lparr>total_bytes = 10, ends_on_newline = False, line_tail = [72]\<rparr>, [[65, 66, 67]], s')"
  using ftp_listing_lines [of "\<lparr>now = 0, sleep_error = None,
      inbound = [(0, PeerData [65, 66]), (1, PeerData [67, 10, 68, 69, 70, 71, 10, 72])],
      write_script = [], outbound = []\<rparr>" 100 0 3]
  by (simp add: smooth_def stream_bytes_def flip: One_nat_def)

lemma split_comma:
  "CHR '','' \<notin> set xs \<Longrightarrow> split_on (\<lambda>c. c = CHR '','') (xs @ CHR '','' # ys) = xs # split_on (\<lambda>c. c = CHR '','') ys"
  "CHR '','' \<notin> set xs \<Longrightarrow> split_on (\<lambda>c. c = CHR '','') xs = [xs]"
  by (rule split_on_append; auto) (rule split_on_none; auto)

text \<open>The passive-mode reply of a server that names its port by two bytes gives that port, whatever
  text surrounds the parentheses and whatever address precedes the port in them.\<close>

theorem pasv_port_parsed:
  assumes "CHR ''('' \<notin> set before" "\<forall>h \<in> {h1, h2, h3, h4}. CHR '','' \<notin> set h \<and> CHR '')'' \<notin> set h"
    "p1 < 256" "p2 < 256"
  shows "parse_pasv_port (before @ CHR ''('' # h1 @ CHR '','' # h2 @ CHR '','' # h3 @ CHR '','' # h4
      @ CHR '','' # dec p1 @ CHR '','' # dec p2 @ CHR '')'' # after) = Inr (p1 * 256 + p2)"
proof -
  let ?inner = "h1 @ CHR '','' # h2 @ CHR '','' # h3 @ CHR '','' # h4 @ CHR '','' # dec p1 @ CHR '','' # dec p2"
  let ?text = "before @ CHR ''('' # ?inner @ CHR '')'' # after"
  have digits: "CHR '','' \<notin> set (dec n) \<and> CHR '')'' \<notin> set (dec n)" for n
    using dec_digits [of n] by (auto simp: list_all_iff is_ascii_digit_def)
  have 1: "position (\<lambda>c. c = CHR ''('') ?text = Some (length before)"
    using assms(1) by (intro position_append_hit) auto
  have 2: "position (\<lambda>c. c = CHR '')'') (?inner @ CHR '')'' # after) = Some (length ?inner)"
    using assms(2) digits by (intro position_append_hit) auto
  have 3: "split_on (\<lambda>c. c = CHR '','') ?inner = [h1, h2, h3, h4, dec p1, dec p2]"
    using assms(2) digits by (simp add: split_comma(1)) (simp add: split_comma(2))
  have 4: "drop (length before + 1) ?text = ?inner @ CHR '')'' # after" by simp
  have 5: "take (length u) (u @ v) = u" for u v :: string by simp
  have 6: "drop 4 (map trim [h1, h2, h3, h4, dec p1, dec p2]) = [dec p1, dec p2]" by simp
  have "parse_pasv_port ?text = Inr (p1 * 256 + p2)"
    using assms(3,4) unfolding parse_pasv_port_def 1 option.case 4 2 5 Let_def 3 6 list.case list.sel
    by (simp add: parse_dec)
  then show ?thesis by (simp only: append_assoc append_Cons)
qed

theorem pasv_port_parsed_witness:
  "parse_pasv_port (''227 Entering ('' @ ''192,168,1,20,'' @ dec 195 @ '','' @ dec 80 @ '').'') = Inr 50000"
  using pasv_port_parsed [of "''227 Entering ''" "''192''" "''168''" "''1''" "''20''" 195 80 "''.''"] by simp

text \<open>A path that passes validation goes out as part of one command line and cannot start another: the
  command written is a single line. It has no segment \<open>..\<close>, and its last segment is no option.\<close>

theorem ftp_path_stays_one_command:
  assumes "validate_ftp_path path = Inr ()" "list_all (\<lambda>c. 32 \<le> code c) cmd" "write_script s = []"
  shows "outbound (snd (write_command (cmd @ path) None s)) = outbound s @ as_bytes (cmd @ path) @ [13, LF]
    \<and> LF \<notin> set (as_bytes (cmd @ path)) \<and> 13 \<notin> set (as_bytes (cmd @ path))
    \<and> ''..'' \<notin> set (path_segments path)
    \<and> (case filter (\<lambda>seg. seg \<noteq> []) (rev (path_segments path)) of [] \<Rightarrow> True | seg # _ \<Rightarrow> hd seg \<noteq> CHR ''-'')"
proof -
  have v: "\<forall>c \<in> set path. 32 \<le> code c" "''..'' \<notin> set (path_segments path)"
    "case List.find (\<lambda>seg. seg \<noteq> []) (rev (path_segments path)) of None \<Rightarrow> True | Some seg \<Rightarrow> take 1 seg \<noteq> ''-''"
    using assms(1) by (auto simp: validate_ftp_path_def validate_ftp_path_bytes_def list_ex_iff not_less
        split: if_splits sum.splits option.splits)
  have b: "char_byte c \<noteq> LF \<and> char_byte c \<noteq> 13" if "32 \<le> code c" for c
    using that by (auto simp: char_byte_def word_eq_iff_unat unat_of_nat_u8)
  have f: "List.find P xs = (case filter P xs of [] \<Rightarrow> None | y # _ \<Rightarrow> Some y)" for P and xs :: "string list"
    by (induction xs) auto
  have "case filter (\<lambda>seg. seg \<noteq> []) (rev (path_segments path)) of [] \<Rightarrow> True | seg # _ \<Rightarrow> hd seg \<noteq> CHR ''-''"
  proof (cases "filter (\<lambda>seg. seg \<noteq> []) (rev (path_segments path))")
    case (Cons seg ys)
    have "seg \<in> set (filter (\<lambda>seg. seg \<noteq> []) (rev (path_segments path)))"
      unfolding Cons by simp
    then have "seg \<noteq> []" by simp
    with v(3) show ?thesis by (cases seg) (simp_all add: f Cons)
  qed simp
  moreover have "outbound (snd (write_command (cmd @ path) None s)) = outbound s @ as_bytes (cmd @ path) @ [13, LF]"
    using assms(3) by (simp add: write_command_def write_bounded_def next_write_def beaten_def less_time_def sent_def)
  ultimately show ?thesis
    using v b assms(2) by (auto simp: as_bytes_def list_all_iff)
qed

theorem ftp_path_stays_one_command_witness:
  "outbound (snd (write_command (''RETR '' @ ''/a/b.gcode'') None
      \<lparr>now = 0, sleep_error = None, inbound = [], write_script = [], outbound = []\<rparr>))
    = as_bytes (''RETR '' @ ''/a/b.gcode'') @ [13, LF]"
  using ftp_path_stays_one_command [of "''/a/b.gcode''" "''RETR ''"
      "\<lparr>now = 0, sleep_error = None, inbound = [], write_script = [], outbound = []\<rparr>"]
  by (simp add: validate_ftp_path_def validate_ftp_path_bytes_def path_segments_def)

end
