(* ===== verification/Gcode.thy ===== *)
theory Gcode
  imports Complex_Main Io RustStr
begin

text \<open>
  The G-code safety scan (\<open>src/quirks/gcode.rs\<close>): comments are cut away, a statement is read as
  address words, and a pass over the words refuses partial homing on printers whose bed moves on Z
  and heater arguments over the model's limits. Rust parses the arguments as \<open>f32\<close>; the rounding is
  written out here over the rationals.
\<close>

section \<open>Parsing a plain decimal as \<open>f32\<close>\<close>

definition round_half_even :: "rat \<Rightarrow> int" where
  "round_half_even q =
     (let f = floor q; r = q - of_int f
      in if r < 1 / 2 then f else if 1 / 2 < r then f + 1 else if even f then f else f + 1)"

text \<open>The exponent of the last place of a non-negative number below \<open>2^128\<close>.\<close>

definition f32_place :: "rat \<Rightarrow> int option" where
  "f32_place q = List.find (\<lambda>k. q < 2 powi (k + 24)) [-149..104]"

text \<open>The nearest \<open>f32\<close>, ties to even; \<open>None\<close> when that is an infinity.\<close>

definition f32_magnitude :: "rat \<Rightarrow> rat option" where
  "f32_magnitude q =
     (case f32_place q of
        None \<Rightarrow> None
      | Some k \<Rightarrow>
          let v = of_int (round_half_even (q / 2 powi k)) * 2 powi k
          in if v < 2 ^ 128 then Some v else None)"

definition f32_of_rat :: "rat \<Rightarrow> rat option" where
  "f32_of_rat q = (if q < 0 then map_option uminus (f32_magnitude (- q)) else f32_magnitude q)"

text \<open>An optional sign, digits, an optional point and digits, at least one digit in all.\<close>

definition decimal_magnitude :: "string \<Rightarrow> rat option" where
  "decimal_magnitude s =
     (let ip = takeWhile is_ascii_digit s; rest = dropWhile is_ascii_digit s; fp = tl rest
      in if rest = [] then (if ip = [] then None else Some (of_nat (digits_value ip)))
         else if hd rest = CHR ''.'' \<and> list_all is_ascii_digit fp \<and> ip @ fp \<noteq> []
         then Some (of_nat (digits_value (ip @ fp)) / 10 ^ length fp)
         else None)"

definition parse_decimal :: "string \<Rightarrow> rat option" where
  "parse_decimal s =
     (if s \<noteq> [] \<and> hd s = CHR ''-'' then map_option uminus (decimal_magnitude (tl s))
      else if s \<noteq> [] \<and> hd s = CHR ''+'' then decimal_magnitude (tl s)
      else decimal_magnitude s)"

text \<open>\<open>str::parse::<f32>\<close> on text made of digits, signs and points, with infinities filtered out.\<close>

definition parse_finite_f32 :: "string \<Rightarrow> rat option" where
  "parse_finite_f32 s = Option.bind (parse_decimal s) f32_of_rat"

section \<open>Comments\<close>

function executable :: "string \<Rightarrow> string" where
  "executable line =
     (case position (\<lambda>c. c = CHR '';'' \<or> c = CHR ''('') line of
        None \<Rightarrow> line
      | Some p \<Rightarrow>
          if line ! p = CHR '';'' then take p line
          else case position (\<lambda>c. c = CHR '')'') (drop p line) of
            None \<Rightarrow> take p line
          | Some n \<Rightarrow> take p line @ CHR '' '' # executable (drop (p + n + 1) line))"
  by pat_completeness auto
termination
proof (relation "measure length", simp)
  fix line p n
  assume "position (\<lambda>c. c = CHR '';'' \<or> c = CHR ''('') line = Some p"
  then have "p < length line" by (auto dest: position_SomeD)
  then show "(drop (p + n + 1) line, line) \<in> measure length" by simp
qed

declare executable.simps [simp del]

section \<open>Address words\<close>

record gword =
  letter :: char
  arg :: string
  ambiguous :: bool

definition is_numeric_char :: "char \<Rightarrow> bool" where
  "is_numeric_char c \<longleftrightarrow> is_ascii_digit c \<or> c = CHR ''+'' \<or> c = CHR ''-'' \<or> c = CHR ''.''"

definition is_blank :: "char \<Rightarrow> bool" where
  "is_blank c \<longleftrightarrow> c = CHR '' '' \<or> code c = 9"

function words :: "string \<Rightarrow> gword list" where
  "words s =
     (case dropWhile (\<lambda>c. \<not> is_ascii_alphabetic c) s of
        [] \<Rightarrow> []
      | c # r \<Rightarrow>
          let r' = dropWhile is_blank r;
              num = takeWhile is_numeric_char r';
              rest = dropWhile is_numeric_char r'
          in \<lparr>letter = to_ascii_upper c, arg = num,
              ambiguous = (num \<noteq> [] \<and> rest \<noteq> [] \<and> hd rest \<in> {CHR ''e'', CHR ''E'', CHR ''x'', CHR ''X''})\<rparr>
             # words rest)"
  by pat_completeness auto
termination
proof (relation "measure length", simp)
  fix s c r r' num rest
  assume a: "dropWhile (\<lambda>c. \<not> is_ascii_alphabetic c) s = c # r" "r' = dropWhile is_blank r"
    "num = takeWhile is_numeric_char r'" "rest = dropWhile is_numeric_char r'"
  have "length rest \<le> length r" using a(2,4) by (metis length_dropWhile_le order_trans)
  also have "length r < length s"
    using length_dropWhile_le [of "\<lambda>c. \<not> is_ascii_alphabetic c" s] a(1) by simp
  finally show "(rest, s) \<in> measure length" by simp
qed

declare words.simps [simp del]

definition command_number :: "string \<Rightarrow> nat option" where
  "command_number value = parse_u32 (takeWhile (\<lambda>c. c \<noteq> CHR ''.'') value)"

section \<open>The scan\<close>

record temp_limits =
  nozzle_max :: u16
  bed_max :: u16
  chamber_max :: "u16 option"

definition check_temp :: "nat \<Rightarrow> gword \<Rightarrow> u16 \<Rightarrow> string \<Rightarrow> error + unit" where
  "check_temp command w limit label =
     (case (if ambiguous w then None else parse_finite_f32 (arg w)) of
        None \<Rightarrow> Inl (InvalidArgument (''M'' @ dec command @ '' '' @ [letter w] @ arg w @ '': '' @ label
          @ '' temperature is not a plain decimal number''))
      | Some v \<Rightarrow>
          if of_nat (unat limit) < v
          then Inl (ModelMismatch (''M'' @ dec command @ '' '' @ [letter w] @ arg w
            @ '': exceeds this model'' @ [CHR 0x27] @ ''s '' @ label @ '' maximum of '' @ dec (unat limit)
            @ [CHR 0xC2, CHR 0xB0] @ ''C''))
          else Inr ())"

text \<open>The limit and the name of the heater an argument of command \<open>M n\<close> sets, when it sets one.\<close>

definition heater_argument :: "temp_limits \<Rightarrow> nat \<Rightarrow> char \<Rightarrow> (u16 \<times> string) option" where
  "heater_argument t n c =
     (if n \<in> {104, 109} \<and> c \<in> {CHR ''S'', CHR ''R'', CHR ''B''} then Some (nozzle_max t, ''nozzle'')
      else if n \<in> {140, 190} \<and> c \<in> {CHR ''S'', CHR ''R''} then Some (bed_max t, ''bed'')
      else if n \<in> {141, 191} \<and> c \<in> {CHR ''S'', CHR ''R''}
      then map_option (\<lambda>m. (m, ''chamber'')) (chamber_max t)
      else None)"

definition word_command :: "gword \<Rightarrow> (char \<times> nat) option" where
  "word_command w = map_option (\<lambda>n. (letter w, n)) (command_number (arg w))"

definition no_chamber_heater :: "temp_limits option \<Rightarrow> bool" where
  "no_chamber_heater temps = (case temps of None \<Rightarrow> False | Some t \<Rightarrow> chamber_max t = None)"

text \<open>One pass over the words: the command in force, whether none was seen yet, whether a G28 was.\<close>

fun scan_words :: "bool \<Rightarrow> temp_limits option \<Rightarrow> (char \<times> nat) option \<Rightarrow> bool \<Rightarrow> bool \<Rightarrow> gword list
    \<Rightarrow> error + unit" where
  "scan_words reject temps command first saw [] = Inr ()"
| "scan_words reject temps command first saw (w # ws) =
     (if letter w \<in> {CHR ''G'', CHR ''M''} then
        (if arg w = [] then scan_words reject temps command False saw ws
         else
           let command' = word_command w
           in if first \<and> command' = Some (CHR ''M'', 117) then Inr ()
              else case command' of
                Some (c, n) \<Rightarrow>
                  if c = CHR ''G'' \<and> n = 28 then scan_words reject temps command' False True ws
                  else if c = CHR ''M'' \<and> n \<in> {141, 191} \<and> no_chamber_heater temps
                  then Inl (ModelMismatch (''M'' @ dec n
                    @ '': active chamber heater not available on this model''))
                  else scan_words reject temps command' False saw ws
              | None \<Rightarrow> scan_words reject temps command' False saw ws)
      else if reject \<and> saw \<and> letter w \<in> {CHR ''X'', CHR ''Y'', CHR ''Z''}
      then Inl (ModelMismatch ''partial-axis homing unsafe on bed-on-Z model'')
      else case temps of
        None \<Rightarrow> scan_words reject temps command first saw ws
      | Some t \<Rightarrow>
          (case command of
             Some (c, n) \<Rightarrow>
               (case (if c = CHR ''M'' then heater_argument t n (letter w) else None) of
                  None \<Rightarrow> scan_words reject temps command first saw ws
                | Some (limit, label) \<Rightarrow>
                    case check_temp n w limit label of
                      Inl e \<Rightarrow> Inl e
                    | Inr _ \<Rightarrow> scan_words reject temps command first saw ws)
           | None \<Rightarrow> scan_words reject temps command first saw ws))"

definition scan_statement :: "string \<Rightarrow> bool \<Rightarrow> temp_limits option \<Rightarrow> error + unit" where
  "scan_statement line reject temps = scan_words reject temps None True False (words line)"

fun validate_lines :: "string list \<Rightarrow> bool \<Rightarrow> temp_limits option \<Rightarrow> error + unit" where
  "validate_lines [] reject temps = Inr ()"
| "validate_lines (line # ls) reject temps =
     (case scan_statement (executable line) reject temps of
        Inl e \<Rightarrow> Inl e
      | Inr _ \<Rightarrow> validate_lines ls reject temps)"

definition gcode_lines :: "string \<Rightarrow> string list" where
  "gcode_lines gcode = split_on (\<lambda>c. code c = 10 \<or> code c = 13) gcode"

definition validate :: "string \<Rightarrow> bool \<Rightarrow> temp_limits option \<Rightarrow> error + unit" where
  "validate gcode reject temps = validate_lines (gcode_lines gcode) reject temps"

end
