(* ===== verification/GcodeProps.thy ===== *)
theory GcodeProps
  imports Gcode
begin

text \<open>
  What the G-code scan accepts: a declarative reading of a statement (the command in force at a word,
  whether a homing command came before it), the equivalence of the one-pass scan with it, and the
  bound on every heater argument in degrees, the rounding of \<open>f32\<close> included.
\<close>

section \<open>Rounding\<close>

lemma round_half_even_near: "\<bar>of_int (round_half_even q) - q\<bar> \<le> 1 / 2"
proof -
  have "of_int (floor q) \<le> q" "q < of_int (floor q) + 1" by linarith+
  then show ?thesis by (auto simp: round_half_even_def Let_def)
qed

lemma round_half_even_le:
  assumes "q \<le> of_int n"
  shows "round_half_even q \<le> n"
proof (rule ccontr)
  assume "\<not> round_half_even q \<le> n"
  then have "of_int (n + 1) \<le> (of_int (round_half_even q) :: rat)"
    by (simp only: of_int_le_iff)
  with assms round_half_even_near [of q] show False by (simp add: abs_le_iff)
qed

lemma round_half_even_ge:
  assumes "of_int n \<le> q"
  shows "n \<le> round_half_even q"
proof (rule ccontr)
  assume "\<not> n \<le> round_half_even q"
  then have "of_int (round_half_even q + 1) \<le> (of_int n :: rat)"
    by (simp only: of_int_le_iff)
  with assms round_half_even_near [of q] show False by (simp add: abs_le_iff)
qed

lemma f32_placeD:
  assumes "f32_place q = Some k"
  shows "-149 \<le> k" "k \<le> 104" "q < 2 powi (k + 24)" "k = -149 \<or> 2 powi (k + 23) \<le> q"
proof -
  obtain i where i: "i < length [-149..104]" "q < 2 powi ([-149..104] ! i + 24)" "k = [-149..104] ! i"
    "\<forall>j < i. \<not> q < 2 powi ([-149..104] ! j + 24)"
    using assms unfolding f32_place_def find_Some_iff by blast
  have len: "length [-149..104] = nat 254" by (simp only: length_upto)
  have nth: "[-149..104] ! j = -149 + int j" if "j \<le> i" for j
    using that i(1) unfolding len by (intro nth_upto) simp
  from i(1,3) nth have k: "k = -149 + int i" "i < 254" unfolding len by simp_all
  then show "-149 \<le> k" "k \<le> 104" by simp_all
  show "q < 2 powi (k + 24)" using i(2,3) by simp
  show "k = -149 \<or> 2 powi (k + 23) \<le> q"
  proof (cases i)
    case (Suc j)
    then have "\<not> q < 2 powi ([-149..104] ! j + 24)" using i(4) by blast
    moreover have "[-149..104] ! j = k - 1" using nth [of j] k Suc by simp
    ultimately show ?thesis by (simp add: not_less add.commute)
  qed (use k in simp)
qed

lemma f32_place_exists:
  assumes "q < 2 ^ 128"
  obtains k where "f32_place q = Some k"
proof -
  have "(104 :: int) \<in> set [-149..104]" by simp
  moreover have "q < 2 powi (104 + 24)" using assms by (simp add: power_int_def)
  ultimately have "f32_place q \<noteq> None" unfolding f32_place_def find_None_iff by blast
  with that show ?thesis by blast
qed

text \<open>Every whole number below \<open>2^16\<close> lies on the grid of the numbers no larger than it.\<close>

lemma on_grid:
  assumes "k \<le> 0"
  shows "\<exists>m. of_nat N / (2 powi k :: rat) = of_int m"
proof
  show "of_nat N / (2 powi k :: rat) = of_int (int N * 2 ^ nat (- k))"
    using assms by (simp add: power_int_def power_one_over)
qed

text \<open>What a finite result is, with the exponent of its last place.\<close>

lemma f32_magnitudeD:
  assumes "f32_magnitude q = Some v"
  obtains k where "f32_place q = Some k" "v = of_int (round_half_even (q / 2 powi k)) * 2 powi k"
  using assms that by (auto simp: f32_magnitude_def Let_def split: option.splits if_splits)

lemma f32_magnitude_nonneg:
  assumes "f32_magnitude q = Some v" "0 \<le> q"
  shows "0 \<le> v"
proof -
  obtain k where v: "v = of_int (round_half_even (q / 2 powi k)) * 2 powi k"
    using assms(1) by (rule f32_magnitudeD)
  have "0 \<le> round_half_even (q / 2 powi k)" using assms(2) by (intro round_half_even_ge) simp
  then show ?thesis unfolding v by simp
qed

lemma powi_mono: "(a :: int) \<le> b \<Longrightarrow> (2 :: rat) powi a \<le> 2 powi b"
  by (rule power_int_increasing) simp_all

lemma rounded_whole_le:
  assumes "f32_place q = Some k" "q \<le> of_nat N" "N < 65536"
  shows "of_int (round_half_even (q / 2 powi k)) * 2 powi k \<le> (of_nat N :: rat)"
proof -
  have "k \<le> 0"
  proof (rule ccontr)
    assume "\<not> k \<le> 0"
    then have "(2 :: rat) powi 24 \<le> 2 powi (k + 23)" by (intro powi_mono) simp
    moreover have "2 powi (k + 23) \<le> q" using f32_placeD(4) [OF assms(1)] \<open>\<not> k \<le> _\<close> by auto
    ultimately show False
      using assms(2,3) of_nat_less_iff [where 'a = rat, of N 65536] by (simp add: power_int_def)
  qed
  then obtain g where g: "of_nat N / (2 powi k :: rat) = of_int g" using on_grid by blast
  have "q / 2 powi k \<le> of_int g" unfolding g [symmetric] using assms(2) by (simp add: divide_right_mono)
  then have "of_int (round_half_even (q / 2 powi k)) \<le> (of_int g :: rat)"
    by (simp add: round_half_even_le)
  then have "of_int (round_half_even (q / 2 powi k)) * 2 powi k \<le> (of_int g * 2 powi k :: rat)"
    by (intro mult_right_mono) simp_all
  also have "\<dots> = of_nat N" unfolding g [symmetric] by simp
  finally show ?thesis .
qed

lemma f32_whole_le:
  assumes "f32_of_rat q = Some v" "q \<le> of_nat N" "N < 65536"
  shows "v \<le> of_nat N"
proof (cases "q < 0")
  case True
  with assms(1) obtain u where "f32_magnitude (- q) = Some u" "v = - u"
    by (auto simp: f32_of_rat_def)
  with True f32_magnitude_nonneg [of "- q" u] show ?thesis by simp
next
  case False
  with assms(1) have m: "f32_magnitude q = Some v" by (simp add: f32_of_rat_def)
  obtain k where k: "f32_place q = Some k" "v = of_int (round_half_even (q / 2 powi k)) * 2 powi k"
    using m by (rule f32_magnitudeD)
  show ?thesis unfolding k(2) by (rule rounded_whole_le [OF k(1) assms(2,3)])
qed

lemma f32_whole_ge:
  assumes "f32_of_rat q = Some v" "of_nat N \<le> q" "N \<le> 65536"
  shows "of_nat N \<le> v"
proof -
  have "\<not> q < 0" using assms(2) of_nat_0_le_iff [where 'a = rat, of N] by linarith
  with assms(1) have m: "f32_magnitude q = Some v" by (simp add: f32_of_rat_def)
  obtain k where k: "f32_place q = Some k" and v: "v = of_int (round_half_even (q / 2 powi k)) * 2 powi k"
    using m by (rule f32_magnitudeD)
  have ge: "of_int g * 2 powi k \<le> v" if "of_int g \<le> q / 2 powi k" for g
    unfolding v using round_half_even_ge [OF that] by (intro mult_right_mono) simp_all
  show ?thesis
  proof (cases "k \<le> 0")
    case True
    then obtain g where g: "of_nat N / (2 powi k :: rat) = of_int g" using on_grid by blast
    have "of_int g \<le> q / 2 powi k" unfolding g [symmetric] using assms(2) by (simp add: divide_right_mono)
    from ge [OF this] show ?thesis unfolding g [symmetric] by simp
  next
    case False
    then have q: "2 powi (k + 23) \<le> q" using f32_placeD(4) [OF k] by simp
    have e: "2 powi (k + 23) = (2 ^ 23 :: rat) * 2 powi k"
      using False by (simp add: power_int_add)
    have "of_int (2 ^ 23) \<le> q / 2 powi k" using q unfolding e by (simp add: le_divide_eq)
    from ge [OF this] have "(2 ^ 23 :: rat) * 2 powi k \<le> v" by simp
    moreover have "(2 :: rat) powi 24 \<le> 2 powi (k + 23)" using False by (intro powi_mono) simp
    moreover have "(2 :: rat) powi 24 = 16777216" by (simp add: power_int_def)
    moreover have "of_nat N \<le> (65536 :: rat)" using assms(3) of_nat_le_iff [where 'a = rat, of N 65536] by simp
    ultimately show ?thesis unfolding e by linarith
  qed
qed

lemma f32_whole_exact:
  assumes "N < 65536"
  shows "f32_of_rat (of_nat N) = Some (of_nat N)"
proof -
  have small: "of_nat N < (65536 :: rat)" using assms of_nat_less_iff [where 'a = rat, of N 65536] by simp
  then have "of_nat N < (2 ^ 128 :: rat)" by simp
  then obtain k where k: "f32_place (of_nat N) = Some k" by (rule f32_place_exists)
  have "of_int (round_half_even (of_nat N / 2 powi k)) * 2 powi k \<le> (of_nat N :: rat)"
    by (rule rounded_whole_le [OF k order_refl assms])
  then have "of_int (round_half_even (of_nat N / 2 powi k)) * 2 powi k < (2 ^ 128 :: rat)"
    using small by simp
  then obtain v where v: "f32_of_rat (of_nat N) = Some v"
    using k by (simp add: f32_of_rat_def f32_magnitude_def Let_def)
  have "v \<le> of_nat N" "of_nat N \<le> v"
    using f32_whole_le [OF v order_refl] f32_whole_ge [OF v order_refl] assms by simp_all
  with v show ?thesis by simp
qed

text \<open>A number whose \<open>f32\<close> is within a whole limit exceeds it by \<open>1/512\<close> at most.\<close>

lemma f32_bound:
  assumes "f32_of_rat q = Some v" "v \<le> of_nat N" "N < 65536"
  shows "q \<le> of_nat N + 1 / 512"
proof (cases "q < 65536 \<and> 0 \<le> q")
  case True
  with assms(1) have m: "f32_magnitude q = Some v" by (simp add: f32_of_rat_def)
  obtain k where k: "f32_place q = Some k" and v: "v = of_int (round_half_even (q / 2 powi k)) * 2 powi k"
    using m by (rule f32_magnitudeD)
  have "k \<le> -8"
  proof (rule ccontr)
    assume "\<not> k \<le> -8"
    then have "(2 :: rat) powi 16 \<le> 2 powi (k + 23)" by (intro powi_mono) simp
    moreover have "2 powi (k + 23) \<le> q" using f32_placeD(4) [OF k] \<open>\<not> k \<le> _\<close> by auto
    ultimately show False using True by (simp add: power_int_def)
  qed
  then have s: "(2 :: rat) powi k \<le> 2 powi (-8)" by (rule powi_mono)
  have "q / 2 powi k \<le> of_int (round_half_even (q / 2 powi k)) + 1 / 2"
    using round_half_even_near [of "q / 2 powi k"] by (simp only: abs_le_iff) linarith
  then have "q / 2 powi k * 2 powi k \<le> (of_int (round_half_even (q / 2 powi k)) + 1 / 2) * 2 powi k"
    by (rule mult_right_mono) simp
  then have "q \<le> v + 2 powi k / 2" unfolding v by (simp add: distrib_right)
  moreover have "(2 :: rat) powi (-8) = 1 / 256" by (simp add: power_int_def power_one_over)
  ultimately show ?thesis using s assms(2) by simp
next
  case False
  have "\<not> 65536 \<le> q"
  proof
    assume "65536 \<le> q"
    then have "65536 \<le> v" using f32_whole_ge [OF assms(1), of 65536] by simp
    moreover have "of_nat N < (65536 :: rat)"
      using assms(3) of_nat_less_iff [where 'a = rat, of N 65536] by simp
    ultimately show False using assms(2) by simp
  qed
  with False have "q < 0" by simp
  then show ?thesis using of_nat_0_le_iff [where 'a = rat, of N] by linarith
qed

section \<open>A statement read declaratively\<close>

definition is_command :: "gword \<Rightarrow> bool" where
  "is_command w \<longleftrightarrow> letter w \<in> {CHR ''G'', CHR ''M''} \<and> arg w \<noteq> []"

text \<open>The command whose arguments follow the words \<open>pre\<close>: their last \<open>G\<close> or \<open>M\<close> word with a number.\<close>

definition command_in_force :: "gword list \<Rightarrow> (char \<times> nat) option" where
  "command_in_force pre =
     (case filter is_command pre of [] \<Rightarrow> None | _ \<Rightarrow> word_command (last (filter is_command pre)))"

definition homing_seen :: "gword list \<Rightarrow> bool" where
  "homing_seen pre = list_ex (\<lambda>w. is_command w \<and> word_command w = Some (CHR ''G'', 28)) pre"

text \<open>A statement whose first \<open>G\<close> or \<open>M\<close> word is \<open>M117\<close> only shows text.\<close>

definition display_message :: "gword list \<Rightarrow> bool" where
  "display_message ws =
     (case filter (\<lambda>w. letter w \<in> {CHR ''G'', CHR ''M''}) ws of
        [] \<Rightarrow> False | w # _ \<Rightarrow> arg w \<noteq> [] \<and> word_command w = Some (CHR ''M'', 117))"

definition within_limit :: "gword \<Rightarrow> u16 \<Rightarrow> bool" where
  "within_limit w limit =
     (\<not> ambiguous w \<and> (case parse_finite_f32 (arg w) of None \<Rightarrow> False | Some v \<Rightarrow> v \<le> of_nat (unat limit)))"

definition word_safe :: "bool \<Rightarrow> temp_limits option \<Rightarrow> gword list \<Rightarrow> gword \<Rightarrow> bool" where
  "word_safe reject temps pre w =
     (if letter w \<in> {CHR ''G'', CHR ''M''}
      then \<not> (no_chamber_heater temps \<and> is_command w
              \<and> word_command w \<in> {Some (CHR ''M'', 141), Some (CHR ''M'', 191)})
      else \<not> (reject \<and> homing_seen pre \<and> letter w \<in> {CHR ''X'', CHR ''Y'', CHR ''Z''})
        \<and> (case (temps, command_in_force pre) of
             (Some t, Some (c, n)) \<Rightarrow>
               (case (if c = CHR ''M'' then heater_argument t n (letter w) else None) of
                  None \<Rightarrow> True | Some (limit, _) \<Rightarrow> within_limit w limit)
           | _ \<Rightarrow> True))"

fun words_safe :: "bool \<Rightarrow> temp_limits option \<Rightarrow> gword list \<Rightarrow> gword list \<Rightarrow> bool" where
  "words_safe reject temps pre [] = True"
| "words_safe reject temps pre (w # ws) = (word_safe reject temps pre w \<and> words_safe reject temps (pre @ [w]) ws)"

definition statement_safe :: "bool \<Rightarrow> temp_limits option \<Rightarrow> string \<Rightarrow> bool" where
  "statement_safe reject temps line =
     (display_message (words (executable line)) \<or> words_safe reject temps [] (words (executable line)))"

lemma words_safe_at:
  "words_safe reject temps pre (mid @ w # post) \<Longrightarrow> word_safe reject temps (pre @ mid) w"
proof (induction mid arbitrary: pre)
  case (Cons a mid)
  from Cons.prems have "words_safe reject temps (pre @ [a]) (mid @ w # post)" by simp
  from Cons.IH [OF this] show ?case by simp
qed simp

lemma command_in_force_snoc:
  "command_in_force (pre @ [w]) = (if is_command w then word_command w else command_in_force pre)"
  by (auto simp: command_in_force_def split: list.splits)

lemma homing_seen_snoc:
  "homing_seen (pre @ [w]) \<longleftrightarrow> homing_seen pre \<or> is_command w \<and> word_command w = Some (CHR ''G'', 28)"
  by (simp add: homing_seen_def)

lemma check_temp_ok:
  "(case check_temp n w limit label of Inl e \<Rightarrow> Inl e | Inr _ \<Rightarrow> r) = Inr () \<longleftrightarrow> within_limit w limit \<and> r = Inr ()"
  by (auto simp: check_temp_def within_limit_def split: option.splits)

lemma word_command_letter: "word_command w = Some (c, n) \<Longrightarrow> c = letter w"
  by (auto simp: word_command_def)

lemma scan_argument:
  assumes "letter w \<notin> {CHR ''G'', CHR ''M''}"
  shows "scan_words reject temps (command_in_force pre) first (homing_seen pre) (w # ws) = Inr () \<longleftrightarrow>
    word_safe reject temps pre w
    \<and> scan_words reject temps (command_in_force pre) first (homing_seen pre) ws = Inr ()"
proof (cases "reject \<and> homing_seen pre \<and> letter w \<in> {CHR ''X'', CHR ''Y'', CHR ''Z''}")
  case True
  with assms show ?thesis by (simp add: word_safe_def del: insert_iff)
next
  case False
  note s = scan_words.simps(2) word_safe_def if_not_P [OF assms] if_not_P [OF False]
  consider "temps = None" | t where "temps = Some t" "command_in_force pre = None"
    | t c n where "temps = Some t" "command_in_force pre = Some (c, n)"
    by (cases temps; cases "command_in_force pre") auto
  then show ?thesis
  proof cases
    case (3 t c n)
    show ?thesis
      unfolding s 3 using False
      by (cases "if c = CHR ''M'' then heater_argument t n (letter w) else None")
        (auto simp del: insert_iff scan_words.simps simp: check_temp_ok)
  qed (unfold s, use False in \<open>simp_all del: insert_iff scan_words.simps\<close>)
qed

lemma no_command_yet:
  assumes "\<forall>u \<in> set pre. letter u \<notin> {CHR ''G'', CHR ''M''}"
  shows "filter is_command pre = []" "command_in_force pre = None" "\<not> homing_seen pre"
proof -
  show f: "filter is_command pre = []" using assms by (auto simp: filter_empty_conv is_command_def)
  then show "command_in_force pre = None" by (simp add: command_in_force_def)
  from f show "\<not> homing_seen pre" by (auto simp: homing_seen_def list_ex_iff filter_empty_conv)
qed

lemma scan_words_iff:
  "first \<longrightarrow> (\<forall>u \<in> set pre. letter u \<notin> {CHR ''G'', CHR ''M''}) \<Longrightarrow>
   scan_words reject temps (command_in_force pre) first (homing_seen pre) ws = Inr () \<longleftrightarrow>
     (first \<and> display_message ws) \<or> words_safe reject temps pre ws"
proof (induction ws arbitrary: pre first)
  case (Cons w ws)
  note IH = Cons.IH [of _ "pre @ [w]", unfolded command_in_force_snoc homing_seen_snoc]
  show ?case
  proof (cases "letter w \<in> {CHR ''G'', CHR ''M''}")
    case True
    show ?thesis
    proof (cases "word_command w")
      case None
      with True IH [of False, simplified] show ?thesis
        by (cases "arg w = []") (simp_all add: is_command_def word_safe_def display_message_def)
    next
      case (Some p)
      then obtain n where n: "word_command w = Some (letter w, n)"
        by (cases p) (auto dest: word_command_letter)
      then have a: "arg w \<noteq> []" by (auto simp: word_command_def command_number_def)
      show ?thesis
        using True IH [of False, simplified] n a
        by (auto simp: is_command_def word_safe_def display_message_def Let_def)
    qed
  next
    case False
    then have "\<not> is_command w" "display_message (w # ws) = display_message ws"
      by (simp_all add: is_command_def display_message_def)
    moreover have "scan_words reject temps (command_in_force pre) first (homing_seen pre) (w # ws) = Inr () \<longleftrightarrow>
        word_safe reject temps pre w
        \<and> scan_words reject temps (command_in_force pre) first (homing_seen pre) ws = Inr ()"
      using False by (rule scan_argument)
    moreover have "word_safe reject temps pre w" if first
      using that Cons.prems False no_command_yet [of pre]
      by (simp add: word_safe_def del: insert_iff split: option.splits)
    moreover have "first \<longrightarrow> (\<forall>u \<in> set (pre @ [w]). letter u \<notin> {CHR ''G'', CHR ''M''})"
      using Cons.prems False by auto
    note IH [OF this]
    ultimately show ?thesis by (auto simp del: insert_iff scan_words.simps)
  qed
qed (simp add: display_message_def)

lemma validate_lines_iff:
  "validate_lines ls reject temps = Inr () \<longleftrightarrow> list_all (statement_safe reject temps) ls"
proof (induction ls)
  case (Cons line ls)
  have "scan_statement (executable line) reject temps = Inr () \<longleftrightarrow> statement_safe reject temps line"
    using scan_words_iff [of True "[]" reject temps "words (executable line)"]
    by (simp add: scan_statement_def statement_safe_def command_in_force_def homing_seen_def)
  then show ?case
    using Cons.IH by (cases "scan_statement (executable line) reject temps") auto
qed simp

text \<open>C5. A script is accepted exactly when each of its statements, comments removed, either only shows a
  message or has only safe words: after a homing command no axis letter where partial homing is
  unsafe, no chamber command where there is no chamber heater, and no heater argument that is not a
  plain number within its limit.\<close>

theorem gcode_accepted_iff:
  "validate gcode reject temps = Inr () \<longleftrightarrow> list_all (statement_safe reject temps) (gcode_lines gcode)"
  by (simp add: validate_def validate_lines_iff)

lemma accepted_word_safe:
  assumes "validate gcode reject temps = Inr ()" "line \<in> set (gcode_lines gcode)"
    "words (executable line) = pre @ w # post" "\<not> display_message (words (executable line))"
  shows "word_safe reject temps pre w"
proof -
  have "statement_safe reject temps line"
    using assms(1,2) by (simp add: validate_def validate_lines_iff list_all_iff)
  then have "words_safe reject temps [] (pre @ w # post)"
    using assms(3,4) by (simp add: statement_safe_def)
  from words_safe_at [OF this] show ?thesis by simp
qed

text \<open>C22. In an accepted script no heater is asked for more than its limit: an argument of a heater command is
  a plain decimal number, and its value is at most the limit, up to the rounding of a 32-bit float
  (at most \<open>1/512\<close> of a degree).\<close>

theorem gcode_heater_bound:
  assumes "validate gcode reject (Some t) = Inr ()" "line \<in> set (gcode_lines gcode)"
    "words (executable line) = pre @ w # post" "\<not> display_message (words (executable line))"
    "letter w \<notin> {CHR ''G'', CHR ''M''}"
    "command_in_force pre = Some (CHR ''M'', n)" "heater_argument t n (letter w) = Some (limit, label)"
  shows "\<exists>v. parse_decimal (arg w) = Some v \<and> v \<le> of_nat (unat limit) + 1 / 512 \<and> \<not> ambiguous w"
proof -
  have "within_limit w limit"
    using accepted_word_safe [OF assms(1-4)] assms(5-7) by (simp add: word_safe_def del: insert_iff)
  then obtain q where q: "parse_finite_f32 (arg w) = Some q" "q \<le> of_nat (unat limit)" "\<not> ambiguous w"
    by (auto simp: within_limit_def split: option.splits)
  then obtain v where "parse_decimal (arg w) = Some v" "f32_of_rat v = Some q"
    by (auto simp: parse_finite_f32_def bind_eq_Some_conv)
  with q f32_bound [of v q "unat limit"] show ?thesis by simp
qed

theorem gcode_heater_bound_witness:
  "\<exists>v. parse_decimal ''220'' = Some v \<and> v \<le> 300 + 1 / 512"
proof -
  let ?t = "\<lparr>nozzle_max = 300, bed_max = 80, chamber_max = None\<rparr>"
  let ?m = "\<lparr>letter = CHR ''M'', arg = ''104'', ambiguous = False\<rparr>"
  let ?s = "\<lparr>letter = CHR ''S'', arg = ''220'', ambiguous = False\<rparr>"
  have e: "executable ''M104 S220'' = ''M104 S220''" by (subst executable.simps) simp
  have n: "words [] = []" by (subst words.simps) simp
  have w2: "words '' S220'' = [?s]"
    by (subst words.simps)
      (simp add: n ascii_defs is_numeric_char_def is_blank_def to_ascii_upper_def)
  have w: "words ''M104 S220'' = [?m, ?s]"
    by (subst words.simps)
      (simp add: w2 ascii_defs is_numeric_char_def is_blank_def to_ascii_upper_def)
  have l: "gcode_lines ''M104 S220'' = [''M104 S220'']" by (simp add: gcode_lines_def)
  have f: "parse_finite_f32 ''220'' = Some 220"
    using f32_whole_exact [of 220]
    by (simp add: parse_finite_f32_def parse_decimal_def decimal_magnitude_def is_ascii_digit_def
        digits_value_def digit_value_def)
  have v: "validate ''M104 S220'' False (Some ?t) = Inr ()"
    by (simp add: validate_def l e scan_statement_def w word_command_def command_number_def
        parse_unsigned_def is_ascii_digit_def digits_value_def digit_value_def heater_argument_def
        check_temp_def f)
  show ?thesis
    using gcode_heater_bound [OF v, of "''M104 S220''" "[?m]" ?s "[]" 104 300 "''nozzle''"]
    by (simp add: l e w v command_in_force_def is_command_def display_message_def word_command_def
        command_number_def parse_unsigned_def is_ascii_digit_def digits_value_def digit_value_def
        heater_argument_def)
qed

text \<open>
  A sign written directly after the command number hides the command: \<open>104-\<close> is no number, so no
  command is in force, and the argument after it is not checked at all.
\<close>

lemma gcode_sign_hides_command:
  "validate ''M104- S999'' True (Some \<lparr>nozzle_max = 300, bed_max = 80, chamber_max = None\<rparr>) = Inr ()"
proof -
  let ?m = "\<lparr>letter = CHR ''M'', arg = ''104-'', ambiguous = False\<rparr>"
  let ?s = "\<lparr>letter = CHR ''S'', arg = ''999'', ambiguous = False\<rparr>"
  have n: "words [] = []" by (subst words.simps) simp
  have w2: "words '' S999'' = [?s]"
    by (subst words.simps)
      (simp add: n ascii_defs is_numeric_char_def is_blank_def to_ascii_upper_def)
  have w: "words ''M104- S999'' = [?m, ?s]"
    by (subst words.simps)
      (simp add: w2 ascii_defs is_numeric_char_def is_blank_def to_ascii_upper_def)
  have e: "executable ''M104- S999'' = ''M104- S999''" by (subst executable.simps) simp
  show ?thesis
    by (simp add: validate_def gcode_lines_def e scan_statement_def w word_command_def
        command_number_def parse_unsigned_def is_ascii_digit_def digits_value_def digit_value_def)
qed

end
