(* ===== verification/Camera.thy ===== *)
theory Camera
  imports Reader Tunnel
begin

text \<open>
  The binary camera stream (\<open>src/camera/binary.rs\<close>): the authentication packet and the resumable
  frame reader, one definition per state of its loop. A frame is a 16-byte header, whose first four
  bytes are the payload's length, and a JPEG payload. A payload over the limit is drained without
  being stored, so that the stream stays in step.
\<close>

abbreviation (input) CAMERA_HANDSHAKE_SIZE :: nat where "CAMERA_HANDSHAKE_SIZE \<equiv> 80"
abbreviation (input) CAMERA_USERNAME_OFFSET :: nat where "CAMERA_USERNAME_OFFSET \<equiv> 16"
abbreviation (input) CAMERA_PASSWORD_OFFSET :: nat where "CAMERA_PASSWORD_OFFSET \<equiv> 48"
abbreviation (input) CAMERA_FRAME_HEADER_SIZE :: nat where "CAMERA_FRAME_HEADER_SIZE \<equiv> 16"
abbreviation (input) CAMERA_FRAME_MAX_SIZE :: nat where "CAMERA_FRAME_MAX_SIZE \<equiv> 10485760"
abbreviation (input) CAMERA_DISCARD_CHUNK_SIZE :: nat where "CAMERA_DISCARD_CHUNK_SIZE \<equiv> 512"
abbreviation (input) JPEG_SOI :: bytes where "JPEG_SOI \<equiv> [0xFF, 0xD8]"
abbreviation (input) JPEG_EOI :: bytes where "JPEG_EOI \<equiv> [0xFF, 0xD9]"
abbreviation (input) JPEG_MIN_LEN :: nat where "JPEG_MIN_LEN \<equiv> 4"

section \<open>Authentication\<close>

text \<open>\<open>packet[at .. at + bs.len()].copy_from_slice(bs)\<close>, inside the packet.\<close>

definition put_at :: "nat \<Rightarrow> bytes \<Rightarrow> bytes \<Rightarrow> bytes" where
  "put_at off bs packet = take off packet @ bs @ drop (off + length bs) packet"

definition build_handshake_packet :: "string \<Rightarrow> error + bytes" where
  "build_handshake_packet access_code =
     (let packet = replicate CAMERA_HANDSHAKE_SIZE 0;
          packet = put_at 0 (u32_le 64) packet;
          packet = put_at 4 (u32_le 12288) packet;
          packet = put_at CAMERA_USERNAME_OFFSET (as_bytes LAN_USERNAME) packet
      in case validate_access_code access_code of
           Inl e \<Rightarrow> Inl e
         | Inr _ \<Rightarrow> Inr (put_at CAMERA_PASSWORD_OFFSET (as_bytes access_code) packet))"

definition authenticate_with_timer :: "string \<Rightarrow> timer \<Rightarrow> nat \<Rightarrow> io \<Rightarrow> (error + unit) \<times> io" where
  "authenticate_with_timer access_code t budget_ms s =
     (case build_handshake_packet access_code of
        Inl e \<Rightarrow> (Inl e, s)
      | Inr packet \<Rightarrow>
          (case write_with_budget t budget_ms [packet, []] s of
             (Inl e, s') \<Rightarrow> (Inl (Network e), s')
           | (Inr _, s') \<Rightarrow> (Inr (), s')))"

section \<open>Frames\<close>

text \<open>The arrays of the source are zero-filled and carry a fill level; here the filled part is kept, and
  for a payload the length it is to reach.\<close>

datatype camera_frame_read_state =
  CameraIdle
  | ReadingHeader bytes
  | ReadingFramePayload nat bytes
  | DiscardingOversizedPayload nat

function fill :: "nat option \<Rightarrow> nat \<Rightarrow> bytes \<Rightarrow> io \<Rightarrow> socket_error option \<times> bytes \<times> io" where
  "fill deadline len filled s =
     (if length filled < len then
        (case read_chunk (len - length filled) deadline s of
           (Inl e, s') \<Rightarrow> (Some e, filled, s')
         | (Inr bs, s') \<Rightarrow> fill deadline len (filled @ bs) s')
      else (None, filled, s))"
  by pat_completeness auto
termination
  by (relation "measure (\<lambda>(_, len, filled, _). len - length filled)")
    (auto dest!: read_chunk_ok(1) [OF sym] intro!: diff_less_mono2)

declare fill.simps [simp del]

function discard :: "nat option \<Rightarrow> nat \<Rightarrow> io \<Rightarrow> socket_error option \<times> nat \<times> io" where
  "discard deadline remaining s =
     (if remaining > 0 then
        (case read_chunk (min remaining CAMERA_DISCARD_CHUNK_SIZE) deadline s of
           (Inl e, s') \<Rightarrow> (Some e, remaining, s')
         | (Inr bs, s') \<Rightarrow> discard deadline (remaining - length bs) s')
      else (None, 0, s))"
  by pat_completeness auto
termination
  by (relation "measure (\<lambda>(_, remaining, _). remaining)")
    (auto dest!: read_chunk_ok(1) [OF sym])

declare discard.simps [simp del]

definition header_size :: "bytes \<Rightarrow> nat" where
  "header_size buf = unat (u32_of_le (buf ! 0) (buf ! 1) (buf ! 2) (buf ! 3))"

definition is_jpeg :: "bytes \<Rightarrow> bool" where
  "is_jpeg payload \<longleftrightarrow> JPEG_MIN_LEN \<le> length payload \<and> take 2 payload = JPEG_SOI
     \<and> drop (length payload - 2) payload = JPEG_EOI"

text \<open>The arms of the loop's \<open>match\<close>. \<open>None\<close> goes round the loop, \<open>Some\<close> returns.\<close>

type_synonym frame_result = "(error + bytes) option"

definition header_arm :: "nat \<Rightarrow> nat option \<Rightarrow> bytes \<Rightarrow> io \<Rightarrow> frame_result \<times> camera_frame_read_state \<times> io" where
  "header_arm max_frame_size deadline filled s =
     (case fill deadline CAMERA_FRAME_HEADER_SIZE filled s of
        (Some e, filled', s') \<Rightarrow> (Some (Inl (Network e)), ReadingHeader filled', s')
      | (None, buf, s') \<Rightarrow>
          let frame_size = header_size buf
          in if frame_size = 0
             then (Some (Inl (ProtocolViolation ''Acquired empty frame payload descriptor'')), CameraIdle, s')
             else if frame_size > max_frame_size then (None, DiscardingOversizedPayload frame_size, s')
             else (None, ReadingFramePayload frame_size [], s'))"

definition payload_arm :: "nat option \<Rightarrow> nat \<Rightarrow> bytes \<Rightarrow> io \<Rightarrow> frame_result \<times> camera_frame_read_state \<times> io" where
  "payload_arm deadline len filled s =
     (case fill deadline len filled s of
        (Some e, filled', s') \<Rightarrow> (Some (Inl (Network e)), ReadingFramePayload len filled', s')
      | (None, payload, s') \<Rightarrow>
          (Some (if is_jpeg payload then Inr payload
             else Inl (ProtocolViolation
               ''Acquired stream packet lacks valid JPEG magic marker boundaries'')), CameraIdle, s'))"

definition discard_arm :: "nat option \<Rightarrow> nat \<Rightarrow> io \<Rightarrow> frame_result \<times> camera_frame_read_state \<times> io" where
  "discard_arm deadline remaining s =
     (case discard deadline remaining s of
        (Some e, left, s') \<Rightarrow> (Some (Inl (Network e)), DiscardingOversizedPayload left, s')
      | (None, _, s') \<Rightarrow>
          (Some (Inl (ProtocolViolation
             ''Extracted JPEG frame size exceeds configured safety allocation limit'')), CameraIdle, s'))"

fun frame_arm :: "nat \<Rightarrow> nat option \<Rightarrow> camera_frame_read_state \<Rightarrow> io
    \<Rightarrow> frame_result \<times> camera_frame_read_state \<times> io" where
  "frame_arm max_frame_size deadline CameraIdle s = (None, ReadingHeader [], s)"
| "frame_arm max_frame_size deadline (ReadingHeader filled) s = header_arm max_frame_size deadline filled s"
| "frame_arm max_frame_size deadline (ReadingFramePayload len filled) s = payload_arm deadline len filled s"
| "frame_arm max_frame_size deadline (DiscardingOversizedPayload remaining) s = discard_arm deadline remaining s"

text \<open>Each arm returns or moves on to a later state, so the loop goes round three times at most.\<close>

fun arm_rank :: "camera_frame_read_state \<Rightarrow> nat" where
  "arm_rank CameraIdle = 2"
| "arm_rank (ReadingHeader _) = 1"
| "arm_rank _ = 0"

lemma frame_arm_rank:
  "frame_arm max_frame_size deadline st s = (None, st', s') \<Longrightarrow> arm_rank st' < arm_rank st"
  by (cases st) (auto simp: header_arm_def payload_arm_def discard_arm_def Let_def
      split: prod.splits option.splits if_splits)

function frame_loop :: "nat \<Rightarrow> nat option \<Rightarrow> camera_frame_read_state \<Rightarrow> io
    \<Rightarrow> (error + bytes) \<times> camera_frame_read_state \<times> io" where
  "frame_loop max_frame_size deadline st s =
     (case frame_arm max_frame_size deadline st s of
        (Some r, st', s') \<Rightarrow> (r, st', s')
      | (None, st', s') \<Rightarrow> frame_loop max_frame_size deadline st' s')"
  by pat_completeness auto
termination
  by (relation "measure (\<lambda>(_, _, st, _). arm_rank st)") (auto dest!: frame_arm_rank [OF sym])

declare frame_loop.simps [simp del]

definition read_next_frame_with_timer :: "nat \<Rightarrow> timer \<Rightarrow> nat \<Rightarrow> camera_frame_read_state \<Rightarrow> io
    \<Rightarrow> (error + bytes) \<times> camera_frame_read_state \<times> io" where
  "read_next_frame_with_timer max_frame_size t budget_ms st s =
     frame_loop max_frame_size (ftps_deadline_from_ms t budget_ms s) st s"

definition read_next_frame :: "nat \<Rightarrow> camera_frame_read_state \<Rightarrow> io
    \<Rightarrow> (error + bytes) \<times> camera_frame_read_state \<times> io" where
  "read_next_frame max_frame_size st s = read_next_frame_with_timer max_frame_size DummyTimer (30 * 1000) st s"

end
