(* ===== verification/CameraProps.thy ===== *)
theory CameraProps
  imports Camera
begin

text \<open>
  The camera stream's frame reader keeps its place: whatever times out on the way, and whatever it
  rejects, the bytes it has taken are whole frames and a prefix of the next one, and the payloads it
  returns are the acceptable ones of the stream, in order. The reader is the third provider of the
  \<open>resumable_reader\<close> contract.
\<close>

section \<open>The two loops\<close>

lemma fill_appends:
  "fill deadline len filled s = (r, filled', s') \<Longrightarrow> length filled \<le> len \<Longrightarrow>
     \<exists>u. filled' = filled @ u \<and> stream_bytes s = u @ stream_bytes s' \<and> length filled' \<le> len
       \<and> (r = None \<longleftrightarrow> length filled' = len)"
proof (induction deadline len filled s rule: fill.induct)
  case (1 deadline len filled s)
  show ?case
  proof (cases "length filled < len")
    case False
    with "1.prems" show ?thesis by (simp add: fill.simps)
  next
    case True
    obtain x s1 where x: "read_chunk (len - length filled) deadline s = (x, s1)" by (metis surj_pair)
    show ?thesis
    proof (cases x)
      case (Inl e)
      with True x "1.prems" show ?thesis
        by (auto simp: fill.simps [of deadline len filled] dest: read_chunk_err)
    next
      case (Inr bs)
      with True x "1.prems"(1) have rec: "fill deadline len (filled @ bs) s1 = (r, filled', s')"
        by (simp add: fill.simps [of deadline len filled])
      from read_chunk_ok [OF x [unfolded Inr]] True have
        bs: "length (filled @ bs) \<le> len" "stream_bytes s = bs @ stream_bytes s1"
        by simp_all
      from "1.IH" [OF True x [symmetric] Inr rec bs(1)] bs(2) show ?thesis by auto
    qed
  qed
qed

lemma discard_drops:
  "discard deadline n s = (r, n', s') \<Longrightarrow>
     \<exists>u. stream_bytes s = u @ stream_bytes s' \<and> length u + n' = n \<and> (r = None \<longleftrightarrow> n' = 0)"
proof (induction deadline n s rule: discard.induct)
  case (1 deadline n s)
  show ?case
  proof (cases "n > 0")
    case False
    with "1.prems" show ?thesis by (simp add: discard.simps)
  next
    case True
    obtain x s1 where x: "read_chunk (min n CAMERA_DISCARD_CHUNK_SIZE) deadline s = (x, s1)"
      by (metis surj_pair)
    show ?thesis
    proof (cases x)
      case (Inl e)
      with True x "1.prems" show ?thesis
        by (auto simp: discard.simps [of deadline n] dest: read_chunk_err)
    next
      case (Inr bs)
      with True x "1.prems" have rec: "discard deadline (n - length bs) s1 = (r, n', s')"
        by (simp add: discard.simps [of deadline n])
      from read_chunk_ok [OF x [unfolded Inr]] have
        bs: "length bs \<le> n" "stream_bytes s = bs @ stream_bytes s1" by simp_all
      from "1.IH" [OF True x [symmetric] Inr rec] obtain u where
        "stream_bytes s1 = u @ stream_bytes s'" "length u + n' = n - length bs" "r = None \<longleftrightarrow> n' = 0"
        by blast
      with bs show ?thesis by (intro exI [of _ "bs @ u"]) auto
    qed
  qed
qed

section \<open>What the bytes mean\<close>

text \<open>A frame on the wire: a header that gives the payload's length, and the payload.\<close>

definition camera_frame :: "bytes \<times> bytes \<Rightarrow> bool" where
  "camera_frame f \<longleftrightarrow> length (fst f) = CAMERA_FRAME_HEADER_SIZE \<and> header_size (fst f) = length (snd f)"

definition frame_wire_bytes :: "bytes \<times> bytes \<Rightarrow> bytes" where
  "frame_wire_bytes f = fst f @ snd f"

definition acceptable :: "nat \<Rightarrow> bytes \<Rightarrow> bool" where
  "acceptable max_frame_size payload \<longleftrightarrow> length payload \<le> max_frame_size \<and> is_jpeg payload"

fun camera_holds :: "nat \<Rightarrow> camera_frame_read_state \<Rightarrow> bytes \<Rightarrow> bool" where
  "camera_holds m CameraIdle p \<longleftrightarrow> p = []"
| "camera_holds m (ReadingHeader filled) p \<longleftrightarrow> p = filled \<and> length filled \<le> CAMERA_FRAME_HEADER_SIZE"
| "camera_holds m (ReadingFramePayload len filled) p \<longleftrightarrow>
     (\<exists>h. p = h @ filled \<and> length h = CAMERA_FRAME_HEADER_SIZE \<and> header_size h = len
        \<and> len \<le> m \<and> length filled \<le> len)"
| "camera_holds m (DiscardingOversizedPayload remaining) p \<longleftrightarrow>
     (\<exists>h u. p = h @ u \<and> length h = CAMERA_FRAME_HEADER_SIZE \<and> header_size h = length u + remaining
        \<and> m < length u + remaining)"

text \<open>A result stands for one frame: an accepted one, a rejected one, or none when a read failed.\<close>

fun camera_accounts :: "nat \<Rightarrow> error + bytes \<Rightarrow> bytes \<Rightarrow> bool" where
  "camera_accounts m (Inr jpeg) u \<longleftrightarrow>
     (\<exists>f. camera_frame f \<and> u = frame_wire_bytes f \<and> snd f = jpeg \<and> acceptable m jpeg)"
| "camera_accounts m (Inl (Network e)) u \<longleftrightarrow> u = []"
| "camera_accounts m (Inl e) u \<longleftrightarrow> (\<exists>f. camera_frame f \<and> u = frame_wire_bytes f \<and> \<not> acceptable m (snd f))"

lemma header_arm_spec:
  assumes "header_arm m deadline filled s = (r, st', s')" "length filled \<le> CAMERA_FRAME_HEADER_SIZE"
  shows "\<exists>u p'. filled @ stream_bytes s = u @ p' @ stream_bytes s' \<and> camera_holds m st' p'
    \<and> (case r of None \<Rightarrow> u = [] | Some a \<Rightarrow> camera_accounts m a u)"
proof -
  obtain x b s1 where x: "fill deadline CAMERA_FRAME_HEADER_SIZE filled s = (x, b, s1)"
    by (metis prod_cases3)
  from fill_appends [OF x assms(2)] obtain v where v: "b = filled @ v" "stream_bytes s = v @ stream_bytes s1"
    "length b \<le> CAMERA_FRAME_HEADER_SIZE" "x = None \<longleftrightarrow> length b = CAMERA_FRAME_HEADER_SIZE"
    by blast
  show ?thesis
  proof (cases x)
    case (Some e)
    with assms(1) x v show ?thesis
      by (intro exI [of _ "[]"] exI [of _ b]) (auto simp: header_arm_def)
  next
    case None
    with v have len: "length b = CAMERA_FRAME_HEADER_SIZE" by simp
    consider "header_size b = 0" | "0 < header_size b" "m < header_size b"
      | "0 < header_size b" "\<not> m < header_size b" by linarith
    then show ?thesis
    proof cases
      case 1
      then have "camera_frame (b, [])" "\<not> acceptable m []" using len
        by (simp_all add: camera_frame_def acceptable_def is_jpeg_def)
      then have "camera_accounts m (Inl (ProtocolViolation msg)) b" for msg
        by (fastforce simp: frame_wire_bytes_def)
      moreover obtain msg where "r = Some (Inl (ProtocolViolation msg))" "st' = CameraIdle" "s' = s1"
        using 1 None assms(1) x by (auto simp: header_arm_def)
      ultimately show ?thesis
        using v by (intro exI [of _ b] exI [of _ "[]"]) (simp del: camera_accounts.simps)
    next
      case 2
      with len have "camera_holds m (DiscardingOversizedPayload (header_size b)) b"
        using 2 by (intro camera_holds.simps(4) [THEN iffD2] exI [of _ b] exI [of _ "[]"]) simp
      moreover have "r = None" "st' = DiscardingOversizedPayload (header_size b)" "s' = s1"
        using 2 None assms(1) x by (simp_all add: header_arm_def)
      ultimately show ?thesis using v by (intro exI [of _ "[]"] exI [of _ b]) simp
    next
      case 3
      with None assms(1) x v len show ?thesis
        by (intro exI [of _ "[]"] exI [of _ b]) (auto simp: header_arm_def)
    qed
  qed
qed

lemma payload_arm_spec:
  assumes "payload_arm deadline len filled s = (r, st', s')" "camera_holds m (ReadingFramePayload len filled) p"
  shows "\<exists>u p'. p @ stream_bytes s = u @ p' @ stream_bytes s' \<and> camera_holds m st' p'
    \<and> (case r of None \<Rightarrow> u = [] | Some a \<Rightarrow> camera_accounts m a u)"
proof -
  from assms(2) obtain h where h: "p = h @ filled" "length h = CAMERA_FRAME_HEADER_SIZE"
    "header_size h = len" "len \<le> m" "length filled \<le> len"
    by auto
  obtain x b s1 where x: "fill deadline len filled s = (x, b, s1)" by (metis prod_cases3)
  from fill_appends [OF x h(5)] obtain v where v: "b = filled @ v" "stream_bytes s = v @ stream_bytes s1"
    "length b \<le> len" "x = None \<longleftrightarrow> length b = len"
    by blast
  show ?thesis
  proof (cases x)
    case (Some e)
    with assms(1) x v h show ?thesis
      by (intro exI [of _ "[]"] exI [of _ "h @ b"]) (auto simp: payload_arm_def)
  next
    case None
    with v h have f: "camera_frame (h, b)" "length b \<le> m" by (auto simp: camera_frame_def)
    with None assms(1) x v h show ?thesis
      by (intro exI [of _ "h @ b"] exI [of _ "[]"])
        (force simp: payload_arm_def frame_wire_bytes_def acceptable_def)
  qed
qed

lemma discard_arm_spec:
  assumes "discard_arm deadline n s = (r, st', s')" "camera_holds m (DiscardingOversizedPayload n) p"
  shows "\<exists>u p'. p @ stream_bytes s = u @ p' @ stream_bytes s' \<and> camera_holds m st' p'
    \<and> (case r of None \<Rightarrow> u = [] | Some a \<Rightarrow> camera_accounts m a u)"
proof -
  from assms(2) obtain h w where h: "p = h @ w" "length h = CAMERA_FRAME_HEADER_SIZE"
    "header_size h = length w + n" "m < length w + n"
    by auto
  obtain x n1 s1 where x: "discard deadline n s = (x, n1, s1)" by (metis prod_cases3)
  from discard_drops [OF x] obtain v where v: "stream_bytes s = v @ stream_bytes s1"
    "length v + n1 = n" "x = None \<longleftrightarrow> n1 = 0"
    by blast
  show ?thesis
  proof (cases x)
    case (Some e)
    with assms(1) x have "st' = DiscardingOversizedPayload n1" "r = Some (Inl (Network e))" "s' = s1"
      by (simp_all add: discard_arm_def)
    moreover have "camera_holds m (DiscardingOversizedPayload n1) (h @ w @ v)"
      using h v by (intro camera_holds.simps(4) [THEN iffD2] exI [of _ h] exI [of _ "w @ v"]) simp
    ultimately show ?thesis using h v by (intro exI [of _ "[]"] exI [of _ "h @ w @ v"]) simp
  next
    case None
    with v h have "camera_frame (h, w @ v)" "\<not> acceptable m (w @ v)"
      by (auto simp: camera_frame_def acceptable_def)
    with None assms(1) x v h show ?thesis
      by (intro exI [of _ "h @ w @ v"] exI [of _ "[]"])
        (force simp: discard_arm_def frame_wire_bytes_def)
  qed
qed

lemma frame_loop_accounts:
  "frame_loop m deadline st s = (r, st', s') \<Longrightarrow> camera_holds m st p \<Longrightarrow>
     \<exists>u p'. p @ stream_bytes s = u @ p' @ stream_bytes s' \<and> camera_holds m st' p' \<and> camera_accounts m r u"
proof (induction m deadline st s arbitrary: p rule: frame_loop.induct)
  case (1 m deadline st s)
  obtain x st1 s1 where x: "frame_arm m deadline st s = (x, st1, s1)" by (metis prod_cases3)
  have "\<exists>u p'. p @ stream_bytes s = u @ p' @ stream_bytes s1 \<and> camera_holds m st1 p'
      \<and> (case x of None \<Rightarrow> u = [] | Some a \<Rightarrow> camera_accounts m a u)"
  proof (cases st)
    case CameraIdle
    with x "1.prems"(2) show ?thesis by auto
  next
    case (ReadingHeader filled)
    with x "1.prems"(2) show ?thesis by (auto dest: header_arm_spec)
  next
    case (ReadingFramePayload len filled)
    with x have "payload_arm deadline len filled s = (x, st1, s1)" by simp
    from payload_arm_spec [OF this "1.prems"(2) [unfolded ReadingFramePayload]] show ?thesis .
  next
    case (DiscardingOversizedPayload n)
    with x have "discard_arm deadline n s = (x, st1, s1)" by simp
    from discard_arm_spec [OF this "1.prems"(2) [unfolded DiscardingOversizedPayload]] show ?thesis .
  qed
  then obtain u p1 where u: "p @ stream_bytes s = u @ p1 @ stream_bytes s1" "camera_holds m st1 p1"
    "case x of None \<Rightarrow> u = [] | Some a \<Rightarrow> camera_accounts m a u"
    by blast
  show ?case
  proof (cases x)
    case None
    with "1.prems"(1) x have "frame_loop m deadline st1 s1 = (r, st', s')"
      by (simp add: frame_loop.simps [of m deadline st s])
    from "1.IH" [OF x [symmetric] None refl this u(2)] u None show ?thesis by auto
  next
    case (Some a)
    with "1.prems"(1) x u show ?thesis by (auto simp: frame_loop.simps [of m deadline st s])
  qed
qed

interpretation camera_reader:
  resumable_reader "\<lambda>st s. read_next_frame_with_timer m t budget st s" "camera_holds m" "camera_accounts m"
  for m t budget
  by unfold_locales (auto simp: read_next_frame_with_timer_def dest: frame_loop_accounts)

section \<open>Sequences of calls\<close>

text \<open>What calls that account for frames return: their accepted payloads, in order.\<close>

lemma accounted_payloads:
  assumes "list_all2 (camera_accounts m) rs us"
  shows "\<exists>fs. concat us = concat (map frame_wire_bytes fs) \<and> list_all camera_frame fs
    \<and> oks rs = filter (acceptable m) (map snd fs)"
  using assms
proof (induction rule: list_all2_induct)
  case Nil
  show ?case by (intro exI [of _ "[]"]) simp
next
  case (Cons r rs u us)
  then obtain fs where fs: "concat us = concat (map frame_wire_bytes fs)" "list_all camera_frame fs"
    "oks rs = filter (acceptable m) (map snd fs)"
    by blast
  consider "u = []" "oks (r # rs) = oks rs"
    | f where "camera_frame f" "u = frame_wire_bytes f"
        "oks (r # rs) = filter (acceptable m) [snd f] @ oks rs"
  proof (cases r)
    case (Inl e)
    with Cons.hyps that show thesis by (cases e) auto
  next
    case (Inr jpeg)
    with Cons.hyps that show thesis by auto
  qed
  then show ?case
  proof cases
    case 1
    with fs show ?thesis by (intro exI [of _ fs]) simp
  next
    case (2 f)
    with fs show ?thesis by (intro exI [of _ "f # fs"]) simp
  qed
qed

text \<open>C34. Over any number of calls, whatever times out, fails or is rejected on the way, the bytes the camera
  reader has taken are whole frames and a part of the next one, which it still holds, and what it has
  returned are the acceptable payloads among those frames (JPEG markers at both ends and within the
  size limit), in order: a rejected frame never costs a later one.\<close>

theorem camera_frames_in_order:
  assumes "calls (\<lambda>st s. read_next_frame_with_timer m t budget st s) n CameraIdle s = (rs, st', s')"
  shows "\<exists>fs p. stream_bytes s = concat (map frame_wire_bytes fs) @ p @ stream_bytes s'
    \<and> camera_holds m st' p \<and> list_all camera_frame fs \<and> oks rs = filter (acceptable m) (map snd fs)"
proof -
  from camera_reader.calls_account [OF _ assms, of "[]"] obtain us p where
    us: "stream_bytes s = concat us @ p @ stream_bytes s'" "camera_holds m st' p"
      "list_all2 (camera_accounts m) rs us"
    by auto
  from accounted_payloads [OF us(3)] us(1,2) show ?thesis by metis
qed

theorem camera_frames_in_order_witness:
  "\<exists>fs. list_all camera_frame fs \<and> [[0xFF, 0xD8, 0xFF, 0xD9]] = filter (acceptable 100) (map snd fs)"
proof -
  let ?s = "\<lparr>now = 0, sleep_error = None,
      inbound = [(0, PeerData [4, 0, 0, 0, 0, 0, 0, 0, 0, 0, 0, 0, 0, 0, 0, 0, 0xFF, 0xD8]),
                 (40000, PeerData [0xFF, 0xD9, 7])],
      write_script = [], outbound = []\<rparr>"
  have "\<exists>st' s'. calls (\<lambda>st s. read_next_frame_with_timer 100 PlatformTimer 30000 st s) (Suc (Suc 0)) CameraIdle ?s
      = ([Inl (Network TimedOut), Inr [0xFF, 0xD8, 0xFF, 0xD9]], st', s')"
    by (simp add: read_next_frame_with_timer_def io_eval frame_loop.simps fill.simps
        header_arm_def payload_arm_def header_size_def unat_u32_of_le is_jpeg_def Let_def)
  then obtain st' s' where "calls (\<lambda>st s. read_next_frame_with_timer 100 PlatformTimer 30000 st s) (Suc (Suc 0)) CameraIdle ?s
      = ([Inl (Network TimedOut), Inr [0xFF, 0xD8, 0xFF, 0xD9]], st', s')"
    by blast
  from camera_frames_in_order [OF this] show ?thesis by auto
qed

section \<open>An undisturbed stream\<close>

lemma fill_delivers:
  assumes "smooth s" "length filled \<le> len" "len \<le> length filled + length (stream_bytes s)"
  shows "\<exists>s'. fill None len filled s = (None, filled @ take (len - length filled) (stream_bytes s), s')
    \<and> smooth s' \<and> stream_bytes s' = drop (len - length filled) (stream_bytes s)"
  using assms
proof (induction "None :: nat option" len filled s rule: fill.induct)
  case (1 len filled s)
  show ?case
  proof (cases "length filled < len")
    case False
    with "1.prems" show ?thesis by (simp add: fill.simps)
  next
    case True
    obtain x s1 where x: "read_chunk (len - length filled) None s = (x, s1)" by (metis surj_pair)
    note sm = read_chunk_smooth [OF "1.prems"(1) x]
    show ?thesis
    proof (cases x)
      case (Inl e)
      with sm True have "stream_bytes s1 = []" by simp
      with read_chunk_err(1) [OF x [unfolded Inl]] "1.prems"(3) True show ?thesis by simp
    next
      case (Inr bs)
      from read_chunk_ok [OF x [unfolded Inr]] have
        bs: "length bs \<le> len - length filled" "stream_bytes s = bs @ stream_bytes s1" by simp_all
      have "length (filled @ bs) \<le> len" "len \<le> length (filled @ bs) + length (stream_bytes s1)" "smooth s1"
        using bs True "1.prems"(3) sm by simp_all
      with "1.hyps" [OF True x [symmetric] Inr] obtain s' where
        "fill None len (filled @ bs) s1
           = (None, (filled @ bs) @ take (len - length (filled @ bs)) (stream_bytes s1), s')"
        "smooth s'" "stream_bytes s' = drop (len - length (filled @ bs)) (stream_bytes s1)"
        by blast
      with True x Inr bs show ?thesis by (simp add: fill.simps [of None len filled])
    qed
  qed
qed

text \<open>On an undisturbed connection the next acceptable frame is returned whole, however the stream is
  cut into pieces, and the reader is left at the byte after it.\<close>

theorem camera_frame_delivered:
  assumes "smooth s" "stream_bytes s = h @ payload @ rest" "camera_frame (h, payload)"
    "acceptable m payload"
  shows "\<exists>s'. read_next_frame m CameraIdle s = (Inr payload, CameraIdle, s') \<and> stream_bytes s' = rest"
proof -
  have h: "length h = CAMERA_FRAME_HEADER_SIZE" "header_size h = length payload" "0 < length payload"
    "length payload \<le> m" "is_jpeg payload"
    using assms(3,4) by (auto simp: camera_frame_def acceptable_def is_jpeg_def)
  obtain s1 where s1: "fill None CAMERA_FRAME_HEADER_SIZE [] s = (None, h, s1)" "smooth s1"
    "stream_bytes s1 = payload @ rest"
    using fill_delivers [of s "[]" CAMERA_FRAME_HEADER_SIZE] assms(1,2) h(1) by auto
  obtain s2 where s2: "fill None (length payload) [] s1 = (None, payload, s2)" "stream_bytes s2 = rest"
    using fill_delivers [of s1 "[]" "length payload"] s1(2,3) by auto
  have "read_next_frame m CameraIdle s = (Inr payload, CameraIdle, s2)"
    using h s1(1) s2(1)
    by (simp add: read_next_frame_def read_next_frame_with_timer_def ftps_deadline_from_ms_def
        frame_loop.simps header_arm_def payload_arm_def Let_def)
  with s2(2) show ?thesis by blast
qed

theorem camera_frame_delivered_witness:
  "\<exists>s'. read_next_frame 100 CameraIdle \<lparr>now = 0, sleep_error = None,
      inbound = [(0, PeerData [4, 0, 0, 0, 0, 0, 0]), (5, PeerData [0, 0, 0, 0, 0, 0, 0, 0, 0, 0xFF, 0xD8]),
                 (9, PeerData [0xFF, 0xD9, 7])], write_script = [], outbound = []\<rparr>
    = (Inr [0xFF, 0xD8, 0xFF, 0xD9], CameraIdle, s') \<and> stream_bytes s' = [7]"
  by (rule camera_frame_delivered [of _ "[4, 0, 0, 0, 0, 0, 0, 0, 0, 0, 0, 0, 0, 0, 0, 0]"])
    (simp_all add: smooth_def stream_bytes_def camera_frame_def header_size_def unat_u32_of_le
      acceptable_def is_jpeg_def)

section \<open>The authentication packet\<close>

lemma length_put_at: "off + length bs \<le> length packet \<Longrightarrow> length (put_at off bs packet) = length packet"
  by (simp add: put_at_def)

text \<open>The packet is 80 bytes: the two constants, the user name at 16 and the access code at 48, all else zero.\<close>

lemma handshake_packet_layout:
  assumes "validate_access_code access_code = Inr ()"
  shows "build_handshake_packet access_code = Inr (u32_le 64 @ u32_le 12288 @ replicate 8 0
    @ as_bytes LAN_USERNAME @ replicate 28 0 @ as_bytes access_code @ replicate 24 0)"
proof -
  from assms have "length access_code = 8"
    by (auto simp: validate_access_code_def split: if_splits)
  then show ?thesis
    using assms by (simp add: build_handshake_packet_def put_at_def Let_def)
qed

end
