(* ===== verification/Calendar.thy ===== *)
theory Calendar
  imports Prelude
begin

text \<open>
  The proleptic Gregorian calendar of \<open>src/ftps/parser.rs\<close>: days since 1970-01-01 to a civil date and
  back, month lengths, and timestamps advanced by seconds. Years are \<open>i32\<close>; the one cast that can
  wrap (\<open>as i32\<close> in \<open>civil_from_days\<close>) is written out, the day arithmetic is \<open>i64\<close> and cannot
  overflow from the values the crate feeds it. The two conversions are proved inverse.
\<close>

definition as_i32 :: "int \<Rightarrow> int" where
  "as_i32 x = (x + 2147483648) mod 4294967296 - 2147483648"

lemma as_i32_id [simp]: "-2147483648 \<le> x \<Longrightarrow> x < 2147483648 \<Longrightarrow> as_i32 x = x"
  by (simp add: as_i32_def)

record ftp_timestamp =
  ts_year :: int
  ts_month :: int
  ts_day :: int
  ts_hour :: int
  ts_minute :: int
  ts_second :: int

definition is_leap :: "int \<Rightarrow> bool" where
  "is_leap year \<longleftrightarrow> (year mod 4 = 0 \<and> year mod 100 \<noteq> 0) \<or> year mod 400 = 0"

definition days_in_month :: "int \<Rightarrow> int \<Rightarrow> int" where
  "days_in_month month year =
     (if month \<in> {1, 3, 5, 7, 8, 10, 12} then 31
      else if month \<in> {4, 6, 9, 11} then 30
      else if month = 2 then (if is_leap year then 29 else 28)
      else 31)"

definition civil_from_days :: "int \<Rightarrow> int \<times> int \<times> int" where
  "civil_from_days days =
     (let z = days + 719468;
          era = z div 146097;
          doe = z mod 146097;
          yoe = (doe - doe div 1460 + doe div 36524 - doe div 146096) div 365;
          doy = doe - (365 * yoe + yoe div 4 - yoe div 100);
          mp = (5 * doy + 2) div 153;
          day = doy - (153 * mp + 2) div 5 + 1;
          month = (if mp < 10 then mp + 3 else mp - 9);
          year = as_i32 (yoe + era * 400 + (if month \<le> 2 then 1 else 0))
      in (year, month, day))"

definition days_from_civil :: "int \<Rightarrow> int \<Rightarrow> int \<Rightarrow> int" where
  "days_from_civil year month day =
     (let y = year - (if month \<le> 2 then 1 else 0);
          era = y div 400;
          yoe = y mod 400;
          doy = (153 * (if month > 2 then month - 3 else month + 9) + 2) div 5 + day - 1;
          doe = yoe * 365 + yoe div 4 - yoe div 100 + doy
      in era * 146097 + doe - 719468)"

definition minutes_since_epoch :: "ftp_timestamp \<Rightarrow> int" where
  "minutes_since_epoch t =
     days_from_civil (ts_year t) (ts_month t) (ts_day t) * 1440 + ts_hour t * 60 + ts_minute t"

definition start_seconds :: "ftp_timestamp \<Rightarrow> int" where
  "start_seconds t = days_from_civil (ts_year t) (ts_month t) (ts_day t) * 86400
     + ts_hour t * 3600 + ts_minute t * 60 + ts_second t"

text \<open>\<open>saturating_add\<close> of \<open>i64\<close> after \<open>i64::try_from(secs).unwrap_or(i64::MAX)\<close>.\<close>

definition sat_add_i64 :: "int \<Rightarrow> nat \<Rightarrow> int" where
  "sat_add_i64 a n = min 9223372036854775807 (a + min 9223372036854775807 (int n))"

definition advance_timestamp :: "ftp_timestamp \<Rightarrow> nat \<Rightarrow> ftp_timestamp" where
  "advance_timestamp t secs =
     (let total = sat_add_i64 (start_seconds t) secs;
          secs_of_day = total mod 86400
      in case civil_from_days (total div 86400) of (year, month, day) \<Rightarrow>
           \<lparr>ts_year = year, ts_month = month, ts_day = day,
            ts_hour = secs_of_day div 3600, ts_minute = secs_of_day mod 3600 div 60,
            ts_second = secs_of_day mod 60\<rparr>)"

definition valid_date :: "int \<Rightarrow> int \<Rightarrow> int \<Rightarrow> bool" where
  "valid_date year month day \<longleftrightarrow> 1 \<le> month \<and> month \<le> 12 \<and> 1 \<le> day \<and> day \<le> days_in_month month year"

section \<open>The 400-year era\<close>

text \<open>
  A year of an era, counted from March, split into centuries, four-year cycles and years. The last
  day of a year is its 366th exactly when the February it ends with is a leap one.
\<close>

definition long_year :: "int \<Rightarrow> int \<Rightarrow> int \<Rightarrow> bool" where
  "long_year a c e \<longleftrightarrow> e = 3 \<and> (c \<noteq> 24 \<or> a = 3)"

definition in_era :: "int \<Rightarrow> int \<Rightarrow> int \<Rightarrow> int \<Rightarrow> bool" where
  "in_era a c e doy \<longleftrightarrow> 0 \<le> a \<and> a \<le> 3 \<and> 0 \<le> c \<and> c \<le> 24 \<and> 0 \<le> e \<and> e \<le> 3
     \<and> 0 \<le> doy \<and> doy \<le> (if long_year a c e then 365 else 364)"

lemma div_unique: "0 < d \<Longrightarrow> d * q \<le> x \<Longrightarrow> x < d * (q + 1) \<Longrightarrow> x div d = (q :: int)"
  by (metis add.commute int_div_pos_eq diff_ge_0_iff_ge diff_less_eq distrib_left mult.right_neutral
      add_diff_cancel_left' diff_add_cancel)

lemma year_of_era:
  assumes "in_era a c e doy"
  defines "doe \<equiv> 36524 * a + 1461 * c + 365 * e + doy"
  shows "(doe - doe div 1460 + doe div 36524 - doe div 146096) div 365 = 100 * a + 4 * c + e"
proof (cases "a = 3 \<and> c = 24 \<and> e = 3 \<and> doy = 365")
  case True
  then have "doe = 146096" by (simp add: doe_def)
  with True show ?thesis by simp
next
  case False
  note b = assms(1) [unfolded in_era_def]
  have r: "1461 * c + 365 * e + doy \<le> 36523"
    using b False by (auto simp: long_year_def split: if_splits)
  have lo: "0 \<le> 1461 * c + 365 * e + doy" using b by simp
  have d1: "doe div 36524 = a" using r lo by (intro div_unique) (simp_all add: doe_def)
  have d2: "doe div 146096 = 0" using r lo b by (intro div_unique) (simp_all add: doe_def)
  define k :: int where "k = (if 1460 \<le> 24 * a + c + 365 * e + doy then 1 else 0)"
  have doy: "doy \<le> 365" "doy = 365 \<Longrightarrow> e = 3" using b by (auto simp: long_year_def split: if_splits)
  have d3: "doe div 1460 = 25 * a + c + k"
    using b doy by (intro div_unique) (auto simp: doe_def k_def)
  have k: "0 \<le> doy - k" "doy - k \<le> 364"
    using b doy by (cases "doy = 365"; auto simp: k_def)+
  have "doe - doe div 1460 + doe div 36524 - doe div 146096 = 365 * (100 * a + 4 * c + e) + (doy - k)"
    unfolding d1 d2 d3 by (simp add: doe_def)
  also have "\<dots> div 365 = 100 * a + 4 * c + e" using k by (intro div_unique) simp_all
  finally show ?thesis .
qed

lemma div_bounds: "0 < d \<Longrightarrow> d * (x div d) \<le> x \<and> x < d * (x div d) + (d :: int)"
  using pos_mod_bound [of d x] pos_mod_sign [of d x] mult_div_mod_eq [of d x] by linarith

text \<open>Every day of an era is one day of one of its years.\<close>

lemma era_split:
  assumes "0 \<le> doe" "doe < 146097"
  obtains a c e doy where "in_era a c e doy" "doe = 36524 * a + 1461 * c + 365 * e + doy"
proof -
  define a where "a = min 3 (doe div 36524)"
  define r where "r = doe - 36524 * a"
  define c where "c = r div 1461"
  define rem where "rem = r - 1461 * c"
  define e where "e = min 3 (rem div 365)"
  have a: "0 \<le> a" "a \<le> 3" "0 \<le> r" "r \<le> 36524" "r = 36524 \<Longrightarrow> a = 3"
    using assms div_bounds [of 36524 doe] unfolding a_def r_def by (auto simp: min_def split: if_splits)
  have c: "0 \<le> c" "c \<le> 24" "0 \<le> rem" "rem \<le> 1460"
    using a div_bounds [of 1461 r] unfolding c_def rem_def by linarith+
  have e: "0 \<le> e" "e \<le> 3" "0 \<le> rem - 365 * e" "rem - 365 * e \<le> 365" "rem - 365 * e = 365 \<Longrightarrow> e = 3"
    using c div_bounds [of 365 rem] unfolding e_def by (auto simp: min_def split: if_splits)
  have l: "a = 3" if "rem - 365 * e = 365" "c = 24"
  proof -
    have "e = 3" using e(5) that(1) .
    with that have "r = 36524" by (simp add: rem_def)
    with a(5) show ?thesis .
  qed
  have "in_era a c e (rem - 365 * e)"
    using a c e l by (cases "rem - 365 * e = 365") (auto simp: in_era_def long_year_def)
  moreover have "doe = 36524 * a + 1461 * c + 365 * e + (rem - 365 * e)"
    by (simp add: rem_def r_def)
  ultimately show ?thesis by (rule that)
qed

section \<open>Months\<close>

text \<open>Months counted from March; the lengths of the first eleven do not depend on the year.\<close>

definition march_month :: "int \<Rightarrow> int" where
  "march_month mp = (if mp < 10 then mp + 3 else mp - 9)"

definition month_start :: "int \<Rightarrow> int" where
  "month_start mp = (153 * mp + 2) div 5"

lemma month_cases:
  assumes "0 \<le> mp" "mp \<le> 11"
  obtains "mp = 0" | "mp = 1" | "mp = 2" | "mp = 3" | "mp = 4" | "mp = 5"
    | "mp = 6" | "mp = 7" | "mp = 8" | "mp = 9" | "mp = 10" | "mp = (11 :: int)"
proof -
  have "mp = 0 \<or> mp = 1 \<or> mp = 2 \<or> mp = 3 \<or> mp = 4 \<or> mp = 5 \<or> mp = 6 \<or> mp = 7 \<or> mp = 8
      \<or> mp = 9 \<or> mp = 10 \<or> mp = 11"
    using assms by arith
  with that show thesis by blast
qed

lemma month_of_day:
  assumes "0 \<le> mp" "mp \<le> 11" "1 \<le> d" "d \<le> days_in_month (march_month mp) year"
  shows "(5 * (month_start mp + d - 1) + 2) div 153 = mp"
    and "month_start mp + d - 1 \<le> (if is_leap year then 365 else 364)"
  using assms
  by (cases rule: month_cases [OF assms(1,2)];
      auto simp: month_start_def march_month_def days_in_month_def split: if_splits intro: div_unique)+

lemma day_of_month:
  assumes "0 \<le> doy" "doy \<le> (if is_leap year then 365 else 364)"
  defines "mp \<equiv> (5 * doy + 2) div 153"
  shows "0 \<le> mp" "mp \<le> 11" "1 \<le> doy - month_start mp + 1"
    "doy - month_start mp + 1 \<le> days_in_month (march_month mp) year"
proof -
  have b: "153 * mp \<le> 5 * doy + 2" "5 * doy + 2 < 153 * mp + 153"
    using div_bounds [of 153 "5 * doy + 2"] by (simp_all add: mp_def)
  have doy: "doy \<le> 365" using assms(2) by (auto split: if_splits)
  show mp: "0 \<le> mp" "mp \<le> 11" using b assms(1) doy by linarith+
  show "1 \<le> doy - month_start mp + 1"
    using b by (cases rule: month_cases [OF mp]) (simp_all add: month_start_def)
  show "doy - month_start mp + 1 \<le> days_in_month (march_month mp) year"
    using b assms(2)
    by (cases rule: month_cases [OF mp])
      (auto simp: month_start_def march_month_def days_in_month_def split: if_splits)
qed

section \<open>The two conversions are inverse\<close>

lemma march_leap:
  assumes "0 \<le> a" "a \<le> 3" "0 \<le> c" "c \<le> 24" "0 \<le> e" "e \<le> 3"
  shows "is_leap (400 * era + (100 * a + 4 * c + e) + 1) \<longleftrightarrow> long_year a c e"
proof -
  let ?k = "100 * a + 4 * c + e + 1"
  have m: "(400 * era + (100 * a + 4 * c + e) + 1) mod 4 = ?k mod 4"
    "(400 * era + (100 * a + 4 * c + e) + 1) mod 100 = ?k mod 100"
    "(400 * era + (100 * a + 4 * c + e) + 1) mod 400 = ?k mod 400"
    using mod_mult_self1 [of ?k "100 * era" 4] mod_mult_self1 [of ?k "4 * era" 100]
      mod_mult_self1 [of ?k era 400]
    by (simp_all add: algebra_simps)
  have "is_leap (400 * era + (100 * a + 4 * c + e) + 1)
      \<longleftrightarrow> (?k mod 4 = 0 \<and> ?k mod 100 \<noteq> 0) \<or> ?k mod 400 = 0"
    by (simp add: is_leap_def m)
  also have "\<dots> \<longleftrightarrow> long_year a c e"
  proof -
    have z: "k mod n = 0 \<longleftrightarrow> k = n" if "1 \<le> k" "k \<le> n" for k n :: int
      using that by (cases "k = n") (simp_all add: mod_pos_pos_trivial)
    have "?k mod 4 = (e + 1) mod 4"
      using mod_mult_self1 [of "e + 1" "25 * a + c" 4] by (simp add: algebra_simps)
    then have 4: "?k mod 4 = 0 \<longleftrightarrow> e = 3" using assms z [of "e + 1" 4] by linarith
    have "?k mod 100 = (4 * c + e + 1) mod 100"
      using mod_mult_self1 [of "4 * c + e + 1" a 100] by (simp add: algebra_simps)
    then have 100: "?k mod 100 = 0 \<longleftrightarrow> c = 24 \<and> e = 3"
      using assms z [of "4 * c + e + 1" 100] by linarith
    have 400: "?k mod 400 = 0 \<longleftrightarrow> a = 3 \<and> c = 24 \<and> e = 3"
      using assms z [of ?k 400] by linarith
    show ?thesis unfolding 4 100 400 long_year_def by auto
  qed
  finally show ?thesis .
qed

lemma year_split:
  assumes "0 \<le> yoe" "yoe < 400"
  obtains a c e :: int where "0 \<le> a" "a \<le> 3" "0 \<le> c" "c \<le> 24" "0 \<le> e" "e \<le> 3"
    "yoe = 100 * a + 4 * c + e"
proof -
  define r where "r = yoe - 100 * (yoe div 100)"
  have r: "0 \<le> r" "r < 100" "0 \<le> yoe div 100" "yoe div 100 \<le> 3"
    using assms div_bounds [of 100 yoe] by (simp_all add: r_def)
  have e: "0 \<le> r - 4 * (r div 4)" "r - 4 * (r div 4) \<le> 3" "0 \<le> r div 4" "r div 4 \<le> 24"
    using r div_bounds [of 4 r] by linarith+
  show ?thesis
    by (rule that [OF r(3,4) e(3,4) e(1,2)]) (simp add: r_def)
qed

lemma leap_days:
  assumes "0 \<le> a" "a \<le> 3" "0 \<le> c" "c \<le> 24" "0 \<le> e" "e \<le> (3 :: int)"
  shows "(100 * a + 4 * c + e) div 4 = 25 * a + c" "(100 * a + 4 * c + e) div 100 = a"
  using assms by (auto intro: div_unique)

lemma div_mod_unique:
  assumes "0 \<le> r" "r < (n :: int)"
  shows "(r + q * n) div n = q" "(r + q * n) mod n = r"
  using assms by (simp_all add: mod_pos_pos_trivial div_pos_pos_trivial)

lemma civil_from_days_split:
  assumes "in_era a c e doy" "z = era * 146097 + (36524 * a + 1461 * c + 365 * e + doy) - 719468"
  defines "mp \<equiv> (5 * doy + 2) div 153"
  shows "civil_from_days z =
    (as_i32 (100 * a + 4 * c + e + era * 400 + (if march_month mp \<le> 2 then 1 else 0)),
     march_month mp, doy - month_start mp + 1)"
proof -
  let ?doe = "36524 * a + 1461 * c + 365 * e + doy"
  have doe: "0 \<le> ?doe" "?doe < 146097"
    using assms(1) by (auto simp: in_era_def long_year_def split: if_splits)
  have e: "z + 719468 = ?doe + era * 146097" using assms(2) by simp
  have z: "(z + 719468) div 146097 = era" "(z + 719468) mod 146097 = ?doe"
    unfolding e by (rule div_mod_unique [OF doe])+
  note y = year_of_era [OF assms(1)]
  have d: "?doe - (365 * (100 * a + 4 * c + e) + (100 * a + 4 * c + e) div 4 - (100 * a + 4 * c + e) div 100) = doy"
    using assms(1) leap_days [of a c e] by (simp add: in_era_def)
  show ?thesis
    unfolding civil_from_days_def Let_def z y d mp_def march_month_def month_start_def ..
qed

lemma days_from_civil_split:
  assumes "0 \<le> a" "a \<le> 3" "0 \<le> c" "c \<le> 24" "0 \<le> e" "e \<le> 3" "0 \<le> mp" "mp \<le> 11"
    "year = 100 * a + 4 * c + e + era * 400 + (if march_month mp \<le> 2 then 1 else 0)"
  shows "days_from_civil year (march_month mp) day =
    era * 146097 + (36524 * a + 1461 * c + 365 * e + (month_start mp + day - 1)) - 719468"
proof -
  let ?yoe = "100 * a + 4 * c + e"
  have y: "year - (if march_month mp \<le> 2 then 1 else 0) = ?yoe + era * 400" using assms(9) by simp
  have b: "0 \<le> ?yoe" "?yoe < 400" using assms(1-6) by simp_all
  have yoe: "(?yoe + era * 400) div 400 = era" "(?yoe + era * 400) mod 400 = ?yoe"
    by (rule div_mod_unique [OF b])+
  have m: "(153 * (if march_month mp > 2 then march_month mp - 3 else march_month mp + 9) + 2) div 5
      = month_start mp"
    using assms(7,8) by (simp add: march_month_def month_start_def)
  show ?thesis
    unfolding days_from_civil_def Let_def y yoe m using leap_days [of a c e] assms(1-6) by simp
qed

text \<open>
  From days to a date and back: every day number whose year fits \<open>i32\<close> is the number of the date it
  is converted to, and that date exists.
\<close>

lemma civil_from_days_inverse:
  assumes "\<bar>z\<bar> \<le> 780000000000" "civil_from_days z = (y, m, d)"
  shows "days_from_civil y m d = z" "valid_date y m d"
proof -
  define era doe where "era = (z + 719468) div 146097" and "doe = (z + 719468) mod 146097"
  have zz: "z = era * 146097 + doe - 719468" "0 \<le> doe" "doe < 146097"
    using div_bounds [of 146097 "z + 719468"] by (simp_all add: era_def doe_def)
  obtain a c e doy where s: "in_era a c e doy" "doe = 36524 * a + 1461 * c + 365 * e + doy"
    using era_split zz(2,3) by blast
  note r = s(1) [unfolded in_era_def]
  define mp where "mp = (5 * doy + 2) div 153"
  let ?year = "100 * a + 4 * c + e + era * 400 + (if march_month mp \<le> 2 then 1 else 0)"
  have "\<bar>era\<bar> \<le> 5338930" using zz assms(1) by linarith
  then have i32: "-2147483648 \<le> ?year" "?year < 2147483648" using r by auto
  have ymd: "y = ?year" "m = march_month mp" "d = doy - month_start mp + 1"
    using civil_from_days_split [OF s(1), of z era, folded mp_def, unfolded as_i32_id [OF i32]] zz(1) s(2) assms(2)
    by (auto simp del: if_split)
  have leap: "is_leap (400 * era + (100 * a + 4 * c + e) + 1) \<longleftrightarrow> long_year a c e"
    using r by (intro march_leap) simp_all
  note dm = day_of_month [of doy "400 * era + (100 * a + 4 * c + e) + 1", folded mp_def]
  have doy: "0 \<le> doy" "doy \<le> (if is_leap (400 * era + (100 * a + 4 * c + e) + 1) then 365 else 364)"
    using r unfolding leap by simp_all
  note dm = dm [OF doy]
  have same: "days_in_month (march_month mp) y = days_in_month (march_month mp) (400 * era + (100 * a + 4 * c + e) + 1)"
    using dm(1,2) by (auto simp: days_in_month_def ymd(1) march_month_def ac_simps)
  show "valid_date y m d"
    using dm unfolding valid_date_def same ymd(2,3) by (simp add: march_month_def)
  show "days_from_civil y m d = z"
    using days_from_civil_split [of a c e mp ?year era d] r dm(1,2) ymd zz(1) s(2) by simp
qed

text \<open>From a date to days and back.\<close>

lemma days_from_civil_inverse:
  assumes "valid_date y m d" "-2147483648 \<le> y" "y < 2147483648"
  shows "civil_from_days (days_from_civil y m d) = (y, m, d)"
proof -
  define mp where "mp = (if m > 2 then m - 3 else m + 9)"
  have m: "march_month mp = m" "0 \<le> mp" "mp \<le> 11"
    using assms(1) by (auto simp: mp_def march_month_def valid_date_def)
  define y' where "y' = y - (if m \<le> 2 then 1 else 0)"
  define era yoe where "era = y' div 400" and "yoe = y' mod 400"
  have yy: "y' = yoe + era * 400" "0 \<le> yoe" "yoe < 400"
    by (simp_all add: era_def yoe_def)
  obtain a c e where s: "0 \<le> a" "a \<le> 3" "0 \<le> c" "c \<le> 24" "0 \<le> e" "e \<le> 3"
    "yoe = 100 * a + 4 * c + e"
    using year_split yy(2,3) by blast
  let ?y1 = "400 * era + (100 * a + 4 * c + e) + 1"
  have year: "y = 100 * a + 4 * c + e + era * 400 + (if march_month mp \<le> 2 then 1 else 0)"
    using yy(1) s(7) unfolding m(1) y'_def by simp
  have "d \<le> days_in_month (march_month mp) ?y1" "1 \<le> d"
  proof -
    have "days_in_month m y = days_in_month m ?y1"
      using year m(1) by (auto simp: days_in_month_def ac_simps)
    with assms(1) m(1) show "d \<le> days_in_month (march_month mp) ?y1" "1 \<le> d"
      by (simp_all add: valid_date_def)
  qed
  note md = month_of_day [OF m(2,3) this(2,1)]
  have lo: "0 \<le> month_start mp + d - 1"
    using m(2) \<open>1 \<le> d\<close> by (simp add: month_start_def)
  have "in_era a c e (month_start mp + d - 1)"
    using s md(2) lo march_leap [OF s(1-6), of era] by (simp add: in_era_def)
  from civil_from_days_split [OF this, of _ era]
    days_from_civil_split [OF s(1-6) m(2,3) year, of d] year md(1) m(1) assms(2,3)
  show ?thesis by simp
qed

definition valid_timestamp :: "ftp_timestamp \<Rightarrow> bool" where
  "valid_timestamp t \<longleftrightarrow> valid_date (ts_year t) (ts_month t) (ts_day t)
     \<and> 0 \<le> ts_hour t \<and> ts_hour t \<le> 23 \<and> 0 \<le> ts_minute t \<and> ts_minute t \<le> 59
     \<and> 0 \<le> ts_second t \<and> ts_second t \<le> 59"

text \<open>The conversions between day numbers and civil dates are inverse to each other: a date survives the
  trip through its day number, and every day number whose year fits \<open>i32\<close> is that of an existing date.\<close>

theorem calendar_roundtrip:
  assumes "valid_date y m d" "-2147483648 \<le> y" "y < 2147483648" "\<bar>z\<bar> \<le> 780000000000"
  shows "civil_from_days (days_from_civil y m d) = (y, m, d)
    \<and> (case civil_from_days z of (y', m', d') \<Rightarrow> days_from_civil y' m' d' = z \<and> valid_date y' m' d')"
  using days_from_civil_inverse [OF assms(1-3)] civil_from_days_inverse [OF assms(4)]
  by (auto split: prod.splits)

theorem calendar_roundtrip_witness:
  "civil_from_days (days_from_civil 2024 2 29) = (2024, 2, 29)
   \<and> (case civil_from_days 20513 of (y, m, d) \<Rightarrow> days_from_civil y m d = 20513 \<and> valid_date y m d)"
  using calendar_roundtrip [of 2024 2 29 20513]
  by (simp add: valid_date_def days_in_month_def is_leap_def)

lemma time_of_day:
  assumes "0 \<le> k" "k < (86400 :: int)"
  shows "k div 3600 * 3600 + k mod 3600 div 60 * 60 + k mod 60 = k" "k div 3600 \<le> 23" "0 \<le> k div 3600"
    "k mod 3600 div 60 \<le> 59" "0 \<le> k mod 3600 div 60" "k mod 60 \<le> 59" "0 \<le> k mod 60"
proof -
  define h r where "h = k div 3600" and "r = k mod 3600"
  define m s where "m = r div 60" and "s = r mod 60"
  have h: "k = 3600 * h + r" "0 \<le> r" "r < 3600" by (simp_all add: h_def r_def)
  have m: "r = 60 * m + s" "0 \<le> s" "s < 60" by (simp_all add: m_def s_def)
  have s: "k mod 60 = s" unfolding s_def r_def by (simp add: mod_mod_cancel)
  have f: "h * 3600 + m * 60 + s = k" "h \<le> 23" "0 \<le> h" "m \<le> 59" "0 \<le> m" "s \<le> 59"
    using h m assms by linarith+
  show "k div 3600 * 3600 + k mod 3600 div 60 * 60 + k mod 60 = k" "k div 3600 \<le> 23" "0 \<le> k div 3600"
    "k mod 3600 div 60 \<le> 59" "0 \<le> k mod 3600 div 60" "k mod 60 \<le> 59" "0 \<le> k mod 60"
    unfolding s h_def [symmetric] r_def [symmetric] m_def [symmetric] using f m(2) by simp_all
qed

lemma start_seconds_at:
  "start_seconds \<lparr>ts_year = y, ts_month = m, ts_day = d, ts_hour = h, ts_minute = mi, ts_second = se\<rparr>
     = days_from_civil y m d * 86400 + h * 3600 + mi * 60 + se"
  by (simp add: start_seconds_def)

text \<open>Advancing the printer's clock adds exactly the elapsed seconds, carrying into days, months and years,
  and always lands on a time that exists.\<close>

theorem advance_timestamp_adds:
  assumes "\<bar>start_seconds t\<bar> \<le> 30000000000000000" "secs \<le> 30000000000000000"
  shows "start_seconds (advance_timestamp t secs) = start_seconds t + int secs
    \<and> valid_timestamp (advance_timestamp t secs)"
proof -
  let ?total = "start_seconds t + int secs"
  have sat: "sat_add_i64 (start_seconds t) secs = ?total"
    using assms by (simp add: sat_add_i64_def)
  have days: "\<bar>?total div 86400\<bar> \<le> 780000000000"
    using div_bounds [of 86400 ?total] assms by linarith
  obtain y m d where c: "civil_from_days (?total div 86400) = (y, m, d)" by (metis prod_cases3)
  note inv = civil_from_days_inverse [OF days c]
  have sod: "0 \<le> ?total mod 86400" "?total mod 86400 < 86400" by simp_all
  note tod = time_of_day [OF sod]
  have "start_seconds (advance_timestamp t secs) = ?total div 86400 * 86400 + ?total mod 86400"
  proof -
    have "start_seconds (advance_timestamp t secs) = days_from_civil y m d * 86400
        + ?total mod 86400 div 3600 * 3600 + ?total mod 86400 mod 3600 div 60 * 60 + ?total mod 86400 mod 60"
      unfolding advance_timestamp_def Let_def sat c prod.case start_seconds_at ..
    with inv(1) tod(1) show ?thesis by linarith
  qed
  moreover have "valid_timestamp (advance_timestamp t secs)"
    unfolding advance_timestamp_def Let_def sat c prod.case valid_timestamp_def ftp_timestamp.simps
    using inv(2) tod by blast
  ultimately show ?thesis by (metis div_mult_mod_eq)
qed

theorem advance_timestamp_adds_witness:
  "start_seconds (advance_timestamp
      \<lparr>ts_year = 2024, ts_month = 12, ts_day = 31, ts_hour = 23, ts_minute = 59, ts_second = 30\<rparr> 45)
    = 1735689615"
  using advance_timestamp_adds [of
      "\<lparr>ts_year = 2024, ts_month = 12, ts_day = 31, ts_hour = 23, ts_minute = 59, ts_second = 30\<rparr>" 45]
  by (simp add: start_seconds_at days_from_civil_def)

end
