(* ===== verification/FtpsListing.thy ===== *)
theory FtpsListing
  imports Calendar FtpProtocol
begin

text \<open>
  The directory listing parser of \<open>src/ftps/parser.rs\<close>: tokens separated by white space, the month
  table, \<open>MDTM\<close> timestamps, and one \<open>LIST\<close> line with the inference of the year a listing leaves out.
\<close>

abbreviation (input) FTP_MAX_LISTING_ENTRIES :: nat where "FTP_MAX_LISTING_ENTRIES \<equiv> 65536"

record ftp_file =
  ff_name :: string
  ff_is_dir :: bool
  ff_size :: nat
  ff_modified :: ftp_timestamp
  ff_year_is_inferred :: bool

record current_date_time =
  cd_year :: int
  cd_month :: int
  cd_day :: int
  cd_hour :: int
  cd_minute :: int

definition as_timestamp :: "current_date_time \<Rightarrow> ftp_timestamp" where
  "as_timestamp clk = \<lparr>ts_year = cd_year clk, ts_month = cd_month clk, ts_day = cd_day clk,
     ts_hour = cd_hour clk, ts_minute = cd_minute clk, ts_second = 0\<rparr>"

definition current_of_timestamp :: "ftp_timestamp \<Rightarrow> current_date_time" where
  "current_of_timestamp t = \<lparr>cd_year = ts_year t, cd_month = ts_month t, cd_day = ts_day t,
     cd_hour = ts_hour t, cd_minute = ts_minute t\<rparr>"

section \<open>Tokens\<close>

definition MONTH_ABBREVIATIONS :: "string list" where
  "MONTH_ABBREVIATIONS =
     [''Jan'', ''Feb'', ''Mar'', ''Apr'', ''May'', ''Jun'', ''Jul'', ''Aug'', ''Sep'', ''Oct'', ''Nov'', ''Dec'']"

definition parse_month :: "string \<Rightarrow> int option" where
  "parse_month month =
     map_option (\<lambda>i. int i + 1) (position (\<lambda>m. eq_ignore_ascii_case m month) MONTH_ABBREVIATIONS)"

text \<open>Where the first white-space character begins; the length of the string when there is none.\<close>

definition white_first :: "string \<Rightarrow> bool" where
  "white_first s \<longleftrightarrow> list_ex (\<lambda>w. take (length w) s = w) white_space"

fun white_pos :: "string \<Rightarrow> nat" where
  "white_pos [] = 0"
| "white_pos (c # cs) = (if white_first (c # cs) then 0 else Suc (white_pos cs))"

definition next_token :: "string \<Rightarrow> (string \<times> string) option" where
  "next_token s =
     (let trimmed = trim_start s; n = white_pos trimmed
      in if trimmed = [] then None else Some (take n trimmed, drop n trimmed))"

text \<open>\<open>take(&mut rest)\<close>: the token and the new rest, which is the old one when there is no token.\<close>

definition take_token :: "string \<Rightarrow> string option \<times> string" where
  "take_token rest = (case next_token rest of None \<Rightarrow> (None, rest) | Some (tok, r) \<Rightarrow> (Some tok, r))"

definition skip_token :: "string \<Rightarrow> string" where
  "skip_token rest = snd (take_token rest)"

section \<open>Timestamps\<close>

text \<open>\<open>str::parse::<i32>\<close>: an optional sign and at least one digit, within the range.\<close>

definition parse_i32 :: "string \<Rightarrow> int option" where
  "parse_i32 s =
     (case s of
        [] \<Rightarrow> None
      | c # cs \<Rightarrow>
          if c = CHR ''-'' then
            (if cs = [] \<or> \<not> list_all is_ascii_digit cs \<or> digits_value cs > 2147483648 then None
             else Some (- int (digits_value cs)))
          else map_option int (parse_unsigned 2147483648 s))"

definition parse_mdtm_timestamp :: "string \<Rightarrow> ftp_timestamp option" where
  "parse_mdtm_timestamp body =
     (let digits = takeWhile (\<lambda>c. c \<noteq> CHR ''.'') (trim body);
          field = (\<lambda>a b. int (digits_value (take (b - a) (drop a digits))));
          year = field 0 4; month = field 4 6; day = field 6 8;
          hour = field 8 10; minute = field 10 12; sec = field 12 14
      in if length digits \<noteq> 14 \<or> \<not> list_all is_ascii_digit digits then None
         else if \<not> (2000 \<le> year \<and> year \<le> 9999) \<or> \<not> (1 \<le> month \<and> month \<le> 12) \<or> day < 1
           \<or> day > days_in_month month year \<or> hour > 23 \<or> minute > 59 \<or> sec > 60
         then None
         else Some \<lparr>ts_year = year, ts_month = month, ts_day = day,
                ts_hour = hour, ts_minute = minute, ts_second = sec\<rparr>)"

section \<open>Listing lines\<close>

text \<open>The hour and minute of a column with a colon: its first two parts.\<close>

definition clock_of :: "string \<Rightarrow> (int \<times> int) option" where
  "clock_of tok =
     (case split_on (\<lambda>c. c = CHR '':'') tok of
        h # m # _ \<Rightarrow>
          (case (parse_u8 h, parse_u8 m) of
             (Some hour, Some minute) \<Rightarrow>
               if hour > 23 \<or> minute > 59 then None else Some (int hour, int minute)
           | _ \<Rightarrow> None)
      | _ \<Rightarrow> None)"

definition listing_time :: "int \<Rightarrow> int \<Rightarrow> int \<Rightarrow> int \<Rightarrow> int \<Rightarrow> ftp_timestamp" where
  "listing_time year month day hour minute =
     \<lparr>ts_year = year, ts_month = month, ts_day = day, ts_hour = hour, ts_minute = minute, ts_second = 0\<rparr>"

text \<open>The reference year or the one before, whichever puts the entry nearer to the reference.\<close>

definition infer_year :: "current_date_time \<Rightarrow> int \<Rightarrow> int \<Rightarrow> int \<Rightarrow> int \<Rightarrow> int" where
  "infer_year clk month day hour minute =
     (let reference = minutes_since_epoch (as_timestamp clk);
          ahead = minutes_since_epoch (listing_time (cd_year clk) month day hour minute) - reference;
          behind = reference - minutes_since_epoch (listing_time (cd_year clk - 1) month day hour minute)
      in if behind < ahead then cd_year clk - 1 else cd_year clk)"

definition explicit_year :: "string \<Rightarrow> int option" where
  "explicit_year tok =
     (case parse_i32 tok of
        Some y \<Rightarrow> if 2000 \<le> y \<and> y \<le> 9999 then Some y else None
      | None \<Rightarrow> None)"

text \<open>The year an entry ends up in, when its day exists there; a 29 February falls back one year.\<close>

definition settle_year :: "current_date_time \<Rightarrow> bool \<Rightarrow> int \<Rightarrow> int \<Rightarrow> int \<Rightarrow> int option" where
  "settle_year clk inferred month day year =
     (if day > days_in_month month year then
        (let earlier = cd_year clk - 1
         in if inferred \<and> year = cd_year clk \<and> day \<le> days_in_month month earlier then Some earlier else None)
      else Some year)"

definition parse_entry :: "string \<Rightarrow> string \<Rightarrow> nat \<Rightarrow> int \<Rightarrow> int \<Rightarrow> string \<Rightarrow> current_date_time \<Rightarrow> ftp_file option" where
  "parse_entry perms name file_size month day time_or_year clk =
     (let inferred = CHR '':'' \<in> set time_or_year
      in case (if inferred then clock_of time_or_year else Some (0, 0)) of
           None \<Rightarrow> None
         | Some (hour, minute) \<Rightarrow>
             (case (if inferred then Some (infer_year clk month day hour minute) else explicit_year time_or_year) of
                None \<Rightarrow> None
              | Some year \<Rightarrow>
                  map_option (\<lambda>y. \<lparr>ff_name = name, ff_is_dir = (take 1 perms = ''d''), ff_size = file_size,
                    ff_modified = listing_time y month day hour minute, ff_year_is_inferred = inferred\<rparr>)
                    (settle_year clk inferred month day year)))"

definition strip_separator :: "string \<Rightarrow> string" where
  "strip_separator rest =
     (case rest of [] \<Rightarrow> [] | c # cs \<Rightarrow> if c = CHR '' '' \<or> code c = 9 then cs else rest)"

definition parse_day :: "string \<Rightarrow> int option" where
  "parse_day s = (case parse_u8 s of Some d \<Rightarrow> if 1 \<le> d \<and> d \<le> 31 then Some (int d) else None | None \<Rightarrow> None)"

definition parse_listing_line :: "string \<Rightarrow> current_date_time \<Rightarrow> ftp_file option" where
  "parse_listing_line line clk =
     (let trimmed = trim_start line
      in if trim_end trimmed = [] then None
         else case take_token trimmed of
           (None, _) \<Rightarrow> None
         | (Some perms, r0) \<Rightarrow>
             (case take_token (skip_token (skip_token (skip_token r0))) of
                (size_str, r1) \<Rightarrow>
             (case Option.bind size_str parse_u64 of
                None \<Rightarrow> None
              | Some file_size \<Rightarrow>
             (case take_token r1 of
                (None, _) \<Rightarrow> None
              | (Some month_str, r2) \<Rightarrow>
             (case take_token r2 of
                (None, _) \<Rightarrow> None
              | (Some day_str, r3) \<Rightarrow>
             (case take_token r3 of
                (None, _) \<Rightarrow> None
              | (Some time_or_year, r4) \<Rightarrow>
                  let name = strip_separator r4
                  in if name = [] then None
                     else if validate_ftp_path_bytes name \<noteq> Inr () then None
                     else case parse_month month_str of
                       None \<Rightarrow> None
                     | Some month \<Rightarrow>
                         (case parse_day day_str of
                            None \<Rightarrow> None
                          | Some day \<Rightarrow> parse_entry perms name file_size month day time_or_year clk)))))))"

text \<open>\<open>str::lines\<close>: split at line feeds; a line feed's own \<open>\r\<close> goes with it, and what follows the last line
  feed is a line unless it is empty.\<close>

definition strip_cr :: "string \<Rightarrow> string" where
  "strip_cr l = (if l \<noteq> [] \<and> code (last l) = 13 then butlast l else l)"

definition str_lines :: "string \<Rightarrow> string list" where
  "str_lines payload =
     (let ps = split_on (\<lambda>c. code c = 10) payload
      in map strip_cr (butlast ps) @ (if last ps = [] then [] else [last ps]))"

definition parse_unix_listing :: "string \<Rightarrow> current_date_time \<Rightarrow> ftp_file list" where
  "parse_unix_listing payload clk =
     take FTP_MAX_LISTING_ENTRIES (List.map_filter (\<lambda>l. parse_listing_line l clk) (str_lines payload))"

end
