(* ===== verification/FtpsListingProps.thy ===== *)
theory FtpsListingProps
  imports FtpsListing
begin

text \<open>
  What a parsed listing entry is: a name that is safe to print, a date that exists, the year nearest to
  the reference when the line names none; and that a well-formed line is read back field by field.
\<close>

section \<open>Day numbers are ordered as dates are\<close>

text \<open>Day numbers counted by years that begin in March.\<close>

definition march_year :: "int \<Rightarrow> int \<Rightarrow> int" where
  "march_year year month = year - (if month \<le> 2 then 1 else 0)"

definition march_index :: "int \<Rightarrow> int" where
  "march_index month = (if month > 2 then month - 3 else month + 9)"

definition year_days :: "int \<Rightarrow> int" where
  "year_days y = 365 * y + y div 4 - y div 100 + y div 400"

lemma era_days:
  "y div 400 * 146097 + ((y mod 400) * 365 + (y mod 400) div 4 - (y mod 400) div 100) = year_days y"
proof -
  define q r where "q = y div 400" and "r = y mod 400"
  have y: "y = r + q * 400" "0 \<le> r" "r < 400" by (simp_all add: q_def r_def)
  have "y div 4 = r div 4 + 100 * q" "y div 100 = r div 100 + 4 * q"
    using y(1) div_mult_self1 [of 4 r "100 * q"] div_mult_self1 [of 100 r "4 * q"] by (simp_all add: ac_simps)
  then show ?thesis
    unfolding year_days_def q_def [symmetric] r_def [symmetric] using y(1) by simp
qed

lemma days_from_civil_alt:
  "days_from_civil year month day =
     year_days (march_year year month) + (month_start (march_index month) + day - 1) - 719468"
  using era_days [of "march_year year month"]
  by (simp add: days_from_civil_def march_year_def march_index_def month_start_def Let_def)

lemma year_days_step:
  "year_days y + 365 + (if is_leap (y + 1) then 1 else 0) = year_days (y + 1)"
proof -
  have d: "(y + 1) div n = y div n + (if (y + 1) mod n = 0 then 1 else 0)" if "0 < n" for n
  proof (cases "(y + 1) mod n = 0")
    case True
    then obtain k where k: "y + 1 = n * k" by (auto simp: mod_eq_0_iff_dvd dvd_def)
    have "y div n = k - 1" using that k by (intro div_unique) (simp_all add: algebra_simps)
    moreover have "(y + 1) div n = k" unfolding k using that by simp
    ultimately show ?thesis using True by simp
  next
    case False
    define q r where "q = y div n" and "r = y mod n"
    have y: "y = n * q + r" "0 \<le> r" "r < n" using that by (simp_all add: q_def r_def)
    have "r + 1 \<noteq> n"
    proof
      assume "r + 1 = n"
      then have "y + 1 = n * (q + 1)" using y(1) by (simp add: algebra_simps)
      with False show False by simp
    qed
    then have "(y + 1) div n = q"
      using that y by (intro div_unique) (simp_all add: algebra_simps)
    with False show ?thesis by (simp add: q_def)
  qed
  have m: "(y + 1) mod 400 = 0 \<Longrightarrow> (y + 1) mod 100 = 0" "(y + 1) mod 100 = 0 \<Longrightarrow> (y + 1) mod 4 = 0"
    using dvd_trans [of 100 400 "y + 1"] dvd_trans [of 4 100 "y + 1"] by (simp_all add: mod_eq_0_iff_dvd)
  show ?thesis
    unfolding year_days_def d [of 4, simplified] d [of 100, simplified] d [of 400, simplified]
    using m by (auto simp: is_leap_def)
qed

lemma year_days_le: "0 \<le> k \<Longrightarrow> year_days y + 365 * k \<le> year_days (y + k)"
proof (induction k rule: int_ge_induct)
  case (step k)
  have "year_days (y + k) + 365 \<le> year_days (y + k + 1)"
    using year_days_step [of "y + k"] by (auto split: if_splits)
  with step show ?case by (simp add: algebra_simps)
qed simp

lemma march_month_index: "1 \<le> m \<Longrightarrow> m \<le> 12 \<Longrightarrow> march_month (march_index m) = m"
  by (simp add: march_month_def march_index_def)

text \<open>The day of its March year a valid date is, and the bound the next year starts after.\<close>

lemma valid_day_of_year:
  assumes "valid_date y m d"
  shows "0 \<le> month_start (march_index m) + d - 1"
    "year_days (march_year y m) + (month_start (march_index m) + d - 1) < year_days (march_year y m + 1)"
proof -
  have m: "1 \<le> m" "m \<le> 12" "1 \<le> d" "d \<le> days_in_month m y" using assms by (simp_all add: valid_date_def)
  have i: "0 \<le> march_index m" "march_index m \<le> 11" using m by (simp_all add: march_index_def)
  show "0 \<le> month_start (march_index m) + d - 1" using i m(3) by (simp add: month_start_def)
  have "days_in_month m y = days_in_month m (march_year y m + 1)"
    by (simp add: days_in_month_def march_year_def)
  then have "d \<le> days_in_month (march_month (march_index m)) (march_year y m + 1)"
    using m march_month_index [of m] by simp
  from month_of_day(2) [OF i m(3) this]
  show "year_days (march_year y m) + (month_start (march_index m) + d - 1) < year_days (march_year y m + 1)"
    using year_days_step [of "march_year y m"] by (auto split: if_splits)
qed

lemma year_before:
  assumes "valid_date y1 m1 d1" "valid_date y2 m2 d2" "y1 < y2"
  shows "days_from_civil y1 m1 d1 < days_from_civil y2 m2 d2"
proof -
  note v1 = valid_day_of_year [OF assms(1)] and v2 = valid_day_of_year [OF assms(2)]
  show ?thesis
  proof (cases "march_year y1 m1 < march_year y2 m2")
    case True
    then have "year_days (march_year y1 m1 + 1) \<le> year_days (march_year y2 m2)"
      using year_days_le [of "march_year y2 m2 - (march_year y1 m1 + 1)" "march_year y1 m1 + 1"] by simp
    with v1(2) v2(1) show ?thesis unfolding days_from_civil_alt by linarith
  next
    case False
    with assms(3) have my: "march_year y1 m1 = march_year y2 m2" "m1 > 2" "m2 \<le> 2"
      by (auto simp: march_year_def split: if_splits)
    have m: "3 \<le> m1" "m1 \<le> 12" "1 \<le> m2" "d1 \<le> 31" "1 \<le> d2" using assms my
      by (auto simp: valid_date_def days_in_month_def split: if_splits)
    have "month_start (march_index m1) + d1 - 1 < month_start (march_index m2) + d2 - 1"
    proof -
      have "(153 * (m1 - 3) + 2) div 5 \<le> 275" using zdiv_mono1 [of "153 * (m1 - 3) + 2" 1379 5] m by simp
      moreover have "306 \<le> (153 * (m2 + 9) + 2) div 5" using zdiv_mono1 [of 1532 "153 * (m2 + 9) + 2" 5] m by simp
      ultimately show ?thesis using m my(2,3) unfolding month_start_def march_index_def by simp
    qed
    then show ?thesis unfolding days_from_civil_alt my(1) by simp
  qed
qed

lemma minutes_year_before:
  assumes "valid_date y1 m1 d1" "valid_date y2 m2 d2" "y1 < y2"
    "h1 * 60 + i1 < 1440" "0 \<le> h2" "0 \<le> i2"
  shows "minutes_since_epoch (listing_time y1 m1 d1 h1 i1) < minutes_since_epoch (listing_time y2 m2 d2 h2 i2)"
  using year_before [OF assms(1-3)] assms(4-6)
  by (simp add: minutes_since_epoch_def listing_time_def)

section \<open>What an entry is\<close>

lemma clock_of_bounds:
  "clock_of tok = Some (h, m) \<Longrightarrow> 0 \<le> h \<and> h \<le> 23 \<and> 0 \<le> m \<and> m \<le> 59"
  by (auto simp: clock_of_def split: list.splits option.splits if_splits)

lemma explicit_year_bounds: "explicit_year tok = Some y \<Longrightarrow> 2000 \<le> y \<and> y \<le> 9999"
  by (auto simp: explicit_year_def split: option.splits if_splits)

lemma parse_month_bounds: "parse_month s = Some m \<Longrightarrow> 1 \<le> m \<and> m \<le> 12"
proof -
  assume "parse_month s = Some m"
  then obtain i where i: "position (\<lambda>x. eq_ignore_ascii_case x s) MONTH_ABBREVIATIONS = Some i" "m = int i + 1"
    by (auto simp: parse_month_def)
  have "i < length MONTH_ABBREVIATIONS" using position_SomeD [OF i(1)] by blast
  then show "1 \<le> m \<and> m \<le> 12" using i(2) by (simp add: MONTH_ABBREVIATIONS_def)
qed

lemma parse_day_bounds: "parse_day s = Some d \<Longrightarrow> 1 \<le> d \<and> d \<le> 31"
  by (auto simp: parse_day_def split: option.splits if_splits)

lemma settle_year_cases:
  "settle_year clk inferred m d y = Some y' \<Longrightarrow>
     d \<le> days_in_month m y' \<and>
     (y' = y \<or> inferred \<and> y = cd_year clk \<and> y' = cd_year clk - 1 \<and> d > days_in_month m y)"
  by (auto simp: settle_year_def Let_def split: if_splits)

lemma infer_year_cases: "infer_year clk m d h i = cd_year clk \<or> infer_year clk m d h i = cd_year clk - 1"
  by (simp add: infer_year_def Let_def)

lemma parse_listing_lineD:
  assumes "parse_listing_line line clk = Some f"
  obtains perms name file_size month day tok where
    "parse_entry perms name file_size month day tok clk = Some f" "name \<noteq> []"
    "validate_ftp_path_bytes name = Inr ()" "1 \<le> month" "month \<le> 12" "1 \<le> day" "day \<le> 31"
    "file_size < 18446744073709551616"
  using assms unfolding parse_listing_line_def Let_def
  by (auto simp: bind_eq_Some_conv split: if_splits option.splits prod.splits
      dest!: parse_unsigned_bound parse_month_bounds parse_day_bounds intro: that)

lemma parse_entryD:
  assumes "parse_entry perms name file_size month day tok clk = Some f"
  obtains hour minute year y where
    "f = \<lparr>ff_name = name, ff_is_dir = (take 1 perms = ''d''), ff_size = file_size,
       ff_modified = listing_time y month day hour minute, ff_year_is_inferred = (CHR '':'' \<in> set tok)\<rparr>"
    "0 \<le> hour" "hour \<le> 23" "0 \<le> minute" "minute \<le> 59"
    "if CHR '':'' \<in> set tok then year = infer_year clk month day hour minute
       else 2000 \<le> year \<and> year \<le> 9999"
    "settle_year clk (CHR '':'' \<in> set tok) month day year = Some y"
  using assms unfolding parse_entry_def Let_def
  by (auto split: if_splits option.splits prod.splits
      dest!: clock_of_bounds explicit_year_bounds intro: that)

text \<open>C37. Every entry a listing line yields is well formed: its name is not empty and holds no control
  character, its size fits 64 bits, its date exists and its time is one of the clock, and its year is
  the one the line names (2000 to 9999) or, inferred, that of the reference or the one before.\<close>

theorem listing_entry_valid:
  assumes "parse_listing_line line clk = Some f"
  shows "ff_name f \<noteq> [] \<and> list_all (\<lambda>c. 32 \<le> code c \<and> code c \<noteq> 127) (ff_name f)
    \<and> ff_size f < 18446744073709551616 \<and> valid_timestamp (ff_modified f) \<and> ts_second (ff_modified f) = 0
    \<and> (if ff_year_is_inferred f then ts_year (ff_modified f) \<in> {cd_year clk, cd_year clk - 1}
       else 2000 \<le> ts_year (ff_modified f) \<and> ts_year (ff_modified f) \<le> 9999)"
proof -
  obtain perms name file_size month day tok where p: "parse_entry perms name file_size month day tok clk = Some f"
    "name \<noteq> []" "validate_ftp_path_bytes name = Inr ()" "1 \<le> month" "month \<le> 12" "1 \<le> day" "day \<le> 31"
    "file_size < 18446744073709551616"
    using assms by (rule parse_listing_lineD)
  obtain hour minute year y where e: "f = \<lparr>ff_name = name, ff_is_dir = (take 1 perms = ''d''), ff_size = file_size,
       ff_modified = listing_time y month day hour minute, ff_year_is_inferred = (CHR '':'' \<in> set tok)\<rparr>"
    "0 \<le> hour" "hour \<le> 23" "0 \<le> minute" "minute \<le> 59"
    "if CHR '':'' \<in> set tok then year = infer_year clk month day hour minute
       else 2000 \<le> year \<and> year \<le> 9999"
    "settle_year clk (CHR '':'' \<in> set tok) month day year = Some y"
    using p(1) by (rule parse_entryD)
  have "list_all (\<lambda>c. 32 \<le> code c \<and> code c \<noteq> 127) name"
    using p(3) by (auto simp: validate_ftp_path_bytes_def list_ex_iff list_all_iff not_less split: if_splits)
  moreover have "valid_timestamp (listing_time y month day hour minute)"
    using settle_year_cases [OF e(7)] p(4-6) e(2-5)
    by (simp add: valid_timestamp_def listing_time_def valid_date_def)
  moreover have "if CHR '':'' \<in> set tok then y \<in> {cd_year clk, cd_year clk - 1} else 2000 \<le> y \<and> y \<le> 9999"
    using settle_year_cases [OF e(7)] e(6) infer_year_cases [of clk month day hour minute]
    by (auto split: if_splits)
  ultimately show ?thesis using p(2,8) e(1) by (simp add: listing_time_def split: if_splits)
qed

text \<open>When a listing line gives no year, the entry is dated to the year nearest the reference: of the
  reference's year and the one before, no other in which the date exists lies closer to the reference.\<close>

theorem listing_year_nearest:
  assumes "parse_listing_line line clk = Some f" "ff_year_is_inferred f"
    "valid_timestamp (as_timestamp clk)"
    "y' \<in> {cd_year clk, cd_year clk - 1}"
    "valid_date y' (ts_month (ff_modified f)) (ts_day (ff_modified f))"
  shows "\<bar>minutes_since_epoch (ff_modified f) - minutes_since_epoch (as_timestamp clk)\<bar>
    \<le> \<bar>minutes_since_epoch ((ff_modified f)\<lparr>ts_year := y'\<rparr>) - minutes_since_epoch (as_timestamp clk)\<bar>"
proof -
  obtain perms name file_size month day tok where p: "parse_entry perms name file_size month day tok clk = Some f"
    "1 \<le> month" "month \<le> 12" "1 \<le> day"
    using assms(1) by (rule parse_listing_lineD)
  obtain hour minute year y where e: "f = \<lparr>ff_name = name, ff_is_dir = (take 1 perms = ''d''), ff_size = file_size,
       ff_modified = listing_time y month day hour minute, ff_year_is_inferred = (CHR '':'' \<in> set tok)\<rparr>"
    "0 \<le> hour" "hour \<le> 23" "0 \<le> minute" "minute \<le> 59"
    "if CHR '':'' \<in> set tok then year = infer_year clk month day hour minute
       else 2000 \<le> year \<and> year \<le> 9999"
    "settle_year clk (CHR '':'' \<in> set tok) month day year = Some y"
    using p(1) by (rule parse_entryD)
  let ?at = "\<lambda>y. minutes_since_epoch (listing_time y month day hour minute)"
  let ?ref = "minutes_since_epoch (as_timestamp clk)"
  have year: "year = infer_year clk month day hour minute" using assms(2) e(1,6) by simp
  have vy: "valid_date y month day" using settle_year_cases [OF e(7)] p(2-4) by (simp add: valid_date_def)
  have vy': "valid_date y' month day" using assms(5) e(1) by (simp add: listing_time_def)
  have clk: "as_timestamp clk = listing_time (cd_year clk) (cd_month clk) (cd_day clk) (cd_hour clk) (cd_minute clk)"
    by (simp add: as_timestamp_def listing_time_def)
  have vclk: "valid_date (cd_year clk) (cd_month clk) (cd_day clk)" "0 \<le> cd_hour clk" "0 \<le> cd_minute clk"
    using assms(3) by (simp_all add: valid_timestamp_def as_timestamp_def)
  have before: "?at (cd_year clk - 1) < ?ref" if "valid_date (cd_year clk - 1) month day"
    unfolding clk by (rule minutes_year_before [OF that vclk(1)]) (use e(2-5) vclk in simp_all)
  have "\<bar>?at y - ?ref\<bar> \<le> \<bar>?at y' - ?ref\<bar>"
  proof (cases "y = y'")
    case False
    consider "y = cd_year clk - 1" "y' = cd_year clk" | "y = cd_year clk" "y' = cd_year clk - 1"
      using False assms(4) settle_year_cases [OF e(7)] infer_year_cases [of clk month day hour minute] year
      by auto
    then show ?thesis
    proof cases
      case 1
      then have "year = cd_year clk - 1"
        using settle_year_cases [OF e(7)] vy' by (auto simp: valid_date_def)
      then have "?ref - ?at (cd_year clk - 1) < ?at (cd_year clk) - ?ref"
        using year by (simp add: infer_year_def Let_def split: if_splits)
      with before vy 1 show ?thesis by simp
    next
      case 2
      then have "year = cd_year clk"
        using settle_year_cases [OF e(7)] by auto
      then have "\<not> ?ref - ?at (cd_year clk - 1) < ?at (cd_year clk) - ?ref"
        using year by (simp add: infer_year_def Let_def split: if_splits)
      moreover have "?at (cd_year clk - 1) < ?at (cd_year clk)"
        using vy vy' 2 e(2-5) by (intro minutes_year_before) simp_all
      ultimately show ?thesis using before vy' 2 by simp
    qed
  qed simp
  then show ?thesis using e(1) by (simp add: listing_time_def)
qed

section \<open>Reading a line field by field\<close>

definition plain_token :: "string \<Rightarrow> bool" where
  "plain_token s \<longleftrightarrow> s \<noteq> [] \<and> list_all (\<lambda>c. 32 < code c \<and> code c < 128) s"

abbreviation (input) spaces :: "nat \<Rightarrow> string" where "spaces k \<equiv> replicate k CHR '' ''"

lemma white_first_visible: "32 < code c \<Longrightarrow> code c < 128 \<Longrightarrow> \<not> white_first (c # s)"
proof
  assume c: "32 < code c" "code c < 128" and "white_first (c # s)"
  then obtain w where w: "w \<in> set white_space" "take (length w) (c # s) = w"
    by (auto simp: white_first_def list_ex_iff)
  with white_space_ends have "w \<noteq> []" "code (hd w) \<le> 32 \<or> 128 \<le> code (hd w)" by blast+
  moreover from this(1) w(2) have "hd w = c" by (cases w) auto
  ultimately show False using c by simp
qed

lemma white_space_blank: "\<forall>w \<in> set white_space. code (hd w) = 32 \<longrightarrow> w = '' ''"
  by (simp add: white_space_def char_of_def bit_0)

lemma blank_white: "'' '' \<in> set white_space"
  by (simp add: white_space_def char_of_def bit_0)

lemma white_pos_token:
  "list_all (\<lambda>c. 32 < code c \<and> code c < 128) tok \<Longrightarrow> white_pos (tok @ CHR '' '' # rest) = length tok"
proof (induction tok)
  case Nil
  have "white_first (CHR '' '' # rest)"
    unfolding white_first_def list_ex_iff by (rule bexI [OF _ blank_white]) simp
  then show ?case by simp
qed (simp add: white_first_visible)

lemma find_SomeD: "find P xs = Some x \<Longrightarrow> x \<in> set xs \<and> P x"
  by (induction xs) (auto split: if_splits)

lemma trim_start_space: "trim_start (CHR '' '' # s) = trim_start s"
proof -
  let ?P = "\<lambda>w. w \<noteq> [] \<and> take (length w) (CHR '' '' # s) = w"
  have "find ?P white_space \<noteq> None"
    using blank_white unfolding find_None_iff by force
  then obtain w where w: "find ?P white_space = Some w" by blast
  from find_SomeD [OF this] have m: "w \<in> set white_space" "w \<noteq> []" "take (length w) (CHR '' '' # s) = w"
    by simp_all
  then have "hd w = CHR '' ''" by (metis hd_take length_greater_0_conv list.sel(1))
  then have "code (hd w) = 32" by simp
  with m(1) white_space_blank have "w = '' ''" by blast
  with w show ?thesis unfolding trim_start_def by (subst strip_front.simps) simp
qed
lemma trim_start_spaces: "trim_start (spaces k @ s) = trim_start s"
  by (induction k) (simp_all add: trim_start_space)

lemma trim_start_visible: "32 < code c \<Longrightarrow> code c < 128 \<Longrightarrow> trim_start (c # s) = c # s"
  unfolding trim_start_def
  by (rule strip_front_id, rule ballI, drule bspec [OF white_space_ends]) auto

lemma trim_start_token: "plain_token tok \<Longrightarrow> trim_start (tok @ s) = tok @ s"
  by (cases tok) (auto simp: plain_token_def intro!: trim_start_visible)

lemma take_token_plain:
  "plain_token tok \<Longrightarrow> take_token (spaces k @ tok @ CHR '' '' # rest) = (Some tok, CHR '' '' # rest)"
  by (simp add: take_token_def next_token_def trim_start_spaces trim_start_token white_pos_token
      plain_token_def Let_def)

lemma take_token_plain_0:
  "plain_token tok \<Longrightarrow> take_token (tok @ CHR '' '' # rest) = (Some tok, CHR '' '' # rest)"
  using take_token_plain [of tok 0 rest] by simp

lemma plain_token_dec: "plain_token (dec n)"
  using dec_digits [of n] by (auto simp: plain_token_def list_all_iff is_ascii_digit_def)

lemma MONTH_ABBREVIATIONS_plain: "list_all plain_token MONTH_ABBREVIATIONS"
  by (simp add: MONTH_ABBREVIATIONS_def plain_token_def)

lemma MONTH_ABBREVIATIONS_position:
  "list_all (\<lambda>i. parse_month (MONTH_ABBREVIATIONS ! i) = Some (int i + 1)) [0, 1, 2, 3, 4, 5, 6, 7, 8, 9, 10, 11]"
  by (simp add: MONTH_ABBREVIATIONS_def parse_month_def eq_ignore_ascii_case_def
      to_ascii_lower_def is_ascii_upper_def char_of_def bit_0)

lemma parse_month_abbreviation:
  assumes "i < 12"
  shows "plain_token (MONTH_ABBREVIATIONS ! i)" "parse_month (MONTH_ABBREVIATIONS ! i) = Some (int i + 1)"
proof -
  have "length MONTH_ABBREVIATIONS = 12" by (simp add: MONTH_ABBREVIATIONS_def)
  with assms MONTH_ABBREVIATIONS_plain show "plain_token (MONTH_ABBREVIATIONS ! i)"
    by (simp add: list_all_length)
  have "i = 0 \<or> i = 1 \<or> i = 2 \<or> i = 3 \<or> i = 4 \<or> i = 5 \<or> i = 6 \<or> i = 7 \<or> i = 8 \<or> i = 9 \<or> i = 10 \<or> i = 11"
    using assms by arith
  then have "i \<in> set [0, 1, 2, 3, 4, 5, 6, 7, 8, 9, 10, 11]" by (simp only: list.set insert_iff empty_iff) blast
  with MONTH_ABBREVIATIONS_position show "parse_month (MONTH_ABBREVIATIONS ! i) = Some (int i + 1)"
    unfolding list_all_iff by blast
qed

lemma parse_day_dec:
  assumes "1 \<le> day" "day \<le> 31"
  shows "parse_day (dec day) = Some (int day)"
  using assms parse_dec [of day 256] by (simp add: parse_day_def)

text \<open>A line written column by column with any padding: each column is read back, the name to the byte.\<close>

lemma parse_listing_columns:
  assumes "plain_token perms" "plain_token a" "plain_token b" "plain_token c" "plain_token tok"
    "file_size < 18446744073709551616" "i < 12" "1 \<le> day" "day \<le> 31"
    "name \<noteq> []" "validate_ftp_path_bytes name = Inr ()"
  shows "parse_listing_line (perms @ spaces (Suc k1) @ a @ spaces (Suc k2) @ b @ spaces (Suc k3) @ c
      @ spaces (Suc k4) @ dec file_size @ spaces (Suc k5) @ MONTH_ABBREVIATIONS ! i @ spaces (Suc k6)
      @ dec day @ spaces (Suc k7) @ tok @ CHR '' '' # name) clk
    = parse_entry perms name file_size (int i + 1) (int day) tok clk"
proof -
  define r7 where "r7 = tok @ CHR '' '' # name"
  define r6 where "r6 = dec day @ CHR '' '' # spaces k7 @ r7"
  define r5 where "r5 = MONTH_ABBREVIATIONS ! i @ CHR '' '' # spaces k6 @ r6"
  define r4 where "r4 = dec file_size @ CHR '' '' # spaces k5 @ r5"
  define r3 where "r3 = c @ CHR '' '' # spaces k4 @ r4"
  define r2 where "r2 = b @ CHR '' '' # spaces k3 @ r3"
  define r1 where "r1 = a @ CHR '' '' # spaces k2 @ r2"
  define line where "line = perms @ CHR '' '' # spaces k1 @ r1"
  have sp: "CHR '' '' # spaces k @ s = spaces (Suc k) @ s" for k s by simp
  note tk = take_token_plain [OF assms(2), of "Suc k1" "spaces k2 @ r2", folded r1_def]
    take_token_plain [OF assms(3), of "Suc k2" "spaces k3 @ r3", folded r2_def]
    take_token_plain [OF assms(4), of "Suc k3" "spaces k4 @ r4", folded r3_def]
    take_token_plain [OF plain_token_dec, of "Suc k4" file_size "spaces k5 @ r5", folded r4_def]
    take_token_plain [OF parse_month_abbreviation(1) [OF assms(7)], of "Suc k5" "spaces k6 @ r6", folded r5_def]
    take_token_plain [OF plain_token_dec, of "Suc k6" day "spaces k7 @ r7", folded r6_def]
    take_token_plain [OF assms(5), of "Suc k7" name, folded r7_def]
  have t0: "trim_start line = line" unfolding line_def by (rule trim_start_token [OF assms(1)])
  have t1: "trim_end line \<noteq> []"
  proof -
    obtain p ps where p: "perms = p # ps" "32 < code p" "code p < 128"
      using assms(1) by (cases perms) (auto simp: plain_token_def)
    then show ?thesis by (simp add: line_def trim_end_visible)
  qed
  have t2: "take_token line = (Some perms, spaces (Suc k1) @ r1)"
    unfolding line_def using take_token_plain_0 [OF assms(1)] by simp
  have "parse_listing_line line clk = parse_entry perms name file_size (int i + 1) (int day) tok clk"
    unfolding parse_listing_line_def Let_def t0 if_not_P [OF t1] t2
    using assms(10,11) parse_month_abbreviation(2) [OF assms(7)] parse_day_dec [OF assms(8,9)]
      parse_dec [OF assms(6)]
    by (simp add: strip_separator_def Let_def skip_token_def tk [unfolded replicate_Suc append_Cons])
  then show ?thesis
    by (simp add: line_def r1_def r2_def r3_def r4_def r5_def r6_def r7_def)
qed

text \<open>A listing line that names a year is read back field by field, however its columns are padded: the
  name to the byte, spaces within and before it included, the kind, the size and the date.\<close>

theorem listing_line_roundtrip:
  assumes "plain_token perms" "plain_token a" "plain_token b" "plain_token c"
    "file_size < 18446744073709551616" "i < 12" "1 \<le> day" "2000 \<le> year" "year \<le> 9999"
    "int day \<le> days_in_month (int i + 1) (int year)"
    "name \<noteq> []" "validate_ftp_path_bytes name = Inr ()"
  shows "parse_listing_line (perms @ spaces (Suc k1) @ a @ spaces (Suc k2) @ b @ spaces (Suc k3) @ c
      @ spaces (Suc k4) @ dec file_size @ spaces (Suc k5) @ MONTH_ABBREVIATIONS ! i @ spaces (Suc k6)
      @ dec day @ spaces (Suc k7) @ dec year @ CHR '' '' # name) clk
    = Some \<lparr>ff_name = name, ff_is_dir = (hd perms = CHR ''d''), ff_size = file_size,
        ff_modified = \<lparr>ts_year = int year, ts_month = int i + 1, ts_day = int day,
          ts_hour = 0, ts_minute = 0, ts_second = 0\<rparr>,
        ff_year_is_inferred = False\<rparr>"
proof -
  have day: "day \<le> 31" using assms(10) by (auto simp: days_in_month_def split: if_splits)
  have digits: "is_ascii_digit x" if "x \<in> set (dec year)" for x
    using dec_digits [of year] that by (simp add: list_all_iff)
  then have colon: "CHR '':'' \<notin> set (dec year)" by (fastforce simp: is_ascii_digit_def)
  obtain d ds where dec: "dec year = d # ds" using dec_digits [of year] by (cases "dec year") auto
  then have "d \<noteq> CHR ''-''" using digits [of d] by (auto simp: is_ascii_digit_def)
  then have "explicit_year (dec year) = Some (int year)"
    using assms(8,9) dec parse_dec [of year 2147483648] by (simp add: explicit_year_def parse_i32_def)
  moreover obtain p ps where "perms = p # ps" using assms(1) by (cases perms) (auto simp: plain_token_def)
  ultimately show ?thesis
    using parse_listing_columns [OF assms(1-4) plain_token_dec assms(5-7) day assms(11,12),
        of k1 k2 k3 k4 k5 k6 k7 year clk] colon assms(10)
    by (simp add: parse_entry_def settle_year_def listing_time_def)
qed

theorem listing_line_roundtrip_witness:
  "\<forall>clk. parse_listing_line (''-rw-r--r--'' @ spaces (Suc 3) @ ''1'' @ spaces (Suc 0) @ ''root'' @ spaces (Suc 0) @ ''root''
      @ spaces (Suc 9) @ dec 12 @ spaces (Suc 0) @ MONTH_ABBREVIATIONS ! 1 @ spaces (Suc 0) @ dec 29
      @ spaces (Suc 1) @ dec 2024 @ CHR '' '' # '' my  job.3mf'') clk
    = Some \<lparr>ff_name = '' my  job.3mf'', ff_is_dir = False, ff_size = 12,
        ff_modified = \<lparr>ts_year = 2024, ts_month = 2, ts_day = 29, ts_hour = 0, ts_minute = 0, ts_second = 0\<rparr>,
        ff_year_is_inferred = False\<rparr>"
  by (rule allI, rule trans [OF listing_line_roundtrip])
    (simp_all add: plain_token_def validate_ftp_path_bytes_def days_in_month_def is_leap_def)

definition example_clock :: current_date_time where
  "example_clock = \<lparr>cd_year = 2026, cd_month = 3, cd_day = 1, cd_hour = 0, cd_minute = 0\<rparr>"

definition example_file :: ftp_file where
  "example_file = \<lparr>ff_name = ''my cache'', ff_is_dir = True, ff_size = 4096,
     ff_modified = \<lparr>ts_year = 2025, ts_month = 12, ts_day = 17, ts_hour = 12, ts_minute = 14, ts_second = 0\<rparr>,
     ff_year_is_inferred = True\<rparr>"

lemma listing_line_example: "\<exists>line. parse_listing_line line example_clock = Some example_file"
  by (rule exI, rule trans [OF parse_listing_columns [of "''drwxr-xr-x''" "''2''" "''1000''" "''1000''" "''12:14''" 4096 11 17
      "''my cache''" 0 0 4 4 0 0 1 example_clock]])
    (simp_all add: plain_token_def validate_ftp_path_bytes_def parse_entry_def clock_of_def parse_unsigned_def
      is_ascii_digit_def digits_value_def digit_value_def infer_year_def as_timestamp_def listing_time_def
      minutes_since_epoch_def days_from_civil_def settle_year_def days_in_month_def example_clock_def example_file_def)

theorem listing_entry_valid_witness: "valid_timestamp (ff_modified example_file) \<and> ff_name example_file \<noteq> []"
  using listing_line_example listing_entry_valid by blast

theorem listing_year_nearest_witness:
  "\<bar>minutes_since_epoch (ff_modified example_file) - minutes_since_epoch (as_timestamp example_clock)\<bar>
     \<le> \<bar>minutes_since_epoch ((ff_modified example_file)\<lparr>ts_year := 2026\<rparr>) - minutes_since_epoch (as_timestamp example_clock)\<bar>"
proof -
  obtain line where "parse_listing_line line example_clock = Some example_file"
    using listing_line_example by blast
  from listing_year_nearest [OF this] show ?thesis
    by (simp add: example_file_def example_clock_def valid_timestamp_def as_timestamp_def valid_date_def days_in_month_def)
qed

end
