(* ===== verification/FtpsClient.thy ===== *)
theory FtpsClient
  imports FtpsListing Upload
begin

text \<open>
  The FTPS client (\<open>src/ftps/client.rs\<close>): login, commands and replies, passive data connections and every
  operation built from them. The connections the data factory will hand out are a script: each is
  refused, or is a stream with the outcome of its TLS handshake. The quirks the client looks up
  (plaintext data channel, TLS 1.2 required) are fields. A data connection takes over the clock of the
  control connection when it is opened and gives it back when the transfer is over; handshakes take
  their time as part of the first read.
\<close>

abbreviation (input) FTPS_READ_TIMEOUT_SECS :: nat where "FTPS_READ_TIMEOUT_SECS \<equiv> 30"
abbreviation (input) FTPS_WRITE_TIMEOUT_SECS :: nat where "FTPS_WRITE_TIMEOUT_SECS \<equiv> 30"
abbreviation (input) FTPS_TRANSFER_CONFIRM_TIMEOUT_SECS :: nat where
  "FTPS_TRANSFER_CONFIRM_TIMEOUT_SECS \<equiv> 300"
abbreviation (input) FTPS_UPLOAD_CHUNK_SIZE :: nat where "FTPS_UPLOAD_CHUNK_SIZE \<equiv> 65536"
abbreviation (input) FTP_MAX_LISTING_LINE_BYTES :: nat where "FTP_MAX_LISTING_LINE_BYTES \<equiv> 4096"
abbreviation (input) FTP_GREETING :: nat where "FTP_GREETING \<equiv> 220"
abbreviation (input) FTP_TRANSFER_OPENING :: nat where "FTP_TRANSFER_OPENING \<equiv> 150"
abbreviation (input) FTP_TRANSFER_STARTING :: nat where "FTP_TRANSFER_STARTING \<equiv> 125"
abbreviation (input) FTP_COMMAND_OK :: nat where "FTP_COMMAND_OK \<equiv> 200"
abbreviation (input) FTP_SIZE_OK :: nat where "FTP_SIZE_OK \<equiv> 213"
abbreviation (input) FTP_TRANSFER_COMPLETE :: nat where "FTP_TRANSFER_COMPLETE \<equiv> 226"
abbreviation (input) FTP_PASSIVE_MODE :: nat where "FTP_PASSIVE_MODE \<equiv> 227"
abbreviation (input) FTP_LOGIN_OK :: nat where "FTP_LOGIN_OK \<equiv> 230"
abbreviation (input) FTP_FILE_ACTION_OK :: nat where "FTP_FILE_ACTION_OK \<equiv> 250"
abbreviation (input) FTP_PATHNAME_CREATED :: nat where "FTP_PATHNAME_CREATED \<equiv> 257"
abbreviation (input) FTP_PASSWORD_NEEDED :: nat where "FTP_PASSWORD_NEEDED \<equiv> 331"
abbreviation (input) FTP_RENAME_PENDING :: nat where "FTP_RENAME_PENDING \<equiv> 350"
abbreviation (input) FTP_TRANSFER_ABORTED :: nat where "FTP_TRANSFER_ABORTED \<equiv> 426"
abbreviation (input) FTP_FILE_NOT_FOUND :: nat where "FTP_FILE_NOT_FOUND \<equiv> 550"
abbreviation (input) FTP_SYNTAX_ERROR :: nat where "FTP_SYNTAX_ERROR \<equiv> 500"
abbreviation (input) FTP_NOT_IMPLEMENTED :: nat where "FTP_NOT_IMPLEMENTED \<equiv> 502"

section \<open>State\<close>

text \<open>A connection the factory hands out: its stream, the error of its TLS handshake if it fails, whether
  TLS 1.2 was negotiated, and how long its \<open>close_notify\<close> takes.\<close>

record data_conn =
  dc_io :: io
  dc_tls_error :: "socket_error option"
  dc_tls_1_2 :: bool
  dc_close_delay :: nat

datatype data_channel = Plain io | Secure io nat

fun channel_io :: "data_channel \<Rightarrow> io" where
  "channel_io (Plain s) = s"
| "channel_io (Secure s d) = s"

fun with_channel_io :: "data_channel \<Rightarrow> io \<Rightarrow> data_channel" where
  "with_channel_io (Plain _) s = Plain s"
| "with_channel_io (Secure _ d) s = Secure s d"

datatype tls_version_check = Enforce | Bypass

record ftps_client =
  fc_control :: io
  fc_fill :: bytes
  fc_timer :: timer
  fc_poisoned :: bool
  fc_check :: tls_version_check
  fc_plaintext_data :: bool
  fc_requires_tls_1_2 :: bool
  fc_dials :: "(socket_error + data_conn) list"

section \<open>Helpers\<close>

abbreviation (input) em_dash :: string where "em_dash \<equiv> [CHR 0xE2, CHR 0x80, CHR 0x94]"

text \<open>The close is awaited, under a deadline when there is a clock; its result is only logged.\<close>

definition close_bounded :: "timer \<Rightarrow> nat \<Rightarrow> io \<Rightarrow> io" where
  "close_bounded t delay s =
     s\<lparr>now := now s +
        (if has_real_clock t then min delay (fst (sleep_race (FTPS_WRITE_TIMEOUT_SECS * 1000) s)) else delay)\<rparr>"

definition expect_reply :: "string \<Rightarrow> nat \<times> string \<Rightarrow> nat list \<Rightarrow> error + string" where
  "expect_reply verb reply good =
     (case reply of (reply_code, text) \<Rightarrow>
        if reply_code \<in> set good then Inr text else Inl (FtpReply verb reply_code text))"

text \<open>\<open>trim_end_matches('/')\<close> and \<open>rfind('/')\<close>.\<close>

definition trim_end_slashes :: "string \<Rightarrow> string" where
  "trim_end_slashes path = rev (dropWhile (\<lambda>c. c = CHR ''/'') (rev path))"

definition split_parent :: "string \<Rightarrow> (string \<times> string) option" where
  "split_parent path =
     (let trimmed = trim_end_slashes path
      in case (case position (\<lambda>c. c = CHR ''/'') (rev trimmed) of
                 None \<Rightarrow> (''/'', trimmed)
               | Some k \<Rightarrow>
                   let i = length trimmed - 1 - k
                   in if i = 0 then (''/'', drop 1 trimmed) else (take i trimmed, drop (i + 1) trimmed)) of
           (parent, name) \<Rightarrow> if name = [] then None else Some (parent, name))"

definition require_tls_1_2_if_enforced :: "tls_version_check \<Rightarrow> bool \<Rightarrow> bool \<Rightarrow> error + unit" where
  "require_tls_1_2_if_enforced check required is_tls_1_2 =
     (if check = Bypass then Inr ()
      else if required \<and> \<not> is_tls_1_2
      then Inl (ProtocolViolation
        (''This model requires TLS 1.2 for FTPS but either a different version was negotiated or the handshake had not completed ''
         @ em_dash @ '' on tokio, build the TlsConnector with TlsVersions::Tls12Only; on esp-idf/embassy, which cannot cap the maximum version, use with_ftps_allow_unverified_tls_1_2(true)''))
      else Inr ())"

section \<open>Login\<close>

definition send_and_expect :: "string \<Rightarrow> string \<Rightarrow> nat \<Rightarrow> nat option \<Rightarrow> bytes \<Rightarrow> io \<Rightarrow> (error + unit) \<times> bytes \<times> io" where
  "send_and_expect cmd verb expected deadline fill s =
     (case write_command cmd deadline s of
        (Inl e, s1) \<Rightarrow> (Inl e, fill, s1)
      | (Inr _, s1) \<Rightarrow>
          (case read_response deadline fill s1 of
             (Inl e, fill', s2) \<Rightarrow> (Inl e, fill', s2)
           | (Inr reply, fill', s2) \<Rightarrow>
               (case expect_reply verb reply [expected] of
                  Inl e \<Rightarrow> (Inl e, fill', s2)
                | Inr _ \<Rightarrow> (Inr (), fill', s2))))"

text \<open>The commands of the login in order, each with the error its refusal turns into.\<close>

fun login_steps :: "(string \<times> string \<times> nat) list \<Rightarrow> nat option \<Rightarrow> bytes \<Rightarrow> io \<Rightarrow> (error + unit) \<times> bytes \<times> io" where
  "login_steps [] deadline fill s = (Inr (), fill, s)"
| "login_steps ((cmd, verb, expected) # steps) deadline fill s =
     (case send_and_expect cmd verb expected deadline fill s of
        (Inl e, fill', s') \<Rightarrow>
          (Inl (case e of FtpReply _ _ _ \<Rightarrow> if verb = ''PASS'' then AccessDenied else e | _ \<Rightarrow> e), fill', s')
      | (Inr _, fill', s') \<Rightarrow> login_steps steps deadline fill' s')"

definition login_commands :: "string \<Rightarrow> bool \<Rightarrow> (string \<times> string \<times> nat) list" where
  "login_commands access_code plaintext_data =
     [(''USER bblp'', ''USER'', FTP_PASSWORD_NEEDED),
      (''PASS '' @ access_code, ''PASS'', FTP_LOGIN_OK),
      (''PBSZ 0'', ''PBSZ'', FTP_COMMAND_OK)] @
     (if plaintext_data then [] else [(''PROT P'', ''PROT'', FTP_COMMAND_OK)]) @
     [(''TYPE I'', ''TYPE'', FTP_COMMAND_OK)]"

definition connect_control_stream ::
  "string \<Rightarrow> timer \<Rightarrow> tls_version_check \<Rightarrow> bool \<Rightarrow> bool \<Rightarrow> data_conn \<Rightarrow> (error + bytes) \<times> io" where
  "connect_control_stream access_code t check plaintext_data required conn =
     (let s = dc_io conn
      in case dc_tls_error conn of
           Some e \<Rightarrow> (Inl (Network e), s)
         | None \<Rightarrow>
             (case require_tls_1_2_if_enforced check required (dc_tls_1_2 conn) of
                Inl e \<Rightarrow> (Inl e, s)
              | Inr _ \<Rightarrow>
                  let deadline = ftps_deadline_ms t FTPS_READ_TIMEOUT_SECS s
                  in case read_response deadline [] s of
                       (Inl e, _, s1) \<Rightarrow> (Inl e, s1)
                     | (Inr greeting, fill, s1) \<Rightarrow>
                         (case expect_reply ''greeting'' greeting [FTP_GREETING] of
                            Inl e \<Rightarrow> (Inl e, s1)
                          | Inr _ \<Rightarrow>
                              (case login_steps (login_commands access_code plaintext_data) deadline fill s1 of
                                 (Inl e, _, s2) \<Rightarrow> (Inl e, s2)
                               | (Inr _, fill', s2) \<Rightarrow> (Inr fill', s2)))))"

definition ftps_connect ::
  "string \<Rightarrow> timer \<Rightarrow> tls_version_check \<Rightarrow> bool \<Rightarrow> bool \<Rightarrow> data_conn \<Rightarrow> (socket_error + data_conn) list
     \<Rightarrow> error + ftps_client" where
  "ftps_connect access_code t check plaintext_data required conn dials =
     (case connect_control_stream access_code t check plaintext_data required conn of
        (Inl e, _) \<Rightarrow> Inl e
      | (Inr fill, s) \<Rightarrow>
          Inr \<lparr>fc_control = s, fc_fill = fill, fc_timer = t, fc_poisoned = False, fc_check = check,
            fc_plaintext_data = plaintext_data, fc_requires_tls_1_2 = required, fc_dials = dials\<rparr>)"

section \<open>Commands\<close>

definition ftps_poisoned_error :: error where
  "ftps_poisoned_error = ProtocolViolation
     (''FTPS client is poisoned after a control-channel desync or an early-stopped download_prefix '' @ em_dash @
      '' this instance must be discarded; reconnect with a new FtpsClient::connect() call instead of reusing it'')"

definition ftps_check_poisoned :: "ftps_client \<Rightarrow> error + unit" where
  "ftps_check_poisoned c = (if fc_poisoned c then Inl ftps_poisoned_error else Inr ())"

definition write_command_poisoning :: "string \<Rightarrow> ftps_client \<Rightarrow> (error + unit) \<times> ftps_client" where
  "write_command_poisoning cmd c =
     (let deadline = ftps_deadline_ms (fc_timer c) FTPS_WRITE_TIMEOUT_SECS (fc_control c)
      in case write_command cmd deadline (fc_control c) of
           (Inl e, s) \<Rightarrow> (Inl e, c\<lparr>fc_control := s, fc_poisoned := True\<rparr>)
         | (Inr _, s) \<Rightarrow> (Inr (), c\<lparr>fc_control := s\<rparr>))"

definition read_response_poisoning :: "nat \<Rightarrow> ftps_client \<Rightarrow> (error + nat \<times> string) \<times> ftps_client" where
  "read_response_poisoning budget_secs c =
     (case read_response (ftps_deadline_ms (fc_timer c) budget_secs (fc_control c)) (fc_fill c) (fc_control c) of
        (Inl e, fill, s) \<Rightarrow> (Inl e, c\<lparr>fc_control := s, fc_fill := fill, fc_poisoned := True\<rparr>)
      | (Inr reply, fill, s) \<Rightarrow> (Inr reply, c\<lparr>fc_control := s, fc_fill := fill\<rparr>))"

definition ftps_command :: "string \<Rightarrow> string option \<Rightarrow> ftps_client \<Rightarrow> (error + nat \<times> string) \<times> ftps_client" where
  "ftps_command verb arg c =
     (case ftps_check_poisoned c of
        Inl e \<Rightarrow> (Inl e, c)
      | Inr _ \<Rightarrow>
          (case (case arg of None \<Rightarrow> Inr verb
                 | Some a \<Rightarrow> (case validate_ftp_path a of Inl e \<Rightarrow> Inl e | Inr _ \<Rightarrow> Inr (verb @ '' '' @ a))) of
             Inl e \<Rightarrow> (Inl e, c)
           | Inr line \<Rightarrow>
               (case write_command_poisoning line c of
                  (Inl e, c1) \<Rightarrow> (Inl e, c1)
                | (Inr _, c1) \<Rightarrow> read_response_poisoning FTPS_READ_TIMEOUT_SECS c1)))"

text \<open>A command whose reply must have one of the codes \<open>good\<close>.\<close>

definition command_expect :: "string \<Rightarrow> string option \<Rightarrow> nat list \<Rightarrow> ftps_client \<Rightarrow> (error + string) \<times> ftps_client" where
  "command_expect verb arg good c =
     (case ftps_command verb arg c of
        (Inl e, c1) \<Rightarrow> (Inl e, c1)
      | (Inr reply, c1) \<Rightarrow> (expect_reply verb reply good, c1))"

definition negotiate_passive_port :: "ftps_client \<Rightarrow> (error + nat) \<times> ftps_client" where
  "negotiate_passive_port c =
     (case command_expect ''PASV'' None [FTP_PASSIVE_MODE] c of
        (Inl e, c1) \<Rightarrow> (Inl e, c1)
      | (Inr text, c1) \<Rightarrow> (parse_pasv_port text, c1))"

section \<open>Transfers\<close>

text \<open>The factory's next connection, with the control connection's clock. A dial that is refused takes
  nothing else down: the passive port was negotiated, but no transfer was announced.\<close>

definition dial :: "ftps_client \<Rightarrow> (error + data_conn) \<times> ftps_client" where
  "dial c =
     (case fc_dials c of
        [] \<Rightarrow> (Inl (Network ConnectionRefused), c)
      | Inl e # r \<Rightarrow> (Inl (Network e), c\<lparr>fc_dials := r\<rparr>)
      | Inr conn # r \<Rightarrow>
          (Inr (conn\<lparr>dc_io := (dc_io conn)\<lparr>now := now (fc_control c)\<rparr>\<rparr>), c\<lparr>fc_dials := r\<rparr>))"

definition open_data_channel :: "data_conn \<Rightarrow> ftps_client \<Rightarrow> (error + data_channel) \<times> ftps_client" where
  "open_data_channel conn c =
     (let s = (dc_io conn)\<lparr>now := now (fc_control c)\<rparr>
      in if fc_plaintext_data c then (Inr (Plain s), c)
         else case dc_tls_error conn of
           Some e \<Rightarrow> (Inl (Network e), c\<lparr>fc_poisoned := True\<rparr>)
         | None \<Rightarrow>
             (case require_tls_1_2_if_enforced (fc_check c) (fc_requires_tls_1_2 c) (dc_tls_1_2 conn) of
                Inl e \<Rightarrow> (Inl e, c\<lparr>fc_poisoned := True\<rparr>)
              | Inr _ \<Rightarrow> (Inr (Secure s (dc_close_delay conn)), c)))"

text \<open>The control connection's clock follows the data connection's.\<close>

definition sync_clock :: "data_channel \<Rightarrow> ftps_client \<Rightarrow> ftps_client" where
  "sync_clock ch c = c\<lparr>fc_control := (fc_control c)\<lparr>now := now (channel_io ch)\<rparr>\<rparr>"

definition open_transfer :: "string \<Rightarrow> string \<Rightarrow> ftps_client \<Rightarrow> (error + data_channel) \<times> ftps_client" where
  "open_transfer verb path c =
     (case ftps_check_poisoned c of
        Inl e \<Rightarrow> (Inl e, c)
      | Inr _ \<Rightarrow>
     (case validate_ftp_path path of
        Inl e \<Rightarrow> (Inl e, c)
      | Inr _ \<Rightarrow>
     (case negotiate_passive_port c of
        (Inl e, c1) \<Rightarrow> (Inl e, c1)
      | (Inr port, c1) \<Rightarrow>
     (case dial c1 of
        (Inl e, c2) \<Rightarrow> (Inl e, c2)
      | (Inr conn, c2) \<Rightarrow>
     (case command_expect verb (Some path) [FTP_TRANSFER_OPENING, FTP_TRANSFER_STARTING] c2 of
        (Inl e, c3) \<Rightarrow> (Inl e, c3)
      | (Inr _, c3) \<Rightarrow> open_data_channel conn c3)))))"

text \<open>Closing and aborting a data connection only takes time here: what is left of it is dropped.\<close>

fun close_data_channel :: "data_channel \<Rightarrow> timer \<Rightarrow> data_channel" where
  "close_data_channel (Plain s) t = Plain s"
| "close_data_channel (Secure s d) t = Secure (close_bounded t d s) d"

definition finish_transfer :: "string \<Rightarrow> data_channel \<Rightarrow> ftps_client \<Rightarrow> (error + nat) \<times> ftps_client" where
  "finish_transfer verb ch c =
     (let c = sync_clock (close_data_channel ch (fc_timer c)) c
      in case read_response_poisoning FTPS_TRANSFER_CONFIRM_TIMEOUT_SECS c of
           (Inl e, c1) \<Rightarrow> (Inl e, c1)
         | (Inr reply, c1) \<Rightarrow>
             (case expect_reply verb reply [FTP_TRANSFER_COMPLETE, FTP_TRANSFER_ABORTED] of
                Inl e \<Rightarrow> (Inl e, c1)
              | Inr _ \<Rightarrow> (Inr (fst reply), c1)))"

definition read_transfer :: "data_channel \<Rightarrow> ftps_client \<Rightarrow> (error + bytes) \<times> data_channel \<times> ftps_client" where
  "read_transfer ch c =
     (case read_to_eof [] (fc_timer c) (FTPS_READ_TIMEOUT_SECS * 1000) (channel_io ch) of
        (Inl e, _, s) \<Rightarrow> (Inl e, with_channel_io ch s, (sync_clock (with_channel_io ch s) c)\<lparr>fc_poisoned := True\<rparr>)
      | (Inr _, payload, s) \<Rightarrow> (Inr payload, with_channel_io ch s, c))"

section \<open>Operations\<close>

definition get_file_size :: "string \<Rightarrow> ftps_client \<Rightarrow> (error + nat) \<times> ftps_client" where
  "get_file_size path c =
     (case command_expect ''SIZE'' (Some path) [FTP_SIZE_OK] c of
        (Inl e, c1) \<Rightarrow> (Inl e, c1)
      | (Inr text, c1) \<Rightarrow>
          (case parse_u64 text of
             None \<Rightarrow> (Inl (ProtocolViolation ''Invalid file size parameter returned''), c1)
           | Some n \<Rightarrow> (Inr n, c1)))"

definition modification_time :: "string \<Rightarrow> ftps_client \<Rightarrow> (error + ftp_timestamp option) \<times> ftps_client" where
  "modification_time path c =
     (case ftps_command ''MDTM'' (Some path) c of
        (Inl e, c1) \<Rightarrow> (Inl e, c1)
      | (Inr reply, c1) \<Rightarrow>
          if fst reply = FTP_SYNTAX_ERROR \<or> fst reply = FTP_NOT_IMPLEMENTED then (Inr None, c1)
          else case expect_reply ''MDTM'' reply [FTP_SIZE_OK] of
            Inl e \<Rightarrow> (Inl e, c1)
          | Inr text \<Rightarrow>
              (case parse_mdtm_timestamp text of
                 None \<Rightarrow> (Inl (ProtocolViolation ''Malformed MDTM timestamp returned''), c1)
               | Some ts \<Rightarrow> (Inr (Some ts), c1)))"

text \<open>\<open>list_directory_each\<close>: the entries handed to the callback, whatever the listing's outcome.\<close>

definition deliver_line :: "current_date_time \<Rightarrow> bytes \<Rightarrow> ftp_file option" where
  "deliver_line clk line = Option.bind (from_utf8 line) (\<lambda>l. parse_listing_line l clk)"

definition strip_line_cr :: "bytes \<Rightarrow> bytes" where
  "strip_line_cr line = (if line \<noteq> [] \<and> last line = 13 then butlast line else line)"

definition list_directory_each ::
  "string \<Rightarrow> current_date_time \<Rightarrow> ftps_client \<Rightarrow> (error + unit) \<times> ftp_file list \<times> ftps_client" where
  "list_directory_each path clk c =
     (case open_transfer ''LIST'' path c of
        (Inl e, c1) \<Rightarrow> (Inl e, [], c1)
      | (Inr ch, c1) \<Rightarrow>
          (case read_lines_to_eof (fc_timer c1) (FTPS_READ_TIMEOUT_SECS * 1000) FTP_MAX_LISTING_LINE_BYTES
              FTPS_MAX_TRANSFER_BYTES (channel_io ch) of
             (res, lines, s) \<Rightarrow>
               let entries = List.map_filter (\<lambda>l. deliver_line clk (strip_line_cr l)) lines;
                   ch1 = with_channel_io ch s
               in case res of
                 Inl e \<Rightarrow> (Inl e, entries, (sync_clock ch1 c1)\<lparr>fc_poisoned := True\<rparr>)
               | Inr lr \<Rightarrow>
                   (case finish_transfer ''LIST'' ch1 c1 of
                      (Inl e, c2) \<Rightarrow> (Inl e, entries, c2)
                    | (Inr reply_code, c2) \<Rightarrow>
                        if reply_code = FTP_TRANSFER_ABORTED \<and> (total_bytes lr = 0 \<or> \<not> ends_on_newline lr)
                        then (Inl (ProtocolViolation
                          ''LIST aborted (426) with an empty or truncated payload; the listing is incomplete''), entries, c2)
                        else (Inr (), entries @
                          (if line_tail lr = [] then []
                           else case deliver_line clk (line_tail lr) of None \<Rightarrow> [] | Some f \<Rightarrow> [f]), c2))))"

definition list_directory :: "string \<Rightarrow> current_date_time \<Rightarrow> ftps_client \<Rightarrow> (error + ftp_file list) \<times> ftps_client" where
  "list_directory path clk c =
     (case list_directory_each path clk c of
        (Inl e, _, c1) \<Rightarrow> (Inl e, c1)
      | (Inr _, files, c1) \<Rightarrow> (Inr (take FTP_MAX_LISTING_ENTRIES files), c1))"

definition NAMES_ONLY_LISTING_CLOCK :: current_date_time where
  "NAMES_ONLY_LISTING_CLOCK = \<lparr>cd_year = 2024, cd_month = 12, cd_day = 31, cd_hour = 23, cd_minute = 59\<rparr>"

definition finish_removal :: "string \<Rightarrow> string \<Rightarrow> nat \<times> string \<Rightarrow> ftps_client \<Rightarrow> (error + unit) \<times> ftps_client" where
  "finish_removal verb path reply c =
     (if fst reply \<noteq> FTP_FILE_NOT_FOUND then
        (case expect_reply verb reply [FTP_FILE_ACTION_OK] of Inl e \<Rightarrow> (Inl e, c) | Inr _ \<Rightarrow> (Inr (), c))
      else
        let refused = FtpReply verb (fst reply) (snd reply)
        in case split_parent path of
             None \<Rightarrow> (Inl refused, c)
           | Some (parent, name) \<Rightarrow>
               (case list_directory parent NAMES_ONLY_LISTING_CLOCK c of
                  (Inr entries, c1) \<Rightarrow>
                    if list_ex (\<lambda>f. ff_name f = name) entries then (Inl refused, c1) else (Inr (), c1)
                | (Inl e, c1) \<Rightarrow> (Inl (if fc_poisoned c1 then e else refused), c1)))"

definition ftps_remove :: "string \<Rightarrow> string \<Rightarrow> ftps_client \<Rightarrow> (error + unit) \<times> ftps_client" where
  "ftps_remove verb path c =
     (case ftps_command verb (Some path) c of
        (Inl e, c1) \<Rightarrow> (Inl e, c1)
      | (Inr reply, c1) \<Rightarrow> finish_removal verb path reply c1)"

definition ftps_delete_file :: "string \<Rightarrow> ftps_client \<Rightarrow> (error + unit) \<times> ftps_client" where
  "ftps_delete_file path c = ftps_remove ''DELE'' path c"

definition remove_directory :: "string \<Rightarrow> ftps_client \<Rightarrow> (error + unit) \<times> ftps_client" where
  "remove_directory path c = ftps_remove ''RMD'' path c"

definition create_directory :: "string \<Rightarrow> ftps_client \<Rightarrow> (error + unit) \<times> ftps_client" where
  "create_directory path c =
     (case command_expect ''MKD'' (Some path) [FTP_PATHNAME_CREATED, FTP_FILE_ACTION_OK] c of
        (Inl e, c1) \<Rightarrow> (Inl e, c1) | (Inr _, c1) \<Rightarrow> (Inr (), c1))"

definition rename_file :: "string \<Rightarrow> string \<Rightarrow> ftps_client \<Rightarrow> (error + unit) \<times> ftps_client" where
  "rename_file from_path to_path c =
     (case validate_ftp_path to_path of
        Inl e \<Rightarrow> (Inl e, c)
      | Inr _ \<Rightarrow>
          (case command_expect ''RNFR'' (Some from_path) [FTP_RENAME_PENDING] c of
             (Inl e, c1) \<Rightarrow> (Inl e, c1)
           | (Inr _, c1) \<Rightarrow>
               (case command_expect ''RNTO'' (Some to_path) [FTP_FILE_ACTION_OK] c1 of
                  (Inl e, c2) \<Rightarrow> (Inl e, c2) | (Inr _, c2) \<Rightarrow> (Inr (), c2))))"

definition get_available_space :: "ftps_client \<Rightarrow> (error + nat) \<times> ftps_client" where
  "get_available_space c =
     (case command_expect ''AVBL'' None [FTP_SIZE_OK] c of
        (Inl e, c1) \<Rightarrow> (Inl e, c1)
      | (Inr text, c1) \<Rightarrow>
          (case parse_u64 text of
             None \<Rightarrow> (Inl (ProtocolViolation ''Malformed AVBL numeric response''), c1)
           | Some n \<Rightarrow> (Inr n, c1)))"

section \<open>Uploads and downloads\<close>

text \<open>The upload's loop: each pass reads a piece of the source and writes it under a fresh deadline. A
  source that gives nothing while bytes are due is an error of \<open>read_next\<close>, so every pass advances.\<close>

function send_pieces :: "upload_source \<Rightarrow> timer \<Rightarrow> nat \<Rightarrow> io \<Rightarrow> (error + unit) \<times> io" where
  "send_pieces src t offset s =
     (if offset < src_len src then
        (case read_next src offset FTPS_UPLOAD_CHUNK_SIZE of
           Inl e \<Rightarrow> (Inl e, s)
         | Inr bs \<Rightarrow>
             (case write_bounded bs (ftps_deadline_ms t FTPS_WRITE_TIMEOUT_SECS s) s of
                (Inl e, s1) \<Rightarrow> (Inl e, s1)
              | (Inr _, s1) \<Rightarrow> send_pieces src t (offset + length bs) s1))
      else write_bounded [] (ftps_deadline_ms t FTPS_WRITE_TIMEOUT_SECS s) s)"
  by pat_completeness auto
termination
  by (relation "measure (\<lambda>(src, _, offset, _). src_len src - offset)")
    (auto dest!: read_next_nonempty intro!: diff_less_mono2)

declare send_pieces.simps [simp del]

definition upload_from :: "string \<Rightarrow> upload_source \<Rightarrow> ftps_client \<Rightarrow> (error + unit) \<times> ftps_client" where
  "upload_from path src c =
     (let len = src_len src
      in if len > FTPS_MAX_TRANSFER_BYTES
         then (Inl (InvalidArgument (''upload of '' @ dec len @ '' bytes exceeds the '' @ dec FTPS_MAX_TRANSFER_BYTES
           @ ''-byte transfer limit'')), c)
         else case open_transfer ''STOR'' path c of
           (Inl e, c1) \<Rightarrow> (Inl e, c1)
         | (Inr ch, c1) \<Rightarrow>
             (case send_pieces src (fc_timer c1) 0 (channel_io ch) of
                (Inl e, s) \<Rightarrow> (Inl e, (sync_clock (with_channel_io ch s) c1)\<lparr>fc_poisoned := True\<rparr>)
              | (Inr _, s) \<Rightarrow>
                  (case finish_transfer ''STOR'' (with_channel_io ch s) c1 of
                     (Inl e, c2) \<Rightarrow> (Inl e, c2)
                   | (Inr _, c2) \<Rightarrow>
                       (case get_file_size path c2 of
                          (Inl e, c3) \<Rightarrow> (Inl e, c3)
                        | (Inr remote_size, c3) \<Rightarrow>
                            (if remote_size = len then Inr () else Inl DiskWriteFailure, c3)))))"

definition upload_file :: "string \<Rightarrow> bytes \<Rightarrow> ftps_client \<Rightarrow> (error + unit) \<times> ftps_client" where
  "upload_file path data c = upload_from path (slice_source data) c"

definition check_downloaded_size :: "string \<Rightarrow> nat \<Rightarrow> ftps_client \<Rightarrow> (error + unit) \<times> ftps_client" where
  "check_downloaded_size path n c =
     (case get_file_size path c of
        (Inl e, c1) \<Rightarrow> (Inl e, c1)
      | (Inr remote_size, c1) \<Rightarrow>
          (if remote_size \<noteq> n
           then Inl (ProtocolViolation ''Downloaded file size does not match remote SIZE (possible truncated transfer)'')
           else Inr (), c1))"

definition download_file :: "string \<Rightarrow> ftps_client \<Rightarrow> (error + bytes) \<times> ftps_client" where
  "download_file path c =
     (case open_transfer ''RETR'' path c of
        (Inl e, c1) \<Rightarrow> (Inl e, c1)
      | (Inr ch, c1) \<Rightarrow>
          (case read_transfer ch c1 of
             (Inl e, _, c2) \<Rightarrow> (Inl e, c2)
           | (Inr payload, ch2, c2) \<Rightarrow>
               (case finish_transfer ''RETR'' ch2 c2 of
                  (Inl e, c3) \<Rightarrow> (Inl e, c3)
                | (Inr _, c3) \<Rightarrow>
                    (case check_downloaded_size path (length payload) c3 of
                       (Inl e, c4) \<Rightarrow> (Inl e, c4) | (Inr _, c4) \<Rightarrow> (Inr payload, c4)))))"

definition download_file_each ::
  "string \<Rightarrow> (bytes list \<Rightarrow> bytes \<Rightarrow> error option) \<Rightarrow> ftps_client \<Rightarrow> (error + nat) \<times> bytes list \<times> ftps_client" where
  "download_file_each path sink c =
     (case open_transfer ''RETR'' path c of
        (Inl e, c1) \<Rightarrow> (Inl e, [], c1)
      | (Inr ch, c1) \<Rightarrow>
          (case read_each_to_eof sink [] 0 (fc_timer c1) (FTPS_READ_TIMEOUT_SECS * 1000) FTPS_MAX_TRANSFER_BYTES
              (channel_io ch) of
             (Inl (StopRead e), chunks, s) \<Rightarrow>
               (Inl e, chunks, (sync_clock (with_channel_io ch s) c1)\<lparr>fc_poisoned := True\<rparr>)
           | (Inl (Stopped e), chunks, s) \<Rightarrow>
               (Inl e, chunks,
                (sync_clock (close_data_channel (with_channel_io ch s) (fc_timer c1)) c1)\<lparr>fc_poisoned := True\<rparr>)
           | (Inr received, chunks, s) \<Rightarrow>
               (case finish_transfer ''RETR'' (with_channel_io ch s) c1 of
                  (Inl e, c2) \<Rightarrow> (Inl e, chunks, c2)
                | (Inr _, c2) \<Rightarrow>
                    (case check_downloaded_size path received c2 of
                       (Inl e, c3) \<Rightarrow> (Inl e, chunks, c3) | (Inr _, c3) \<Rightarrow> (Inr received, chunks, c3)))))"

definition download_prefix_until ::
  "string \<Rightarrow> nat \<Rightarrow> (bytes \<Rightarrow> bool) \<Rightarrow> ftps_client \<Rightarrow> (error + bytes \<times> bool) \<times> ftps_client" where
  "download_prefix_until path cap stop c =
     (case open_transfer ''RETR'' path c of
        (Inl e, c1) \<Rightarrow> (Inl e, c1)
      | (Inr ch, c1) \<Rightarrow>
          (case read_prefix_until cap stop (fc_timer c1) (FTPS_READ_TIMEOUT_SECS * 1000) (channel_io ch) of
             (Inl e, buf, s) \<Rightarrow> (Inl e, (sync_clock (with_channel_io ch s) c1)\<lparr>fc_poisoned := True\<rparr>)
           | (Inr eof, buf, s) \<Rightarrow>
               if eof then
                 (case finish_transfer ''RETR'' (with_channel_io ch s) c1 of
                    (Inl e, c2) \<Rightarrow> (Inl e, c2) | (Inr _, c2) \<Rightarrow> (Inr (buf, True), c2))
               else (Inr (buf, False),
                 (sync_clock (close_data_channel (with_channel_io ch s) (fc_timer c1)) c1)\<lparr>fc_poisoned := True\<rparr>)))"

definition download_prefix :: "string \<Rightarrow> nat \<Rightarrow> ftps_client \<Rightarrow> (error + bytes) \<times> ftps_client" where
  "download_prefix path cap c =
     (if cap = 0 then (Inl (InvalidArgument ''download_prefix needs a non-empty buffer''), c)
      else case download_prefix_until path cap (\<lambda>_. False) c of
        (Inl e, c1) \<Rightarrow> (Inl e, c1) | (Inr (buf, _), c1) \<Rightarrow> (Inr buf, c1))"

text \<open>The farewell of a client that is still in step; both of its steps may fail without consequence.\<close>

definition ftps_disconnect :: "nat \<Rightarrow> ftps_client \<Rightarrow> io" where
  "ftps_disconnect close_delay c =
     (if fc_poisoned c then fc_control c
      else
        let s1 = snd (write_command ''QUIT'' (ftps_deadline_ms (fc_timer c) FTPS_WRITE_TIMEOUT_SECS (fc_control c)) (fc_control c));
            s2 = snd (snd (read_response (ftps_deadline_ms (fc_timer c) FTPS_READ_TIMEOUT_SECS s1) (fc_fill c) s1))
        in close_bounded (fc_timer c) close_delay s2)"

end
