(* ===== verification/FtpsClientProps.thy ===== *)
theory FtpsClientProps
  imports FtpsClient FtpChannel
begin

text \<open>
  The FTPS client never loses its place on the control channel. The exchange is read as a trace of
  commands sent and replies taken; a small automaton says which traces leave no reply outstanding
  (a transfer that was announced owes a second one). Every operation of an unpoisoned client runs the
  automaton from quiet to quiet, or poisons the client, and a poisoned client does nothing more.
\<close>

section \<open>The exchange as a trace\<close>

datatype ctl_event = Sent string | Got "bytes list" nat

fun event_out :: "ctl_event \<Rightarrow> bytes" where
  "event_out (Sent line) = as_bytes line @ [13, LF]"
| "event_out (Got ls reply_code) = []"

fun event_in :: "ctl_event \<Rightarrow> bytes" where
  "event_in (Sent line) = []"
| "event_in (Got ls reply_code) = concat ls"

fun event_ok :: "ctl_event \<Rightarrow> bool" where
  "event_ok (Sent line) = True"
| "event_ok (Got ls reply_code) = ((\<forall>l \<in> set ls. is_line l) \<and> (\<exists>text. reply_of None [] ls = Some (reply_code, text)))"

datatype phase = Quiet | Awaiting string | Closing

definition is_transfer :: "string \<Rightarrow> bool" where
  "is_transfer line \<longleftrightarrow> take 5 line \<in> {''LIST '', ''RETR '', ''STOR ''}"

definition after_reply :: "string \<Rightarrow> nat \<Rightarrow> phase" where
  "after_reply line reply_code =
     (if is_transfer line \<and> reply_code \<in> {FTP_TRANSFER_OPENING, FTP_TRANSFER_STARTING} then Closing else Quiet)"

fun phase_step :: "phase \<Rightarrow> ctl_event \<Rightarrow> phase option" where
  "phase_step Quiet (Sent line) = Some (Awaiting line)"
| "phase_step (Awaiting line) (Got ls reply_code) = Some (after_reply line reply_code)"
| "phase_step Closing (Got ls reply_code) = Some Quiet"
| "phase_step _ _ = None"

fun run_phase :: "phase \<Rightarrow> ctl_event list \<Rightarrow> phase option" where
  "run_phase p [] = Some p"
| "run_phase p (e # es) = (case phase_step p e of None \<Rightarrow> None | Some q \<Rightarrow> run_phase q es)"

lemma run_phase_append:
  "run_phase p es = Some q \<Longrightarrow> run_phase p (es @ fs) = run_phase q fs"
  by (induction es arbitrary: p) (auto split: option.splits)

text \<open>What happened on the control connection between two states of the client.\<close>

definition talks :: "ftps_client \<Rightarrow> ctl_event list \<Rightarrow> ftps_client \<Rightarrow> bool" where
  "talks c es c' \<longleftrightarrow>
     outbound (fc_control c') = outbound (fc_control c) @ concat (map event_out es)
     \<and> fc_fill c @ stream_bytes (fc_control c)
         = concat (map event_in es) @ fc_fill c' @ stream_bytes (fc_control c')
     \<and> list_all event_ok es"

lemma talks_append: "talks c es c1 \<Longrightarrow> talks c1 fs c2 \<Longrightarrow> talks c (es @ fs) c2"
  by (simp add: talks_def)

definition moves :: "phase \<Rightarrow> ftps_client \<Rightarrow> ftps_client \<Rightarrow> phase \<Rightarrow> bool" where
  "moves p c c' q \<longleftrightarrow> (fc_poisoned c \<longrightarrow> fc_poisoned c')
     \<and> (fc_poisoned c' \<or> (\<exists>es. talks c es c' \<and> run_phase p es = Some q))"

lemma moves_trans: "moves p c c1 q \<Longrightarrow> moves q c1 c2 r \<Longrightarrow> moves p c c2 r"
  unfolding moves_def by (metis talks_append run_phase_append)

lemma moves_refl [simp]: "moves p c c p"
  unfolding moves_def talks_def by (intro conjI impI disjI2 exI [of _ "[]"]) simp_all

lemma moves_poisoned [simp]: "fc_poisoned c' \<Longrightarrow> moves p c c' q"
  by (simp add: moves_def)

lemma moves_event:
  "talks c [e] c' \<Longrightarrow> event_ok e \<Longrightarrow> phase_step p e = Some q \<Longrightarrow> fc_poisoned c' = fc_poisoned c \<Longrightarrow> moves p c c' q"
  unfolding moves_def by (intro conjI impI disjI2 exI [of _ "[e]"]) simp_all

section \<open>The parts of an operation\<close>

lemma write_ops_single_ok:
  "write_ops limit [op] s = (Inr u, s') \<Longrightarrow>
     outbound s' = outbound s @ op \<and> stream_bytes s' = stream_bytes s"
  using write_ops_frame [of limit "[op]" s "Inr u" s'] by (auto simp: stream_bytes_def)

lemma write_bounded_ok:
  assumes "write_bounded op deadline s = (Inr u, s')"
  shows "outbound s' = outbound s @ op \<and> stream_bytes s' = stream_bytes s"
proof -
  from assms obtain limit where "write_ops limit [op] s = (Inr (), s')"
    by (auto simp: write_bounded_def Let_def simp del: write_ops.simps
        split: option.splits prod.splits sum.splits if_splits)
  then show ?thesis by (rule write_ops_single_ok)
qed

lemma write_command_ok:
  "write_command cmd deadline s = (Inr u, s') \<Longrightarrow>
     outbound s' = outbound s @ as_bytes cmd @ [13, LF] \<and> stream_bytes s' = stream_bytes s"
  by (auto simp: write_command_def as_bytes_def char_byte_def dest!: write_bounded_ok split: prod.splits sum.splits)

lemma read_line_from_outbound:
  "read_line_from deadline scanned fill s = (r, fill', s') \<Longrightarrow> outbound s' = outbound s"
proof (induction deadline scanned fill s rule: read_line_from.induct)
  case (1 deadline scanned fill s)
  then show ?case
    by (auto simp: read_line_from.simps [of deadline scanned fill s] dest: read_chunk_ok read_chunk_err
        split: option.splits if_splits prod.splits sum.splits)
qed

lemma read_reply_ok:
  "read_reply deadline left header acc fill s = (Inr ct, fill', s') \<Longrightarrow>
     \<exists>ls. fill @ stream_bytes s = concat ls @ fill' @ stream_bytes s' \<and> (\<forall>l \<in> set ls. is_line l)
       \<and> reply_of header acc ls = Some ct \<and> outbound s' = outbound s"
proof (induction left arbitrary: header acc fill s)
  case 0
  then show ?case by (auto simp: read_reply.simps split: prod.splits sum.splits)
next
  case (Suc left)
  obtain x fill1 s1 where x: "read_line_raw deadline fill s = (x, fill1, s1)" by (metis prod_cases3)
  from Suc.prems x obtain line where line: "x = Inr line"
    by (cases x) (auto simp: read_reply.simps [of deadline "Suc left"])
  from read_line_from_accounts [of deadline 0 fill s x fill1 s1] x line have
    l: "is_line line" "fill @ stream_bytes s = line @ fill1 @ stream_bytes s1"
    by (auto simp: read_line_raw_def)
  have out: "outbound s1 = outbound s"
    using read_line_from_outbound x unfolding read_line_raw_def by blast
  show ?case
  proof (cases "reply_step_of header acc line")
    case (ReplyDone c msg)
    with Suc.prems x line l out show ?thesis
      by (intro exI [of _ "[line]"]) (simp add: read_reply.simps [of deadline "Suc left"])
  next
    case (ReplyMore header' acc')
    with Suc.prems x line have "read_reply deadline left header' acc' fill1 s1 = (Inr ct, fill', s')"
      by (simp add: read_reply.simps [of deadline "Suc left"])
    from Suc.IH [OF this] obtain ls where
      "fill1 @ stream_bytes s1 = concat ls @ fill' @ stream_bytes s'" "\<forall>l \<in> set ls. is_line l"
      "reply_of header' acc' ls = Some ct" "outbound s' = outbound s1"
      by blast
    with l out ReplyMore show ?thesis by (intro exI [of _ "line # ls"]) simp
  qed
qed

lemma write_command_poisoning_moves:
  assumes "write_command_poisoning line c = (r, c')"
  shows "case r of Inl e \<Rightarrow> fc_poisoned c' | Inr _ \<Rightarrow> moves Quiet c c' (Awaiting line) \<and> fc_poisoned c' = fc_poisoned c"
  using assms
  by (auto simp: write_command_poisoning_def Let_def talks_def split: prod.splits sum.splits
      dest!: write_command_ok intro!: moves_event [of _ "Sent line"])

lemma read_response_poisoning_moves:
  assumes "read_response_poisoning secs c = (r, c')"
  shows "case r of Inl e \<Rightarrow> fc_poisoned c'
    | Inr reply \<Rightarrow> fc_poisoned c' = fc_poisoned c \<and>
        (\<forall>p q. (\<forall>ls. phase_step p (Got ls (fst reply)) = Some q) \<longrightarrow> moves p c c' q)"
proof (cases r)
  case (Inl e)
  with assms show ?thesis
    by (auto simp: read_response_poisoning_def split: prod.splits sum.splits)
next
  case (Inr reply)
  with assms obtain fill s where
    r: "read_response (ftps_deadline_ms (fc_timer c) secs (fc_control c)) (fc_fill c) (fc_control c) = (Inr reply, fill, s)"
    and c': "c' = c\<lparr>fc_control := s, fc_fill := fill\<rparr>"
    by (auto simp: read_response_poisoning_def split: prod.splits sum.splits)
  from read_reply_ok [OF r [unfolded read_response_def]] obtain ls where
    ls: "fc_fill c @ stream_bytes (fc_control c) = concat ls @ fill @ stream_bytes s" "\<forall>l \<in> set ls. is_line l"
    "reply_of None [] ls = Some reply" "outbound s = outbound (fc_control c)"
    by blast
  have "moves p c c' q" if "\<forall>ls. phase_step p (Got ls (fst reply)) = Some q" for p q
    using ls that c' by (intro moves_event [of _ "Got ls (fst reply)"]) (simp_all add: talks_def; metis prod.collapse)+
  with Inr c' show ?thesis by simp
qed

lemma expect_reply_ok: "expect_reply verb reply good = Inr text \<Longrightarrow> fst reply \<in> set good \<and> text = snd reply"
  by (auto simp: expect_reply_def split: prod.splits if_splits)

lemma expect_reply_err: "expect_reply verb reply good = Inl e \<Longrightarrow> fst reply \<notin> set good"
  by (auto simp: expect_reply_def split: prod.splits if_splits)

definition ftps_line :: "string \<Rightarrow> string option \<Rightarrow> string" where
  "ftps_line verb arg = (case arg of None \<Rightarrow> verb | Some a \<Rightarrow> verb @ '' '' @ a)"

lemma ftps_command_moves:
  assumes "ftps_command verb arg c = (r, c')"
  shows "case r of Inl e \<Rightarrow> moves Quiet c c' Quiet
    | Inr reply \<Rightarrow> \<not> fc_poisoned c \<and> moves Quiet c c' (after_reply (ftps_line verb arg) (fst reply))"
proof (cases "fc_poisoned c \<or> (\<exists>a e. arg = Some a \<and> validate_ftp_path a = Inl e)")
  case True
  with assms show ?thesis by (auto simp: ftps_command_def ftps_check_poisoned_def split: if_splits)
next
  case False
  let ?line = "ftps_line verb arg"
  obtain w c1 where w: "write_command_poisoning ?line c = (w, c1)" by (metis surj_pair)
  have f: "ftps_command verb arg c = (case w of Inl e \<Rightarrow> (Inl e, c1)
      | Inr _ \<Rightarrow> read_response_poisoning FTPS_READ_TIMEOUT_SECS c1)"
    using False w by (auto simp: ftps_command_def ftps_check_poisoned_def ftps_line_def split: option.splits sum.splits)
  note wm = write_command_poisoning_moves [OF w]
  show ?thesis
  proof (cases w)
    case (Inl e)
    with f assms wm show ?thesis by simp
  next
    case (Inr u)
    with f assms have rr: "read_response_poisoning FTPS_READ_TIMEOUT_SECS c1 = (r, c')" by simp
    note rm = read_response_poisoning_moves [OF rr]
    show ?thesis
    proof (cases r)
      case Inl
      with rm show ?thesis by simp
    next
      case reply: (Inr reply)
      with rm have "moves (Awaiting ?line) c1 c' (after_reply ?line (fst reply))" by simp
      with wm Inr False reply show ?thesis by (auto intro: moves_trans)
    qed
  qed
qed

lemma after_reply_other [simp]: "\<not> is_transfer line \<Longrightarrow> after_reply line n = Quiet"
  by (simp add: after_reply_def)

lemma command_expect_moves:
  assumes "command_expect verb arg good c = (r, c')" "\<not> is_transfer (ftps_line verb arg)"
  shows "moves Quiet c c' Quiet"
  using assms by (auto simp: command_expect_def split: prod.splits sum.splits dest!: ftps_command_moves)

lemma transfer_command_moves:
  assumes "command_expect verb arg [FTP_TRANSFER_OPENING, FTP_TRANSFER_STARTING] c = (r, c')"
    "is_transfer (ftps_line verb arg)"
  shows "moves Quiet c c' (case r of Inl _ \<Rightarrow> Quiet | Inr _ \<Rightarrow> Closing)"
  using assms
  by (auto simp: command_expect_def after_reply_def split: prod.splits sum.splits
      dest!: ftps_command_moves expect_reply_ok expect_reply_err)

lemma moves_silent:
  "outbound (fc_control c') = outbound (fc_control c) \<Longrightarrow> stream_bytes (fc_control c') = stream_bytes (fc_control c) \<Longrightarrow>
     fc_fill c' = fc_fill c \<Longrightarrow> (fc_poisoned c \<Longrightarrow> fc_poisoned c') \<Longrightarrow> moves p c c' p"
  unfolding moves_def talks_def by (intro conjI impI disjI2 exI [of _ "[]"]) simp_all

lemma sync_clock_moves [simp]: "moves p c (sync_clock ch c) p"
  by (intro moves_silent) (simp_all add: sync_clock_def stream_bytes_def)

lemma dial_moves: "dial c = (r, c') \<Longrightarrow> moves p c c' p"
  by (intro moves_silent) (auto simp: dial_def split: list.splits sum.splits)

definition is_transfer_verb :: "string \<Rightarrow> bool" where
  "is_transfer_verb verb \<longleftrightarrow> verb \<in> {''LIST'', ''RETR'', ''STOR''}"

lemma transfer_verb_line: "is_transfer_verb verb \<Longrightarrow> is_transfer (ftps_line verb (Some path))"
  by (auto simp: is_transfer_verb_def is_transfer_def ftps_line_def)

lemma open_transfer_moves:
  assumes "open_transfer verb path c = (r, c')" "is_transfer_verb verb"
  shows "moves Quiet c c' (case r of Inl _ \<Rightarrow> Quiet | Inr _ \<Rightarrow> Closing)"
proof (cases "fc_poisoned c \<or> (\<exists>e. validate_ftp_path path = Inl e)")
  case True
  with assms(1) show ?thesis by (auto simp: open_transfer_def ftps_check_poisoned_def split: sum.splits)
next
  case False
  then obtain p where v: "validate_ftp_path path = Inr p" "\<not> fc_poisoned c" by (metis sum.exhaust)
  obtain n c1 where n: "negotiate_passive_port c = (n, c1)" by (metis surj_pair)
  then have m1: "moves Quiet c c1 Quiet"
    by (auto simp: negotiate_passive_port_def is_transfer_def ftps_line_def split: prod.splits sum.splits
        dest!: command_expect_moves)
  obtain d c2 where d: "dial c1 = (d, c2)" by (metis surj_pair)
  note m2 = moves_trans [OF m1 dial_moves [OF d]]
  obtain k c3 where k: "command_expect verb (Some path) [FTP_TRANSFER_OPENING, FTP_TRANSFER_STARTING] c2 = (k, c3)"
    by (metis surj_pair)
  note m3 = moves_trans [OF m2 transfer_command_moves [OF k transfer_verb_line [OF assms(2)]]]
  show ?thesis
  proof (cases n)
    case Inl
    with assms(1) v n m1 show ?thesis by (auto simp: open_transfer_def ftps_check_poisoned_def)
  next
    case port: (Inr port)
    show ?thesis
    proof (cases d)
      case Inl
      with assms(1) v n port d m2 show ?thesis by (auto simp: open_transfer_def ftps_check_poisoned_def)
    next
      case conn: (Inr conn)
      show ?thesis
      proof (cases k)
        case Inl
        with assms(1) v n port d conn k m3 show ?thesis by (auto simp: open_transfer_def ftps_check_poisoned_def)
      next
        case Inr
        with assms(1) v n port d conn k have o: "open_data_channel conn c3 = (r, c')"
          by (auto simp: open_transfer_def ftps_check_poisoned_def)
        from m3 Inr have "moves Quiet c c3 Closing" by simp
        with o show ?thesis
          by (auto simp: open_data_channel_def Let_def split: if_splits option.splits sum.splits)
      qed
    qed
  qed
qed

lemma finish_transfer_moves: "finish_transfer verb ch c = (r, c') \<Longrightarrow> moves Closing c c' Quiet"
proof -
  assume f: "finish_transfer verb ch c = (r, c')"
  let ?c = "sync_clock (close_data_channel ch (fc_timer c)) c"
  obtain x c1 where x: "read_response_poisoning FTPS_TRANSFER_CONFIRM_TIMEOUT_SECS ?c = (x, c1)" by (metis surj_pair)
  with f have "c' = c1" by (auto simp: finish_transfer_def Let_def split: sum.splits)
  moreover from read_response_poisoning_moves [OF x] have "moves Closing ?c c1 Quiet"
    by (cases x) auto
  ultimately show ?thesis using moves_trans [OF sync_clock_moves] by blast
qed

section \<open>The operations\<close>

datatype ftps_op =
    OpSize string
  | OpModified string
  | OpList string current_date_time
  | OpDelete string
  | OpRemoveDirectory string
  | OpCreateDirectory string
  | OpRename string string
  | OpAvailableSpace
  | OpUpload string upload_source
  | OpDownload string
  | OpDownloadEach string "bytes list \<Rightarrow> bytes \<Rightarrow> error option"
  | OpPrefix string nat "bytes \<Rightarrow> bool"

definition outcome :: "error + 'a \<Rightarrow> error option" where
  "outcome r = (case r of Inl e \<Rightarrow> Some e | Inr _ \<Rightarrow> None)"

text \<open>One operation of the client: the error it returns, if it does, and the client afterwards.\<close>

fun run_op :: "ftps_op \<Rightarrow> ftps_client \<Rightarrow> error option \<times> ftps_client" where
  "run_op (OpSize path) c = map_prod outcome id (get_file_size path c)"
| "run_op (OpModified path) c = map_prod outcome id (modification_time path c)"
| "run_op (OpList path clk) c = map_prod outcome id (list_directory path clk c)"
| "run_op (OpDelete path) c = map_prod outcome id (ftps_delete_file path c)"
| "run_op (OpRemoveDirectory path) c = map_prod outcome id (remove_directory path c)"
| "run_op (OpCreateDirectory path) c = map_prod outcome id (create_directory path c)"
| "run_op (OpRename source dest) c = map_prod outcome id (rename_file source dest c)"
| "run_op OpAvailableSpace c = map_prod outcome id (get_available_space c)"
| "run_op (OpUpload path src) c = map_prod outcome id (upload_from path src c)"
| "run_op (OpDownload path) c = map_prod outcome id (download_file path c)"
| "run_op (OpDownloadEach path sink) c = map_prod outcome snd (download_file_each path sink c)"
| "run_op (OpPrefix path cap stop) c = map_prod outcome id (download_prefix_until path cap stop c)"

fun run_ops :: "ftps_op list \<Rightarrow> ftps_client \<Rightarrow> ftps_client" where
  "run_ops [] c = c"
| "run_ops (op # ops) c = run_ops ops (snd (run_op op c))"

lemma get_file_size_moves: "get_file_size path c = (r, c') \<Longrightarrow> moves Quiet c c' Quiet"
  by (auto simp: get_file_size_def is_transfer_def ftps_line_def
      split: prod.splits sum.splits option.splits dest!: command_expect_moves)

lemma check_downloaded_size_moves: "check_downloaded_size path n c = (r, c') \<Longrightarrow> moves Quiet c c' Quiet"
  by (auto simp: check_downloaded_size_def split: prod.splits sum.splits dest!: get_file_size_moves)

lemma modification_time_moves: "modification_time path c = (r, c') \<Longrightarrow> moves Quiet c c' Quiet"
  by (auto simp: modification_time_def after_reply_def is_transfer_def ftps_line_def
      split: prod.splits sum.splits option.splits if_splits dest!: ftps_command_moves)

lemma list_directory_each_moves:
  assumes "list_directory_each path clk c = (r, es, c')"
  shows "moves Quiet c c' Quiet"
proof -
  obtain o' c1 where o: "open_transfer ''LIST'' path c = (o', c1)" by (metis surj_pair)
  have m: "moves Quiet c c1 (case o' of Inl _ \<Rightarrow> Quiet | Inr _ \<Rightarrow> Closing)"
    by (rule open_transfer_moves [OF o]) (simp add: is_transfer_verb_def)
  show ?thesis
  proof (cases o')
    case (Inl e)
    with assms o m show ?thesis by (simp add: list_directory_each_def)
  next
    case (Inr ch)
    with assms o have "fc_poisoned c' \<or> (\<exists>ch1 r1. finish_transfer ''LIST'' ch1 c1 = (r1, c'))"
      by (auto simp: list_directory_each_def Let_def split: prod.splits sum.splits if_splits)
    with m Inr show ?thesis by (auto intro: moves_trans [OF _ finish_transfer_moves])
  qed
qed

lemma list_directory_moves: "list_directory path clk c = (r, c') \<Longrightarrow> moves Quiet c c' Quiet"
  by (auto simp: list_directory_def split: prod.splits sum.splits dest!: list_directory_each_moves)

lemma ftps_remove_moves:
  assumes "ftps_remove verb path c = (r, c')" "\<not> is_transfer (ftps_line verb (Some path))"
  shows "moves Quiet c c' Quiet"
proof -
  obtain x c1 where x: "ftps_command verb (Some path) c = (x, c1)" by (metis surj_pair)
  from ftps_command_moves [OF x] assms(2) have m: "moves Quiet c c1 Quiet" by (auto split: sum.splits)
  from assms(1) x have "c' = c1 \<or> (\<exists>parent r1. list_directory parent NAMES_ONLY_LISTING_CLOCK c1 = (r1, c'))"
    by (auto simp: ftps_remove_def finish_removal_def Let_def split: prod.splits sum.splits option.splits if_splits)
  with m show ?thesis by (auto intro: moves_trans [OF _ list_directory_moves])
qed

lemma rename_file_moves: "rename_file source dest c = (r, c') \<Longrightarrow> moves Quiet c c' Quiet"
  by (auto simp: rename_file_def is_transfer_def ftps_line_def split: prod.splits sum.splits
      dest!: command_expect_moves intro: moves_trans)

lemma upload_from_moves:
  assumes "upload_from path src c = (r, c')"
  shows "moves Quiet c c' Quiet"
proof -
  obtain o' c1 where o: "open_transfer ''STOR'' path c = (o', c1)" by (metis surj_pair)
  have m: "moves Quiet c c1 (case o' of Inl _ \<Rightarrow> Quiet | Inr _ \<Rightarrow> Closing)"
    by (rule open_transfer_moves [OF o]) (simp add: is_transfer_verb_def)
  show ?thesis
  proof (cases o')
    case (Inl e)
    with assms o m show ?thesis by (auto simp: upload_from_def Let_def split: if_splits)
  next
    case (Inr ch)
    with assms o have "c' = c \<or> fc_poisoned c' \<or> (\<exists>ch1 r1 c2. finish_transfer ''STOR'' ch1 c1 = (r1, c2)
        \<and> (c' = c2 \<or> (\<exists>r2. get_file_size path c2 = (r2, c'))))"
      by (auto simp: upload_from_def Let_def split: prod.splits sum.splits if_splits)
    with m Inr show ?thesis
      by (auto intro: moves_trans [OF _ finish_transfer_moves] moves_trans [OF moves_trans [OF _ finish_transfer_moves] get_file_size_moves])
  qed
qed

lemma retr_moves:
  assumes "open_transfer ''RETR'' path c = (Inr ch, c1)"
    "fc_poisoned c' \<or> (\<exists>ch1 r1 c2. finish_transfer ''RETR'' ch1 c1 = (r1, c2)
        \<and> (c' = c2 \<or> (\<exists>n r2. check_downloaded_size path n c2 = (r2, c'))))"
  shows "moves Quiet c c' Quiet"
proof -
  from open_transfer_moves [OF assms(1)] have "moves Quiet c c1 Closing" by (simp add: is_transfer_verb_def)
  with assms(2) show ?thesis
    by (auto intro: moves_trans [OF _ finish_transfer_moves]
        moves_trans [OF moves_trans [OF _ finish_transfer_moves] check_downloaded_size_moves])
qed

lemma retr_refused_moves: "open_transfer ''RETR'' path c = (Inl e, c1) \<Longrightarrow> moves Quiet c c1 Quiet"
  using open_transfer_moves [of "''RETR''" path c "Inl e" c1] by (simp add: is_transfer_verb_def)

lemma download_file_moves:
  assumes "download_file path c = (r, c')"
  shows "moves Quiet c c' Quiet"
proof (cases "open_transfer ''RETR'' path c")
  case (Pair o' c1)
  show ?thesis
  proof (cases o')
    case (Inl e)
    with assms Pair retr_refused_moves show ?thesis by (auto simp: download_file_def)
  next
    case (Inr ch)
    with assms Pair show ?thesis
      by (intro retr_moves [of path c ch c1])
        (auto simp: download_file_def read_transfer_def split: prod.splits sum.splits)
  qed
qed

lemma download_file_each_moves:
  assumes "download_file_each path sink c = (r, chunks, c')"
  shows "moves Quiet c c' Quiet"
proof (cases "open_transfer ''RETR'' path c")
  case (Pair o' c1)
  show ?thesis
  proof (cases o')
    case (Inl e)
    with assms Pair retr_refused_moves show ?thesis by (auto simp: download_file_each_def)
  next
    case (Inr ch)
    with assms Pair show ?thesis
      by (intro retr_moves [of path c ch c1])
        (auto simp: download_file_each_def split: prod.splits sum.splits each_stop.splits)
  qed
qed

lemma download_prefix_until_moves:
  assumes "download_prefix_until path cap stop c = (r, c')"
  shows "moves Quiet c c' Quiet"
proof (cases "open_transfer ''RETR'' path c")
  case (Pair o' c1)
  show ?thesis
  proof (cases o')
    case (Inl e)
    with assms Pair retr_refused_moves show ?thesis by (auto simp: download_prefix_until_def)
  next
    case (Inr ch)
    with assms Pair show ?thesis
      by (intro retr_moves [of path c ch c1])
        (auto simp: download_prefix_until_def split: prod.splits sum.splits if_splits)
  qed
qed

lemma run_op_moves: "run_op op c = (r, c') \<Longrightarrow> moves Quiet c c' Quiet"
proof (cases op)
  case (OpCreateDirectory path)
  moreover assume "run_op op c = (r, c')"
  ultimately show ?thesis
    by (auto simp: create_directory_def is_transfer_def ftps_line_def split: prod.splits sum.splits
        dest!: command_expect_moves)
next
  case OpAvailableSpace
  moreover assume "run_op op c = (r, c')"
  ultimately show ?thesis
    by (auto simp: get_available_space_def is_transfer_def ftps_line_def split: prod.splits sum.splits option.splits
        dest!: command_expect_moves)
qed (auto simp: map_prod_def ftps_delete_file_def remove_directory_def is_transfer_def ftps_line_def split: prod.splits
    dest!: get_file_size_moves modification_time_moves list_directory_moves ftps_remove_moves rename_file_moves
      upload_from_moves download_file_moves download_file_each_moves download_prefix_until_moves)

lemma run_ops_moves: "moves Quiet c (run_ops ops c) Quiet"
proof (induction ops arbitrary: c)
  case (Cons op ops)
  obtain r c1 where "run_op op c = (r, c1)" by (metis surj_pair)
  with run_op_moves [OF this] Cons.IH [of c1] show ?case by (auto intro: moves_trans)
qed simp

section \<open>Whole files\<close>

text \<open>What a data connection delivers before its end.\<close>

fun until_eof :: "(nat \<times> peer_read) list \<Rightarrow> bytes" where
  "until_eof [] = []"
| "until_eof ((d, PeerFail k) # r) = []"
| "until_eof ((d, PeerData bs) # r) = (if bs = [] then [] else bs @ until_eof r)"

lemma data_read_until_eof:
  assumes "data_read t b cap s = (Inr bs, s')" "0 < cap"
  shows "until_eof (inbound s) = (if bs = [] then [] else bs @ until_eof (inbound s'))"
proof -
  from assms(1) have "socket_read cap s = (Inr bs, s')"
    by (auto simp: data_read_def read_transfer_chunk_def Let_def split: option.splits prod.splits sum.splits if_splits)
  with assms(2) show ?thesis
    by (auto simp: socket_read.simps split: list.splits prod.splits peer_read.splits if_splits)
qed

lemma read_to_eof_complete:
  "read_to_eof_bounded acc t b m s = (Inr u, payload, s') \<Longrightarrow> payload = acc @ until_eof (inbound s)"
proof (induction acc t b m s rule: read_to_eof_bounded.induct)
  case (1 acc t b m s)
  obtain r s1 where r: "data_read t b FTPS_DATA_READ_BUF_SIZE s = (r, s1)" by (metis surj_pair)
  note unfold = read_to_eof_bounded.simps [of acc t b m s]
  from "1.prems" r obtain bs where bs: "r = Inr bs" by (cases r) (simp_all add: unfold)
  note eof = data_read_until_eof [OF r [unfolded bs]]
  show ?case
  proof (cases "bs = []")
    case True
    with "1.prems" r bs eof show ?thesis by (simp add: unfold)
  next
    case False
    with "1.prems" r bs have small: "\<not> length acc + length bs > m" by (auto simp: unfold)
    with "1.prems" r bs False have "read_to_eof_bounded (acc @ bs) t b m s1 = (Inr u, payload, s')"
      by (simp add: unfold)
    from "1.IH" [OF r [symmetric] bs False small this] False eof show ?thesis by simp
  qed
qed

text \<open>The size check at the end of a transfer: one more command, answered with the file's size.\<close>

definition size_confirmed :: "string \<Rightarrow> nat \<Rightarrow> ftps_client \<Rightarrow> ftps_client \<Rightarrow> bool" where
  "size_confirmed path n c c' \<longleftrightarrow>
     (\<exists>text. command_expect ''SIZE'' (Some path) [FTP_SIZE_OK] c = (Inr text, c') \<and> parse_u64 text = Some n)"

lemma get_file_size_confirmed: "get_file_size path c = (Inr n, c') \<Longrightarrow> size_confirmed path n c c'"
  by (auto simp: get_file_size_def size_confirmed_def split: prod.splits sum.splits option.splits)

lemma src_len_slice [simp]: "src_len (slice_source data) = length data"
  by (simp add: slice_source_def)

lemma send_pieces_slice:
  "send_pieces (slice_source data) t offset s = (Inr u, s') \<Longrightarrow> outbound s' = outbound s @ drop offset data"
proof (induction "slice_source data" t offset s rule: send_pieces.induct)
  case (1 t offset s)
  note unfold = send_pieces.simps [of "slice_source data" t offset s]
  show ?case
  proof (cases "offset < length data")
    case False
    with "1.prems" have "write_bounded [] (ftps_deadline_ms t FTPS_WRITE_TIMEOUT_SECS s) s = (Inr u, s')"
      by (simp add: unfold)
    with False show ?thesis by (auto dest: write_bounded_ok)
  next
    case True
    define bs where "bs = take FTPS_UPLOAD_CHUNK_SIZE (drop offset data)"
    have rd: "read_next (slice_source data) offset FTPS_UPLOAD_CHUNK_SIZE = Inr bs"
      using True by (auto simp: read_next_def slice_source_def Let_def bs_def min_def)
    obtain w s1 where w: "write_bounded bs (ftps_deadline_ms t FTPS_WRITE_TIMEOUT_SECS s) s = (w, s1)"
      by (metis surj_pair)
    from "1.prems" True rd w obtain v where v: "w = Inr v"
      by (cases w) (auto simp: unfold)
    with "1.prems" True rd w have go: "send_pieces (slice_source data) t (offset + length bs) s1 = (Inr u, s')"
      by (simp add: unfold)
    have "outbound s' = outbound s1 @ drop (offset + length bs) data"
      by (rule "1.hyps" [OF _ rd w [symmetric] v go]) (use True in simp)
    moreover have "drop offset data = bs @ drop (offset + length bs) data"
    proof -
      have "drop offset data = bs @ drop (length bs) (drop offset data)"
        unfolding bs_def by (metis append_eq_conv_conj append_take_drop_id)
      then show ?thesis by (simp add: add.commute)
    qed
    ultimately show ?thesis using write_bounded_ok [OF w [unfolded v]] by simp
  qed
qed

section \<open>Properties\<close>

text \<open>C7. However a sequence of operations of the FTPS client goes, the control channel stays in step unless
  the client is poisoned: what was sent and received is a sequence of commands each answered by one
  whole reply, with one more reply taken for every transfer the server announced, and none is left
  outstanding.\<close>

theorem ftps_control_in_step:
  assumes "\<not> fc_poisoned (run_ops ops c)"
  shows "\<exists>es. talks c es (run_ops ops c) \<and> run_phase Quiet es = Some Quiet"
  using run_ops_moves [of c ops] assms by (auto simp: moves_def)

text \<open>A poisoned client refuses every operation with an error and touches neither connection.\<close>

theorem ftps_poisoned_inert:
  assumes "fc_poisoned c"
  shows "\<exists>e. run_op op c = (Some e, c)"
proof -
  have cmd: "ftps_command verb arg c = (Inl ftps_poisoned_error, c)" for verb arg
    using assms by (simp add: ftps_command_def ftps_check_poisoned_def)
  have tr: "open_transfer verb path c = (Inl ftps_poisoned_error, c)" for verb path
    using assms by (simp add: open_transfer_def ftps_check_poisoned_def)
  show ?thesis
    by (cases op)
      (auto simp: cmd tr outcome_def get_file_size_def modification_time_def list_directory_def
        list_directory_each_def ftps_delete_file_def remove_directory_def ftps_remove_def
        create_directory_def rename_file_def get_available_space_def upload_from_def Let_def
        download_file_def download_file_each_def download_prefix_until_def command_expect_def
        split: sum.splits)
qed

text \<open>C25. A download that returns a file returns all of it: every byte the data connection delivered up to its
  end, after the server confirmed the transfer and then named exactly that size.\<close>

theorem ftps_download_complete:
  assumes "download_file path c = (Inr payload, c')"
  shows "\<exists>ch c1 ch2 n c2. open_transfer ''RETR'' path c = (Inr ch, c1)
    \<and> payload = until_eof (inbound (channel_io ch))
    \<and> finish_transfer ''RETR'' ch2 c1 = (Inr n, c2) \<and> n \<in> {FTP_TRANSFER_COMPLETE, FTP_TRANSFER_ABORTED}
    \<and> size_confirmed path (length payload) c2 c'"
proof -
  from assms obtain ch c1 where o: "open_transfer ''RETR'' path c = (Inr ch, c1)"
    by (auto simp: download_file_def split: prod.splits sum.splits)
  with assms obtain ch2 cx where r: "read_transfer ch c1 = (Inr payload, ch2, cx)"
    by (auto simp: download_file_def split: prod.splits sum.splits)
  then have cx: "cx = c1" "payload = until_eof (inbound (channel_io ch))"
    by (auto simp: read_transfer_def read_to_eof_def split: prod.splits sum.splits dest!: read_to_eof_complete)
  from assms o r obtain n c2 where f: "finish_transfer ''RETR'' ch2 c1 = (Inr n, c2)"
    by (auto simp: download_file_def cx split: prod.splits sum.splits)
  then have "n \<in> {FTP_TRANSFER_COMPLETE, FTP_TRANSFER_ABORTED}"
    by (auto simp: finish_transfer_def Let_def split: prod.splits sum.splits dest!: expect_reply_ok)
  moreover from assms o r f have "size_confirmed path (length payload) c2 c'"
    by (auto simp: download_file_def cx(1) check_downloaded_size_def split: prod.splits sum.splits if_splits
        dest!: get_file_size_confirmed)
  ultimately show ?thesis using o f cx(2) by blast
qed

text \<open>C23. An upload that succeeds wrote exactly the file's bytes, in order, to the data connection, got the
  transfer confirmed, and saw the server name the file's length as the size of what it stored.\<close>

theorem ftps_upload_complete:
  assumes "upload_file path data c = (Inr u, c')"
  shows "\<exists>ch c1 s n c2. open_transfer ''STOR'' path c = (Inr ch, c1)
    \<and> send_pieces (slice_source data) (fc_timer c1) 0 (channel_io ch) = (Inr (), s)
    \<and> outbound s = outbound (channel_io ch) @ data
    \<and> finish_transfer ''STOR'' (with_channel_io ch s) c1 = (Inr n, c2) \<and> n \<in> {FTP_TRANSFER_COMPLETE, FTP_TRANSFER_ABORTED}
    \<and> size_confirmed path (length data) c2 c'"
proof -
  from assms obtain ch c1 where o: "open_transfer ''STOR'' path c = (Inr ch, c1)"
    by (auto simp: upload_file_def upload_from_def Let_def split: prod.splits sum.splits if_splits)
  from assms o obtain s where s: "send_pieces (slice_source data) (fc_timer c1) 0 (channel_io ch) = (Inr (), s)"
    by (auto simp: upload_file_def upload_from_def Let_def split: prod.splits sum.splits if_splits)
  have fits: "\<not> length data > FTPS_MAX_TRANSFER_BYTES"
    using assms by (auto simp: upload_file_def upload_from_def Let_def split: if_splits)
  obtain f c2 where f: "finish_transfer ''STOR'' (with_channel_io ch s) c1 = (f, c2)" by (metis surj_pair)
  obtain z c3 where z: "get_file_size path c2 = (z, c3)" by (metis surj_pair)
  from assms fits o s f z obtain n where n: "f = Inr n" "z = Inr (length data)" "c3 = c'"
    by (cases f; cases z) (simp_all add: upload_file_def upload_from_def split: if_splits)
  from f n(1) have "n \<in> {FTP_TRANSFER_COMPLETE, FTP_TRANSFER_ABORTED}"
    by (auto simp: finish_transfer_def Let_def split: prod.splits sum.splits dest!: expect_reply_ok)
  moreover from get_file_size_confirmed [of path c2 "length data" c'] z n have "size_confirmed path (length data) c2 c'"
    by simp
  moreover from send_pieces_slice [OF s] have "outbound s = outbound (channel_io ch) @ data" by simp
  ultimately show ?thesis using o s f n(1) by blast
qed

end
