(* ===== verification/FtpsServed.thy ===== *)
theory FtpsServed
  imports FtpsClientProps
begin

text \<open>
  What the FTPS client makes of a server that keeps to the protocol: replies that have arrived whole are
  taken one per command, and a download whose replies and data are all there returns the file.
\<close>

section \<open>Readers keep what read steps keep\<close>

context chunk_invariant
begin

lemma ftp_line: "read_line_from deadline scanned fill s = (r, fill', s') \<Longrightarrow> P s \<Longrightarrow> P s'"
proof (induction "FTP_MAX_RESPONSE_LINE_BYTES - length fill" arbitrary: scanned fill s rule: less_induct)
  case less
  note unfold = read_line_from.simps [of deadline scanned fill s]
  obtain x s1 where x: "read_chunk FTP_LINE_READ_CHUNK_SIZE deadline s = (x, s1)" by (metis surj_pair)
  note p = chunk [OF x less.prems(2)]
  show ?case
  proof (cases "position (\<lambda>b. b = LF) (drop scanned fill) = None \<and> length fill < FTP_MAX_RESPONSE_LINE_BYTES
      \<and> (\<exists>bs. x = Inr bs)")
    case False
    with less.prems x p show ?thesis
      by (cases x) (auto simp: unfold split: option.splits if_splits)
  next
    case True
    then obtain bs where bs: "x = Inr bs" by blast
    have "FTP_MAX_RESPONSE_LINE_BYTES - length (fill @ bs) < FTP_MAX_RESPONSE_LINE_BYTES - length fill"
      using True read_chunk_ok(1) [OF x [unfolded bs]] by (auto intro: diff_less_mono2)
    from less.hyps [OF this _ p] less.prems True x bs show ?thesis by (simp add: unfold)
  qed
qed

lemma ftp_reply: "read_reply deadline left header acc fill s = (r, fill', s') \<Longrightarrow> P s \<Longrightarrow> P s'"
proof (induction left arbitrary: header acc fill s)
  case 0
  then show ?case
    by (auto simp: read_reply.simps [of deadline 0] read_line_raw_def dest: ftp_line split: prod.splits sum.splits)
next
  case (Suc left)
  obtain x fill1 s1 where x: "read_line_raw deadline fill s = (x, fill1, s1)" by (metis prod_cases3)
  with Suc.prems(2) have p: "P s1" by (auto simp: read_line_raw_def dest: ftp_line)
  show ?case
  proof (cases x)
    case (Inl e)
    with Suc.prems x p show ?thesis by (simp add: read_reply.simps [of deadline "Suc left"])
  next
    case (Inr line)
    with Suc.prems x p show ?thesis
      by (cases "reply_step_of header acc line")
        (auto simp: read_reply.simps [of deadline "Suc left"] dest: Suc.IH)
  qed
qed

lemma ftp_response: "read_response deadline fill s = (r, fill', s') \<Longrightarrow> P s \<Longrightarrow> P s'"
  unfolding read_response_def by (rule ftp_reply)

end

section \<open>One command, one reply\<close>

definition reply_line :: "nat \<Rightarrow> string \<Rightarrow> bytes" where
  "reply_line n text = as_bytes (dec n @ CHR '' '' # text @ crlf)"

definition reply_fits :: "nat \<Rightarrow> string \<Rightarrow> bool" where
  "reply_fits n text \<longleftrightarrow> 100 \<le> n \<and> n < 1000 \<and> plain text"

lemma dec_three: "100 \<le> n \<Longrightarrow> n < 1000 \<Longrightarrow> length (dec n) = 3"
  by (simp add: dec.simps [of n] dec.simps [of "n div 10"] dec.simps [of "n div 10 div 10"] not_less
      less_eq_div_iff_mult_less_eq div_less_iff_less_mult)

lemma dec_plain: "100 \<le> n \<Longrightarrow> n < 1000 \<Longrightarrow> plain (dec n)"
  using dec_digits [of n] dec_three [of n]
  by (auto simp: plain_def list_all_iff is_ascii_digit_def)

lemma one_line_reply:
  assumes "reply_fits n text" "smooth s" "fill @ stream_bytes s = reply_line n text @ rest"
  shows "\<exists>fill' s'. read_response None fill s = (Inr (n, trim (text @ crlf)), fill', s')
    \<and> fill' @ stream_bytes s' = rest"
proof -
  from assms(1) have n: "100 \<le> n" "n < 1000" "plain text" by (simp_all add: reply_fits_def)
  note d = dec_plain [OF n(1,2)] dec_three [OF n(1,2)]
  have sp: "plain (dec n @ [CHR '' ''])" using d by (auto simp: plain_def)
  have line: "is_line (reply_line n text) \<and> length (reply_line n text) \<le> 4096"
    using plain_line [OF sp n(3)] d(2) n(3) by (simp add: reply_line_def plain_def)
  have code: "line_code (reply_line n text) = Some n"
    using line_code_plain [OF d] parse_dec [of n 65536] n(2) by (simp add: reply_line_def)
  have "char_byte (CHR '' '') = 32" by (simp add: char_byte_def)
  with code_line_parts [OF d(2) n(3), of "CHR '' ''"] code
  have "reply_step_of None [] (reply_line n text) = ReplyDone n (trim (text @ crlf))"
    by (simp add: reply_step_of_def header_step_def reply_line_def d(2) del: as_bytes_append)
  with read_reply_delivers [OF assms(2), of fill "[reply_line n text]" rest 100 None "[]"] line assms(3)
  show ?thesis by (simp add: read_response_def)
qed

text \<open>A client whose connection neither fails nor times out, and what it has still to read.\<close>

definition at_ease :: "ftps_client \<Rightarrow> bool" where
  "at_ease c \<longleftrightarrow> fc_timer c = DummyTimer \<and> \<not> fc_poisoned c \<and> write_script (fc_control c) = [] \<and> smooth (fc_control c)"

definition to_read :: "ftps_client \<Rightarrow> bytes" where
  "to_read c = fc_fill c @ stream_bytes (fc_control c)"

lemma no_deadline [simp]: "ftps_deadline_ms DummyTimer secs s = None"
  by (simp add: ftps_deadline_ms_def ftps_deadline_from_ms_def)

text \<open>Nothing but the control channel differs.\<close>

definition same_setup :: "ftps_client \<Rightarrow> ftps_client \<Rightarrow> bool" where
  "same_setup c c' \<longleftrightarrow> fc_dials c' = fc_dials c \<and> fc_plaintext_data c' = fc_plaintext_data c
     \<and> fc_check c' = fc_check c \<and> fc_requires_tls_1_2 c' = fc_requires_tls_1_2 c"

lemma response_at_ease:
  assumes "at_ease c" "to_read c = reply_line n text @ rest" "reply_fits n text"
  shows "\<exists>c'. read_response_poisoning secs c = (Inr (n, trim (text @ crlf)), c')
    \<and> at_ease c' \<and> to_read c' = rest \<and> same_setup c c' \<and> outbound (fc_control c') = outbound (fc_control c)"
proof -
  from assms(1,2) one_line_reply [OF assms(3), of "fc_control c" "fc_fill c" rest] obtain fill' s' where
    r: "read_response None (fc_fill c) (fc_control c) = (Inr (n, trim (text @ crlf)), fill', s')"
      "fill' @ stream_bytes s' = rest"
    by (auto simp: at_ease_def to_read_def)
  have "smooth s'" using smooth_stream.ftp_response [OF r(1)] assms(1) by (simp add: at_ease_def)
  moreover from write_side.ftp_response [OF r(1), of "write_script (fc_control c)" "outbound (fc_control c)"]
  have "write_script s' = write_script (fc_control c) \<and> outbound s' = outbound (fc_control c)" by simp
  ultimately show ?thesis
    using r assms(1) by (simp add: read_response_poisoning_def at_ease_def to_read_def same_setup_def)
qed

lemma command_at_ease:
  assumes "at_ease c" "to_read c = reply_line n text @ rest" "reply_fits n text"
    "pred_option (\<lambda>a. validate_ftp_path a = Inr ()) arg"
  shows "\<exists>c'. ftps_command verb arg c = (Inr (n, trim (text @ crlf)), c')
    \<and> at_ease c' \<and> to_read c' = rest \<and> same_setup c c'
    \<and> outbound (fc_control c') = outbound (fc_control c) @ as_bytes (ftps_line verb arg) @ [13, LF]"
proof -
  let ?line = "ftps_line verb arg"
  from assms(1) have ws: "write_script (fc_control c) = []" "fc_timer c = DummyTimer" "\<not> fc_poisoned c"
    by (simp_all add: at_ease_def)
  obtain c1 where w: "write_command_poisoning ?line c = (Inr (), c1)"
    "at_ease c1" "to_read c1 = to_read c" "same_setup c c1"
    "outbound (fc_control c1) = outbound (fc_control c) @ as_bytes ?line @ [13, LF]"
    using ws assms(1)
    by (simp add: write_command_poisoning_def write_command_def write_bounded_def next_write_def beaten_def less_time_def sent_def at_ease_def to_read_def
        same_setup_def smooth_def stream_bytes_def)
  from response_at_ease [OF w(2), of n "text" rest "FTPS_READ_TIMEOUT_SECS"] w(3) assms(2,3) obtain c' where
    "read_response_poisoning FTPS_READ_TIMEOUT_SECS c1 = (Inr (n, trim (text @ crlf)), c')"
    "at_ease c'" "to_read c' = rest" "same_setup c1 c'" "outbound (fc_control c') = outbound (fc_control c1)"
    by auto
  moreover have "ftps_command verb arg c = read_response_poisoning FTPS_READ_TIMEOUT_SECS c1"
    using w(1) ws(3) assms(4)
    by (cases arg) (simp_all add: ftps_command_def ftps_check_poisoned_def ftps_line_def)
  ultimately show ?thesis using w by (auto simp: same_setup_def)
qed

lemma command_expect_at_ease:
  assumes "at_ease c" "to_read c = reply_line n text @ rest" "reply_fits n text"
    "pred_option (\<lambda>a. validate_ftp_path a = Inr ()) arg" "n \<in> set good"
  shows "\<exists>c'. command_expect verb arg good c = (Inr (trim (text @ crlf)), c')
    \<and> at_ease c' \<and> to_read c' = rest \<and> same_setup c c'
    \<and> outbound (fc_control c') = outbound (fc_control c) @ as_bytes (ftps_line verb arg) @ [13, LF]"
  using command_at_ease [OF assms(1-4), of verb] assms(5)
  by (auto simp: command_expect_def expect_reply_def)

text \<open>The white space a reply line ends with is all that is trimmed off its text.\<close>

lemma strip_line_end:
  "strip_front (map rev white_space) (CHR 0x0A # s) = strip_front (map rev white_space) s"
  "strip_front (map rev white_space) (CHR 0x0D # s) = strip_front (map rev white_space) s"
proof -
  have "find (\<lambda>w. w \<noteq> [] \<and> take (length w) (CHR 0x0A # s) = w) (map rev white_space) = Some [CHR 0x0A]"
    "find (\<lambda>w. w \<noteq> [] \<and> take (length w) (CHR 0x0D # s) = w) (map rev white_space) = Some [CHR 0x0D]"
    by (simp_all add: white_space_def char_of_def bit_0)
  then show "strip_front (map rev white_space) (CHR 0x0A # s) = strip_front (map rev white_space) s"
    "strip_front (map rev white_space) (CHR 0x0D # s) = strip_front (map rev white_space) s"
    by (simp_all only: strip_front.simps [of _ "_ # s"] option.case list.size drop_Suc_Cons) simp_all
qed

lemma trim_crlf:
  assumes "s \<noteq> []" "32 < code (hd s)" "code (hd s) < 128" "32 < code (last s)" "code (last s) < 128"
  shows "trim (s @ crlf) = s"
proof -
  have "s @ crlf = [] \<or> hd (s @ crlf) \<noteq> hd w" if "w \<in> set white_space" for w
    using bspec [OF white_space_ends that] assms by auto
  then have "trim_start (s @ crlf) = s @ crlf"
    unfolding trim_start_def by (intro strip_front_id) blast
  moreover have "strip_front (map rev white_space) (rev (s @ crlf)) = strip_front (map rev white_space) (rev s)"
    by (simp add: strip_line_end)
  moreover have "trim_start s = s"
  proof -
    have "s = [] \<or> hd s \<noteq> hd w" if "w \<in> set white_space" for w
      using bspec [OF white_space_ends that] assms by auto
    then show ?thesis unfolding trim_start_def by (intro strip_front_id) blast
  qed
  ultimately have "trim (s @ crlf) = trim s" by (simp add: trim_def trim_end_def)
  with trim_id [of s] assms show ?thesis by simp
qed

lemma trim_dec_crlf: "trim (dec n @ crlf) = dec n"
proof -
  have d: "dec n \<noteq> []" "\<forall>ch \<in> set (dec n). is_ascii_digit ch"
    using dec_digits [of n] by (simp_all add: list_all_iff)
  then have "is_ascii_digit (hd (dec n))" "is_ascii_digit (last (dec n))" by simp_all
  with d(1) show ?thesis by (intro trim_crlf) (auto simp: is_ascii_digit_def)
qed

lemma dec_length_le: "n < 10 ^ Suc k \<Longrightarrow> length (dec n) \<le> Suc k"
proof (induction k arbitrary: n)
  case (Suc k)
  then have "n div 10 < 10 ^ Suc k" by (simp add: div_less_iff_less_mult)
  from Suc.IH [OF this] show ?case by (simp add: dec.simps [of n])
qed (simp add: dec.simps)

section \<open>A transfer that goes well\<close>

lemma at_ease_sync [simp]:
  "at_ease (sync_clock ch c) = at_ease c" "to_read (sync_clock ch c) = to_read c"
  "same_setup c' (sync_clock ch c) = same_setup c' c"
  "outbound (fc_control (sync_clock ch c)) = outbound (fc_control c)"
  by (simp_all add: sync_clock_def at_ease_def to_read_def same_setup_def smooth_def stream_bytes_def)

lemma same_setup_refl [simp]: "same_setup c c"
  by (simp add: same_setup_def)

lemma same_setup_trans: "same_setup c c1 \<Longrightarrow> same_setup c1 c2 \<Longrightarrow> same_setup c c2"
  by (simp add: same_setup_def)

text \<open>The next connection the factory hands out will do for a transfer.\<close>

definition data_ready :: "ftps_client \<Rightarrow> data_conn \<Rightarrow> bool" where
  "data_ready c conn \<longleftrightarrow> (\<exists>r. fc_dials c = Inr conn # r) \<and>
     (fc_plaintext_data c \<or> dc_tls_error conn = None \<and>
        require_tls_1_2_if_enforced (fc_check c) (fc_requires_tls_1_2 c) (dc_tls_1_2 conn) = Inr ())"

lemma open_transfer_at_ease:
  assumes "at_ease c" "data_ready c conn"
    "to_read c = reply_line FTP_PASSIVE_MODE pasv @ reply_line k msg @ rest" "plain pasv" "reply_fits k msg"
    "parse_pasv_port (trim (pasv @ crlf)) = Inr port" "k \<in> {FTP_TRANSFER_OPENING, FTP_TRANSFER_STARTING}"
    "validate_ftp_path path = Inr ()"
  shows "\<exists>ch c'. open_transfer verb path c = (Inr ch, c') \<and> at_ease c' \<and> to_read c' = rest
    \<and> inbound (channel_io ch) = inbound (dc_io conn) \<and> write_script (channel_io ch) = write_script (dc_io conn)
    \<and> outbound (fc_control c') = outbound (fc_control c) @ as_bytes ''PASV'' @ [13, LF] @ as_bytes (verb @ '' '' @ path) @ [13, LF]"
proof -
  have "reply_fits FTP_PASSIVE_MODE pasv" using assms(4) by (simp add: reply_fits_def)
  from command_expect_at_ease [OF assms(1,3) this, of None "[FTP_PASSIVE_MODE]" "''PASV''"] obtain c1 where
    c1: "command_expect ''PASV'' None [FTP_PASSIVE_MODE] c = (Inr (trim (pasv @ crlf)), c1)" "at_ease c1"
      "to_read c1 = reply_line k msg @ rest" "same_setup c c1"
      "outbound (fc_control c1) = outbound (fc_control c) @ as_bytes ''PASV'' @ [13, LF]"
    by (auto simp: ftps_line_def)
  from assms(2) c1(4) obtain r where d: "fc_dials c1 = Inr conn # r"
    by (auto simp: data_ready_def same_setup_def)
  let ?c2 = "c1\<lparr>fc_dials := r\<rparr>"
  let ?conn = "conn\<lparr>dc_io := (dc_io conn)\<lparr>now := now (fc_control c1)\<rparr>\<rparr>"
  have c2: "at_ease ?c2" "to_read ?c2 = reply_line k msg @ rest"
    using c1 by (simp_all add: at_ease_def to_read_def)
  have "k \<in> set [FTP_TRANSFER_OPENING, FTP_TRANSFER_STARTING]" using assms(7) by simp
  from command_expect_at_ease [OF c2 assms(5) _ this, of "Some path" verb] assms(8) obtain c3 where
    c3: "command_expect verb (Some path) [FTP_TRANSFER_OPENING, FTP_TRANSFER_STARTING] ?c2 = (Inr (trim (msg @ crlf)), c3)"
      "at_ease c3" "to_read c3 = rest" "same_setup ?c2 c3"
      "outbound (fc_control c3) = outbound (fc_control c1) @ as_bytes (verb @ '' '' @ path) @ [13, LF]"
    by (auto simp: ftps_line_def)
  have "fc_plaintext_data c3 \<or> dc_tls_error conn = None \<and>
      require_tls_1_2_if_enforced (fc_check c3) (fc_requires_tls_1_2 c3) (dc_tls_1_2 conn) = Inr ()"
    using assms(2) c1(4) c3(4) by (auto simp: data_ready_def same_setup_def)
  then have "\<exists>ch. open_data_channel ?conn c3 = (Inr ch, c3) \<and> inbound (channel_io ch) = inbound (dc_io conn)
      \<and> write_script (channel_io ch) = write_script (dc_io conn)"
    by (cases "fc_plaintext_data c3") (simp_all add: open_data_channel_def Let_def)
  then obtain ch where ch: "open_data_channel ?conn c3 = (Inr ch, c3)" "inbound (channel_io ch) = inbound (dc_io conn)"
      "write_script (channel_io ch) = write_script (dc_io conn)"
    by blast
  have "open_transfer verb path c = (Inr ch, c3)"
    using c1(1) c3(1) ch(1) d assms(1,6,8)
    by (simp add: open_transfer_def negotiate_passive_port_def dial_def ftps_check_poisoned_def at_ease_def)
  with ch c3 c1(5) show ?thesis by simp
qed

lemma finish_transfer_at_ease:
  assumes "at_ease c" "to_read c = reply_line k msg @ rest" "reply_fits k msg"
    "k \<in> {FTP_TRANSFER_COMPLETE, FTP_TRANSFER_ABORTED}"
  shows "\<exists>c'. finish_transfer verb ch c = (Inr k, c') \<and> at_ease c' \<and> to_read c' = rest
    \<and> outbound (fc_control c') = outbound (fc_control c)"
proof -
  let ?c = "sync_clock (close_data_channel ch (fc_timer c)) c"
  from assms(1,2) have "at_ease ?c" "to_read ?c = reply_line k msg @ rest" by simp_all
  from response_at_ease [OF this assms(3), of "FTPS_TRANSFER_CONFIRM_TIMEOUT_SECS"] obtain c' where
    "read_response_poisoning FTPS_TRANSFER_CONFIRM_TIMEOUT_SECS ?c = (Inr (k, trim (msg @ crlf)), c')"
    "at_ease c'" "to_read c' = rest" "outbound (fc_control c') = outbound (fc_control c)"
    by auto
  with assms(4) show ?thesis by (auto simp: finish_transfer_def Let_def expect_reply_def)
qed

lemma read_to_eof_smooth:
  "smooth s \<Longrightarrow> length acc + length (stream_bytes s) \<le> m \<Longrightarrow>
     \<exists>s'. read_to_eof_bounded acc DummyTimer b m s = (Inr (), acc @ stream_bytes s, s')"
proof (induction acc DummyTimer b m s rule: read_to_eof_bounded.induct)
  case (1 acc b m s)
  note unfold = read_to_eof_bounded.simps [of acc DummyTimer b m s]
  obtain r s1 where d: "data_read DummyTimer b FTPS_DATA_READ_BUF_SIZE s = (r, s1)" by (metis surj_pair)
  from data_read_smooth [OF "1.prems"(1) d] obtain bs where
    bs: "smooth s1" "r = Inr bs" "bs = [] \<longleftrightarrow> stream_bytes s = []"
    by auto
  note ok = data_read_ok [OF d [unfolded bs(2)]]
  show ?case
  proof (cases "bs = []")
    case True
    with d bs show ?thesis by (simp add: unfold)
  next
    case False
    with ok "1.prems"(2) have l: "\<not> length acc + length bs > m" "length (acc @ bs) + length (stream_bytes s1) \<le> m"
      by auto
    from "1.hyps" [OF d [symmetric] bs(2) False l(1) bs(1) l(2)] d bs(2) False l(1) ok show ?thesis
      by (auto simp: unfold)
  qed
qed

lemma size_reply_fits: "n \<le> FTPS_MAX_TRANSFER_BYTES \<Longrightarrow> reply_fits FTP_SIZE_OK (dec n)"
  using dec_digits [of n] dec_length_le [of n 9]
  by (auto simp: reply_fits_def plain_def list_all_iff is_ascii_digit_def)

lemma download_at_ease:
  assumes "at_ease c" "data_ready c conn" "smooth (dc_io conn)"
    "stream_bytes (dc_io conn) = payload" "length payload \<le> FTPS_MAX_TRANSFER_BYTES"
    "to_read c = reply_line FTP_PASSIVE_MODE pasv @ reply_line k msg @ reply_line k' msg'
       @ reply_line FTP_SIZE_OK (dec (length payload)) @ rest"
    "plain pasv" "parse_pasv_port (trim (pasv @ crlf)) = Inr port"
    "reply_fits k msg" "k \<in> {FTP_TRANSFER_OPENING, FTP_TRANSFER_STARTING}"
    "reply_fits k' msg'" "k' \<in> {FTP_TRANSFER_COMPLETE, FTP_TRANSFER_ABORTED}"
    "validate_ftp_path path = Inr ()"
  shows "\<exists>c'. download_file path c = (Inr payload, c') \<and> at_ease c' \<and> to_read c' = rest
    \<and> outbound (fc_control c') = outbound (fc_control c) @ as_bytes ''PASV'' @ [13, LF]
        @ as_bytes (''RETR '' @ path) @ [13, LF] @ as_bytes (''SIZE '' @ path) @ [13, LF]"
proof -
  from open_transfer_at_ease [OF assms(1,2,6,7,9,8,10,13), of "''RETR''"] obtain ch c1 where
    o: "open_transfer ''RETR'' path c = (Inr ch, c1)" "at_ease c1"
      "to_read c1 = reply_line k' msg' @ reply_line FTP_SIZE_OK (dec (length payload)) @ rest"
      "inbound (channel_io ch) = inbound (dc_io conn)"
      "outbound (fc_control c1) = outbound (fc_control c) @ as_bytes ''PASV'' @ [13, LF] @ as_bytes (''RETR '' @ path) @ [13, LF]"
    by auto
  have "smooth (channel_io ch)" "stream_bytes (channel_io ch) = payload"
    using o(4) assms(3,4) by (simp_all add: smooth_def stream_bytes_def)
  with read_to_eof_smooth [of "channel_io ch" "[]" "FTPS_MAX_TRANSFER_BYTES" "FTPS_READ_TIMEOUT_SECS * 1000"] assms(5)
    o(2) obtain s where r: "read_transfer ch c1 = (Inr payload, with_channel_io ch s, c1)"
    by (auto simp: read_transfer_def read_to_eof_def at_ease_def)
  from finish_transfer_at_ease [OF o(2,3) assms(11,12), of "''RETR''" "with_channel_io ch s"] obtain c2 where
    f: "finish_transfer ''RETR'' (with_channel_io ch s) c1 = (Inr k', c2)" "at_ease c2"
      "to_read c2 = reply_line FTP_SIZE_OK (dec (length payload)) @ rest"
      "outbound (fc_control c2) = outbound (fc_control c1)"
    by auto
  from command_expect_at_ease [OF f(2,3) size_reply_fits [OF assms(5)], of "Some path" "[FTP_SIZE_OK]" "''SIZE''"] assms(13) obtain c3 where
    z: "command_expect ''SIZE'' (Some path) [FTP_SIZE_OK] c2 = (Inr (dec (length payload)), c3)" "at_ease c3"
      "to_read c3 = rest" "outbound (fc_control c3) = outbound (fc_control c2) @ as_bytes (''SIZE '' @ path) @ [13, LF]"
    by (auto simp: ftps_line_def trim_dec_crlf)
  have "parse_u64 (dec (length payload)) = Some (length payload)"
    using assms(5) by (intro parse_dec) simp
  then have "download_file path c = (Inr payload, c3)"
    using o(1) r f(1) z(1) by (simp add: download_file_def check_downloaded_size_def get_file_size_def)
  with z f(4) o(5) show ?thesis by simp
qed

lemma write_at_ease:
  "write_script s = [] \<Longrightarrow> write_bounded bs (ftps_deadline_ms DummyTimer secs s) s = (Inr (), sent 0 bs s)
    \<and> write_script (sent 0 bs s) = []"
  by (simp add: write_bounded_def next_write_def beaten_def less_time_def sent_def)

lemma send_pieces_at_ease:
  "write_script s = [] \<Longrightarrow> \<exists>s'. send_pieces (slice_source data) DummyTimer offset s = (Inr (), s')"
proof (induction "slice_source data" DummyTimer offset s rule: send_pieces.induct)
  case (1 offset s)
  note unfold = send_pieces.simps [of "slice_source data" DummyTimer offset s]
  note w = write_at_ease [OF "1.prems"]
  show ?case
  proof (cases "offset < length data")
    case False
    with w show ?thesis by (simp add: unfold)
  next
    case True
    define bs where "bs = take FTPS_UPLOAD_CHUNK_SIZE (drop offset data)"
    have rd: "read_next (slice_source data) offset FTPS_UPLOAD_CHUNK_SIZE = Inr bs"
      using True by (auto simp: read_next_def slice_source_def Let_def bs_def min_def)
    from "1.hyps" [OF _ rd conjunct1 [OF w, symmetric] refl conjunct2 [OF w]] True rd w show ?thesis
      by (simp add: unfold)
  qed
qed

lemma upload_at_ease:
  assumes "at_ease c" "data_ready c conn" "write_script (dc_io conn) = []" "length data \<le> FTPS_MAX_TRANSFER_BYTES"
    "to_read c = reply_line FTP_PASSIVE_MODE pasv @ reply_line k msg @ reply_line k' msg'
       @ reply_line FTP_SIZE_OK (dec (length data)) @ rest"
    "plain pasv" "parse_pasv_port (trim (pasv @ crlf)) = Inr port"
    "reply_fits k msg" "k \<in> {FTP_TRANSFER_OPENING, FTP_TRANSFER_STARTING}"
    "reply_fits k' msg'" "k' \<in> {FTP_TRANSFER_COMPLETE, FTP_TRANSFER_ABORTED}"
    "validate_ftp_path path = Inr ()"
  shows "\<exists>c'. upload_file path data c = (Inr (), c') \<and> at_ease c' \<and> to_read c' = rest"
proof -
  from open_transfer_at_ease [OF assms(1,2,5,6,8,7,9,12), of "''STOR''"] obtain ch c1 where
    o: "open_transfer ''STOR'' path c = (Inr ch, c1)" "at_ease c1"
      "to_read c1 = reply_line k' msg' @ reply_line FTP_SIZE_OK (dec (length data)) @ rest"
      "write_script (channel_io ch) = write_script (dc_io conn)"
    by auto
  from send_pieces_at_ease [of "channel_io ch" data 0] o assms(3) obtain s where
    s: "send_pieces (slice_source data) (fc_timer c1) 0 (channel_io ch) = (Inr (), s)"
    by (auto simp: at_ease_def)
  from finish_transfer_at_ease [OF o(2,3) assms(10,11), of "''STOR''" "with_channel_io ch s"] obtain c2 where
    f: "finish_transfer ''STOR'' (with_channel_io ch s) c1 = (Inr k', c2)" "at_ease c2"
      "to_read c2 = reply_line FTP_SIZE_OK (dec (length data)) @ rest"
    by auto
  from command_expect_at_ease [OF f(2,3) size_reply_fits [OF assms(4)], of "Some path" "[FTP_SIZE_OK]" "''SIZE''"] assms(12)
  obtain c3 where z: "command_expect ''SIZE'' (Some path) [FTP_SIZE_OK] c2 = (Inr (dec (length data)), c3)" "at_ease c3"
      "to_read c3 = rest"
    by (auto simp: ftps_line_def trim_dec_crlf)
  have "parse_u64 (dec (length data)) = Some (length data)"
    using assms(4) by (intro parse_dec) simp
  then have "upload_file path data c = (Inr (), c3)"
    using o(1) s f(1) z(1) assms(4) by (simp add: upload_file_def upload_from_def get_file_size_def)
  with z show ?thesis by blast
qed

section \<open>A concrete server\<close>

definition server_says :: "nat \<Rightarrow> bytes" where
  "server_says n = reply_line FTP_PASSIVE_MODE ''(1,2,3,4,1,0)'' @ reply_line FTP_TRANSFER_OPENING ''open''
     @ reply_line FTP_TRANSFER_COMPLETE ''done'' @ reply_line FTP_SIZE_OK (dec n)"

definition served_conn :: "bytes \<Rightarrow> data_conn" where
  "served_conn payload =
     \<lparr>dc_io = \<lparr>now = 0, sleep_error = None, inbound = (if payload = [] then [] else [(1, PeerData payload)]),
        write_script = [], outbound = []\<rparr>,
      dc_tls_error = None, dc_tls_1_2 = True, dc_close_delay = 0\<rparr>"

definition served_client :: "bytes \<Rightarrow> ftps_client" where
  "served_client payload =
     \<lparr>fc_control = \<lparr>now = 0, sleep_error = None, inbound = [(3, PeerData (server_says 3))], write_script = [], outbound = []\<rparr>,
      fc_fill = [], fc_timer = DummyTimer, fc_poisoned = False, fc_check = Enforce, fc_plaintext_data = False,
      fc_requires_tls_1_2 = True,
      fc_dials = [Inr (served_conn payload)]\<rparr>"

lemma reply_line_nonempty [simp]: "reply_line n x \<noteq> []"
  by (simp add: reply_line_def as_bytes_def)

lemma served_client_at_ease:
  "at_ease (served_client payload)" "to_read (served_client payload) = server_says 3"
  by (simp_all add: at_ease_def served_client_def smooth_def server_says_def to_read_def stream_bytes_def)

lemma server_pasv: "parse_pasv_port (trim (''(1,2,3,4,1,0)'' @ crlf)) = Inr 256"
proof -
  have "trim (''(1,2,3,4,1,0)'' @ crlf) = ''(1,2,3,4,1,0)''" by (rule trim_crlf) simp_all
  then show ?thesis
    by (simp add: parse_pasv_port_def Let_def trim_id parse_unsigned_def is_ascii_digit_def
        digits_value_def digit_value_def)
qed

lemma served_client_ready:
  "data_ready (served_client payload) (served_conn payload)" "smooth (dc_io (served_conn payload))"
  "stream_bytes (dc_io (served_conn payload)) = payload" "write_script (dc_io (served_conn payload)) = []"
  by (simp_all add: served_client_def served_conn_def data_ready_def require_tls_1_2_if_enforced_def smooth_def
      stream_bytes_def)

lemma server_texts:
  "plain ''(1,2,3,4,1,0)''" "reply_fits FTP_TRANSFER_OPENING ''open''" "reply_fits FTP_TRANSFER_COMPLETE ''done''"
  "validate_ftp_path ''/a'' = Inr ()"
  by (simp_all add: plain_def reply_fits_def validate_ftp_path_def validate_ftp_path_bytes_def path_segments_def)

lemmas served = served_client_at_ease(1) served_client_ready server_texts server_pasv

lemma server_script: "length payload = 3 \<Longrightarrow> to_read (served_client payload) =
    reply_line FTP_PASSIVE_MODE ''(1,2,3,4,1,0)'' @ reply_line FTP_TRANSFER_OPENING ''open''
     @ reply_line FTP_TRANSFER_COMPLETE ''done'' @ reply_line FTP_SIZE_OK (dec (length payload)) @ []"
  by (simp add: served_client_at_ease server_says_def)

lemma served_download: "\<exists>c'. download_file ''/a'' (served_client [1, 2, 3]) = (Inr [1, 2, 3], c') \<and> \<not> fc_poisoned c'"
  using download_at_ease [OF served(1-4) _ server_script [of "[1, 2, 3]"] served(6,10,7) _ served(8) _ served(9)]
  by (force simp: at_ease_def)

lemma served_upload: "\<exists>c'. upload_file ''/a'' [1, 2, 3] (served_client [1, 2, 3]) = (Inr (), c')"
  using upload_at_ease [OF served(1,2,5) _ server_script [of "[1, 2, 3]"] served(6,10,7) _ served(8) _ served(9)] by force

section \<open>Properties\<close>

text \<open>C26. A download from a server that keeps to the protocol succeeds: with the replies of its four steps on
  the control channel and the file on the data connection, the client returns the file, has sent just
  the three commands, and is left at the first byte after the last reply, ready for the next operation.\<close>

theorem ftps_download_succeeds:
  assumes "at_ease c" "data_ready c conn" "smooth (dc_io conn)"
    "stream_bytes (dc_io conn) = payload" "length payload \<le> FTPS_MAX_TRANSFER_BYTES"
    "to_read c = reply_line FTP_PASSIVE_MODE pasv @ reply_line k msg @ reply_line k' msg'
       @ reply_line FTP_SIZE_OK (dec (length payload)) @ rest"
    "plain pasv" "parse_pasv_port (trim (pasv @ crlf)) = Inr port"
    "reply_fits k msg" "k \<in> {FTP_TRANSFER_OPENING, FTP_TRANSFER_STARTING}"
    "reply_fits k' msg'" "k' \<in> {FTP_TRANSFER_COMPLETE, FTP_TRANSFER_ABORTED}"
    "validate_ftp_path path = Inr ()"
  shows "\<exists>c'. download_file path c = (Inr payload, c') \<and> at_ease c' \<and> to_read c' = rest
    \<and> outbound (fc_control c') = outbound (fc_control c) @ as_bytes ''PASV'' @ [13, LF]
        @ as_bytes (''RETR '' @ path) @ [13, LF] @ as_bytes (''SIZE '' @ path) @ [13, LF]"
  using assms by (rule download_at_ease)

theorem ftps_download_succeeds_witness:
  "\<exists>c'. download_file ''/a'' (served_client [1, 2, 3]) = (Inr [1, 2, 3], c') \<and> to_read c' = []"
  using ftps_download_succeeds [OF served(1-4) _ server_script [of "[1, 2, 3]"] served(6,10,7) _ served(8) _ served(9)]
  by force

theorem ftps_download_complete_witness:
  "\<exists>ch c1. open_transfer ''RETR'' ''/a'' (served_client [1, 2, 3]) = (Inr ch, c1)
    \<and> [1, 2, 3] = until_eof (inbound (channel_io ch))"
  using served_download ftps_download_complete by blast

theorem ftps_upload_complete_witness:
  "\<exists>ch c1 s. open_transfer ''STOR'' ''/a'' (served_client [1, 2, 3]) = (Inr ch, c1)
    \<and> send_pieces (slice_source [1, 2, 3]) (fc_timer c1) 0 (channel_io ch) = (Inr (), s)
    \<and> outbound s = outbound (channel_io ch) @ [1, 2, 3]"
  using served_upload ftps_upload_complete by blast

theorem ftps_control_in_step_witness:
  "\<exists>es. talks (served_client [1, 2, 3]) es (run_ops [OpDownload ''/a''] (served_client [1, 2, 3]))
    \<and> run_phase Quiet es = Some Quiet"
proof -
  have "\<not> fc_poisoned (run_ops [OpDownload ''/a''] (served_client [1, 2, 3]))" using served_download by auto
  from ftps_control_in_step [OF this] show ?thesis .
qed

theorem ftps_poisoned_inert_witness:
  "\<exists>e. run_op (OpDelete ''/a'') (served_client []\<lparr>fc_poisoned := True\<rparr>) = (Some e, served_client []\<lparr>fc_poisoned := True\<rparr>)"
  by (rule ftps_poisoned_inert) simp

end
