(* ===== verification/FtpsLogin.thy ===== *)
theory FtpsLogin
  imports FtpsServed
begin

text \<open>
  The login of the FTPS client: which bytes it can ever write, when it writes any, and what it has seen
  once it hands over a client.
\<close>

lemma write_bounded_prefix:
  assumes "write_bounded op deadline s = (r, s')"
  shows "\<exists>p q. outbound s' = outbound s @ p \<and> op = p @ q \<and> stream_bytes s' = stream_bytes s
    \<and> (\<forall>u. r = Inr u \<longrightarrow> q = [])"
proof (cases "s' = s \<and> (\<exists>e. r = Inl e)")
  case False
  from assms False obtain limit x where w: "write_ops limit [op] s = (x, s')" "(\<exists>u. r = Inr u) \<longrightarrow> x = Inr ()"
    by (auto simp: write_bounded_def Let_def simp del: write_ops.simps
        split: option.splits prod.splits sum.splits if_splits)
  from write_ops_frame [OF w(1)] w(2) show ?thesis by (auto simp: stream_bytes_def)
qed auto

definition command_bytes :: "string \<Rightarrow> bytes" where
  "command_bytes cmd = as_bytes cmd @ [13, LF]"

lemma write_command_prefix:
  assumes "write_command cmd deadline s = (r, s')"
  shows "\<exists>p q. outbound s' = outbound s @ p \<and> command_bytes cmd = p @ q \<and> stream_bytes s' = stream_bytes s
    \<and> (\<forall>u. r = Inr u \<longrightarrow> q = [])"
proof -
  obtain x s1 where x: "write_bounded (as_bytes cmd @ [13, LF]) deadline s = (x, s1)" by (metis surj_pair)
  from write_bounded_prefix [OF this] obtain p q where
    p: "outbound s1 = outbound s @ p" "command_bytes cmd = p @ q" "stream_bytes s1 = stream_bytes s"
      "\<forall>u. x = Inr u \<longrightarrow> q = []"
    by (auto simp: command_bytes_def)
  obtain y s2 where y: "write_bounded [] deadline s1 = (y, s2)" by (metis surj_pair)
  from write_bounded_prefix [OF this] have "outbound s2 = outbound s1" "stream_bytes s2 = stream_bytes s1" by auto
  with assms x y p show ?thesis by (cases x) (auto simp: write_command_def)
qed

lemma read_reply_outbound:
  "read_reply deadline left header acc fill s = (r, fill', s') \<Longrightarrow> outbound s' = outbound s"
proof (induction left arbitrary: header acc fill s)
  case 0
  then show ?case
    by (auto simp: read_reply.simps [of deadline 0] read_line_raw_def dest: read_line_from_outbound
        split: prod.splits sum.splits)
next
  case (Suc left)
  obtain x fill1 s1 where x: "read_line_raw deadline fill s = (x, fill1, s1)" by (metis prod_cases3)
  then have "outbound s1 = outbound s" by (auto simp: read_line_raw_def dest: read_line_from_outbound)
  with Suc x show ?case
    by (cases x; cases "reply_step_of header acc (projr x)")
      (auto simp: read_reply.simps [of deadline "Suc left"])
qed

text \<open>One whole reply with a given code.\<close>

definition is_reply :: "bytes list \<Rightarrow> nat \<Rightarrow> bool" where
  "is_reply ls n \<longleftrightarrow> (\<forall>l \<in> set ls. is_line l) \<and> (\<exists>text. reply_of None [] ls = Some (n, text))"

lemma send_and_expect_steps:
  assumes "send_and_expect cmd verb expected deadline fill s = (r, fill', s')"
  shows "\<exists>p q. outbound s' = outbound s @ p \<and> command_bytes cmd = p @ q
    \<and> (\<forall>u. r = Inr u \<longrightarrow> q = [] \<and> (\<exists>ls. is_reply ls expected
          \<and> fill @ stream_bytes s = concat ls @ fill' @ stream_bytes s'))"
proof -
  obtain w s1 where w: "write_command cmd deadline s = (w, s1)" by (metis surj_pair)
  from write_command_prefix [OF w] obtain p q where
    p: "outbound s1 = outbound s @ p" "command_bytes cmd = p @ q" "stream_bytes s1 = stream_bytes s"
      "\<forall>u. w = Inr u \<longrightarrow> q = []"
    by blast
  show ?thesis
  proof (cases w)
    case (Inl e)
    with assms w p show ?thesis by (auto simp: send_and_expect_def)
  next
    case (Inr u)
    obtain x fill2 s2 where x: "read_response deadline fill s1 = (x, fill2, s2)" by (metis prod_cases3)
    then have out: "outbound s2 = outbound s1" by (auto simp: read_response_def dest: read_reply_outbound)
    show ?thesis
    proof (cases x)
      case (Inl e)
      with assms w Inr x out p show ?thesis by (auto simp: send_and_expect_def)
    next
      case reply: (Inr reply)
      from read_reply_ok [OF x [unfolded reply read_response_def]] obtain ls where
        ls: "fill @ stream_bytes s1 = concat ls @ fill2 @ stream_bytes s2" "\<forall>l \<in> set ls. is_line l"
          "reply_of None [] ls = Some reply"
        by blast
      have f: "fill' = fill2 \<and> s' = s2 \<and> (\<forall>u. r = Inr u \<longrightarrow> fst reply = expected)"
        using assms w Inr x reply
        by (auto simp: send_and_expect_def split: sum.splits dest!: expect_reply_ok)
      have "is_reply ls (fst reply)" using ls(2,3) by (cases reply) (simp add: is_reply_def)
      with f ls(1) p out Inr show ?thesis by auto
    qed
  qed
qed

text \<open>The commands' bytes, one after the other.\<close>

definition login_bytes :: "(string \<times> string \<times> nat) list \<Rightarrow> bytes" where
  "login_bytes steps = concat (map (\<lambda>(cmd, _, _). command_bytes cmd) steps)"

lemma login_steps_prefix:
  "login_steps steps deadline fill s = (r, fill', s') \<Longrightarrow>
     \<exists>p q. outbound s' = outbound s @ p \<and> login_bytes steps = p @ q
       \<and> (\<forall>u. r = Inr u \<longrightarrow> q = [] \<and> (\<exists>lss. list_all2 is_reply lss (map (snd \<circ> snd) steps)
            \<and> fill @ stream_bytes s = concat (map concat lss) @ fill' @ stream_bytes s'))"
proof (induction steps arbitrary: fill s)
  case Nil
  then show ?case by (auto simp: login_bytes_def)
next
  case (Cons step steps)
  obtain cmd verb expected where step: "step = (cmd, verb, expected)" by (metis prod_cases3)
  obtain x fill1 s1 where x: "send_and_expect cmd verb expected deadline fill s = (x, fill1, s1)"
    by (metis prod_cases3)
  from send_and_expect_steps [OF x] obtain p q where
    p: "outbound s1 = outbound s @ p" "command_bytes cmd = p @ q" "\<forall>u. x = Inr u \<longrightarrow> q = [] \<and> (\<exists>ls. is_reply ls expected
          \<and> fill @ stream_bytes s = concat ls @ fill1 @ stream_bytes s1)"
    by blast
  show ?case
  proof (cases x)
    case (Inl e)
    with Cons.prems x p step show ?thesis
      by (intro exI [of _ p] exI [of _ "q @ login_bytes steps"]) (auto simp: login_bytes_def)
  next
    case (Inr u)
    with Cons.prems x step have "login_steps steps deadline fill1 s1 = (r, fill', s')" by simp
    from Cons.IH [OF this] obtain p' q' where
      p': "outbound s' = outbound s1 @ p'" "login_bytes steps = p' @ q'"
        "\<forall>u. r = Inr u \<longrightarrow> q' = [] \<and> (\<exists>lss. list_all2 is_reply lss (map (snd \<circ> snd) steps)
            \<and> fill1 @ stream_bytes s1 = concat (map concat lss) @ fill' @ stream_bytes s')"
      by blast
    from p(3) Inr obtain ls where ls: "q = []" "is_reply ls expected"
      "fill @ stream_bytes s = concat ls @ fill1 @ stream_bytes s1"
      by blast
    have go: "q' = [] \<and> (\<exists>lss. list_all2 is_reply lss (map (snd \<circ> snd) (step # steps))
        \<and> fill @ stream_bytes s = concat (map concat lss) @ fill' @ stream_bytes s')" if "r = Inr v" for v
    proof -
      from p'(3) that obtain lss where l: "q' = []" "list_all2 is_reply lss (map (snd \<circ> snd) steps)"
        "fill1 @ stream_bytes s1 = concat (map concat lss) @ fill' @ stream_bytes s'"
        by blast
      with ls step show ?thesis by (intro conjI exI [of _ "ls # lss"]) simp_all
    qed
    have "outbound s' = outbound s @ (p @ p')" "login_bytes (step # steps) = (p @ p') @ q'"
      using p(1,2) p'(1,2) ls(1) step by (simp_all add: login_bytes_def)
    with go show ?thesis by blast
  qed
qed

section \<open>Properties\<close>

text \<open>The TLS session is one the login may go over.\<close>

definition tls_accepted :: "tls_version_check \<Rightarrow> bool \<Rightarrow> data_conn \<Rightarrow> bool" where
  "tls_accepted check required conn \<longleftrightarrow>
     dc_tls_error conn = None \<and> (check = Enforce \<longrightarrow> required \<longrightarrow> dc_tls_1_2 conn)"

lemma tls_required_ok:
  "(check = Enforce \<longrightarrow> required \<longrightarrow> b) \<Longrightarrow> require_tls_1_2_if_enforced check required b = Inr ()"
  "\<not> (check = Enforce \<longrightarrow> required \<longrightarrow> b) \<Longrightarrow> \<exists>e. require_tls_1_2_if_enforced check required b = Inl e"
  by (cases check; simp add: require_tls_1_2_if_enforced_def)+

text \<open>C30. Whatever the server does, a login writes only a prefix of its commands, and not a byte before the TLS
  session was accepted; a login that succeeds wrote all of them, and took the greeting and then, for
  each command, one whole reply with the code that command asks for.\<close>

theorem ftps_login_guarded:
  assumes "connect_control_stream access_code t check plaintext required conn = (r, s)"
  shows "\<exists>p q. outbound s = outbound (dc_io conn) @ p
    \<and> login_bytes (login_commands access_code plaintext) = p @ q
    \<and> (p \<noteq> [] \<longrightarrow> tls_accepted check required conn)
    \<and> (\<forall>fill. r = Inr fill \<longrightarrow> q = [] \<and> tls_accepted check required conn
        \<and> (\<exists>lss. list_all2 is_reply lss (FTP_GREETING # map (snd \<circ> snd) (login_commands access_code plaintext))
            \<and> stream_bytes (dc_io conn) = concat (map concat lss) @ fill @ stream_bytes s))"
proof (cases "tls_accepted check required conn")
  case False
  have "s = dc_io conn \<and> (\<exists>e. r = Inl e)"
    using assms False
    using tls_required_ok(2) [of check required "dc_tls_1_2 conn"]
    by (cases "dc_tls_error conn") (auto simp: connect_control_stream_def Let_def tls_accepted_def)
  then show ?thesis by auto
next
  case True
  let ?dl = "ftps_deadline_ms t FTPS_READ_TIMEOUT_SECS (dc_io conn)"
  obtain x fill1 s1 where x: "read_response ?dl [] (dc_io conn) = (x, fill1, s1)" by (metis prod_cases3)
  then have out: "outbound s1 = outbound (dc_io conn)" by (auto simp: read_response_def dest: read_reply_outbound)
  obtain y fill2 s2 where y: "login_steps (login_commands access_code plaintext) ?dl fill1 s1 = (y, fill2, s2)"
    by (metis prod_cases3)
  have tls_ok: "dc_tls_error conn = None" "require_tls_1_2_if_enforced check required (dc_tls_1_2 conn) = Inr ()"
    using True tls_required_ok(1) by (auto simp: tls_accepted_def)
  have go: "(\<exists>e. r = Inl e) \<and> s = s1 \<or> (\<exists>reply. x = Inr reply \<and> fst reply = FTP_GREETING \<and> s = s2
      \<and> (\<forall>fill. r = Inr fill \<longrightarrow> y = Inr () \<and> fill = fill2))"
    using assms x y tls_ok
    by (auto simp: connect_control_stream_def Let_def split: sum.splits dest!: expect_reply_ok)
  then show ?thesis
  proof
    assume "(\<exists>e. r = Inl e) \<and> s = s1"
    with out show ?thesis by auto
  next
    assume "\<exists>reply. x = Inr reply \<and> fst reply = FTP_GREETING \<and> s = s2
      \<and> (\<forall>fill. r = Inr fill \<longrightarrow> y = Inr () \<and> fill = fill2)"
    then obtain reply where g: "x = Inr reply" "fst reply = FTP_GREETING" "s = s2"
      "\<forall>fill. r = Inr fill \<longrightarrow> y = Inr () \<and> fill = fill2"
      by blast
    from read_reply_ok [OF x [unfolded g(1) read_response_def]] obtain ls where
      ls: "stream_bytes (dc_io conn) = concat ls @ fill1 @ stream_bytes s1" "\<forall>l \<in> set ls. is_line l"
        "reply_of None [] ls = Some reply"
      by auto
    have gr: "is_reply ls FTP_GREETING" using ls(2,3) g(2) by (cases reply) (simp add: is_reply_def)
    from login_steps_prefix [OF y] obtain p q where
      p: "outbound s2 = outbound s1 @ p" "login_bytes (login_commands access_code plaintext) = p @ q"
        "\<forall>u. y = Inr u \<longrightarrow> q = [] \<and> (\<exists>lss. list_all2 is_reply lss (map (snd \<circ> snd) (login_commands access_code plaintext))
            \<and> fill1 @ stream_bytes s1 = concat (map concat lss) @ fill2 @ stream_bytes s2)"
      by blast
    have fin: "\<exists>lss'. list_all2 is_reply lss' (FTP_GREETING # cs)
        \<and> stream_bytes (dc_io conn) = concat (map concat lss') @ fill2 @ stream_bytes s2"
      if "list_all2 is_reply lss cs" "fill1 @ stream_bytes s1 = concat (map concat lss) @ fill2 @ stream_bytes s2"
      for lss cs
      using that ls(1) gr by (intro exI [of _ "ls # lss"]) simp
    have "q = [] \<and> (\<exists>lss. list_all2 is_reply lss (FTP_GREETING # map (snd \<circ> snd) (login_commands access_code plaintext))
        \<and> stream_bytes (dc_io conn) = concat (map concat lss) @ fill @ stream_bytes s)" if "r = Inr fill" for fill
    proof -
      from g(4) that have y': "y = Inr ()" "fill = fill2" by simp_all
      from p(3) y'(1) obtain lss where "q = []" "list_all2 is_reply lss (map (snd \<circ> snd) (login_commands access_code plaintext))"
        "fill1 @ stream_bytes s1 = concat (map concat lss) @ fill2 @ stream_bytes s2"
        by blast
      with fin [OF this(2,3)] y'(2) g(3) show ?thesis by simp
    qed
    with p(1,2) out g(3) True show ?thesis by (intro exI [of _ p] exI [of _ q]) simp
  qed
qed


theorem ftps_login_guarded_witness:
  "\<exists>r s p q. connect_control_stream ''12345678'' DummyTimer Enforce False True (served_conn [50]) = (r, s)
    \<and> outbound s = p \<and> login_bytes (login_commands ''12345678'' False) = p @ q"
proof -
  obtain r s where rs: "connect_control_stream ''12345678'' DummyTimer Enforce False True (served_conn [50]) = (r, s)"
    by (metis surj_pair)
  have "outbound (dc_io (served_conn [50])) = []" by (simp add: served_conn_def)
  with ftps_login_guarded [OF rs] rs show ?thesis by auto
qed

end
