(* ===== verification/Bits.thy ===== *)
theory Bits
  imports RustStr
begin

text \<open>
  The wire bit masks and hex fields of \<open>src/types/telemetry/bits.rs\<close>. Flag words are \<open>u32\<close> or \<open>u64\<close>, hex
  strings are read digit by digit from the right, so a capability string may be of any length.
\<close>

unbundle bit_operations_syntax

section \<open>Flag words\<close>

datatype axis = X | Y | Z

abbreviation (input) HOME_FLAG_X :: u32 where "HOME_FLAG_X \<equiv> 1"
abbreviation (input) HOME_FLAG_Y :: u32 where "HOME_FLAG_Y \<equiv> 2"
abbreviation (input) HOME_FLAG_Z :: u32 where "HOME_FLAG_Z \<equiv> 4"
abbreviation (input) HOME_FLAG_XYZ :: u32 where "HOME_FLAG_XYZ \<equiv> 7"
abbreviation (input) HOME_FLAG_POWER_220V :: u32 where "HOME_FLAG_POWER_220V \<equiv> 8"
abbreviation (input) DOOR_OPEN :: u64 where "DOOR_OPEN \<equiv> 8388608"
abbreviation (input) NET_CONF_WIRED :: u32 where "NET_CONF_WIRED \<equiv> 1"

definition is_axis_homed :: "u32 \<Rightarrow> axis \<Rightarrow> bool" where
  "is_axis_homed home_flag ax =
     (home_flag AND (case ax of X \<Rightarrow> HOME_FLAG_X | Y \<Rightarrow> HOME_FLAG_Y | Z \<Rightarrow> HOME_FLAG_Z) \<noteq> 0)"

definition is_all_axes_homed :: "u32 \<Rightarrow> bool" where
  "is_all_axes_homed home_flag = (home_flag AND HOME_FLAG_XYZ = HOME_FLAG_XYZ)"

definition is_220v :: "u32 \<Rightarrow> bool" where
  "is_220v home_flag = (home_flag AND HOME_FLAG_POWER_220V \<noteq> 0)"

definition sdcard_state_bits :: "u32 \<Rightarrow> u32" where
  "sdcard_state_bits home_flag = drop_bit 8 home_flag AND 3"

definition is_door_open :: "u64 \<Rightarrow> bool" where
  "is_door_open v = (v AND DOOR_OPEN \<noteq> 0)"

definition is_wired :: "u32 \<Rightarrow> bool" where
  "is_wired net_conf = (net_conf AND NET_CONF_WIRED \<noteq> 0)"

definition WIRED_WIFI_SIGNAL :: string where "WIRED_WIFI_SIGNAL = ''-90dBm''"

definition is_wired_wifi_signal :: "string \<Rightarrow> bool" where
  "is_wired_wifi_signal wifi_signal = (wifi_signal = WIRED_WIFI_SIGNAL)"

definition home_flag_bit :: "u32 \<Rightarrow> nat \<Rightarrow> bool" where
  "home_flag_bit home_flag k = (home_flag AND push_bit k 1 \<noteq> 0)"

section \<open>Hex fields\<close>

text \<open>\<open>char::to_digit(16)\<close> of a byte read as a character.\<close>

definition hex_value :: "char \<Rightarrow> nat option" where
  "hex_value c =
     (let n = code c
      in if 48 \<le> n \<and> n \<le> 57 then Some (n - 48)
         else if 97 \<le> n \<and> n \<le> 102 then Some (n - 87)
         else if 65 \<le> n \<and> n \<le> 70 then Some (n - 55)
         else None)"

definition strip_hex_prefix :: "string \<Rightarrow> string" where
  "strip_hex_prefix s0 =
     (let s = trim s0
      in case s of
           a # b # r \<Rightarrow> if a = CHR ''0'' \<and> (b = CHR ''x'' \<or> b = CHR ''X'') then r else s
         | _ \<Rightarrow> s)"

text \<open>\<open>u64::from_str_radix(_, 16)\<close>: one optional \<open>+\<close>, then digits only; an overflow is an error.\<close>

definition hex_digits_value :: "nat list \<Rightarrow> nat" where
  "hex_digits_value ds = foldl (\<lambda>n d. 16 * n + d) 0 ds"

definition from_hex :: "nat \<Rightarrow> string \<Rightarrow> nat option" where
  "from_hex bound s =
     (let ds = (case s of [] \<Rightarrow> [] | c # cs \<Rightarrow> if c = CHR ''+'' then cs else s)
      in if ds = [] \<or> \<not> list_all (\<lambda>c. hex_value c \<noteq> None) ds then None
         else let v = hex_digits_value (map (the \<circ> hex_value) ds)
              in if v < bound then Some v else None)"

definition hex_u64 :: "string \<Rightarrow> nat option" where
  "hex_u64 s = from_hex 18446744073709551616 (strip_hex_prefix s)"

text \<open>The loop of \<open>hex_bit\<close> over the digits from the right; \<open>seen\<close> counts hex digits.\<close>

fun hex_bit_loop :: "string \<Rightarrow> nat \<Rightarrow> nat \<Rightarrow> nat \<Rightarrow> bool \<Rightarrow> bool option" where
  "hex_bit_loop [] k nibble seen any_digit = (if any_digit then Some False else None)"
| "hex_bit_loop (c # cs) k nibble seen any_digit =
     (case hex_value c of
        None \<Rightarrow> hex_bit_loop cs k nibble seen any_digit
      | Some v \<Rightarrow>
          if seen = nibble then Some (v div 2 ^ (k mod 4) mod 2 = 1)
          else hex_bit_loop cs k nibble (seen + 1) True)"

definition hex_bit :: "string \<Rightarrow> nat \<Rightarrow> bool option" where
  "hex_bit hex k = hex_bit_loop (rev (strip_hex_prefix hex)) k (k div 4) 0 False"

fun hex_field_from :: "string \<Rightarrow> nat \<Rightarrow> nat list \<Rightarrow> nat \<Rightarrow> nat option" where
  "hex_field_from hex low [] acc = Some acc"
| "hex_field_from hex low (i # is) acc =
     (case hex_bit hex (low + i) of
        None \<Rightarrow> None
      | Some b \<Rightarrow> hex_field_from hex low is (acc + (if b then 2 ^ i else 0)))"

definition hex_field :: "string \<Rightarrow> nat \<Rightarrow> nat \<Rightarrow> nat option" where
  "hex_field hex low width = hex_field_from hex low [0..<width] 0"

section \<open>Settings\<close>

record setting_bits =
  sb_cfg :: "nat option"
  sb_home_flag :: "nat option"

definition setting_read :: "setting_bits \<Rightarrow> string option \<Rightarrow> u32 option \<Rightarrow> bool option" where
  "setting_read sb cfg home_flag =
     (case (sb_cfg sb, cfg) of
        (Some k, Some c) \<Rightarrow> hex_bit c k
      | _ \<Rightarrow>
          (case (home_flag, sb_home_flag sb) of
             (Some h, Some k) \<Rightarrow> Some (home_flag_bit h k)
           | _ \<Rightarrow> None))"

definition PROMPT_SOUND :: setting_bits where "PROMPT_SOUND = \<lparr>sb_cfg = Some 22, sb_home_flag = Some 17\<rparr>"
definition AUTO_RECOVERY :: setting_bits where "AUTO_RECOVERY = \<lparr>sb_cfg = Some 16, sb_home_flag = Some 4\<rparr>"
definition FILAMENT_BACKUP :: setting_bits where "FILAMENT_BACKUP = \<lparr>sb_cfg = Some 18, sb_home_flag = Some 10\<rparr>"
definition FILAMENT_TANGLE_DETECT :: setting_bits where
  "FILAMENT_TANGLE_DETECT = \<lparr>sb_cfg = Some 23, sb_home_flag = Some 20\<rparr>"
definition NOZZLE_BLOB_DETECT :: setting_bits where
  "NOZZLE_BLOB_DETECT = \<lparr>sb_cfg = Some 24, sb_home_flag = Some 24\<rparr>"
definition AIR_PRINT_DETECT :: setting_bits where "AIR_PRINT_DETECT = \<lparr>sb_cfg = None, sb_home_flag = Some 28\<rparr>"
definition STORE_SENT_FILES :: setting_bits where "STORE_SENT_FILES = \<lparr>sb_cfg = Some 19, sb_home_flag = None\<rparr>"
definition FIRST_LAYER_INSPECT :: setting_bits where
  "FIRST_LAYER_INSPECT = \<lparr>sb_cfg = Some 12, sb_home_flag = None\<rparr>"
definition AI_MONITORING :: setting_bits where "AI_MONITORING = \<lparr>sb_cfg = Some 15, sb_home_flag = None\<rparr>"

section \<open>The bits of the number\<close>

definition digits_of :: "string \<Rightarrow> nat list" where
  "digits_of s = List.map_filter hex_value s"

lemma hex_value_less: "hex_value c = Some v \<Longrightarrow> v < 16"
  by (auto simp: hex_value_def Let_def split: if_splits)

lemma digits_of_less: "\<forall>d \<in> set (digits_of s). d < 16"
  by (auto simp: digits_of_def List.map_filter_def dest: hex_value_less)

text \<open>The value of digits given from the right.\<close>

fun little :: "nat list \<Rightarrow> nat" where
  "little [] = 0"
| "little (d # ds) = d + 16 * little ds"

lemma hex_digits_value_little: "hex_digits_value ds = little (rev ds)"
proof (induction ds rule: rev_induct)
  case (snoc d ds)
  then show ?case by (simp add: hex_digits_value_def)
qed (simp add: hex_digits_value_def)

lemma nibble_bit: "d < 16 \<Longrightarrow> k < 4 \<Longrightarrow> (d + 16 * n) div 2 ^ k mod 2 = d div 2 ^ k mod (2 :: nat)"
proof -
  assume "k < 4"
  then have "(2::nat) ^ k * (2 * 2 ^ (3 - k)) = 16"
    by (simp flip: power_Suc power_add)
  then have e: "16 * n = 2 ^ k * (2 * (2 ^ (3 - k) * n))" by (metis mult.assoc)
  show ?thesis unfolding e by simp
qed

lemma little_bit:
  "\<forall>d \<in> set ds. d < 16 \<Longrightarrow> little ds div 2 ^ k mod 2 =
     (if k div 4 < length ds then ds ! (k div 4) div 2 ^ (k mod 4) mod 2 else 0)"
proof (induction ds arbitrary: k)
  case (Cons d ds)
  show ?case
  proof (cases "k < 4")
    case True
    with Cons.prems show ?thesis by (simp add: nibble_bit)
  next
    case False
    then obtain k' where k': "k = 4 + k'" by (metis le_add_diff_inverse not_less)
    have "little (d # ds) div 2 ^ k = (d + 16 * little ds) div 16 div 2 ^ k'"
      by (simp add: k' power_add div_mult2_eq)
    also have "(d + 16 * little ds) div 16 = little ds" using Cons.prems by simp
    finally have "little (d # ds) div 2 ^ k mod 2 = little ds div 2 ^ k' mod 2" by simp
    moreover have "k div 4 = Suc (k' div 4)" "k mod 4 = k' mod 4" by (simp_all add: k')
    ultimately show ?thesis using Cons.IH [of k'] Cons.prems by simp
  qed
qed simp

lemma hex_bit_loop_digits:
  "seen \<le> nibble \<Longrightarrow> hex_bit_loop cs k nibble seen any_digit =
     (let ds = digits_of cs in
      if nibble - seen < length ds then Some (ds ! (nibble - seen) div 2 ^ (k mod 4) mod 2 = 1)
      else if any_digit \<or> ds \<noteq> [] then Some False else None)"
proof (induction cs arbitrary: seen any_digit)
  case (Cons c cs)
  show ?case
  proof (cases "hex_value c")
    case None
    with Cons show ?thesis by (simp add: digits_of_def List.map_filter_def)
  next
    case (Some v)
    then have ds: "digits_of (c # cs) = v # digits_of cs" by (simp add: digits_of_def List.map_filter_def)
    show ?thesis
    proof (cases "seen = nibble")
      case True
      with Some ds show ?thesis by simp
    next
      case False
      with Cons.prems have "Suc seen \<le> nibble" "nibble - seen = Suc (nibble - Suc seen)" by simp_all
      with Cons.IH [OF this(1), of True] Some ds False show ?thesis by (auto simp: Let_def)
    qed
  qed
qed (simp add: digits_of_def)

lemma digits_of_rev: "digits_of (rev s) = rev (digits_of s)"
  by (simp add: digits_of_def List.map_filter_def rev_map rev_filter flip: rev_filter)

text \<open>\<open>hex_bit\<close> reads a bit of the number its digits spell, whatever else stands between them.\<close>

lemma hex_bit_number:
  "hex_bit s k =
     (let ds = digits_of (strip_hex_prefix s) in
      if ds = [] then None else Some (hex_digits_value ds div 2 ^ k mod 2 = 1))"
proof -
  let ?ds = "digits_of (strip_hex_prefix s)"
  have "hex_digits_value ?ds div 2 ^ k mod 2 =
      (if k div 4 < length ?ds then rev ?ds ! (k div 4) div 2 ^ (k mod 4) mod 2 else 0)"
    using little_bit [of "rev ?ds" k] digits_of_less [of "strip_hex_prefix s"] by (simp add: hex_digits_value_little)
  then show ?thesis by (auto simp: hex_bit_def hex_bit_loop_digits digits_of_rev Let_def)
qed

lemma mod_power_Suc: "n mod 2 ^ Suc i = n mod 2 ^ i + (if n div 2 ^ i mod 2 = 1 then 2 ^ i else (0 :: nat))"
proof -
  have "n mod (2 ^ i * 2) = 2 ^ i * (n div 2 ^ i mod 2) + n mod 2 ^ i" by (rule mod_mult2_eq)
  then show ?thesis by (cases "n div 2 ^ i mod 2 = 1") (auto simp: mult.commute)
qed

lemma hex_field_from_number:
  "digits_of (strip_hex_prefix s) \<noteq> [] \<Longrightarrow>
     hex_field_from s low [i..<i + w] (hex_digits_value (digits_of (strip_hex_prefix s)) div 2 ^ low mod 2 ^ i)
     = Some (hex_digits_value (digits_of (strip_hex_prefix s)) div 2 ^ low mod 2 ^ (i + w))"
proof (induction w arbitrary: i)
  case (Suc w)
  let ?v = "hex_digits_value (digits_of (strip_hex_prefix s))"
  have "?v div 2 ^ (low + i) = ?v div 2 ^ low div 2 ^ i" by (simp add: power_add div_mult2_eq)
  then have "hex_field_from s low [i..<i + Suc w] (?v div 2 ^ low mod 2 ^ i)
      = hex_field_from s low [Suc i..<Suc i + w] (?v div 2 ^ low mod 2 ^ Suc i)"
    using Suc.prems by (subst upt_conv_Cons) (simp_all add: hex_bit_number Let_def mod_power_Suc del: power_Suc)
  with Suc.IH [OF Suc.prems, of "Suc i"] show ?case by simp
qed simp

section \<open>Properties\<close>

text \<open>The readers of hex strings agree: a field of a string is the field of the number its hex digits spell,
  at any position and of any width, and reading the whole string as a number gives that same number.\<close>

theorem hex_readers_agree:
  assumes "hex_u64 s = Some v"
  shows "hex_bit s k = Some (v div 2 ^ k mod 2 = 1) \<and> hex_field s low w = Some (v div 2 ^ low mod 2 ^ w)"
proof -
  let ?t = "strip_hex_prefix s"
  obtain ds where ds: "ds \<noteq> []" "list_all (\<lambda>c. hex_value c \<noteq> None) ds" "v = hex_digits_value (map (the \<circ> hex_value) ds)"
    and t: "?t = ds \<or> ?t = CHR ''+'' # ds"
  proof
    let ?ds = "case ?t of [] \<Rightarrow> [] | c # cs \<Rightarrow> if c = CHR ''+'' then cs else ?t"
    have r: "from_hex 18446744073709551616 ?t = Some v" using assms by (simp add: hex_u64_def)
    from r show "?ds \<noteq> []" "list_all (\<lambda>c. hex_value c \<noteq> None) ?ds" "v = hex_digits_value (map (the \<circ> hex_value) ?ds)"
      unfolding from_hex_def Let_def by (simp_all only: split: if_splits) simp_all
    show "?t = ?ds \<or> ?t = CHR ''+'' # ?ds" by (simp split: list.split)
  qed
  have "digits_of ds = map (the \<circ> hex_value) ds"
    using ds(2) by (auto simp: digits_of_def List.map_filter_def list_all_iff intro: filter_True)
  moreover have "digits_of ?t = digits_of ds"
    using t by (auto simp: digits_of_def List.map_filter_def hex_value_def)
  ultimately have "digits_of ?t \<noteq> []" "v = hex_digits_value (digits_of ?t)" using ds by auto
  with hex_field_from_number [of s low 0 w] show ?thesis
    by (simp add: hex_bit_number hex_field_def Let_def)
qed

theorem hex_readers_agree_witness: "hex_bit ''0x1A'' 3 = Some True \<and> hex_field ''0x1A'' 1 4 = Some 13"
proof -
  have "hex_u64 ''0x1A'' = Some 26"
    by (simp add: hex_u64_def strip_hex_prefix_def trim_id from_hex_def hex_value_def hex_digits_value_def)
  from hex_readers_agree [OF this, of 3 1 4] show ?thesis by simp
qed

text \<open>A string of more than sixteen digits is a number all the same when the leading ones are zeros.\<close>

lemma hex_u64_seventeen_digits: "hex_u64 ''00000000000000001'' = Some 1"
  by (simp add: hex_u64_def strip_hex_prefix_def trim_id from_hex_def hex_value_def hex_digits_value_def)

end
