(* ===== verification/Merge.thy ===== *)
theory Merge
  imports Prelude
begin

text \<open>
  Field-by-field merging of partial telemetry pushes (\<open>src/types/telemetry/merge.rs\<close>). A struct merges by
  its fields; a list of structs merges by key. The locale \<open>keyed_merge\<close> is the contract a struct's merge
  must keep for lists of it to merge well.
\<close>

definition keep_new :: "'a option \<Rightarrow> 'a option \<Rightarrow> 'a option" where
  "keep_new cached incoming = (if incoming \<noteq> None then incoming else cached)"

definition merge_opt :: "('a \<Rightarrow> 'a \<Rightarrow> 'a) \<Rightarrow> 'a option \<Rightarrow> 'a option \<Rightarrow> 'a option" where
  "merge_opt merge cached incoming =
     (case (cached, incoming) of
        (Some c, Some n) \<Rightarrow> Some (merge c n)
      | (None, Some n) \<Rightarrow> Some n
      | (_, None) \<Rightarrow> cached)"

fun merge_entry :: "('a \<Rightarrow> 'a \<Rightarrow> 'a) \<Rightarrow> ('a \<Rightarrow> 'k) \<Rightarrow> 'a \<Rightarrow> 'a list \<Rightarrow> 'a list" where
  "merge_entry merge key new [] = [new]"
| "merge_entry merge key new (c # cs) =
     (if key c = key new then merge c new # cs else c # merge_entry merge key new cs)"

definition merge_keyed :: "('a \<Rightarrow> 'a \<Rightarrow> 'a) \<Rightarrow> ('a \<Rightarrow> 'k) \<Rightarrow> 'a list \<Rightarrow> 'a list \<Rightarrow> 'a list" where
  "merge_keyed merge key cached incoming = fold (merge_entry merge key) incoming cached"

text \<open>The entry a list has for a key.\<close>

definition entry_of :: "('a \<Rightarrow> 'k) \<Rightarrow> 'k \<Rightarrow> 'a list \<Rightarrow> 'a option" where
  "entry_of key k xs = find (\<lambda>x. key x = k) xs"

lemma entry_of_simps [simp]:
  "entry_of key k [] = None"
  "entry_of key k (x # xs) = (if key x = k then Some x else entry_of key k xs)"
  by (simp_all add: entry_of_def)

lemma entry_of_None: "entry_of key k xs = None \<longleftrightarrow> k \<notin> key ` set xs"
  by (induction xs) auto

lemma entry_of_Some: "entry_of key k xs = Some x \<Longrightarrow> x \<in> set xs \<and> key x = k"
  by (induction xs) (auto split: if_splits)

lemma entry_of_filter:
  "entry_of key k (filter (\<lambda>x. P (key x)) xs) = (if P k then entry_of key k xs else None)"
  by (induction xs) auto

lemma keep_new_keep_new [simp]: "keep_new (keep_new c n) n = keep_new c n"
  by (simp add: keep_new_def)

lemma keep_new_same [simp]: "keep_new c c = c"
  by (simp add: keep_new_def)

locale keyed_merge =
  fixes merge :: "'a \<Rightarrow> 'a \<Rightarrow> 'a" and key :: "'a \<Rightarrow> 'k" and ok :: "'a \<Rightarrow> bool"
  assumes merge_key: "key c = key n \<Longrightarrow> key (merge c n) = key c"
    and merge_ok: "ok c \<Longrightarrow> ok n \<Longrightarrow> ok (merge c n)"
    and merge_again: "ok c \<Longrightarrow> ok n \<Longrightarrow> merge (merge c n) n = merge c n"
    and merge_self: "ok n \<Longrightarrow> merge n n = n"
begin

lemma merge_entry_keys: "key ` set (merge_entry merge key n cs) = insert (key n) (key ` set cs)"
  by (induction cs) (auto simp: merge_key)

lemma merge_entry_distinct: "distinct (map key cs) \<Longrightarrow> distinct (map key (merge_entry merge key n cs))"
proof (induction cs)
  case (Cons c cs)
  have "key c \<notin> key ` set (merge_entry merge key n cs)" if "key c \<noteq> key n"
    using that Cons.prems by (simp add: merge_entry_keys)
  with Cons show ?case by (auto simp: merge_key)
qed simp

lemma merge_entry_lookup:
  "entry_of key k (merge_entry merge key n cs) =
     (if key n = k then Some (case entry_of key k cs of None \<Rightarrow> n | Some c \<Rightarrow> merge c n) else entry_of key k cs)"
  by (induction cs) (auto simp: merge_key)

lemma merge_keyed_keys: "key ` set (merge_keyed merge key cs ns) = key ` set cs \<union> key ` set ns"
  unfolding merge_keyed_def by (induction ns arbitrary: cs) (auto simp: merge_entry_keys)

lemma merge_keyed_distinct:
  "distinct (map key cs) \<Longrightarrow> distinct (map key (merge_keyed merge key cs ns))"
  unfolding merge_keyed_def by (induction ns arbitrary: cs) (auto simp: merge_entry_distinct)

lemma merge_keyed_lookup:
  "distinct (map key ns) \<Longrightarrow> entry_of key k (merge_keyed merge key cs ns) =
     (case entry_of key k ns of
        None \<Rightarrow> entry_of key k cs
      | Some n \<Rightarrow> Some (case entry_of key k cs of None \<Rightarrow> n | Some c \<Rightarrow> merge c n))"
proof (induction ns arbitrary: cs)
  case (Cons n ns)
  then have "entry_of key k (merge_keyed merge key cs (n # ns)) =
      (case entry_of key k ns of
         None \<Rightarrow> entry_of key k (merge_entry merge key n cs)
       | Some m \<Rightarrow> Some (case entry_of key k (merge_entry merge key n cs) of None \<Rightarrow> m | Some c \<Rightarrow> merge c m))"
    by (simp add: merge_keyed_def)
  moreover have "entry_of key k ns = None" if "key n = k"
    using Cons.prems that by (auto simp: entry_of_None)
  ultimately show ?case by (auto simp: merge_entry_lookup split: option.split)
qed (simp add: merge_keyed_def)

lemma merge_entry_present:
  "distinct (map key cs) \<Longrightarrow> entry_of key (key n) cs = Some c \<Longrightarrow> merge c n = c \<Longrightarrow> merge_entry merge key n cs = cs"
  by (induction cs) (auto split: if_splits)

lemma merge_keyed_present:
  assumes "distinct (map key cs)" "\<forall>n \<in> set ns. \<exists>c. entry_of key (key n) cs = Some c \<and> merge c n = c"
  shows "merge_keyed merge key cs ns = cs"
  using assms unfolding merge_keyed_def
  by (induction ns) (auto simp: merge_entry_present)

lemma merge_entry_ok: "list_all ok cs \<Longrightarrow> ok n \<Longrightarrow> list_all ok (merge_entry merge key n cs)"
  by (induction cs) (auto simp: merge_ok)

lemma merge_keyed_ok: "list_all ok cs \<Longrightarrow> list_all ok ns \<Longrightarrow> list_all ok (merge_keyed merge key cs ns)"
  unfolding merge_keyed_def by (induction ns arbitrary: cs) (auto simp: merge_entry_ok)

lemma merge_keyed_absorbed:
  assumes "list_all ok cs" "list_all ok ns" "distinct (map key ns)" "n \<in> set ns"
  shows "\<exists>c. entry_of key (key n) (merge_keyed merge key cs ns) = Some c \<and> merge c n = c"
proof -
  from assms(2,4) have n: "ok n" by (simp add: list_all_iff)
  have "entry_of key (key n) ns = Some n"
    using assms(3,4) by (induction ns) (auto simp: image_iff)
  moreover have "merge (merge c n) n = merge c n" if "entry_of key (key n) cs = Some c" for c
    using entry_of_Some [OF that] assms(1) n by (simp add: merge_again list_all_iff)
  ultimately show ?thesis
    using merge_keyed_lookup [OF assms(3), of "key n" cs] merge_self [OF n]
    by (cases "entry_of key (key n) cs") auto
qed

text \<open>A push merged again changes nothing, not even after entries it does not name were dropped.\<close>

lemma merge_keyed_again:
  assumes "list_all ok cs" "list_all ok ns" "distinct (map key cs)" "distinct (map key ns)"
  shows "merge_keyed merge key (merge_keyed merge key cs ns) ns = merge_keyed merge key cs ns"
  using merge_keyed_present [OF merge_keyed_distinct [OF assms(3)]] merge_keyed_absorbed [OF assms(1,2,4)] by blast

lemma distinct_map_key_filter: "distinct (map key xs) \<Longrightarrow> distinct (map key (filter P xs))"
  by (induction xs) auto

lemma merge_keyed_pruned_again:
  assumes "list_all ok cs" "list_all ok ns" "distinct (map key cs)" "distinct (map key ns)"
    and P: "\<forall>n \<in> set ns. P (key n)"
  shows "merge_keyed merge key (filter (\<lambda>x. P (key x)) (merge_keyed merge key cs ns)) ns
    = filter (\<lambda>x. P (key x)) (merge_keyed merge key cs ns)"
proof (rule merge_keyed_present)
  show "distinct (map key (filter (\<lambda>x. P (key x)) (merge_keyed merge key cs ns)))"
    by (rule distinct_map_key_filter [OF merge_keyed_distinct [OF assms(3)]])
  show "\<forall>n \<in> set ns. \<exists>c. entry_of key (key n) (filter (\<lambda>x. P (key x)) (merge_keyed merge key cs ns)) = Some c \<and> merge c n = c"
    using merge_keyed_absorbed [OF assms(1,2,4)] P by (simp add: entry_of_filter)
qed

lemma merge_keyed_self:
  assumes "list_all ok ns" "distinct (map key ns)"
  shows "merge_keyed merge key ns ns = ns"
proof (rule merge_keyed_present [OF assms(2)])
  show "\<forall>n \<in> set ns. \<exists>c. entry_of key (key n) ns = Some c \<and> merge c n = c"
    using assms by (induction ns) (auto simp: merge_self image_iff)
qed

end

end
