(* ===== verification/AmsMapping.thy ===== *)
theory AmsMapping
  imports Prelude
begin

text \<open>
  Material addresses: the id blocks of \<open>src/ams/ids.rs\<close> and the mapping arrays of \<open>src/ams/mapping.rs\<close> that
  tell a print job which tray feeds which filament. Ids are \<open>u8\<close>; every sum or difference of ids in the
  source stands behind a range check that keeps it in range, so they are naturals here.
\<close>

abbreviation (input) AMS_SLOTS_PER_UNIT :: nat where "AMS_SLOTS_PER_UNIT \<equiv> 4"
abbreviation (input) AMS_MAX_STANDARD_ID :: nat where "AMS_MAX_STANDARD_ID \<equiv> 3"
abbreviation (input) AMS_HT_ID_MIN :: nat where "AMS_HT_ID_MIN \<equiv> 128"
abbreviation (input) AMS_HT_ID_MAX :: nat where "AMS_HT_ID_MAX \<equiv> 135"
abbreviation (input) AMS_LITE_ON_A2L_PHYSICAL_ID :: nat where "AMS_LITE_ON_A2L_PHYSICAL_ID \<equiv> 16"
abbreviation (input) AMS_LITE_ON_A2L_NORMALIZED_ID :: nat where "AMS_LITE_ON_A2L_NORMALIZED_ID \<equiv> 6"
abbreviation (input) AMS_EXTERNAL_SPOOL_MAIN_ID :: nat where "AMS_EXTERNAL_SPOOL_MAIN_ID \<equiv> 255"
abbreviation (input) AMS_EXTERNAL_SPOOL_DEPUTY_ID :: nat where "AMS_EXTERNAL_SPOOL_DEPUTY_ID \<equiv> 254"
abbreviation (input) AMS_MAX_PROJECT_FILAMENTS :: nat where "AMS_MAX_PROJECT_FILAMENTS \<equiv> 32"

section \<open>Ids\<close>

definition normalize_ams_unit_id :: "nat \<Rightarrow> nat" where
  "normalize_ams_unit_id ams_id =
     (if ams_id = AMS_LITE_ON_A2L_PHYSICAL_ID then AMS_LITE_ON_A2L_NORMALIZED_ID else ams_id)"

definition is_standard_id :: "nat \<Rightarrow> bool" where
  "is_standard_id ams_id = (ams_id \<le> AMS_MAX_STANDARD_ID)"

definition is_ams_ht_id :: "nat \<Rightarrow> bool" where
  "is_ams_ht_id ams_id = (ams_id \<ge> AMS_HT_ID_MIN \<and> ams_id \<le> AMS_HT_ID_MAX)"

definition is_ams_lite_on_a2l_id :: "nat \<Rightarrow> bool" where
  "is_ams_lite_on_a2l_id ams_id =
     (ams_id = AMS_LITE_ON_A2L_PHYSICAL_ID \<or> ams_id = AMS_LITE_ON_A2L_NORMALIZED_ID)"

definition is_external_spool_id :: "nat \<Rightarrow> bool" where
  "is_external_spool_id ams_id =
     (ams_id = AMS_EXTERNAL_SPOOL_DEPUTY_ID \<or> ams_id = AMS_EXTERNAL_SPOOL_MAIN_ID)"

definition is_bus_unit_id :: "nat \<Rightarrow> bool" where
  "is_bus_unit_id ams_id = (is_standard_id ams_id \<or> is_ams_ht_id ams_id \<or> is_ams_lite_on_a2l_id ams_id)"

definition is_valid_ams_id :: "nat \<Rightarrow> bool" where
  "is_valid_ams_id ams_id = (is_bus_unit_id ams_id \<or> is_external_spool_id ams_id)"

definition is_unit_slot :: "nat \<Rightarrow> nat \<Rightarrow> bool" where
  "is_unit_slot ams_id slot_id =
     (if is_ams_ht_id ams_id then slot_id = 0
      else (is_standard_id ams_id \<or> is_ams_lite_on_a2l_id ams_id) \<and> slot_id < AMS_SLOTS_PER_UNIT)"

definition wire_ams_id :: "nat \<Rightarrow> nat" where
  "wire_ams_id ams_id =
     (if ams_id = AMS_LITE_ON_A2L_NORMALIZED_ID then AMS_LITE_ON_A2L_PHYSICAL_ID else ams_id)"

lemmas ams_id_defs = is_standard_id_def is_ams_ht_id_def is_ams_lite_on_a2l_id_def is_external_spool_id_def
  is_bus_unit_id_def is_valid_ams_id_def is_unit_slot_def normalize_ams_unit_id_def wire_ams_id_def

section \<open>Mapping entries\<close>

record ams_mapping2_entry =
  me_ams_id :: nat
  me_slot_id :: nat

definition UNMAPPED :: ams_mapping2_entry where
  "UNMAPPED = \<lparr>me_ams_id = AMS_EXTERNAL_SPOOL_MAIN_ID, me_slot_id = AMS_EXTERNAL_SPOOL_MAIN_ID\<rparr>"

datatype material_source =
    StandardAms nat nat
  | AmsHt nat
  | AmsLite nat
  | ExternalSpool
  | ExternalSpoolLeft
  | ExternalSpoolRight
  | Unmapped

fun to_mapping2_entry :: "material_source \<Rightarrow> ams_mapping2_entry" where
  "to_mapping2_entry (StandardAms ams_id slot_id) =
     (if ams_id \<le> AMS_MAX_STANDARD_ID \<and> slot_id < AMS_SLOTS_PER_UNIT
      then \<lparr>me_ams_id = ams_id, me_slot_id = slot_id\<rparr> else UNMAPPED)"
| "to_mapping2_entry (AmsHt ams_id) =
     (if is_ams_ht_id ams_id then \<lparr>me_ams_id = ams_id, me_slot_id = 0\<rparr> else UNMAPPED)"
| "to_mapping2_entry (AmsLite slot_id) =
     (if slot_id < AMS_SLOTS_PER_UNIT
      then \<lparr>me_ams_id = AMS_LITE_ON_A2L_PHYSICAL_ID, me_slot_id = slot_id\<rparr> else UNMAPPED)"
| "to_mapping2_entry ExternalSpool = \<lparr>me_ams_id = AMS_EXTERNAL_SPOOL_MAIN_ID, me_slot_id = 0\<rparr>"
| "to_mapping2_entry ExternalSpoolLeft = \<lparr>me_ams_id = AMS_EXTERNAL_SPOOL_DEPUTY_ID, me_slot_id = 0\<rparr>"
| "to_mapping2_entry ExternalSpoolRight = \<lparr>me_ams_id = AMS_EXTERNAL_SPOOL_MAIN_ID, me_slot_id = 0\<rparr>"
| "to_mapping2_entry Unmapped = UNMAPPED"

datatype ams_entry_kind = KStandard | KHt | KAmsLite | KExternal | KInvalid

definition classify_mapping2_entry :: "ams_mapping2_entry \<Rightarrow> ams_entry_kind" where
  "classify_mapping2_entry entry =
     (if is_external_spool_id (me_ams_id entry) then KExternal
      else if me_ams_id entry \<le> AMS_MAX_STANDARD_ID \<and> me_slot_id entry < AMS_SLOTS_PER_UNIT then KStandard
      else if is_ams_ht_id (me_ams_id entry) then KHt
      else if me_ams_id entry = AMS_LITE_ON_A2L_PHYSICAL_ID \<and> me_slot_id entry < AMS_SLOTS_PER_UNIT then KAmsLite
      else KInvalid)"

definition flat_channel_id_for_entry :: "ams_mapping2_entry \<Rightarrow> int" where
  "flat_channel_id_for_entry entry =
     (case classify_mapping2_entry entry of
        KStandard \<Rightarrow> int (me_ams_id entry) * int AMS_SLOTS_PER_UNIT + int (me_slot_id entry)
      | KHt \<Rightarrow> int (me_ams_id entry)
      | KAmsLite \<Rightarrow> int (me_slot_id entry)
      | _ \<Rightarrow> -1)"

definition flat_channel_id :: "material_source \<Rightarrow> int" where
  "flat_channel_id source = flat_channel_id_for_entry (to_mapping2_entry source)"

section \<open>Mapping arrays\<close>

text \<open>One slot per filament up to the highest id, at most 32; the last allocation of an id wins.\<close>

definition fill_slot :: "nat \<Rightarrow> (material_source \<Rightarrow> 'a) \<Rightarrow> nat \<times> material_source \<Rightarrow> 'a list \<Rightarrow> 'a list" where
  "fill_slot max_id convert alloc mapping =
     (case alloc of (i, source) \<Rightarrow>
        if i > 0 \<and> i \<le> max_id then mapping[i - 1 := convert source] else mapping)"

definition build_by_filament :: "(nat \<times> material_source) list \<Rightarrow> 'a \<Rightarrow> (material_source \<Rightarrow> 'a) \<Rightarrow> 'a list" where
  "build_by_filament allocations fill convert =
     (if allocations = [] then []
      else let max_id = min (Max (set (map fst allocations))) AMS_MAX_PROJECT_FILAMENTS
           in fold (fill_slot max_id convert) allocations (replicate max_id fill))"

definition build_ams_mapping :: "(nat \<times> material_source) list \<Rightarrow> int list" where
  "build_ams_mapping allocations = build_by_filament allocations (-1) flat_channel_id"

definition build_ams_mapping2 :: "(nat \<times> material_source) list \<Rightarrow> ams_mapping2_entry list" where
  "build_ams_mapping2 allocations = build_by_filament allocations UNMAPPED to_mapping2_entry"

section \<open>Checks\<close>

definition is_external_spool_safety_valid :: "bool \<Rightarrow> ams_mapping2_entry list \<Rightarrow> bool" where
  "is_external_spool_safety_valid is_single_nozzle mapping2 =
     (if \<not> is_single_nozzle then True
      else list_ex (\<lambda>e. classify_mapping2_entry e \<in> {KStandard, KHt, KAmsLite}) mapping2)"

definition is_physical_flat_channel :: "int \<Rightarrow> bool" where
  "is_physical_flat_channel v =
     (0 \<le> v \<and> v \<le> (int AMS_MAX_STANDARD_ID + 1) * int AMS_SLOTS_PER_UNIT - 1
      \<or> int AMS_HT_ID_MIN \<le> v \<and> v \<le> int AMS_HT_ID_MAX)"

definition is_external_spool_safety_valid_flat :: "bool \<Rightarrow> int list \<Rightarrow> bool" where
  "is_external_spool_safety_valid_flat is_single_nozzle ams_mapping =
     (if \<not> is_single_nozzle then True else list_ex is_physical_flat_channel ams_mapping)"

datatype ams_lite_slot = NotSupported | Additive | Exclusive

datatype ams_pool_composition = Shared nat ams_lite_slot | Independent nat nat

fun max_units :: "ams_pool_composition \<Rightarrow> nat" where
  "max_units (Shared n ams_lite) = (if ams_lite = Additive then min (n + 1) 255 else n)"
| "max_units (Independent max_standard max_ht) = min (max_standard + max_ht) 255"

text \<open>The two sets of units a job uses are eight-bit masks.\<close>

record pool_use =
  standard_ids :: u8
  ht_ids :: u8
  uses_ams_lite :: bool

unbundle bit_operations_syntax

fun pool_entries :: "ams_mapping2_entry list \<Rightarrow> pool_use \<Rightarrow> pool_use option" where
  "pool_entries [] u = Some u"
| "pool_entries (e # es) u =
     (case classify_mapping2_entry e of
        KStandard \<Rightarrow> pool_entries es (u\<lparr>standard_ids := standard_ids u OR push_bit (me_ams_id e) 1\<rparr>)
      | KAmsLite \<Rightarrow> pool_entries es (u\<lparr>uses_ams_lite := True\<rparr>)
      | KHt \<Rightarrow> pool_entries es (u\<lparr>ht_ids := ht_ids u OR push_bit (me_ams_id e - AMS_HT_ID_MIN) 1\<rparr>)
      | KExternal \<Rightarrow> pool_entries es u
      | KInvalid \<Rightarrow> None)"

definition count_ones :: "u8 \<Rightarrow> nat" where
  "count_ones w = length (filter (bit w) [0..<8])"

definition is_ams_pool_composition_valid :: "ams_mapping2_entry list \<Rightarrow> ams_pool_composition \<Rightarrow> bool" where
  "is_ams_pool_composition_valid mapping2 composition =
     (case pool_entries mapping2 \<lparr>standard_ids = 0, ht_ids = 0, uses_ams_lite = False\<rparr> of
        None \<Rightarrow> False
      | Some u \<Rightarrow>
          (case composition of
             Shared n ams_lite \<Rightarrow>
               (\<not> uses_ams_lite u \<or> ams_lite = Additive)
               \<and> count_ones (standard_ids u) + count_ones (ht_ids u) \<le> n
           | Independent max_standard max_ht \<Rightarrow>
               \<not> uses_ams_lite u \<and> count_ones (standard_ids u) \<le> max_standard \<and> count_ones (ht_ids u) \<le> max_ht))"

section \<open>What the arrays hold\<close>

text \<open>The last source allocated to a filament id.\<close>

definition allocated :: "(nat \<times> material_source) list \<Rightarrow> nat \<Rightarrow> material_source option" where
  "allocated allocations i = map_of (rev allocations) i"

lemma length_fold_fill [simp]: "length (fold (fill_slot m f) as xs) = length xs"
  by (induction as arbitrary: xs) (auto simp: fill_slot_def)

lemma fill_slot_nth:
  "j < length ys \<Longrightarrow> length ys \<le> m \<Longrightarrow> fill_slot m f (i, s) ys ! j = (if i = Suc j then f s else ys ! j)"
  by (cases i) (auto simp: fill_slot_def)

lemma fold_fill_nth:
  "j < length xs \<Longrightarrow> length xs \<le> m \<Longrightarrow>
     fold (fill_slot m f) as xs ! j = (case allocated as (Suc j) of None \<Rightarrow> xs ! j | Some s \<Rightarrow> f s)"
proof (induction as rule: rev_induct)
  case (snoc a as)
  obtain i s where a: "a = (i, s)" by force
  from snoc show ?case by (simp add: a fill_slot_nth allocated_def)
qed (simp add: allocated_def)

lemma build_by_filament_nth:
  assumes "as \<noteq> []"
  shows "length (build_by_filament as fill f) = min (Max (fst ` set as)) AMS_MAX_PROJECT_FILAMENTS"
    "j < min (Max (fst ` set as)) AMS_MAX_PROJECT_FILAMENTS \<Longrightarrow>
       build_by_filament as fill f ! j = (case allocated as (Suc j) of None \<Rightarrow> fill | Some s \<Rightarrow> f s)"
  using assms fold_fill_nth [of j "replicate (min (Max (fst ` set as)) AMS_MAX_PROJECT_FILAMENTS) fill"
      "min (Max (fst ` set as)) AMS_MAX_PROJECT_FILAMENTS" f as]
  by (auto simp: build_by_filament_def Let_def split: option.split)

lemma build_by_filament_map:
  "build_by_filament as (g fill) (\<lambda>s. g (f s)) = map g (build_by_filament as fill f)"
proof (cases "as = []")
  case False
  show ?thesis
    by (rule nth_equalityI) (auto simp: build_by_filament_nth [OF False] split: option.splits)
qed (simp add: build_by_filament_def)

section \<open>Pools\<close>

lemma count_ones_card: "count_ones w = card {k. k < 8 \<and> bit w k}"
proof -
  have "count_ones w = card (set (filter (bit w) [0..<8]))"
    unfolding count_ones_def by (rule distinct_card [symmetric]) simp
  also have "set (filter (bit w) [0..<8]) = {k. k < 8 \<and> bit w k}" by auto
  finally show ?thesis .
qed

lemma bit_u8_one: "k < 8 \<Longrightarrow> bit (w OR 2 ^ n :: u8) k = (bit w k \<or> k = n)"
  by (auto simp: bit_simps)

text \<open>The units of one kind that entries name.\<close>

definition units_of :: "ams_entry_kind \<Rightarrow> ams_mapping2_entry list \<Rightarrow> nat set" where
  "units_of kind es = me_ams_id ` {e \<in> set es. classify_mapping2_entry e = kind}"

lemma pool_entries_bits:
  "pool_entries es u = Some u' \<Longrightarrow>
     KInvalid \<notin> classify_mapping2_entry ` set es
     \<and> (uses_ams_lite u' \<longleftrightarrow> uses_ams_lite u \<or> KAmsLite \<in> classify_mapping2_entry ` set es)
     \<and> (\<forall>k < 8. bit (standard_ids u') k \<longleftrightarrow> bit (standard_ids u) k \<or> k \<in> units_of KStandard es)
     \<and> (\<forall>k < 8. bit (ht_ids u') k \<longleftrightarrow> bit (ht_ids u) k \<or> k + 128 \<in> units_of KHt es)"
proof (induction es arbitrary: u)
  case (Cons e es)
  have ht: "128 \<le> me_ams_id e" if "classify_mapping2_entry e = KHt"
    using that by (auto simp: classify_mapping2_entry_def is_ams_ht_id_def split: if_splits)
  have u: "units_of k (e # es) = (if classify_mapping2_entry e = k then {me_ams_id e} else {}) \<union> units_of k es" for k
    by (auto simp: units_of_def)
  show ?case
  proof (cases "classify_mapping2_entry e")
    case KStandard
    with Cons.IH [of "u\<lparr>standard_ids := standard_ids u OR push_bit (me_ams_id e) 1\<rparr>"] Cons.prems show ?thesis
      by (auto simp: u bit_u8_one)
  next
    case KHt
    with Cons.IH [of "u\<lparr>ht_ids := ht_ids u OR push_bit (me_ams_id e - AMS_HT_ID_MIN) 1\<rparr>"] Cons.prems ht show ?thesis
      by (auto simp: u bit_u8_one)
  qed (use Cons in \<open>auto simp: u\<close>)
qed (simp add: units_of_def)

lemma pool_entries_none: "pool_entries es u = None \<longleftrightarrow> KInvalid \<in> classify_mapping2_entry ` set es"
  by (induction es arbitrary: u) (auto split: ams_entry_kind.splits)

section \<open>Properties\<close>

lemma flat_channel_unmapped: "flat_channel_id_for_entry UNMAPPED = -1"
  by (simp add: flat_channel_id_for_entry_def UNMAPPED_def classify_mapping2_entry_def is_external_spool_id_def)

lemma physical_flat:
  "is_physical_flat_channel (flat_channel_id_for_entry e) \<longleftrightarrow> classify_mapping2_entry e \<in> {KStandard, KHt, KAmsLite}"
  by (auto simp: flat_channel_id_for_entry_def is_physical_flat_channel_def classify_mapping2_entry_def
      is_ams_ht_id_def split: ams_entry_kind.splits if_splits)

text \<open>The two mapping arrays of a print job say the same: the flat array is the structured one channel by
  channel, it has one slot for each filament up to the highest, each slot holds the last source
  allocated to its filament, and the check against printing from the external spool by accident
  gives the same verdict on both.\<close>

theorem mapping_arrays_agree:
  "build_ams_mapping as = map flat_channel_id_for_entry (build_ams_mapping2 as)
   \<and> length (build_ams_mapping2 as) = (if as = [] then 0 else min (Max (fst ` set as)) AMS_MAX_PROJECT_FILAMENTS)
   \<and> list_all (\<lambda>j. build_ams_mapping2 as ! j = to_mapping2_entry (case allocated as (Suc j) of None \<Rightarrow> Unmapped | Some s \<Rightarrow> s))
       [0..<length (build_ams_mapping2 as)]
   \<and> is_external_spool_safety_valid_flat b (build_ams_mapping as) = is_external_spool_safety_valid b (build_ams_mapping2 as)"
proof (intro conjI)
  have "(\<lambda>s. flat_channel_id_for_entry (to_mapping2_entry s)) = flat_channel_id"
    by (simp add: fun_eq_iff flat_channel_id_def)
  with build_by_filament_map [of as flat_channel_id_for_entry UNMAPPED to_mapping2_entry]
  show agree: "build_ams_mapping as = map flat_channel_id_for_entry (build_ams_mapping2 as)"
    by (simp add: build_ams_mapping_def build_ams_mapping2_def flat_channel_unmapped)
  show "length (build_ams_mapping2 as) = (if as = [] then 0 else min (Max (fst ` set as)) AMS_MAX_PROJECT_FILAMENTS)"
    by (simp add: build_ams_mapping2_def build_by_filament_nth) (simp add: build_by_filament_def)
  show "list_all (\<lambda>j. build_ams_mapping2 as ! j = to_mapping2_entry (case allocated as (Suc j) of None \<Rightarrow> Unmapped | Some s \<Rightarrow> s))
       [0..<length (build_ams_mapping2 as)]"
  proof (cases "as = []")
    case True
    then show ?thesis by (simp add: build_ams_mapping2_def build_by_filament_def)
  next
    case False
    then show ?thesis
      by (auto simp: list_all_iff build_ams_mapping2_def build_by_filament_nth split: option.split)
  qed
  show "is_external_spool_safety_valid_flat b (build_ams_mapping as) = is_external_spool_safety_valid b (build_ams_mapping2 as)"
    unfolding agree
    by (simp add: is_external_spool_safety_valid_flat_def is_external_spool_safety_valid_def list_ex_iff physical_flat)
qed

text \<open>The check of a job against the printer's AMS pool, computed with bit masks, accepts exactly the jobs
  whose entries all name existing addresses and whose distinct units of each kind fit the pool.\<close>

theorem pool_check_counts_units:
  "is_ams_pool_composition_valid es pool \<longleftrightarrow>
     KInvalid \<notin> classify_mapping2_entry ` set es \<and>
     (case pool of
        Shared n lite \<Rightarrow> (if KAmsLite \<in> classify_mapping2_entry ` set es then lite = Additive else True)
          \<and> card (units_of KStandard es) + card (units_of KHt es) \<le> n
      | Independent s h \<Rightarrow> KAmsLite \<notin> classify_mapping2_entry ` set es
          \<and> card (units_of KStandard es) \<le> s \<and> card (units_of KHt es) \<le> h)"
proof -
  let ?u0 = "\<lparr>standard_ids = 0, ht_ids = 0, uses_ams_lite = False\<rparr>"
  have st: "units_of KStandard es \<subseteq> {..<8}" and ht: "units_of KHt es \<subseteq> {128..<136}"
    by (auto simp: units_of_def classify_mapping2_entry_def is_ams_ht_id_def split: if_splits)
  show ?thesis
  proof (cases "pool_entries es ?u0")
    case None
    moreover from None have "KInvalid \<in> classify_mapping2_entry ` set es" using pool_entries_none [of es ?u0] by blast
    ultimately show ?thesis by (simp add: is_ams_pool_composition_valid_def)
  next
    case (Some u)
    note bits = pool_entries_bits [OF Some]
    have "{k. k < 8 \<and> bit (standard_ids u) k} = units_of KStandard es" using bits st by auto
    then have 1: "count_ones (standard_ids u) = card (units_of KStandard es)" by (simp add: count_ones_card)
    have "(\<lambda>k. k + 128) ` {k. k < 8 \<and> bit (ht_ids u) k} = units_of KHt es"
    proof
      show "units_of KHt es \<subseteq> (\<lambda>k. k + 128) ` {k. k < 8 \<and> bit (ht_ids u) k}"
      proof
        fix x assume x: "x \<in> units_of KHt es"
        with ht have "x \<in> {128..<136}" by blast
        then have "x = (x - 128) + 128" "x - 128 < 8" by auto
        with x bits show "x \<in> (\<lambda>k. k + 128) ` {k. k < 8 \<and> bit (ht_ids u) k}" by (intro image_eqI [of _ _ "x - 128"]) auto
      qed
    qed (use bits in auto)
    moreover have "card ((\<lambda>k. k + 128) ` {k. k < 8 \<and> bit (ht_ids u) k}) = card {k. k < 8 \<and> bit (ht_ids u) k}"
      by (rule card_image) (simp add: inj_on_def)
    ultimately have 2: "count_ones (ht_ids u) = card (units_of KHt es)" by (simp add: count_ones_card)
    from bits Some 1 2 show ?thesis
      by (auto simp: is_ams_pool_composition_valid_def split: ams_pool_composition.split)
  qed
qed

end
