(* ===== verification/AmsTypes.thy ===== *)
theory AmsTypes
  imports Bits Merge AmsMapping Complex_Main
begin

text \<open>
  The AMS telemetry report (\<open>src/types/telemetry/ams.rs\<close>): units, trays, how a partial push merges into the
  cached report, and the accessors that read one field out of a unit's packed \<open>info\<close> word. The derived
  deserialization is third-party; the one hand-written deserializer is \<open>normalized_unit_id_text\<close>. A
  wire float is a rational, as in a JSON document.
\<close>

section \<open>Filament steps\<close>

datatype ams_filament_step =
    StepIdle
  | StepPause
  | StepHeatNozzle
  | StepCutFilament
  | StepPullCurrFilament
  | StepPushNewFilament
  | StepGrabNewFilament
  | StepPurgeOldFilament
  | StepCheckPosition
  | StepSwitchExtruder
  | StepSwitchHotend
  | StepAmsFilaCooling
  | StepPushSwitcherFila
  | StepPullSwitcherFila
  | StepSwitcherSwitch
  | StepUnknown int

definition FILAMENT_STEP_CODES :: "(int \<times> ams_filament_step) list" where
  "FILAMENT_STEP_CODES =
     [(0, StepIdle),
      (1, StepPause),
      (2, StepHeatNozzle),
      (3, StepCutFilament),
      (4, StepPullCurrFilament),
      (5, StepPushNewFilament),
      (6, StepGrabNewFilament),
      (7, StepPurgeOldFilament),
      (8, StepCheckPosition),
      (9, StepSwitchExtruder),
      (10, StepSwitchHotend),
      (11, StepAmsFilaCooling),
      (12, StepPushSwitcherFila),
      (13, StepPullSwitcherFila),
      (14, StepSwitcherSwitch)]"

definition step_from :: "int \<Rightarrow> ams_filament_step" where
  "step_from raw =
     (case find (\<lambda>(c, _). c = raw) FILAMENT_STEP_CODES of None \<Rightarrow> StepUnknown raw | Some (_, step) \<Rightarrow> step)"

definition step_code :: "ams_filament_step \<Rightarrow> int" where
  "step_code step =
     (case step of StepUnknown raw \<Rightarrow> raw
      | named \<Rightarrow> fst (the (find (\<lambda>(_, s). s = named) FILAMENT_STEP_CODES)))"

section \<open>Records\<close>

record ams_tray =
  at_id :: string
  at_state :: "nat option"
  at_tray_type :: "string option"
  at_tray_color :: "string option"
  at_tray_info_idx :: "string option"
  at_tag_uid :: "string option"
  at_tray_uuid :: "string option"
  at_remain :: "int option"
  at_tray_sub_brands :: "string option"
  at_nozzle_temp_max :: "string option"
  at_nozzle_temp_min :: "string option"
  at_tray_diameter :: "string option"
  at_tray_weight :: "string option"
  at_tray_id_name :: "string option"
  at_tray_temp :: "string option"
  at_tray_time :: "string option"
  at_drying_temp :: "string option"
  at_drying_time :: "string option"
  at_bed_temp :: "string option"
  at_bed_temp_type :: "string option"
  at_xcam_info :: "string option"
  at_k :: "rat option"
  at_n :: "int option"
  at_cali_idx :: "int option"
  at_cols :: "string list option"
  at_ctype :: "int option"
  at_total_len :: "nat option"
  at_remain_g :: "int option"
  at_filament_setting_id :: "string option"

definition default_tray :: ams_tray where
  "default_tray = \<lparr>
     at_id = [],
     at_state = None,
     at_tray_type = None,
     at_tray_color = None,
     at_tray_info_idx = None,
     at_tag_uid = None,
     at_tray_uuid = None,
     at_remain = None,
     at_tray_sub_brands = None,
     at_nozzle_temp_max = None,
     at_nozzle_temp_min = None,
     at_tray_diameter = None,
     at_tray_weight = None,
     at_tray_id_name = None,
     at_tray_temp = None,
     at_tray_time = None,
     at_drying_temp = None,
     at_drying_time = None,
     at_bed_temp = None,
     at_bed_temp_type = None,
     at_xcam_info = None,
     at_k = None,
     at_n = None,
     at_cali_idx = None,
     at_cols = None,
     at_ctype = None,
     at_total_len = None,
     at_remain_g = None,
     at_filament_setting_id = None\<rparr>"

record ams_dry_setting =
  ds_dry_temperature :: "int option"
  ds_dry_duration :: "int option"
  ds_dry_filament :: "string option"

record ams_unit =
  au_id :: string
  au_temp :: "string option"
  au_humidity :: "string option"
  au_humidity_raw :: "string option"
  au_dry_time :: "nat option"
  au_dry_setting :: "ams_dry_setting option"
  au_tray :: "ams_tray list option"
  au_info :: "string option"
  au_dry_sf_reason :: "int list option"

record ams_status_report =
  ar_ams :: "ams_unit list"
  ar_ams_exist_bits :: "string option"
  ar_tray_exist_bits :: "string option"
  ar_tray_is_bbl_bits :: "string option"
  ar_tray_now :: "string option"
  ar_tray_pre :: "string option"
  ar_tray_tar :: "string option"
  ar_version :: "int option"
  ar_tray_read_done_bits :: "string option"
  ar_tray_reading_bits :: "string option"
  ar_insert_flag :: "bool option"
  ar_power_on_flag :: "bool option"
  ar_cali_id :: "int option"
  ar_cali_stat :: "int option"
  ar_calibrate_remain_flag :: "bool option"
  ar_cfs :: "ams_filament_step list option"

text \<open>The unit id as it is deserialized: a physical 16 becomes 6, any other text is kept as it is.\<close>

definition normalized_unit_id_text :: "string \<Rightarrow> string" where
  "normalized_unit_id_text raw =
     (case parse_u8 (trim raw) of
        None \<Rightarrow> raw
      | Some i \<Rightarrow> let normalized = normalize_ams_unit_id i in if normalized = i then raw else dec normalized)"

section \<open>Merging\<close>

definition merge_tray :: "ams_tray \<Rightarrow> ams_tray \<Rightarrow> ams_tray" where
  "merge_tray c n = \<lparr>
     at_id = (if at_id n = [] then at_id c else at_id n),
     at_state = keep_new (at_state c) (at_state n),
     at_tray_type = keep_new (at_tray_type c) (at_tray_type n),
     at_tray_color = keep_new (at_tray_color c) (at_tray_color n),
     at_tray_info_idx = keep_new (at_tray_info_idx c) (at_tray_info_idx n),
     at_tag_uid = keep_new (at_tag_uid c) (at_tag_uid n),
     at_tray_uuid = keep_new (at_tray_uuid c) (at_tray_uuid n),
     at_remain = keep_new (at_remain c) (at_remain n),
     at_tray_sub_brands = keep_new (at_tray_sub_brands c) (at_tray_sub_brands n),
     at_nozzle_temp_max = keep_new (at_nozzle_temp_max c) (at_nozzle_temp_max n),
     at_nozzle_temp_min = keep_new (at_nozzle_temp_min c) (at_nozzle_temp_min n),
     at_tray_diameter = keep_new (at_tray_diameter c) (at_tray_diameter n),
     at_tray_weight = keep_new (at_tray_weight c) (at_tray_weight n),
     at_tray_id_name = keep_new (at_tray_id_name c) (at_tray_id_name n),
     at_tray_temp = keep_new (at_tray_temp c) (at_tray_temp n),
     at_tray_time = keep_new (at_tray_time c) (at_tray_time n),
     at_drying_temp = keep_new (at_drying_temp c) (at_drying_temp n),
     at_drying_time = keep_new (at_drying_time c) (at_drying_time n),
     at_bed_temp = keep_new (at_bed_temp c) (at_bed_temp n),
     at_bed_temp_type = keep_new (at_bed_temp_type c) (at_bed_temp_type n),
     at_xcam_info = keep_new (at_xcam_info c) (at_xcam_info n),
     at_k = keep_new (at_k c) (at_k n),
     at_n = keep_new (at_n c) (at_n n),
     at_cali_idx = keep_new (at_cali_idx c) (at_cali_idx n),
     at_cols = keep_new (at_cols c) (at_cols n),
     at_ctype = keep_new (at_ctype c) (at_ctype n),
     at_total_len = keep_new (at_total_len c) (at_total_len n),
     at_remain_g = keep_new (at_remain_g c) (at_remain_g n),
     at_filament_setting_id = keep_new (at_filament_setting_id c) (at_filament_setting_id n)\<rparr>"

definition merge_dry_setting :: "ams_dry_setting \<Rightarrow> ams_dry_setting \<Rightarrow> ams_dry_setting" where
  "merge_dry_setting c n = \<lparr>
     ds_dry_temperature = keep_new (ds_dry_temperature c) (ds_dry_temperature n),
     ds_dry_duration = keep_new (ds_dry_duration c) (ds_dry_duration n),
     ds_dry_filament = keep_new (ds_dry_filament c) (ds_dry_filament n)\<rparr>"

text \<open>A unit's tray list is the whole list: trays a push does not name are dropped.\<close>

definition merge_trays :: "ams_tray list option \<Rightarrow> ams_tray list option \<Rightarrow> ams_tray list option" where
  "merge_trays cached incoming =
     (case incoming of
        None \<Rightarrow> cached
      | Some ns \<Rightarrow>
          Some (filter (\<lambda>t. list_ex (\<lambda>i. at_id i = at_id t) ns)
            (merge_keyed merge_tray at_id (case cached of None \<Rightarrow> [] | Some cs \<Rightarrow> cs) ns)))"

definition merge_unit :: "ams_unit \<Rightarrow> ams_unit \<Rightarrow> ams_unit" where
  "merge_unit c n = \<lparr>
     au_id = au_id c,
     au_temp = keep_new (au_temp c) (au_temp n),
     au_humidity = keep_new (au_humidity c) (au_humidity n),
     au_humidity_raw = keep_new (au_humidity_raw c) (au_humidity_raw n),
     au_dry_time = keep_new (au_dry_time c) (au_dry_time n),
     au_dry_setting = merge_opt merge_dry_setting (au_dry_setting c) (au_dry_setting n),
     au_tray = merge_trays (au_tray c) (au_tray n),
     au_info = keep_new (au_info c) (au_info n),
     au_dry_sf_reason = keep_new (au_dry_sf_reason c) (au_dry_sf_reason n)\<rparr>"

definition merge_report :: "ams_status_report \<Rightarrow> ams_status_report \<Rightarrow> ams_status_report" where
  "merge_report c n = \<lparr>
     ar_ams = (if ar_ams n = [] then ar_ams c else merge_keyed merge_unit au_id (ar_ams c) (ar_ams n)),
     ar_ams_exist_bits = keep_new (ar_ams_exist_bits c) (ar_ams_exist_bits n),
     ar_tray_exist_bits = keep_new (ar_tray_exist_bits c) (ar_tray_exist_bits n),
     ar_tray_is_bbl_bits = keep_new (ar_tray_is_bbl_bits c) (ar_tray_is_bbl_bits n),
     ar_tray_now = keep_new (ar_tray_now c) (ar_tray_now n),
     ar_tray_pre = keep_new (ar_tray_pre c) (ar_tray_pre n),
     ar_tray_tar = keep_new (ar_tray_tar c) (ar_tray_tar n),
     ar_version = keep_new (ar_version c) (ar_version n),
     ar_tray_read_done_bits = keep_new (ar_tray_read_done_bits c) (ar_tray_read_done_bits n),
     ar_tray_reading_bits = keep_new (ar_tray_reading_bits c) (ar_tray_reading_bits n),
     ar_insert_flag = keep_new (ar_insert_flag c) (ar_insert_flag n),
     ar_power_on_flag = keep_new (ar_power_on_flag c) (ar_power_on_flag n),
     ar_cali_id = keep_new (ar_cali_id c) (ar_cali_id n),
     ar_cali_stat = keep_new (ar_cali_stat c) (ar_cali_stat n),
     ar_calibrate_remain_flag = keep_new (ar_calibrate_remain_flag c) (ar_calibrate_remain_flag n),
     ar_cfs = keep_new (ar_cfs c) (ar_cfs n)\<rparr>"

section \<open>Trays\<close>

abbreviation (input) AMS_TRAY_STATE_EMPTY :: nat where "AMS_TRAY_STATE_EMPTY \<equiv> 9"
abbreviation (input) AMS_TRAY_STATE_POWER_OFF :: nat where "AMS_TRAY_STATE_POWER_OFF \<equiv> 0"
abbreviation (input) AMS_TRAY_STATE_SPOOL_NOT_FED :: nat where "AMS_TRAY_STATE_SPOOL_NOT_FED \<equiv> 10"

definition is_blank_type :: "string \<Rightarrow> bool" where
  "is_blank_type tray_type = (tray_type = [] \<or> tray_type = ''Empty'')"

definition tray_slot :: "ams_tray \<Rightarrow> nat option" where
  "tray_slot t = parse_u8 (trim (at_id t))"

definition tray_material :: "ams_tray \<Rightarrow> string option" where
  "tray_material t =
     (case at_tray_type t of None \<Rightarrow> None | Some ty \<Rightarrow> if is_blank_type ty then None else Some ty)"

definition be_bytes :: "nat \<Rightarrow> nat \<times> nat \<times> nat \<times> nat" where
  "be_bytes v = (v div 16777216 mod 256, v div 65536 mod 256, v div 256 mod 256, v mod 256)"

definition color_rgba :: "ams_tray \<Rightarrow> (nat \<times> nat \<times> nat \<times> nat) option" where
  "color_rgba t =
     (case at_tray_color t of
        None \<Rightarrow> None
      | Some hex \<Rightarrow> if length hex \<noteq> 8 then None else map_option be_bytes (from_hex 4294967296 hex))"

definition nozzle_temp_range :: "ams_tray \<Rightarrow> (nat \<times> nat) option" where
  "nozzle_temp_range t =
     Option.bind (Option.bind (at_nozzle_temp_min t) (\<lambda>s. parse_u16 (trim s))) (\<lambda>lo.
     Option.bind (Option.bind (at_nozzle_temp_max t) (\<lambda>s. parse_u16 (trim s))) (\<lambda>hi. Some (lo, hi)))"

definition remain_percent :: "ams_tray \<Rightarrow> nat option" where
  "remain_percent t =
     (case at_remain t of None \<Rightarrow> None | Some r \<Rightarrow> if 0 \<le> r \<and> r < 256 \<and> r \<le> 100 then Some (nat r) else None)"

definition tray_state :: "ams_tray \<Rightarrow> nat" where
  "tray_state t = (case at_state t of None \<Rightarrow> AMS_TRAY_STATE_EMPTY | Some s \<Rightarrow> s)"

definition is_loaded :: "ams_tray \<Rightarrow> nat \<Rightarrow> bool" where
  "is_loaded t ams_id =
     (let has_filament_metadata =
            (case at_tray_info_idx t of None \<Rightarrow> False | Some idx \<Rightarrow> idx \<noteq> [])
            \<or> (case at_tray_type t of None \<Rightarrow> False | Some ty \<Rightarrow> \<not> is_blank_type ty);
          is_absent_state =
            at_state t = Some AMS_TRAY_STATE_POWER_OFF
            \<or> (at_state t = None \<and> \<not> has_filament_metadata)
            \<or> (\<not> is_ams_ht_id ams_id
                \<and> at_state t \<in> {Some AMS_TRAY_STATE_SPOOL_NOT_FED, Some AMS_TRAY_STATE_EMPTY});
          is_type_cleared = (case at_tray_type t of None \<Rightarrow> False | Some ty \<Rightarrow> is_blank_type ty)
      in \<not> (is_absent_state \<or> is_type_cleared))"

definition remaining_weight_grams :: "ams_tray \<Rightarrow> nat option" where
  "remaining_weight_grams t =
     (case at_remain_g t of None \<Rightarrow> None | Some g \<Rightarrow> if g > 0 then Some (nat g) else None)"

section \<open>Units\<close>

datatype ams_unit_model = MExternalSpool | MAms | MAmsLite | MAms2Pro | MAmsHt | MAmsLiteMixed

definition unit_model_from_wire :: "nat \<Rightarrow> ams_unit_model option" where
  "unit_model_from_wire v =
     (if v = 0 then Some MExternalSpool else if v = 1 then Some MAms else if v = 2 then Some MAmsLite
      else if v = 3 then Some MAms2Pro else if v = 4 then Some MAmsHt else if v = 5 then Some MAmsLiteMixed
      else None)"

fun drying_column :: "ams_unit_model \<Rightarrow> nat option" where
  "drying_column MAms2Pro = Some 0"
| "drying_column MAmsHt = Some 1"
| "drying_column _ = None"

definition model_supports_drying :: "ams_unit_model \<Rightarrow> bool" where
  "model_supports_drying m = (drying_column m \<noteq> None)"

fun model_dry_temp_range :: "ams_unit_model \<Rightarrow> (nat \<times> nat) option" where
  "model_dry_temp_range MAms2Pro = Some (45, 65)"
| "model_dry_temp_range MAmsHt = Some (45, 85)"
| "model_dry_temp_range _ = None"

fun slot_count :: "ams_unit_model \<Rightarrow> nat option" where
  "slot_count MAmsHt = Some 1"
| "slot_count MAms = Some AMS_SLOTS_PER_UNIT"
| "slot_count MAmsLite = Some AMS_SLOTS_PER_UNIT"
| "slot_count MAms2Pro = Some AMS_SLOTS_PER_UNIT"
| "slot_count _ = None"

datatype ams_dry_status =
    DryOff | DryChecking | DryDrying | DryCooling | DryStopping | DryError | DryHeaterOutOfControl | DryProductionTest
  | DryOther nat

definition dry_status_from_wire :: "nat \<Rightarrow> ams_dry_status" where
  "dry_status_from_wire raw =
     (if raw < 8
      then [DryOff, DryChecking, DryDrying, DryCooling, DryStopping, DryError, DryHeaterOutOfControl, DryProductionTest] ! raw
      else DryOther raw)"

datatype ams_dry_sub_status = SubOff | SubHeating | SubDehumidifying | SubOther nat

definition dry_sub_status_from_wire :: "nat \<Rightarrow> ams_dry_sub_status" where
  "dry_sub_status_from_wire raw =
     (if raw = 0 then SubOff else if raw = 1 then SubHeating else if raw = 2 then SubDehumidifying else SubOther raw)"

datatype ams_dry_fan_status = FanOff | FanOn | FanOther nat

definition dry_fan_status_from_wire :: "nat \<Rightarrow> ams_dry_fan_status" where
  "dry_fan_status_from_wire raw = (if raw = 0 then FanOff else if raw = 1 then FanOn else FanOther raw)"

datatype filament_switch_inlet = InA | InB

definition unit_ams_id :: "ams_unit \<Rightarrow> nat option" where
  "unit_ams_id u = parse_u8 (trim (au_id u))"

definition humidity_percent :: "ams_unit \<Rightarrow> nat option" where
  "humidity_percent u = Option.bind (au_humidity_raw u) (\<lambda>s. parse_u8 (trim s))"

definition humidity_level :: "ams_unit \<Rightarrow> nat option" where
  "humidity_level u = Option.bind (au_humidity u) (\<lambda>s. parse_u8 (trim s))"

definition parse_info :: "ams_unit \<Rightarrow> nat option" where
  "parse_info u = Option.bind (au_info u) hex_u64"

text \<open>\<open>((v >> shift) & mask) as u8\<close> for a mask of \<open>width\<close> ones.\<close>

definition info_field :: "ams_unit \<Rightarrow> nat \<Rightarrow> nat \<Rightarrow> nat option" where
  "info_field u shift width = map_option (\<lambda>v. v div 2 ^ shift mod 2 ^ width) (parse_info u)"

definition ams_type :: "ams_unit \<Rightarrow> nat option" where
  "ams_type u = info_field u 0 4"

definition unit_model :: "ams_unit \<Rightarrow> ams_unit_model option" where
  "unit_model u = Option.bind (ams_type u) unit_model_from_wire"

definition unit_kind :: "ams_unit_model option \<Rightarrow> string" where
  "unit_kind m =
     (case m of
        Some MAmsLite \<Rightarrow> ''AMS Lite'' | Some MAmsLiteMixed \<Rightarrow> ''AMS Lite''
      | Some MAms2Pro \<Rightarrow> ''AMS 2 Pro'' | Some MAmsHt \<Rightarrow> ''AMS HT''
      | _ \<Rightarrow> ''AMS'')"

definition display_name :: "ams_unit \<Rightarrow> string option" where
  "display_name u =
     (case unit_ams_id u of
        None \<Rightarrow> None
      | Some i \<Rightarrow>
          let physical_id = wire_ams_id i;
              number = (if physical_id \<ge> AMS_HT_ID_MIN then physical_id - AMS_HT_ID_MIN + 1
                        else if 16 \<le> physical_id \<and> physical_id \<le> 31 then physical_id - 16 + 1
                        else physical_id + 1)
          in Some (unit_kind (unit_model u) @ ''('' @ dec number @ '')''))"

definition dry_status :: "ams_unit \<Rightarrow> ams_dry_status option" where
  "dry_status u = map_option dry_status_from_wire (info_field u 4 4)"

definition unit_supports_drying :: "ams_unit \<Rightarrow> bool option" where
  "unit_supports_drying u = map_option model_supports_drying (unit_model u)"

definition unit_dry_temp_range :: "ams_unit \<Rightarrow> (nat \<times> nat) option" where
  "unit_dry_temp_range u = Option.bind (unit_model u) model_dry_temp_range"

definition extruder_assignment :: "ams_unit \<Rightarrow> nat option" where
  "extruder_assignment u = (case info_field u 8 4 of None \<Rightarrow> None | Some raw \<Rightarrow> if raw \<noteq> 14 then Some raw else None)"

definition unit_filament_switch_inlet :: "ams_unit \<Rightarrow> filament_switch_inlet option" where
  "unit_filament_switch_inlet u =
     (case info_field u 24 4 of
        None \<Rightarrow> None | Some raw \<Rightarrow> if raw = 0 then Some InB else if raw = 1 then Some InA else None)"

definition has_unfixed_extruder :: "ams_unit \<Rightarrow> bool" where
  "has_unfixed_extruder u = (info_field u 8 4 = Some 14)"

definition dry_sub_status :: "ams_unit \<Rightarrow> ams_dry_sub_status option" where
  "dry_sub_status u = map_option dry_sub_status_from_wire (info_field u 22 2)"

definition dry_fan1_status :: "ams_unit \<Rightarrow> ams_dry_fan_status option" where
  "dry_fan1_status u = map_option dry_fan_status_from_wire (info_field u 18 2)"

definition dry_fan2_status :: "ams_unit \<Rightarrow> ams_dry_fan_status option" where
  "dry_fan2_status u = map_option dry_fan_status_from_wire (info_field u 20 2)"

section \<open>Why drying is blocked\<close>

datatype dry_block_reason =
    BlockPrinterBusy
  | BlockInsufficientPower
  | BlockAmsBusy
  | BlockFilamentAtOutlet
  | BlockAlreadyStarting
  | BlockUnsupported2dMode
  | BlockAlreadyDrying
  | BlockFirmwareUpgrading
  | BlockExternalPowerRequired
  | BlockFilamentAtOutletManualUnload
  | BlockOther int

definition DRY_BLOCK_REASON_CODES :: "(int \<times> dry_block_reason) list" where
  "DRY_BLOCK_REASON_CODES =
     [(0, BlockPrinterBusy),
      (1, BlockInsufficientPower),
      (2, BlockAmsBusy),
      (3, BlockFilamentAtOutlet),
      (4, BlockAlreadyStarting),
      (5, BlockUnsupported2dMode),
      (6, BlockAlreadyDrying),
      (7, BlockFirmwareUpgrading),
      (8, BlockExternalPowerRequired),
      (10, BlockFilamentAtOutletManualUnload)]"

definition reason_from_code :: "int \<Rightarrow> dry_block_reason" where
  "reason_from_code c =
     (case find (\<lambda>(k, _). k = c) DRY_BLOCK_REASON_CODES of None \<Rightarrow> BlockOther c | Some (_, reason) \<Rightarrow> reason)"

definition reason_code :: "dry_block_reason \<Rightarrow> int" where
  "reason_code r =
     (case r of BlockOther c \<Rightarrow> c
      | named \<Rightarrow> fst (the (find (\<lambda>(_, q). q = named) DRY_BLOCK_REASON_CODES)))"

definition needs_user_action :: "dry_block_reason \<Rightarrow> bool" where
  "needs_user_action r =
     (r \<in> {BlockInsufficientPower, BlockExternalPowerRequired, BlockFilamentAtOutlet, BlockFilamentAtOutletManualUnload})"

definition dry_block_reasons :: "ams_unit \<Rightarrow> dry_block_reason list option" where
  "dry_block_reasons u = map_option (map reason_from_code) (au_dry_sf_reason u)"

definition primary_dry_block_reason :: "ams_unit \<Rightarrow> dry_block_reason option" where
  "primary_dry_block_reason u =
     (case dry_block_reasons u of
        None \<Rightarrow> None
      | Some reasons \<Rightarrow>
          (case find needs_user_action reasons of
             Some r \<Rightarrow> Some r
           | None \<Rightarrow> (case reasons of [] \<Rightarrow> None | r # _ \<Rightarrow> Some r)))"

section \<open>Reports\<close>

definition report_unit :: "ams_status_report \<Rightarrow> nat \<Rightarrow> ams_unit option" where
  "report_unit r ams_id = find (\<lambda>u. unit_ams_id u = Some ams_id) (ar_ams r)"

definition report_tray :: "ams_status_report \<Rightarrow> nat \<Rightarrow> nat \<Rightarrow> ams_tray option" where
  "report_tray r ams_id slot =
     Option.bind (report_unit r ams_id) (\<lambda>u. Option.bind (au_tray u) (find (\<lambda>t. tray_slot t = Some slot)))"

end
