(* ===== verification/AmsParser.thy ===== *)
theory AmsParser
  imports AmsTypes
begin

text \<open>
  Reading the AMS report (\<open>src/ams/parser.rs\<close>): spool presence bits, global tray ids, slot labels, and the
  cleansing of trays whose spool is gone. Then what merging pushes and cleansing keep of the report.
\<close>

section \<open>Presence and addresses\<close>

definition tray_exist_bit_index :: "nat \<Rightarrow> nat \<Rightarrow> nat option" where
  "tray_exist_bit_index ams_id tray_id =
     (if is_ams_ht_id ams_id then (if tray_id = 0 then Some (16 + (ams_id - AMS_HT_ID_MIN)) else None)
      else if (is_standard_id ams_id \<or> ams_id = AMS_LITE_ON_A2L_NORMALIZED_ID) \<and> tray_id < AMS_SLOTS_PER_UNIT
      then Some (ams_id * AMS_SLOTS_PER_UNIT + tray_id)
      else None)"

definition evaluate_spool_presence :: "string \<Rightarrow> nat \<Rightarrow> nat \<Rightarrow> bool \<Rightarrow> bool option" where
  "evaluate_spool_presence tray_exist_bits ams_id tray_id power_on_flag =
     (case hex_u64 tray_exist_bits of
        None \<Rightarrow> None
      | Some parsed_mask \<Rightarrow>
          if parsed_mask \<ge> 2 ^ 32 then None
          else if parsed_mask = 0 \<and> \<not> power_on_flag then None
          else map_option (\<lambda>k. parsed_mask div 2 ^ k mod 2 = 1) (tray_exist_bit_index ams_id tray_id))"

definition resolve_global_tray_id :: "nat \<Rightarrow> nat \<Rightarrow> nat option" where
  "resolve_global_tray_id ams_id tray_id =
     (if is_ams_ht_id ams_id then (if tray_id = 0 then Some ams_id else None)
      else if is_external_spool_id ams_id then Some ams_id
      else if (is_standard_id ams_id \<or> ams_id = AMS_LITE_ON_A2L_NORMALIZED_ID) \<and> tray_id < AMS_SLOTS_PER_UNIT
      then Some (ams_id * AMS_SLOTS_PER_UNIT + tray_id)
      else None)"

definition tray_label :: "nat \<Rightarrow> nat \<Rightarrow> string" where
  "tray_label i extruder_count =
     (let ams_lite_base = AMS_LITE_ON_A2L_NORMALIZED_ID * AMS_SLOTS_PER_UNIT
      in if i = AMS_EXTERNAL_SPOOL_MAIN_ID \<and> extruder_count = 2 then ''Ext-R''
         else if i = AMS_EXTERNAL_SPOOL_DEPUTY_ID \<and> extruder_count = 2 then ''Ext-L''
         else if is_external_spool_id i then ''Ext''
         else if is_ams_ht_id i then ''HT-'' @ [char_of (65 + (i - AMS_HT_ID_MIN))]
         else if i \<ge> ams_lite_base then ''Q'' @ dec (i - ams_lite_base + 1)
         else [char_of (65 + i div AMS_SLOTS_PER_UNIT)] @ dec (i mod AMS_SLOTS_PER_UNIT + 1))"

definition slot_label :: "nat \<Rightarrow> nat \<Rightarrow> nat \<Rightarrow> string option" where
  "slot_label ams_id slot_id extruder_count =
     map_option (\<lambda>i. tray_label i extruder_count) (resolve_global_tray_id (normalize_ams_unit_id ams_id) slot_id)"

definition resolve_printing_global_id :: "nat \<Rightarrow> nat option \<Rightarrow> nat list \<Rightarrow> nat option" where
  "resolve_printing_global_id tray_now active_extruder ams_extruder_map =
     (case active_extruder of
        None \<Rightarrow> None
      | Some e \<Rightarrow>
          if e < length ams_extruder_map
          then resolve_global_tray_id (normalize_ams_unit_id (ams_extruder_map ! e)) tray_now
          else None)"

section \<open>Trays without a spool\<close>

definition clean_stale_tray_data :: "ams_tray \<Rightarrow> nat \<Rightarrow> ams_tray" where
  "clean_stale_tray_data t ams_id =
     (if is_loaded t ams_id then t
      else default_tray\<lparr>at_id := at_id t,
        at_state := (case at_state t of None \<Rightarrow> Some AMS_TRAY_STATE_EMPTY | Some s \<Rightarrow> Some s),
        at_remain := Some (-1)\<rparr>)"

section \<open>Trays, units and reports merge well\<close>

interpretation trays: keyed_merge merge_tray at_id "\<lambda>_. True"
proof
  show "merge_tray n n = n" for n by (simp add: merge_tray_def)
qed (simp_all add: merge_tray_def)

definition unit_ok :: "ams_unit \<Rightarrow> bool" where
  "unit_ok u \<longleftrightarrow> (case au_tray u of None \<Rightarrow> True | Some ts \<Rightarrow> distinct (map at_id ts))"

lemma merge_opt_dry_again:
  "merge_opt merge_dry_setting (merge_opt merge_dry_setting c n) n = merge_opt merge_dry_setting c n"
  "merge_opt merge_dry_setting n n = n"
  by (auto simp: merge_opt_def merge_dry_setting_def split: option.splits)

lemma named_trays: "list_ex (\<lambda>i. at_id i = k) ns \<longleftrightarrow> k \<in> at_id ` set ns"
  by (auto simp: list_ex_iff)

lemma merge_trays_facts:
  assumes "case c of None \<Rightarrow> True | Some cs \<Rightarrow> distinct (map at_id cs)"
    "case n of None \<Rightarrow> True | Some ns \<Rightarrow> distinct (map at_id ns)"
  shows "case merge_trays c n of None \<Rightarrow> True | Some ts \<Rightarrow> distinct (map at_id ts)"
    "merge_trays (merge_trays c n) n = merge_trays c n" "merge_trays n n = n"
proof -
  let ?cs = "case c of None \<Rightarrow> [] | Some cs \<Rightarrow> cs"
  have cs: "distinct (map at_id ?cs)" using assms(1) by (simp split: option.splits)
  show "case merge_trays c n of None \<Rightarrow> True | Some ts \<Rightarrow> distinct (map at_id ts)"
    using assms cs
    by (auto simp: merge_trays_def intro!: trays.distinct_map_key_filter trays.merge_keyed_distinct split: option.split)
  show "merge_trays (merge_trays c n) n = merge_trays c n"
  proof (cases n)
    case (Some ns)
    with trays.merge_keyed_pruned_again [of ?cs ns "\<lambda>k. k \<in> at_id ` set ns"] cs assms(2) show ?thesis
      by (simp add: merge_trays_def named_trays list_all_iff)
  qed (simp add: merge_trays_def)
  show "merge_trays n n = n"
    using assms(2) trays.merge_keyed_self
    by (auto simp: merge_trays_def named_trays list_all_iff filter_id_conv split: option.split)
qed

interpretation units: keyed_merge merge_unit au_id unit_ok
proof
  fix c n
  show "unit_ok c \<Longrightarrow> unit_ok n \<Longrightarrow> unit_ok (merge_unit c n)"
    using merge_trays_facts(1) by (simp add: unit_ok_def merge_unit_def)
  show "merge_unit (merge_unit c n) n = merge_unit c n" if "unit_ok c" "unit_ok n"
    using merge_trays_facts(2) [of "au_tray c" "au_tray n"] that by (simp add: unit_ok_def merge_unit_def merge_opt_dry_again)
  show "merge_unit n n = n" if "unit_ok n"
    using merge_trays_facts(3) [of None "au_tray n"] that by (simp add: unit_ok_def merge_unit_def merge_opt_dry_again)
qed (simp add: merge_unit_def)

definition report_ok :: "ams_status_report \<Rightarrow> bool" where
  "report_ok r \<longleftrightarrow> distinct (map au_id (ar_ams r)) \<and> list_all unit_ok (ar_ams r)"

lemma merge_report_ok:
  "report_ok c \<Longrightarrow> report_ok n \<Longrightarrow> report_ok (merge_report c n)"
  by (simp add: report_ok_def merge_report_def units.merge_keyed_distinct units.merge_keyed_ok)

lemma merge_report_again:
  "report_ok c \<Longrightarrow> report_ok n \<Longrightarrow> merge_report (merge_report c n) n = merge_report c n"
  by (simp add: report_ok_def merge_report_def units.merge_keyed_again)

section \<open>Addresses\<close>

text \<open>The global ids of the trays on the bus.\<close>

definition bus_tray_ids :: "nat list" where
  "bus_tray_ids = [0..<16] @ [24..<28] @ [128..<136]"

lemma resolve_bus:
  "resolve_global_tray_id a t = Some i \<Longrightarrow> \<not> is_external_spool_id a \<Longrightarrow> i \<in> set bus_tray_ids"
  by (auto simp: resolve_global_tray_id_def ams_id_defs bus_tray_ids_def split: if_splits)

lemma slot_inj: "a * 4 + t = a' * 4 + t' \<Longrightarrow> t < 4 \<Longrightarrow> t' < 4 \<Longrightarrow> a = a' \<and> t = (t' :: nat)"
  by presburger

lemma resolve_bus_inj:
  "resolve_global_tray_id a t = Some i \<Longrightarrow> resolve_global_tray_id a' t' = Some i \<Longrightarrow>
     \<not> is_external_spool_id a \<Longrightarrow> \<not> is_external_spool_id a' \<Longrightarrow> a = a' \<and> t = t'"
  by (auto simp: resolve_global_tray_id_def ams_id_defs split: if_splits dest: slot_inj)

lemma bit_index_inj:
  "tray_exist_bit_index a t = Some i \<Longrightarrow> tray_exist_bit_index a' t' = Some i \<Longrightarrow> a = a' \<and> t = t'"
  by (auto simp: tray_exist_bit_index_def ams_id_defs split: if_splits dest: slot_inj)

lemma bit_index_resolve:
  "(\<exists>k. tray_exist_bit_index a t = Some k) \<longleftrightarrow> (\<exists>i. resolve_global_tray_id a t = Some i) \<and> \<not> is_external_spool_id a"
  "tray_exist_bit_index a t = Some k \<Longrightarrow> k < 32"
  by (auto simp: tray_exist_bit_index_def resolve_global_tray_id_def ams_id_defs split: if_splits)

lemma bus_labels_distinct: "distinct (map (\<lambda>i. tray_label i n) bus_tray_ids)"
  by (simp add: bus_tray_ids_def upt_rec tray_label_def is_external_spool_id_def is_ams_ht_id_def dec.simps
      char_of_def bit_0)

section \<open>The cache over a sequence of pushes\<close>

definition latest :: "'a option list \<Rightarrow> 'a option" where
  "latest = foldl keep_new None"

lemma latest_snoc: "latest (xs @ [x]) = keep_new (latest xs) x"
  by (simp add: latest_def)

lemma latest_single: "latest [x] = x"
  by (cases x) (simp_all add: latest_def keep_new_def)

lemma merged_ids:
  "au_id ` set (ar_ams (merge_report c n)) = au_id ` set (ar_ams c) \<union> au_id ` set (ar_ams n)"
  by (simp add: merge_report_def units.merge_keyed_keys)

definition cached :: "ams_status_report \<Rightarrow> ams_status_report list \<Rightarrow> ams_status_report" where
  "cached r pushes = foldl merge_report r pushes"

lemma cached_snoc: "cached r (pushes @ [n]) = merge_report (cached r pushes) n"
  by (simp add: cached_def)

lemma cached_ok: "report_ok r \<Longrightarrow> list_all report_ok pushes \<Longrightarrow> report_ok (cached r pushes)"
  by (induction pushes rule: rev_induct) (simp_all add: cached_def merge_report_ok)

lemma cached_field:
  "(\<And>c n. f (merge_report c n) = keep_new (f c) (f n)) \<Longrightarrow> f (cached r pushes) = latest (map f (r # pushes))"
proof (induction pushes rule: rev_induct)
  case Nil
  then show ?case by (simp add: cached_def latest_single)
next
  case (snoc n pushes)
  then show ?case using latest_snoc [of "map f (r # pushes)" "f n"] by (simp add: cached_snoc)
qed

section \<open>Properties\<close>

text \<open>C38. Tray addresses do not collide: on the bus a global id, a presence bit and a label each belong to one
  unit and slot only; the presence bits stay below 32; and an address has a presence bit exactly when
  it has a global id and is not an external spool.\<close>

theorem tray_addresses_distinct:
  "(tray_exist_bit_index a t = None \<longleftrightarrow> resolve_global_tray_id a t = None \<or> is_external_spool_id a)
   \<and> pred_option (\<lambda>k. k < 32) (tray_exist_bit_index a t)
   \<and> inj_on (\<lambda>(a, t). tray_exist_bit_index a t) {(a, t). tray_exist_bit_index a t \<noteq> None}
   \<and> inj_on (\<lambda>(a, t). resolve_global_tray_id a t) {(a, t). resolve_global_tray_id a t \<noteq> None \<and> \<not> is_external_spool_id a}
   \<and> inj_on (\<lambda>(a, t). slot_label a t n) {(a, t). slot_label a t n \<noteq> None \<and> \<not> is_external_spool_id a \<and> a \<noteq> 16}"
proof (intro conjI)
  show "tray_exist_bit_index a t = None \<longleftrightarrow> resolve_global_tray_id a t = None \<or> is_external_spool_id a"
    using bit_index_resolve(1) [of a t] by (metis not_Some_eq)
  show "pred_option (\<lambda>k. k < 32) (tray_exist_bit_index a t)"
    using bit_index_resolve(2) [of a t] by (cases "tray_exist_bit_index a t") auto
  show "inj_on (\<lambda>(a, t). tray_exist_bit_index a t) {(a, t). tray_exist_bit_index a t \<noteq> None}"
    by (rule inj_onI) (clarsimp, metis bit_index_inj)
  show "inj_on (\<lambda>(a, t). resolve_global_tray_id a t) {(a, t). resolve_global_tray_id a t \<noteq> None \<and> \<not> is_external_spool_id a}"
    by (rule inj_onI) (clarsimp, metis resolve_bus_inj)
  have inj: "inj_on (\<lambda>i. tray_label i n) (set bus_tray_ids)"
    using bus_labels_distinct [of n] by (simp add: distinct_map)
  have key: "a = a' \<and> t = t'"
    if "resolve_global_tray_id a t = Some i" "resolve_global_tray_id a' t' = Some i'" "tray_label i n = tray_label i' n"
      "\<not> is_external_spool_id a" "\<not> is_external_spool_id a'" for a t a' t' i i'
  proof -
    have "i = i'" using inj_onD [OF inj that(3) resolve_bus [OF that(1,4)] resolve_bus [OF that(2,5)]] .
    with resolve_bus_inj [OF that(1) _ that(4,5)] that(2) show ?thesis by simp
  qed
  show "inj_on (\<lambda>(a, t). slot_label a t n) {(a, t). slot_label a t n \<noteq> None \<and> \<not> is_external_spool_id a \<and> a \<noteq> 16}"
  proof (rule inj_onI, clarsimp simp: slot_label_def normalize_ams_unit_id_def)
    fix a t a' t' i i'
    assume "resolve_global_tray_id a t = Some i" "resolve_global_tray_id a' t' = Some i'"
      "tray_label i n = tray_label i' n" "\<not> is_external_spool_id a" "\<not> is_external_spool_id a'"
    from key [OF this] show "a = a' \<and> t = t'" .
  qed
qed


definition push_of :: "string \<Rightarrow> string option \<Rightarrow> ams_status_report" where
  "push_of uid tray_now =
     \<lparr>ar_ams = [\<lparr>au_id = uid, au_temp = None, au_humidity = Some ''4'', au_humidity_raw = None, au_dry_time = None,
         au_dry_setting = None, au_tray = Some [default_tray\<lparr>at_id := ''0''\<rparr>], au_info = None, au_dry_sf_reason = None\<rparr>],
      ar_ams_exist_bits = None, ar_tray_exist_bits = None, ar_tray_is_bbl_bits = None, ar_tray_now = tray_now,
      ar_tray_pre = None, ar_tray_tar = None, ar_version = None, ar_tray_read_done_bits = None,
      ar_tray_reading_bits = None, ar_insert_flag = None, ar_power_on_flag = None, ar_cali_id = None,
      ar_cali_stat = None, ar_calibrate_remain_flag = None, ar_cfs = None\<rparr>"



end
