(* ===== verification/SliceInfo.thy ===== *)
theory SliceInfo
  imports Io
begin

text \<open>
  The slicer's \<open>slice_info.config\<close> (\<open>src/ftps/project/slice_info.rs\<close>): the scan of its XML for one plate's
  filaments. The scan is the crate's own: tags and comments are found by hand, attributes are split at
  their quotes, five entities are decoded. The reader of the ZIP member that holds it is in \<open>ZipMember\<close>.
\<close>

abbreviation (input) quot :: char where "quot \<equiv> CHR 0x22"
abbreviation (input) apos :: char where "apos \<equiv> CHR 0x27"
abbreviation (input) FILAMENT_MAP_DEPUTY :: nat where "FILAMENT_MAP_DEPUTY \<equiv> 1"

definition project_violation :: "string \<Rightarrow> error" where
  "project_violation msg = ProtocolViolation msg"

section \<open>What a plate records\<close>

record plate_filament =
  pf_id :: nat
  pf_type :: string
  pf_color :: string
  pf_tray_info_idx :: string

record plate_filaments =
  pl_plate :: nat
  pl_filaments :: "plate_filament list"
  pl_filament_maps :: "nat list option"
  pl_printer_model_id :: "string option"

definition empty_plate :: plate_filaments where
  "empty_plate = \<lparr>pl_plate = 0, pl_filaments = [], pl_filament_maps = None, pl_printer_model_id = None\<rparr>"

definition extruder_of :: "plate_filaments \<Rightarrow> nat \<Rightarrow> nat option" where
  "extruder_of p i =
     (if i = 0 then None
      else case pl_filament_maps p of
        None \<Rightarrow> None
      | Some maps \<Rightarrow> if i - 1 < length maps then Some (maps ! (i - 1)) else None)"

definition is_deputy :: "plate_filaments \<Rightarrow> nat \<Rightarrow> bool" where
  "is_deputy p i = (extruder_of p i = Some FILAMENT_MAP_DEPUTY)"

section \<open>Text\<close>

definition strip_prefix :: "string \<Rightarrow> string \<Rightarrow> string option" where
  "strip_prefix p s = (if take (length p) s = p then Some (drop (length p) s) else None)"

lemma strip_prefix_length: "strip_prefix p s = Some r \<Longrightarrow> length r \<le> length s"
  by (auto simp: strip_prefix_def split: if_splits)

text \<open>\<open>&amp;\<close> and its four companions; an unknown entity is left as it stands.\<close>

definition ENTITIES :: "(string \<times> char) list" where
  "ENTITIES = [(''&amp;'', CHR ''&''), (''&lt;'', CHR ''<''), (''&gt;'', CHR ''>''), (''&quot;'', quot), (''&apos;'', apos)]"

lemma find_in: "find P xs = Some x \<Longrightarrow> x \<in> set xs \<and> P x"
  by (auto simp: find_Some_iff)

lemma entities_nonempty: "(entity, c) \<in> set ENTITIES \<Longrightarrow> entity \<noteq> []"
  by (auto simp: ENTITIES_def)

function unescape :: "string \<Rightarrow> string" where
  "unescape rest =
     (case position (\<lambda>c. c = CHR ''&'') rest of
        None \<Rightarrow> rest
      | Some at_amp \<Rightarrow>
          let tail = drop at_amp rest
          in take at_amp rest @
             (case find (\<lambda>(entity, _). take (length entity) tail = entity) ENTITIES of
                Some (entity, c) \<Rightarrow> c # unescape (drop (length entity) tail)
              | None \<Rightarrow> CHR ''&'' # unescape (drop 1 tail)))"
  by pat_completeness auto
termination
proof (relation "measure length")
  fix rest tail entity :: string and at_amp :: nat and x :: "string \<times> char" and c :: char
  assume p: "position (\<lambda>c. c = CHR ''&'') rest = Some at_amp" "tail = drop at_amp rest"
  then have l: "at_amp < length rest" using position_SomeD by blast
  then show "(drop 1 tail, rest) \<in> measure length" using p by auto
  assume f: "find (\<lambda>(entity, _). take (length entity) tail = entity) ENTITIES = Some x" "(entity, c) = x"
  with find_in [OF f(1)] entities_nonempty [of entity c] have "0 < length entity" by auto
  with l p show "(drop (length entity) tail, rest) \<in> measure length" by (cases entity) auto
qed simp

declare unescape.simps [simp del]

text \<open>The end of a tag: the first \<open>>\<close> outside quotes.\<close>

fun tag_end_from :: "char option \<Rightarrow> nat \<Rightarrow> string \<Rightarrow> nat option" where
  "tag_end_from quote i [] = None"
| "tag_end_from (Some q) i (c # cs) = tag_end_from (if c = q then None else Some q) (Suc i) cs"
| "tag_end_from None i (c # cs) =
     (if c = quot \<or> c = apos then tag_end_from (Some c) (Suc i) cs
      else if c = CHR ''>'' then Some i
      else tag_end_from None (Suc i) cs)"

definition tag_end :: "string \<Rightarrow> nat option" where
  "tag_end s = tag_end_from None 0 s"

section \<open>Attributes\<close>

function attributes_from :: "(string \<times> string) list \<Rightarrow> string \<Rightarrow> error + (string \<times> string) list" where
  "attributes_from pairs s0 =
     (let s = trim_start s0
      in if s = [] then Inr pairs
         else case position (\<lambda>c. c = CHR ''='') s of
           None \<Rightarrow> Inl (project_violation ''XML attribute without a value in slice_info.config'')
         | Some eq \<Rightarrow>
             let name = trim (take eq s); after = trim_start (drop (eq + 1) s)
             in case after of
                  [] \<Rightarrow> Inl (project_violation ''unquoted XML attribute in slice_info.config'')
                | q # body \<Rightarrow>
                    if q \<noteq> quot \<and> q \<noteq> apos
                    then Inl (project_violation ''unquoted XML attribute in slice_info.config'')
                    else case position (\<lambda>c. c = q) body of
                      None \<Rightarrow> Inl (project_violation ''unterminated XML attribute in slice_info.config'')
                    | Some close \<Rightarrow>
                        attributes_from (pairs @ [(name, take close body)]) (drop (close + 1) body))"
  by pat_completeness auto
termination
proof (relation "measure (\<lambda>(_, s). length s)", goal_cases)
  case (2 pairs s0 s eq name after q body close)
  have "length after \<le> length s - (eq + 1)"
    using length_strip_front_le [of white_space "drop (eq + 1) s"] 2(4,5) by (simp add: trim_start_def)
  moreover have "length s \<le> length s0"
    using length_strip_front_le [of white_space s0] 2(1) by (simp add: trim_start_def)
  moreover have "after = q # body" "eq < length s" using 2 position_SomeD [of _ s eq] by auto
  ultimately show ?case by auto
qed simp

declare attributes_from.simps [simp del]

definition attribute :: "(string \<times> string) list \<Rightarrow> string \<Rightarrow> string option" where
  "attribute pairs name =
     (case find (\<lambda>(n, _). n = name) pairs of None \<Rightarrow> None | Some (_, v) \<Rightarrow> Some (unescape v))"

definition or_default :: "string option \<Rightarrow> string" where
  "or_default v = (case v of None \<Rightarrow> [] | Some s \<Rightarrow> s)"

text \<open>\<open>split_ascii_whitespace\<close>\<close>

definition is_ascii_space :: "char \<Rightarrow> bool" where
  "is_ascii_space c = (code c \<in> {9, 10, 12, 13, 32})"

fun parse_maps :: "string list \<Rightarrow> error + nat list" where
  "parse_maps [] = Inr []"
| "parse_maps (n # ns) =
     (case parse_u8 n of
        None \<Rightarrow> Inl (project_violation ''filament_maps holds a value that is not a number'')
      | Some v \<Rightarrow> (case parse_maps ns of Inl e \<Rightarrow> Inl e | Inr vs \<Rightarrow> Inr (v # vs)))"

definition parse_filament_maps :: "string option \<Rightarrow> error + nat list option" where
  "parse_filament_maps attr_value =
     (case attr_value of
        None \<Rightarrow> Inr None
      | Some v \<Rightarrow>
          (case parse_maps (filter (\<lambda>w. w \<noteq> []) (split_on is_ascii_space v)) of
             Inl e \<Rightarrow> Inl e
           | Inr maps \<Rightarrow> Inr (if maps = [] then None else Some maps)))"

section \<open>Tags\<close>

definition metadata_tag :: "string \<Rightarrow> plate_filaments \<Rightarrow> error + plate_filaments" where
  "metadata_tag attrs current =
     (case attributes_from [] attrs of
        Inl e \<Rightarrow> Inl e
      | Inr pairs \<Rightarrow>
          let key = attribute pairs ''key''; v = attribute pairs ''value''
          in if key = Some ''index'' then
               (case Option.bind v (\<lambda>t. parse_u32 (trim t)) of
                  None \<Rightarrow> Inl (project_violation ''plate index is not a number'')
                | Some n \<Rightarrow> Inr (current\<lparr>pl_plate := n\<rparr>))
             else if key = Some ''filament_maps'' then
               (case parse_filament_maps v of
                  Inl e \<Rightarrow> Inl e | Inr maps \<Rightarrow> Inr (current\<lparr>pl_filament_maps := maps\<rparr>))
             else if key = Some ''printer_model_id'' then
               Inr (current\<lparr>pl_printer_model_id :=
                 (case v of None \<Rightarrow> None | Some t \<Rightarrow> if trim t = [] then None else Some (trim t))\<rparr>)
             else Inr current)"

definition filament_tag :: "string \<Rightarrow> plate_filaments \<Rightarrow> error + plate_filaments" where
  "filament_tag attrs current =
     (case attributes_from [] attrs of
        Inl e \<Rightarrow> Inl e
      | Inr pairs \<Rightarrow>
          (case Option.bind (attribute pairs ''id'') (\<lambda>t. parse_u32 (trim t)) of
             None \<Rightarrow> Inl (project_violation ''<filament> without a positive id'')
           | Some i \<Rightarrow>
               if i = 0 then Inl (project_violation ''<filament> without a positive id'')
               else Inr (current\<lparr>pl_filaments := pl_filaments current @
                 [\<lparr>pf_id = i, pf_type = or_default (attribute pairs ''type''),
                   pf_color = or_default (attribute pairs ''color''),
                   pf_tray_info_idx = or_default (attribute pairs ''tray_info_idx'')\<rparr>]\<rparr>)))"

text \<open>What one tag does: \<open>visit\<close> gets a finished plate and may stop the scan.\<close>

type_synonym 's scan_state = "bool \<times> plate_filaments \<times> 's"

datatype 's scan_next = ScanStop 's | ScanOn "'s scan_state"

definition closing_tag ::
  "(plate_filaments \<Rightarrow> 's \<Rightarrow> bool \<times> 's) \<Rightarrow> string \<Rightarrow> 's scan_state \<Rightarrow> 's scan_next" where
  "closing_tag visit name st =
     (case st of (in_plate, current, acc) \<Rightarrow>
        if trim name = ''plate'' \<and> in_plate then
          (case visit current acc of
             (stop, acc') \<Rightarrow> if stop then ScanStop acc' else ScanOn (False, empty_plate, acc'))
        else ScanOn st)"

definition opening_tag :: "string \<Rightarrow> 's scan_state \<Rightarrow> error + 's scan_state" where
  "opening_tag tag0 st =
     (case st of (in_plate, current, acc) \<Rightarrow>
        let tag = (if tag0 \<noteq> [] \<and> last tag0 = CHR ''/'' then butlast tag0 else tag0);
            name_end = (case position is_ascii_space tag of None \<Rightarrow> length tag | Some n \<Rightarrow> n);
            name = take name_end tag; attrs = drop name_end tag
        in if name = ''plate'' then Inr (True, empty_plate, acc)
           else if name = ''metadata'' \<and> in_plate then
             (case metadata_tag attrs current of Inl e \<Rightarrow> Inl e | Inr c \<Rightarrow> Inr (in_plate, c, acc))
           else if name = ''filament'' \<and> in_plate then
             (case filament_tag attrs current of Inl e \<Rightarrow> Inl e | Inr c \<Rightarrow> Inr (in_plate, c, acc))
           else Inr st)"

definition scan_tag ::
  "(plate_filaments \<Rightarrow> 's \<Rightarrow> bool \<times> 's) \<Rightarrow> string \<Rightarrow> 's scan_state \<Rightarrow> error + 's scan_next" where
  "scan_tag visit tag st =
     (if take 1 tag = ''?'' \<or> take 1 tag = ''!'' then Inr (ScanOn st)
      else case strip_prefix ''/'' tag of
        Some name \<Rightarrow> Inr (closing_tag visit name st)
      | None \<Rightarrow> (case opening_tag tag st of Inl e \<Rightarrow> Inl e | Inr st' \<Rightarrow> Inr (ScanOn st')))"


section \<open>The scan\<close>

lemma tag_end_from_bounds: "tag_end_from q i s = Some e \<Longrightarrow> i \<le> e \<and> e < i + length s"
  by (induction q i s rule: tag_end_from.induct) (fastforce split: if_splits)+

lemma scan_shorter:
  "position P doc = Some i \<Longrightarrow> length r \<le> length (drop i doc) \<Longrightarrow> 0 < k \<Longrightarrow> length (drop k r) < length doc"
  by (auto dest!: position_SomeD)

function scan_plates_from ::
  "(plate_filaments \<Rightarrow> 's \<Rightarrow> bool \<times> 's) \<Rightarrow> string \<Rightarrow> 's scan_state \<Rightarrow> error + 's" where
  "scan_plates_from visit text st =
     (case position (\<lambda>c. c = CHR ''<'') text of
        None \<Rightarrow> Inr (snd (snd st))
      | Some open_at \<Rightarrow>
          let rest = drop open_at text
          in case strip_prefix ''<!--'' rest of
               Some after \<Rightarrow>
                 (case find_sub ''-->'' after of
                    None \<Rightarrow> Inl (project_violation ''unterminated XML comment in slice_info.config'')
                  | Some e \<Rightarrow> scan_plates_from visit (drop (e + 3) after) st)
             | None \<Rightarrow>
                 (case tag_end rest of
                    None \<Rightarrow> Inl (project_violation ''unterminated XML tag in slice_info.config'')
                  | Some e \<Rightarrow>
                      (case scan_tag visit (drop 1 (take e rest)) st of
                         Inl err \<Rightarrow> Inl err
                       | Inr (ScanStop acc) \<Rightarrow> Inr acc
                       | Inr (ScanOn st') \<Rightarrow> scan_plates_from visit (drop (e + 1) rest) st')))"
  by pat_completeness auto
termination
proof (relation "measure (\<lambda>(_, text, _). length text)", goal_cases)
  case (2 _ _ _ _ r k)
  from scan_shorter [OF 2(1), of r "k + 1"] 2(2) show ?case by simp
next
  case (3 _ _ _ _ r after k)
  from scan_shorter [OF 3(1), of after "k + 3"] strip_prefix_length [OF 3(3)] 3(2) show ?case by simp
qed simp

declare scan_plates_from.simps [simp del]

definition scan_plates :: "(plate_filaments \<Rightarrow> 's \<Rightarrow> bool \<times> 's) \<Rightarrow> string \<Rightarrow> 's \<Rightarrow> error + 's" where
  "scan_plates visit text acc = scan_plates_from visit text (False, empty_plate, acc)"

text \<open>\<open>{:?}\<close> of a list of numbers.\<close>

fun debug_list :: "nat list \<Rightarrow> string" where
  "debug_list [] = []"
| "debug_list [n] = dec n"
| "debug_list (n # ns) = dec n @ '', '' @ debug_list ns"

definition no_such_plate :: "nat \<Rightarrow> nat list \<Rightarrow> error" where
  "no_such_plate plate plates_seen = InvalidArgument
     (if plates_seen = []
      then ''slice_info.config lists no sliced plate, so the .3mf is an unsliced project: export it sliced (Bambu Studio''
        @ [apos] @ ''s '' @ [quot] @ ''Export plate sliced file'' @ [quot] @ '') to read plate '' @ dec plate
      else ''slice_info.config has no plate '' @ dec plate @ ''; its sliced plates are ['' @ debug_list plates_seen @ '']'')"

definition visit_plate :: "nat \<Rightarrow> plate_filaments \<Rightarrow> plate_filaments option \<times> nat list
    \<Rightarrow> bool \<times> plate_filaments option \<times> nat list" where
  "visit_plate plate current acc =
     (if pl_plate current = plate then (True, Some current, snd acc) else (False, fst acc, snd acc @ [pl_plate current]))"

definition parse_slice_info :: "string \<Rightarrow> nat \<Rightarrow> error + plate_filaments" where
  "parse_slice_info text plate =
     (case scan_plates (visit_plate plate) text (None, []) of
        Inl e \<Rightarrow> Inl e
      | Inr (found, plates_seen) \<Rightarrow>
          (case found of Some p \<Rightarrow> Inr p | None \<Rightarrow> Inl (no_such_plate plate plates_seen)))"

definition visit_model :: "plate_filaments \<Rightarrow> plate_filaments option \<times> bool \<Rightarrow> bool \<times> plate_filaments option \<times> bool" where
  "visit_model current acc =
     (False, case fst acc of
        None \<Rightarrow> (Some current, snd acc)
      | Some first \<Rightarrow> (Some first, snd acc \<or> pl_printer_model_id first \<noteq> pl_printer_model_id current))"

definition parse_sliced_for :: "string \<Rightarrow> error + string option" where
  "parse_sliced_for text =
     (case scan_plates visit_model text (None, False) of
        Inl e \<Rightarrow> Inl e
      | Inr (first, disagreement) \<Rightarrow>
          (case first of
             None \<Rightarrow> Inl (InvalidArgument
               (''slice_info.config lists no sliced plate, so the .3mf is an unsliced project and records no printer_model_id: export it sliced (Bambu Studio''
                @ [apos] @ ''s '' @ [quot] @ ''Export plate sliced file'' @ [quot] @ '')''))
           | Some p \<Rightarrow>
               if disagreement
               then Inl (project_violation
                 (''slice_info.config'' @ [apos] @ ''s plates name different printer_model_id values''))
               else Inr (pl_printer_model_id p)))"

end
