(* ===== verification/AmsAutoMap.thy ===== *)
theory AmsAutoMap
  imports SliceInfo AmsTypes Gcode
begin

text \<open>
  Choosing trays for a plate's filaments (\<open>src/ams/auto_map.rs\<close>): the candidates of each extruder, the distance
  of a filament and a tray, and the greedy rounds that pair them.

  Distances are \<open>f32\<close>. The colour part comes from square roots and cube roots of the \<open>libm\<close> crate, so the
  distance before it is clamped is a parameter \<open>lab\<close> of the definitions; the additions to it are rounded to \<open>f32\<close>
  as the G-code scan rounds.
\<close>

type_synonym colour = "nat \<times> nat \<times> nat \<times> nat"

definition WHITE :: colour where "WHITE = (255, 255, 255, 255)"

abbreviation (input) AMS_LITE_ORDER_BASE :: nat where "AMS_LITE_ORDER_BASE \<equiv> 24"
abbreviation (input) FILAMENT_MAP_MAIN :: nat where "FILAMENT_MAP_MAIN \<equiv> 2"
abbreviation (input) EXTRUDER_MAIN :: nat where "EXTRUDER_MAIN \<equiv> 0"
abbreviation (input) EXTRUDER_DEPUTY :: nat where "EXTRUDER_DEPUTY \<equiv> 1"

section \<open>Filaments and trays\<close>

record wanted =
  w_id :: nat
  w_filament_type :: string
  w_color :: colour
  w_filament_id :: string
  w_setting_id :: string

record candidate =
  c_order :: nat
  c_source :: material_source
  c_filament_type :: string
  c_color :: colour
  c_filament_id :: string
  c_setting_id :: string
  c_remain :: int

definition parse_color :: "string \<Rightarrow> colour" where
  "parse_color s =
     (let hex = dropWhile (\<lambda>c. c = CHR ''#'') (trim s)
      in if (length hex \<noteq> 6 \<and> length hex \<noteq> 8) \<or> \<not> list_all (\<lambda>c. hex_value c \<noteq> None) hex then WHITE
         else case from_hex 4294967296 hex of
           None \<Rightarrow> WHITE
         | Some v \<Rightarrow>
             if length hex = 6 then (case be_bytes v of (_, r, g, b) \<Rightarrow> (r, g, b, 255)) else be_bytes v)"

definition wanted_from_file :: "plate_filament \<Rightarrow> wanted" where
  "wanted_from_file f =
     \<lparr>w_id = pf_id f, w_filament_type = pf_type f, w_color = parse_color (pf_color f),
      w_filament_id = pf_tray_info_idx f, w_setting_id = []\<rparr>"

definition tray_filament_type :: "string \<Rightarrow> string \<Rightarrow> string" where
  "tray_filament_type tray_type tray_info_idx =
     (if tray_type = ''Sup.PLA'' \<or> tray_type = ''Support W'' then ''PLA-S''
      else if tray_type = ''Sup.PA'' \<or> tray_type = ''Support G'' then ''PA-S''
      else if tray_type = ''Sup.ABS'' then ''ABS-S''
      else if tray_type = ''Support'' then (if tray_info_idx = ''GFS01'' then ''PA-S'' else ''PLA-S'')
      else tray_type)"

definition candidate_of :: "nat \<Rightarrow> material_source \<Rightarrow> ams_tray \<Rightarrow> string \<Rightarrow> candidate" where
  "candidate_of order source t material =
     (let info_idx = or_default (at_tray_info_idx t);
          setting_id = (case at_filament_setting_id t of
              None \<Rightarrow> info_idx | Some s \<Rightarrow> if s = [] then info_idx else s)
      in \<lparr>c_order = order, c_source = source, c_filament_type = tray_filament_type material info_idx,
          c_color = (case at_tray_color t of None \<Rightarrow> WHITE | Some s \<Rightarrow> parse_color s),
          c_filament_id = info_idx, c_setting_id = setting_id,
          c_remain = (case at_remain t of None \<Rightarrow> -1 | Some r \<Rightarrow> r)\<rparr>)"

section \<open>Candidates\<close>

definition tray_address :: "nat \<Rightarrow> nat \<Rightarrow> (nat \<times> material_source) option" where
  "tray_address ams_id slot =
     (if is_standard_id ams_id then Some (ams_id * AMS_SLOTS_PER_UNIT + slot, StandardAms ams_id slot)
      else if is_ams_ht_id ams_id then Some (ams_id, AmsHt ams_id)
      else if is_ams_lite_on_a2l_id ams_id then Some (AMS_LITE_ORDER_BASE + slot, AmsLite slot)
      else None)"

definition bus_candidate :: "nat \<Rightarrow> ams_tray \<Rightarrow> candidate option" where
  "bus_candidate ams_id t =
     (case tray_slot t of
        None \<Rightarrow> None
      | Some slot \<Rightarrow>
          if \<not> is_unit_slot ams_id slot \<or> \<not> is_loaded t ams_id then None
          else case tray_material t of
            None \<Rightarrow> None
          | Some material \<Rightarrow>
              map_option (\<lambda>(order, source). candidate_of order source t material) (tray_address ams_id slot))"

definition unit_candidates :: "(ams_unit \<Rightarrow> bool) \<Rightarrow> ams_unit \<Rightarrow> candidate list" where
  "unit_candidates accept u =
     (case unit_ams_id u of
        None \<Rightarrow> []
      | Some ams_id \<Rightarrow>
          if \<not> is_bus_unit_id ams_id \<or> \<not> accept u then []
          else List.map_filter (bus_candidate ams_id) (case au_tray u of None \<Rightarrow> [] | Some ts \<Rightarrow> ts))"

definition bus_candidates :: "ams_status_report \<Rightarrow> (ams_unit \<Rightarrow> bool) \<Rightarrow> candidate list" where
  "bus_candidates report accept = concat (map (unit_candidates accept) (ar_ams report))"

definition single_nozzle_candidates :: "ams_status_report option \<Rightarrow> candidate list" where
  "single_nozzle_candidates ams =
     sort_key c_order (case ams of None \<Rightarrow> [] | Some report \<Rightarrow> bus_candidates report (\<lambda>_. True))"

definition unit_extruders :: "ams_unit \<Rightarrow> nat list" where
  "unit_extruders u =
     (if has_unfixed_extruder u
      then (if unit_filament_switch_inlet u \<noteq> None then [EXTRUDER_MAIN, EXTRUDER_DEPUTY] else [])
      else [case extruder_assignment u of None \<Rightarrow> EXTRUDER_MAIN | Some e \<Rightarrow> e])"

definition spool_candidate :: "nat \<Rightarrow> ams_tray \<Rightarrow> candidate option" where
  "spool_candidate extruder t =
     (let wanted_id = (if extruder = EXTRUDER_DEPUTY then AMS_EXTERNAL_SPOOL_DEPUTY_ID else AMS_EXTERNAL_SPOOL_MAIN_ID)
      in if parse_u8 (trim (at_id t)) \<noteq> Some wanted_id then None
         else map_option
           (candidate_of wanted_id (if extruder = EXTRUDER_DEPUTY then ExternalSpoolLeft else ExternalSpoolRight) t)
           (tray_material t))"

definition extruder_candidates :: "ams_status_report option \<Rightarrow> ams_tray list \<Rightarrow> nat \<Rightarrow> candidate list" where
  "extruder_candidates ams external_spools extruder =
     (let reaches = (\<lambda>u. extruder \<in> set (unit_extruders u));
          has_ams = (case ams of None \<Rightarrow> False | Some report \<Rightarrow> list_ex reaches (ar_ams report));
          bus = (case ams of None \<Rightarrow> [] | Some report \<Rightarrow> bus_candidates report reaches)
      in sort_key c_order
           (bus @ (if has_ams then [] else List.map_filter (spool_candidate extruder) external_spools)))"

section \<open>Distances\<close>

definition f32_plus :: "rat \<Rightarrow> rat \<Rightarrow> rat" where
  "f32_plus a b = (case f32_of_rat (a + b) of Some v \<Rightarrow> v | None \<Rightarrow> a + b)"

definition REUSE_DISTANCE :: rat where
  "REUSE_DISTANCE = (case f32_of_rat (1 / 10000) of Some v \<Rightarrow> v | None \<Rightarrow> 1 / 10000)"

definition color_distance :: "(colour \<Rightarrow> colour \<Rightarrow> rat) \<Rightarrow> colour \<Rightarrow> colour \<Rightarrow> rat" where
  "color_distance lab a b = max 0 (min 1000 (lab a b))"

definition same_class :: "string \<Rightarrow> string \<Rightarrow> bool" where
  "same_class filament_id tray_id = (filament_id \<noteq> [] \<and> filament_id = tray_id)"

definition pair_distance :: "(colour \<Rightarrow> colour \<Rightarrow> rat) \<Rightarrow> wanted \<Rightarrow> candidate \<Rightarrow> rat option" where
  "pair_distance lab w t =
     (if w_filament_type w \<noteq> c_filament_type t then None
      else
        let d = color_distance lab (w_color w) (c_color t);
            sub_class = (w_setting_id w \<noteq> [] \<and> w_setting_id w = c_setting_id t)
        in Some (if sub_class then d
                 else f32_plus d (if same_class (w_filament_id w) (c_filament_id t) then 10000 else 20000)))"

definition prefer_by_remain :: "wanted \<Rightarrow> candidate \<Rightarrow> candidate \<Rightarrow> bool" where
  "prefer_by_remain w cand picked =
     (if \<not> same_class (w_filament_id w) (c_filament_id cand) \<or> c_remain cand \<le> 0 then False
      else c_remain picked \<le> 0 \<or> c_remain cand < c_remain picked)"

section \<open>The greedy rounds\<close>

type_synonym pick = "nat \<times> nat \<times> rat"

definition better :: "wanted list \<Rightarrow> candidate list \<Rightarrow> pick option \<Rightarrow> pick \<Rightarrow> bool" where
  "better ws ts best new =
     (case (best, new) of
        (None, _) \<Rightarrow> True
      | (Some (bi, bj, bd), (i, j, d)) \<Rightarrow>
          d < bd \<or> d = bd \<and>
            (\<not> same_class (w_filament_id (ws ! bi)) (c_filament_id (ts ! bj))
              \<and> same_class (w_filament_id (ws ! i)) (c_filament_id (ts ! j))
             \<or> prefer_by_remain (ws ! i) (ts ! j) (ts ! bj)))"

text \<open>A pair is eligible when its material matches and its tray may be taken.\<close>

definition eligible :: "(colour \<Rightarrow> colour \<Rightarrow> rat) \<Rightarrow> wanted list \<Rightarrow> candidate list \<Rightarrow> bool list \<Rightarrow> bool
    \<Rightarrow> nat \<times> nat \<Rightarrow> pick option" where
  "eligible lab ws ts tray_used allow_used ij =
     (case ij of (i, j) \<Rightarrow>
        (case pair_distance lab (ws ! i) (ts ! j) of
           None \<Rightarrow> None
         | Some d \<Rightarrow> if tray_used ! j \<and> \<not> allow_used \<and> d \<ge> REUSE_DISTANCE then None else Some (i, j, d)))"

definition consider_pair :: "(colour \<Rightarrow> colour \<Rightarrow> rat) \<Rightarrow> wanted list \<Rightarrow> candidate list \<Rightarrow> bool list \<Rightarrow> bool
    \<Rightarrow> nat \<times> nat \<Rightarrow> pick option \<Rightarrow> pick option" where
  "consider_pair lab ws ts tray_used allow_used ij best =
     (case eligible lab ws ts tray_used allow_used ij of
        None \<Rightarrow> best
      | Some new \<Rightarrow> if better ws ts best new then Some new else best)"

definition open_pairs :: "wanted list \<Rightarrow> candidate list \<Rightarrow> (nat \<times> rat) option list \<Rightarrow> (nat \<times> nat) list" where
  "open_pairs ws ts result =
     concat (map (\<lambda>i. map (Pair i) [0..<length ts]) (filter (\<lambda>i. result ! i = None) [0..<length ws]))"

definition best_pair :: "(colour \<Rightarrow> colour \<Rightarrow> rat) \<Rightarrow> wanted list \<Rightarrow> candidate list
    \<Rightarrow> (nat \<times> rat) option list \<Rightarrow> bool list \<Rightarrow> bool \<Rightarrow> pick option" where
  "best_pair lab ws ts result tray_used allow_used =
     fold (consider_pair lab ws ts tray_used allow_used) (open_pairs ws ts result) None"

fun match_rounds :: "(colour \<Rightarrow> colour \<Rightarrow> rat) \<Rightarrow> wanted list \<Rightarrow> candidate list \<Rightarrow> nat
    \<Rightarrow> (nat \<times> rat) option list \<Rightarrow> bool list \<Rightarrow> (nat \<times> rat) option list" where
  "match_rounds lab ws ts 0 result tray_used = result"
| "match_rounds lab ws ts (Suc n) result tray_used =
     (case (case best_pair lab ws ts result tray_used False of
              Some p \<Rightarrow> Some p | None \<Rightarrow> best_pair lab ws ts result tray_used True) of
        None \<Rightarrow> result
      | Some (i, j, d) \<Rightarrow> match_rounds lab ws ts n (result[i := Some (j, d)]) (tray_used[j := True]))"

definition match_group :: "(colour \<Rightarrow> colour \<Rightarrow> rat) \<Rightarrow> wanted list \<Rightarrow> candidate list \<Rightarrow> (nat \<times> rat) option list" where
  "match_group lab ws ts =
     match_rounds lab ws ts (length ws) (replicate (length ws) None) (replicate (length ts) False)"

section \<open>The mapping\<close>

record filament_match =
  fm_filament_id :: nat
  fm_source :: "material_source option"
  fm_distance :: "rat option"

record ams_mapping_result =
  mr_mapping2 :: "ams_mapping2_entry list"
  mr_matches :: "filament_match list"

definition unmatched :: "ams_mapping_result \<Rightarrow> filament_match list" where
  "unmatched r = filter (\<lambda>m. fm_source m = None) (mr_matches r)"

definition is_complete :: "ams_mapping_result \<Rightarrow> bool" where
  "is_complete r = (unmatched r = [])"

definition valid_wanted :: "wanted \<Rightarrow> bool" where
  "valid_wanted w = (1 \<le> w_id w \<and> w_id w \<le> AMS_MAX_PROJECT_FILAMENTS)"

definition run_side :: "(colour \<Rightarrow> colour \<Rightarrow> rat) \<Rightarrow> wanted list \<Rightarrow> nat list \<Rightarrow> candidate list
    \<Rightarrow> (material_source \<times> rat) option list \<Rightarrow> (material_source \<times> rat) option list" where
  "run_side lab wanted side cands picks =
     fold (\<lambda>(i, pick) ps. ps[i := map_option (\<lambda>(tray, d). (c_source (cands ! tray), d)) pick])
       (zip side (match_group lab (map ((!) wanted) side) cands)) picks"

definition derive_ams_mapping :: "(colour \<Rightarrow> colour \<Rightarrow> rat) \<Rightarrow> plate_filaments \<Rightarrow> ams_status_report option
    \<Rightarrow> ams_tray list \<Rightarrow> bool \<Rightarrow> ams_mapping_result" where
  "derive_ams_mapping lab filaments ams external_spools dual_nozzle =
     (let wanted = map wanted_from_file (pl_filaments filaments);
          usable = filter (\<lambda>i. valid_wanted (wanted ! i)) [0..<length wanted];
          picks0 = replicate (length wanted) None;
          side = (\<lambda>map_value. filter (\<lambda>i. extruder_of filaments (w_id (wanted ! i)) = Some map_value) usable);
          picks =
            (if dual_nozzle
             then run_side lab wanted (side FILAMENT_MAP_MAIN) (extruder_candidates ams external_spools EXTRUDER_MAIN)
                    (run_side lab wanted (side FILAMENT_MAP_DEPUTY)
                      (extruder_candidates ams external_spools EXTRUDER_DEPUTY) picks0)
             else run_side lab wanted usable (single_nozzle_candidates ams) picks0);
          allocations = map (\<lambda>(w, pick). (w_id w, case pick of None \<Rightarrow> Unmapped | Some (source, _) \<Rightarrow> source))
            (filter (\<lambda>(w, _). valid_wanted w) (zip wanted picks))
      in \<lparr>mr_mapping2 = build_ams_mapping2 allocations,
          mr_matches = map (\<lambda>(w, pick). \<lparr>fm_filament_id = w_id w, fm_source = map_option fst pick,
            fm_distance = map_option snd pick\<rparr>) (zip wanted picks)\<rparr>)"

end
