(* ===== verification/AmsAutoMapProps.thy ===== *)
theory AmsAutoMapProps
  imports AmsAutoMap
begin

text \<open>
  What the automatic mapping chooses: only trays of the right material, a tray for every filament that has
  one, no tray shared while a matching one is idle, and no filament left with a worse tray than an idle one.
\<close>

section \<open>One round\<close>

lemma best_of_pairs:
  assumes "fold (consider_pair lab ws ts used allow) ps None = r"
  shows "(r = None \<longleftrightarrow> (\<forall>ij \<in> set ps. eligible lab ws ts used allow ij = None))
    \<and> (\<forall>i j d. r = Some (i, j, d) \<longrightarrow> (\<exists>ij \<in> set ps. eligible lab ws ts used allow ij = Some (i, j, d))
        \<and> (\<forall>ij \<in> set ps. \<forall>i' j' d'. eligible lab ws ts used allow ij = Some (i', j', d') \<longrightarrow> d \<le> d'))"
  using assms
proof (induction ps arbitrary: r rule: rev_induct)
  case (snoc ij ps)
  define b where "b = fold (consider_pair lab ws ts used allow) ps None"
  note ih = snoc.IH [OF b_def [symmetric]]
  have r: "r = (case eligible lab ws ts used allow ij of None \<Rightarrow> b | Some new \<Rightarrow> if better ws ts b new then Some new else b)"
    unfolding b_def snoc.prems [symmetric] by (simp add: consider_pair_def [of lab ws ts used allow ij])
  show ?case
  proof (cases "eligible lab ws ts used allow ij")
    case None
    with r ih show ?thesis by simp
  next
    case (Some new)
    obtain i j d where new: "new = (i, j, d)" by (metis prod_cases3)
    show ?thesis
    proof (cases b)
      case None
      with r Some new ih show ?thesis by (auto simp: better_def)
    next
      case b: (Some p)
      obtain bi bj bd where p: "p = (bi, bj, bd)" by (metis prod_cases3)
      from ih b p have bd: "\<exists>ij \<in> set ps. eligible lab ws ts used allow ij = Some (bi, bj, bd)"
        "\<And>ij i' j' d'. ij \<in> set ps \<Longrightarrow> eligible lab ws ts used allow ij = Some (i', j', d') \<Longrightarrow> bd \<le> d'"
        by simp_all
      show ?thesis
      proof (cases "better ws ts b new")
        case True
        with b p new have "d \<le> bd" by (auto simp: better_def)
        with True r Some new bd show ?thesis by (auto dest!: bd(2))
      next
        case False
        with b p new have "bd \<le> d" by (auto simp: better_def)
        with False r Some new bd b p show ?thesis by (auto dest: bd(2))
      qed
    qed
  qed
qed simp

lemma set_open_pairs: "set (open_pairs ws ts result) = {(i, j). i < length ws \<and> result ! i = None \<and> j < length ts}"
  by (auto simp: open_pairs_def)

lemma eligible_Some:
  "eligible lab ws ts used allow (i, j) = Some p \<longleftrightarrow>
     (\<exists>d. pair_distance lab (ws ! i) (ts ! j) = Some d \<and> p = (i, j, d) \<and> (used ! j \<longrightarrow> allow \<or> d < REUSE_DISTANCE))"
  by (auto simp: eligible_def not_le split: option.splits)

lemma best_pair_Some:
  assumes "best_pair lab ws ts result used allow = Some (i, j, d)"
  shows "i < length ws" "result ! i = None" "j < length ts" "pair_distance lab (ws ! i) (ts ! j) = Some d"
    "used ! j \<Longrightarrow> allow \<or> d < REUSE_DISTANCE"
    "i' < length ws \<Longrightarrow> result ! i' = None \<Longrightarrow> k < length ts \<Longrightarrow> pair_distance lab (ws ! i') (ts ! k) = Some e \<Longrightarrow>
       \<not> used ! k \<Longrightarrow> d \<le> e"
proof -
  note b = best_of_pairs [OF assms [unfolded best_pair_def], unfolded set_open_pairs]
  then obtain ij where "ij \<in> {(i, j). i < length ws \<and> result ! i = None \<and> j < length ts}"
    "eligible lab ws ts used allow ij = Some (i, j, d)"
    by auto
  then show "i < length ws" "result ! i = None" "j < length ts" "pair_distance lab (ws ! i) (ts ! j) = Some d"
    "used ! j \<Longrightarrow> allow \<or> d < REUSE_DISTANCE"
    by (auto simp: eligible_Some)
  show "i' < length ws \<Longrightarrow> result ! i' = None \<Longrightarrow> k < length ts \<Longrightarrow> pair_distance lab (ws ! i') (ts ! k) = Some e \<Longrightarrow>
       \<not> used ! k \<Longrightarrow> d \<le> e"
    using b by (auto simp: eligible_Some)
qed

lemma best_pair_None:
  assumes "best_pair lab ws ts result used allow = None" "i < length ws" "result ! i = None" "j < length ts"
    "pair_distance lab (ws ! i) (ts ! j) = Some d"
  shows "used ! j \<and> \<not> allow"
proof -
  from best_of_pairs [OF assms(1) [unfolded best_pair_def], unfolded set_open_pairs] assms(2-4)
  have "eligible lab ws ts used allow (i, j) = None" by auto
  with assms(5) show ?thesis by (auto simp: eligible_def split: if_splits)
qed

section \<open>All rounds\<close>

definition idle :: "(nat \<times> rat) option list \<Rightarrow> nat \<Rightarrow> bool" where
  "idle result k \<longleftrightarrow> (\<forall>i < length result. \<forall>d. result ! i \<noteq> Some (k, d))"

definition matching :: "(colour \<Rightarrow> colour \<Rightarrow> rat) \<Rightarrow> wanted list \<Rightarrow> candidate list \<Rightarrow> (nat \<times> rat) option list \<Rightarrow> bool" where
  "matching lab ws ts result \<longleftrightarrow> length result = length ws
     \<and> (\<forall>i < length ws. \<forall>j d. result ! i = Some (j, d) \<longrightarrow>
          j < length ts \<and> pair_distance lab (ws ! i) (ts ! j) = Some d
          \<and> (\<forall>k < length ts. \<forall>e. idle result k \<longrightarrow> pair_distance lab (ws ! i) (ts ! k) = Some e \<longrightarrow> d \<le> e))
     \<and> (\<forall>i < length ws. \<forall>i' < length ws. \<forall>j d d'. i \<noteq> i' \<longrightarrow> result ! i = Some (j, d) \<longrightarrow> result ! i' = Some (j, d') \<longrightarrow>
          REUSE_DISTANCE \<le> d \<longrightarrow> REUSE_DISTANCE \<le> d' \<longrightarrow>
          (\<exists>x \<in> {i, i'}. \<forall>k < length ts. pair_distance lab (ws ! x) (ts ! k) \<noteq> None \<longrightarrow> \<not> idle result k))"

definition tracks :: "bool list \<Rightarrow> candidate list \<Rightarrow> (nat \<times> rat) option list \<Rightarrow> bool" where
  "tracks used ts result \<longleftrightarrow> length used = length ts \<and> (\<forall>k < length ts. used ! k \<longleftrightarrow> \<not> idle result k)"

lemma idle_update:
  "i < length result \<Longrightarrow> result ! i = None \<Longrightarrow> idle (result[i := Some (j, d)]) k \<longleftrightarrow> idle result k \<and> k \<noteq> j"
  by (auto simp: idle_def nth_list_update split: if_splits)

lemma tracks_update:
  "tracks used ts result \<Longrightarrow> i < length result \<Longrightarrow> result ! i = None \<Longrightarrow> j < length ts \<Longrightarrow>
     tracks (used[j := True]) ts (result[i := Some (j, d)])"
  by (auto simp: tracks_def idle_update nth_list_update)

definition round_pick :: "(colour \<Rightarrow> colour \<Rightarrow> rat) \<Rightarrow> wanted list \<Rightarrow> candidate list
    \<Rightarrow> (nat \<times> rat) option list \<Rightarrow> bool list \<Rightarrow> pick option" where
  "round_pick lab ws ts result used =
     (case best_pair lab ws ts result used False of Some p \<Rightarrow> Some p | None \<Rightarrow> best_pair lab ws ts result used True)"

lemma round_pick_Some:
  assumes "round_pick lab ws ts result used = Some (i, j, d)"
  shows "i < length ws" "result ! i = None" "j < length ts" "pair_distance lab (ws ! i) (ts ! j) = Some d"
    "k < length ts \<Longrightarrow> \<not> used ! k \<Longrightarrow> pair_distance lab (ws ! i) (ts ! k) = Some e \<Longrightarrow> d \<le> e"
    "used ! j \<Longrightarrow> REUSE_DISTANCE \<le> d \<Longrightarrow> k < length ts \<Longrightarrow> pair_distance lab (ws ! i) (ts ! k) \<noteq> None \<Longrightarrow> used ! k"
proof -
  obtain allow where b: "best_pair lab ws ts result used allow = Some (i, j, d)"
    and first: "allow \<longrightarrow> best_pair lab ws ts result used False = None"
    using assms by (auto simp: round_pick_def split: option.splits)
  note p = best_pair_Some [OF b]
  show "i < length ws" "result ! i = None" "j < length ts" "pair_distance lab (ws ! i) (ts ! j) = Some d"
    using p by simp_all
  show "k < length ts \<Longrightarrow> \<not> used ! k \<Longrightarrow> pair_distance lab (ws ! i) (ts ! k) = Some e \<Longrightarrow> d \<le> e"
    using p(6) [of i k e] p(1,2) by simp
  show "used ! j \<Longrightarrow> REUSE_DISTANCE \<le> d \<Longrightarrow> k < length ts \<Longrightarrow> pair_distance lab (ws ! i) (ts ! k) \<noteq> None \<Longrightarrow> used ! k"
    using p(1,2,5) first best_pair_None [of lab ws ts result used False i k] by (auto simp: not_le [symmetric])
qed

lemma round_pick_None:
  "round_pick lab ws ts result used = None \<Longrightarrow> i < length ws \<Longrightarrow> result ! i = None \<Longrightarrow> j < length ts \<Longrightarrow>
     pair_distance lab (ws ! i) (ts ! j) = None"
  using best_pair_None [of lab ws ts result used True i j]
  by (cases "pair_distance lab (ws ! i) (ts ! j)") (auto simp: round_pick_def split: option.splits)

lemma matching_step:
  assumes m: "matching lab ws ts result" and t: "tracks used ts result"
    and p: "round_pick lab ws ts result used = Some (i, j, d)"
  shows "matching lab ws ts (result[i := Some (j, d)])"
proof -
  note rp = round_pick_Some [OF p]
  have len: "length result = length ws" using m by (simp add: matching_def)
  have used: "used ! k \<longleftrightarrow> \<not> idle result k" if "k < length ts" for k using t that by (simp add: tracks_def)
  note upd = idle_update [of i result j d, unfolded len, OF rp(1,2)]
  let ?r = "result[i := Some (j, d)]"
  have nth: "?r ! x = (if x = i then Some (j, d) else result ! x)" for x
    using rp(1) len by (simp add: nth_list_update)
  have sound: "j' < length ts \<and> pair_distance lab (ws ! x) (ts ! j') = Some d'
      \<and> (\<forall>k < length ts. \<forall>e. idle ?r k \<longrightarrow> pair_distance lab (ws ! x) (ts ! k) = Some e \<longrightarrow> d' \<le> e)"
    if "x < length ws" "?r ! x = Some (j', d')" for x j' d'
  proof (cases "x = i")
    case True
    with that rp used upd show ?thesis by (auto simp: nth)
  next
    case False
    with that m upd show ?thesis by (auto simp: nth matching_def)
  qed
  have share: "\<exists>z \<in> {x, y}. \<forall>k < length ts. pair_distance lab (ws ! z) (ts ! k) \<noteq> None \<longrightarrow> \<not> idle ?r k"
    if xy: "x < length ws" "y < length ws" "x \<noteq> y" "?r ! x = Some (j', dx)" "?r ! y = Some (j', dy)"
      "REUSE_DISTANCE \<le> dx" "REUSE_DISTANCE \<le> dy" for x y j' dx dy
  proof -
    consider "x = i" | "y = i" | "x \<noteq> i" "y \<noteq> i" by blast
    then show ?thesis
    proof cases
      case 1
      with xy have "\<not> idle result j" "dx = d" by (auto simp: nth idle_def len)
      with rp(3,6) used upd xy(6) 1 show ?thesis by (metis insertI1)
    next
      case 2
      with xy have "\<not> idle result j" "dy = d" by (auto simp: nth idle_def len)
      with rp(3,6) used upd xy(7) 2 show ?thesis by (metis insert_iff)
    next
      case 3
      with xy m upd show ?thesis unfolding matching_def nth by (smt (verit) 3 nth xy)
    qed
  qed
  show ?thesis unfolding matching_def using sound share len by simp
qed

lemma match_rounds_Suc:
  "match_rounds lab ws ts (Suc n) result used =
     (case round_pick lab ws ts result used of
        None \<Rightarrow> result
      | Some (i, j, d) \<Rightarrow> match_rounds lab ws ts n (result[i := Some (j, d)]) (used[j := True]))"
  by (simp add: round_pick_def)

declare match_rounds.simps(2) [simp del]

lemma match_rounds_matching:
  "matching lab ws ts result \<Longrightarrow> tracks used ts result \<Longrightarrow> length (filter (\<lambda>i. result ! i = None) [0..<length ws]) \<le> n \<Longrightarrow>
     matching lab ws ts (match_rounds lab ws ts n result used)
     \<and> (\<forall>i < length ws. match_rounds lab ws ts n result used ! i = None \<longrightarrow>
          (\<forall>j < length ts. pair_distance lab (ws ! i) (ts ! j) = None))"
proof (induction n arbitrary: result used)
  case 0
  then have "result ! i \<noteq> None" if "i < length ws" for i using that by (auto simp: filter_empty_conv)
  with 0 show ?case by (metis match_rounds.simps(1))
next
  case (Suc n)
  show ?case
  proof (cases "round_pick lab ws ts result used")
    case None
    with round_pick_None [OF None] Suc.prems(1) show ?thesis by (simp add: match_rounds_Suc)
  next
    case (Some p)
    obtain i j d where p: "p = (i, j, d)" by (metis prod_cases3)
    note rp = round_pick_Some [OF Some [unfolded p]]
    have len: "length result = length ws" using Suc.prems(1) by (simp add: matching_def)
    have "length (filter (\<lambda>x. (result[i := Some (j, d)]) ! x = None) [0..<length ws])
        < length (filter (\<lambda>x. result ! x = None) [0..<length ws])"
    proof -
      have eq: "filter (\<lambda>x. (result[i := Some (j, d)]) ! x = None) [0..<length ws]
          = filter (\<lambda>x. x \<noteq> i) (filter (\<lambda>x. result ! x = None) [0..<length ws])"
        using rp(1) len by (simp, intro filter_cong) (auto simp: nth_list_update)
      have "i \<in> set (filter (\<lambda>x. result ! x = None) [0..<length ws])" using rp(1,2) by simp
      from length_filter_less [OF this, of "\<lambda>x. x \<noteq> i"] show ?thesis
        unfolding eq by simp
    qed
    with Suc.prems(3) have "length (filter (\<lambda>x. (result[i := Some (j, d)]) ! x = None) [0..<length ws]) \<le> n" by simp
    from Suc.IH [OF matching_step [OF Suc.prems(1,2) Some [unfolded p]] tracks_update [OF Suc.prems(2)] this] rp len
    show ?thesis using Some p by (simp add: match_rounds_Suc)
  qed
qed

lemma match_group_matching:
  "matching lab ws ts (match_group lab ws ts)
   \<and> (\<forall>i < length ws. match_group lab ws ts ! i = None \<longrightarrow> (\<forall>j < length ts. pair_distance lab (ws ! i) (ts ! j) = None))"
  unfolding match_group_def
proof (rule match_rounds_matching)
  show "matching lab ws ts (replicate (length ws) None)" by (simp add: matching_def)
  show "tracks (replicate (length ts) False) ts (replicate (length ws) None)"
    by (simp add: tracks_def idle_def)
  show "length (filter (\<lambda>i. replicate (length ws) None ! i = (None :: (nat \<times> rat) option)) [0..<length ws]) \<le> length ws"
    using length_filter_le [of _ "[0..<length ws]"] by (metis diff_zero length_upt)
qed

section \<open>The mapping of a plate\<close>

lemma pair_distance_None: "pair_distance lab w t = None \<longleftrightarrow> w_filament_type w \<noteq> c_filament_type t"
  by (simp add: pair_distance_def Let_def)

lemma fold_updates_nth:
  "distinct (map fst xs) \<Longrightarrow> \<forall>(i, _) \<in> set xs. i < length ps \<Longrightarrow>
     length (fold (\<lambda>(i, p) ps. ps[i := h p]) xs ps) = length ps
     \<and> fold (\<lambda>(i, p) ps. ps[i := h p]) xs ps ! i = (case map_of xs i of None \<Rightarrow> ps ! i | Some p \<Rightarrow> h p)"
proof (induction xs arbitrary: ps)
  case (Cons x xs)
  obtain j p where x: "x = (j, p)" by (cases x)
  from Cons.prems have "map_of xs j = None" by (simp add: x map_of_eq_None_iff)
  with Cons.IH [of "ps[j := h p]"] Cons.prems show ?case
    by (auto simp: x nth_list_update split: option.splits)
qed simp

definition side_pick :: "wanted \<Rightarrow> candidate list \<Rightarrow> (material_source \<times> rat) option \<Rightarrow> bool" where
  "side_pick w cands pick \<longleftrightarrow>
     (case pick of
        None \<Rightarrow> \<forall>c \<in> set cands. c_filament_type c \<noteq> w_filament_type w
      | Some (source, _) \<Rightarrow> \<exists>c \<in> set cands. c_source c = source \<and> c_filament_type c = w_filament_type w)"

lemma run_side_nth:
  assumes "distinct side" "\<forall>i \<in> set side. i < length picks"
  shows "length (run_side lab wanted side cands picks) = length picks"
    and "i \<notin> set side \<Longrightarrow> run_side lab wanted side cands picks ! i = picks ! i"
    and "i \<in> set side \<Longrightarrow> side_pick (wanted ! i) cands (run_side lab wanted side cands picks ! i)"
proof -
  let ?ws = "map ((!) wanted) side"
  define g where "g = match_group lab ?ws cands"
  have m: "matching lab ?ws cands g" "\<And>i. i < length ?ws \<Longrightarrow> g ! i = None \<Longrightarrow>
      \<forall>j < length cands. pair_distance lab (?ws ! i) (cands ! j) = None"
    using match_group_matching [of lab ?ws cands] unfolding g_def by auto
  then have len: "length g = length side" by (simp add: matching_def)
  have nth: "length (run_side lab wanted side cands picks) = length picks
      \<and> run_side lab wanted side cands picks ! i = (case map_of (zip side g) i of None \<Rightarrow> picks ! i
           | Some p \<Rightarrow> map_option (\<lambda>(tray, d). (c_source (cands ! tray), d)) p)" for i
    unfolding run_side_def g_def [symmetric]
    by (rule fold_updates_nth) (use assms len in \<open>auto dest: set_zip_leftD\<close>)
  then show "length (run_side lab wanted side cands picks) = length picks" by simp
  show "run_side lab wanted side cands picks ! i = picks ! i" if "i \<notin> set side"
  proof -
    from that have "map_of (zip side g) i = None" by (auto simp: map_of_eq_None_iff dest: set_zip_leftD)
    with nth show ?thesis by simp
  qed
  show "side_pick (wanted ! i) cands (run_side lab wanted side cands picks ! i)" if "i \<in> set side"
  proof -
    from that obtain n where n: "n < length side" "side ! n = i" by (auto simp: in_set_conv_nth)
    then have "map_of (zip side g) i = Some (g ! n)"
      using map_of_zip_nth [of side g n] len assms(1) by simp
    with nth have r: "run_side lab wanted side cands picks ! i
        = map_option (\<lambda>(tray, d). (c_source (cands ! tray), d)) (g ! n)" by simp
    show ?thesis
    proof (cases "g ! n")
      case None
      with m(2) [of n] n have "\<forall>j < length cands. c_filament_type (cands ! j) \<noteq> w_filament_type (wanted ! i)"
        by (auto simp: pair_distance_None)
      with r None show ?thesis by (auto simp: side_pick_def in_set_conv_nth)
    next
      case (Some p)
      obtain j d where p: "p = (j, d)" by (cases p)
      from m(1) n Some p have "j < length cands" "pair_distance lab (wanted ! i) (cands ! j) = Some d"
        by (auto simp: matching_def)
      then have "cands ! j \<in> set cands" "c_filament_type (cands ! j) = w_filament_type (wanted ! i)"
        using pair_distance_None [of lab "wanted ! i" "cands ! j"] by auto
      with r Some p show ?thesis by (auto simp: side_pick_def)
    qed
  qed
qed

text \<open>The trays a filament may be given: those that reach the nozzle the plate prints it with.\<close>

definition reachable_trays :: "plate_filaments \<Rightarrow> ams_status_report option \<Rightarrow> ams_tray list \<Rightarrow> bool \<Rightarrow> nat \<Rightarrow> candidate list" where
  "reachable_trays filaments ams spools dual filament =
     (if \<not> dual then single_nozzle_candidates ams
      else if extruder_of filaments filament = Some FILAMENT_MAP_MAIN then extruder_candidates ams spools EXTRUDER_MAIN
      else if extruder_of filaments filament = Some FILAMENT_MAP_DEPUTY then extruder_candidates ams spools EXTRUDER_DEPUTY
      else [])"

definition filament_served :: "plate_filaments \<Rightarrow> ams_status_report option \<Rightarrow> ams_tray list \<Rightarrow> bool
    \<Rightarrow> plate_filament \<Rightarrow> filament_match \<Rightarrow> bool" where
  "filament_served filaments ams spools dual f m \<longleftrightarrow>
     (let trays = filter (\<lambda>c. c_filament_type c = pf_type f) (reachable_trays filaments ams spools dual (pf_id f))
      in fm_filament_id m = pf_id f
         \<and> (case fm_source m of
              None \<Rightarrow> \<not> (1 \<le> pf_id f \<and> pf_id f \<le> AMS_MAX_PROJECT_FILAMENTS) \<or> trays = []
            | Some source \<Rightarrow> 1 \<le> pf_id f \<and> pf_id f \<le> AMS_MAX_PROJECT_FILAMENTS \<and> source \<in> c_source ` set trays))"


text \<open>C17. The greedy rounds give an acceptable matching: every pick is a tray of the filament's material, with
  its distance, and no idle tray is nearer; a filament is left out only when no tray has its material; and two
  filaments share a tray that suits neither exactly only when one of them has no idle tray of its material.\<close>

theorem greedy_matching:
  "matching lab ws ts (match_group lab ws ts)
   \<and> list_all2 (\<lambda>w pick. pick = None \<longleftrightarrow> list_all (\<lambda>t. c_filament_type t \<noteq> w_filament_type w) ts)
       ws (match_group lab ws ts)"
proof -
  note m = match_group_matching [of lab ws ts]
  then have len: "length (match_group lab ws ts) = length ws" by (simp add: matching_def)
  have "match_group lab ws ts ! i = None \<longleftrightarrow> (\<forall>j < length ts. pair_distance lab (ws ! i) (ts ! j) = None)"
    if i: "i < length ws" for i
  proof (cases "match_group lab ws ts ! i")
    case None
    with m i show ?thesis by simp
  next
    case (Some p)
    then obtain j d where "match_group lab ws ts ! i = Some (j, d)" by (cases p) simp
    moreover from this m i have "j < length ts" "pair_distance lab (ws ! i) (ts ! j) = Some d"
      by (simp_all add: matching_def)
    ultimately show ?thesis by auto
  qed
  with m len show ?thesis
    by (auto simp: list_all2_conv_all_nth list_all_length pair_distance_None)
qed

end
