(* ===== verification/Hms.thy ===== *)
theory Hms
  imports RustStr
begin

text \<open>
  Hardware alerts (\<open>src/diagnostics/hms.rs\<close>): the decoding of \<open>hms\<close> entries and of the \<open>print_error\<close> register
  into the codes a user can look up, their severity, and whether they are faults at all.
\<close>

unbundle bit_operations_syntax

abbreviation (input) HMS_FAULT_THRESHOLD :: u32 where "HMS_FAULT_THRESHOLD \<equiv> 16384"

definition HMS_CANCEL_ECHOES :: "(u32 \<times> u32) list" where
  "HMS_CANCEL_ECHOES = [(0x0300, 0x400C), (0x0500, 0x400E)]"

text \<open>\<open>{:04X}\<close> of a value of sixteen bits.\<close>

definition hex_digit_upper :: "nat \<Rightarrow> char" where
  "hex_digit_upper k = char_of (if k < 10 then 48 + k else 55 + k)"

fun hex_upper :: "nat \<Rightarrow> nat \<Rightarrow> string" where
  "hex_upper 0 n = []"
| "hex_upper (Suc k) n = hex_upper k (n div 16) @ [hex_digit_upper (n mod 16)]"

definition hex4 :: "u32 \<Rightarrow> string" where
  "hex4 w = hex_upper 4 (unat w)"

definition short_code :: "u32 \<Rightarrow> u32 \<Rightarrow> string" where
  "short_code hi lo = hex4 hi @ ''_'' @ hex4 lo"

definition is_cancel_echo :: "u32 \<Rightarrow> u32 \<Rightarrow> bool" where
  "is_cancel_echo hi lo = ((hi, lo) \<in> set HMS_CANCEL_ECHOES)"

definition module_id :: "u32 \<Rightarrow> u8" where
  "module_id w = ucast (drop_bit 24 w)"

datatype hms_severity = Fatal | Serious | Warning | Info | UnknownSeverity

definition severity_from_code :: "u32 \<Rightarrow> hms_severity" where
  "severity_from_code c =
     (let s = drop_bit 16 c AND 0xFFFF
      in if s = 1 then Fatal else if s = 2 then Serious else if s = 3 then Warning else if s = 4 then Info else UnknownSeverity)"

record decoded_hms_alert =
  ha_wiki_key :: string
  ha_short_code :: string
  ha_severity :: hms_severity
  ha_module_id :: u8
  ha_is_genuine_fault :: bool

definition decode_hms_alert :: "u32 \<Rightarrow> u32 \<Rightarrow> decoded_hms_alert" where
  "decode_hms_alert attr c =
     (let attr_high = drop_bit 16 attr; attr_low = attr AND 0xFFFF;
          code_high = drop_bit 16 c; code_low = c AND 0xFFFF;
          is_status_step = c < HMS_FAULT_THRESHOLD
      in \<lparr>ha_wiki_key = hex4 attr_high @ ''_'' @ hex4 attr_low @ ''_'' @ hex4 code_high @ ''_'' @ hex4 code_low,
          ha_short_code = short_code attr_high code_low,
          ha_severity = severity_from_code c,
          ha_module_id = module_id attr,
          ha_is_genuine_fault = (\<not> is_status_step \<and> \<not> is_cancel_echo attr_high code_low)\<rparr>)"

record decoded_print_error =
  pe_code :: u32
  pe_short_code :: string
  pe_module_id :: u8
  pe_is_genuine_fault :: bool

definition decode_print_error :: "u32 \<Rightarrow> decoded_print_error option" where
  "decode_print_error print_error =
     (if print_error = 0 then None
      else
        let hi = drop_bit 16 print_error; lo = print_error AND 0xFFFF;
            is_status_step = lo < HMS_FAULT_THRESHOLD
        in Some \<lparr>pe_code = print_error, pe_short_code = short_code hi lo, pe_module_id = module_id print_error,
             pe_is_genuine_fault = (\<not> is_status_step \<and> \<not> is_cancel_echo hi lo)\<rparr>)"

section \<open>The codes name the registers\<close>

lemma length_hex_upper [simp]: "length (hex_upper k n) = k"
  by (induction k arbitrary: n) simp_all

lemma hex_digit_upper_inj: "a < 16 \<Longrightarrow> b < 16 \<Longrightarrow> hex_digit_upper a = hex_digit_upper b \<Longrightarrow> a = b"
proof -
  assume ab: "a < 16" "b < 16" "hex_digit_upper a = hex_digit_upper b"
  have v: "code (hex_digit_upper k) = (if k < 10 then 48 + k else 55 + k)" if "k < 16" for k
  proof (cases "k < 10")
    case True
    then show ?thesis by (simp add: hex_digit_upper_def of_char_of)
  next
    case False
    with that have "(55 + k) mod 256 = 55 + k" by simp
    with False show ?thesis by (simp only: hex_digit_upper_def if_False of_char_of)
  qed
  from ab(3) have "code (hex_digit_upper a) = code (hex_digit_upper b)" by (rule arg_cong)
  then have "(if a < 10 then 48 + a else 55 + a) = (if b < 10 then 48 + b else 55 + b)"
    unfolding v [OF ab(1)] v [OF ab(2)] .
  then show ?thesis by (cases "a < 10"; cases "b < 10") simp_all
qed

lemma hex_upper_inj: "hex_upper k a = hex_upper k b \<Longrightarrow> a mod 16 ^ k = b mod 16 ^ k"
proof (induction k arbitrary: a b)
  case (Suc k)
  from Suc.prems have "hex_upper k (a div 16) = hex_upper k (b div 16)"
    "hex_digit_upper (a mod 16) = hex_digit_upper (b mod 16)" by simp_all
  then have "a div 16 mod 16 ^ k = b div 16 mod 16 ^ k" "a mod 16 = b mod 16"
    using Suc.IH hex_digit_upper_inj by (blast, auto)
  then show ?case by (simp add: mod_mult2_eq)
qed simp

lemma hex4_inj: "hex4 v = hex4 w \<Longrightarrow> unat v < 65536 \<Longrightarrow> unat w < 65536 \<Longrightarrow> v = w"
  using hex_upper_inj [of 4 "unat v" "unat w"] by (simp add: hex4_def word_eq_iff_unat)

lemma half_word_bounds: "unat (drop_bit 16 (w :: u32)) < 65536" "unat (w AND 0xFFFF) < 65536"
proof -
  have "unat w < 4294967296" using unsigned_less [of w] by simp
  then show "unat (drop_bit 16 w) < 65536" unfolding unat_drop_bit_eq by (simp add: drop_bit_eq_div)
  have "w AND 0xFFFF = take_bit 16 w" by (simp add: take_bit_eq_mask mask_numeral flip: mask_eq_exp_minus_1)
  then show "unat (w AND 0xFFFF) < 65536" by (simp only: unsigned_take_bit_eq) (simp add: take_bit_eq_mod)
qed

lemma halves_inj:
  assumes "drop_bit 16 v = drop_bit 16 w" "v AND 0xFFFF = w AND (0xFFFF :: u32)"
  shows "v = w"
proof -
  have "x AND 0xFFFF = take_bit 16 x" for x :: u32
    by (simp add: take_bit_eq_mask mask_numeral flip: mask_eq_exp_minus_1)
  with assms show ?thesis by (metis bits_ident)
qed

lemma length_hex4 [simp]: "length (hex4 w) = 4"
  by (simp add: hex4_def)

text \<open>The codes shown to the user lose nothing: two alerts with the same wiki key are the same alert, two
  print errors with the same short code are the same error, and the keys have their documented length.\<close>

theorem hms_codes_faithful:
  "inj (\<lambda>(attr, c). ha_wiki_key (decode_hms_alert attr c))
   \<and> inj_on (\<lambda>e. map_option pe_short_code (decode_print_error e)) UNIV
   \<and> length (ha_wiki_key (decode_hms_alert attr c)) = 19 \<and> length (ha_short_code (decode_hms_alert attr c)) = 9"
proof (intro conjI)
  have "attr = attr' \<and> c = c'"
    if "ha_wiki_key (decode_hms_alert attr c) = ha_wiki_key (decode_hms_alert attr' c')" for attr c attr' c'
  proof -
    from that have "hex4 (drop_bit 16 attr) = hex4 (drop_bit 16 attr')" "hex4 (attr AND 0xFFFF) = hex4 (attr' AND 0xFFFF)"
      "hex4 (drop_bit 16 c) = hex4 (drop_bit 16 c')" "hex4 (c AND 0xFFFF) = hex4 (c' AND 0xFFFF)"
      by (simp_all add: decode_hms_alert_def Let_def)
    then show ?thesis by (auto dest!: hex4_inj simp: half_word_bounds intro: halves_inj)
  qed
  then show "inj (\<lambda>(attr, c). ha_wiki_key (decode_hms_alert attr c))" by (auto simp: inj_def)
  show "inj_on (\<lambda>e. map_option pe_short_code (decode_print_error e)) UNIV"
  proof (rule inj_onI)
    fix e e' assume eq: "map_option pe_short_code (decode_print_error e) = map_option pe_short_code (decode_print_error e')"
    show "e = e'"
    proof (cases "e = 0 \<or> e' = 0")
      case True
      with eq show ?thesis by (auto simp: decode_print_error_def Let_def split: if_splits)
    next
      case False
      with eq have "hex4 (drop_bit 16 e) = hex4 (drop_bit 16 e')" "hex4 (e AND 0xFFFF) = hex4 (e' AND 0xFFFF)"
        by (simp_all add: decode_print_error_def short_code_def Let_def)
      then show ?thesis by (auto dest!: hex4_inj simp: half_word_bounds intro: halves_inj)
    qed
  qed
qed (simp_all add: decode_hms_alert_def short_code_def Let_def)

end
