(* ===== verification/Command.thy ===== *)
theory Command
  imports MqttClient Hms "HOL-Library.Multiset"
begin

text \<open>
  Command handles, echoes and outcomes (\<open>src/client/command.rs\<close>): what an echo says, and the tracker that
  gives every command one outcome. \<open>de\<close> is the derived deserializer of an echo's envelope, run by \<open>serde_json\<close>.
\<close>

abbreviation (input) PENDING_COMMAND_LIMIT :: nat where "PENDING_COMMAND_LIMIT \<equiv> MQTT_IN_FLIGHT_LIMIT"
abbreviation (input) RESOLVED_OUTCOME_LIMIT :: nat where "RESOLVED_OUTCOME_LIMIT \<equiv> 32"

definition TELEMETRY_COMMANDS :: "string list" where
  "TELEMETRY_COMMANDS = [''push_status'', ''pushall'']"

definition is_telemetry_command :: "string \<Rightarrow> bool" where
  "is_telemetry_command command = (command \<in> set TELEMETRY_COMMANDS)"

section \<open>Handles and outcomes\<close>

datatype ack_expectation = Echoes | SettlesOnPublish

record command_handle =
  ch_command :: string
  ch_sequence_id :: nat
  ch_ack :: ack_expectation

record command_refusal =
  rf_result :: "string option"
  rf_reason :: "string option"
  rf_err_code :: "nat option"
  rf_errno :: "int option"

datatype command_outcome =
  Accepted | Refused command_refusal | NoVerdict | TimedOut | ConnectionLost | SettledOnPublish

definition decoded_error :: "command_refusal \<Rightarrow> decoded_print_error option" where
  "decoded_error r = Option.bind (rf_err_code r) (\<lambda>c. decode_print_error (word_of_nat c))"

record command_resolution =
  cr_handle :: command_handle
  cr_outcome :: command_outcome

section \<open>Echoes\<close>

record echo_fields =
  ef_command :: "string option"
  ef_sequence_id :: "json option"
  ef_result :: "json option"
  ef_reason :: "json option"
  ef_err_code :: "json option"
  ef_errno :: "json option"

record echo_envelope =
  ee_print :: "echo_fields option"
  ee_system :: "echo_fields option"
  ee_info :: "echo_fields option"
  ee_xcam :: "echo_fields option"

record command_echo =
  ce_command :: string
  ce_sequence_id :: "nat option"
  ce_fields :: echo_fields

definition is_answered_by :: "command_handle \<Rightarrow> command_echo \<Rightarrow> bool" where
  "is_answered_by h echo = (ce_command echo = ch_command h \<and> ce_sequence_id echo = Some (ch_sequence_id h))"

definition echo_of_fields :: "echo_fields \<Rightarrow> command_echo option" where
  "echo_of_fields fs =
     (case ef_command fs of
        None \<Rightarrow> None
      | Some command \<Rightarrow>
          if is_telemetry_command command then None
          else Some \<lparr>ce_command = command,
            ce_sequence_id = Option.bind (ef_sequence_id fs) parse_sequence_id,
            ce_fields = fs\<lparr>ef_command := None\<rparr>\<rparr>)"

definition parse_command_echo :: "(bytes \<Rightarrow> echo_envelope option) \<Rightarrow> bytes \<Rightarrow> command_echo option" where
  "parse_command_echo de payload =
     (case de payload of
        None \<Rightarrow> None
      | Some e \<Rightarrow>
          find_map echo_of_fields (List.map_filter (\<lambda>w. w) [ee_print e, ee_system e, ee_info e, ee_xcam e]))"

fun as_u64 :: "json \<Rightarrow> nat option" where
  "as_u64 (JNumber n) = number_as_u64 n"
| "as_u64 _ = None"

fun as_i64 :: "json \<Rightarrow> int option" where
  "as_i64 (JNumber n) = number_as_i64 n"
| "as_i64 _ = None"

definition verdict_err_code :: "echo_fields \<Rightarrow> nat option" where
  "verdict_err_code fs =
     Option.bind (Option.bind (ef_err_code fs) as_u64)
       (\<lambda>c. if c \<noteq> 0 \<and> c < 4294967296 then Some c else None)"

definition verdict_errno :: "echo_fields \<Rightarrow> int option" where
  "verdict_errno fs =
     Option.bind (Option.bind (ef_errno fs) as_i64)
       (\<lambda>c. if c \<noteq> 0 \<and> - 2147483648 \<le> c \<and> c < 2147483648 then Some c else None)"

definition decode_verdict :: "command_echo \<Rightarrow> command_outcome" where
  "decode_verdict echo =
     (let fs = ce_fields echo;
          result = Option.bind (ef_result fs) as_str;
          err_code = verdict_err_code fs;
          errno = verdict_errno fs;
          failed = (case result of
              None \<Rightarrow> False
            | Some r \<Rightarrow> (case str_get_to 4 r of None \<Rightarrow> False | Some start \<Rightarrow> eq_ignore_ascii_case start ''fail''))
      in if failed \<or> err_code \<noteq> None \<or> errno \<noteq> None then
           Refused \<lparr>rf_result = result,
             rf_reason = Option.bind (Option.bind (ef_reason fs) as_str) (\<lambda>r. if r = [] then None else Some r),
             rf_err_code = err_code, rf_errno = errno\<rparr>
         else case result of
           Some r \<Rightarrow> if eq_ignore_ascii_case r ''success'' then Accepted else NoVerdict
         | None \<Rightarrow> NoVerdict)"

section \<open>The tracker\<close>

record pending_command =
  pc_handle :: command_handle
  pc_deadline_ms :: "nat option"

record command_tracker =
  ct_pending :: "pending_command list"
  ct_ready :: "command_resolution list"
  ct_resolved :: "command_resolution list"

definition new_tracker :: command_tracker where
  "new_tracker = \<lparr>ct_pending = [], ct_ready = [], ct_resolved = []\<rparr>"

definition resolve :: "command_outcome \<Rightarrow> pending_command \<Rightarrow> command_resolution" where
  "resolve outcome p = \<lparr>cr_handle = pc_handle p, cr_outcome = outcome\<rparr>"

definition track :: "command_handle \<Rightarrow> nat option \<Rightarrow> command_tracker \<Rightarrow> command_tracker" where
  "track h deadline_ms t =
     (if ch_ack h \<noteq> Echoes then t
      else
        let t1 = (if length (ct_pending t) \<ge> PENDING_COMMAND_LIMIT
                  then (case ct_pending t of
                      [] \<Rightarrow> t
                    | oldest # rest \<Rightarrow> t\<lparr>ct_pending := rest, ct_ready := ct_ready t @ [resolve TimedOut oldest]\<rparr>)
                  else t)
        in t1\<lparr>ct_pending := ct_pending t1 @ [\<lparr>pc_handle = h, pc_deadline_ms = deadline_ms\<rparr>]\<rparr>)"

text \<open>\<open>VecDeque::remove\<close>\<close>

definition remove_nth :: "nat \<Rightarrow> 'a list \<Rightarrow> 'a list" where
  "remove_nth i xs = take i xs @ drop (Suc i) xs"

definition take_answered :: "command_echo \<Rightarrow> command_tracker \<Rightarrow> command_handle option \<times> command_tracker" where
  "take_answered echo t =
     (case position (\<lambda>p. is_answered_by (pc_handle p) echo) (ct_pending t) of
        None \<Rightarrow> (None, t)
      | Some i \<Rightarrow> (Some (pc_handle (ct_pending t ! i)), t\<lparr>ct_pending := remove_nth i (ct_pending t)\<rparr>))"

definition past_deadline :: "nat \<Rightarrow> pending_command \<Rightarrow> bool" where
  "past_deadline now_ms p = (case pc_deadline_ms p of None \<Rightarrow> False | Some deadline \<Rightarrow> now_ms \<ge> deadline)"

definition next_unanswered :: "nat option \<Rightarrow> command_tracker \<Rightarrow> command_resolution option \<times> command_tracker" where
  "next_unanswered now_ms t =
     (case ct_ready t of
        r # rs \<Rightarrow> (Some r, t\<lparr>ct_ready := rs\<rparr>)
      | [] \<Rightarrow>
          (case now_ms of
             None \<Rightarrow> (None, t)
           | Some now_ms \<Rightarrow>
               (case position (past_deadline now_ms) (ct_pending t) of
                  None \<Rightarrow> (None, t)
                | Some i \<Rightarrow>
                    (Some (resolve TimedOut (ct_pending t ! i)), t\<lparr>ct_pending := remove_nth i (ct_pending t)\<rparr>))))"

definition connection_ended :: "command_tracker \<Rightarrow> command_tracker" where
  "connection_ended t = t\<lparr>ct_pending := [], ct_ready := ct_ready t @ map (resolve ConnectionLost) (ct_pending t)\<rparr>"

definition remember :: "command_resolution \<Rightarrow> command_tracker \<Rightarrow> command_tracker" where
  "remember r t =
     (let t1 = (if length (ct_resolved t) \<ge> RESOLVED_OUTCOME_LIMIT then t\<lparr>ct_resolved := drop 1 (ct_resolved t)\<rparr> else t)
      in t1\<lparr>ct_resolved := ct_resolved t1 @ [r]\<rparr>)"

definition take_known :: "command_handle \<Rightarrow> command_tracker \<Rightarrow> command_outcome option \<times> command_tracker" where
  "take_known h t =
     (case position (\<lambda>r. cr_handle r = h) (ct_ready t) of
        Some i \<Rightarrow> (Some (cr_outcome (ct_ready t ! i)), t\<lparr>ct_ready := remove_nth i (ct_ready t)\<rparr>)
      | None \<Rightarrow> (map_option cr_outcome (find (\<lambda>r. cr_handle r = h) (ct_resolved t)), t))"

definition is_pending :: "command_handle \<Rightarrow> command_tracker \<Rightarrow> bool" where
  "is_pending h t = list_ex (\<lambda>p. pc_handle p = h) (ct_pending t)"

definition forget :: "command_handle \<Rightarrow> command_tracker \<Rightarrow> command_tracker" where
  "forget h t = t\<lparr>ct_pending := filter (\<lambda>p. pc_handle p \<noteq> h) (ct_pending t)\<rparr>"

end
