(* ===== verification/CommandProps.thy ===== *)
theory CommandProps
  imports Command
begin

text \<open>
  Every command that is echoed ends in exactly one outcome. The calls a client makes on the tracker are events;
  what the caller is handed at each is the list of resolutions the step returns.
\<close>

datatype tracker_event =
    Published command_handle "nat option"
  | EchoSeen command_echo
  | Polled "nat option"
  | SessionEnded
  | AwaitStarted command_handle
  | AwaitEnded command_handle command_outcome

fun tracker_step :: "tracker_event \<Rightarrow> command_tracker \<Rightarrow> command_resolution list \<times> command_tracker" where
  "tracker_step (Published h deadline) t = ([], track h deadline t)"
| "tracker_step (EchoSeen echo) t =
     (case take_answered echo t of
        (None, t1) \<Rightarrow> ([], t1)
      | (Some h, t1) \<Rightarrow>
          let r = \<lparr>cr_handle = h, cr_outcome = decode_verdict echo\<rparr> in ([r], remember r t1))"
| "tracker_step (Polled now_ms) t =
     (case next_unanswered now_ms t of (None, t1) \<Rightarrow> ([], t1) | (Some r, t1) \<Rightarrow> ([r], remember r t1))"
| "tracker_step SessionEnded t = ([], connection_ended t)"
| "tracker_step (AwaitStarted h) t =
     (case take_known h t of
        (Some outcome, t1) \<Rightarrow>
          (if ct_ready t1 = ct_ready t then [] else [\<lparr>cr_handle = h, cr_outcome = outcome\<rparr>], t1)
      | (None, t1) \<Rightarrow> ([], t1))"
| "tracker_step (AwaitEnded h outcome) t =
     (map (resolve outcome) (filter (\<lambda>p. pc_handle p = h) (ct_pending t)), forget h t)"

fun tracker_run :: "tracker_event list \<Rightarrow> command_tracker \<Rightarrow> command_resolution list \<times> command_tracker" where
  "tracker_run [] t = ([], t)"
| "tracker_run (e # es) t =
     (case tracker_step e t of (out, t1) \<Rightarrow> case tracker_run es t1 of (out', t') \<Rightarrow> (out @ out', t'))"

text \<open>The commands that were published and are echoed.\<close>

definition published :: "tracker_event list \<Rightarrow> command_handle list" where
  "published es = List.map_filter (\<lambda>e. case e of Published h _ \<Rightarrow> if ch_ack h = Echoes then Some h else None | _ \<Rightarrow> None) es"

definition outstanding :: "command_tracker \<Rightarrow> command_handle multiset" where
  "outstanding t = mset (map pc_handle (ct_pending t)) + mset (map cr_handle (ct_ready t))"

definition tracker_ok :: "command_tracker \<Rightarrow> bool" where
  "tracker_ok t \<longleftrightarrow> length (ct_pending t) \<le> PENDING_COMMAND_LIMIT \<and> length (ct_resolved t) \<le> RESOLVED_OUTCOME_LIMIT"

section \<open>One call\<close>

lemma mset_remove_nth: "i < length xs \<Longrightarrow> mset xs = add_mset (xs ! i) (mset (remove_nth i xs))"
  by (metis add_mset_add_single id_take_nth_drop mset.simps(2) mset_append remove_nth_def union_mset_add_mset_right)

lemma length_remove_nth: "i < length xs \<Longrightarrow> length (remove_nth i xs) = length xs - 1"
  by (simp add: remove_nth_def)

lemma image_remove_nth:
  "i < length xs \<Longrightarrow> image_mset f (mset xs) = add_mset (f (xs ! i)) (image_mset f (mset (remove_nth i xs)))"
  using mset_remove_nth [of i xs] by (metis image_mset_add_mset)

lemma handle_resolve [simp]: "cr_handle (resolve outcome p) = pc_handle p" "cr_handle \<circ> resolve outcome = pc_handle"
  by (simp_all add: resolve_def fun_eq_iff)

lemma remember_frame [simp]:
  "ct_pending (remember r t) = ct_pending t" "ct_ready (remember r t) = ct_ready t" "outstanding (remember r t) = outstanding t"
  by (simp_all add: remember_def outstanding_def Let_def)

lemma remember_ok: "tracker_ok t \<Longrightarrow> tracker_ok (remember r t)"
  by (auto simp: tracker_ok_def remember_def Let_def)

lemma takes_ok:
  "tracker_ok t \<Longrightarrow> take_answered echo t = (h, t1) \<Longrightarrow> tracker_ok t1"
  "tracker_ok t \<Longrightarrow> next_unanswered now_ms t = (r, t1) \<Longrightarrow> tracker_ok t1"
  by (auto simp: take_answered_def next_unanswered_def tracker_ok_def length_remove_nth
      dest: position_SomeD split: option.splits list.splits)

lemma track_accounts:
  "outstanding (track h d t) = outstanding t + (if ch_ack h = Echoes then {#h#} else {#})"
  by (cases "ct_pending t") (auto simp: track_def outstanding_def Let_def)

lemma take_answered_accounts:
  "take_answered echo t = (Some h, t1) \<Longrightarrow> outstanding t = add_mset h (outstanding t1)"
  "take_answered echo t = (None, t1) \<Longrightarrow> t1 = t"
  by (auto simp: take_answered_def outstanding_def image_remove_nth dest: position_SomeD split: option.splits)

lemma next_unanswered_accounts:
  "next_unanswered now_ms t = (Some r, t1) \<Longrightarrow> outstanding t = add_mset (cr_handle r) (outstanding t1)"
  "next_unanswered now_ms t = (None, t1) \<Longrightarrow> t1 = t"
  by (auto simp: next_unanswered_def outstanding_def image_remove_nth dest: position_SomeD split: option.splits list.splits)

lemma take_known_accounts:
  "take_known h t = (r, t1) \<Longrightarrow>
     outstanding t = outstanding t1 + (if ct_ready t1 = ct_ready t then {#} else {#h#})
     \<and> (r = None \<longrightarrow> t1 = t)"
proof -
  assume a: "take_known h t = (r, t1)"
  show ?thesis
  proof (cases "position (\<lambda>r. cr_handle r = h) (ct_ready t)")
    case None
    with a show ?thesis by (auto simp: take_known_def)
  next
    case (Some i)
    note p = position_SomeD [OF Some]
    then have "length (remove_nth i (ct_ready t)) < length (ct_ready t)" by (auto simp: length_remove_nth)
    then have "remove_nth i (ct_ready t) \<noteq> ct_ready t" by auto
    with a Some p show ?thesis by (auto simp: take_known_def outstanding_def image_remove_nth)
  qed
qed

lemma forget_accounts:
  "outstanding t = outstanding (forget h t) + mset (map pc_handle (filter (\<lambda>p. pc_handle p = h) (ct_pending t)))"
proof -
  have "mset (ct_pending t) = filter_mset (\<lambda>p. pc_handle p \<noteq> h) (mset (ct_pending t))
      + filter_mset (\<lambda>p. pc_handle p = h) (mset (ct_pending t))"
    using multiset_partition [of "mset (ct_pending t)" "\<lambda>p. pc_handle p \<noteq> h"] by simp
  then have "image_mset pc_handle (mset (ct_pending t)) = image_mset pc_handle (filter_mset (\<lambda>p. pc_handle p \<noteq> h) (mset (ct_pending t)))
      + image_mset pc_handle (filter_mset (\<lambda>p. pc_handle p = h) (mset (ct_pending t)))"
    by (metis image_mset_union)
  then show ?thesis by (simp add: outstanding_def forget_def)
qed

lemma ended_accounts: "outstanding (connection_ended t) = outstanding t"
  by (simp add: outstanding_def connection_ended_def multiset.map_comp)

lemma step_accounts:
  "tracker_step e t = (out, t1) \<Longrightarrow>
     outstanding t + mset (published [e]) = outstanding t1 + mset (map cr_handle out)"
proof (cases e)
  case (AwaitStarted h)
  assume a: "tracker_step e t = (out, t1)"
  obtain r t2 where k: "take_known h t = (r, t2)" by force
  from take_known_accounts [OF this] a AwaitStarted k show ?thesis
    by (auto simp: published_def split: option.splits)
next
  case (AwaitEnded h outcome)
  assume a: "tracker_step e t = (out, t1)"
  with AwaitEnded forget_accounts [of t h] show ?thesis by (auto simp: published_def multiset.map_comp)
qed (auto simp: published_def track_accounts ended_accounts Let_def
      dest: take_answered_accounts next_unanswered_accounts split: prod.splits option.splits)

lemma step_ok: "tracker_step e t = (out, t1) \<Longrightarrow> tracker_ok t \<Longrightarrow> tracker_ok t1"
proof (cases e)
  case (Published h d)
  assume "tracker_step e t = (out, t1)" "tracker_ok t"
  with Published show ?thesis by (cases "ct_pending t") (auto simp: track_def tracker_ok_def Let_def)
next
  case (EchoSeen echo)
  assume "tracker_step e t = (out, t1)" "tracker_ok t"
  with EchoSeen show ?thesis by (auto simp: Let_def intro: remember_ok takes_ok split: option.splits prod.splits)
next
  case (Polled n)
  assume "tracker_step e t = (out, t1)" "tracker_ok t"
  with Polled show ?thesis by (auto intro: remember_ok takes_ok split: option.splits prod.splits)
next
  case (AwaitStarted h)
  assume "tracker_step e t = (out, t1)" "tracker_ok t"
  with AwaitStarted show ?thesis by (auto simp: take_known_def tracker_ok_def split: option.splits)
next
  case (AwaitEnded h outcome)
  assume "tracker_step e t = (out, t1)" "tracker_ok t"
  with AwaitEnded show ?thesis by (auto simp: forget_def tracker_ok_def intro: order_trans [OF length_filter_le])
qed (auto simp: tracker_ok_def connection_ended_def)

section \<open>A run\<close>

lemma published_append: "published (es @ es') = published es @ published es'"
  by (simp add: published_def List.map_filter_def)

lemma run_accounts:
  "tracker_run es t = (out, t1) \<Longrightarrow>
     outstanding t + mset (published es) = outstanding t1 + mset (map cr_handle out) \<and> (tracker_ok t \<longrightarrow> tracker_ok t1)"
proof (induction es arbitrary: t out)
  case (Cons e es)
  from Cons.prems obtain o1 t2 o2 where s: "tracker_step e t = (o1, t2)" "tracker_run es t2 = (o2, t1)" "out = o1 @ o2"
    by (auto split: prod.splits)
  from step_accounts [OF s(1)] Cons.IH [OF s(2)] step_ok [OF s(1)] published_append [of "[e]" es] s(3) show ?case
    by simp (metis (no_types, lifting) union_assoc union_commute)
qed (simp add: published_def)

lemma run_append:
  "tracker_run (es @ es') t =
     (case tracker_run es t of (out, t1) \<Rightarrow> case tracker_run es' t1 of (out', t') \<Rightarrow> (out @ out', t'))"
  by (induction es arbitrary: t) (auto split: prod.splits)

lemma drain:
  "ct_pending t = [] \<Longrightarrow> length (ct_ready t) \<le> n \<Longrightarrow>
     tracker_run (replicate n (Polled None)) t = (out, t') \<Longrightarrow> outstanding t' = {#}"
proof (induction n arbitrary: t out)
  case (Suc n)
  then obtain o1 t1 o2 where s: "tracker_step (Polled None) t = (o1, t1)" "tracker_run (replicate n (Polled None)) t1 = (o2, t')"
    by (auto split: prod.splits)
  then have "ct_pending t1 = []" "length (ct_ready t1) \<le> n"
    using Suc.prems by (auto simp: next_unanswered_def split: list.splits)
  from Suc.IH [OF this s(2)] show ?case .
qed (simp add: outstanding_def)


end
