(* ===== verification/Control.thy ===== *)
theory Control
  imports Io
begin

text \<open>
  The enumerations of \<open>src/types/control.rs\<close>. Those with a wire name are tables of variants and names, as the macro
  \<open>wire_enum\<close> builds them; the locale \<open>wire_table\<close> is the contract of such a table.
\<close>

unbundle bit_operations_syntax

section \<open>Wire names\<close>

definition enum_as_wire :: "('a \<times> string) list \<Rightarrow> 'a \<Rightarrow> string" where
  "enum_as_wire table v = the (map_of table v)"

definition wire_from_str :: "string \<Rightarrow> ('a \<times> string) list \<Rightarrow> string \<Rightarrow> error + 'a" where
  "wire_from_str ty table s =
     (case find (\<lambda>(_, w). w = s) table of
        Some (v, _) \<Rightarrow> Inr v
      | None \<Rightarrow> Inl (InvalidArgument (''unknown '' @ ty @ '' '' @ [CHR 0x27] @ s @ [CHR 0x27])))"

locale wire_table =
  fixes table :: "('a \<times> string) list"
  assumes every_variant: "v \<in> fst ` set table"
    and names_distinct: "distinct (map snd table)"
    and variants_distinct: "distinct (map fst table)"
begin

lemma wire_entry: "(v, enum_as_wire table v) \<in> set table"
proof -
  from every_variant [of v] obtain w where "(v, w) \<in> set table" by auto
  with variants_distinct have "map_of table v = Some w" by simp
  with \<open>(v, w) \<in> set table\<close> show ?thesis by (simp add: enum_as_wire_def)
qed

lemma from_as_wire: "wire_from_str ty table (enum_as_wire table v) = Inr v"
proof (cases "find (\<lambda>(_, w). w = enum_as_wire table v) table")
  case None
  with wire_entry [of v] show ?thesis by (auto simp: find_None_iff)
next
  case (Some p)
  then obtain v' where p: "p = (v', enum_as_wire table v)" "(v', enum_as_wire table v) \<in> set table"
    by (auto simp: find_Some_iff in_set_conv_nth)
  from names_distinct have "inj_on snd (set table)" by (simp add: distinct_map)
  from inj_onD [OF this, of "(v', enum_as_wire table v)" "(v, enum_as_wire table v)"] p wire_entry [of v] have "v' = v" by simp
  with Some p show ?thesis by (simp add: wire_from_str_def)
qed

lemma from_str_Inr: "wire_from_str ty table s = Inr v \<longleftrightarrow> s = enum_as_wire table v"
proof
  assume "wire_from_str ty table s = Inr v"
  then have "(v, s) \<in> set table"
    by (auto simp: wire_from_str_def find_Some_iff in_set_conv_nth split: option.splits)
  with variants_distinct show "s = enum_as_wire table v" by (simp add: enum_as_wire_def)
qed (simp add: from_as_wire)

end

datatype xcam_module =
    PrintingMonitor | SpaghettiDetector | PileupDetector | ClumpDetector | AirprintDetector | FirstLayerInspector
  | BuildplateMarkerDetector | PlateOffsetSwitch | FodCheck | ModelMovementCheck

definition XcamModule_wire :: "(xcam_module \<times> string) list" where
  "XcamModule_wire =
     [(PrintingMonitor, ''printing_monitor''),
      (SpaghettiDetector, ''spaghetti_detector''),
      (PileupDetector, ''pileup_detector''),
      (ClumpDetector, ''clump_detector''),
      (AirprintDetector, ''airprint_detector''),
      (FirstLayerInspector, ''first_layer_inspector''),
      (BuildplateMarkerDetector, ''buildplate_marker_detector''),
      (PlateOffsetSwitch, ''plate_offset_switch''),
      (FodCheck, ''fod_check''),
      (ModelMovementCheck, ''model_movement_check'')]"

definition takes_sensitivity :: "xcam_module \<Rightarrow> bool" where
  "takes_sensitivity m =
     (m \<in> {PrintingMonitor, SpaghettiDetector, PileupDetector, ClumpDetector, AirprintDetector})"

datatype xcam_halt_sensitivity = NeverHalt | HaltLow | HaltMedium | HaltHigh

definition XcamHaltSensitivity_wire :: "(xcam_halt_sensitivity \<times> string) list" where
  "XcamHaltSensitivity_wire =
     [(NeverHalt, ''never_halt''), (HaltLow, ''low''), (HaltMedium, ''medium''), (HaltHigh, ''high'')]"

definition from_ai_monitoring_code :: "nat \<Rightarrow> xcam_halt_sensitivity option" where
  "from_ai_monitoring_code c =
     (if c = 0 then Some NeverHalt else if c = 1 then Some HaltLow else if c = 2 then Some HaltMedium
      else if c = 3 then Some HaltHigh else None)"

record xcam_detector_state =
  xd_enabled :: "bool option"
  xd_sensitivity :: "xcam_halt_sensitivity option"

datatype led_node = Chamber | Chamber2 | Work

definition LedNode_wire :: "(led_node \<times> string) list" where
  "LedNode_wire = [(Chamber, ''chamber_light''), (Chamber2, ''chamber_light2''), (Work, ''work_light'')]"

datatype light_mode = LightOn | LightOff | Flashing

definition LightMode_wire :: "(light_mode \<times> string) list" where
  "LightMode_wire = [(LightOn, ''on''), (LightOff, ''off''), (Flashing, ''flashing'')]"

interpretation xcam_modules: wire_table XcamModule_wire
proof
  show "v \<in> fst ` set XcamModule_wire" for v by (cases v) (simp_all add: XcamModule_wire_def)
qed (simp_all add: XcamModule_wire_def)

interpretation halt_levels: wire_table XcamHaltSensitivity_wire
proof
  show "v \<in> fst ` set XcamHaltSensitivity_wire" for v by (cases v) (simp_all add: XcamHaltSensitivity_wire_def)
qed (simp_all add: XcamHaltSensitivity_wire_def)

interpretation led_nodes: wire_table LedNode_wire
proof
  show "v \<in> fst ` set LedNode_wire" for v by (cases v) (simp_all add: LedNode_wire_def)
qed (simp_all add: LedNode_wire_def)

interpretation light_modes: wire_table LightMode_wire
proof
  show "v \<in> fst ` set LightMode_wire" for v by (cases v) (simp_all add: LightMode_wire_def)
qed (simp_all add: LightMode_wire_def)

section \<open>Fans, buzzer, settings\<close>

datatype fan_target = PartCooling | AuxiliaryLeft | ChamberExhaust | AuxiliaryLeft2

fun write_port :: "fan_target \<Rightarrow> nat" where
  "write_port PartCooling = 1"
| "write_port AuxiliaryLeft = 2"
| "write_port ChamberExhaust = 3"
| "write_port AuxiliaryLeft2 = 10"

fun airduct_part_id :: "fan_target \<Rightarrow> nat option" where
  "airduct_part_id AuxiliaryLeft2 = Some 160"
| "airduct_part_id _ = None"

datatype buzzer_mode = BuzzerSilent | Alarm | Chirp

fun buzzer_code :: "buzzer_mode \<Rightarrow> int" where
  "buzzer_code BuzzerSilent = 0"
| "buzzer_code Alarm = 1"
| "buzzer_code Chirp = 2"

datatype nozzle_blob_detect_mode = BlobOff | BlobOn | BlobAuto

fun blob_code :: "nozzle_blob_detect_mode \<Rightarrow> nat" where
  "blob_code BlobOff = 0"
| "blob_code BlobOn = 1"
| "blob_code BlobAuto = 2"

definition blob_from_code :: "nat \<Rightarrow> nozzle_blob_detect_mode option" where
  "blob_from_code c =
     (if c = 0 then Some BlobOff else if c = 1 then Some BlobOn else if c = 2 then Some BlobAuto else None)"

datatype air_purification_mode = AirDisabled | Inside | Outside

fun air_code :: "air_purification_mode \<Rightarrow> nat" where
  "air_code AirDisabled = 0"
| "air_code Inside = 1"
| "air_code Outside = 2"

definition air_from_code :: "nat \<Rightarrow> air_purification_mode option" where
  "air_from_code c =
     (if c = 0 then Some AirDisabled else if c = 1 then Some Inside else if c = 2 then Some Outside else None)"

datatype door_open_check = DoorDisabled | Warn | PausePrint

fun door_code :: "door_open_check \<Rightarrow> nat" where
  "door_code DoorDisabled = 0"
| "door_code Warn = 1"
| "door_code PausePrint = 2"

definition door_from_code :: "nat \<Rightarrow> door_open_check option" where
  "door_from_code c =
     (if c = 0 then Some DoorDisabled else if c = 1 then Some Warn else if c = 2 then Some PausePrint else None)"

datatype idle_heating_protection = ProtectionOff | ProtectionOn | Unavailable

definition protection_from_code :: "nat \<Rightarrow> idle_heating_protection option" where
  "protection_from_code c =
     (if c = 0 then Some ProtectionOff else if c = 1 then Some ProtectionOn else if c = 2 then Some Unavailable
      else None)"

datatype print_speed = SpeedSilent | SpeedStandard | Sport | Ludicrous

fun speed_level :: "print_speed \<Rightarrow> nat" where
  "speed_level SpeedSilent = 1"
| "speed_level SpeedStandard = 2"
| "speed_level Sport = 3"
| "speed_level Ludicrous = 4"

definition speed_from_level :: "nat \<Rightarrow> print_speed option" where
  "speed_from_level l =
     (if l = 1 then Some SpeedSilent else if l = 2 then Some SpeedStandard else if l = 3 then Some Sport
      else if l = 4 then Some Ludicrous else None)"

section \<open>Print status\<close>

datatype print_status =
  StatusIdle | Preparing | Slicing | Running | Paused | Finished | StatusFailed | StatusUnknown

definition from_gcode_state :: "string \<Rightarrow> print_status" where
  "from_gcode_state s =
     (if s = ''IDLE'' then StatusIdle else if s = ''PREPARE'' then Preparing else if s = ''SLICING'' then Slicing
      else if s = ''RUNNING'' then Running else if s = ''PAUSE'' then Paused else if s = ''FINISH'' then Finished
      else if s = ''FAILED'' then StatusFailed else StatusUnknown)"

fun status_as_str :: "print_status \<Rightarrow> string option" where
  "status_as_str StatusIdle = Some ''IDLE''"
| "status_as_str Preparing = Some ''PREPARE''"
| "status_as_str Slicing = Some ''SLICING''"
| "status_as_str Running = Some ''RUNNING''"
| "status_as_str Paused = Some ''PAUSE''"
| "status_as_str Finished = Some ''FINISH''"
| "status_as_str StatusFailed = Some ''FAILED''"
| "status_as_str StatusUnknown = None"

definition is_busy :: "print_status \<Rightarrow> bool" where
  "is_busy s = (s \<in> {Preparing, Slicing, Running, Paused})"

section \<open>Calibration flags\<close>

type_synonym calibration_option = u32

abbreviation (input) BED_LEVELING :: calibration_option where "BED_LEVELING \<equiv> 2"
abbreviation (input) VIBRATION_COMPENSATION :: calibration_option where "VIBRATION_COMPENSATION \<equiv> 4"
abbreviation (input) MOTOR_NOISE_CANCELLATION :: calibration_option where "MOTOR_NOISE_CANCELLATION \<equiv> 8"
abbreviation (input) NOZZLE_HEIGHT :: calibration_option where "NOZZLE_HEIGHT \<equiv> 16"
abbreviation (input) HEATBED_THERMAL :: calibration_option where "HEATBED_THERMAL \<equiv> 32"

definition calibration_contains :: "calibration_option \<Rightarrow> calibration_option \<Rightarrow> bool" where
  "calibration_contains a b = (a AND b = b)"

definition calibration_is_empty :: "calibration_option \<Rightarrow> bool" where
  "calibration_is_empty a = (a = 0)"

definition calibration_intersection :: "calibration_option \<Rightarrow> calibration_option \<Rightarrow> calibration_option" where
  "calibration_intersection a b = a AND b"

definition calibration_difference :: "calibration_option \<Rightarrow> calibration_option \<Rightarrow> calibration_option" where
  "calibration_difference a b = a AND NOT b"

definition calibration_from :: "calibration_option list \<Rightarrow> calibration_option" where
  "calibration_from opts = fold (\<lambda>opt acc. acc OR opt) opts 0"

text \<open>Every variant the crate names survives the wire: its name or code is read back as it, no other text or
  code is, and a state name the printer reports is kept.\<close>

theorem control_wire_roundtrip:
  "(wire_from_str ty XcamModule_wire s = Inr m \<longleftrightarrow> s = enum_as_wire XcamModule_wire m)
   \<and> (wire_from_str ty XcamHaltSensitivity_wire s = Inr h \<longleftrightarrow> s = enum_as_wire XcamHaltSensitivity_wire h)
   \<and> (wire_from_str ty LedNode_wire s = Inr n \<longleftrightarrow> s = enum_as_wire LedNode_wire n)
   \<and> (wire_from_str ty LightMode_wire s = Inr l \<longleftrightarrow> s = enum_as_wire LightMode_wire l)
   \<and> (blob_from_code c = Some b \<longleftrightarrow> c = blob_code b) \<and> (air_from_code c = Some a \<longleftrightarrow> c = air_code a)
   \<and> (door_from_code c = Some d \<longleftrightarrow> c = door_code d) \<and> (speed_from_level c = Some p \<longleftrightarrow> c = speed_level p)
   \<and> (status_as_str (from_gcode_state s) = (if from_gcode_state s = StatusUnknown then None else Some s))"
  by (intro conjI xcam_modules.from_str_Inr halt_levels.from_str_Inr led_nodes.from_str_Inr light_modes.from_str_Inr)
    (cases b; cases a; cases d; cases p;
      simp add: blob_from_code_def air_from_code_def door_from_code_def speed_from_level_def from_gcode_state_def)+

end
