(* ===== verification/Quirks.thy ===== *)
theory Quirks
  imports Gcode Bits AmsMapping Control
begin

text \<open>
  The per-model quirks of \<open>src/quirks/mod.rs\<close>, \<open>src/quirks/context.rs\<close> and \<open>src/quirks/models/\<close>: the record of a
  model, the constants of the supported models, and the rules that turn what a printer reported into the support of
  a feature. A length in \<open>f32\<close> millimetres is the rational it denotes (every constant is exact).
\<close>

unbundle bit_operations_syntax

section \<open>Firmware versions\<close>

text \<open>\<open>component\<close>: an absent or empty component reads as 0.\<close>

definition component :: "string option \<Rightarrow> nat option" where
  "component part =
     (case part of None \<Rightarrow> Some 0 | Some p \<Rightarrow> if p = [] then Some 0 else parse_u32 (trim p))"

definition next_part :: "string list \<Rightarrow> string option" where
  "next_part ps = (case ps of [] \<Rightarrow> None | p # _ \<Rightarrow> Some p)"

fun firmware_loop :: "nat \<Rightarrow> string list \<Rightarrow> string list \<Rightarrow> bool" where
  "firmware_loop 0 hs ws = True"
| "firmware_loop (Suc n) hs ws =
     (case (component (next_part hs), component (next_part ws)) of
        (Some h, Some w) \<Rightarrow> if h \<noteq> w then h > w else firmware_loop n (tl hs) (tl ws)
      | _ \<Rightarrow> False)"

definition firmware_at_least :: "string \<Rightarrow> string \<Rightarrow> bool" where
  "firmware_at_least have want =
     firmware_loop 4 (split_on (\<lambda>c. c = CHR ''.'') (trim have)) (split_on (\<lambda>c. c = CHR ''.'') (trim want))"

section \<open>What the printer reported\<close>

record quirk_context =
  qc_fun2 :: "string option"
  qc_firmware :: "string option"
  qc_fun :: "string option"
  qc_home_flag :: "u32 option"
  qc_xcam_cfg :: "u32 option"
  qc_support_flow_calibration :: "bool option"
  qc_cali_version :: "int option"
  qc_reported_lights :: u8
  qc_lights_list_complete :: bool

definition empty_context :: quirk_context where
  "empty_context =
     \<lparr>qc_fun2 = None, qc_firmware = None, qc_fun = None, qc_home_flag = None, qc_xcam_cfg = None,
      qc_support_flow_calibration = None, qc_cali_version = None, qc_reported_lights = 0,
      qc_lights_list_complete = False\<rparr>"

fun light_bit :: "led_node \<Rightarrow> u8" where
  "light_bit Chamber = 1"
| "light_bit Chamber2 = 2"
| "light_bit Work = 4"

definition with_lights :: "led_node list \<Rightarrow> bool \<Rightarrow> quirk_context \<Rightarrow> quirk_context" where
  "with_lights nodes list_complete ctx =
     ctx\<lparr>qc_reported_lights := fold (\<lambda>node mask. mask OR light_bit node) nodes 0,
         qc_lights_list_complete := list_complete\<rparr>"

section \<open>Support and where it comes from\<close>

datatype support = Reported bool | Inferred bool | Assumed bool

fun is_supported :: "support \<Rightarrow> bool" where
  "is_supported (Reported v) = v"
| "is_supported (Inferred v) = v"
| "is_supported (Assumed v) = v"

record support_bits =
  sup_fun :: "nat option"
  sup_fun2 :: "nat option"
  sup_home_flag :: "nat option"

definition hex_report :: "string option \<Rightarrow> nat option \<Rightarrow> bool option" where
  "hex_report hex k = Option.bind hex (\<lambda>h. Option.bind k (hex_bit h))"

definition flag_report :: "u32 option \<Rightarrow> nat option \<Rightarrow> bool option" where
  "flag_report flag k = Option.bind flag (\<lambda>f. map_option (home_flag_bit f) k)"

definition or_else :: "'a option \<Rightarrow> 'a option \<Rightarrow> 'a option" where
  "or_else a b = (case a of None \<Rightarrow> b | Some x \<Rightarrow> Some x)"

definition resolve_support :: "support_bits \<Rightarrow> quirk_context \<Rightarrow> support \<Rightarrow> support" where
  "resolve_support bits ctx model =
     (case or_else (or_else (hex_report (qc_fun ctx) (sup_fun bits)) (hex_report (qc_fun2 ctx) (sup_fun2 bits)))
          (flag_report (qc_home_flag ctx) (sup_home_flag bits)) of
        None \<Rightarrow> model
      | Some v \<Rightarrow> Reported v)"

definition firmware_gate :: "quirk_context \<Rightarrow> string \<Rightarrow> support \<Rightarrow> support" where
  "firmware_gate ctx min_firmware unknown =
     (case qc_firmware ctx of None \<Rightarrow> unknown | Some have \<Rightarrow> Inferred (firmware_at_least have min_firmware))"

abbreviation (input) FUN2_REMOTE_DRY_BIT :: nat where "FUN2_REMOTE_DRY_BIT \<equiv> 5"

definition reported_remote_dry :: "quirk_context \<Rightarrow> bool option" where
  "reported_remote_dry ctx = Option.bind (qc_fun2 ctx) (\<lambda>hex. hex_bit hex FUN2_REMOTE_DRY_BIT)"

datatype dry_rule = Unstated | Never | Always | DryFirmware string bool

definition first_release_or :: "bool \<Rightarrow> bool \<Rightarrow> support" where
  "first_release_or in_first_release d = (if in_first_release then Inferred True else Assumed d)"

definition dry_remote :: "dry_rule \<Rightarrow> quirk_context \<Rightarrow> support" where
  "dry_remote rule ctx =
     (let r = (case rule of
          Unstated \<Rightarrow> Assumed True
        | Never \<Rightarrow> Inferred False
        | Always \<Rightarrow> Inferred True
        | DryFirmware mn in_first_release \<Rightarrow> firmware_gate ctx mn (first_release_or in_first_release True))
      in case reported_remote_dry ctx of None \<Rightarrow> r | Some v \<Rightarrow> Reported v)"

definition dry_while_printing :: "dry_rule \<Rightarrow> quirk_context \<Rightarrow> support" where
  "dry_while_printing rule ctx =
     (if reported_remote_dry ctx = Some False then Reported False
      else case rule of
          Unstated \<Rightarrow> Assumed False
        | Never \<Rightarrow> Inferred False
        | Always \<Rightarrow> Inferred True
        | DryFirmware mn in_first_release \<Rightarrow> firmware_gate ctx mn (first_release_or in_first_release False))"

section \<open>The record of a model\<close>

datatype camera_protocol = Rtsps | BinaryJpeg

fun default_port :: "camera_protocol \<Rightarrow> u16" where
  "default_port Rtsps = 322"
| "default_port BinaryJpeg = 6000"

datatype tls_versions = TlsDefault | Tls12Only

datatype door_sensor = NoDoorSensor | DoorHomeFlag | DoorStat

datatype nozzle_layout = Single | Dual | Rack nat

fun nozzle_count :: "nozzle_layout \<Rightarrow> nat" where
  "nozzle_count Single = 1"
| "nozzle_count Dual = 2"
| "nozzle_count (Rack nozzles) = nozzles"

fun axis_letter :: "axis \<Rightarrow> char" where
  "axis_letter X = CHR ''X''"
| "axis_letter Y = CHR ''Y''"
| "axis_letter Z = CHR ''Z''"

definition axis_from_str :: "string \<Rightarrow> error + axis" where
  "axis_from_str s =
     (if s = ''x'' \<or> s = ''X'' then Inr X
      else if s = ''y'' \<or> s = ''Y'' then Inr Y
      else if s = ''z'' \<or> s = ''Z'' then Inr Z
      else Inl (InvalidArgument (''unknown axis '' @ [CHR 0x27] @ s @ [CHR 0x27] @ '' (expected X, Y, or Z)'')))"

record build_volume =
  bv_x :: rat
  bv_y :: rat
  bv_z :: rat

definition cube :: "rat \<Rightarrow> build_volume" where
  "cube side = \<lparr>bv_x = side, bv_y = side, bv_z = side\<rparr>"

abbreviation (input) JOG_FEEDRATE_XY :: u32 where "JOG_FEEDRATE_XY \<equiv> 3000"
abbreviation (input) JOG_FEEDRATE_Z :: u32 where "JOG_FEEDRATE_Z \<equiv> 900"
abbreviation (input) FEEDRATE_500_MM_S :: u32 where "FEEDRATE_500_MM_S \<equiv> 30000"
abbreviation (input) FEEDRATE_1000_MM_S :: u32 where "FEEDRATE_1000_MM_S \<equiv> 60000"
abbreviation (input) FEEDRATE_20_MM_S :: u32 where "FEEDRATE_20_MM_S \<equiv> 1200"
abbreviation (input) FEEDRATE_30_MM_S :: u32 where "FEEDRATE_30_MM_S \<equiv> 1800"

datatype bed_max_rule = Flat u16 | Voltage u16 u16

record safety_limits =
  lim_volume :: build_volume
  lim_nozzle_temp_max :: u16
  lim_bed_temp_max :: bed_max_rule
  lim_chamber_heater_temp_max :: "u16 option"
  lim_bed_on_z :: bool
  lim_max_feedrate_xy :: u32
  lim_max_feedrate_z :: u32

record model_quirks =
  q_volume :: build_volume
  q_nozzle_temp_max :: u16
  q_bed_temp_max :: bed_max_rule
  q_chamber_heater_temp_max :: "u16 option"
  q_bed_on_z :: bool
  q_max_feedrate_xy :: u32
  q_max_feedrate_z :: u32
  q_camera :: camera_protocol
  q_ams_pool :: ams_pool_composition
  q_dry :: dry_rule
  q_plaintext_ftps_data_channel :: bool
  q_ftps_tls_1_2 :: bool
  q_door :: door_sensor
  q_chamber_temperature_sensor :: bool
  q_nozzles :: nozzle_layout
  q_heatbed_thermal_calibration :: bool
  q_wallclock_rtsp_timestamps :: bool
  q_auxiliary_left_fan :: bool
  q_auxiliary_left2_fan :: bool
  q_chamber_exhaust_fan :: bool
  q_airduct_mode :: bool
  q_prompt_sound :: bool
  q_print_options_min_firmware :: "string option"
  q_store_sent_files :: bool
  q_ai_monitoring :: bool
  q_first_layer_inspect :: bool
  q_buzzer :: bool
  q_pa_calibration_bits_trusted :: bool
  q_auto_flow_calibration :: bool
  q_sliced_for :: "string list"

definition new_quirks :: "safety_limits \<Rightarrow> camera_protocol \<Rightarrow> ams_pool_composition \<Rightarrow> dry_rule \<Rightarrow> model_quirks" where
  "new_quirks limits camera ams_pool dry =
     \<lparr>q_volume = lim_volume limits,
      q_nozzle_temp_max = lim_nozzle_temp_max limits,
      q_bed_temp_max = lim_bed_temp_max limits,
      q_chamber_heater_temp_max = lim_chamber_heater_temp_max limits,
      q_bed_on_z = lim_bed_on_z limits,
      q_max_feedrate_xy = lim_max_feedrate_xy limits,
      q_max_feedrate_z = lim_max_feedrate_z limits,
      q_camera = camera,
      q_ams_pool = ams_pool,
      q_dry = dry,
      q_plaintext_ftps_data_channel = False,
      q_ftps_tls_1_2 = False,
      q_door = NoDoorSensor,
      q_chamber_temperature_sensor = False,
      q_nozzles = Single,
      q_heatbed_thermal_calibration = False,
      q_wallclock_rtsp_timestamps = False,
      q_auxiliary_left_fan = True,
      q_auxiliary_left2_fan = False,
      q_chamber_exhaust_fan = False,
      q_airduct_mode = False,
      q_prompt_sound = False,
      q_print_options_min_firmware = None,
      q_store_sent_files = False,
      q_ai_monitoring = False,
      q_first_layer_inspect = False,
      q_buzzer = False,
      q_pa_calibration_bits_trusted = True,
      q_auto_flow_calibration = False,
      q_sliced_for = []\<rparr>"

lemma new_quirks_select [simp]:
  "q_volume (new_quirks l c a d) = lim_volume l" "q_nozzle_temp_max (new_quirks l c a d) = lim_nozzle_temp_max l"
  "q_bed_temp_max (new_quirks l c a d) = lim_bed_temp_max l"
  "q_chamber_heater_temp_max (new_quirks l c a d) = lim_chamber_heater_temp_max l"
  "q_bed_on_z (new_quirks l c a d) = lim_bed_on_z l" "q_max_feedrate_xy (new_quirks l c a d) = lim_max_feedrate_xy l"
  "q_max_feedrate_z (new_quirks l c a d) = lim_max_feedrate_z l" "q_camera (new_quirks l c a d) = c"
  "q_ams_pool (new_quirks l c a d) = a" "q_dry (new_quirks l c a d) = d" "q_sliced_for (new_quirks l c a d) = []"
  by (simp_all add: new_quirks_def)

section \<open>The supported models\<close>

definition X1_P1_SLICED_FOR :: "string list" where
  "X1_P1_SLICED_FOR = [''BL-P001'', ''BL-P002'', ''C11'', ''C12'', ''C13'']"

definition UNKNOWN_quirks :: model_quirks where
  "UNKNOWN_quirks =
     new_quirks
       \<lparr>lim_volume = cube 180, lim_nozzle_temp_max = 300, lim_bed_temp_max = Flat 80,
        lim_chamber_heater_temp_max = None, lim_bed_on_z = True,
        lim_max_feedrate_xy = FEEDRATE_500_MM_S, lim_max_feedrate_z = FEEDRATE_20_MM_S\<rparr>
       Rtsps (Shared 4 NotSupported) Unstated"

definition a1_quirks :: "rat \<Rightarrow> u16 \<Rightarrow> string list \<Rightarrow> model_quirks" where
  "a1_quirks side bed sliced_for =
     (new_quirks
       \<lparr>lim_volume = cube side, lim_nozzle_temp_max = 300, lim_bed_temp_max = Flat bed,
        lim_chamber_heater_temp_max = None, lim_bed_on_z = False,
        lim_max_feedrate_xy = FEEDRATE_500_MM_S, lim_max_feedrate_z = FEEDRATE_30_MM_S\<rparr>
       BinaryJpeg (Shared 4 Exclusive) Never)
     \<lparr>q_sliced_for := sliced_for, q_plaintext_ftps_data_channel := True, q_prompt_sound := True,
      q_auxiliary_left_fan := False\<rparr>"

definition A1_quirks :: model_quirks where "A1_quirks = a1_quirks 256 100 [''N2S'']"

definition A1_MINI_quirks :: model_quirks where "A1_MINI_quirks = a1_quirks 180 80 [''N1'']"

definition A2L_quirks :: model_quirks where
  "A2L_quirks =
     (new_quirks
       \<lparr>lim_volume = \<lparr>bv_x = 330, bv_y = 320, bv_z = 325\<rparr>, lim_nozzle_temp_max = 300, lim_bed_temp_max = Flat 80,
        lim_chamber_heater_temp_max = None, lim_bed_on_z = False,
        lim_max_feedrate_xy = FEEDRATE_500_MM_S, lim_max_feedrate_z = FEEDRATE_30_MM_S\<rparr>
       BinaryJpeg (Shared 4 Additive) Always)
     \<lparr>q_prompt_sound := True, q_auxiliary_left_fan := False, q_auto_flow_calibration := True,
      q_sliced_for := [''N9'']\<rparr>"

definition h2_quirks :: "build_volume \<Rightarrow> nozzle_layout \<Rightarrow> string \<Rightarrow> string list \<Rightarrow> model_quirks" where
  "h2_quirks volume nozzles min_dry_firmware sliced_for =
     (new_quirks
       \<lparr>lim_volume = volume, lim_nozzle_temp_max = 350, lim_bed_temp_max = Flat 120,
        lim_chamber_heater_temp_max = Some 65, lim_bed_on_z = True,
        lim_max_feedrate_xy = FEEDRATE_1000_MM_S, lim_max_feedrate_z = FEEDRATE_30_MM_S\<rparr>
       Rtsps (Independent 4 8) (DryFirmware min_dry_firmware False))
     \<lparr>q_sliced_for := sliced_for, q_door := DoorStat, q_chamber_temperature_sensor := True, q_nozzles := nozzles,
      q_airduct_mode := True, q_store_sent_files := True, q_ai_monitoring := True, q_buzzer := True,
      q_chamber_exhaust_fan := True, q_auto_flow_calibration := True\<rparr>"

definition H2_DUAL_VOLUME :: build_volume where "H2_DUAL_VOLUME = \<lparr>bv_x = 300, bv_y = 320, bv_z = 325\<rparr>"

definition H2S_quirks :: model_quirks where
  "H2S_quirks = h2_quirks \<lparr>bv_x = 340, bv_y = 320, bv_z = 340\<rparr> Single ''01.02.00.00'' [''O1S'']"

definition H2D_quirks :: model_quirks where
  "H2D_quirks = h2_quirks H2_DUAL_VOLUME Dual ''01.03.00.00'' [''O1D'', ''O1E'']"

definition H2D_PRO_quirks :: model_quirks where
  "H2D_PRO_quirks = h2_quirks H2_DUAL_VOLUME Dual ''01.02.00.00'' [''O1E'', ''O1D'']"

definition H2C_quirks :: model_quirks where
  "H2C_quirks = h2_quirks H2_DUAL_VOLUME (Rack 7) ''01.02.00.00'' [''O1C'', ''O1C2'']"

definition P1S_BASE :: model_quirks where
  "P1S_BASE =
     new_quirks
       \<lparr>lim_volume = cube 256, lim_nozzle_temp_max = 300, lim_bed_temp_max = Flat 100,
        lim_chamber_heater_temp_max = None, lim_bed_on_z = True,
        lim_max_feedrate_xy = FEEDRATE_500_MM_S, lim_max_feedrate_z = FEEDRATE_20_MM_S\<rparr>
       BinaryJpeg (Shared 4 NotSupported) Never"

definition P1S_quirks :: model_quirks where
  "P1S_quirks = P1S_BASE\<lparr>q_pa_calibration_bits_trusted := False, q_sliced_for := X1_P1_SLICED_FOR\<rparr>"

definition P1P_quirks :: model_quirks where "P1P_quirks = P1S_quirks\<lparr>q_auxiliary_left_fan := False\<rparr>"

definition P2S_quirks :: model_quirks where
  "P2S_quirks =
     (new_quirks
       \<lparr>lim_volume = cube 256, lim_nozzle_temp_max = 300, lim_bed_temp_max = Flat 110,
        lim_chamber_heater_temp_max = None, lim_bed_on_z = True,
        lim_max_feedrate_xy = FEEDRATE_1000_MM_S, lim_max_feedrate_z = FEEDRATE_20_MM_S\<rparr>
       Rtsps (Independent 4 4) (DryFirmware ''01.02.00.00'' False))
     \<lparr>q_ftps_tls_1_2 := True, q_door := DoorStat, q_chamber_temperature_sensor := True,
      q_wallclock_rtsp_timestamps := True, q_auxiliary_left2_fan := True, q_airduct_mode := True,
      q_store_sent_files := True, q_ai_monitoring := True, q_auto_flow_calibration := True,
      q_sliced_for := [''N7'']\<rparr>"

definition X1C_quirks :: model_quirks where
  "X1C_quirks =
     (new_quirks
       \<lparr>lim_volume = cube 256, lim_nozzle_temp_max = 300, lim_bed_temp_max = Voltage 110 120,
        lim_chamber_heater_temp_max = None, lim_bed_on_z = True,
        lim_max_feedrate_xy = FEEDRATE_500_MM_S, lim_max_feedrate_z = FEEDRATE_20_MM_S\<rparr>
       Rtsps (Shared 4 NotSupported) Never)
     \<lparr>q_door := DoorHomeFlag, q_chamber_temperature_sensor := True,
      q_print_options_min_firmware := Some ''01.01.01.00'', q_store_sent_files := True, q_ai_monitoring := True,
      q_first_layer_inspect := True, q_sliced_for := X1_P1_SLICED_FOR\<rparr>"

definition X1_quirks :: model_quirks where "X1_quirks = X1C_quirks\<lparr>q_auxiliary_left_fan := False\<rparr>"

definition X1E_quirks :: model_quirks where
  "X1E_quirks =
     (new_quirks
       \<lparr>lim_volume = cube 256, lim_nozzle_temp_max = 320, lim_bed_temp_max = Flat 110,
        lim_chamber_heater_temp_max = Some 60, lim_bed_on_z = True,
        lim_max_feedrate_xy = FEEDRATE_500_MM_S, lim_max_feedrate_z = FEEDRATE_20_MM_S\<rparr>
       Rtsps (Shared 4 NotSupported) Unstated)
     \<lparr>q_door := DoorHomeFlag, q_chamber_temperature_sensor := True, q_ai_monitoring := True,
      q_first_layer_inspect := True, q_sliced_for := X1_P1_SLICED_FOR\<rparr>"

definition X2D_quirks :: model_quirks where
  "X2D_quirks =
     (new_quirks
       \<lparr>lim_volume = \<lparr>bv_x = 471 / 2, bv_y = 256, bv_z = 256\<rparr>, lim_nozzle_temp_max = 300,
        lim_bed_temp_max = Flat 120, lim_chamber_heater_temp_max = Some 65, lim_bed_on_z = True,
        lim_max_feedrate_xy = FEEDRATE_1000_MM_S, lim_max_feedrate_z = FEEDRATE_20_MM_S\<rparr>
       Rtsps (Independent 4 8) (DryFirmware ''01.01.00.00'' True))
     \<lparr>q_ftps_tls_1_2 := True, q_door := DoorStat, q_chamber_temperature_sensor := True, q_nozzles := Dual,
      q_auxiliary_left2_fan := True, q_airduct_mode := True, q_chamber_exhaust_fan := True,
      q_store_sent_files := True, q_ai_monitoring := True, q_auto_flow_calibration := True,
      q_sliced_for := [''N6'']\<rparr>"

section \<open>Questions about a model\<close>

definition accepts_sliced_for :: "model_quirks \<Rightarrow> string \<Rightarrow> bool" where
  "accepts_sliced_for q printer_model_id = list_ex (\<lambda>i. eq_ignore_ascii_case i printer_model_id) (q_sliced_for q)"

definition ftps_tls_versions :: "model_quirks \<Rightarrow> tls_versions" where
  "ftps_tls_versions q = (if q_ftps_tls_1_2 q then Tls12Only else TlsDefault)"

definition jog_feedrate :: "model_quirks \<Rightarrow> axis \<Rightarrow> u32" where
  "jog_feedrate q ax = (case ax of Z \<Rightarrow> JOG_FEEDRATE_Z | _ \<Rightarrow> JOG_FEEDRATE_XY)"

definition max_feedrate :: "model_quirks \<Rightarrow> axis \<Rightarrow> u32" where
  "max_feedrate q ax = (case ax of Z \<Rightarrow> q_max_feedrate_z q | _ \<Rightarrow> q_max_feedrate_xy q)"

definition physical_nozzle_count :: "model_quirks \<Rightarrow> nat" where
  "physical_nozzle_count q = nozzle_count (q_nozzles q)"

definition has_nozzle_rack :: "model_quirks \<Rightarrow> bool" where
  "has_nozzle_rack q = (case q_nozzles q of Rack _ \<Rightarrow> True | _ \<Rightarrow> False)"

definition supports_nozzle_offset_calibration :: "model_quirks \<Rightarrow> bool" where
  "supports_nozzle_offset_calibration q = (physical_nozzle_count q > 1)"

definition supported_calibration :: "model_quirks \<Rightarrow> calibration_option" where
  "supported_calibration q =
     (let s0 = BED_LEVELING OR VIBRATION_COMPENSATION OR MOTOR_NOISE_CANCELLATION;
          s1 = (if supports_nozzle_offset_calibration q then s0 OR NOZZLE_HEIGHT else s0)
      in if q_heatbed_thermal_calibration q then s1 OR HEATBED_THERMAL else s1)"

definition bed_temp_max :: "model_quirks \<Rightarrow> bool option \<Rightarrow> u16" where
  "bed_temp_max q mains_220v =
     (case q_bed_temp_max q of
        Flat m \<Rightarrow> m
      | Voltage v220 v110 \<Rightarrow>
          (case mains_220v of Some True \<Rightarrow> v220 | Some False \<Rightarrow> v110 | None \<Rightarrow> min v220 v110))"

definition quirks_temp_limits :: "model_quirks \<Rightarrow> bool option \<Rightarrow> temp_limits" where
  "quirks_temp_limits q mains_220v =
     \<lparr>nozzle_max = q_nozzle_temp_max q, bed_max = bed_temp_max q mains_220v,
      chamber_max = q_chamber_heater_temp_max q\<rparr>"

definition validate_gcode :: "model_quirks \<Rightarrow> string \<Rightarrow> bool option \<Rightarrow> error + unit" where
  "validate_gcode q gcode mains_220v = validate gcode (q_bed_on_z q) (Some (quirks_temp_limits q mains_220v))"

definition is_valid_nozzle_id :: "model_quirks \<Rightarrow> nat \<Rightarrow> bool" where
  "is_valid_nozzle_id q i =
     (if has_nozzle_rack q then i = 0 \<or> 16 \<le> i \<and> i \<le> 21 else i < physical_nozzle_count q)"

text \<open>\<open>{distance:.2}\<close>: hundredths, ties to even, of the magnitude, after the sign. A distance that is not finite is \<open>None\<close>.\<close>

definition fixed2 :: "rat \<Rightarrow> string" where
  "fixed2 d =
     (let h = nat (round_half_even (\<bar>d\<bar> * 100))
      in (if d < 0 then ''-'' else []) @ dec (h div 100) @ ''.'' @ dec (h mod 100 div 10) @ dec (h mod 10))"

definition nl :: string where "nl = [CHR 0x0A]"

definition format_move_gcode :: "axis \<Rightarrow> rat option \<Rightarrow> u32 \<Rightarrow> rat \<Rightarrow> string option" where
  "format_move_gcode ax distance feedrate axis_max =
     (case distance of
        None \<Rightarrow> None
      | Some d \<Rightarrow>
          if d = 0 \<or> \<bar>d\<bar> > axis_max then None
          else Some (case ax of
              Z \<Rightarrow> ''M211 S'' @ nl @ ''M211 X1 Y1 Z1'' @ nl @ ''M1002 push_ref_mode'' @ nl @ ''G91'' @ nl
                @ ''G0 Z'' @ fixed2 d @ '' F'' @ dec (unat feedrate) @ nl @ ''G90'' @ nl
                @ ''M1002 pop_ref_mode'' @ nl @ ''M211 R''
            | _ \<Rightarrow> ''G91'' @ nl @ ''G0 '' @ [axis_letter ax] @ fixed2 d @ '' F'' @ dec (unat feedrate) @ nl
                @ ''G90''))"

definition axis_travel :: "model_quirks \<Rightarrow> axis \<Rightarrow> rat" where
  "axis_travel q ax = (case ax of X \<Rightarrow> bv_x (q_volume q) | Y \<Rightarrow> bv_y (q_volume q) | Z \<Rightarrow> bv_z (q_volume q))"

definition relative_move_gcode :: "model_quirks \<Rightarrow> axis \<Rightarrow> rat option \<Rightarrow> u32 \<Rightarrow> string option" where
  "relative_move_gcode q ax distance feedrate = format_move_gcode ax distance feedrate (axis_travel q ax)"

definition fan_is_supported_by :: "model_quirks \<Rightarrow> fan_target \<Rightarrow> bool" where
  "fan_is_supported_by q fan =
     (case fan of
        PartCooling \<Rightarrow> True
      | AuxiliaryLeft \<Rightarrow> q_auxiliary_left_fan q
      | ChamberExhaust \<Rightarrow> q_chamber_exhaust_fan q
      | AuxiliaryLeft2 \<Rightarrow> q_auxiliary_left2_fan q)"

section \<open>Support of a feature\<close>

definition print_options_rule :: "model_quirks \<Rightarrow> quirk_context \<Rightarrow> support" where
  "print_options_rule q ctx =
     (case q_print_options_min_firmware q of
        None \<Rightarrow> Inferred True
      | Some mn \<Rightarrow> firmware_gate ctx mn (Assumed True))"

definition prompt_sound_support :: "model_quirks \<Rightarrow> quirk_context \<Rightarrow> support" where
  "prompt_sound_support q ctx =
     resolve_support \<lparr>sup_fun = Some 8, sup_fun2 = None, sup_home_flag = Some 18\<rparr> ctx (Inferred (q_prompt_sound q))"

definition auto_recovery_support :: "model_quirks \<Rightarrow> quirk_context \<Rightarrow> support" where
  "auto_recovery_support q ctx = print_options_rule q ctx"

definition filament_backup_support :: "model_quirks \<Rightarrow> quirk_context \<Rightarrow> support" where
  "filament_backup_support q ctx = print_options_rule q ctx"

definition filament_tangle_detect_support :: "model_quirks \<Rightarrow> quirk_context \<Rightarrow> support" where
  "filament_tangle_detect_support q ctx =
     resolve_support \<lparr>sup_fun = Some 9, sup_fun2 = None, sup_home_flag = Some 19\<rparr> ctx (Assumed False)"

definition nozzle_blob_detect_support :: "model_quirks \<Rightarrow> quirk_context \<Rightarrow> support" where
  "nozzle_blob_detect_support q ctx =
     resolve_support \<lparr>sup_fun = Some 13, sup_fun2 = None, sup_home_flag = Some 25\<rparr> ctx (Assumed False)"

definition smart_nozzle_blob_detect_support :: "model_quirks \<Rightarrow> quirk_context \<Rightarrow> support" where
  "smart_nozzle_blob_detect_support q ctx =
     resolve_support \<lparr>sup_fun = None, sup_fun2 = Some 15, sup_home_flag = None\<rparr> ctx (Assumed False)"

definition air_print_detect_support :: "model_quirks \<Rightarrow> quirk_context \<Rightarrow> support" where
  "air_print_detect_support q ctx =
     resolve_support \<lparr>sup_fun = None, sup_fun2 = None, sup_home_flag = Some 29\<rparr> ctx (Assumed False)"

definition air_purification_support :: "model_quirks \<Rightarrow> quirk_context \<Rightarrow> support" where
  "air_purification_support q ctx =
     resolve_support \<lparr>sup_fun = None, sup_fun2 = Some 4, sup_home_flag = None\<rparr> ctx (Assumed False)"

definition door_open_check_support :: "model_quirks \<Rightarrow> quirk_context \<Rightarrow> support" where
  "door_open_check_support q ctx =
     resolve_support \<lparr>sup_fun = Some 12, sup_fun2 = None, sup_home_flag = None\<rparr> ctx
       (Inferred (q_door q \<noteq> NoDoorSensor))"

definition idle_heating_protection_support :: "model_quirks \<Rightarrow> quirk_context \<Rightarrow> support" where
  "idle_heating_protection_support q ctx =
     resolve_support \<lparr>sup_fun = Some 62, sup_fun2 = None, sup_home_flag = None\<rparr> ctx (Assumed False)"

definition file_tunnel_support :: "model_quirks \<Rightarrow> quirk_context \<Rightarrow> support" where
  "file_tunnel_support q ctx =
     resolve_support \<lparr>sup_fun = Some 31, sup_fun2 = None, sup_home_flag = None\<rparr> ctx
       (if q_camera q = BinaryJpeg then Inferred False else Assumed True)"

definition reported_module :: "quirk_context \<Rightarrow> nat option \<Rightarrow> nat option \<Rightarrow> support" where
  "reported_module ctx in_fun in_fun2 =
     resolve_support \<lparr>sup_fun = in_fun, sup_fun2 = in_fun2, sup_home_flag = None\<rparr> ctx (Assumed False)"

definition xcam_module_support :: "model_quirks \<Rightarrow> xcam_module \<Rightarrow> quirk_context \<Rightarrow> support" where
  "xcam_module_support q m ctx =
     (if m = PrintingMonitor \<and> qc_xcam_cfg ctx \<noteq> None then Reported True
      else case m of
        FirstLayerInspector \<Rightarrow> Inferred (q_first_layer_inspect q)
      | SpaghettiDetector \<Rightarrow> reported_module ctx (Some 42) None
      | PileupDetector \<Rightarrow> reported_module ctx (Some 43) None
      | ClumpDetector \<Rightarrow> reported_module ctx (Some 44) None
      | AirprintDetector \<Rightarrow> reported_module ctx (Some 45) None
      | PlateOffsetSwitch \<Rightarrow> reported_module ctx None (Some 2)
      | FodCheck \<Rightarrow> reported_module ctx None (Some 13)
      | ModelMovementCheck \<Rightarrow> reported_module ctx None (Some 14)
      | _ \<Rightarrow> if q_ai_monitoring q then print_options_rule q ctx else Inferred False)"

definition pa_calibration_support :: "model_quirks \<Rightarrow> quirk_context \<Rightarrow> support" where
  "pa_calibration_support q ctx =
     (case qc_support_flow_calibration ctx of
        Some reported \<Rightarrow> Reported reported
      | None \<Rightarrow>
          if \<not> q_pa_calibration_bits_trusted q then Inferred False
          else resolve_support \<lparr>sup_fun = Some 7, sup_fun2 = None, sup_home_flag = Some 16\<rparr> ctx (Assumed False))"

definition pa_calibration_auto_support :: "model_quirks \<Rightarrow> quirk_context \<Rightarrow> support" where
  "pa_calibration_auto_support q ctx =
     (let calibration = pa_calibration_support q ctx
      in if is_supported calibration then Inferred (q_auto_flow_calibration q) else calibration)"

definition pa_mode_support :: "model_quirks \<Rightarrow> quirk_context \<Rightarrow> support" where
  "pa_mode_support q ctx =
     resolve_support \<lparr>sup_fun = None, sup_fun2 = Some 3, sup_home_flag = None\<rparr> ctx (Assumed False)"

definition light_support :: "model_quirks \<Rightarrow> led_node \<Rightarrow> quirk_context \<Rightarrow> support" where
  "light_support q node ctx =
     (if qc_reported_lights ctx AND light_bit node \<noteq> 0 then Reported True
      else if qc_lights_list_complete ctx then Reported False
      else Assumed True)"

definition k_profile_selection_support :: "model_quirks \<Rightarrow> quirk_context \<Rightarrow> support" where
  "k_profile_selection_support q ctx =
     (case qc_cali_version ctx of None \<Rightarrow> Assumed False | Some version \<Rightarrow> Reported (version > -1))"

definition ams_remote_drying_support :: "model_quirks \<Rightarrow> quirk_context \<Rightarrow> support" where
  "ams_remote_drying_support q ctx = dry_remote (q_dry q) ctx"

definition ams_drying_while_printing_support :: "model_quirks \<Rightarrow> quirk_context \<Rightarrow> support" where
  "ams_drying_while_printing_support q ctx = dry_while_printing (q_dry q) ctx"

section \<open>Fans\<close>

definition fan_step_to_percentage :: "u8 \<Rightarrow> u8" where
  "fan_step_to_percentage step =
     (if step \<ge> 15 then 100 else ucast ((ucast step * 100 + 7 :: u32) div 15))"

definition decode_fan_percentage :: "string option \<Rightarrow> u8 option" where
  "decode_fan_percentage raw =
     Option.bind raw (\<lambda>s. map_option (\<lambda>step. fan_step_to_percentage (of_nat step)) (parse_u8 s))"

record fan_speed_debouncer =
  last_stable_percentage :: u8
  consecutive_counts :: u8
  target_value :: u8

definition new_debouncer :: fan_speed_debouncer where
  "new_debouncer = \<lparr>last_stable_percentage = 0, consecutive_counts = 0, target_value = 0\<rparr>"

abbreviation (input) DEBOUNCE_BYPASS_DIFF_PCT :: int where "DEBOUNCE_BYPASS_DIFF_PCT \<equiv> 7"
abbreviation (input) DEBOUNCE_CONFIRM_FRAMES :: u8 where "DEBOUNCE_CONFIRM_FRAMES \<equiv> 3"

definition debounce :: "fan_speed_debouncer \<Rightarrow> u8 \<Rightarrow> u8 \<times> fan_speed_debouncer" where
  "debounce d incoming =
     (let diff = \<bar>uint incoming - uint (last_stable_percentage d)\<bar>;
          d' =
            (if diff \<le> DEBOUNCE_BYPASS_DIFF_PCT then
               if incoming = last_stable_percentage d
               then d\<lparr>consecutive_counts := 0, target_value := incoming\<rparr>
               else if incoming = target_value d
               then let n = consecutive_counts d + 1
                    in if n \<ge> DEBOUNCE_CONFIRM_FRAMES
                       then d\<lparr>last_stable_percentage := incoming, consecutive_counts := 0\<rparr>
                       else d\<lparr>consecutive_counts := n\<rparr>
               else d\<lparr>target_value := incoming, consecutive_counts := 1\<rparr>
             else \<lparr>last_stable_percentage = incoming, consecutive_counts = 0, target_value = incoming\<rparr>)
      in (last_stable_percentage d', d'))"

end
