(* ===== verification/Models.thy ===== *)
theory Models
  imports Quirks
begin

text \<open>
  The table of supported printers (\<open>src/models.rs\<close>): one row per model with its serial prefix, the tokens discovery
  reports for it, and its quirks; a model is resolved from a serial number or a token.
\<close>

section \<open>The table\<close>

datatype printer_model =
    X1C | X1 | X1E | X2D | A1Mini | A1 | A2L | P1P | P1S | P2S | H2D | H2DPro | H2C | H2S | UnknownModel

record model_spec =
  ms_model :: printer_model
  ms_display_name :: string
  ms_serial_prefix :: string
  ms_dev_tokens :: "string list"
  ms_quirks :: model_quirks

definition MODELS :: "model_spec list" where
  "MODELS =
     [\<lparr>ms_model = X1C, ms_display_name = ''X1C'', ms_serial_prefix = ''00M'',
       ms_dev_tokens = [''BL-P001'', ''X1C''], ms_quirks = X1C_quirks\<rparr>,
      \<lparr>ms_model = X1E, ms_display_name = ''X1E'', ms_serial_prefix = ''03W'',
       ms_dev_tokens = [''C13'', ''X1E''], ms_quirks = X1E_quirks\<rparr>,
      \<lparr>ms_model = X2D, ms_display_name = ''X2D'', ms_serial_prefix = ''20P'',
       ms_dev_tokens = [''N6'', ''X2D''], ms_quirks = X2D_quirks\<rparr>,
      \<lparr>ms_model = A1Mini, ms_display_name = ''A1 mini'', ms_serial_prefix = ''030'',
       ms_dev_tokens = [''N1'', ''A1 Mini'', ''A1Mini''], ms_quirks = A1_MINI_quirks\<rparr>,
      \<lparr>ms_model = A1, ms_display_name = ''A1'', ms_serial_prefix = ''039'',
       ms_dev_tokens = [''N2S'', ''A1''], ms_quirks = A1_quirks\<rparr>,
      \<lparr>ms_model = A2L, ms_display_name = ''A2L'', ms_serial_prefix = ''26A'',
       ms_dev_tokens = [''N9'', ''A2L''], ms_quirks = A2L_quirks\<rparr>,
      \<lparr>ms_model = P1P, ms_display_name = ''P1P'', ms_serial_prefix = ''01S'',
       ms_dev_tokens = [''C11'', ''P1P''], ms_quirks = P1P_quirks\<rparr>,
      \<lparr>ms_model = P1S, ms_display_name = ''P1S'', ms_serial_prefix = ''01P'',
       ms_dev_tokens = [''C12'', ''P1S''], ms_quirks = P1S_quirks\<rparr>,
      \<lparr>ms_model = P2S, ms_display_name = ''P2S'', ms_serial_prefix = ''22E'',
       ms_dev_tokens = [''N7'', ''P2S''], ms_quirks = P2S_quirks\<rparr>,
      \<lparr>ms_model = H2D, ms_display_name = ''H2D'', ms_serial_prefix = ''094'',
       ms_dev_tokens = [''O1D'', ''H2D''], ms_quirks = H2D_quirks\<rparr>,
      \<lparr>ms_model = H2DPro, ms_display_name = ''H2D Pro'', ms_serial_prefix = ''239'',
       ms_dev_tokens = [''O1E'', ''O2D'', ''H2D Pro'', ''H2DPro''], ms_quirks = H2D_PRO_quirks\<rparr>,
      \<lparr>ms_model = H2C, ms_display_name = ''H2C'', ms_serial_prefix = ''31B'',
       ms_dev_tokens = [''O1C'', ''O1C2'', ''H2C''], ms_quirks = H2C_quirks\<rparr>,
      \<lparr>ms_model = H2S, ms_display_name = ''H2S'', ms_serial_prefix = ''093'',
       ms_dev_tokens = [''O1S'', ''H2S''], ms_quirks = H2S_quirks\<rparr>,
      \<lparr>ms_model = X1, ms_display_name = ''X1'', ms_serial_prefix = ''00W'',
       ms_dev_tokens = [''BL-P002'', ''X1''], ms_quirks = X1_quirks\<rparr>]"

definition supported_models :: "printer_model list" where
  "supported_models = map ms_model MODELS"

definition model_row :: "printer_model \<Rightarrow> model_spec option" where
  "model_row m = find (\<lambda>r. ms_model r = m) MODELS"

definition model_display_name :: "printer_model \<Rightarrow> string" where
  "model_display_name m = (case model_row m of Some r \<Rightarrow> ms_display_name r | None \<Rightarrow> ''Unknown'')"

definition serial_prefix :: "printer_model \<Rightarrow> string option" where
  "serial_prefix m = map_option ms_serial_prefix (model_row m)"

definition quirks :: "printer_model \<Rightarrow> model_quirks" where
  "quirks m = (case model_row m of Some r \<Rightarrow> ms_quirks r | None \<Rightarrow> UNKNOWN_quirks)"

definition from_serial :: "string \<Rightarrow> printer_model option" where
  "from_serial serial =
     (case str_get_to 3 serial of
        None \<Rightarrow> None
      | Some p \<Rightarrow> map_option ms_model (find (\<lambda>r. eq_ignore_ascii_case p (ms_serial_prefix r)) MODELS))"

definition resolve_model :: "string \<Rightarrow> string option \<Rightarrow> printer_model" where
  "resolve_model serial dev_model =
     (case from_serial serial of
        Some m \<Rightarrow> m
      | None \<Rightarrow>
          (case Option.bind dev_model
              (\<lambda>m. find (\<lambda>r. list_ex (eq_ignore_ascii_case m) (ms_dev_tokens r)) MODELS) of
             Some r \<Rightarrow> ms_model r
           | None \<Rightarrow> UnknownModel))"

section \<open>Rows and keys\<close>

lemma find_key:
  assumes "distinct (concat (map keys xs))"
  shows "find (\<lambda>x. k \<in> set (keys x)) xs = Some x \<longleftrightarrow> x \<in> set xs \<and> k \<in> set (keys x)"
  using assms
proof (induction xs)
  case (Cons y ys)
  show ?case
  proof (cases "k \<in> set (keys y)")
    case True
    with Cons.prems have "z \<in> set ys \<Longrightarrow> k \<notin> set (keys z)" for z by auto
    with True show ?thesis by auto
  next
    case False
    with Cons show ?thesis by auto
  qed
qed simp

definition row_tokens :: "model_spec \<Rightarrow> string list" where
  "row_tokens r = map (map to_ascii_lower) (ms_dev_tokens r)"

definition row_prefix :: "model_spec \<Rightarrow> string list" where
  "row_prefix r = [map to_ascii_lower (ms_serial_prefix r)]"

lemma list_ex_eq_ignore: "list_ex (eq_ignore_ascii_case m) ts \<longleftrightarrow> map to_ascii_lower m \<in> set (map (map to_ascii_lower) ts)"
  by (induction ts) (auto simp: eq_ignore_ascii_case_def)

lemmas lower_defs = to_ascii_lower_def is_ascii_upper_def char_of_def bit_0

lemma prefixes_distinct: "distinct (concat (map row_prefix MODELS))"
  by (simp add: MODELS_def row_prefix_def lower_defs)

lemma tokens_distinct: "distinct (concat (map row_tokens MODELS))"
  by (simp add: MODELS_def row_tokens_def lower_defs)

lemma models_distinct: "distinct (concat (map (\<lambda>r. [ms_model r]) MODELS))"
  by (simp add: MODELS_def)

lemma every_model: "(\<exists>r \<in> set MODELS. ms_model r = m) \<longleftrightarrow> m \<noteq> UnknownModel"
  by (cases m) (simp_all add: MODELS_def)

end
