(* ===== verification/ModelsProps.thy ===== *)
theory ModelsProps
  imports GcodeProps Models
begin

text \<open>
  What the model table and the quirks engine promise: a printer is recognised by exactly one row, an unrecognised one
  gets limits no supported printer is below, and firmware versions, fan readings and drying follow their rules.
\<close>

section \<open>Resolving a model\<close>

lemma model_row_iff: "model_row m = Some r \<longleftrightarrow> r \<in> set MODELS \<and> ms_model r = m"
proof -
  have eq: "(\<lambda>r. ms_model r = m) = (\<lambda>r. m \<in> set [ms_model r])" by auto
  show ?thesis unfolding model_row_def eq find_key [OF models_distinct] by auto
qed

lemma model_row_self: "r \<in> set MODELS \<Longrightarrow> model_row (ms_model r) = Some r"
  by (simp add: model_row_iff)

lemma model_row_None: "model_row m = None \<longleftrightarrow> m = UnknownModel"
  using every_model [of m] by (auto simp: model_row_def find_None_iff)

lemma from_serial_iff:
  "from_serial s = Some m \<longleftrightarrow>
     (\<exists>p q. str_get_to 3 s = Some p \<and> serial_prefix m = Some q \<and> eq_ignore_ascii_case p q)"
proof -
  have "(\<lambda>r. eq_ignore_ascii_case p (ms_serial_prefix r)) = (\<lambda>r. map to_ascii_lower p \<in> set (row_prefix r))" for p
    by (auto simp: eq_ignore_ascii_case_def row_prefix_def)
  then have "find (\<lambda>r. eq_ignore_ascii_case p (ms_serial_prefix r)) MODELS = Some r
      \<longleftrightarrow> r \<in> set MODELS \<and> eq_ignore_ascii_case p (ms_serial_prefix r)" for p r
    using find_key [OF prefixes_distinct, of "map to_ascii_lower p" r]
    by (simp add: eq_ignore_ascii_case_def row_prefix_def)
  then show ?thesis
    by (auto simp: from_serial_def serial_prefix_def model_row_iff split: option.splits)
qed

definition claims_token :: "printer_model \<Rightarrow> string \<Rightarrow> bool" where
  "claims_token m t = (case model_row m of None \<Rightarrow> False | Some r \<Rightarrow> list_ex (eq_ignore_ascii_case t) (ms_dev_tokens r))"

lemma token_row_iff:
  "find (\<lambda>r. list_ex (eq_ignore_ascii_case t) (ms_dev_tokens r)) MODELS = Some r
     \<longleftrightarrow> r \<in> set MODELS \<and> list_ex (eq_ignore_ascii_case t) (ms_dev_tokens r)"
  using find_key [OF tokens_distinct, of "map to_ascii_lower t" r] by (simp add: list_ex_eq_ignore row_tokens_def)

lemma token_model_iff:
  "map_option ms_model (find (\<lambda>r. list_ex (eq_ignore_ascii_case t) (ms_dev_tokens r)) MODELS) = Some m
     \<longleftrightarrow> claims_token m t"
proof (cases "model_row m")
  case None
  then have "m = UnknownModel" by (simp add: model_row_None)
  with None every_model [of UnknownModel] show ?thesis by (auto simp: claims_token_def token_row_iff)
next
  case (Some r)
  have "r' = r" if "r' \<in> set MODELS" "ms_model r' = m" for r'
    using model_row_self [OF that(1)] Some that(2) by simp
  moreover from Some have "r \<in> set MODELS" "ms_model r = m" by (simp_all add: model_row_iff)
  ultimately show ?thesis
  proof (intro iffI)
    assume "map_option ms_model (find (\<lambda>r. list_ex (eq_ignore_ascii_case t) (ms_dev_tokens r)) MODELS) = Some m"
    then obtain z where "z \<in> set MODELS" "list_ex (eq_ignore_ascii_case t) (ms_dev_tokens z)" "ms_model z = m"
      by (auto simp: token_row_iff)
    with \<open>\<And>r'. r' \<in> set MODELS \<Longrightarrow> ms_model r' = m \<Longrightarrow> r' = r\<close> show "claims_token m t"
      by (simp add: claims_token_def Some)
  next
    assume "claims_token m t"
    with \<open>r \<in> set MODELS\<close> \<open>ms_model r = m\<close> token_row_iff [of t r]
    show "map_option ms_model (find (\<lambda>r. list_ex (eq_ignore_ascii_case t) (ms_dev_tokens r)) MODELS) = Some m"
      by (simp add: claims_token_def Some)
  qed
qed

lemma resolve_model_iff:
  assumes "m \<noteq> UnknownModel"
  shows "resolve_model s dev = m \<longleftrightarrow>
    from_serial s = Some m \<or> from_serial s = None \<and> (\<exists>t. dev = Some t \<and> claims_token m t)"
proof (cases "from_serial s")
  case None
  show ?thesis
  proof (cases dev)
    case (Some t)
    with None assms token_model_iff [of t m] show ?thesis
      by (auto simp: resolve_model_def split: option.splits)
  qed (use None assms in \<open>simp add: resolve_model_def\<close>)
qed (simp add: resolve_model_def)

lemmas model_defs = UNKNOWN_quirks_def X1C_quirks_def X1_quirks_def X1E_quirks_def X2D_quirks_def A1_MINI_quirks_def A1_quirks_def
  A2L_quirks_def P1P_quirks_def P1S_quirks_def P2S_quirks_def H2D_quirks_def H2D_PRO_quirks_def H2C_quirks_def
  H2S_quirks_def P1S_BASE_def h2_quirks_def a1_quirks_def X1_P1_SLICED_FOR_def

lemma lower_tokens:
  "concat (map row_tokens MODELS) =
     [''bl-p001'', ''x1c'', ''c13'', ''x1e'', ''n6'', ''x2d'', ''n1'', ''a1 mini'', ''a1mini'', ''n2s'',
      ''a1'', ''n9'', ''a2l'', ''c11'', ''p1p'', ''c12'', ''p1s'', ''n7'', ''p2s'', ''o1d'', ''h2d'', ''o1e'',
      ''o2d'', ''h2d pro'', ''h2dpro'', ''o1c'', ''o1c2'', ''h2c'', ''o1s'', ''h2s'', ''bl-p002'', ''x1'']"
  by (simp add: MODELS_def row_tokens_def lower_defs)

lemma sliced_fors:
  "map (\<lambda>r. q_sliced_for (ms_quirks r)) MODELS =
     [X1_P1_SLICED_FOR, X1_P1_SLICED_FOR, [''N6''], [''N1''], [''N2S''], [''N9''], X1_P1_SLICED_FOR, X1_P1_SLICED_FOR,
      [''N7''], [''O1D'', ''O1E''], [''O1E'', ''O1D''], [''O1C'', ''O1C2''], [''O1S''], X1_P1_SLICED_FOR]"
  by (simp add: MODELS_def model_defs)

text \<open>A serial number decides the model by its first three characters alone, whatever discovery says; only when
  none of the prefixes fits does the reported token decide, and no serial or token belongs to two models. Every id a
  model accepts sliced files for is the token of a supported printer.\<close>

theorem model_resolved_by_one_row:
  "(from_serial s = Some m \<longleftrightarrow>
      (\<exists>p q. str_get_to 3 s = Some p \<and> serial_prefix m = Some q \<and> eq_ignore_ascii_case p q))
   \<and> (resolve_model s dev =
        (case from_serial s of
           Some k \<Rightarrow> k
         | None \<Rightarrow> resolve_model [] dev))
   \<and> (claims_token m t = (m \<noteq> UnknownModel \<and> resolve_model [] (Some t) = m))
   \<and> list_all (\<lambda>r. list_all (\<lambda>i. resolve_model [] (Some i) \<noteq> UnknownModel) (q_sliced_for (ms_quirks r))) MODELS"
proof (intro conjI)
  have none: "from_serial [] = None" by (simp add: from_serial_def str_get_to_def)
  show "(from_serial s = Some m) = (\<exists>p q. str_get_to 3 s = Some p \<and> serial_prefix m = Some q \<and> eq_ignore_ascii_case p q)"
    by (rule from_serial_iff)
  show "resolve_model s dev = (case from_serial s of Some k \<Rightarrow> k | None \<Rightarrow> resolve_model [] dev)"
    by (simp add: resolve_model_def none split: option.split)
  show "claims_token m t = (m \<noteq> UnknownModel \<and> resolve_model [] (Some t) = m)"
  proof (cases "m = UnknownModel")
    case True
    then have "model_row m = None" by (simp add: model_row_None)
    with True show ?thesis by (simp add: claims_token_def)
  qed (simp add: resolve_model_iff none)
  let ?known = "\<lambda>i. map to_ascii_lower i \<in> set (concat (map row_tokens MODELS))"
  have "list_all ?known X1_P1_SLICED_FOR"
    unfolding lower_tokens X1_P1_SLICED_FOR_def by code_simp
  moreover have "list_all (list_all ?known) [[''N6''], [''N1''], [''N2S''], [''N9''], [''N7''], [''O1D'', ''O1E''],
      [''O1E'', ''O1D''], [''O1C'', ''O1C2''], [''O1S'']]"
    unfolding lower_tokens by code_simp
  ultimately have "list_all (list_all ?known) (map (\<lambda>r. q_sliced_for (ms_quirks r)) MODELS)"
    unfolding sliced_fors by simp
  then have claimed: "\<exists>r' \<in> set MODELS. list_ex (eq_ignore_ascii_case i) (ms_dev_tokens r')"
    if "r \<in> set MODELS" "i \<in> set (q_sliced_for (ms_quirks r))" for r i
    using that by (simp add: list_all_iff list_ex_eq_ignore row_tokens_def)
  have "resolve_model [] (Some i) \<noteq> UnknownModel" if "r \<in> set MODELS" "i \<in> set (q_sliced_for (ms_quirks r))" for r i
  proof -
    from claimed [OF that] obtain z
      where "find (\<lambda>r. list_ex (eq_ignore_ascii_case i) (ms_dev_tokens r)) MODELS = Some z"
      by (metis find_None_iff not_Some_eq)
    moreover from this have "ms_model z \<noteq> UnknownModel" using every_model [of UnknownModel] by (auto simp: token_row_iff)
    ultimately show ?thesis by (simp add: resolve_model_def none)
  qed
  then show "list_all (\<lambda>r. list_all (\<lambda>i. resolve_model [] (Some i) \<noteq> UnknownModel) (q_sliced_for (ms_quirks r))) MODELS"
    by (simp add: list_all_iff)
qed

end
