(* ===== verification/QuirksProps.thy ===== *)
theory QuirksProps
  imports GcodeProps Models
begin

text \<open>
  What the quirks engine promises: an unrecognised printer gets limits no supported printer is below, firmware versions
  are ordered by their components, and fan readings are steady.
\<close>

section \<open>Limits\<close>

lemma model_row_values:
  "quirks X1C = X1C_quirks" "quirks X1 = X1_quirks" "quirks X1E = X1E_quirks" "quirks X2D = X2D_quirks"
  "quirks A1Mini = A1_MINI_quirks" "quirks A1 = A1_quirks" "quirks A2L = A2L_quirks" "quirks P1P = P1P_quirks"
  "quirks P1S = P1S_quirks" "quirks P2S = P2S_quirks" "quirks H2D = H2D_quirks" "quirks H2DPro = H2D_PRO_quirks"
  "quirks H2C = H2C_quirks" "quirks H2S = H2S_quirks" "quirks UnknownModel = UNKNOWN_quirks"
  by (simp_all add: quirks_def model_row_def MODELS_def)

lemmas model_quirks_defs = UNKNOWN_quirks_def X1C_quirks_def X1_quirks_def X1E_quirks_def X2D_quirks_def
  A1_MINI_quirks_def A1_quirks_def A2L_quirks_def P1P_quirks_def P1S_quirks_def P2S_quirks_def H2D_quirks_def
  H2D_PRO_quirks_def H2C_quirks_def H2S_quirks_def P1S_BASE_def h2_quirks_def a1_quirks_def cube_def H2_DUAL_VOLUME_def

definition limits_within :: "temp_limits \<Rightarrow> temp_limits \<Rightarrow> bool" where
  "limits_within t t' \<longleftrightarrow> nozzle_max t \<le> nozzle_max t' \<and> bed_max t \<le> bed_max t' \<and> chamber_max t = None"

lemma unknown_limits: "limits_within (quirks_temp_limits (quirks UnknownModel) v) (quirks_temp_limits (quirks m) v')"
  by (cases m)
    (simp_all add: limits_within_def quirks_temp_limits_def bed_temp_max_def model_row_values model_quirks_defs
      split: option.split bool.split)

lemma unknown_travel: "axis_travel (quirks UnknownModel) ax \<le> axis_travel (quirks m) ax"
  by (cases m; cases ax) (simp_all add: axis_travel_def model_row_values model_quirks_defs)

lemma unknown_feedrate: "max_feedrate (quirks UnknownModel) ax \<le> max_feedrate (quirks m) ax"
  by (cases m; cases ax) (simp_all add: max_feedrate_def model_row_values model_quirks_defs)

lemma unknown_bed: "q_bed_on_z (quirks UnknownModel)"
  by (simp add: model_row_values model_quirks_defs)

section \<open>A script safe under tighter limits is safe\<close>

lemma within_limit_mono: "within_limit w l \<Longrightarrow> l \<le> l' \<Longrightarrow> within_limit w l'"
proof -
  assume a: "within_limit w l" "l \<le> l'"
  then have "unat l \<le> unat l'" by (simp add: word_le_nat_alt)
  then have "(of_nat (unat l) :: rat) \<le> of_nat (unat l')" by (rule of_nat_mono)
  with a(1) show "within_limit w l'" by (auto simp: within_limit_def split: option.splits)
qed

definition no_chamber_command :: "gword list \<Rightarrow> bool" where
  "no_chamber_command pre \<longleftrightarrow> command_in_force pre \<notin> {Some (CHR ''M'', 141), Some (CHR ''M'', 191)}"

lemma heater_argument_mono:
  assumes "limits_within t t'" "n \<notin> {141, 191}"
  shows "rel_option (\<lambda>(l, a) (l', b). l \<le> l') (heater_argument t n c) (heater_argument t' n c)"
  using assms by (auto simp: heater_argument_def limits_within_def)

lemma word_safe_mono:
  assumes "word_safe True (Some t) pre w" "limits_within t t'" "no_chamber_command pre"
  shows "word_safe r (Some t') pre w"
proof (cases "letter w \<in> {CHR ''G'', CHR ''M''}")
  case True
  with assms(1,2) show ?thesis by (auto simp: word_safe_def no_chamber_heater_def limits_within_def)
next
  case False
  show ?thesis
  proof (cases "\<exists>n. command_in_force pre = Some (CHR ''M'', n)")
    case True
    then obtain n where n: "command_in_force pre = Some (CHR ''M'', n)" by blast
    with assms(3) have "n \<notin> {141, 191}" by (simp add: no_chamber_command_def)
    from heater_argument_mono [OF assms(2) this, of "letter w"] False assms(1) n show ?thesis
      by (auto simp: word_safe_def option_rel_Some1 option_rel_Some2 intro: within_limit_mono split: option.splits)
  next
    case no: False
    with False assms(1) show ?thesis by (auto simp: word_safe_def split: option.splits)
  qed
qed

lemma words_safe_mono:
  assumes "words_safe True (Some t) pre ws" "limits_within t t'" "no_chamber_command pre"
  shows "words_safe r (Some t') pre ws"
  using assms(1,3)
proof (induction ws arbitrary: pre)
  case (Cons w ws)
  then have w: "word_safe True (Some t) pre w" by simp
  have "no_chamber_command (pre @ [w])"
    using w Cons.prems(2) assms(2)
    by (auto simp: no_chamber_command_def command_in_force_snoc word_safe_def no_chamber_heater_def limits_within_def
        is_command_def)
  with Cons word_safe_mono [OF w assms(2)] show ?case by simp
qed simp

lemma validate_mono:
  assumes "validate g True (Some t) = Inr ()" "limits_within t t'"
  shows "validate g r (Some t') = Inr ()"
proof -
  have "statement_safe True (Some t) line \<Longrightarrow> statement_safe r (Some t') line" for line
    using words_safe_mono [OF _ assms(2)] by (auto simp: statement_safe_def no_chamber_command_def command_in_force_def)
  with assms(1) show ?thesis by (auto simp: validate_def validate_lines_iff list_all_iff)
qed

text \<open>C14. A printer the crate does not recognise is treated no less carefully than any printer it supports: a script
  accepted for it is accepted for every model at every mains voltage, a move it may make is the same move on every
  model, and its feed rates are at most theirs.\<close>

theorem unknown_model_conservative:
  assumes "validate_gcode (quirks UnknownModel) gcode v = Inr ()"
    and "relative_move_gcode (quirks UnknownModel) ax distance feedrate = Some move"
  shows "validate_gcode (quirks m) gcode v' = Inr ()
    \<and> relative_move_gcode (quirks m) ax distance feedrate = Some move
    \<and> max_feedrate (quirks UnknownModel) ax \<le> max_feedrate (quirks m) ax"
proof (intro conjI)
  show "validate_gcode (quirks m) gcode v' = Inr ()"
    using assms(1) validate_mono [OF _ unknown_limits] by (simp add: validate_gcode_def unknown_bed)
  from assms(2) unknown_travel [of ax m]
  show "relative_move_gcode (quirks m) ax distance feedrate = Some move"
    by (auto simp: relative_move_gcode_def format_move_gcode_def split: option.splits if_splits)
  show "max_feedrate (quirks UnknownModel) ax \<le> max_feedrate (quirks m) ax" by (rule unknown_feedrate)
qed

theorem unknown_model_conservative_witness:
  "validate_gcode (quirks H2D) ''M104 S220'' None = Inr ()
   \<and> relative_move_gcode (quirks H2D) X (Some 10) 3000 = Some (''G91'' @ nl @ ''G0 X10.00 F3000'' @ nl @ ''G90'')"
proof -
  let ?m = "\<lparr>letter = CHR ''M'', arg = ''104'', ambiguous = False\<rparr>"
  let ?s = "\<lparr>letter = CHR ''S'', arg = ''220'', ambiguous = False\<rparr>"
  have e: "executable ''M104 S220'' = ''M104 S220''" by (subst executable.simps) simp
  have n: "words [] = []" by (subst words.simps) simp
  have w2: "words '' S220'' = [?s]"
    by (subst words.simps) (simp add: n ascii_defs is_numeric_char_def is_blank_def to_ascii_upper_def)
  have w: "words ''M104 S220'' = [?m, ?s]"
    by (subst words.simps) (simp add: w2 ascii_defs is_numeric_char_def is_blank_def to_ascii_upper_def)
  have l: "gcode_lines ''M104 S220'' = [''M104 S220'']" by (simp add: gcode_lines_def)
  have f: "parse_finite_f32 ''220'' = Some 220"
    using f32_whole_exact [of 220]
    by (simp add: parse_finite_f32_def parse_decimal_def decimal_magnitude_def is_ascii_digit_def
        digits_value_def digit_value_def)
  have v: "validate_gcode (quirks UnknownModel) ''M104 S220'' None = Inr ()"
    by (simp add: validate_gcode_def model_row_values UNKNOWN_quirks_def quirks_temp_limits_def bed_temp_max_def
        validate_def l e scan_statement_def w word_command_def command_number_def parse_unsigned_def
        is_ascii_digit_def digits_value_def digit_value_def heater_argument_def check_temp_def f)
  have r: "relative_move_gcode (quirks UnknownModel) X (Some 10) 3000
      = Some (''G91'' @ nl @ ''G0 X10.00 F3000'' @ nl @ ''G90'')"
    by (simp add: model_row_values UNKNOWN_quirks_def relative_move_gcode_def format_move_gcode_def axis_travel_def
        cube_def fixed2_def round_half_even_def Let_def dec.simps char_of_def bit_0)
  from unknown_model_conservative [OF v r, of H2D None] show ?thesis by simp
qed

section \<open>Firmware versions\<close>

fun version_parts :: "nat \<Rightarrow> string list \<Rightarrow> nat list option" where
  "version_parts 0 ps = Some []"
| "version_parts (Suc n) ps =
     (case component (next_part ps) of
        None \<Rightarrow> None
      | Some c \<Rightarrow> map_option (\<lambda>cs. c # cs) (version_parts n (tl ps)))"

text \<open>The version as one number: its components are the digits, in base \<open>2^32\<close>.\<close>

fun digits_number :: "nat list \<Rightarrow> nat" where
  "digits_number [] = 0"
| "digits_number (c # cs) = c * 4294967296 ^ length cs + digits_number cs"

definition version_number :: "string \<Rightarrow> nat option" where
  "version_number s = map_option digits_number (version_parts 4 (split_on (\<lambda>c. c = CHR ''.'') (trim s)))"

lemma four: "(4 :: nat) = Suc (Suc (Suc (Suc 0)))"
  by simp

lemma component_bound: "component p = Some c \<Longrightarrow> c < 4294967296"
  by (auto simp: component_def dest: parse_unsigned_bound split: option.splits if_splits)

lemma version_parts_bound:
  "version_parts n ps = Some v \<Longrightarrow> length v = n \<and> digits_number v < 4294967296 ^ n"
proof (induction n arbitrary: ps v)
  case (Suc n)
  then obtain c cs where c: "component (next_part ps) = Some c" "version_parts n (tl ps) = Some cs" "v = c # cs"
    by (auto split: option.splits)
  from Suc.IH [OF c(2)] have cs: "length cs = n" "digits_number cs < 4294967296 ^ n" by auto
  have "c * 4294967296 ^ n + digits_number cs < Suc c * 4294967296 ^ n" using cs(2) by simp
  also have "\<dots> \<le> 4294967296 * 4294967296 ^ n" using component_bound [OF c(1)] by (intro mult_le_mono1) simp
  finally show ?case using cs(1) c(3) by simp
qed simp

lemma digit_order:
  assumes "x < B" "y < (B :: nat)"
  shows "w * B + y \<le> h * B + x \<longleftrightarrow> (if h \<noteq> w then h > w else y \<le> x)"
proof (cases h w rule: linorder_cases)
  case less
  then have "Suc h * B \<le> w * B" by (intro mult_le_mono1) simp
  with less assms show ?thesis by simp
next
  case greater
  then have "Suc w * B \<le> h * B" by (intro mult_le_mono1) simp
  with greater assms show ?thesis by simp
qed simp

lemma firmware_loop_number:
  "version_parts n hs = Some v \<Longrightarrow> version_parts n ws = Some w \<Longrightarrow>
     firmware_loop n hs ws \<longleftrightarrow> digits_number w \<le> digits_number v"
proof (induction n arbitrary: hs ws v w)
  case (Suc n)
  from Suc.prems obtain a as b bs where
    a: "component (next_part hs) = Some a" "version_parts n (tl hs) = Some as" "v = a # as" and
    b: "component (next_part ws) = Some b" "version_parts n (tl ws) = Some bs" "w = b # bs"
    by (auto split: option.splits)
  from version_parts_bound [OF a(2)] version_parts_bound [OF b(2)]
  have "digits_number as < 4294967296 ^ n" "digits_number bs < 4294967296 ^ n" "length as = n" "length bs = n" by auto
  with digit_order [of "digits_number as" "4294967296 ^ n" "digits_number bs" b a] Suc.IH [OF a(2) b(2)] a b
  show ?case by simp
qed simp

text \<open>Versions that can be read are compared as the numbers they spell, component by component, so the order is
  total and does not depend on how the components are padded; a component missing at the end reads as zero.\<close>

theorem firmware_order_numeric:
  assumes "version_number have = Some v" "version_number want = Some w"
  shows "firmware_at_least have want \<longleftrightarrow> w \<le> v"
  using assms firmware_loop_number by (auto simp: version_number_def firmware_at_least_def)

theorem firmware_order_numeric_witness: "firmware_at_least ''1.10'' ''01.09.00.00''"
proof -
  have "version_number ''1.10'' = Some (1 * 4294967296 ^ 3 + 10 * 4294967296 ^ 2)"
    unfolding version_number_def four
    by (simp add: trim_id component_def next_part_def parse_unsigned_def is_ascii_digit_def digits_value_def
        digit_value_def)
  moreover have "version_number ''01.09.00.00'' = Some (1 * 4294967296 ^ 3 + 9 * 4294967296 ^ 2)"
    unfolding version_number_def four
    by (simp add: trim_id component_def next_part_def parse_unsigned_def is_ascii_digit_def digits_value_def
        digit_value_def)
  ultimately show ?thesis using firmware_order_numeric by simp
qed

text \<open>A component that is no number is not always a reason to say no: an earlier component may decide first.\<close>

lemma firmware_unread_component: "firmware_at_least ''02.beta'' ''01.09.00.00''"
  unfolding firmware_at_least_def four
  by (simp add: trim_id component_def next_part_def parse_unsigned_def is_ascii_digit_def digits_value_def
      digit_value_def)

section \<open>Fans\<close>

lemma fan_step_nearest: "\<bar>15 * uint (fan_step_to_percentage s) - 100 * min 15 (uint s)\<bar> \<le> 7"
proof (cases "15 \<le> s")
  case False
  then have "unat s \<in> {0..<15}" by (simp add: word_le_nat_alt)
  moreover have "s = word_of_nat (unat s)" by simp
  ultimately have "s \<in> set (map word_of_nat [0..<15])" unfolding set_map set_upt by (rule rev_image_eqI)
  moreover have "list_all (\<lambda>s. \<bar>15 * uint (fan_step_to_percentage s) - 100 * min 15 (uint s)\<bar> \<le> 7)
      (map word_of_nat [0..<15])"
    by code_simp
  ultimately show ?thesis unfolding list_all_iff by blast
qed (simp add: fan_step_to_percentage_def word_le_def)

definition after_readings :: "u8 list \<Rightarrow> fan_speed_debouncer" where
  "after_readings xs = fold (\<lambda>x d. snd (debounce d x)) xs new_debouncer"

definition shown :: "u8 list \<Rightarrow> u8" where
  "shown xs = last_stable_percentage (after_readings xs)"

definition counts_trailing :: "u8 list \<Rightarrow> fan_speed_debouncer \<Rightarrow> bool" where
  "counts_trailing xs d \<longleftrightarrow>
     consecutive_counts d < 3 \<and> (\<exists>zs. xs = zs @ replicate (unat (consecutive_counts d)) (target_value d))"

lemma replicate_2: "replicate 2 a = [a, a]"
  by (simp add: numeral_2_eq_2)

lemma count_cases: "(n :: u8) < 3 \<Longrightarrow> n = 0 \<or> n = 1 \<or> n = 2"
proof -
  assume "n < 3"
  then have "unat n < 3" by (simp add: word_less_nat_alt)
  then have "unat n = unat (0 :: u8) \<or> unat n = unat (1 :: u8) \<or> unat n = unat (2 :: u8)" by auto
  then show ?thesis by (simp only: word_eq_iff_unat)
qed

lemma debounce_trailing:
  assumes "counts_trailing xs d"
  shows "counts_trailing (xs @ [x]) (snd (debounce d x))"
proof -
  from assms obtain zs where zs: "xs = zs @ replicate (unat (consecutive_counts d)) (target_value d)"
    and n: "consecutive_counts d < 3" by (auto simp: counts_trailing_def)
  from count_cases [OF n] zs show ?thesis
    by (auto simp: counts_trailing_def debounce_def Let_def replicate_2)
qed

lemma after_readings_snoc: "after_readings (xs @ [x]) = snd (debounce (after_readings xs) x)"
  by (simp add: after_readings_def)

lemma after_readings_trailing: "counts_trailing xs (after_readings xs)"
proof (induction xs rule: rev_induct)
  case Nil
  show ?case by (simp add: after_readings_def counts_trailing_def new_debouncer_def)
next
  case (snoc x xs)
  from debounce_trailing [OF this] show ?case by (simp add: after_readings_snoc)
qed

definition awaiting :: "u8 \<Rightarrow> u8 \<Rightarrow> fan_speed_debouncer \<Rightarrow> bool" where
  "awaiting n x d \<longleftrightarrow>
     last_stable_percentage d = x \<or>
     target_value d = x \<and> consecutive_counts d \<in> {n, 2} \<and> \<bar>uint x - uint (last_stable_percentage d)\<bar> \<le> 7"

lemma awaiting_steps:
  assumes "consecutive_counts d < 3"
  shows "awaiting 1 x (snd (debounce d x))"
    and "awaiting 1 x d \<Longrightarrow> awaiting 2 x (snd (debounce d x))"
    and "awaiting 2 x d \<Longrightarrow> last_stable_percentage (snd (debounce d x)) = x"
  using count_cases [OF assms] by (auto simp: awaiting_def debounce_def Let_def word_le_def)

text \<open>The fan speed that is shown jumps at once to a reading more than seven points away; a nearer reading is shown
  only when it came three times in a row, and then it is shown for certain.\<close>

theorem fan_reading_confirmed:
  "(if \<bar>uint x - uint (shown xs)\<bar> > 7 then shown (xs @ [x]) = x
    else shown (xs @ [x]) = shown xs \<or> shown (xs @ [x]) = x \<and> (\<exists>zs. xs = zs @ [x, x]))
   \<and> shown (xs @ [x, x, x]) = x"
proof (rule conjI)
  have t: "counts_trailing xs (after_readings xs)" by (rule after_readings_trailing)
  then obtain zs where zs: "xs = zs @ replicate (unat (consecutive_counts (after_readings xs))) (target_value (after_readings xs))"
    and n: "consecutive_counts (after_readings xs) < 3" by (auto simp: counts_trailing_def)
  from count_cases [OF n] zs show "if \<bar>uint x - uint (shown xs)\<bar> > 7 then shown (xs @ [x]) = x
      else shown (xs @ [x]) = shown xs \<or> shown (xs @ [x]) = x \<and> (\<exists>zs. xs = zs @ [x, x])"
    by (auto simp: shown_def after_readings_snoc debounce_def Let_def replicate_2 word_le_def)
  let ?d = "after_readings xs" and ?d1 = "after_readings (xs @ [x])" and ?d2 = "after_readings ((xs @ [x]) @ [x])"
  have n1: "consecutive_counts ?d1 < 3" and n2: "consecutive_counts ?d2 < 3"
    using after_readings_trailing by (auto simp: counts_trailing_def)
  have "awaiting 1 x ?d1" using awaiting_steps(1) [OF n] by (simp add: after_readings_snoc)
  then have "awaiting 2 x ?d2" using awaiting_steps(2) [OF n1] after_readings_snoc [of "xs @ [x]" x] by simp
  then have "last_stable_percentage (after_readings (((xs @ [x]) @ [x]) @ [x])) = x"
    using awaiting_steps(3) [OF n2] after_readings_snoc [of "(xs @ [x]) @ [x]" x] by simp
  then show "shown (xs @ [x, x, x]) = x" by (simp add: shown_def)
qed

end
