(* ===== verification/Zip.thy ===== *)
theory Zip
  imports SliceInfo Json
begin

text \<open>
  The walk over the front of a project file (\<open>src/ftps/project.rs\<close>): a ZIP archive is read entry by entry from its
  first bytes, without inflating anything, and members are handed out only when their checksum fits. Positions are
  naturals; \<open>usize\<close> is 64 bits wide.
\<close>

unbundle bit_operations_syntax

section \<open>Bytes\<close>

text \<open>\<open>slice::get(a..b)\<close>\<close>

definition get_range :: "nat \<Rightarrow> nat \<Rightarrow> bytes \<Rightarrow> bytes option" where
  "get_range a b buf = (if a \<le> b \<and> b \<le> length buf then Some (take (b - a) (drop a buf)) else None)"

definition le_u16 :: "bytes \<Rightarrow> nat \<Rightarrow> nat" where
  "le_u16 buf i = unat (buf ! i) + 256 * unat (buf ! (i + 1))"

definition le_u32 :: "bytes \<Rightarrow> nat \<Rightarrow> u32" where
  "le_u32 buf i = u32_of_le (buf ! i) (buf ! (i + 1)) (buf ! (i + 2)) (buf ! (i + 3))"

definition le_u64 :: "bytes \<Rightarrow> nat \<Rightarrow> nat" where
  "le_u64 buf i = unat (le_u32 buf i) + 4294967296 * unat (le_u32 buf (i + 4))"

definition ZIP_LOCAL_HEADER_SIG :: bytes where "ZIP_LOCAL_HEADER_SIG = [0x50, 0x4B, 0x03, 0x04]"
definition ZIP_CENTRAL_HEADER_SIG :: bytes where "ZIP_CENTRAL_HEADER_SIG = [0x50, 0x4B, 0x01, 0x02]"
definition ZIP_DESCRIPTOR_SIG :: bytes where "ZIP_DESCRIPTOR_SIG = [0x50, 0x4B, 0x07, 0x08]"
definition PNG_SIGNATURE :: bytes where
  "PNG_SIGNATURE = [0x89, 0x50, 0x4E, 0x47, 0x0D, 0x0A, 0x1A, 0x0A]"
definition PNG_IEND :: bytes where "PNG_IEND = [0x49, 0x45, 0x4E, 0x44]"
abbreviation (input) ZIP_LOCAL_HEADER_LEN :: nat where "ZIP_LOCAL_HEADER_LEN \<equiv> 30"
abbreviation (input) ZIP_METHOD_STORED :: nat where "ZIP_METHOD_STORED \<equiv> 0"
abbreviation (input) ZIP_METHOD_DEFLATE :: nat where "ZIP_METHOD_DEFLATE \<equiv> 8"
abbreviation (input) ZIP64_EXTRA_ID :: nat where "ZIP64_EXTRA_ID \<equiv> 1"
abbreviation (input) ZIP64_SIZE_MARKER :: nat where "ZIP64_SIZE_MARKER \<equiv> 4294967295"
abbreviation (input) PNG_CHUNK_OVERHEAD :: nat where "PNG_CHUNK_OVERHEAD \<equiv> 12"

definition crc32_shift :: "u32 \<Rightarrow> u32" where
  "crc32_shift c = drop_bit 1 c XOR (0xEDB88320 AND - (c AND 1))"

definition crc32_byte :: "u8 \<Rightarrow> u32 \<Rightarrow> u32" where
  "crc32_byte b c = (crc32_shift ^^ 8) (c XOR ucast b)"

definition crc32 :: "bytes \<Rightarrow> u32" where
  "crc32 bs = NOT (fold crc32_byte bs (NOT 0))"

section \<open>Names\<close>

definition plate_image_member :: "nat \<Rightarrow> string" where
  "plate_image_member plate = ''Metadata/plate_'' @ dec plate @ ''.png''"

definition plate_small_image_member :: "nat \<Rightarrow> string" where
  "plate_small_image_member plate = ''Metadata/plate_'' @ dec plate @ ''_small.png''"

definition pick_image_member :: "nat \<Rightarrow> string" where
  "pick_image_member plate = ''Metadata/pick_'' @ dec plate @ ''.png''"

definition pick_identify_id :: "u8 \<Rightarrow> u8 \<Rightarrow> u8 \<Rightarrow> u8 \<Rightarrow> u32 option" where
  "pick_identify_id r g b a =
     (let i = push_bit 16 (ucast b) OR push_bit 8 (ucast g) OR ucast r
      in if a = 0 \<or> i = 0 then None else Some i)"

definition METADATA_DIR :: bytes where "METADATA_DIR = as_bytes ''Metadata/''"
definition CONTENT_TYPES_MEMBER :: bytes where "CONTENT_TYPES_MEMBER = as_bytes ''[Content_Types].xml''"
definition PLATE_GCODE_PREFIX :: bytes where "PLATE_GCODE_PREFIX = as_bytes ''Metadata/plate_''"
definition PLATE_GCODE_SUFFIX :: bytes where "PLATE_GCODE_SUFFIX = as_bytes ''.gcode''"
definition PLATE_GCODE_MD5_SUFFIX :: bytes where "PLATE_GCODE_MD5_SUFFIX = as_bytes ''.gcode.md5''"

definition starts_with :: "'a list \<Rightarrow> 'a list \<Rightarrow> bool" where
  "starts_with p xs = (take (length p) xs = p)"

definition bytes_strip_prefix :: "'a list \<Rightarrow> 'a list \<Rightarrow> 'a list option" where
  "bytes_strip_prefix p xs = (if starts_with p xs then Some (drop (length p) xs) else None)"

definition bytes_strip_suffix :: "'a list \<Rightarrow> 'a list \<Rightarrow> 'a list option" where
  "bytes_strip_suffix p xs = map_option rev (bytes_strip_prefix (rev p) (rev xs))"

definition plate_of :: "bytes \<Rightarrow> bytes \<Rightarrow> nat option" where
  "plate_of name suffix =
     Option.bind (bytes_strip_prefix PLATE_GCODE_PREFIX name) (\<lambda>r.
     Option.bind (bytes_strip_suffix suffix r) (\<lambda>ds.
       if ds = [] \<or> \<not> list_all is_ascii_digit (of_bytes ds) then None
       else case parse_u32 (of_bytes ds) of
         None \<Rightarrow> None
       | Some plate \<Rightarrow> if plate > 0 then Some plate else None))"

definition plate_of_gcode_param :: "string \<Rightarrow> nat option" where
  "plate_of_gcode_param param = plate_of (as_bytes param) PLATE_GCODE_SUFFIX"

section \<open>One entry\<close>

function find_extra :: "bytes \<Rightarrow> nat \<Rightarrow> bytes option" where
  "find_extra extra i =
     (if length extra < 4 then None
      else let len = le_u16 extra 2
           in case get_range 4 (4 + len) extra of
                None \<Rightarrow> None
              | Some d \<Rightarrow> if le_u16 extra 0 = i then Some d else find_extra (drop (4 + len) extra) i)"
  by pat_completeness auto
termination by (relation "measure (\<lambda>(extra, i). length extra)") auto

declare find_extra.simps [simp del]

record local_header =
  lh_name :: bytes
  lh_flags :: nat
  lh_method :: nat
  lh_crc :: u32
  lh_compressed_size :: nat
  lh_zip64 :: bool
  lh_data_start :: nat

definition flag_encrypted :: "nat \<Rightarrow> bool" where "flag_encrypted flags = odd flags"
definition flag_descriptor :: "nat \<Rightarrow> bool" where "flag_descriptor flags = odd (flags div 8)"

definition parse_header :: "bytes \<Rightarrow> nat \<Rightarrow> error + local_header option" where
  "parse_header buf pos =
     (case get_range pos (pos + ZIP_LOCAL_HEADER_LEN) buf of
        None \<Rightarrow> Inr None
      | Some fixed \<Rightarrow>
          let flags = le_u16 fixed 6 in
          if flag_encrypted flags then Inl (project_violation ''encrypted .3mf entry'')
          else
            let name_len = le_u16 fixed 26;
                extra_len = le_u16 fixed 28;
                name_start = pos + ZIP_LOCAL_HEADER_LEN;
                data_start = name_start + name_len + extra_len
            in case get_range name_start (name_start + name_len) buf of
                 None \<Rightarrow> Inr None
               | Some name \<Rightarrow>
                   (case get_range (name_start + name_len) data_start buf of
                      None \<Rightarrow> Inr None
                    | Some extra \<Rightarrow>
                        let zip64_extra = find_extra extra ZIP64_EXTRA_ID;
                            size32 = unat (le_u32 fixed 18);
                            header = (\<lambda>size. \<lparr>lh_name = name, lh_flags = flags, lh_method = le_u16 fixed 8,
                              lh_crc = le_u32 fixed 14, lh_compressed_size = size,
                              lh_zip64 = (zip64_extra \<noteq> None), lh_data_start = data_start\<rparr>)
                        in if size32 = ZIP64_SIZE_MARKER
                           then (case Option.bind zip64_extra (get_range 8 16) of
                                   Some field \<Rightarrow> Inr (Some (header (le_u64 field 0)))
                                 | None \<Rightarrow>
                                     if \<not> flag_descriptor flags
                                     then Inl (project_violation ''Zip64 size marker without a Zip64 extra field'')
                                     else Inr (Some (header size32)))
                           else Inr (Some (header size32))))"

definition descriptor_sizes_len :: "local_header \<Rightarrow> nat" where
  "descriptor_sizes_len h = (if lh_zip64 h then 16 else 8)"

definition descriptor_size :: "local_header \<Rightarrow> bytes \<Rightarrow> nat \<Rightarrow> nat" where
  "descriptor_size h buf i = (if lh_zip64 h then le_u64 buf i else unat (le_u32 buf i))"

text \<open>The loop over the chunks of a PNG: the position after its \<open>IEND\<close> chunk.\<close>

definition u32_be_at :: "bytes \<Rightarrow> nat" where
  "u32_be_at hd4 = unat (u32_of_le (hd4 ! 3) (hd4 ! 2) (hd4 ! 1) (hd4 ! 0))"

function png_end :: "bytes \<Rightarrow> nat \<Rightarrow> error + nat option" where
  "png_end buf pos =
     (case get_range pos (pos + 8) buf of
        None \<Rightarrow> Inr None
      | Some chunk \<Rightarrow>
          let chunk_end = pos + PNG_CHUNK_OVERHEAD + u32_be_at chunk
          in if chunk_end > u64_max then Inl (project_violation ''PNG chunk length out of range'')
             else if chunk_end > length buf then Inr None
             else if take 4 (drop 4 chunk) = PNG_IEND then Inr (Some chunk_end)
             else png_end buf chunk_end)"
  by pat_completeness auto
termination by (relation "measure (\<lambda>(buf, pos). length buf - pos)") (auto simp: get_range_def split: if_splits)

declare png_end.simps [simp del]

definition check_descriptor :: "local_header \<Rightarrow> bytes \<Rightarrow> nat \<Rightarrow> error + (nat \<times> nat) option" where
  "check_descriptor h buf data_end =
     (let crc = crc32 (take (data_end - lh_data_start h) (drop (lh_data_start h) buf))
      in case get_range data_end (data_end + 4) buf of
           None \<Rightarrow> Inr None
         | Some first \<Rightarrow>
             let crc_at = (if first = ZIP_DESCRIPTOR_SIG \<and> le_u32 first 0 \<noteq> crc then data_end + 4 else data_end);
                 stop = crc_at + 4 + descriptor_sizes_len h;
                 len = data_end - lh_data_start h
             in if stop > length buf then Inr None
                else if le_u32 buf crc_at \<noteq> crc \<or> descriptor_size h buf (crc_at + 4) \<noteq> len
                  \<or> descriptor_size h buf (crc_at + 4 + descriptor_sizes_len h div 2) \<noteq> len
                then Inl (project_violation ''.3mf member disagrees with its data descriptor (CRC-32 or size)'')
                else Inr (Some (data_end, stop)))"

definition find_stored_png_end :: "local_header \<Rightarrow> bytes \<Rightarrow> error + (nat \<times> nat) option" where
  "find_stored_png_end h buf =
     (case get_range (lh_data_start h) (lh_data_start h + 8) buf of
        None \<Rightarrow> Inr None
      | Some sig \<Rightarrow>
          if sig \<noteq> PNG_SIGNATURE
          then Inl (project_violation
            (''stored .3mf entry with a data descriptor is not a PNG, so its end can'' @ [CHR 0x27] @ ''t be found''))
          else case png_end buf (lh_data_start h + 8) of
            Inl e \<Rightarrow> Inl e
          | Inr None \<Rightarrow> Inr None
          | Inr (Some data_end) \<Rightarrow> check_descriptor h buf data_end)"

text \<open>One position of the search for a deflated entry's descriptor, with its signature or without.\<close>

definition descriptor_here :: "local_header \<Rightarrow> bytes \<Rightarrow> nat \<Rightarrow> nat \<Rightarrow> (nat \<times> nat) option" where
  "descriptor_here h buf p sig_len =
     (if sig_len = 4 \<and> take 4 (drop p buf) \<noteq> ZIP_DESCRIPTOR_SIG then None
      else let crc_at = p + sig_len; stop = crc_at + 4 + descriptor_sizes_len h
           in case get_range stop (stop + 4) buf of
                None \<Rightarrow> None
              | Some next \<Rightarrow>
                  if (next = ZIP_LOCAL_HEADER_SIG \<or> next = ZIP_CENTRAL_HEADER_SIG)
                    \<and> descriptor_size h buf (crc_at + 4) = p - lh_data_start h
                  then Some (p, stop) else None)"

function find_deflate_end :: "local_header \<Rightarrow> bytes \<Rightarrow> nat \<Rightarrow> (nat \<times> nat) option" where
  "find_deflate_end h buf p =
     (if p + 4 + descriptor_sizes_len h + 4 \<le> length buf
      then (case find_map (descriptor_here h buf p) [4, 0] of
              Some r \<Rightarrow> Some r
            | None \<Rightarrow> find_deflate_end h buf (p + 1))
      else None)"
  by pat_completeness auto
termination by (relation "measure (\<lambda>(h, buf, p). length buf - p)") auto

declare find_deflate_end.simps [simp del]

definition find_end :: "local_header \<Rightarrow> bytes \<Rightarrow> error + (nat \<times> nat) option" where
  "find_end h buf =
     (if \<not> flag_descriptor (lh_flags h)
      then let data_end = lh_data_start h + lh_compressed_size h
           in if data_end > u64_max then Inl (project_violation ''.3mf entry size out of range'')
              else if data_end > length buf then Inr None
              else if lh_method h = ZIP_METHOD_STORED
                \<and> crc32 (take (lh_compressed_size h) (drop (lh_data_start h) buf)) \<noteq> lh_crc h
              then Inl (project_violation ''.3mf member fails its CRC-32'')
              else Inr (Some (data_end, data_end))
      else if lh_method h = ZIP_METHOD_STORED then find_stored_png_end h buf
      else if lh_method h = ZIP_METHOD_DEFLATE then Inr (find_deflate_end h buf (lh_data_start h))
      else Inl (project_violation ''.3mf entry uses a compression method other than stored or deflate''))"

section \<open>Every entry moves the walk forward, within the buffer\<close>

lemma get_range_Some:
  "get_range a b buf = Some s \<longleftrightarrow> a \<le> b \<and> b \<le> length buf \<and> s = take (b - a) (drop a buf)"
  by (auto simp: get_range_def)

lemma get_range_length: "get_range a b buf = Some s \<Longrightarrow> length s = b - a"
  by (auto simp: get_range_Some)

lemma parse_header_start: "parse_header buf pos = Inr (Some h) \<Longrightarrow> pos + 30 \<le> lh_data_start h \<and> lh_data_start h \<le> length buf"
  by (auto simp: parse_header_def Let_def get_range_Some split: option.splits if_splits)

lemma png_end_bounds: "png_end buf pos = Inr (Some e) \<Longrightarrow> pos \<le> e \<and> e \<le> length buf"
proof (induction buf pos rule: png_end.induct)
  case (1 buf pos)
  from 1(2) show ?case
    by (subst (asm) png_end.simps) (use 1(1) in \<open>force simp: Let_def split: option.splits if_splits\<close>)
qed

lemma check_descriptor_bounds:
  "check_descriptor h buf data_end = Inr (Some (d, e)) \<Longrightarrow> d = data_end \<and> data_end \<le> e \<and> e \<le> length buf"
  by (auto simp: check_descriptor_def Let_def split: option.splits if_splits)

lemma descriptor_here_bounds:
  "descriptor_here h buf p k = Some (d, e) \<Longrightarrow> d = p \<and> p \<le> e \<and> e \<le> length buf"
  by (auto simp: descriptor_here_def Let_def get_range_Some split: option.splits if_splits)

lemma find_deflate_end_bounds: "find_deflate_end h buf p = Some (d, e) \<Longrightarrow> p \<le> d \<and> d \<le> e \<and> e \<le> length buf"
proof (induction h buf p rule: find_deflate_end.induct)
  case (1 h buf p)
  from 1(2) show ?case
    by (subst (asm) find_deflate_end.simps)
      (use 1(1) descriptor_here_bounds [of h buf p] in \<open>fastforce split: option.splits if_splits\<close>)
qed

lemma find_end_bounds: "find_end h buf = Inr (Some (d, e)) \<Longrightarrow> lh_data_start h \<le> d \<and> d \<le> e \<and> e \<le> length buf"
  by (auto simp: find_end_def find_stored_png_end_def Let_def
      dest!: check_descriptor_bounds png_end_bounds find_deflate_end_bounds
      split: if_splits option.splits sum.splits)

section \<open>The walks\<close>

datatype walk = WalkDone "bytes option list" | NeedMore

definition section_end :: "bytes option list \<Rightarrow> bool \<Rightarrow> error + walk" where
  "section_end found saw_metadata =
     (if saw_metadata then Inr (WalkDone found)
      else Inl (project_violation
        (''the .3mf doesn'' @ [CHR 0x27] @ ''t open with the slicers'' @ [CHR 0x27] @ '' Metadata/ entries'')))"

function walk_loop :: "bytes \<Rightarrow> bytes list \<Rightarrow> nat \<Rightarrow> bool \<Rightarrow> bool \<Rightarrow> bytes option list \<Rightarrow> error + walk" where
  "walk_loop buf names pos first saw found =
     (if list_all (\<lambda>f. f \<noteq> None) found then Inr (WalkDone found)
      else case get_range pos (pos + 4) buf of
        None \<Rightarrow> Inr NeedMore
      | Some sig \<Rightarrow>
          if sig = ZIP_CENTRAL_HEADER_SIG then section_end found saw
          else if sig \<noteq> ZIP_LOCAL_HEADER_SIG
          then Inl (project_violation ''no ZIP local header where the previous entry ended'')
          else case parse_header buf pos of
            Inl e \<Rightarrow> Inl e
          | Inr None \<Rightarrow> Inr NeedMore
          | Inr (Some entry) \<Rightarrow>
              let is_metadata = starts_with METADATA_DIR (lh_name entry)
              in if \<not> is_metadata \<and> \<not> (first \<and> lh_name entry = CONTENT_TYPES_MEMBER) then section_end found saw
                 else case find_end entry buf of
                   Inl e \<Rightarrow> Inl e
                 | Inr None \<Rightarrow> Inr NeedMore
                 | Inr (Some (data_end, next)) \<Rightarrow>
                     (case position (\<lambda>n. n = lh_name entry) names of
                        None \<Rightarrow> walk_loop buf names next False (saw \<or> is_metadata) found
                      | Some slot \<Rightarrow>
                          if lh_method entry \<noteq> ZIP_METHOD_STORED
                          then Inl (project_violation ''a requested .3mf member is compressed'')
                          else walk_loop buf names next False (saw \<or> is_metadata)
                            (if found ! slot = None
                             then found[slot := Some (take (data_end - lh_data_start entry) (drop (lh_data_start entry) buf))]
                             else found)))"
  by pat_completeness auto
termination
  by (relation "measure (\<lambda>(buf, names, pos, first, saw, found). length buf - pos)")
    (auto dest!: parse_header_start find_end_bounds)

declare walk_loop.simps [simp del]

definition walk_front :: "bytes \<Rightarrow> bytes list \<Rightarrow> error + walk" where
  "walk_front buf names = walk_loop buf names 0 True False (replicate (length names) None)"

definition front_members :: "bytes \<Rightarrow> string list \<Rightarrow> error + bytes option list" where
  "front_members buf names =
     (case walk_front buf (map as_bytes names) of
        Inl e \<Rightarrow> Inl e
      | Inr (WalkDone found) \<Rightarrow> Inr found
      | Inr NeedMore \<Rightarrow>
          Inl (InvalidArgument ''the .3mf prefix ends before the requested members do; read more of the file''))"

datatype gcode_walk = GcodeDone "nat list" | GcodeNeedMore

function gcode_loop :: "bytes \<Rightarrow> nat \<Rightarrow> nat list \<Rightarrow> error + gcode_walk" where
  "gcode_loop buf pos plates =
     (case get_range pos (pos + 4) buf of
        None \<Rightarrow> Inr GcodeNeedMore
      | Some sig \<Rightarrow>
          if sig = ZIP_CENTRAL_HEADER_SIG then Inr (GcodeDone plates)
          else if sig \<noteq> ZIP_LOCAL_HEADER_SIG
          then Inl (project_violation ''no ZIP local header where the previous entry ended'')
          else case parse_header buf pos of
            Inl e \<Rightarrow> Inl e
          | Inr None \<Rightarrow> Inr GcodeNeedMore
          | Inr (Some entry) \<Rightarrow>
              if plate_of (lh_name entry) PLATE_GCODE_SUFFIX \<noteq> None then Inr (GcodeDone plates)
              else let plates' = (case plate_of (lh_name entry) PLATE_GCODE_MD5_SUFFIX of
                         None \<Rightarrow> plates | Some plate \<Rightarrow> plates @ [plate])
                   in case find_end entry buf of
                     Inl e \<Rightarrow> Inl e
                   | Inr None \<Rightarrow> Inr GcodeNeedMore
                   | Inr (Some (_, next)) \<Rightarrow> gcode_loop buf next plates')"
  by pat_completeness auto
termination
  by (relation "measure (\<lambda>(buf, pos, plates). length buf - pos)")
    (auto simp: get_range_Some dest!: parse_header_start find_end_bounds)

declare gcode_loop.simps [simp del]

definition walk_gcode_plates :: "bytes \<Rightarrow> error + gcode_walk" where
  "walk_gcode_plates buf = gcode_loop buf 0 []"

definition gcode_plates :: "bytes \<Rightarrow> error + nat list" where
  "gcode_plates buf =
     (case walk_gcode_plates buf of
        Inl e \<Rightarrow> Inl e
      | Inr (GcodeDone plates) \<Rightarrow> Inr plates
      | Inr GcodeNeedMore \<Rightarrow>
          Inl (InvalidArgument ''the .3mf prefix ends before its list of plate G-code does; read more of the file''))"

end
