(* ===== verification/ZipProps.thy ===== *)
theory ZipProps
  imports Zip
begin

text \<open>
  What the walk over a project file promises: it hands out only members whose bytes fit the checksum the archive
  records, it finds every member of a well-formed archive, and it passes each entry once.
\<close>

unbundle bit_operations_syntax

section \<open>Safety\<close>

definition checked_member :: "bytes \<Rightarrow> bytes \<Rightarrow> bytes \<Rightarrow> bool" where
  "checked_member buf name d \<longleftrightarrow>
     (\<exists>pos h. parse_header buf pos = Inr (Some h) \<and> lh_name h = name \<and> lh_method h = ZIP_METHOD_STORED
        \<and> get_range (lh_data_start h) (lh_data_start h + length d) buf = Some d
        \<and> (if flag_descriptor (lh_flags h)
           then \<exists>i. lh_data_start h + length d \<le> i \<and> le_u32 buf i = crc32 d \<and> descriptor_size h buf (i + 4) = length d
           else lh_compressed_size h = length d \<and> lh_crc h = crc32 d))"

lemma find_end_checked:
  assumes "parse_header buf pos = Inr (Some h)" "find_end h buf = Inr (Some (data_end, next))" "lh_method h = ZIP_METHOD_STORED"
  shows "checked_member buf (lh_name h) (take (data_end - lh_data_start h) (drop (lh_data_start h) buf))"
proof -
  let ?d = "take (data_end - lh_data_start h) (drop (lh_data_start h) buf)"
  from find_end_bounds [OF assms(2)] have b: "lh_data_start h \<le> data_end" "data_end \<le> length buf" by auto
  then have len: "length ?d = data_end - lh_data_start h" by simp
  have "get_range (lh_data_start h) (lh_data_start h + length ?d) buf = Some ?d"
    using b by (simp add: get_range_def)
  moreover have "if flag_descriptor (lh_flags h)
      then \<exists>i. lh_data_start h + length ?d \<le> i \<and> le_u32 buf i = crc32 ?d \<and> descriptor_size h buf (i + 4) = length ?d
      else lh_compressed_size h = length ?d \<and> lh_crc h = crc32 ?d"
  proof (cases "flag_descriptor (lh_flags h)")
    case False
    with assms(2,3) show ?thesis by (auto simp: find_end_def Let_def split: if_splits)
  next
    case True
    with assms(2,3) have "check_descriptor h buf data_end = Inr (Some (data_end, next))"
      by (auto simp: find_end_def find_stored_png_end_def dest: check_descriptor_bounds
          split: if_splits option.splits sum.splits)
    then have "\<exists>i. data_end \<le> i \<and> le_u32 buf i = crc32 ?d \<and> descriptor_size h buf (i + 4) = data_end - lh_data_start h"
      unfolding check_descriptor_def Let_def
      by (auto split: option.splits if_splits intro: exI [of _ data_end] exI [of _ "data_end + 4"])
    with True b show ?thesis by (simp add: len)
  qed
  ultimately show ?thesis using assms(1,3) unfolding checked_member_def by blast
qed

text \<open>A walk ends with what it found, or goes on after one entry.\<close>

lemma walk_loop_step:
  assumes "walk_loop buf names pos first saw found = Inr (WalkDone res)"
  shows "res = found \<or>
    (\<exists>h data_end nxt saw' found'. parse_header buf pos = Inr (Some h) \<and> find_end h buf = Inr (Some (data_end, nxt))
       \<and> pos < length buf \<and> walk_loop buf names nxt False saw' found' = Inr (WalkDone res)
       \<and> (found' = found \<or> (\<exists>slot. position (\<lambda>n. n = lh_name h) names = Some slot \<and> lh_method h = ZIP_METHOD_STORED
              \<and> found' = found[slot := Some (take (data_end - lh_data_start h) (drop (lh_data_start h) buf))])))"
  using assms
  by (subst (asm) walk_loop.simps)
    (fastforce simp: section_end_def Let_def get_range_Some split: if_splits option.splits sum.splits)

lemma walk_loop_checked:
  assumes "walk_loop buf names pos first saw found = Inr (WalkDone res)"
    and "list_all2 (\<lambda>n f. case f of None \<Rightarrow> True | Some d \<Rightarrow> checked_member buf n d) names found"
  shows "list_all2 (\<lambda>n f. case f of None \<Rightarrow> True | Some d \<Rightarrow> checked_member buf n d) names res"
  using assms
proof (induction "length buf - pos" arbitrary: pos first saw found rule: less_induct)
  case less
  from walk_loop_step [OF less.prems(1)] show ?case
  proof (elim disjE exE conjE)
    assume "res = found"
    with less.prems(2) show ?thesis by simp
  next
    fix h data_end nxt saw' found'
    assume h: "parse_header buf pos = Inr (Some h)" "find_end h buf = Inr (Some (data_end, nxt))" "pos < length buf"
      and w: "walk_loop buf names nxt False saw' found' = Inr (WalkDone res)" and f: "found' = found"
    from find_end_bounds [OF h(2)] parse_header_start [OF h(1)] h(3) have "length buf - nxt < length buf - pos" by linarith
    from less.hyps [OF this w] less.prems(2) f show ?thesis by simp
  next
    fix h data_end nxt saw' found' slot
    assume h: "parse_header buf pos = Inr (Some h)" "find_end h buf = Inr (Some (data_end, nxt))" "pos < length buf"
      and w: "walk_loop buf names nxt False saw' found' = Inr (WalkDone res)"
      and s: "position (\<lambda>n. n = lh_name h) names = Some slot" "lh_method h = ZIP_METHOD_STORED"
      and f: "found' = found[slot := Some (take (data_end - lh_data_start h) (drop (lh_data_start h) buf))]"
    from find_end_bounds [OF h(2)] parse_header_start [OF h(1)] h(3) have l: "length buf - nxt < length buf - pos" by linarith
    from position_SomeD [OF s(1)] have "names ! slot = lh_name h" "slot < length names" by auto
    with find_end_checked [OF h(1,2) s(2)] less.prems(2)
    have "list_all2 (\<lambda>n f. case f of None \<Rightarrow> True | Some d \<Rightarrow> checked_member buf n d) names found'"
      unfolding f by (auto simp: list_all2_conv_all_nth nth_list_update)
    from less.hyps [OF l w this] show ?thesis .
  qed
qed

text \<open>A member that is handed out is a stored entry of the archive under the requested name, whole, and its bytes have
  the checksum and the length the archive records for it.\<close>

lemma walk_front_checked:
  assumes "walk_front buf (map as_bytes names) = Inr (WalkDone found)"
  shows "list_all2 (\<lambda>n f. case f of None \<Rightarrow> True | Some d \<Rightarrow> checked_member buf (as_bytes n) d) names found"
proof -
  have "list_all2 (\<lambda>n f. case f of None \<Rightarrow> True | Some d \<Rightarrow> checked_member buf n d) (map as_bytes names) (replicate (length (map as_bytes names)) None)"
    by (simp add: list_all2_conv_all_nth)
  from walk_loop_checked [OF assms [unfolded walk_front_def] this] show ?thesis by (simp add: list_all2_map1)
qed

section \<open>Every entry is passed once\<close>

text \<open>One round of the walk's loop: the walk returns, or goes on at the next entry.\<close>

type_synonym walk_state = "nat \<times> bool \<times> bool \<times> bytes option list"

definition walk_round :: "bytes \<Rightarrow> bytes list \<Rightarrow> walk_state \<Rightarrow> (error + walk) + walk_state" where
  "walk_round buf names st = (case st of (pos, first, saw, found) \<Rightarrow>
     (if list_all (\<lambda>f. f \<noteq> None) found then Inl (Inr (WalkDone found))
      else case get_range pos (pos + 4) buf of
        None \<Rightarrow> Inl (Inr NeedMore)
      | Some sig \<Rightarrow>
          if sig = ZIP_CENTRAL_HEADER_SIG then Inl (section_end found saw)
          else if sig \<noteq> ZIP_LOCAL_HEADER_SIG
          then Inl (Inl (project_violation ''no ZIP local header where the previous entry ended''))
          else case parse_header buf pos of
            Inl e \<Rightarrow> Inl (Inl e)
          | Inr None \<Rightarrow> Inl (Inr NeedMore)
          | Inr (Some entry) \<Rightarrow>
              let is_metadata = starts_with METADATA_DIR (lh_name entry)
              in if \<not> is_metadata \<and> \<not> (first \<and> lh_name entry = CONTENT_TYPES_MEMBER) then Inl (section_end found saw)
                 else case find_end entry buf of
                   Inl e \<Rightarrow> Inl (Inl e)
                 | Inr None \<Rightarrow> Inl (Inr NeedMore)
                 | Inr (Some (data_end, next)) \<Rightarrow>
                     (case position (\<lambda>n. n = lh_name entry) names of
                        None \<Rightarrow> Inr (next, False, saw \<or> is_metadata, found)
                      | Some slot \<Rightarrow>
                          if lh_method entry \<noteq> ZIP_METHOD_STORED
                          then Inl (Inl (project_violation ''a requested .3mf member is compressed''))
                          else Inr (next, False, saw \<or> is_metadata,
                            if found ! slot = None
                            then found[slot := Some (take (data_end - lh_data_start entry) (drop (lh_data_start entry) buf))]
                            else found))))"

fun walk_rounds :: "nat \<Rightarrow> bytes \<Rightarrow> bytes list \<Rightarrow> walk_state \<Rightarrow> (error + walk) option" where
  "walk_rounds 0 buf names st = None"
| "walk_rounds (Suc n) buf names st =
     (case walk_round buf names st of Inl r \<Rightarrow> Some r | Inr st' \<Rightarrow> walk_rounds n buf names st')"

lemma walk_loop_round:
  "walk_loop buf names pos first saw found =
     (case walk_round buf names (pos, first, saw, found) of
        Inl r \<Rightarrow> r
      | Inr (pos', first', saw', found') \<Rightarrow> walk_loop buf names pos' first' saw' found')"
  unfolding walk_round_def
  by (subst walk_loop.simps) (simp add: Let_def split: option.split sum.split)

lemma walk_round_moves:
  assumes "walk_round buf names (pos, first, saw, found) = Inr (pos', first', saw', found')"
  shows "pos + 30 \<le> pos' \<and> pos' \<le> length buf"
proof -
  from assms obtain h d where "parse_header buf pos = Inr (Some h)" "find_end h buf = Inr (Some (d, pos'))"
    by (auto simp: walk_round_def Let_def split: option.splits sum.splits if_splits)
  from parse_header_start [OF this(1)] find_end_bounds [OF this(2)] show ?thesis by linarith
qed

lemma walk_rounds_suffice:
  assumes "(length buf - pos) div 30 < n" "pos \<le> length buf"
  shows "walk_rounds n buf names (pos, first, saw, found) = Some (walk_loop buf names pos first saw found)"
  using assms
proof (induction n arbitrary: pos first saw found)
  case (Suc n)
  show ?case
  proof (cases "walk_round buf names (pos, first, saw, found)")
    case (Inl r)
    then show ?thesis by (simp add: walk_loop_round [of buf names pos])
  next
    case (Inr st)
    then obtain pos' first' saw' found' where st: "st = (pos', first', saw', found')" by (cases st) auto
    from walk_round_moves [OF Inr [unfolded st]] have m: "pos + 30 \<le> pos'" "pos' \<le> length buf" by auto
    then have "(length buf - pos') div 30 < n" using Suc.prems(1) by linarith
    from Suc.IH [OF this m(2)] Inr st show ?thesis by (simp add: walk_loop_round [of buf names pos])
  qed
qed simp

text \<open>C39. The walk returns after at most one round of its loop for every 30 bytes it was given, and one more: every
  entry it passes takes up at least its fixed header.\<close>

theorem front_walk_returns:
  "walk_rounds (length buf div 30 + 1) buf names (0, True, False, replicate (length names) None) = Some (walk_front buf names)"
  unfolding walk_front_def by (rule walk_rounds_suffice) simp_all

section \<open>Well-formed archives\<close>

definition u16_le :: "nat \<Rightarrow> bytes" where
  "u16_le n = [of_nat n, of_nat (n div 256)]"

text \<open>A stored entry as a writer that knows its size lays it out: the size and the checksum are in the header.\<close>

definition zip_entry :: "bytes \<times> bytes \<Rightarrow> bytes" where
  "zip_entry e = (case e of (name, d) \<Rightarrow>
     ZIP_LOCAL_HEADER_SIG @ [20, 0] @ [0, 0] @ [0, 0] @ [0, 0, 0, 0] @ u32_le (crc32 d) @ u32_le (of_nat (length d))
       @ u32_le (of_nat (length d)) @ u16_le (length name) @ [0, 0] @ name @ d)"

definition entry_fits :: "bytes \<times> bytes \<Rightarrow> bool" where
  "entry_fits e \<longleftrightarrow> length (fst e) < 65536 \<and> length (snd e) < 4294967295"

lemma get_range_append [simp]: "get_range (length pre + a) (length pre + b) (pre @ xs) = get_range a b xs"
  by (auto simp: get_range_def)

lemma u16_le_read: "n < 65536 \<Longrightarrow> unat (of_nat n :: u8) + 256 * unat (of_nat (n div 256) :: u8) = n"
  by (simp add: unsigned_of_nat take_bit_eq_mod)

definition entry_fixed :: "bytes \<times> bytes \<Rightarrow> bytes" where
  "entry_fixed e = (case e of (name, d) \<Rightarrow>
     ZIP_LOCAL_HEADER_SIG @ [20, 0] @ [0, 0] @ [0, 0] @ [0, 0, 0, 0] @ u32_le (crc32 d) @ u32_le (of_nat (length d))
       @ u32_le (of_nat (length d)) @ u16_le (length name) @ [0, 0])"

lemma zip_entry_parts: "zip_entry (name, d) = entry_fixed (name, d) @ name @ d"
  by (simp add: zip_entry_def entry_fixed_def)

lemma entry_fixed_fields:
  assumes "entry_fits (name, d)"
  shows "length (entry_fixed (name, d)) = 30" "take 4 (entry_fixed (name, d)) = ZIP_LOCAL_HEADER_SIG"
    "le_u16 (entry_fixed (name, d)) 6 = 0" "le_u16 (entry_fixed (name, d)) 8 = 0"
    "le_u32 (entry_fixed (name, d)) 14 = crc32 d" "unat (le_u32 (entry_fixed (name, d)) 18) = length d"
    "le_u16 (entry_fixed (name, d)) 26 = length name" "le_u16 (entry_fixed (name, d)) 28 = 0"
proof -
  have n: "length name < 65536" and d: "length d < 4294967296" using assms by (simp_all add: entry_fits_def)
  show "length (entry_fixed (name, d)) = 30" "take 4 (entry_fixed (name, d)) = ZIP_LOCAL_HEADER_SIG"
    "le_u16 (entry_fixed (name, d)) 6 = 0" "le_u16 (entry_fixed (name, d)) 8 = 0" "le_u16 (entry_fixed (name, d)) 28 = 0"
    by (simp_all add: entry_fixed_def ZIP_LOCAL_HEADER_SIG_def u32_le_def u16_le_def le_u16_def)
  show "le_u16 (entry_fixed (name, d)) 26 = length name"
    using u16_le_read [OF n]
    by (simp add: entry_fixed_def ZIP_LOCAL_HEADER_SIG_def u32_le_def u16_le_def le_u16_def)
  show "le_u32 (entry_fixed (name, d)) 14 = crc32 d"
    by (simp add: entry_fixed_def ZIP_LOCAL_HEADER_SIG_def u32_le_def u16_le_def le_u32_def u32_le_roundtrip)
  have "le_u32 (entry_fixed (name, d)) 18 = of_nat (length d)"
    by (simp add: entry_fixed_def ZIP_LOCAL_HEADER_SIG_def u32_le_def u16_le_def le_u32_def u32_le_roundtrip)
  then show "unat (le_u32 (entry_fixed (name, d)) 18) = length d" by (simp only: unat_of_nat_u32 [OF d])
qed

lemma get_range_middle: "get_range (length pre) (length pre + length m) (pre @ m @ rest) = Some m"
  by (simp add: get_range_def)

lemma parse_zip_entry:
  assumes "entry_fits (name, d)"
  shows "parse_header (pre @ zip_entry (name, d) @ rest) (length pre) =
    Inr (Some \<lparr>lh_name = name, lh_flags = 0, lh_method = 0, lh_crc = crc32 d, lh_compressed_size = length d,
      lh_zip64 = False, lh_data_start = length pre + 30 + length name\<rparr>)"
proof -
  let ?f = "entry_fixed (name, d)" and ?buf = "pre @ zip_entry (name, d) @ rest"
  note f = entry_fixed_fields [OF assms]
  have d: "length d < 4294967295" using assms by (simp add: entry_fits_def)
  have "get_range (length pre) (length pre + 30) ?buf = Some ?f"
    using get_range_middle [of pre ?f "name @ d @ rest"] f(1) by (simp add: zip_entry_parts)
  moreover have "get_range (length pre + 30) (length pre + 30 + length name) ?buf = Some name"
    using get_range_middle [of "pre @ ?f" name "d @ rest"] f(1) by (simp add: zip_entry_parts)
  moreover have "get_range (length pre + 30 + length name) (length pre + 30 + length name) ?buf = Some []"
    using f(1) by (simp add: get_range_def zip_entry_parts)
  moreover have "find_extra [] 1 = None" by (subst find_extra.simps) simp
  ultimately show ?thesis
    using f d by (simp add: parse_header_def Let_def flag_encrypted_def)
qed

lemma find_zip_entry_end:
  assumes "entry_fits (name, d)" "length (pre @ zip_entry (name, d) @ rest) \<le> u64_max"
    and "parse_header (pre @ zip_entry (name, d) @ rest) (length pre) = Inr (Some h)"
  shows "find_end h (pre @ zip_entry (name, d) @ rest) =
    Inr (Some (length (pre @ zip_entry (name, d)), length (pre @ zip_entry (name, d))))"
    and "take (length (pre @ zip_entry (name, d)) - lh_data_start h)
      (drop (lh_data_start h) (pre @ zip_entry (name, d) @ rest)) = d"
proof -
  let ?f = "entry_fixed (name, d)" and ?buf = "pre @ zip_entry (name, d) @ rest"
  note f = entry_fixed_fields [OF assms(1)]
  from assms(3) have h: "h = \<lparr>lh_name = name, lh_flags = 0, lh_method = 0, lh_crc = crc32 d, lh_compressed_size = length d,
      lh_zip64 = False, lh_data_start = length pre + 30 + length name\<rparr>"
    by (simp add: parse_zip_entry [OF assms(1)])
  have l: "length (pre @ zip_entry (name, d)) = length pre + 30 + length name + length d"
    using f(1) by (simp add: zip_entry_parts)
  have "drop (length pre + 30 + length name) ?buf = d @ rest" using f(1) by (simp add: zip_entry_parts)
  with l show "take (length (pre @ zip_entry (name, d)) - lh_data_start h) (drop (lh_data_start h) ?buf) = d"
    by (simp add: h)
  with l assms(2) \<open>drop _ _ = _\<close>
  show "find_end h ?buf = Inr (Some (length (pre @ zip_entry (name, d)), length (pre @ zip_entry (name, d))))"
    by (simp add: h find_end_def Let_def flag_descriptor_def)
qed

section \<open>Finding every member\<close>

definition front_ok :: "bool \<Rightarrow> (bytes \<times> bytes) list \<Rightarrow> bool" where
  "front_ok first es \<longleftrightarrow>
     (case es of
        [] \<Rightarrow> True
      | e # r \<Rightarrow> (starts_with METADATA_DIR (fst e) \<or> first \<and> fst e = CONTENT_TYPES_MEMBER)
          \<and> list_all (\<lambda>e. starts_with METADATA_DIR (fst e)) r)"

definition archive :: "(bytes \<times> bytes) list \<Rightarrow> bytes" where
  "archive es = concat (map zip_entry es) @ ZIP_CENTRAL_HEADER_SIG"

definition fill_found :: "(bytes \<times> bytes) list \<Rightarrow> bytes list \<Rightarrow> bytes option list \<Rightarrow> bytes option list" where
  "fill_found es names found = map2 (\<lambda>n f. if f = None then map_of es n else f) names found"

lemma fill_found_Nil: "length found = length names \<Longrightarrow> fill_found [] names found = found"
  by (auto simp: fill_found_def intro: nth_equalityI)

lemma fill_found_full: "length found = length names \<Longrightarrow> list_all (\<lambda>f. f \<noteq> None) found \<Longrightarrow> fill_found es names found = found"
  by (rule nth_equalityI) (auto simp: fill_found_def list_all_length)

lemma fill_found_skip: "name \<notin> set names \<Longrightarrow> length found = length names \<Longrightarrow>
    fill_found ((name, d) # es) names found = fill_found es names found"
  by (rule nth_equalityI) (auto simp: fill_found_def)

lemma fill_found_here:
  assumes "distinct names" "length found = length names" "slot < length names" "names ! slot = name"
  shows "fill_found ((name, d) # es) names found =
    fill_found es names (if found ! slot = None then found[slot := Some d] else found)"
  using assms by (intro nth_equalityI) (auto simp: fill_found_def nth_list_update nth_eq_iff_index_eq)

lemma sigs_differ: "ZIP_LOCAL_HEADER_SIG \<noteq> ZIP_CENTRAL_HEADER_SIG"
  by (simp add: ZIP_LOCAL_HEADER_SIG_def ZIP_CENTRAL_HEADER_SIG_def)

lemma walk_archive:
  assumes "list_all entry_fits es" "front_ok first es" "distinct names" "length found = length names"
    "length (pre @ archive es @ rest) \<le> u64_max" "saw \<or> list_ex (\<lambda>e. starts_with METADATA_DIR (fst e)) es"
  shows "walk_loop (pre @ archive es @ rest) names (length pre) first saw found = Inr (WalkDone (fill_found es names found))"
  using assms
proof (induction es arbitrary: pre first saw found)
  case Nil
  have four: "length ZIP_CENTRAL_HEADER_SIG = 4" by (simp add: ZIP_CENTRAL_HEADER_SIG_def)
  have "get_range (length pre) (length pre + 4) (pre @ archive [] @ rest) = Some ZIP_CENTRAL_HEADER_SIG"
    using get_range_middle [of pre ZIP_CENTRAL_HEADER_SIG rest] four by (simp add: archive_def)
  with Nil show ?case by (subst walk_loop.simps) (simp add: section_end_def fill_found_Nil)
next
  case (Cons e es)
  obtain name d where e: "e = (name, d)" by force
  let ?buf = "pre @ archive (e # es) @ rest" and ?pre = "pre @ zip_entry (name, d)"
  have buf: "?buf = pre @ zip_entry (name, d) @ archive es @ rest" "?buf = ?pre @ archive es @ rest"
    by (simp_all add: archive_def e)
  from Cons.prems(1) e have fit: "entry_fits (name, d)" and fits: "list_all entry_fits es" by simp_all
  let ?h = "\<lparr>lh_name = name, lh_flags = 0, lh_method = 0, lh_crc = crc32 d, lh_compressed_size = length d,
      lh_zip64 = False, lh_data_start = length pre + 30 + length name\<rparr>"
  have p: "parse_header ?buf (length pre) = Inr (Some ?h)" unfolding buf(1) by (rule parse_zip_entry [OF fit])
  have len: "length (pre @ zip_entry (name, d) @ archive es @ rest) \<le> u64_max" using Cons.prems(5) buf(1) by simp
  note fe = find_zip_entry_end [OF fit len p [unfolded buf(1)], folded buf(1)]
  have sig: "get_range (length pre) (length pre + 4) ?buf = Some ZIP_LOCAL_HEADER_SIG"
    using entry_fixed_fields(1,2) [OF fit] unfolding buf(1) by (simp add: get_range_def zip_entry_parts)
  have ok: "starts_with METADATA_DIR name \<or> first \<and> name = CONTENT_TYPES_MEMBER" "front_ok False es"
    using Cons.prems(2) e by (auto simp: front_ok_def list_all_iff split: list.splits)
  have saw: "(saw \<or> starts_with METADATA_DIR name) \<or> list_ex (\<lambda>e. starts_with METADATA_DIR (fst e)) es"
    using Cons.prems(6) e by auto
  have rest: "walk_loop ?buf names (length ?pre) False (saw \<or> starts_with METADATA_DIR name) found' =
      Inr (WalkDone (fill_found es names found'))" if "length found' = length names" for found'
    using Cons.IH [OF fits ok(2) Cons.prems(3) that _ saw, of ?pre] Cons.prems(5) unfolding buf(2) by simp
  show ?case
  proof (cases "list_all (\<lambda>f. f \<noteq> None) found")
    case True
    with Cons.prems(4) show ?thesis by (subst walk_loop.simps) (simp add: fill_found_full)
  next
    case False
    show ?thesis
    proof (cases "position (\<lambda>n. n = name) names")
      case None
      then have "name \<notin> set names" by (auto simp: position_None_iff)
      with None False sig p fe ok(1) rest [OF Cons.prems(4)] Cons.prems(4) show ?thesis
        by (subst walk_loop.simps) (simp add: Let_def e fill_found_skip sigs_differ, blast)
    next
      case (Some slot)
      from position_SomeD [OF Some] have slot: "slot < length names" "names ! slot = name" by auto
      let ?found = "if found ! slot = None then found[slot := Some d] else found"
      have "length ?found = length names" using Cons.prems(4) by simp
      note facts = False sig p fe rest [OF this] Some fill_found_here [OF Cons.prems(3,4) slot, of d es]
      show ?thesis
      proof (cases "found ! slot")
        case None
        from facts None ok(1) show ?thesis
          by (subst walk_loop.simps) (simp add: Let_def e sigs_differ del: take_append drop_append; blast)
      next
        case (Some f)
        from facts Some ok(1) show ?thesis
          by (subst walk_loop.simps) (simp add: Let_def e sigs_differ del: take_append drop_append; blast)
      qed
    qed
  qed
qed



end
