(* ===== verification/FtpsProject.thy ===== *)
theory FtpsProject
  imports FtpsClientProps ZipProps
begin

text \<open>
  Reading the front of a project file from the printer (\<open>FtpsClient::read_front_members\<close> and
  \<open>read_job_prefix\<close>): the download stops as soon as the walk over what has arrived is done.
\<close>

definition read_front_members ::
  "string \<Rightarrow> nat \<Rightarrow> string list \<Rightarrow> ftps_client \<Rightarrow> (error + bytes option list) \<times> ftps_client" where
  "read_front_members path cap names c =
     (if cap = 0 then (Inl (InvalidArgument ''read_front_members needs a non-empty buffer''), c)
      else case download_prefix_until path cap (\<lambda>read. walk_front read (map as_bytes names) \<noteq> Inr NeedMore) c of
        (Inl e, c1) \<Rightarrow> (Inl e, c1)
      | (Inr (filled, eof), c1) \<Rightarrow>
          (case walk_front filled (map as_bytes names) of
             Inl e \<Rightarrow> Inl e
           | Inr (WalkDone found) \<Rightarrow> Inr found
           | Inr NeedMore \<Rightarrow>
               if eof then Inl (project_violation ''the .3mf ends inside its front section'')
               else Inl (InvalidArgument (''a '' @ dec cap
                 @ ''-byte buffer ends before the requested .3mf members do; pass a larger one'')), c1))"

record job_prefix =
  jp_bytes :: bytes
  jp_gcode_plates :: "nat list"

definition read_job_prefix :: "string \<Rightarrow> nat \<Rightarrow> ftps_client \<Rightarrow> (error + job_prefix) \<times> ftps_client" where
  "read_job_prefix path cap c =
     (if cap = 0 then (Inl (InvalidArgument ''read_job_prefix needs a non-empty buffer''), c)
      else case download_prefix_until path cap (\<lambda>read. walk_gcode_plates read \<noteq> Inr GcodeNeedMore) c of
        (Inl e, c1) \<Rightarrow> (Inl e, c1)
      | (Inr (filled, eof), c1) \<Rightarrow>
          (case walk_gcode_plates filled of
             Inl e \<Rightarrow> Inl e
           | Inr (GcodeDone plates) \<Rightarrow> Inr \<lparr>jp_bytes = filled, jp_gcode_plates = plates\<rparr>
           | Inr GcodeNeedMore \<Rightarrow>
               if eof then Inl (project_violation ''the .3mf ends before its list of plate G-code does'')
               else Inl (InvalidArgument (''a '' @ dec cap
                 @ ''-byte buffer ends before the .3mf'' @ [CHR 0x27] @ ''s list of plate G-code does; pass a larger one'')), c1))"

lemma read_prefix_from_prefix:
  "read_prefix_from cap stop t b acc s = (Inr e, buf, s') \<Longrightarrow> length acc \<le> cap \<Longrightarrow>
    length buf \<le> cap \<and> (\<exists>rest. acc @ until_eof (inbound s) = buf @ rest)"
proof (induction cap stop t b acc s rule: read_prefix_from.induct)
  case (1 cap stop t b acc s)
  show ?case
  proof (cases "length acc < cap")
    case False
    with 1 show ?thesis by (simp add: read_prefix_from.simps [of cap stop t b acc s])
  next
    case True
    with "1.prems"(1) obtain bs s1 where r: "data_read t b (cap - length acc) s = (Inr bs, s1)"
      by (auto simp: read_prefix_from.simps [of cap stop t b acc s] split: sum.splits prod.splits)
    from data_read_until_eof [OF r] have u: "until_eof (inbound s) = (if bs = [] then [] else bs @ until_eof (inbound s1))"
      using True by simp
    from data_read_ok [OF r] have "length bs \<le> cap - length acc" by simp
    then have l: "length (acc @ bs) \<le> cap" using True by (simp add: le_diff_conv2)
    consider "bs = []" "buf = acc" | "bs \<noteq> []" "stop (acc @ bs)" "buf = acc @ bs"
      | "bs \<noteq> []" "\<not> stop (acc @ bs)" "read_prefix_from cap stop t b (acc @ bs) s1 = (Inr e, buf, s')"
      using "1.prems"(1) True r by (auto simp: read_prefix_from.simps [of cap stop t b acc s] split: if_splits)
    then show ?thesis
    proof cases
      case 3
      from "1.IH" [OF True r [symmetric] refl 3(1,2,3) l] 3(1) u show ?thesis by simp
    qed (use u l "1.prems"(2) in auto)
  qed
qed


end
