(* ===== verification/ZipMember.thy ===== *)
theory ZipMember
  imports Zip Upload
begin

text \<open>
  The reader of one archive member through the ZIP's central directory
  (\<open>src/ftps/project/slice_info.rs\<close>): a window over an upload source, the end record in the file's tail, the
  member's central entry, its local header and its data. Inflating (\<open>miniz_oxide\<close>) is a parameter: the bytes and the
  cap give the inflated bytes, or nothing.
\<close>

section \<open>Reading by windows\<close>

definition ZIP_EOCD_SIG :: bytes where "ZIP_EOCD_SIG = [0x50, 0x4B, 0x05, 0x06]"
definition ZIP64_LOCATOR_SIG :: bytes where "ZIP64_LOCATOR_SIG = [0x50, 0x4B, 0x06, 0x07]"
abbreviation (input) ZIP_EOCD_LEN :: nat where "ZIP_EOCD_LEN \<equiv> 22"
abbreviation (input) ZIP_MAX_COMMENT :: nat where "ZIP_MAX_COMMENT \<equiv> 65535"
abbreviation (input) ZIP_CENTRAL_ENTRY_LEN :: nat where "ZIP_CENTRAL_ENTRY_LEN \<equiv> 46"
abbreviation (input) ZIP64_COUNT_MARKER :: nat where "ZIP64_COUNT_MARKER \<equiv> 65535"
abbreviation (input) READ_WINDOW :: nat where "READ_WINDOW \<equiv> 4096"
abbreviation (input) SLICE_INFO_MAX_BYTES :: nat where "SLICE_INFO_MAX_BYTES \<equiv> 2097152"
definition SLICE_INFO_MEMBER :: string where "SLICE_INFO_MEMBER = ''Metadata/slice_info.config''"

function read_exact_from :: "upload_source \<Rightarrow> nat \<Rightarrow> nat \<Rightarrow> bytes \<Rightarrow> error + bytes" where
  "read_exact_from src offset len got =
     (if length got < len then
        (case read_next src (offset + length got) (len - length got) of
           Inl e \<Rightarrow> Inl e
         | Inr bs \<Rightarrow>
             if bs = [] then Inl (project_violation ''the .3mf source ended before its length'')
             else read_exact_from src offset len (got @ bs))
      else Inr got)"
  by pat_completeness auto
termination
  by (relation "measure (\<lambda>(_, _, len, got). len - length got)") (auto intro!: diff_less_mono2)

declare read_exact_from.simps [simp del]

definition read_exact_at :: "upload_source \<Rightarrow> nat \<Rightarrow> nat \<Rightarrow> error + bytes" where
  "read_exact_at src offset len = read_exact_from src offset len []"

record window =
  win_start :: nat
  win_buf :: bytes

definition new_window :: window where "new_window = \<lparr>win_start = 0, win_buf = []\<rparr>"

definition win_slice :: "upload_source \<Rightarrow> nat \<Rightarrow> nat \<Rightarrow> window \<Rightarrow> error + bytes \<times> window" where
  "win_slice src offset len w =
     (let stop = offset + len in
      if stop > u64_max \<or> stop > src_len src
      then Inl (project_violation ''a ZIP structure points past the end of the file'')
      else if win_start w \<le> offset \<and> stop \<le> win_start w + length (win_buf w)
      then Inr (take len (drop (offset - win_start w) (win_buf w)), w)
      else case read_exact_at src offset (min (max len READ_WINDOW) (src_len src - offset)) of
          Inl e \<Rightarrow> Inl e
        | Inr buf \<Rightarrow> Inr (take len buf, \<lparr>win_start = offset, win_buf = buf\<rparr>))"

section \<open>The central directory\<close>

record member_location =
  ml_method :: nat
  ml_crc :: u32
  ml_compressed_size :: nat
  ml_uncompressed_size :: nat
  ml_local_header_offset :: nat

definition lower_byte :: "u8 \<Rightarrow> u8" where
  "lower_byte b = (if 65 \<le> b \<and> b \<le> 90 then b + 32 else b)"

definition bytes_eq_ignore_case :: "bytes \<Rightarrow> bytes \<Rightarrow> bool" where
  "bytes_eq_ignore_case a b \<longleftrightarrow> map lower_byte a = map lower_byte b"

definition central_location :: "bytes \<Rightarrow> member_location" where
  "central_location fixed =
     \<lparr>ml_method = le_u16 fixed 10, ml_crc = le_u32 fixed 16, ml_compressed_size = unat (le_u32 fixed 20),
      ml_uncompressed_size = unat (le_u32 fixed 24), ml_local_header_offset = unat (le_u32 fixed 42)\<rparr>"

fun central_loop ::
  "upload_source \<Rightarrow> nat \<Rightarrow> nat \<Rightarrow> bytes \<Rightarrow> nat \<Rightarrow> nat \<Rightarrow> window \<Rightarrow> error + member_location option \<times> window" where
  "central_loop src cd_offset cd_size name 0 pos w = Inr (None, w)"
| "central_loop src cd_offset cd_size name (Suc entries) pos w =
     (if pos + ZIP_CENTRAL_ENTRY_LEN > cd_size
      then Inl (project_violation ''the ZIP central directory ends inside an entry'')
      else case win_slice src (cd_offset + pos) ZIP_CENTRAL_ENTRY_LEN w of
        Inl e \<Rightarrow> Inl e
      | Inr (fixed, w) \<Rightarrow>
          if take 4 fixed \<noteq> ZIP_CENTRAL_HEADER_SIG
          then Inl (project_violation ''no ZIP central directory entry where one is due'')
          else
            let name_len = le_u16 fixed 28;
                entry_len = ZIP_CENTRAL_ENTRY_LEN + name_len + le_u16 fixed 30 + le_u16 fixed 32
            in if pos + entry_len > cd_size
               then Inl (project_violation ''the ZIP central directory ends inside an entry'')
               else if name_len = length name
               then (case win_slice src (cd_offset + pos + ZIP_CENTRAL_ENTRY_LEN) name_len w of
                       Inl e \<Rightarrow> Inl e
                     | Inr (entry_name, w) \<Rightarrow>
                         if bytes_eq_ignore_case entry_name name
                         then if flag_encrypted (le_u16 fixed 8) then Inl (project_violation ''encrypted .3mf entry'')
                              else Inr (Some (central_location fixed), w)
                         else central_loop src cd_offset cd_size name entries (pos + entry_len) w)
               else central_loop src cd_offset cd_size name entries (pos + entry_len) w)"

definition find_central_entry ::
  "upload_source \<Rightarrow> nat \<Rightarrow> nat \<Rightarrow> nat \<Rightarrow> bytes \<Rightarrow> window \<Rightarrow> error + member_location option \<times> window" where
  "find_central_entry src cd_offset cd_size entries name w = central_loop src cd_offset cd_size name entries 0 w"

section \<open>The end of central directory\<close>

definition eocd_position :: "bytes \<Rightarrow> nat option" where
  "eocd_position tail =
     find (\<lambda>i. take 4 (drop i tail) = ZIP_EOCD_SIG \<and> i + ZIP_EOCD_LEN + le_u16 tail (i + 20) = length tail)
       (rev [0..<length tail - 21])"

fun find_eocd ::
  "upload_source \<Rightarrow> nat \<Rightarrow> nat list \<Rightarrow> window \<Rightarrow> error + (bytes \<times> nat \<times> nat) option \<times> window" where
  "find_eocd src max_tail [] w = Inr (None, w)"
| "find_eocd src max_tail (tail_len # ls) w =
     (let tail_start = src_len src - tail_len in
      case win_slice src tail_start tail_len w of
        Inl e \<Rightarrow> Inl e
      | Inr (tail, w) \<Rightarrow>
          (case eocd_position tail of
             Some eocd \<Rightarrow> Inr (Some (tail, tail_start, eocd), w)
           | None \<Rightarrow> if tail_len = max_tail then Inr (None, w) else find_eocd src max_tail ls w))"

text \<open>The checks on the end record: the number of entries, and the directory's offset and size.\<close>

definition check_eocd :: "bytes \<Rightarrow> nat \<Rightarrow> nat \<Rightarrow> error + nat \<times> nat \<times> nat" where
  "check_eocd tail tail_start eocd =
     (let record = take ZIP_EOCD_LEN (drop eocd tail);
          entries = le_u16 record 10;
          cd_size = unat (le_u32 record 12);
          cd_offset = unat (le_u32 record 16)
      in if (eocd \<ge> 20 \<and> take 4 (drop (eocd - 20) tail) = ZIP64_LOCATOR_SIG)
           \<or> entries = ZIP64_COUNT_MARKER \<or> cd_size = ZIP64_SIZE_MARKER \<or> cd_offset = ZIP64_SIZE_MARKER
         then Inl (project_violation ''a Zip64 .3mf archive is not supported'')
         else if le_u16 record 4 \<noteq> 0 \<or> le_u16 record 6 \<noteq> 0 \<or> le_u16 record 8 \<noteq> entries
         then Inl (project_violation ''a multi-disk .3mf archive is not supported'')
         else if cd_offset + cd_size > tail_start + eocd
         then Inl (project_violation ''the ZIP central directory overlaps the end of central directory record'')
         else Inr (entries, cd_offset, cd_size))"

section \<open>One member\<close>

text \<open>The bytes of the member from its data as stored: unpacked, and checked against the directory.\<close>

definition unpack_member :: "(bytes \<Rightarrow> nat \<Rightarrow> bytes option) \<Rightarrow> member_location \<Rightarrow> bytes \<Rightarrow> error + bytes" where
  "unpack_member inflate loc data =
     (case (if ml_method loc = ZIP_METHOD_STORED
            then if ml_compressed_size loc \<noteq> ml_uncompressed_size loc
                 then Inl (project_violation (''a stored member'' @ [CHR 0x27] @ ''s two sizes disagree''))
                 else Inr data
            else if ml_method loc = ZIP_METHOD_DEFLATE
            then (case inflate data SLICE_INFO_MAX_BYTES of
                    None \<Rightarrow> Inl (project_violation ''slice_info.config fails to inflate'')
                  | Some bytes \<Rightarrow> Inr bytes)
            else Inl (project_violation
              ''slice_info.config uses a compression method other than stored or deflate'')) of
        Inl e \<Rightarrow> Inl e
      | Inr bytes \<Rightarrow>
          if length bytes \<noteq> ml_uncompressed_size loc \<or> crc32 bytes \<noteq> ml_crc loc
          then Inl (project_violation ''slice_info.config fails its size or CRC-32'')
          else Inr bytes)"

text \<open>From the member's central entry to its data.\<close>

definition read_located ::
  "(bytes \<Rightarrow> nat \<Rightarrow> bytes option) \<Rightarrow> upload_source \<Rightarrow> nat \<Rightarrow> member_location \<Rightarrow> window \<Rightarrow> error + bytes" where
  "read_located inflate src cd_offset loc w =
     (if ml_compressed_size loc = ZIP64_SIZE_MARKER \<or> ml_uncompressed_size loc = ZIP64_SIZE_MARKER
        \<or> ml_local_header_offset loc = ZIP64_SIZE_MARKER
      then Inl (project_violation ''a Zip64 .3mf archive is not supported'')
      else if ml_compressed_size loc > SLICE_INFO_MAX_BYTES \<or> ml_uncompressed_size loc > SLICE_INFO_MAX_BYTES
      then Inl (project_violation ''slice_info.config is larger than the read cap'')
      else let local_at = ml_local_header_offset loc in
        case win_slice src local_at ZIP_LOCAL_HEADER_LEN w of
          Inl e \<Rightarrow> Inl e
        | Inr (fixed, w) \<Rightarrow>
            if take 4 fixed \<noteq> ZIP_LOCAL_HEADER_SIG
            then Inl (project_violation ''no ZIP local header where the central directory points'')
            else let data_at = local_at + ZIP_LOCAL_HEADER_LEN + le_u16 fixed 26 + le_u16 fixed 28
              in if data_at + ml_compressed_size loc > cd_offset
                 then Inl (project_violation
                   (''the member'' @ [CHR 0x27] @ ''s data runs into the central directory''))
                 else case read_exact_at src data_at (ml_compressed_size loc) of
                     Inl e \<Rightarrow> Inl e
                   | Inr data \<Rightarrow> unpack_member inflate loc data)"

definition read_member ::
  "(bytes \<Rightarrow> nat \<Rightarrow> bytes option) \<Rightarrow> upload_source \<Rightarrow> string \<Rightarrow> error + bytes" where
  "read_member inflate src name =
     (let max_tail = min (src_len src) (ZIP_EOCD_LEN + ZIP_MAX_COMMENT) in
      if max_tail < ZIP_EOCD_LEN then Inl (project_violation ''the file is too short to be a ZIP archive'')
      else case find_eocd src max_tail [min READ_WINDOW max_tail, max_tail] new_window of
          Inl e \<Rightarrow> Inl e
        | Inr (None, w) \<Rightarrow>
            Inl (project_violation ''no ZIP end of central directory: not a .3mf archive'')
        | Inr (Some (tail, tail_start, eocd), w) \<Rightarrow>
            (case check_eocd tail tail_start eocd of
               Inl e \<Rightarrow> Inl e
             | Inr (entries, cd_offset, cd_size) \<Rightarrow>
                 (case find_central_entry src cd_offset cd_size entries (as_bytes name) w of
                    Inl e \<Rightarrow> Inl e
                  | Inr (None, w) \<Rightarrow>
                      Inl (project_violation ''the .3mf has no Metadata/slice_info.config'')
                  | Inr (Some loc, w) \<Rightarrow> read_located inflate src cd_offset loc w)))"

section \<open>The two readers\<close>

definition member_text :: "bytes \<Rightarrow> error + string" where
  "member_text bytes =
     (case from_utf8 bytes of
        None \<Rightarrow> Inl (project_violation ''slice_info.config is not valid UTF-8'')
      | Some s \<Rightarrow> Inr s)"

definition read_plate_filaments ::
  "(bytes \<Rightarrow> nat \<Rightarrow> bytes option) \<Rightarrow> upload_source \<Rightarrow> nat \<Rightarrow> error + plate_filaments" where
  "read_plate_filaments inflate src plate =
     (case read_member inflate src SLICE_INFO_MEMBER of
        Inl e \<Rightarrow> Inl e
      | Inr bytes \<Rightarrow>
          (case member_text bytes of Inl e \<Rightarrow> Inl e | Inr s \<Rightarrow> parse_slice_info s plate))"

definition read_sliced_for ::
  "(bytes \<Rightarrow> nat \<Rightarrow> bytes option) \<Rightarrow> upload_source \<Rightarrow> error + string option" where
  "read_sliced_for inflate src =
     (case read_member inflate src SLICE_INFO_MEMBER of
        Inl e \<Rightarrow> Inl e
      | Inr bytes \<Rightarrow>
          (case member_text bytes of Inl e \<Rightarrow> Inl e | Inr s \<Rightarrow> parse_sliced_for s))"

section \<open>A window shows the file\<close>

text \<open>A source of a file: whatever it returns is the file's bytes from the offset on, in pieces as short as it likes.\<close>

definition serves :: "upload_source \<Rightarrow> bytes \<Rightarrow> bool" where
  "serves src file \<longleftrightarrow> src_len src = length file \<and>
     (\<forall>offset cap bs. src_read_at src offset cap = Inr bs \<longrightarrow> bs = take (length bs) (drop offset file))"

lemma serves_slice_source: "serves (slice_source file) file"
  by (auto simp: serves_def slice_source_def min_def)

lemma read_next_serves:
  "serves src file \<Longrightarrow> read_next src offset cap = Inr bs \<Longrightarrow> bs = take (length bs) (drop offset file) \<and> length bs \<le> cap"
  by (auto simp: read_next_def serves_def Let_def split: sum.splits if_splits)

lemma take_drop_join:
  "xs = take (length xs) (drop i file) \<Longrightarrow> ys = take (length ys) (drop (i + length xs) file)
    \<Longrightarrow> xs @ ys = take (length (xs @ ys)) (drop i file)"
  by (metis length_append take_add drop_drop add.commute)

lemma read_exact_from_serves:
  "read_exact_from src offset len got = Inr r \<Longrightarrow> serves src file \<Longrightarrow>
    got = take (length got) (drop offset file) \<Longrightarrow> length got \<le> len \<Longrightarrow> r = take len (drop offset file) \<and> length r = len"
proof (induction src offset len got rule: read_exact_from.induct)
  case (1 src offset len got)
  show ?case
  proof (cases "length got < len")
    case True
    with "1.prems"(1) obtain bs where bs: "read_next src (offset + length got) (len - length got) = Inr bs"
      "bs \<noteq> []" "read_exact_from src offset len (got @ bs) = Inr r"
      by (auto simp: read_exact_from.simps [of src offset len got] split: sum.splits if_splits)
    from read_next_serves [OF "1.prems"(2) bs(1)]
    have next_bytes: "bs = take (length bs) (drop (offset + length got) file)" "length bs \<le> len - length got" by auto
    have "length (got @ bs) \<le> len" using next_bytes(2) True by simp
    from "1.IH" [OF True bs(1,2,3) "1.prems"(2) take_drop_join [OF "1.prems"(3) next_bytes(1)] this]
    show ?thesis .
  next
    case False
    with "1.prems" have "r = got" "length got = len" by (simp_all add: read_exact_from.simps [of src offset len got])
    with "1.prems"(3) show ?thesis by simp
  qed
qed

lemma read_exact_at_serves:
  "read_exact_at src offset len = Inr r \<Longrightarrow> serves src file \<Longrightarrow> r = take len (drop offset file) \<and> length r = len"
  using read_exact_from_serves [where got = "[]"] by (simp add: read_exact_at_def)

definition window_ok :: "bytes \<Rightarrow> window \<Rightarrow> bool" where
  "window_ok file w \<longleftrightarrow> win_buf w = take (length (win_buf w)) (drop (win_start w) file)"

lemma window_ok_new [simp]: "window_ok file new_window"
  by (simp add: window_ok_def new_window_def)

lemma window_part:
  assumes "window_ok file w" "win_start w \<le> offset" "offset + len \<le> win_start w + length (win_buf w)"
  shows "take len (drop (offset - win_start w) (win_buf w)) = take len (drop offset file)"
proof -
  have "take len (drop (offset - win_start w) (take (length (win_buf w)) (drop (win_start w) file))) = take len (drop offset file)"
    using assms(2,3) by (simp add: drop_take min_def)
  with assms(1) show ?thesis by (simp add: window_ok_def)
qed

lemma win_slice_serves:
  assumes "win_slice src offset len w = Inr (bs, w')" "serves src file" "window_ok file w"
  shows "bs = take len (drop offset file) \<and> offset + len \<le> length file \<and> window_ok file w'"
proof (cases "win_start w \<le> offset \<and> offset + len \<le> win_start w + length (win_buf w)")
  case True
  with assms window_part [OF assms(3)] show ?thesis
    by (auto simp: win_slice_def Let_def serves_def split: if_splits)
next
  case False
  with assms(1) obtain buf where buf: "read_exact_at src offset (min (max len READ_WINDOW) (src_len src - offset)) = Inr buf"
    "bs = take len buf" "w' = \<lparr>win_start = offset, win_buf = buf\<rparr>" and fits: "offset + len \<le> src_len src"
    by (auto simp: win_slice_def Let_def split: if_splits sum.splits)
  from read_exact_at_serves [OF buf(1) assms(2)]
  have r: "buf = take (min (max len READ_WINDOW) (src_len src - offset)) (drop offset file)"
    "length buf = min (max len READ_WINDOW) (src_len src - offset)" by auto
  moreover have "len \<le> min (max len READ_WINDOW) (src_len src - offset)" using fits by simp
  ultimately have "bs = take len (drop offset file)" "window_ok file w'"
    unfolding buf(2,3) window_ok_def by (simp_all add: min_def)
  with fits assms(2) show ?thesis by (simp add: serves_def)
qed

section \<open>What a member that is returned is\<close>

definition central_at :: "bytes \<Rightarrow> nat \<Rightarrow> bytes \<Rightarrow> member_location \<Rightarrow> bool" where
  "central_at file i name loc \<longleftrightarrow>
     i + 46 + length name \<le> length file \<and> take 4 (drop i file) = ZIP_CENTRAL_HEADER_SIG
     \<and> bytes_eq_ignore_case (take (length name) (drop (i + 46) file)) name
     \<and> le_u16 file (i + 28) = length name \<and> \<not> flag_encrypted (le_u16 file (i + 8))
     \<and> loc = \<lparr>ml_method = le_u16 file (i + 10), ml_crc = le_u32 file (i + 16),
          ml_compressed_size = unat (le_u32 file (i + 20)), ml_uncompressed_size = unat (le_u32 file (i + 24)),
          ml_local_header_offset = unat (le_u32 file (i + 42))\<rparr>"

lemma le_within:
  "i + len \<le> length file \<Longrightarrow> k + 2 \<le> len \<Longrightarrow> le_u16 (take len (drop i file)) k = le_u16 file (i + k)"
  "i + len \<le> length file \<Longrightarrow> k + 4 \<le> len \<Longrightarrow> le_u32 (take len (drop i file)) k = le_u32 file (i + k)"
  by (simp_all add: le_u16_def le_u32_def add.assoc)

lemma central_loop_finds:
  "central_loop src cd_offset cd_size name entries pos w = Inr (Some loc, w') \<Longrightarrow> serves src file \<Longrightarrow> window_ok file w \<Longrightarrow>
    \<exists>i. cd_offset \<le> i \<and> central_at file i name loc \<and> window_ok file w'"
proof (induction src cd_offset cd_size name entries pos w rule: central_loop.induct)
  case (2 src cd_offset cd_size name entries pos w)
  from "2.prems"(1) obtain fixed w1 where s1: "win_slice src (cd_offset + pos) 46 w = Inr (fixed, w1)"
    and fits: "\<not> pos + 46 > cd_size" and sig: "take 4 fixed = ZIP_CENTRAL_HEADER_SIG"
    by (auto split: if_splits sum.splits)
  let ?len = "46 + le_u16 fixed 28 + le_u16 fixed 30 + le_u16 fixed 32"
  from win_slice_serves [OF s1 "2.prems"(2,3)]
  have f: "fixed = take 46 (drop (cd_offset + pos) file)" "cd_offset + pos + 46 \<le> length file" "window_ok file w1" by auto
  have el: "\<not> pos + ?len > cd_size" using "2.prems"(1) s1 fits sig by (auto simp: Let_def split: if_splits)
  note IH = "2.IH" [OF fits s1 refl _ refl refl el]
  show ?case
  proof (cases "le_u16 fixed 28 = length name")
    case False
    with "2.prems"(1) s1 fits sig el have "central_loop src cd_offset cd_size name entries (pos + ?len) w1 = Inr (Some loc, w')"
      by (simp add: Let_def)
    with IH(2) False sig f(3) "2.prems"(2) show ?thesis by blast
  next
    case True
    with "2.prems"(1) s1 fits sig el obtain entry_name w2
      where s2: "win_slice src (cd_offset + pos + 46) (le_u16 fixed 28) w1 = Inr (entry_name, w2)"
      by (auto simp: Let_def split: sum.splits)
    from win_slice_serves [OF s2 "2.prems"(2) f(3)]
    have n: "entry_name = take (length name) (drop (cd_offset + pos + 46) file)"
      "cd_offset + pos + 46 + length name \<le> length file" "window_ok file w2" using True by auto
    show ?thesis
    proof (cases "bytes_eq_ignore_case entry_name name")
      case False
      with "2.prems"(1) s1 s2 fits sig el True
      have "central_loop src cd_offset cd_size name entries (pos + ?len) w2 = Inr (Some loc, w')" by (simp add: Let_def)
      with IH(1) True s2 False sig n(3) "2.prems"(2) show ?thesis by blast
    next
      case eq: True
      with "2.prems"(1) s1 s2 fits sig el True
      have r: "\<not> flag_encrypted (le_u16 fixed 8)" "loc = central_location fixed" "w' = w2"
        by (auto simp: Let_def split: if_splits)
      have "take 4 (drop (cd_offset + pos) file) = ZIP_CENTRAL_HEADER_SIG" using sig by (simp add: f(1))
      with r True eq n f(2) le_within [OF f(2), folded f(1)] show ?thesis
        by (intro exI [of _ "cd_offset + pos"]) (simp add: central_at_def central_location_def)
    qed
  qed
qed simp

lemma find_eocd_serves:
  "find_eocd src max_tail ls w = Inr (r, w') \<Longrightarrow> serves src file \<Longrightarrow> window_ok file w \<Longrightarrow> window_ok file w'"
  by (induction ls arbitrary: w)
    (auto simp: Let_def dest: win_slice_serves split: sum.splits option.splits if_splits)

lemma unpack_member_checked:
  assumes "unpack_member inflate loc d = Inr bytes"
  shows "length bytes = ml_uncompressed_size loc \<and> crc32 bytes = ml_crc loc \<and>
    (if ml_method loc = ZIP_METHOD_STORED then bytes = d
     else ml_method loc = ZIP_METHOD_DEFLATE \<and> inflate d SLICE_INFO_MAX_BYTES = Some bytes)"
  using assms by (auto simp: unpack_member_def split: if_splits option.splits)

text \<open>C36. A member that is read is the one its name belongs to: the directory has an entry of that name, up to the case
  of its letters and not encrypted; the bytes have the length and the checksum of the entry, and are the file's own,
  stored or inflated, between the local header the entry points to and the directory.\<close>

theorem member_read_checked:
  assumes "serves src file" "read_member inflate src name = Inr bytes"
  shows "\<exists>i loc start. central_at file i (as_bytes name) loc
    \<and> length bytes = ml_uncompressed_size loc \<and> crc32 bytes = ml_crc loc
    \<and> take 4 (drop (ml_local_header_offset loc) file) = ZIP_LOCAL_HEADER_SIG
    \<and> ml_local_header_offset loc + 30 \<le> start \<and> start + ml_compressed_size loc \<le> i
    \<and> (let d = take (ml_compressed_size loc) (drop start file) in
       if ml_method loc = ZIP_METHOD_STORED then bytes = d
       else ml_method loc = ZIP_METHOD_DEFLATE \<and> inflate d SLICE_INFO_MAX_BYTES = Some bytes)"
proof -
  from assms(2) obtain tail tail_start eocd w1 entries cd_offset cd_size loc w2
    where e: "find_eocd src (min (src_len src) 65557) [min READ_WINDOW (min (src_len src) 65557), min (src_len src) 65557] new_window
        = Inr (Some (tail, tail_start, eocd), w1)"
      and c: "find_central_entry src cd_offset cd_size entries (as_bytes name) w1 = Inr (Some loc, w2)"
      and l: "read_located inflate src cd_offset loc w2 = Inr bytes"
    by (auto simp: read_member_def Let_def split: if_splits sum.splits option.splits)
  from find_eocd_serves [OF e assms(1)] have "window_ok file w1" by simp
  from central_loop_finds [OF c [unfolded find_central_entry_def] assms(1) this] obtain i
    where i: "cd_offset \<le> i" "central_at file i (as_bytes name) loc" "window_ok file w2" by auto
  from l obtain fixed w3 d where s: "win_slice src (ml_local_header_offset loc) 30 w2 = Inr (fixed, w3)"
    and sig: "take 4 fixed = ZIP_LOCAL_HEADER_SIG"
    and within: "ml_local_header_offset loc + 30 + le_u16 fixed 26 + le_u16 fixed 28 + ml_compressed_size loc \<le> cd_offset"
    and d: "read_exact_at src (ml_local_header_offset loc + 30 + le_u16 fixed 26 + le_u16 fixed 28) (ml_compressed_size loc) = Inr d"
    and u: "unpack_member inflate loc d = Inr bytes"
    by (auto simp: read_located_def Let_def split: if_splits sum.splits)
  from win_slice_serves [OF s assms(1) i(3)] have "fixed = take 30 (drop (ml_local_header_offset loc) file)" by simp
  with sig have "take 4 (drop (ml_local_header_offset loc) file) = ZIP_LOCAL_HEADER_SIG" by simp
  moreover have "d = take (ml_compressed_size loc)
      (drop (ml_local_header_offset loc + 30 + le_u16 fixed 26 + le_u16 fixed 28) file)"
    using read_exact_at_serves [OF d assms(1)] by simp
  note unpack_member_checked [OF u [unfolded this]]
  ultimately show ?thesis using i(1,2) within
    by - (rule exI [of _ i], rule exI [of _ loc],
        rule exI [of _ "ml_local_header_offset loc + 30 + le_u16 fixed 26 + le_u16 fixed 28"], simp add: Let_def)
qed

definition small_archive :: bytes where
  "small_archive =
     ZIP_LOCAL_HEADER_SIG @ [0, 0, 0, 0, 0, 0, 0, 0, 0, 0, 0, 0, 0, 0, 0, 0, 0, 0, 0, 0, 0, 0] @ [1, 0, 0, 0, 97]
     @ ZIP_CENTRAL_HEADER_SIG @ [0, 0, 0, 0, 0, 0, 0, 0, 0, 0, 0, 0, 0, 0, 0, 0, 0, 0, 0, 0, 0, 0, 0, 0] @ [1] @ [0, 0, 0, 0, 0, 0, 0, 0, 0, 0, 0, 0, 0, 0, 0, 0, 0] @ [65]
     @ ZIP_EOCD_SIG @ [0, 0, 0, 0, 1, 0, 1, 0, 47, 0, 0, 0, 31, 0, 0, 0, 0, 0]"

lemmas small_archive_bytes = small_archive_def ZIP_LOCAL_HEADER_SIG_def ZIP_CENTRAL_HEADER_SIG_def ZIP_EOCD_SIG_def

lemma small_archive_length [simp]: "length small_archive = 100"
  by (simp add: small_archive_bytes)

lemma whole_window:
  "offset + len \<le> length f \<Longrightarrow> length f \<le> u64_max \<Longrightarrow>
    win_slice (slice_source f) offset len \<lparr>win_start = 0, win_buf = f\<rparr> = Inr (take len (drop offset f), \<lparr>win_start = 0, win_buf = f\<rparr>)"
  by (simp add: win_slice_def Let_def slice_source_def)

lemma read_slice: "offset + len \<le> length f \<Longrightarrow> read_exact_at (slice_source f) offset len = Inr (take len (drop offset f))"
  unfolding read_exact_at_def
  by (subst read_exact_from.simps, subst read_exact_from.simps)
    (auto simp: read_next_def slice_source_def Let_def min_def)

lemma first_window:
  "length f \<le> 4096 \<Longrightarrow> 0 < length f \<Longrightarrow>
    win_slice (slice_source f) 0 (length f) new_window = Inr (f, \<lparr>win_start = 0, win_buf = f\<rparr>)"
  using read_slice [of 0 "length f" f] by (simp add: win_slice_def Let_def new_window_def slice_source_def)

lemma len_slice_source: "src_len (slice_source f) = length f"
  by (simp add: slice_source_def)

lemma small_archive_eocd: "eocd_position small_archive = Some 78"
proof -
  have "rev [0..<length small_archive - 21] = 78 # rev [0..<78]" using upt_Suc_append [of 0 78] by simp
  moreover have "take 4 (drop 78 small_archive) = ZIP_EOCD_SIG" "le_u16 small_archive 98 = 0"
    by (simp_all add: small_archive_bytes le_u16_def)
  ultimately show ?thesis by (simp add: eocd_position_def)
qed

lemma small_archive_checked: "check_eocd small_archive 0 78 = Inr (1, 31, 47)"
  by (simp add: check_eocd_def Let_def) (simp add: small_archive_bytes le_u16_def le_u32_def u32_of_le_def ZIP64_LOCATOR_SIG_def)

lemma small_archive_entry:
  "take 4 (drop 31 small_archive) = ZIP_CENTRAL_HEADER_SIG" "le_u16 (take 46 (drop 31 small_archive)) 28 = 1"
  "le_u16 (take 46 (drop 31 small_archive)) 30 = 0" "le_u16 (take 46 (drop 31 small_archive)) 32 = 0"
  "le_u16 (take 46 (drop 31 small_archive)) 8 = 0" "take (Suc 0) (drop 77 small_archive) = [65]"
  "central_location (take 46 (drop 31 small_archive)) = \<lparr>ml_method = 0, ml_crc = 0, ml_compressed_size = 0,
     ml_uncompressed_size = 0, ml_local_header_offset = 0\<rparr>"
  "take 4 small_archive = ZIP_LOCAL_HEADER_SIG" "le_u16 (take 30 small_archive) 26 = 1" "le_u16 (take 30 small_archive) 28 = 0"
  by (simp_all add: small_archive_bytes le_u16_def le_u32_def u32_of_le_def central_location_def)

lemma small_archive_found:
  "find_central_entry (slice_source small_archive) 31 47 1 (as_bytes ''a'') \<lparr>win_start = 0, win_buf = small_archive\<rparr>
     = Inr (Some \<lparr>ml_method = 0, ml_crc = 0, ml_compressed_size = 0, ml_uncompressed_size = 0, ml_local_header_offset = 0\<rparr>,
        \<lparr>win_start = 0, win_buf = small_archive\<rparr>)"
  by (simp add: find_central_entry_def numeral_eq_Suc [of num.One] whole_window small_archive_entry Let_def
      bytes_eq_ignore_case_def as_bytes_def char_byte_def of_char_def horner_sum_simps lower_byte_def flag_encrypted_def)

theorem member_read_checked_witness:
  "\<exists>i loc start. central_at small_archive i (as_bytes ''a'') loc \<and> start + ml_compressed_size loc \<le> i"
proof -
  have "find_eocd (slice_source small_archive) 100 [100, 100] new_window
      = Inr (Some (small_archive, 0, 78), \<lparr>win_start = 0, win_buf = small_archive\<rparr>)"
    using first_window [of small_archive] by (simp add: Let_def small_archive_eocd len_slice_source)
  then have "read_member (\<lambda>_ _. None) (slice_source small_archive) ''a'' = Inr []"
    using small_archive_found whole_window [of 0 30 small_archive] read_slice [of 31 0 small_archive]
    by (simp add: read_member_def Let_def small_archive_checked read_located_def small_archive_entry unpack_member_def crc32_def
        len_slice_source)
  from member_read_checked [OF serves_slice_source this] show ?thesis by blast
qed

end
