(* ===== verification/Temps.thy ===== *)
theory Temps
  imports Gcode "HOL-Library.Log_Nat"
begin

text \<open>
  Heater temperatures and the decoder of their packing (\<open>src/types/telemetry/temps.rs\<close>), with as much of \<open>f64\<close> as
  they use: a finite value is the rational it stands for, a sum is rounded to the nearest value of 53 bits, ties to even,
  and a cast to an unsigned integer truncates and saturates.
\<close>

unbundle bit_operations_syntax

section \<open>Floating point\<close>

datatype f64 = Fin rat | PosInfinity | NegInfinity | NotANumber

text \<open>The unit in the last place of a positive normal value.\<close>

definition f64_ulp :: "rat \<Rightarrow> rat" where
  "f64_ulp x =
     (if x \<ge> 1 then 2 ^ floorlog 2 (nat \<lfloor>x\<rfloor>) / 2 ^ 53
      else 1 / 2 ^ (floorlog 2 (nat (\<lceil>1 / x\<rceil> - 1)) + 52))"

definition f64_round :: "rat \<Rightarrow> rat" where
  "f64_round x =
     (if x = 0 then 0
      else if x > 0 then of_int (round_half_even (x / f64_ulp x)) * f64_ulp x
      else - (of_int (round_half_even (- x / f64_ulp (- x))) * f64_ulp (- x)))"

text \<open>\<open>value + 0.5\<close>; no finite sum with one half overflows.\<close>

fun plus_half :: "f64 \<Rightarrow> f64" where
  "plus_half (Fin x) = Fin (f64_round (x + 1 / 2))"
| "plus_half v = v"

text \<open>\<open>as u16\<close> and \<open>as u32\<close>, by the largest value of the type.\<close>

fun cast_unsigned :: "nat \<Rightarrow> f64 \<Rightarrow> nat" where
  "cast_unsigned m (Fin x) = min m (nat \<lfloor>x\<rfloor>)"
| "cast_unsigned m PosInfinity = m"
| "cast_unsigned m NegInfinity = 0"
| "cast_unsigned m NotANumber = 0"

definition f64_of_u32 :: "u32 \<Rightarrow> f64" where
  "f64_of_u32 w = Fin (of_nat (unat w))"

section \<open>Temperatures\<close>

record heater_temps =
  ht_actual :: u16
  ht_target :: u16

record nozzle_temps =
  nt_id :: u8
  nt_actual :: u16
  nt_target :: u16

abbreviation (input) TEMP_COMPOSITE_THRESHOLD :: u32 where "TEMP_COMPOSITE_THRESHOLD \<equiv> 500"

definition round_temp :: "f64 \<Rightarrow> u16" where
  "round_temp v = of_nat (cast_unsigned 65535 (plus_half v))"

definition unpack_temperature :: "f64 \<Rightarrow> heater_temps" where
  "unpack_temperature raw =
     (let v = of_nat (cast_unsigned 4294967295 (plus_half raw)) :: u32
      in if v \<le> TEMP_COMPOSITE_THRESHOLD then \<lparr>ht_actual = ucast v, ht_target = 0\<rparr>
         else \<lparr>ht_actual = ucast (v AND 0xFFFF), ht_target = ucast (drop_bit 16 v)\<rparr>)"

section \<open>Whole degrees\<close>

lemma round_half_even_int [simp]: "round_half_even (of_int n) = n"
  by (simp add: round_half_even_def)

lemma floorlog_le: "n < 2 ^ k \<Longrightarrow> floorlog 2 n \<le> k"
  by (simp add: floorlog_leI)

text \<open>A whole number of degrees plus one half is a value of its own, so it is not rounded.\<close>

lemma f64_round_half:
  assumes "n < 2 ^ 32"
  shows "f64_round (of_nat n + 1 / 2) = of_nat n + 1 / 2"
proof (cases "n = 0")
  case True
  have "f64_ulp (1 / 2) = 1 / 2 ^ 53" by (simp add: f64_ulp_def floorlog_def)
  moreover have "f64_round (1 / 2) = of_int (round_half_even ((1 / 2) / f64_ulp (1 / 2))) * f64_ulp (1 / 2)"
    by (simp add: f64_round_def)
  ultimately have "f64_round (1 / 2) = of_int (round_half_even ((1 / 2) / (1 / 2 ^ 53))) * (1 / 2 ^ 53)"
    by (simp only:)
  also have "(1 / 2) / (1 / 2 ^ 53) = (of_int (2 ^ 52) :: rat)" by simp
  also have "of_int (round_half_even (of_int (2 ^ 52))) * (1 / 2 ^ 53) = (1 / 2 :: rat)"
    by (subst round_half_even_int) simp
  finally show ?thesis using True by simp
next
  case False
  let ?k = "floorlog 2 n"
  have f: "nat \<lfloor>of_nat n + 1 / 2 :: rat\<rfloor> = n" by linarith
  have k: "?k \<le> 32" using assms by (rule floorlog_le)
  have ulp: "f64_ulp (of_nat n + 1 / 2) = 2 ^ ?k / 2 ^ 53" using False f by (simp add: f64_ulp_def)
  have split: "(2 :: rat) ^ 53 = 2 ^ ?k * (2 * 2 ^ (52 - ?k))"
    using k by (simp flip: power_add power_Suc)
  have "(of_nat n + 1 / 2) / (2 ^ ?k / 2 ^ 53) = (of_int (int (2 * n + 1) * 2 ^ (52 - ?k)) :: rat)"
    unfolding split by (simp add: field_simps)
  then show ?thesis using False
    by (simp add: f64_round_def ulp del: of_int_mult of_int_power) (simp add: split field_simps)
qed

lemma cast_plus_half: "n < 2 ^ 32 \<Longrightarrow> cast_unsigned m (plus_half (Fin (of_nat n))) = min m n"
proof -
  assume n: "n < 2 ^ 32"
  have "nat \<lfloor>of_nat n + 1 / 2 :: rat\<rfloor> = n" by linarith
  then show ?thesis using n by (simp add: f64_round_half)
qed

lemma unpack_u32: "unpack_temperature (f64_of_u32 w) =
    (if w \<le> 500 then \<lparr>ht_actual = ucast w, ht_target = 0\<rparr>
     else \<lparr>ht_actual = ucast (w AND 0xFFFF), ht_target = ucast (drop_bit 16 w)\<rparr>)"
proof -
  have w: "unat w < 2 ^ 32" using unsigned_less [of w] by simp
  then have "min 4294967295 (unat w) = unat w" by simp
  then show ?thesis unfolding unpack_temperature_def f64_of_u32_def cast_plus_half [OF w] by (simp add: Let_def)
qed

text \<open>A heater's reading and its target survive the packing \<open>target << 16 | actual\<close> they are sent in, for all values of
  both: also where the packed number is small enough to be taken for a bare reading.\<close>

theorem packed_temperatures_unpacked:
  fixes actual goal :: u16
  shows "unpack_temperature (f64_of_u32 (push_bit 16 (ucast goal) OR ucast actual)) =
    \<lparr>ht_actual = actual, ht_target = goal\<rparr>"
proof -
  let ?w = "push_bit 16 (ucast goal) OR ucast actual :: u32"
  have mask: "(0xFFFF :: u32) = mask 16" by (simp add: mask_eq_exp_minus_1)
  have low: "ucast (?w AND 0xFFFF) = actual"
    unfolding mask by (rule bit_word_eqI) (auto simp: bit_simps)
  have high: "ucast (drop_bit 16 ?w) = goal"
    by (rule bit_word_eqI) (auto simp: bit_simps dest: bit_imp_le_length)
  have bare: "ucast ?w = actual"
    by (rule bit_word_eqI) (auto simp: bit_simps)
  have small: "goal = 0" if "?w \<le> 500"
  proof -
    have "unat (drop_bit 16 ?w) = unat ?w div 2 ^ 16" by (simp add: drop_bit_eq_div unat_div_distrib)
    also have "\<dots> = 0" using that by (simp add: word_le_nat_alt)
    finally have "drop_bit 16 ?w = 0" by (simp add: unsigned_eq_0_iff)
    with high show ?thesis by simp
  qed
  show ?thesis unfolding unpack_u32 using low high bare small by auto
qed

end
