(* ===== verification/Device.thy ===== *)
theory Device
  imports Temps Merge Json RustStr AmsMapping Bits Quirks
begin

text \<open>
  The \<open>device\<close> block of a telemetry push and the reports beside it (\<open>src/types/telemetry/device.rs\<close>, \<open>diagnostics.rs\<close>,
  \<open>xcam.rs\<close>): heated bed, tool head, nozzles, extruders, air ducts, chamber, camera and its detectors, with the merge of
  a partial push into what is cached and the accessors. The derived deserialization is third-party. An \<open>f32\<close> is kept
  as the value it stands for.
\<close>

unbundle bit_operations_syntax

type_synonym f32 = f64

section \<open>Bed and chamber\<close>

record bed_info =
  bi_temp :: "u32 option"

definition bed_info_temperatures :: "bed_info \<Rightarrow> heater_temps option" where
  "bed_info_temperatures i = map_option (\<lambda>t. unpack_temperature (f64_of_u32 t)) (bi_temp i)"

record bed_telemetry =
  bt_info :: "bed_info option"
  bt_state :: "u32 option"

definition merge_bed :: "bed_telemetry \<Rightarrow> bed_telemetry \<Rightarrow> bed_telemetry" where
  "merge_bed c n =
     \<lparr>bt_info = keep_new (bt_info c) (bt_info n),
      bt_state = keep_new (bt_state c) (bt_state n)\<rparr>"

record ctc_info =
  ci_temp :: "u32 option"
  ci_goal :: "u32 option"

definition ctc_temperatures :: "ctc_info \<Rightarrow> heater_temps option" where
  "ctc_temperatures i =
     map_option (\<lambda>t.
       let temps = unpack_temperature (f64_of_u32 t)
       in case ci_goal i of
            None \<Rightarrow> temps
          | Some goal \<Rightarrow> temps\<lparr>ht_target := (if unat goal \<le> 65535 then ucast goal else 65535)\<rparr>) (ci_temp i)"

definition merge_ctc_info :: "ctc_info \<Rightarrow> ctc_info \<Rightarrow> ctc_info" where
  "merge_ctc_info c n =
     \<lparr>ci_temp = keep_new (ci_temp c) (ci_temp n),
      ci_goal = keep_new (ci_goal c) (ci_goal n)\<rparr>"

record ctc_telemetry =
  ct_info :: "ctc_info option"
  ct_state :: "u32 option"

definition merge_ctc :: "ctc_telemetry \<Rightarrow> ctc_telemetry \<Rightarrow> ctc_telemetry" where
  "merge_ctc c n =
     \<lparr>ct_info = merge_opt merge_ctc_info (ct_info c) (ct_info n),
      ct_state = keep_new (ct_state c) (ct_state n)\<rparr>"

section \<open>Tool head\<close>

record ext_tool_telemetry =
  et_mount :: "int option"
  et_tool_type :: "string option"
  et_calib :: "int option"
  et_low_prec :: "bool option"
  et_th_temp :: "int option"
  et_mount_3d :: "int option"

definition merge_ext_tool :: "ext_tool_telemetry \<Rightarrow> ext_tool_telemetry \<Rightarrow> ext_tool_telemetry" where
  "merge_ext_tool c n =
     \<lparr>et_mount = keep_new (et_mount c) (et_mount n),
      et_tool_type = keep_new (et_tool_type c) (et_tool_type n),
      et_calib = keep_new (et_calib c) (et_calib n),
      et_low_prec = keep_new (et_low_prec c) (et_low_prec n),
      et_th_temp = keep_new (et_th_temp c) (et_th_temp n),
      et_mount_3d = keep_new (et_mount_3d c) (et_mount_3d n)\<rparr>"

record nozzle_info =
  ni_id :: u8
  ni_diameter :: "f32 option"
  ni_tm :: "u32 option"
  ni_max_temp :: "u32 option"
  ni_nozzle_type :: "string option"
  ni_wear :: "f32 option"
  ni_serial_number :: "string option"
  ni_sn :: "string option"
  ni_filament_colour :: "string option"
  ni_color_m :: "string option"
  ni_filament_id :: "string option"
  ni_fila_id :: "string option"
  ni_stat :: "u32 option"
  ni_p_t :: "u64 option"

text \<open>\<open>Option::or\<close>\<close>

definition opt_or :: "'a option \<Rightarrow> 'a option \<Rightarrow> 'a option" where
  "opt_or a b = (if a = None then b else a)"

definition max_temp_c :: "nozzle_info \<Rightarrow> u32 option" where
  "max_temp_c n = opt_or (ni_max_temp n) (ni_tm n)"

definition nozzle_serial :: "nozzle_info \<Rightarrow> string option" where
  "nozzle_serial n = opt_or (ni_serial_number n) (ni_sn n)"

definition nozzle_filament_colour :: "nozzle_info \<Rightarrow> string option" where
  "nozzle_filament_colour n = opt_or (ni_filament_colour n) (ni_color_m n)"

definition nozzle_filament_id :: "nozzle_info \<Rightarrow> string option" where
  "nozzle_filament_id n = opt_or (ni_filament_id n) (ni_fila_id n)"

definition is_rack_stored :: "nozzle_info \<Rightarrow> bool" where
  "is_rack_stored n \<longleftrightarrow> drop_bit 4 (ni_id n) AND 0xF = 1"

definition nozzle_is_installed :: "nozzle_info \<Rightarrow> bool" where
  "nozzle_is_installed n =
     (let serial_says_empty = (case nozzle_serial n of None \<Rightarrow> False | Some s \<Rightarrow> eq_ignore_ascii_case s ''N/A'');
          rating_says_empty = (case max_temp_c n of None \<Rightarrow> True | Some t \<Rightarrow> t = 0)
      in \<not> (serial_says_empty \<and> rating_says_empty))"

record nozzle_collection =
  nc_info :: "nozzle_info list option"
  nc_exist :: "u32 option"
  nc_state :: "u32 option"
  nc_src_id :: "u32 option"
  nc_tar_id :: "u32 option"

definition merge_nozzles :: "nozzle_collection \<Rightarrow> nozzle_collection \<Rightarrow> nozzle_collection" where
  "merge_nozzles c n =
     \<lparr>nc_info = keep_new (nc_info c) (nc_info n),
      nc_exist = keep_new (nc_exist c) (nc_exist n),
      nc_state = keep_new (nc_state c) (nc_state n),
      nc_src_id = keep_new (nc_src_id c) (nc_src_id n),
      nc_tar_id = keep_new (nc_tar_id c) (nc_tar_id n)\<rparr>"

section \<open>Extruders\<close>

record extruder_info =
  ei_id :: u8
  ei_temp :: "u32 option"
  ei_snow :: "u32 option"
  ei_spre :: "u32 option"
  ei_star :: "u32 option"
  ei_hnow :: "u8 option"
  ei_hpre :: "u8 option"
  ei_htar :: "u8 option"
  ei_stat :: "u32 option"
  ei_info :: "u32 option"
  ei_filam_bak :: "u32 list"
  ei_z_bias :: "f64 option"

definition extruder_temperatures :: "extruder_info \<Rightarrow> heater_temps option" where
  "extruder_temperatures e = map_option (\<lambda>t. unpack_temperature (f64_of_u32 t)) (ei_temp e)"

text \<open>A unit and a slot; 0xFFFF is no tray at all.\<close>

definition decode_ams_slot_field :: "u32 option \<Rightarrow> (nat \<times> nat) option" where
  "decode_ams_slot_field raw =
     (case raw of
        None \<Rightarrow> None
      | Some r \<Rightarrow>
          if r = 0xFFFF then None
          else Some (normalize_ams_unit_id (unat (drop_bit 8 r AND 0xFF)), unat (r AND 0xFF)))"

definition current_ams_slot :: "extruder_info \<Rightarrow> (nat \<times> nat) option" where
  "current_ams_slot e = decode_ams_slot_field (ei_snow e)"

definition previous_ams_slot :: "extruder_info \<Rightarrow> (nat \<times> nat) option" where
  "previous_ams_slot e = decode_ams_slot_field (ei_spre e)"

definition target_ams_slot :: "extruder_info \<Rightarrow> (nat \<times> nat) option" where
  "target_ams_slot e = decode_ams_slot_field (ei_star e)"

record extruder_collection =
  ec_info :: "extruder_info list option"
  ec_state :: "u32 option"

definition active_extruder_index :: "extruder_collection \<Rightarrow> u8" where
  "active_extruder_index c = (case ec_state c of None \<Rightarrow> 0 | Some s \<Rightarrow> ucast (drop_bit 4 s AND 0xF))"

definition extruder_count :: "extruder_collection \<Rightarrow> u8" where
  "extruder_count c = (case ec_state c of None \<Rightarrow> 0 | Some s \<Rightarrow> ucast (s AND 0xF))"

definition merge_extruders :: "extruder_collection \<Rightarrow> extruder_collection \<Rightarrow> extruder_collection" where
  "merge_extruders c n =
     \<lparr>ec_info = keep_new (ec_info c) (ec_info n),
      ec_state = keep_new (ec_state c) (ec_state n)\<rparr>"

section \<open>Air ducts\<close>

record airduct_part =
  ap_id :: u32
  ap_state :: "int option"

type_synonym airduct_mode_list_entry = int

record airduct_collection =
  ac_parts :: "airduct_part list option"
  ac_mode_cur :: "int option"
  ac_mode_list :: "airduct_mode_list_entry list option"

text \<open>\<open>state & 0xFF\<close> of a state that is not negative.\<close>

definition part_percent :: "airduct_collection \<Rightarrow> u32 \<Rightarrow> nat option" where
  "part_percent c i =
     (case ac_parts c of
        None \<Rightarrow> None
      | Some parts \<Rightarrow>
          (case find (\<lambda>p. ap_id p = i) parts of
             None \<Rightarrow> None
           | Some p \<Rightarrow>
               (case ap_state p of
                  None \<Rightarrow> None
                | Some st \<Rightarrow> if st < 0 then None else Some (min 100 (nat (st mod 256))))))"

text \<open>A part replaces the cached one of its id, or is new; an empty list clears them all.\<close>

definition merge_parts :: "airduct_part list option \<Rightarrow> airduct_part list option \<Rightarrow> airduct_part list option" where
  "merge_parts c n =
     (case n of
        None \<Rightarrow> c
      | Some parts \<Rightarrow>
          if parts = [] then Some []
          else Some (merge_keyed (\<lambda>_ part. part) ap_id (case c of None \<Rightarrow> [] | Some ps \<Rightarrow> ps) parts))"

definition merge_airduct :: "airduct_collection \<Rightarrow> airduct_collection \<Rightarrow> airduct_collection" where
  "merge_airduct c n =
     \<lparr>ac_parts = merge_parts (ac_parts c) (ac_parts n),
      ac_mode_cur = keep_new (ac_mode_cur c) (ac_mode_cur n),
      ac_mode_list = keep_new (ac_mode_list c) (ac_mode_list n)\<rparr>"

section \<open>The device\<close>

record device_telemetry =
  dv_nozzle :: "nozzle_collection option"
  dv_extruder :: "extruder_collection option"
  dv_airduct :: "airduct_collection option"
  dv_ctc :: "ctc_telemetry option"
  dv_bed :: "bed_telemetry option"
  dv_ext_tool :: "ext_tool_telemetry option"
  dv_fire_ext :: "json option"
  dv_bed_temp :: "u32 option"

definition merge_device :: "device_telemetry \<Rightarrow> device_telemetry \<Rightarrow> device_telemetry" where
  "merge_device c n =
     \<lparr>dv_nozzle = merge_opt merge_nozzles (dv_nozzle c) (dv_nozzle n),
      dv_extruder = merge_opt merge_extruders (dv_extruder c) (dv_extruder n),
      dv_airduct = merge_opt merge_airduct (dv_airduct c) (dv_airduct n),
      dv_ctc = merge_opt merge_ctc (dv_ctc c) (dv_ctc n),
      dv_bed = merge_opt merge_bed (dv_bed c) (dv_bed n),
      dv_ext_tool = merge_opt merge_ext_tool (dv_ext_tool c) (dv_ext_tool n),
      dv_fire_ext = keep_new (dv_fire_ext c) (dv_fire_ext n),
      dv_bed_temp = keep_new (dv_bed_temp c) (dv_bed_temp n)\<rparr>"

section \<open>Camera\<close>

record ipcam_telemetry =
  ip_ipcam_dev :: "string option"
  ip_ipcam_record :: "string option"
  ip_timelapse :: "string option"
  ip_mode_bits :: "u32 option"
  ip_resolution :: "string option"
  ip_tutk_server :: "string option"
  ip_rtsp_url :: "string option"

definition merge_ipcam :: "ipcam_telemetry \<Rightarrow> ipcam_telemetry \<Rightarrow> ipcam_telemetry" where
  "merge_ipcam c n =
     \<lparr>ip_ipcam_dev = keep_new (ip_ipcam_dev c) (ip_ipcam_dev n),
      ip_ipcam_record = keep_new (ip_ipcam_record c) (ip_ipcam_record n),
      ip_timelapse = keep_new (ip_timelapse c) (ip_timelapse n),
      ip_mode_bits = keep_new (ip_mode_bits c) (ip_mode_bits n),
      ip_resolution = keep_new (ip_resolution c) (ip_resolution n),
      ip_tutk_server = keep_new (ip_tutk_server c) (ip_tutk_server n),
      ip_rtsp_url = keep_new (ip_rtsp_url c) (ip_rtsp_url n)\<rparr>"

definition enable_flag :: "string option \<Rightarrow> bool option" where
  "enable_flag v =
     (case v of
        None \<Rightarrow> None
      | Some s \<Rightarrow> if s = ''enable'' then Some True else if s = ''disable'' then Some False else None)"

definition ipcam_recording :: "ipcam_telemetry \<Rightarrow> bool option" where
  "ipcam_recording i = enable_flag (ip_ipcam_record i)"

definition timelapse_enabled :: "ipcam_telemetry \<Rightarrow> bool option" where
  "timelapse_enabled i = enable_flag (ip_timelapse i)"

definition tutk_server_enabled :: "ipcam_telemetry \<Rightarrow> bool option" where
  "tutk_server_enabled i = enable_flag (ip_tutk_server i)"

section \<open>Detectors\<close>

datatype xcam_sensitivity = SensLow | SensMedium | SensHigh

definition sensitivity_from_bits :: "u32 \<Rightarrow> xcam_sensitivity option" where
  "sensitivity_from_bits b =
     (if b = 0 then Some SensLow else if b = 1 then Some SensMedium else if b = 2 then Some SensHigh else None)"

fun sensitivity_as_str :: "xcam_sensitivity \<Rightarrow> string" where
  "sensitivity_as_str SensLow = ''low''"
| "sensitivity_as_str SensMedium = ''medium''"
| "sensitivity_as_str SensHigh = ''high''"

definition sensitivity_from_wire :: "string \<Rightarrow> xcam_sensitivity option" where
  "sensitivity_from_wire level =
     find (\<lambda>l. eq_ignore_ascii_case (trim level) (sensitivity_as_str l)) [SensLow, SensMedium, SensHigh]"

record xcam_detector =
  xdet_enabled :: bool
  xdet_sensitivity :: "xcam_sensitivity option"

text \<open>Unrecognised keys of the report are kept as they are.\<close>

record xcam_telemetry =
  xc_cfg :: "u32 option"
  xc_printing_monitor :: "bool option"
  xc_spaghetti_detector :: "bool option"
  xc_print_halt :: "bool option"
  xc_halt_print_sensitivity :: "string option"
  xc_first_layer_inspector :: "bool option"
  xc_buildplate_marker_detector :: "bool option"
  xc_allow_skip_parts :: "bool option"
  xc_extra :: "string \<rightharpoonup> json"

definition merge_xcam :: "xcam_telemetry \<Rightarrow> xcam_telemetry \<Rightarrow> xcam_telemetry" where
  "merge_xcam c n =
     \<lparr>xc_cfg = keep_new (xc_cfg c) (xc_cfg n),
      xc_printing_monitor = keep_new (xc_printing_monitor c) (xc_printing_monitor n),
      xc_spaghetti_detector = keep_new (xc_spaghetti_detector c) (xc_spaghetti_detector n),
      xc_print_halt = keep_new (xc_print_halt c) (xc_print_halt n),
      xc_halt_print_sensitivity = keep_new (xc_halt_print_sensitivity c) (xc_halt_print_sensitivity n),
      xc_first_layer_inspector = keep_new (xc_first_layer_inspector c) (xc_first_layer_inspector n),
      xc_buildplate_marker_detector = keep_new (xc_buildplate_marker_detector c) (xc_buildplate_marker_detector n),
      xc_allow_skip_parts = keep_new (xc_allow_skip_parts c) (xc_allow_skip_parts n),
      xc_extra = xc_extra c ++ xc_extra n\<rparr>"

definition halt_print_sensitivity_level :: "xcam_telemetry \<Rightarrow> xcam_sensitivity option" where
  "halt_print_sensitivity_level x = Option.bind (xc_halt_print_sensitivity x) sensitivity_from_wire"

definition supports_ai_monitoring :: "xcam_telemetry \<Rightarrow> bool" where
  "supports_ai_monitoring x \<longleftrightarrow> xc_cfg x \<noteq> None"

abbreviation (input) SENSITIVITY_OFFSET :: nat where "SENSITIVITY_OFFSET \<equiv> 1"
abbreviation (input) SENSITIVITY_WIDTH :: nat where "SENSITIVITY_WIDTH \<equiv> 2"

definition xcam_detector_at :: "xcam_telemetry \<Rightarrow> nat \<Rightarrow> xcam_detector option" where
  "xcam_detector_at x enable_bit =
     map_option (\<lambda>cfg.
       \<lparr>xdet_enabled = bit cfg enable_bit,
        xdet_sensitivity = sensitivity_from_bits
          (drop_bit (enable_bit + SENSITIVITY_OFFSET) cfg AND mask SENSITIVITY_WIDTH)\<rparr>) (xc_cfg x)"

definition xcam_cfg_bit :: "xcam_telemetry \<Rightarrow> nat \<Rightarrow> bool option" where
  "xcam_cfg_bit x b = map_option (\<lambda>cfg. bit cfg b) (xc_cfg x)"

definition spaghetti_detection :: "xcam_telemetry \<Rightarrow> xcam_detector option" where
  "spaghetti_detection x = xcam_detector_at x 7"

definition purge_chute_pileup_detection :: "xcam_telemetry \<Rightarrow> xcam_detector option" where
  "purge_chute_pileup_detection x = xcam_detector_at x 10"

definition nozzle_clumping_detection :: "xcam_telemetry \<Rightarrow> xcam_detector option" where
  "nozzle_clumping_detection x = xcam_detector_at x 13"

definition air_printing_detection :: "xcam_telemetry \<Rightarrow> xcam_detector option" where
  "air_printing_detection x = xcam_detector_at x 16"

definition buildplate_align_detection :: "xcam_telemetry \<Rightarrow> bool option" where
  "buildplate_align_detection x = xcam_cfg_bit x 20"

definition fod_check :: "xcam_telemetry \<Rightarrow> bool option" where
  "fod_check x = xcam_cfg_bit x 21"

definition displacement_detection :: "xcam_telemetry \<Rightarrow> bool option" where
  "displacement_detection x = xcam_cfg_bit x 22"

section \<open>Alerts\<close>

record hms_entry =
  he_attr :: u32
  he_code :: u32
  he_ts_boot :: "u64 option"
  he_ts_local :: "string option"

section \<open>Merging the same push again changes nothing\<close>

lemma merge_opt_again:
  assumes "\<And>c n. ok c \<Longrightarrow> ok n \<Longrightarrow> m (m c n) n = m c n" "\<And>n. ok n \<Longrightarrow> m n n = n"
    and "case c of None \<Rightarrow> True | Some x \<Rightarrow> ok x" "case n of None \<Rightarrow> True | Some x \<Rightarrow> ok x"
  shows "merge_opt m (merge_opt m c n) n = merge_opt m c n"
  using assms by (auto simp: merge_opt_def split: option.splits)

lemma merge_opt_self:
  "(\<And>n. ok n \<Longrightarrow> m n n = n) \<Longrightarrow> (case n of None \<Rightarrow> True | Some x \<Rightarrow> ok x) \<Longrightarrow> merge_opt m n n = n"
  by (auto simp: merge_opt_def split: option.splits)

lemma merge_opt_plain_again [simp]:
  "(\<And>c n. m (m c n) n = m c n) \<Longrightarrow> (\<And>n. m n n = n) \<Longrightarrow> merge_opt m (merge_opt m c n) n = merge_opt m c n"
  "(\<And>n. m n n = n) \<Longrightarrow> merge_opt m n n = n"
  by (auto simp: merge_opt_def split: option.split)

lemma merge_opt_ok:
  "(\<And>c n. ok c \<Longrightarrow> ok n \<Longrightarrow> ok (m c n)) \<Longrightarrow> (case c of None \<Rightarrow> True | Some x \<Rightarrow> ok x) \<Longrightarrow>
    (case n of None \<Rightarrow> True | Some x \<Rightarrow> ok x) \<Longrightarrow> (case merge_opt m c n of None \<Rightarrow> True | Some x \<Rightarrow> ok x)"
  by (auto simp: merge_opt_def split: option.splits)

interpretation parts: keyed_merge "\<lambda>_ part. part" ap_id "\<lambda>_. True"
  by unfold_locales simp_all

definition parts_ok :: "airduct_part list option \<Rightarrow> bool" where
  "parts_ok ps \<longleftrightarrow> (case ps of None \<Rightarrow> True | Some ps \<Rightarrow> distinct (map ap_id ps))"

lemma merge_parts_facts:
  assumes "parts_ok c" "parts_ok n"
  shows "parts_ok (merge_parts c n)" "merge_parts (merge_parts c n) n = merge_parts c n"
  using assms parts.merge_keyed_distinct parts.merge_keyed_again
  by (auto simp: parts_ok_def merge_parts_def list_all_iff split: option.splits)

lemma merge_parts_self: "parts_ok n \<Longrightarrow> merge_parts n n = n"
  by (cases n) (auto simp: parts_ok_def merge_parts_def list_all_iff intro!: parts.merge_keyed_self)

definition airduct_ok :: "airduct_collection \<Rightarrow> bool" where
  "airduct_ok a \<longleftrightarrow> parts_ok (ac_parts a)"

lemma merge_airduct_facts:
  "airduct_ok c \<Longrightarrow> airduct_ok n \<Longrightarrow> airduct_ok (merge_airduct c n)"
  "airduct_ok c \<Longrightarrow> airduct_ok n \<Longrightarrow> merge_airduct (merge_airduct c n) n = merge_airduct c n"
  "airduct_ok n \<Longrightarrow> merge_airduct n n = n"
  by (simp_all add: airduct_ok_def merge_airduct_def merge_parts_facts merge_parts_self)

definition device_ok :: "device_telemetry \<Rightarrow> bool" where
  "device_ok d \<longleftrightarrow> (case dv_airduct d of None \<Rightarrow> True | Some a \<Rightarrow> airduct_ok a)"

lemmas device_merges = merge_nozzles_def merge_extruders_def merge_ctc_def merge_ctc_info_def merge_bed_def merge_ext_tool_def

lemma merge_ctc_info_same: "merge_ctc_info (merge_ctc_info c n) n = merge_ctc_info c n" "merge_ctc_info n n = n"
  by (simp_all add: merge_ctc_info_def)

lemma merge_device_facts:
  "device_ok c \<Longrightarrow> device_ok n \<Longrightarrow> device_ok (merge_device c n)"
  "device_ok c \<Longrightarrow> device_ok n \<Longrightarrow> merge_device (merge_device c n) n = merge_device c n"
  "device_ok n \<Longrightarrow> merge_device n n = n"
  using merge_opt_ok [of airduct_ok merge_airduct "dv_airduct c" "dv_airduct n"]
    merge_opt_again [of airduct_ok merge_airduct "dv_airduct c" "dv_airduct n"]
    merge_opt_self [of airduct_ok merge_airduct "dv_airduct n"]
  by (simp_all add: device_ok_def merge_device_def merge_airduct_facts merge_nozzles_def merge_extruders_def merge_ctc_def
      merge_ctc_info_same merge_bed_def merge_ext_tool_def)

lemma merge_ipcam_same: "merge_ipcam (merge_ipcam c n) n = merge_ipcam c n" "merge_ipcam n n = n"
  by (simp_all add: merge_ipcam_def)

lemma merge_xcam_same: "merge_xcam (merge_xcam c n) n = merge_xcam c n" "merge_xcam n n = n"
proof -
  have self: "e ++ e = e" for e :: "string \<rightharpoonup> json"
    by (auto simp: map_add_def split: option.split)
  show "merge_xcam (merge_xcam c n) n = merge_xcam c n" "merge_xcam n n = n"
    by (simp_all add: merge_xcam_def self flip: map_add_assoc)
qed

end
