(* ===== verification/Stage.thy ===== *)
theory Stage
  imports RustStr
begin

text \<open>
  The stages a print goes through (\<open>src/types/telemetry/stage.rs\<close>): a table of wire number, stage, label and whether
  the print stands still in it. The macro of the source makes three functions of the table.
\<close>

datatype print_stage = StIdle | Stage int | StUnknown int

text \<open>A variant of the table is named here by its wire number: \<open>Stage 16\<close> is \<open>PausedByUser\<close>. The rows keep the names.\<close>

definition PRINT_STAGES :: "(int \<times> string \<times> string \<times> bool) list" where
  "PRINT_STAGES =
    [(0, ''Printing'', ''Printing'', False),
     (1, ''AutoBedLeveling'', ''Auto bed leveling'', False),
     (2, ''HeatbedPreheating'', ''Heatbed preheating'', False),
     (3, ''VibrationCompensation'', ''Vibration compensation'', False),
     (4, ''ChangingFilament'', ''Changing filament'', False),
     (5, ''M400Pause'', ''M400 pause'', True),
     (6, ''PausedFilamentRunout'', ''Paused (filament ran out)'', True),
     (7, ''HeatingNozzle'', ''Heating nozzle'', False),
     (8, ''CalibratingDynamicFlow'', ''Calibrating dynamic flow'', False),
     (9, ''ScanningBedSurface'', ''Scanning bed surface'', False),
     (10, ''InspectingFirstLayer'', ''Inspecting first layer'', False),
     (11, ''IdentifyingBuildPlateType'', ''Identifying build plate type'', False),
     (12, ''CalibratingMicroLidar'', ''Calibrating Micro Lidar'', False),
     (13, ''HomingToolhead'', ''Homing toolhead'', False),
     (14, ''CleaningNozzleTip'', ''Cleaning nozzle tip'', False),
     (15, ''CheckingExtruderTemperature'', ''Checking extruder temperature'', False),
     (16, ''PausedByUser'', ''Paused by the user'', True),
     (17, ''PausedFrontCoverFallOff'', ''Pause (front cover fall off)'', True),
     (18, ''CalibratingMicroLidarAlt'', ''Calibrating Micro Lidar'', False),
     (19, ''CalibratingFlowRatio'', ''Calibrating flow ratio'', False),
     (20, ''PausedNozzleTemperatureMalfunction'', ''Pause (nozzle temperature malfunction)'', True),
     (21, ''PausedHeatbedTemperatureMalfunction'', ''Pause (heatbed temperature malfunction)'', True),
     (22, ''FilamentUnloading'', ''Filament unloading'', False),
     (23, ''PausedStepLoss'', ''Pause (step loss)'', True),
     (24, ''FilamentLoading'', ''Filament loading'', False),
     (25, ''MotorNoiseCancellation'', ''Motor noise cancellation'', False),
     (26, ''PausedAmsOffline'', ''Pause (AMS offline)'', True),
     (27, ''PausedLowHeatbreakFanSpeed'', ''Pause (low speed of the heatbreak fan)'', True),
     (28, ''PausedChamberTemperatureControlProblem'', ''Pause (chamber temperature control problem)'', True),
     (29, ''CoolingChamber'', ''Cooling chamber'', False),
     (30, ''PausedUserGcode'', ''Pause (Gcode inserted by user)'', True),
     (31, ''MotorNoiseShowoff'', ''Motor noise showoff'', False),
     (32, ''PausedNozzleClumping'', ''Pause (nozzle clumping)'', True),
     (33, ''PausedCutterError'', ''Pause (cutter error)'', True),
     (34, ''PausedFirstLayerError'', ''Pause (first layer error)'', True),
     (35, ''PausedNozzleClog'', ''Pause (nozzle clog)'', True),
     (36, ''MeasuringMotionPrecision'', ''Measuring motion precision'', False),
     (37, ''EnhancingMotionPrecision'', ''Enhancing motion precision'', False),
     (38, ''MeasureMotionAccuracy'', ''Measure motion accuracy'', False),
     (39, ''NozzleOffsetCalibration'', ''Nozzle offset calibration'', False),
     (40, ''HighTemperatureAutoBedLeveling'', ''High temperature auto bed leveling'', False),
     (41, ''AutoCheckQuickReleaseLever'', ''Auto Check: Quick Release Lever'', False),
     (42, ''AutoCheckDoorAndUpperCover'', ''Auto Check: Door and Upper Cover'', False),
     (43, ''LaserCalibration'', ''Laser Calibration'', False),
     (44, ''AutoCheckPlatform'', ''Auto Check: Platform'', False),
     (45, ''ConfirmingBirdsEyeCameraLocation'', ''Confirming BirdsEye Camera location'', False),
     (46, ''CalibratingBirdsEyeCamera'', ''Calibrating BirdsEye Camera'', False),
     (47, ''AutoBedLevelingPhase1'', ''Auto bed leveling - phase 1'', False),
     (48, ''AutoBedLevelingPhase2'', ''Auto bed leveling - phase 2'', False),
     (49, ''HeatingChamber'', ''Heating chamber'', False),
     (50, ''AdjustingHeatbedTemperature'', ''Adjusting heatbed temperature'', False),
     (51, ''PrintingCalibrationLines'', ''Printing calibration lines'', False),
     (52, ''AutoCheckMaterial'', ''Auto Check: Material'', False),
     (53, ''LiveViewCameraCalibration'', ''Live View Camera Calibration'', False),
     (54, ''WaitingForHeatbedTemperature'', ''Waiting for heatbed to reach target temperature'', False),
     (55, ''AutoCheckMaterialPosition'', ''Auto Check: Material Position'', False),
     (56, ''CuttingModuleOffsetCalibration'', ''Cutting Module Offset Calibration'', False),
     (57, ''MeasuringSurface'', ''Measuring Surface'', False),
     (58, ''ThermalPreconditioning'', ''Thermal Preconditioning for first layer optimization'', False),
     (59, ''HomingBladeHolder'', ''Homing Blade Holder'', False),
     (60, ''CalibratingCameraOffset'', ''Calibrating Camera Offset'', False),
     (61, ''CalibratingBladeHolderPosition'', ''Calibrating Blade Holder Position'', False),
     (62, ''HotendPickAndPlaceTest'', ''Hotend Pick and Place Test'', False),
     (63, ''WaitingForChamberTemperatureEqualize'', ''Waiting for the Chamber temperature to equalize'', False),
     (64, ''PreparingHotend'', ''Preparing Hotend'', False),
     (65, ''CalibratingNozzleClumpingDetection'', ''Calibrating the detection position of nozzle clumping'', False),
     (66, ''PurifyingChamberAir'', ''Purifying the chamber air'', False),
     (67, ''MeasuringRotaryAttachment'', ''Measuring Rotary Attachment'', False),
     (68, ''ToolheadMovingAbovePurgeChute'', ''The toolhead moves above the purge chute'', False),
     (69, ''CoolingNozzle'', ''Cooling down the nozzle'', False),
     (70, ''ToolheadMovingToHeatbedCenter'', ''The toolhead moves to the center of the heatbed'', False),
     (71, ''ActiveArcFitting'', ''Active Arc Fitting'', False),
     (72, ''HotendTypeDetection'', ''Hotend Type Detection'', False),
     (73, ''BuildPlateAlignmentDetection'', ''Build plate alignment detection'', False),
     (74, ''HeatbedSurfaceForeignObjectDetection'', ''Heatbed surface foreign object detection'', False),
     (75, ''HeatbedUndersideForeignObjectDetection'', ''Heatbed underside foreign object detection'', False),
     (76, ''PreExtrusionBeforePrinting'', ''Pre-extrusion before printing'', False),
     (77, ''PreparingAms'', ''Preparing AMS'', False)]"

definition stage_from_wire :: "int \<Rightarrow> print_stage" where
  "stage_from_wire v =
     (if v = -1 \<or> v = 255 then StIdle
      else case map_of PRINT_STAGES v of Some _ \<Rightarrow> Stage v | None \<Rightarrow> StUnknown v)"

fun stage_is_paused :: "print_stage \<Rightarrow> bool" where
  "stage_is_paused (Stage i) = (case map_of PRINT_STAGES i of Some (_, _, p) \<Rightarrow> p | None \<Rightarrow> False)"
| "stage_is_paused _ = False"

fun stage_label :: "print_stage \<Rightarrow> string option" where
  "stage_label StIdle = Some ''Idle''"
| "stage_label (Stage i) = map_option (fst \<circ> snd) (map_of PRINT_STAGES i)"
| "stage_label (StUnknown _) = None"

definition stage_is_idle :: "print_stage \<Rightarrow> bool" where
  "stage_is_idle s \<longleftrightarrow> s = StIdle"

text \<open>A signed number in decimal.\<close>

definition dec_int :: "int \<Rightarrow> string" where
  "dec_int i = (if i < 0 then CHR ''-'' # dec (nat (- i)) else dec (nat i))"

definition stage_display :: "print_stage \<Rightarrow> string" where
  "stage_display s =
     (case stage_label s of
        Some l \<Rightarrow> l
      | None \<Rightarrow> (case s of StUnknown i \<Rightarrow> ''Unknown stage '' @ dec_int i | _ \<Rightarrow> []))"

section \<open>The table\<close>

lemma stage_numbers_distinct: "distinct (map fst PRINT_STAGES)"
  by (simp add: PRINT_STAGES_def)

lemma stage_numbers: "map fst PRINT_STAGES = map int [0..<78]"
  by (simp add: PRINT_STAGES_def upt_rec)

lemma stage_table_paused: "list_all (\<lambda>(_, name, _, p). p \<longleftrightarrow> take 6 name = ''Paused'' \<or> name = ''M400Pause'') PRINT_STAGES"
  by (simp add: PRINT_STAGES_def)

text \<open>The stage of a wire number is its own: only the two numbers of an idle printer share one, the 78 listed numbers
  have a label, and any other is kept as unknown.\<close>

theorem stage_wire_faithful:
  "(stage_from_wire v = stage_from_wire w \<longleftrightarrow> v = w \<or> {v, w} = {-1, 255})
   \<and> (stage_label (stage_from_wire v) = None \<longleftrightarrow> v \<notin> {-1..77} \<union> {255})
   \<and> (stage_from_wire v = StUnknown i \<longleftrightarrow> v = i \<and> v \<notin> {-1..77} \<union> {255})"
proof -
  have dom: "map_of PRINT_STAGES u = None \<longleftrightarrow> u \<notin> {0..77}" for u
  proof -
    have "fst ` set PRINT_STAGES = set (map int [0..<78])" by (metis list.set_map stage_numbers)
    also have "\<dots> = {0..77}" by (auto simp: image_iff intro!: bexI [of _ "nat _"])
    finally show ?thesis by (simp add: map_of_eq_None_iff)
  qed
  have sw: "stage_from_wire u = (if u = -1 \<or> u = 255 then StIdle else if u \<in> {0..77} then Stage u else StUnknown u)" for u
    using dom [of u] by (auto simp: stage_from_wire_def split: option.split)
  have label: "stage_label (Stage u) = None \<longleftrightarrow> u \<notin> {0..77}" for u using dom [of u] by simp
  show ?thesis by (auto simp: sw label doubleton_eq_iff simp del: stage_label.simps(2))
qed

end
