(* ===== verification/Report.thy ===== *)
theory Report
  imports Device Stage AmsTypes Control
begin

text \<open>
  The report a push carries (\<open>src/types/telemetry/report.rs\<close>, \<open>mod.rs\<close> and the decoders of \<open>temps.rs\<close>): the fields of its
  \<open>print\<close> block and what is read from them. A field the printer left out is \<open>None\<close>; an \<open>i32\<close> is an \<open>int\<close>.
\<close>

unbundle bit_operations_syntax

section \<open>Lights and pauses\<close>

record light_report =
  lr_node :: "string option"
  lr_mode :: "string option"

definition report_led_node :: "light_report \<Rightarrow> led_node option" where
  "report_led_node l =
     Option.bind (lr_node l) (\<lambda>s. case wire_from_str ''LedNode'' LedNode_wire s of Inl _ \<Rightarrow> None | Inr n \<Rightarrow> Some n)"

definition report_light_mode :: "light_report \<Rightarrow> light_mode option" where
  "report_light_mode l =
     Option.bind (lr_mode l) (\<lambda>s. case wire_from_str ''LightMode'' LightMode_wire s of Inl _ \<Rightarrow> None | Inr n \<Rightarrow> Some n)"

definition light_is_on :: "light_report \<Rightarrow> bool option" where
  "light_is_on l =
     Option.bind (lr_mode l) (\<lambda>m.
       if m = ''on'' \<or> m = ''flashing'' then Some True else if m = ''off'' then Some False else None)"

record print_pause_point =
  pp_progress_percent :: "int option"
  pp_remaining_time_secs :: "int option"
  pp_pause_index :: "int option"
  pp_layer :: "int option"

record print_pause_list =
  pl_total :: "int option"
  pl_list :: "print_pause_point list option"

text \<open>\<open>min_by_key\<close> over the indices that are there: the first of the least.\<close>

definition earlier_pause :: "print_pause_point \<Rightarrow> print_pause_point option \<Rightarrow> print_pause_point option" where
  "earlier_pause p best =
     (case (best, pp_pause_index p) of
        (_, None) \<Rightarrow> best
      | (None, Some _) \<Rightarrow> Some p
      | (Some b, Some i) \<Rightarrow> (case pp_pause_index b of Some j \<Rightarrow> if i < j then Some p else best | None \<Rightarrow> best))"

definition next_pause :: "print_pause_list \<Rightarrow> print_pause_point option" where
  "next_pause l = Option.bind (pl_list l) (\<lambda>ps. fold earlier_pause ps None)"

record net_info =
  net_conf :: "u32 option"

section \<open>The print block\<close>

record printer_telemetry =
  p_gcode_state :: "string option"
  p_command :: "string option"
  p_gcode_file :: "string option"
  p_subtask_name :: "string option"
  p_subtask_id :: "string option"
  p_layer_num :: "int option"
  p_total_layers :: "int option"
  p_mc_remaining_time :: "int option"
  p_spd_lvl :: "u8 option"
  p_spd_mag :: "u16 option"
  p_mc_percent :: "int option"
  p_mc_print_sub_stage :: "int option"
  p_mc_print_stage :: "string option"
  p_home_flag :: "u32 option"
  p_stat :: "string option"
  p_stg_cur :: "int option"
  p_print_error :: "u32 option"
  p_hms :: "hms_entry list option"
  p_sdcard :: "bool option"
  p_wifi_signal :: "string option"
  p_net :: "net_info option"
  p_cooling_fan_speed :: "string option"
  p_big_fan1_speed :: "string option"
  p_big_fan2_speed :: "string option"
  p_heatbreak_fan_speed :: "string option"
  p_nozzle_target_temper :: "f64 option"
  p_nozzle_temper :: "f64 option"
  p_bed_temper :: "f64 option"
  p_bed_target_temper :: "f64 option"
  p_chamber_temper :: "f64 option"
  p_ipcam :: "ipcam_telemetry option"
  p_xcam :: "xcam_telemetry option"
  p_ams :: "ams_status_report option"
  p_p_list :: "print_pause_list option"
  p_ams_status :: "int option"
  p_ams_mapping :: "int list"
  p_vt_tray :: "ams_tray option"
  p_vir_slot :: "ams_tray list option"
  p_device :: "device_telemetry option"
  p_fun :: "string option"
  p_fun2 :: "string option"
  p_print_type :: "string option"
  p_lights_report :: "light_report list option"
  p_gcode_file_prepare_percent :: "string option"
  p_hw_switch_state :: "int option"
  p_s_obj :: "int list option"
  p_nozzle_type :: "string option"
  p_nozzle_diameter :: "string option"
  p_fan_gear :: "u32 option"
  p_print_gcode_action :: "int option"
  p_print_real_action :: "int option"
  p_task_id :: "string option"
  p_job_id :: "string option"
  p_remain_time :: "int option"
  p_cfg :: "string option"
  p_aux :: "string option"
  p_flag3 :: "u32 option"
  p_stg :: "int list option"
  p_mapping :: "int list option"
  p_gcode_start_time :: "string option"
  p_cali_version :: "int option"
  p_support_flow_calibration :: "bool option"
  p_err :: "string option"
  p_fail_reason :: "string option"
  p_canvas_id :: "string option"
  p_design_id :: "string option"
  p_model_id :: "string option"
  p_plate_idx :: "int option"
  p_profile_id :: "string option"
  p_project_id :: "string option"
  p_batch_id :: "string option"

datatype sdcard_state = NoSdcard | SdNormal | SdAbnormal | SdReadOnly

text \<open>The source masks the number to two bits; anything over 3 is unreachable there.\<close>

definition sdcard_from_bits :: "u32 \<Rightarrow> sdcard_state" where
  "sdcard_from_bits b =
     (if b = 0 then NoSdcard else if b = 1 then SdNormal else if b = 2 then SdAbnormal else SdReadOnly)"

definition gcode_start_time_secs :: "printer_telemetry \<Rightarrow> nat option" where
  "gcode_start_time_secs p = Option.bind (p_gcode_start_time p) (\<lambda>s. parse_u64 (trim s))"

definition reports_np_format :: "printer_telemetry \<Rightarrow> bool" where
  "reports_np_format p \<longleftrightarrow>
     (p_cfg p \<noteq> None \<and> p_fun p \<noteq> None \<and> p_aux p \<noteq> None \<and> p_stat p \<noteq> None)
     \<or> (case p_flag3 p of None \<Rightarrow> False | Some f \<Rightarrow> bit f 9)"

definition push_print_status :: "printer_telemetry \<Rightarrow> print_status option" where
  "push_print_status p = map_option from_gcode_state (p_gcode_state p)"

definition current_stage_ungated :: "printer_telemetry \<Rightarrow> print_stage option" where
  "current_stage_ungated p = map_option stage_from_wire (p_stg_cur p)"

definition current_stage :: "printer_telemetry \<Rightarrow> print_stage option" where
  "current_stage p =
     Option.bind (push_print_status p) (\<lambda>s.
       if s = Running \<or> s = Paused then current_stage_ungated p else None)"

definition stage_queue :: "printer_telemetry \<Rightarrow> print_stage list" where
  "stage_queue p = map stage_from_wire (case p_stg p of None \<Rightarrow> [] | Some ids \<Rightarrow> ids)"

definition chamber_temperatures :: "printer_telemetry \<Rightarrow> heater_temps option" where
  "chamber_temperatures p = map_option unpack_temperature (p_chamber_temper p)"

definition is_ethernet_active :: "printer_telemetry \<Rightarrow> bool" where
  "is_ethernet_active p =
     (case Option.bind (p_net p) net_conf of None \<Rightarrow> False | Some conf \<Rightarrow> is_wired conf)"

definition is_ethernet_active_via_wifi_signal :: "printer_telemetry \<Rightarrow> bool" where
  "is_ethernet_active_via_wifi_signal p =
     (case p_wifi_signal p of None \<Rightarrow> False | Some s \<Rightarrow> is_wired_wifi_signal s)"

definition is_220v_power :: "printer_telemetry \<Rightarrow> bool" where
  "is_220v_power p = (case p_home_flag p of None \<Rightarrow> False | Some f \<Rightarrow> is_220v f)"

definition report_sdcard_state :: "printer_telemetry \<Rightarrow> sdcard_state option" where
  "report_sdcard_state p = map_option (\<lambda>f. sdcard_from_bits (sdcard_state_bits f)) (p_home_flag p)"

text \<open>The bits of \<open>aux\<close> first, then those of \<open>home_flag\<close>, then the plain flag.\<close>

definition sdcard_status :: "printer_telemetry \<Rightarrow> sdcard_state option" where
  "sdcard_status p =
     (case Option.bind (p_aux p) (\<lambda>a. case (hex_bit a 12, hex_bit a 13) of
              (Some lo, Some hi) \<Rightarrow> Some (sdcard_from_bits (of_bool lo OR push_bit 1 (of_bool hi))) | _ \<Rightarrow> None) of
        Some st \<Rightarrow> Some st
      | None \<Rightarrow>
          (case report_sdcard_state p of
             Some st \<Rightarrow> Some st
           | None \<Rightarrow> map_option (\<lambda>present. if present then SdNormal else NoSdcard) (p_sdcard p)))"

definition door_open_from_stat :: "printer_telemetry \<Rightarrow> bool option" where
  "door_open_from_stat p = map_option (\<lambda>n. is_door_open (of_nat n)) (Option.bind (p_stat p) hex_u64)"

definition is_door_open_from_home_flag :: "printer_telemetry \<Rightarrow> bool" where
  "is_door_open_from_home_flag p = (case p_home_flag p of None \<Rightarrow> False | Some f \<Rightarrow> is_door_open (ucast f))"

definition is_door_open_from_stat :: "printer_telemetry \<Rightarrow> bool" where
  "is_door_open_from_stat p = (door_open_from_stat p = Some True)"

definition door_state :: "door_sensor \<Rightarrow> printer_telemetry \<Rightarrow> bool option" where
  "door_state sensor p =
     (case sensor of
        NoDoorSensor \<Rightarrow> None
      | DoorHomeFlag \<Rightarrow> map_option (\<lambda>f. is_door_open (ucast f)) (p_home_flag p)
      | DoorStat \<Rightarrow> door_open_from_stat p)"

section \<open>Temperatures\<close>

definition decode_bed_temperatures :: "device_telemetry option \<Rightarrow> f64 option \<Rightarrow> f64 option \<Rightarrow> heater_temps option" where
  "decode_bed_temperatures device bed_temper bed_target_temper =
     (case Option.bind (Option.bind (Option.bind device dv_bed) bt_info) bed_info_temperatures of
        Some temps \<Rightarrow> Some temps
      | None \<Rightarrow>
          if bed_temper = None \<and> bed_target_temper = None then None
          else Some \<lparr>ht_actual = (case bed_temper of None \<Rightarrow> 0 | Some v \<Rightarrow> round_temp v),
                     ht_target = (case bed_target_temper of None \<Rightarrow> 0 | Some v \<Rightarrow> round_temp v)\<rparr>)"

text \<open>Two nozzles that are not stored in a rack.\<close>

definition is_idex :: "device_telemetry option \<Rightarrow> bool" where
  "is_idex device =
     (case Option.bind device dv_nozzle of
        None \<Rightarrow> False
      | Some n \<Rightarrow> length (filter (\<lambda>z. \<not> is_rack_stored z) (case nc_info n of None \<Rightarrow> [] | Some zs \<Rightarrow> zs)) \<ge> 2)"

definition decode_nozzle_temperatures :: "device_telemetry option \<Rightarrow> f64 option \<Rightarrow> f64 option \<Rightarrow> nozzle_temps list" where
  "decode_nozzle_temperatures device nozzle_temper nozzle_target_temper =
     (case Option.bind (Option.bind device dv_extruder) ec_info of
        Some (e # es) \<Rightarrow>
          List.map_filter (\<lambda>e. map_option
              (\<lambda>t. \<lparr>nt_id = ei_id e, nt_actual = ht_actual t, nt_target = ht_target t\<rparr>) (extruder_temperatures e)) (e # es)
      | _ \<Rightarrow>
          if nozzle_temper = None \<and> nozzle_target_temper = None then []
          else
            let actual = (case nozzle_temper of None \<Rightarrow> 0 | Some v \<Rightarrow> round_temp v);
                goal = (case nozzle_target_temper of None \<Rightarrow> 0 | Some v \<Rightarrow> round_temp v)
            in if is_idex device
               then [\<lparr>nt_id = 0, nt_actual = 0, nt_target = goal\<rparr>, \<lparr>nt_id = 1, nt_actual = actual, nt_target = 0\<rparr>]
               else [\<lparr>nt_id = 0, nt_actual = actual, nt_target = goal\<rparr>])"

section \<open>The report\<close>

record telemetry_report =
  tr_print :: "printer_telemetry option"
  tr_device :: "device_telemetry option"
  tr_fun :: "string option"
  tr_fun2 :: "string option"

definition report_device :: "telemetry_report \<Rightarrow> device_telemetry option" where
  "report_device r = opt_or (tr_device r) (Option.bind (tr_print r) p_device)"

definition report_fun :: "telemetry_report \<Rightarrow> string option" where
  "report_fun r = opt_or (tr_fun r) (Option.bind (tr_print r) p_fun)"

definition report_fun2 :: "telemetry_report \<Rightarrow> string option" where
  "report_fun2 r = opt_or (tr_fun2 r) (Option.bind (tr_print r) p_fun2)"

definition report_bed_temperatures :: "telemetry_report \<Rightarrow> heater_temps option" where
  "report_bed_temperatures r =
     decode_bed_temperatures (report_device r) (Option.bind (tr_print r) p_bed_temper)
       (Option.bind (tr_print r) p_bed_target_temper)"

definition report_nozzle_temperatures :: "telemetry_report \<Rightarrow> nozzle_temps list" where
  "report_nozzle_temperatures r =
     decode_nozzle_temperatures (report_device r) (Option.bind (tr_print r) p_nozzle_temper)
       (Option.bind (tr_print r) p_nozzle_target_temper)"

record fan_strings =
  fs_part_cooling :: "string option"
  fs_aux_left :: "string option"
  fs_chamber_exhaust :: "string option"

definition decode_fan_percent :: "fan_target \<Rightarrow> fan_strings \<Rightarrow> device_telemetry option \<Rightarrow> nat option" where
  "decode_fan_percent fan strings device =
     (case fan of
        PartCooling \<Rightarrow> map_option unat (decode_fan_percentage (fs_part_cooling strings))
      | AuxiliaryLeft \<Rightarrow> map_option unat (decode_fan_percentage (fs_aux_left strings))
      | ChamberExhaust \<Rightarrow> map_option unat (decode_fan_percentage (fs_chamber_exhaust strings))
      | AuxiliaryLeft2 \<Rightarrow>
          Option.bind (airduct_part_id fan) (\<lambda>i.
            Option.bind (Option.bind device dv_airduct) (\<lambda>a. part_percent a (of_nat i))))"

definition report_fan_percent :: "fan_target \<Rightarrow> telemetry_report \<Rightarrow> nat option" where
  "report_fan_percent fan r =
     decode_fan_percent fan
       \<lparr>fs_part_cooling = Option.bind (tr_print r) p_cooling_fan_speed,
        fs_aux_left = Option.bind (tr_print r) p_big_fan1_speed,
        fs_chamber_exhaust = Option.bind (tr_print r) p_big_fan2_speed\<rparr> (report_device r)"

definition is_developer_mode :: "string \<Rightarrow> bool option" where
  "is_developer_mode fun_hex = map_option Not (hex_bit fun_hex 29)"

definition report_is_developer_mode :: "telemetry_report \<Rightarrow> bool option" where
  "report_is_developer_mode r = Option.bind (report_fun r) is_developer_mode"

definition report_fun2_bit :: "nat \<Rightarrow> telemetry_report \<Rightarrow> bool option" where
  "report_fun2_bit b r = Option.bind (report_fun2 r) (\<lambda>s. hex_bit s b)"

definition report_supports_remote_dry :: "telemetry_report \<Rightarrow> bool option" where
  "report_supports_remote_dry r = report_fun2_bit FUN2_REMOTE_DRY_BIT r"

definition report_print_status :: "telemetry_report \<Rightarrow> print_status option" where
  "report_print_status r = Option.bind (tr_print r) push_print_status"

end
