(* ===== verification/Requests.thy ===== *)
theory Requests
  imports MqttClient AmsMapping AmsTypes Models Hms Stage
begin

text \<open>
  The requests a client publishes (\<open>src/mqtt/commands/\<close>): the JSON each one is serialized to, its fields in the order of
  the payload's declaration, under the key of its namespace. A constructor is a function of the sequence id it is sent
  with. \<open>serde_json\<close>'s serializer itself is a parameter of the operations that publish.
\<close>

section \<open>Task ids and envelopes\<close>

abbreviation (input) TASK_ID_MAX :: nat where "TASK_ID_MAX \<equiv> 2147483647"

definition clamp_task_id :: "nat \<Rightarrow> nat" where
  "clamp_task_id raw_id = raw_id mod TASK_ID_MAX"

text \<open>A clamped id is written as a string.\<close>

definition task_id :: "nat \<Rightarrow> json" where
  "task_id raw_id = JString (dec (clamp_task_id raw_id))"

definition namespaced :: "string \<Rightarrow> (string \<times> json) list \<Rightarrow> json" where
  "namespaced namespace payload_fields = JObject [(namespace, JObject payload_fields)]"

definition jnat :: "nat \<Rightarrow> json" where "jnat n = JNumber (PosInt n)"

definition jint :: "int \<Rightarrow> json" where
  "jint i = JNumber (if i < 0 then NegInt i else PosInt (nat i))"

text \<open>A field with \<open>skip_serializing_if = "Option::is_none"\<close>.\<close>

definition optional_field :: "string \<Rightarrow> ('a \<Rightarrow> json) \<Rightarrow> 'a option \<Rightarrow> (string \<times> json) list" where
  "optional_field k f v = (case v of None \<Rightarrow> [] | Some x \<Rightarrow> [(k, f x)])"

text \<open>A payload that starts with its command's name.\<close>

abbreviation (input) command_field :: "string \<Rightarrow> string \<times> json" where
  "command_field c \<equiv> (''command'', JString c)"

abbreviation (input) sequence_field :: "nat \<Rightarrow> string \<times> json" where
  "sequence_field seq \<equiv> (''sequence_id'', task_id seq)"

section \<open>Status\<close>

definition pushall_request :: "nat \<Rightarrow> json" where
  "pushall_request seq = namespaced ''pushing'' [command_field ''pushall'', sequence_field seq]"

definition get_version_request :: "nat \<Rightarrow> json" where
  "get_version_request seq = namespaced ''info'' [command_field ''get_version'', sequence_field seq]"

definition get_access_code_request :: "nat \<Rightarrow> json" where
  "get_access_code_request seq = namespaced ''system'' [command_field ''get_access_code'', sequence_field seq]"

section \<open>G-code\<close>

definition gcode_request :: "string \<Rightarrow> nat \<Rightarrow> json" where
  "gcode_request gcode_line seq =
     (let param = (if gcode_line \<noteq> [] \<and> last gcode_line = CHR 0x0A then gcode_line else gcode_line @ [CHR 0x0A])
      in namespaced ''print'' [command_field ''gcode_line'', (''param'', JString param), sequence_field seq])"

section \<open>Control\<close>

datatype standard_command = CPause | CResume | CStop | RefreshNozzle | CloseAirFilter | AutoStopAmsDry

fun standard_command_wire :: "standard_command \<Rightarrow> string" where
  "standard_command_wire CPause = ''pause''"
| "standard_command_wire CResume = ''resume''"
| "standard_command_wire CStop = ''stop''"
| "standard_command_wire RefreshNozzle = ''refresh_nozzle''"
| "standard_command_wire CloseAirFilter = ''close_air_filt''"
| "standard_command_wire AutoStopAmsDry = ''auto_stop_ams_dry''"

definition standard_control_request :: "standard_command \<Rightarrow> nat \<Rightarrow> json" where
  "standard_control_request command seq =
     namespaced ''print'' [command_field (standard_command_wire command), sequence_field seq]"

definition skip_objects_request :: "nat list \<Rightarrow> nat \<Rightarrow> json" where
  "skip_objects_request object_indices seq =
     namespaced ''print'' [command_field ''skip_objects'', (''obj_list'', JArray (map jnat object_indices)), sequence_field seq]"

definition clean_print_error_request :: "nat \<Rightarrow> json" where
  "clean_print_error_request seq = namespaced ''print'' [command_field ''clean_print_error'', sequence_field seq]"

definition hms_action_request :: "string \<Rightarrow> u32 \<Rightarrow> string option \<Rightarrow> nat \<Rightarrow> json" where
  "hms_action_request command error_code job_id seq =
     namespaced ''print''
       [command_field command, (''err'', JString (dec (unat error_code))), (''param'', JString ''reserve''),
        (''job_id'', JString (case job_id of None \<Rightarrow> [] | Some j \<Rightarrow> j)), sequence_field seq]"

definition ignore_error_request :: "u32 \<Rightarrow> string option \<Rightarrow> nat \<Rightarrow> json" where
  "ignore_error_request = hms_action_request ''ignore''"

definition resume_error_request :: "u32 \<Rightarrow> string option \<Rightarrow> nat \<Rightarrow> json" where
  "resume_error_request = hms_action_request ''resume''"

definition stop_error_request :: "u32 \<Rightarrow> string option \<Rightarrow> nat \<Rightarrow> json" where
  "stop_error_request = hms_action_request ''stop''"

datatype idle_ignore_scope = IgnoreOnce | IgnorePermanent

definition idle_ignore_request :: "u32 \<Rightarrow> idle_ignore_scope \<Rightarrow> nat \<Rightarrow> json" where
  "idle_ignore_request error_code scope seq =
     namespaced ''print''
       [command_field ''idle_ignore'', (''err'', JString (dec (unat error_code))),
        (''type'', jnat (case scope of IgnoreOnce \<Rightarrow> 0 | IgnorePermanent \<Rightarrow> 1)), sequence_field seq]"

definition close_print_error_request :: "u32 \<Rightarrow> nat \<Rightarrow> json" where
  "close_print_error_request error_code seq =
     namespaced ''system''
       [command_field ''uiop'', sequence_field seq, (''name'', JString ''print_error''), (''action'', JString ''close''),
        (''source'', jnat 1), (''type'', JString ''dialog''), (''err'', JString (hex_upper 8 (unat error_code)))]"

definition calibration_request :: "calibration_option \<Rightarrow> nat \<Rightarrow> json" where
  "calibration_request option_bitmask seq =
     namespaced ''print'' [command_field ''calibration'', (''option'', jnat (unat option_bitmask)), sequence_field seq]"

definition print_speed_request :: "print_speed \<Rightarrow> nat \<Rightarrow> json" where
  "print_speed_request speed seq =
     namespaced ''print'' [command_field ''print_speed'', (''param'', JString (dec (speed_level speed))), sequence_field seq]"

section \<open>Hardware\<close>

record flash_timing =
  ft_on_ms :: nat
  ft_off_ms :: nat
  ft_loops :: nat
  ft_interval_ms :: nat

definition led_ctrl_build :: "led_node \<Rightarrow> light_mode \<Rightarrow> flash_timing \<Rightarrow> nat \<Rightarrow> json" where
  "led_ctrl_build node mode timing seq =
     namespaced ''system''
       [command_field ''ledctrl'', sequence_field seq, (''led_node'', JString (enum_as_wire LedNode_wire node)),
        (''led_mode'', JString (enum_as_wire LightMode_wire mode)), (''led_on_time'', jnat (ft_on_ms timing)),
        (''led_off_time'', jnat (ft_off_ms timing)), (''loop_times'', jnat (ft_loops timing)),
        (''interval_time'', jnat (ft_interval_ms timing))]"

definition led_ctrl_request :: "led_node \<Rightarrow> bool \<Rightarrow> nat \<Rightarrow> json" where
  "led_ctrl_request node turn_on seq =
     led_ctrl_build node (if turn_on then LightOn else LightOff)
       \<lparr>ft_on_ms = 0, ft_off_ms = 0, ft_loops = 0, ft_interval_ms = 0\<rparr> seq"

definition led_flash_request :: "led_node \<Rightarrow> flash_timing \<Rightarrow> nat \<Rightarrow> json" where
  "led_flash_request node timing seq = led_ctrl_build node Flashing timing seq"

datatype airduct_mode = DuctCooling | DuctHeating | DuctExhaust | DuctFullCooling

fun airduct_mode_id :: "airduct_mode \<Rightarrow> int" where
  "airduct_mode_id DuctCooling = 0"
| "airduct_mode_id DuctHeating = 1"
| "airduct_mode_id DuctExhaust = 2"
| "airduct_mode_id DuctFullCooling = 3"

definition airduct_request :: "airduct_mode \<Rightarrow> nat \<Rightarrow> json" where
  "airduct_request mode seq =
     namespaced ''print''
       [command_field ''set_airduct'', (''modeId'', jint (airduct_mode_id mode)), (''submode'', jint (- 1)), sequence_field seq]"

definition prompt_sound_request :: "bool \<Rightarrow> nat \<Rightarrow> json" where
  "prompt_sound_request enable seq =
     namespaced ''print'' [command_field ''print_option'', (''sound_enable'', JBool enable), sequence_field seq]"

abbreviation (input) PRINT_OP_AUTO_RECOVERY :: nat where "PRINT_OP_AUTO_RECOVERY \<equiv> 0"

definition auto_recovery_request :: "bool \<Rightarrow> nat \<Rightarrow> json" where
  "auto_recovery_request enable seq =
     namespaced ''print''
       [command_field ''print_option'', sequence_field seq,
        (''option'', jnat (of_bool enable * 2 ^ PRINT_OP_AUTO_RECOVERY)), (''auto_recovery'', JBool enable)]"

definition filament_backup_request :: "bool \<Rightarrow> nat \<Rightarrow> json" where
  "filament_backup_request enable seq =
     namespaced ''print'' [command_field ''print_option'', sequence_field seq, (''auto_switch_filament'', JBool enable)]"

definition filament_tangle_detect_request :: "bool \<Rightarrow> nat \<Rightarrow> json" where
  "filament_tangle_detect_request enable seq =
     namespaced ''print'' [command_field ''print_option'', sequence_field seq, (''filament_tangle_detect'', JBool enable)]"

definition nozzle_blob_detect_request :: "bool \<Rightarrow> nat \<Rightarrow> json" where
  "nozzle_blob_detect_request enable seq =
     namespaced ''print'' [command_field ''print_option'', sequence_field seq, (''nozzle_blob_detect'', JBool enable)]"

definition smart_nozzle_blob_detect_request :: "nozzle_blob_detect_mode \<Rightarrow> nat \<Rightarrow> json" where
  "smart_nozzle_blob_detect_request mode seq =
     namespaced ''print'' [command_field ''print_option'', sequence_field seq, (''nozzle_blob_detect_v2'', jnat (blob_code mode))]"

definition air_print_detect_request :: "bool \<Rightarrow> nat \<Rightarrow> json" where
  "air_print_detect_request enable seq =
     namespaced ''print'' [command_field ''print_option'', sequence_field seq, (''air_print_detect'', JBool enable)]"

definition air_purification_request :: "air_purification_mode \<Rightarrow> nat \<Rightarrow> json" where
  "air_purification_request mode seq =
     namespaced ''print'' [command_field ''print_option'', sequence_field seq, (''air_purification'', jnat (air_code mode))]"

definition door_open_check_request :: "door_open_check \<Rightarrow> nat \<Rightarrow> json" where
  "door_open_check_request mode seq =
     namespaced ''system'' [command_field ''set_door_stat'', sequence_field seq, (''config'', jnat (door_code mode))]"

definition idle_heating_protection_request :: "bool \<Rightarrow> nat \<Rightarrow> json" where
  "idle_heating_protection_request enable seq =
     namespaced ''print''
       [command_field ''set_against_continued_heating_mode'', sequence_field seq, (''enable'', JBool enable)]"

definition store_sent_files_request :: "bool \<Rightarrow> nat \<Rightarrow> json" where
  "store_sent_files_request store seq =
     namespaced ''system'' [command_field ''print_cache_set'', sequence_field seq, (''config'', JBool store)]"

definition xcam_control_request :: "xcam_module \<Rightarrow> bool \<Rightarrow> xcam_halt_sensitivity option \<Rightarrow> nat \<Rightarrow> json" where
  "xcam_control_request m enable sensitivity seq =
     namespaced ''xcam''
       ([command_field ''xcam_control_set'', sequence_field seq, (''module_name'', JString (enum_as_wire XcamModule_wire m)),
         (''control'', JBool enable), (''enable'', JBool enable), (''print_halt'', JBool True)]
        @ optional_field ''halt_print_sensitivity'' (\<lambda>s. JString (enum_as_wire XcamHaltSensitivity_wire s)) sensitivity)"

definition buzzer_request :: "buzzer_mode \<Rightarrow> nat \<Rightarrow> json" where
  "buzzer_request mode seq =
     namespaced ''print'' [command_field ''buzzer_ctrl'', (''mode'', jint (buzzer_code mode)), (''reason'', JString []), sequence_field seq]"

section \<open>AMS\<close>

text \<open>\<open>{:?}\<close> of a string, as far as it is ASCII.\<close>

definition escape_char :: "char \<Rightarrow> string" where
  "escape_char c =
     (if c = CHR 0x22 then [CHR 0x5C, CHR 0x22] else if c = CHR 0x5C then [CHR 0x5C, CHR 0x5C]
      else if c = CHR 0x0A then [CHR 0x5C] @ ''n'' else if c = CHR 0x0D then [CHR 0x5C] @ ''r''
      else if c = CHR 0x09 then [CHR 0x5C] @ ''t'' else if c = CHR 0x00 then [CHR 0x5C] @ ''0''
      else if code c < 32 \<or> code c = 127
      then [CHR 0x5C] @ ''u{'' @ (if code c < 16 then [hex_digit (code c)] else hex_pad 2 (code c)) @ ''}''
      else [c])"

definition quoted :: "string \<Rightarrow> string" where
  "quoted s = [CHR 0x22] @ concat (map escape_char s) @ [CHR 0x22]"

definition is_ascii_hexdigit :: "char \<Rightarrow> bool" where
  "is_ascii_hexdigit c \<longleftrightarrow> is_ascii_digit c \<or> 65 \<le> code c \<and> code c \<le> 70 \<or> 97 \<le> code c \<and> code c \<le> 102"

definition normalize_tray_color :: "string \<Rightarrow> error + string" where
  "normalize_tray_color color_hex =
     (let trimmed = trim color_hex;
          digits = (case trimmed of c # rest \<Rightarrow> if c = CHR ''#'' then rest else trimmed | [] \<Rightarrow> trimmed)
      in if \<not> list_all is_ascii_hexdigit digits
         then Inl (InvalidArgument (''tray color '' @ quoted color_hex @ '' is not hex''))
         else if length digits = 8 then Inr (map to_ascii_upper digits)
         else if length digits = 6 then Inr (map to_ascii_upper digits @ ''FF'')
         else Inl (InvalidArgument (''tray color '' @ quoted color_hex @ '' must be RRGGBB or RRGGBBAA'')))"

record filament_spec =
  fs_preset :: string
  fs_material :: string
  fs_nozzle_temp_min :: nat
  fs_nozzle_temp_max :: nat

record tray_filament_details =
  td_color :: "string option"
  td_sub_brands :: "string option"
  td_setting_id :: "string option"

record ams_filament_setting =
  as_ams_id :: int
  as_slot_id :: int
  as_tray_id :: int
  as_tray_info_idx :: string
  as_tray_type :: string
  as_tray_sub_brands :: string
  as_tray_color :: string
  as_nozzle_temp_min :: nat
  as_nozzle_temp_max :: nat
  as_setting_id :: "string option"

definition ams_filament_setting_new :: "int \<Rightarrow> int \<Rightarrow> filament_spec \<Rightarrow> ams_filament_setting" where
  "ams_filament_setting_new ams_id slot_id filament =
     \<lparr>as_ams_id = ams_id, as_slot_id = slot_id,
      as_tray_id = (if ams_id = int AMS_EXTERNAL_SPOOL_MAIN_ID \<or> ams_id = int AMS_EXTERNAL_SPOOL_DEPUTY_ID
                    then int AMS_EXTERNAL_SPOOL_DEPUTY_ID else slot_id),
      as_tray_info_idx = fs_preset filament, as_tray_type = fs_material filament,
      as_tray_sub_brands = fs_material filament @ '' Basic'', as_tray_color = [],
      as_nozzle_temp_min = fs_nozzle_temp_min filament, as_nozzle_temp_max = fs_nozzle_temp_max filament,
      as_setting_id = None\<rparr>"

definition with_sub_brands :: "string \<Rightarrow> ams_filament_setting \<Rightarrow> ams_filament_setting" where
  "with_sub_brands sub_brands r = r\<lparr>as_tray_sub_brands := sub_brands\<rparr>"

definition with_color :: "string \<Rightarrow> ams_filament_setting \<Rightarrow> error + ams_filament_setting" where
  "with_color color_hex r =
     (case normalize_tray_color color_hex of Inl e \<Rightarrow> Inl e | Inr c \<Rightarrow> Inr (r\<lparr>as_tray_color := c\<rparr>))"

definition with_setting_id :: "string \<Rightarrow> ams_filament_setting \<Rightarrow> ams_filament_setting" where
  "with_setting_id setting_id r = r\<lparr>as_setting_id := Some setting_id\<rparr>"

definition ams_filament_setting_request :: "ams_filament_setting \<Rightarrow> nat \<Rightarrow> json" where
  "ams_filament_setting_request r seq =
     namespaced ''print''
       ([command_field ''ams_filament_setting'', sequence_field seq, (''ams_id'', jint (as_ams_id r)),
         (''slot_id'', jint (as_slot_id r)), (''tray_id'', jint (as_tray_id r)),
         (''tray_info_idx'', JString (as_tray_info_idx r)), (''tray_type'', JString (as_tray_type r)),
         (''tray_sub_brands'', JString (as_tray_sub_brands r)), (''tray_color'', JString (as_tray_color r)),
         (''nozzle_temp_min'', jnat (as_nozzle_temp_min r)), (''nozzle_temp_max'', jnat (as_nozzle_temp_max r))]
        @ optional_field ''setting_id'' JString (as_setting_id r))"

datatype ams_control_op = OpResume | OpPause | OpReset

fun ams_control_wire :: "ams_control_op \<Rightarrow> string" where
  "ams_control_wire OpResume = ''resume''"
| "ams_control_wire OpPause = ''pause''"
| "ams_control_wire OpReset = ''reset''"

definition ams_control_request :: "ams_control_op \<Rightarrow> nat \<Rightarrow> json" where
  "ams_control_request operation seq =
     namespaced ''print'' [command_field ''ams_control'', (''param'', JString (ams_control_wire operation)), sequence_field seq]"

definition ams_get_rfid_request :: "int \<Rightarrow> int \<Rightarrow> nat \<Rightarrow> json" where
  "ams_get_rfid_request ams_id slot_id seq =
     namespaced ''print'' [command_field ''ams_get_rfid'', (''ams_id'', jint ams_id), (''slot_id'', jint slot_id), sequence_field seq]"

record change_temps =
  ct_current :: int
  ct_target :: int

definition FIRMWARE_temps :: change_temps where
  "FIRMWARE_temps = \<lparr>ct_current = -1, ct_target = -1\<rparr>"

abbreviation (input) SLOT_UNLOAD :: nat where "SLOT_UNLOAD \<equiv> 255"

definition change_filament_build :: "nat \<Rightarrow> nat \<Rightarrow> nat \<Rightarrow> change_temps \<Rightarrow> nat option \<Rightarrow> nat \<Rightarrow> json" where
  "change_filament_build ams_id slot_id goal temps extruder_id seq =
     namespaced ''print''
       ([command_field ''ams_change_filament'', (''ams_id'', jnat ams_id), (''slot_id'', jnat slot_id), (''target'', jnat goal),
         (''curr_temp'', jint (ct_current temps)), (''tar_temp'', jint (ct_target temps)), sequence_field seq]
        @ optional_field ''extruder_id'' jnat extruder_id)"

text \<open>The ids are \<open>u8\<close>, so the index of a tray wraps.\<close>

definition change_filament_load :: "nat \<Rightarrow> nat \<Rightarrow> change_temps \<Rightarrow> nat option \<Rightarrow> nat \<Rightarrow> json" where
  "change_filament_load ams_id slot_id temps extruder_id seq =
     (let goal = (if ams_id \<ge> AMS_LITE_ON_A2L_PHYSICAL_ID then ams_id else (ams_id * AMS_SLOTS_PER_UNIT + slot_id) mod 256)
      in change_filament_build ams_id slot_id goal temps extruder_id seq)"

definition change_filament_unload :: "nat \<Rightarrow> change_temps \<Rightarrow> nat option \<Rightarrow> nat \<Rightarrow> json" where
  "change_filament_unload ams_id temps extruder_id seq =
     change_filament_build ams_id SLOT_UNLOAD SLOT_UNLOAD temps extruder_id seq"

record drying_params =
  dp_filament :: string
  dp_temp :: nat
  dp_duration_hours :: nat
  dp_humidity :: nat
  dp_rotate_tray :: bool
  dp_cooling_temp :: nat
  dp_close_power_conflict :: bool

definition drying_build :: "int \<Rightarrow> int \<Rightarrow> drying_params \<Rightarrow> nat \<Rightarrow> json" where
  "drying_build ams_id mode params seq =
     namespaced ''print''
       [command_field ''ams_filament_drying'', (''ams_id'', jint ams_id), (''mode'', jint mode),
        (''filament'', JString (dp_filament params)), (''temp'', jnat (dp_temp params)),
        (''duration'', jnat (dp_duration_hours params)), (''humidity'', jnat (dp_humidity params)),
        (''rotate_tray'', JBool (dp_rotate_tray params)), (''cooling_temp'', jnat (dp_cooling_temp params)),
        (''close_power_conflict'', JBool (dp_close_power_conflict params)), sequence_field seq]"

definition drying_start_request :: "int \<Rightarrow> drying_params \<Rightarrow> nat \<Rightarrow> json" where
  "drying_start_request ams_id params seq = drying_build ams_id 1 params seq"

definition drying_stop_request :: "int \<Rightarrow> nat \<Rightarrow> json" where
  "drying_stop_request ams_id seq =
     drying_build ams_id 0
       \<lparr>dp_filament = [], dp_temp = 0, dp_duration_hours = 0, dp_humidity = 0, dp_rotate_tray = False,
        dp_cooling_temp = 0, dp_close_power_conflict = False\<rparr> seq"

section \<open>Print jobs\<close>

definition sanitize_flat_mapping :: "int list \<Rightarrow> int list" where
  "sanitize_flat_mapping mapping = map (\<lambda>v. if v = -1 \<or> is_physical_flat_channel v then v else -1) mapping"

datatype calibration_mode = CaliOff | CaliOn | CaliAuto

fun cali_as_wire_i32 :: "calibration_mode \<Rightarrow> int" where
  "cali_as_wire_i32 CaliOff = 0"
| "cali_as_wire_i32 CaliOn = 1"
| "cali_as_wire_i32 CaliAuto = 2"

definition cali_as_wire_bool :: "calibration_mode \<Rightarrow> bool" where
  "cali_as_wire_bool m \<longleftrightarrow> m = CaliOn"

definition cali_from_bool :: "bool \<Rightarrow> calibration_mode" where
  "cali_from_bool enabled = (if enabled then CaliOn else CaliOff)"

abbreviation (input) RACK_FIXED_NOZZLE_ID :: int where "RACK_FIXED_NOZZLE_ID \<equiv> 1"
abbreviation (input) RACK_FIXED_EXTRUDER_ID :: int where "RACK_FIXED_EXTRUDER_ID \<equiv> 1"
abbreviation (input) RACK_RACK_EXTRUDER_ID :: int where "RACK_RACK_EXTRUDER_ID \<equiv> 0"
abbreviation (input) RACK_NOZZLE_ID_MIN :: int where "RACK_NOZZLE_ID_MIN \<equiv> 16"
abbreviation (input) RACK_NOZZLE_ID_MAX :: int where "RACK_NOZZLE_ID_MAX \<equiv> 21"
abbreviation (input) RACK_WIRE_SLOTS :: nat where "RACK_WIRE_SLOTS \<equiv> 32"

text \<open>The loop over the slots; an extruder that is neither returns early.\<close>

fun rack_loop :: "int \<Rightarrow> nat \<Rightarrow> int list \<Rightarrow> int list \<Rightarrow> int list option" where
  "rack_loop rack_nozzle_id i [] wire = Some wire"
| "rack_loop rack_nozzle_id i (extruder # rest) wire =
     (if extruder < 0 then rack_loop rack_nozzle_id (Suc i) rest wire
      else if extruder = RACK_RACK_EXTRUDER_ID then rack_loop rack_nozzle_id (Suc i) rest (wire[i := rack_nozzle_id])
      else if extruder = RACK_FIXED_EXTRUDER_ID then rack_loop rack_nozzle_id (Suc i) rest (wire[i := RACK_FIXED_NOZZLE_ID])
      else None)"

definition resolve_rack_nozzle_mapping :: "int list \<Rightarrow> int \<Rightarrow> int list option" where
  "resolve_rack_nozzle_mapping slot_extruders rack_nozzle_id =
     (if slot_extruders = [] \<or> length slot_extruders > RACK_WIRE_SLOTS then None
      else if \<not> (RACK_NOZZLE_ID_MIN \<le> rack_nozzle_id \<and> rack_nozzle_id \<le> RACK_NOZZLE_ID_MAX) then None
      else if RACK_RACK_EXTRUDER_ID \<notin> set slot_extruders then None
      else rack_loop rack_nozzle_id 0 slot_extruders (replicate RACK_WIRE_SLOTS (-1)))"

datatype ams_source = SrcFlat "int list" | SrcStructured "ams_mapping2_entry list"

record nozzle_rack =
  nr_slot_extruders :: "int list"
  nr_rack_nozzle_id :: int

datatype job_file_location = OnCard | OnInternalStorage

datatype sliced_for = NotSupplied | SlicedForModel "string option" | ModelUnchecked

record print_job_config =
  jc_job_filename :: string
  jc_plate_gcode_path :: string
  jc_subtask_name :: string
  jc_raw_subtask_id :: nat
  jc_bed_type :: string
  jc_bed_leveling :: calibration_mode
  jc_run_flow_calibration :: calibration_mode
  jc_run_vibration_compensation :: calibration_mode
  jc_timelapse :: bool
  jc_layer_inspect :: bool
  jc_nozzle_offset_cali :: "calibration_mode option"
  jc_ams :: "ams_source option"
  jc_nozzle_rack :: "nozzle_rack option"
  jc_pa_profile_shared_by_type :: "bool option"
  jc_file_location :: job_file_location
  jc_sliced_for :: sliced_for

definition print_job_config_new :: "string \<Rightarrow> string \<Rightarrow> string \<Rightarrow> nat \<Rightarrow> string \<Rightarrow> print_job_config" where
  "print_job_config_new job_filename plate_gcode_path subtask_name raw_subtask_id bed_type =
     \<lparr>jc_job_filename = job_filename, jc_plate_gcode_path = plate_gcode_path, jc_subtask_name = subtask_name,
      jc_raw_subtask_id = raw_subtask_id, jc_bed_type = bed_type, jc_bed_leveling = CaliOn,
      jc_run_flow_calibration = CaliOn, jc_run_vibration_compensation = CaliOff, jc_timelapse = True,
      jc_layer_inspect = True, jc_nozzle_offset_cali = None, jc_ams = None, jc_nozzle_rack = None,
      jc_pa_profile_shared_by_type = None, jc_file_location = OnCard, jc_sliced_for = NotSupplied\<rparr>"

definition job_with_ams :: "int list \<Rightarrow> print_job_config \<Rightarrow> print_job_config" where
  "job_with_ams mapping c = c\<lparr>jc_ams := Some (SrcFlat (sanitize_flat_mapping mapping))\<rparr>"

definition job_with_ams_mapping2 :: "ams_mapping2_entry list \<Rightarrow> print_job_config \<Rightarrow> print_job_config" where
  "job_with_ams_mapping2 mapping2 c = c\<lparr>jc_ams := Some (SrcStructured mapping2)\<rparr>"

definition job_with_nozzle_rack :: "int list \<Rightarrow> int \<Rightarrow> print_job_config \<Rightarrow> error + print_job_config" where
  "job_with_nozzle_rack slot_extruders rack_nozzle_id c =
     (if \<not> (RACK_NOZZLE_ID_MIN \<le> rack_nozzle_id \<and> rack_nozzle_id \<le> RACK_NOZZLE_ID_MAX)
      then Inl (InvalidArgument (''rack_nozzle_id '' @ dec_int rack_nozzle_id @ '' is not a rack position (16..=21)''))
      else Inr (c\<lparr>jc_nozzle_rack := Some \<lparr>nr_slot_extruders = slot_extruders, nr_rack_nozzle_id = rack_nozzle_id\<rparr>\<rparr>))"

datatype ams_mapping_table = MappingInactive | MappingActive "int list"

fun ams_mapping_table_json :: "ams_mapping_table \<Rightarrow> json" where
  "ams_mapping_table_json MappingInactive = JString []"
| "ams_mapping_table_json (MappingActive mapping) = JArray (map jint mapping)"

record project_file =
  pf_param :: string
  pf_subtask_name :: string
  pf_subtask_id :: string
  pf_flow_cali :: bool
  pf_project_id :: string
  pf_task_id :: string
  pf_file :: string
  pf_url :: string
  pf_timelapse :: bool
  pf_bed_type :: string
  pf_bed_leveling :: bool
  pf_auto_bed_leveling :: int
  pf_extrude_cali_flag :: int
  pf_nozzle_offset_cali :: int
  pf_vibration_cali :: bool
  pf_nozzle_mapping :: "int list option"
  pf_layer_inspect :: bool
  pf_use_ams :: bool
  pf_ams_mapping :: ams_mapping_table
  pf_ams_mapping2 :: "ams_mapping2_entry list option"
  pf_extrude_cali_manual_mode :: "int option"

text \<open>On a model with one nozzle an entry for the second external spool is taken to mean the first.\<close>

definition single_spool :: "bool \<Rightarrow> ams_mapping2_entry \<Rightarrow> ams_mapping2_entry" where
  "single_spool is_single_nozzle e =
     (if is_single_nozzle \<and> me_ams_id e = AMS_EXTERNAL_SPOOL_DEPUTY_ID
      then e\<lparr>me_ams_id := AMS_EXTERNAL_SPOOL_MAIN_ID\<rparr> else e)"

definition job_mapping2 :: "bool \<Rightarrow> print_job_config \<Rightarrow> ams_mapping2_entry list option" where
  "job_mapping2 is_single_nozzle config =
     (case jc_ams config of Some (SrcStructured mapping2) \<Rightarrow> Some (map (single_spool is_single_nozzle) mapping2) | _ \<Rightarrow> None)"

definition job_use_ams :: "bool \<Rightarrow> print_job_config \<Rightarrow> bool" where
  "job_use_ams is_single_nozzle config =
     (case (jc_ams config, job_mapping2 is_single_nozzle config) of
        (Some _, Some mapping2) \<Rightarrow> is_external_spool_safety_valid is_single_nozzle mapping2
      | (Some (SrcFlat flat), None) \<Rightarrow> is_external_spool_safety_valid_flat is_single_nozzle flat
      | _ \<Rightarrow> False)"

definition job_ams_mapping :: "bool \<Rightarrow> print_job_config \<Rightarrow> ams_mapping_table" where
  "job_ams_mapping is_single_nozzle config =
     (if \<not> job_use_ams is_single_nozzle config then MappingInactive
      else case (jc_ams config, job_mapping2 is_single_nozzle config) of
        (_, Some mapping2) \<Rightarrow> MappingActive (map flat_channel_id_for_entry mapping2)
      | (Some (SrcFlat flat), _) \<Rightarrow> MappingActive (sanitize_flat_mapping flat)
      | _ \<Rightarrow> MappingInactive)"

definition project_file_from_config :: "print_job_config \<Rightarrow> printer_model \<Rightarrow> project_file" where
  "project_file_from_config config model =
     (let url = (case jc_file_location config of
            OnCard \<Rightarrow> ''ftp://'' @ jc_job_filename config
          | OnInternalStorage \<Rightarrow> ''brtc://emmc/'' @ jc_job_filename config);
          q = quirks model;
          is_single_nozzle = (physical_nozzle_count q = 1);
          use_ams = job_use_ams is_single_nozzle config;
          nozzle_offset = (if supports_nozzle_offset_calibration q
            then (case jc_nozzle_offset_cali config of None \<Rightarrow> CaliOn | Some m \<Rightarrow> m) else CaliOff);
          nozzle_mapping = (case jc_nozzle_rack config of
              None \<Rightarrow> None
            | Some rack \<Rightarrow> if has_nozzle_rack q
                then resolve_rack_nozzle_mapping (nr_slot_extruders rack) (nr_rack_nozzle_id rack) else None);
          submission_id = dec (clamp_task_id (jc_raw_subtask_id config))
      in \<lparr>pf_param = jc_plate_gcode_path config, pf_subtask_name = jc_subtask_name config, pf_subtask_id = submission_id,
          pf_flow_cali = cali_as_wire_bool (jc_run_flow_calibration config), pf_project_id = submission_id,
          pf_task_id = submission_id, pf_file = jc_job_filename config, pf_url = url, pf_timelapse = jc_timelapse config,
          pf_bed_type = jc_bed_type config, pf_bed_leveling = cali_as_wire_bool (jc_bed_leveling config),
          pf_auto_bed_leveling = cali_as_wire_i32 (jc_bed_leveling config),
          pf_extrude_cali_flag = cali_as_wire_i32 (jc_run_flow_calibration config),
          pf_nozzle_offset_cali = cali_as_wire_i32 nozzle_offset,
          pf_vibration_cali = cali_as_wire_bool (jc_run_vibration_compensation config),
          pf_nozzle_mapping = nozzle_mapping, pf_layer_inspect = jc_layer_inspect config, pf_use_ams = use_ams,
          pf_ams_mapping = job_ams_mapping is_single_nozzle config,
          pf_ams_mapping2 = (if use_ams then job_mapping2 is_single_nozzle config else None),
          pf_extrude_cali_manual_mode =
            map_option (\<lambda>shared. if shared then 0 else 1) (jc_pa_profile_shared_by_type config)\<rparr>)"

definition mapping2_json :: "ams_mapping2_entry \<Rightarrow> json" where
  "mapping2_json e = JObject [(''ams_id'', jnat (me_ams_id e)), (''slot_id'', jnat (me_slot_id e))]"

definition project_file_request :: "print_job_config \<Rightarrow> printer_model \<Rightarrow> nat \<Rightarrow> json" where
  "project_file_request config model seq =
     (let p = project_file_from_config config model
      in namespaced ''print''
       ([command_field ''project_file'', sequence_field seq, (''param'', JString (pf_param p)),
         (''subtask_name'', JString (pf_subtask_name p)), (''subtask_id'', JString (pf_subtask_id p)),
         (''flow_cali'', JBool (pf_flow_cali p)), (''profile_id'', JString ''0''), (''project_id'', JString (pf_project_id p)),
         (''task_id'', JString (pf_task_id p)), (''file'', JString (pf_file p)), (''url'', JString (pf_url p)),
         (''timelapse'', JBool (pf_timelapse p)), (''bed_type'', JString (pf_bed_type p)),
         (''bed_leveling'', JBool (pf_bed_leveling p)), (''auto_bed_leveling'', jint (pf_auto_bed_leveling p)),
         (''extrude_cali_flag'', jint (pf_extrude_cali_flag p)), (''nozzle_offset_cali'', jint (pf_nozzle_offset_cali p)),
         (''vibration_cali'', JBool (pf_vibration_cali p))]
        @ optional_field ''nozzle_mapping'' (\<lambda>m. JArray (map jint m)) (pf_nozzle_mapping p)
        @ [(''layer_inspect'', JBool (pf_layer_inspect p)), (''use_ams'', JBool (pf_use_ams p)),
           (''ams_mapping'', ams_mapping_table_json (pf_ams_mapping p))]
        @ optional_field ''ams_mapping2'' (\<lambda>m. JArray (map mapping2_json m)) (pf_ams_mapping2 p)
        @ optional_field ''extrude_cali_manual_mode'' jint (pf_extrude_cali_manual_mode p)))"

end
