(* ===== verification/RequestsProps.thy ===== *)
theory RequestsProps
  imports Requests "HOL-Library.List_Lexorder" "HOL-Library.Char_ord" "HOL-Library.Multiset"
begin

text \<open>
  What the requests promise: each carries the command and the sequence id its echo is matched by, and a print job's
  mappings agree with each other and name real slots only.
\<close>

section \<open>Reading a request back\<close>

text \<open>A document parsed into a \<open>Value\<close>: the keys of an object come in their order.\<close>

primrec canon :: "json \<Rightarrow> json" where
  "canon JNull = JNull"
| "canon (JBool b) = JBool b"
| "canon (JNumber n) = JNumber n"
| "canon (JString s) = JString s"
| "canon (JArray xs) = JArray (map canon xs)"
| "canon (JObject m) = JObject (sort_key fst (map (map_prod id canon) m))"

lemma map_of_sort_key:
  assumes "distinct (map fst m)"
  shows "map_of (sort_key fst m) = map_of m"
proof -
  have "mset (map fst (sort_key fst m)) = mset (map fst m)" by (metis mset_map mset_sort)
  with assms have "distinct (map fst (sort_key fst m))" using mset_eq_imp_distinct_iff by blast
  with assms show ?thesis by (simp add: map_of_inject_set)
qed

lemma map_of_canon: "map_of (map (map_prod id canon) m) k = map_option canon (map_of m k)"
  by (induction m) auto

text \<open>The requests the crate publishes, with the command each stands for.\<close>

inductive publishes :: "string \<Rightarrow> (nat \<Rightarrow> json) \<Rightarrow> bool" where
  "publishes ''pushall'' pushall_request"
| "publishes ''get_version'' get_version_request"
| "publishes ''get_access_code'' get_access_code_request"
| "publishes ''gcode_line'' (gcode_request line)"
| "publishes (standard_command_wire c) (standard_control_request c)"
| "publishes ''skip_objects'' (skip_objects_request objects)"
| "publishes ''clean_print_error'' clean_print_error_request"
| "publishes ''ignore'' (ignore_error_request error_code job_id)"
| "publishes ''resume'' (resume_error_request error_code job_id)"
| "publishes ''stop'' (stop_error_request error_code job_id)"
| "publishes ''idle_ignore'' (idle_ignore_request error_code scope)"
| "publishes ''uiop'' (close_print_error_request error_code)"
| "publishes ''calibration'' (calibration_request options)"
| "publishes ''print_speed'' (print_speed_request speed)"
| "publishes ''ledctrl'' (led_ctrl_request node turn_on)"
| "publishes ''ledctrl'' (led_flash_request node timing)"
| "publishes ''set_airduct'' (airduct_request duct)"
| "publishes ''print_option'' (prompt_sound_request enable)"
| "publishes ''print_option'' (auto_recovery_request enable)"
| "publishes ''print_option'' (filament_backup_request enable)"
| "publishes ''print_option'' (filament_tangle_detect_request enable)"
| "publishes ''print_option'' (nozzle_blob_detect_request enable)"
| "publishes ''print_option'' (smart_nozzle_blob_detect_request blob)"
| "publishes ''print_option'' (air_print_detect_request enable)"
| "publishes ''print_option'' (air_purification_request air)"
| "publishes ''set_door_stat'' (door_open_check_request door)"
| "publishes ''set_against_continued_heating_mode'' (idle_heating_protection_request enable)"
| "publishes ''print_cache_set'' (store_sent_files_request enable)"
| "publishes ''xcam_control_set'' (xcam_control_request m enable sensitivity)"
| "publishes ''buzzer_ctrl'' (buzzer_request buzzer)"
| "publishes ''ams_filament_setting'' (ams_filament_setting_request setting)"
| "publishes ''ams_control'' (ams_control_request operation)"
| "publishes ''ams_get_rfid'' (ams_get_rfid_request ams_id slot_id)"
| "publishes ''ams_change_filament'' (change_filament_load unit slot temps extruder_id)"
| "publishes ''ams_change_filament'' (change_filament_unload unit temps extruder_id)"
| "publishes ''ams_filament_drying'' (drying_start_request ams_id params)"
| "publishes ''ams_filament_drying'' (drying_stop_request ams_id)"
| "publishes ''project_file'' (project_file_request config model)"

inductive_cases publishes_projectE: "publishes ''project_file'' build"

text \<open>A request of one namespace whose payload names its command and its sequence id.\<close>

definition addressed :: "string \<Rightarrow> (nat \<Rightarrow> json) \<Rightarrow> bool" where
  "addressed command build \<longleftrightarrow>
     (\<forall>seq. \<exists>namespace m. build seq = JObject [(namespace, JObject m)] \<and> distinct (map fst m)
        \<and> map_of m ''command'' = Some (JString command) \<and> map_of m ''sequence_id'' = Some (task_id seq))"

lemmas request_defs = pushall_request_def get_version_request_def get_access_code_request_def gcode_request_def
  standard_control_request_def skip_objects_request_def clean_print_error_request_def ignore_error_request_def
  resume_error_request_def stop_error_request_def idle_ignore_request_def close_print_error_request_def
  calibration_request_def print_speed_request_def led_ctrl_request_def led_flash_request_def
  airduct_request_def prompt_sound_request_def auto_recovery_request_def filament_backup_request_def
  filament_tangle_detect_request_def nozzle_blob_detect_request_def smart_nozzle_blob_detect_request_def air_print_detect_request_def
  air_purification_request_def door_open_check_request_def idle_heating_protection_request_def store_sent_files_request_def
  xcam_control_request_def buzzer_request_def ams_filament_setting_request_def ams_control_request_def
  ams_get_rfid_request_def change_filament_load_def change_filament_unload_def drying_start_request_def
  drying_stop_request_def project_file_request_def hms_action_request_def led_ctrl_build_def
  change_filament_build_def drying_build_def

lemma publishes_addressed: "publishes command build \<Longrightarrow> addressed command build"
  by (induction rule: publishes.induct)
    (simp_all add: addressed_def namespaced_def optional_field_def Let_def request_defs split: option.split)

lemma addressed_echo:
  assumes "addressed command build" "js payload = Some (canon (build seq))"
  shows "echo_key js payload = Some \<lparr>ek_command = command, ek_sequence_id = clamp_task_id seq\<rparr>"
proof -
  from assms(1) obtain namespace m where b: "build seq = JObject [(namespace, JObject m)]" "distinct (map fst m)"
    "map_of m ''command'' = Some (JString command)" "map_of m ''sequence_id'' = Some (task_id seq)"
    unfolding addressed_def by blast
  let ?m = "map (map_prod id canon) m"
  have "distinct (map fst ?m)" using b(2) by (simp add: o_def)
  then have "map_of (sort_key fst ?m) k = map_option canon (map_of m k)" for k
    by (simp add: map_of_sort_key map_of_canon)
  moreover have "clamp_task_id seq < 4294967296"
    using mod_less_divisor [of TASK_ID_MAX seq] by (simp add: clamp_task_id_def)
  ultimately have "echo_of_member (JObject (sort_key fst ?m)) = Some \<lparr>ek_command = command, ek_sequence_id = clamp_task_id seq\<rparr>"
    using b(3,4) by (simp add: echo_of_member_def task_id_def parse_dec)
  then show ?thesis using assms(2) b(1) by (simp add: echo_key_def)
qed

section \<open>Print jobs\<close>

lemma rack_loop_wire:
  "rack_loop rack i es wire = Some w \<Longrightarrow> i + length es \<le> length wire \<Longrightarrow>
    length w = length wire \<and> (\<forall>k. w ! k = (if i \<le> k \<and> k < i + length es \<and> es ! (k - i) \<ge> 0
      then if es ! (k - i) = 0 then rack else 1 else wire ! k))"
proof (induction rack i es wire rule: rack_loop.induct)
  case (2 rack i e es wire)
  have split: "i \<le> k \<and> k < i + length (e # es) \<longleftrightarrow> k = i \<or> Suc i \<le> k \<and> k < Suc i + length es" for k
    by auto
  have nth: "k \<ge> Suc i \<Longrightarrow> (e # es) ! (k - i) = es ! (k - Suc i)" for k
    by (simp add: nth_Cons split: nat.split) (metis Suc_diff_Suc Suc_le_lessD nat.inject)
  show ?case
  proof (cases "e < 0 \<or> e = 0 \<or> e = 1")
    case True
    then have "\<exists>wire'. rack_loop rack (Suc i) es wire' = Some w \<and> length wire' = length wire
        \<and> wire' = (if e < 0 then wire else wire[i := if e = 0 then rack else 1])"
      using "2.prems"(1) by auto
    then obtain wire' where w': "rack_loop rack (Suc i) es wire' = Some w" "length wire' = length wire"
      "wire' = (if e < 0 then wire else wire[i := if e = 0 then rack else 1])" by blast
    have ih: "length w = length wire' \<and> (\<forall>k. w ! k = (if Suc i \<le> k \<and> k < Suc i + length es \<and> es ! (k - Suc i) \<ge> 0
        then if es ! (k - Suc i) = 0 then rack else 1 else wire' ! k))"
      using "2.IH" "2.prems" w' True by (auto split: if_splits)
    show ?thesis
    proof (intro conjI allI)
      show "length w = length wire" using ih w'(2) by simp
      fix k
      show "w ! k = (if i \<le> k \<and> k < i + length (e # es) \<and> (e # es) ! (k - i) \<ge> 0
        then if (e # es) ! (k - i) = 0 then rack else 1 else wire ! k)"
        using ih w'(3) True "2.prems"(2) nth [of k] unfolding conj_assoc [symmetric] split
        by (cases "k = i"; cases "e < 0") auto
    qed
  next
    case False
    then show ?thesis using "2.prems"(1) by simp
  qed
qed simp

lemma rack_mapping:
  assumes "resolve_rack_nozzle_mapping es rack = Some w"
  shows "length w = 32" "16 \<le> rack" "rack \<le> 21" "rack \<in> set w" "set w \<subseteq> {-1, 1, rack}"
proof -
  from assms have es: "es \<noteq> []" "length es \<le> 32" "16 \<le> rack" "rack \<le> 21" "0 \<in> set es"
    and w: "rack_loop rack 0 es (replicate 32 (-1)) = Some w"
    by (auto simp: resolve_rack_nozzle_mapping_def split: if_splits)
  note wire = rack_loop_wire [OF w, simplified]
  from wire es(2) have nth: "w ! k = (if k < length es \<and> es ! k \<ge> 0 then if es ! k = 0 then rack else 1 else replicate 32 (-1) ! k)"
    and len: "length w = 32" for k by auto
  show "length w = 32" "16 \<le> rack" "rack \<le> 21" using len es by auto
  from es(5) obtain k where "k < length es" "es ! k = 0" by (auto simp: in_set_conv_nth)
  then have "w ! k = rack" "k < length w" using nth [of k] es(2) len by auto
  then show "rack \<in> set w" by (metis nth_mem)
  show "set w \<subseteq> {-1, 1, rack}" using nth len by (auto simp: in_set_conv_nth)
qed

lemma sanitized: "list_all (\<lambda>v. v = -1 \<or> is_physical_flat_channel v) (sanitize_flat_mapping flat)"
  "list_ex is_physical_flat_channel (sanitize_flat_mapping flat) \<longleftrightarrow> list_ex is_physical_flat_channel flat"
proof -
  have "\<not> is_physical_flat_channel (-1)" by (simp add: is_physical_flat_channel_def)
  then show "list_ex is_physical_flat_channel (sanitize_flat_mapping flat) \<longleftrightarrow> list_ex is_physical_flat_channel flat"
    by (auto simp: sanitize_flat_mapping_def list_ex_iff)
qed (auto simp: sanitize_flat_mapping_def list_all_iff)

lemma entry_channel: "flat_channel_id_for_entry e = -1 \<or> is_physical_flat_channel (flat_channel_id_for_entry e)"
  using physical_flat [of e] by (cases "classify_mapping2_entry e") (simp_all add: flat_channel_id_for_entry_def)

lemmas job_mapping_defs = job_ams_mapping_def job_use_ams_def job_mapping2_def is_external_spool_safety_valid_def
  is_external_spool_safety_valid_flat_def

lemma job_mapping_sound:
  "case job_ams_mapping single config of
     MappingInactive \<Rightarrow> \<not> job_use_ams single config
   | MappingActive flat \<Rightarrow> job_use_ams single config \<and> list_all (\<lambda>v. v = -1 \<or> is_physical_flat_channel v) flat
       \<and> (single \<longrightarrow> list_ex is_physical_flat_channel flat)
       \<and> (case job_mapping2 single config of None \<Rightarrow> True
          | Some m2 \<Rightarrow> flat = map flat_channel_id_for_entry m2 \<and> (single \<longrightarrow> list_all (\<lambda>e. me_ams_id e \<noteq> 254) m2))"
proof (cases "jc_ams config")
  case None
  then show ?thesis by (simp add: job_mapping_defs)
next
  case (Some src)
  show ?thesis
  proof (cases src)
    case (SrcFlat flat)
    with Some show ?thesis by (auto simp: job_mapping_defs sanitized)
  next
    case (SrcStructured m2)
    have "list_all (\<lambda>v. v = -1 \<or> is_physical_flat_channel v) (map (flat_channel_id_for_entry \<circ> f) m)"
      for m :: "ams_mapping2_entry list" and f using entry_channel by (simp add: list_all_iff)
    moreover have "list_ex is_physical_flat_channel (map (flat_channel_id_for_entry \<circ> f) m)
        \<longleftrightarrow> list_ex (\<lambda>e. classify_mapping2_entry e \<in> {KStandard, KHt, KAmsLite}) (map f m)"
      for m :: "ams_mapping2_entry list" and f
      by (induction m) (simp_all add: physical_flat)
    moreover have "single \<Longrightarrow> list_all (\<lambda>e. me_ams_id e \<noteq> 254) (map (single_spool single) m2)"
      by (auto simp: list_all_iff single_spool_def)
    ultimately show ?thesis using Some SrcStructured by (simp add: job_mapping_defs)
  qed
qed

lemma job_mapping_sent:
  "case job_ams_mapping single config of
     MappingInactive \<Rightarrow> \<not> job_use_ams single config \<and> (if job_use_ams single config then job_mapping2 single config else None) = None
   | MappingActive flat \<Rightarrow>
       job_use_ams single config \<and> list_all (\<lambda>v. v = -1 \<or> is_physical_flat_channel v) flat
       \<and> (if single then list_ex is_physical_flat_channel flat else True)
       \<and> (case (if job_use_ams single config then job_mapping2 single config else None) of None \<Rightarrow> True
          | Some m2 \<Rightarrow> flat = map flat_channel_id_for_entry m2 \<and> (if single then list_all (\<lambda>e. me_ams_id e \<noteq> 254) m2 else True))"
  using job_mapping_sound [of single config]
  by (cases "job_ams_mapping single config"; cases "job_mapping2 single config"; simp)

section \<open>Properties\<close>

text \<open>Whatever request the crate publishes, the key its echo is matched by can be read from the published payload: it is the
  command the request stands for and the sequence id it was given, reduced to the range the printer accepts.\<close>

theorem published_request_correlates:
  assumes "publishes command build" "js payload = Some (canon (build seq))"
  shows "echo_key js payload = Some \<lparr>ek_command = command, ek_sequence_id = clamp_task_id seq\<rparr>
    \<and> clamp_task_id seq < 2147483647"
  using addressed_echo [OF publishes_addressed [OF assms(1)], of js payload seq, OF assms(2)] mod_less_divisor [of TASK_ID_MAX seq]
  by (simp add: clamp_task_id_def)

theorem published_request_correlates_witness:
  "echo_key (\<lambda>_. Some (canon (gcode_request ''G28'' 2147483650))) [] = Some \<lparr>ek_command = ''gcode_line'', ek_sequence_id = 3\<rparr>"
  using published_request_correlates [OF publishes.intros(4) [of "''G28''"],
      of "\<lambda>_. Some (canon (gcode_request ''G28'' 2147483650))" "[]" 2147483650]
  by (simp add: clamp_task_id_def)

text \<open>C27. A print job's request: with the AMS in use every channel of the flat mapping is a slot that exists or the mark for none,
  the structured mapping agrees with it entry by entry, and on a printer with one nozzle at least one filament comes from
  a real slot and none from the second external spool; with the AMS not in use neither mapping is sent. A nozzle mapping
  is sent to a rack printer only, for all 32 slots, naming the fixed nozzle or the rack position asked for, which exists.
  The job's ids stay in the range the printer accepts.\<close>

theorem print_job_slots_sound:
  "let p = project_file_from_config config model; single = (physical_nozzle_count (quirks model) = 1) in
     (case pf_ams_mapping p of
        MappingInactive \<Rightarrow> \<not> pf_use_ams p \<and> pf_ams_mapping2 p = None
      | MappingActive flat \<Rightarrow>
          pf_use_ams p \<and> list_all (\<lambda>v. v = -1 \<or> is_physical_flat_channel v) flat
          \<and> (if single then list_ex is_physical_flat_channel flat else True)
          \<and> (case pf_ams_mapping2 p of None \<Rightarrow> True
             | Some m2 \<Rightarrow> flat = map flat_channel_id_for_entry m2
                 \<and> (if single then list_all (\<lambda>e. me_ams_id e \<noteq> 254) m2 else True)))
     \<and> (case pf_nozzle_mapping p of None \<Rightarrow> True
        | Some w \<Rightarrow> has_nozzle_rack (quirks model) \<and> length w = 32
            \<and> (case jc_nozzle_rack config of None \<Rightarrow> False
               | Some r \<Rightarrow> 16 \<le> nr_rack_nozzle_id r \<and> nr_rack_nozzle_id r \<le> 21
                   \<and> nr_rack_nozzle_id r \<in> set w \<and> set w \<subseteq> {-1, 1, nr_rack_nozzle_id r}))
     \<and> (\<exists>n < 2147483647. pf_subtask_id p = dec n \<and> pf_project_id p = dec n \<and> pf_task_id p = dec n)"
proof -
  let ?p = "project_file_from_config config model"
  let ?single = "physical_nozzle_count (quirks model) = 1"
  have p: "pf_ams_mapping ?p = job_ams_mapping ?single config" "pf_use_ams ?p = job_use_ams ?single config"
    "pf_ams_mapping2 ?p = (if job_use_ams ?single config then job_mapping2 ?single config else None)"
    by (simp_all add: project_file_from_config_def Let_def)
  have "clamp_task_id n < 2147483647" for n by (simp add: clamp_task_id_def)
  then have ids: "\<exists>n < 2147483647. pf_subtask_id ?p = dec n \<and> pf_project_id ?p = dec n \<and> pf_task_id ?p = dec n"
    by (auto simp: project_file_from_config_def Let_def)
  have rack: "case pf_nozzle_mapping ?p of None \<Rightarrow> True
      | Some w \<Rightarrow> has_nozzle_rack (quirks model) \<and> length w = 32
          \<and> (case jc_nozzle_rack config of None \<Rightarrow> False
             | Some r \<Rightarrow> 16 \<le> nr_rack_nozzle_id r \<and> nr_rack_nozzle_id r \<le> 21
                 \<and> nr_rack_nozzle_id r \<in> set w \<and> set w \<subseteq> {-1, 1, nr_rack_nozzle_id r})"
    by (auto simp: project_file_from_config_def Let_def split: option.splits dest: rack_mapping)
  show ?thesis
    unfolding Let_def p using job_mapping_sent [of ?single config] rack ids by blast
qed

end
