(* ===== verification/Cache.thy ===== *)
theory Cache
  imports Report AmsParser Models Command Zip Requests
begin

text \<open>
  The telemetry cache of a client (\<open>src/client/telemetry.rs\<close>, the caching half of \<open>job.rs\<close> and \<open>print_options.rs\<close>): what
  the pushes of a printer have said, the job a start command began, the settings an accepted reply confirmed, and what is
  read from them. The derived deserializers, run by \<open>serde_json\<close>, are parameters.
\<close>

unbundle bit_operations_syntax

section \<open>Job starts and replies\<close>

record job_start =
  js_file :: string
  js_path :: "string option"
  js_plate :: nat
  js_generation :: u32

datatype plate_source = FromTelemetry | FromStartCommand | FromProjectFile

record job_plate =
  jp_plate :: nat
  jp_source :: plate_source

record start_echo_fields =
  se_param :: "string option"
  se_file :: "string option"
  se_url :: "string option"

text \<open>The text after the last slash, all of it when there is none.\<close>

definition last_segment :: "string \<Rightarrow> string" where
  "last_segment path = rev (takeWhile (\<lambda>c. c \<noteq> CHR ''/'') (rev path))"

record reply_settings =
  rs_prompt_sound :: "bool option"
  rs_auto_recovery :: "bool option"
  rs_filament_backup :: "bool option"
  rs_filament_tangle_detect :: "bool option"
  rs_nozzle_blob_detect :: "bool option"
  rs_smart_nozzle_blob_detect :: "nozzle_blob_detect_mode option"
  rs_air_print_detect :: "bool option"
  rs_air_purification :: "air_purification_mode option"

definition new_reply_settings :: reply_settings where
  "new_reply_settings =
     \<lparr>rs_prompt_sound = None,
      rs_auto_recovery = None,
      rs_filament_backup = None,
      rs_filament_tangle_detect = None,
      rs_nozzle_blob_detect = None,
      rs_smart_nozzle_blob_detect = None,
      rs_air_print_detect = None,
      rs_air_purification = None\<rparr>"

definition merge_reply_settings :: "reply_settings \<Rightarrow> reply_settings \<Rightarrow> reply_settings" where
  "merge_reply_settings c n =
     \<lparr>rs_prompt_sound = opt_or (rs_prompt_sound n) (rs_prompt_sound c),
      rs_auto_recovery = opt_or (rs_auto_recovery n) (rs_auto_recovery c),
      rs_filament_backup = opt_or (rs_filament_backup n) (rs_filament_backup c),
      rs_filament_tangle_detect = opt_or (rs_filament_tangle_detect n) (rs_filament_tangle_detect c),
      rs_nozzle_blob_detect = opt_or (rs_nozzle_blob_detect n) (rs_nozzle_blob_detect c),
      rs_smart_nozzle_blob_detect = opt_or (rs_smart_nozzle_blob_detect n) (rs_smart_nozzle_blob_detect c),
      rs_air_print_detect = opt_or (rs_air_print_detect n) (rs_air_print_detect c),
      rs_air_purification = opt_or (rs_air_purification n) (rs_air_purification c)\<rparr>"

record print_option_reply_fields =
  po_sound_enable :: "bool option"
  po_auto_recovery :: "bool option"
  po_option :: "u32 option"
  po_auto_switch_filament :: "bool option"
  po_filament_tangle_detect :: "bool option"
  po_nozzle_blob_detect :: "bool option"
  po_nozzle_blob_detect_v2 :: "nat option"
  po_air_print_detect :: "bool option"
  po_air_purification :: "nat option"


definition if_supported :: "support \<Rightarrow> 'a option \<Rightarrow> 'a option" where
  "if_supported support v = (if is_supported support then v else None)"

section \<open>The cache\<close>

record print_progress =
  pr_percent :: "int option"
  pr_remaining_secs :: "int option"
  pr_layer_num :: "int option"
  pr_total_layers :: "int option"

definition new_progress :: print_progress where
  "new_progress = \<lparr>pr_percent = None, pr_remaining_secs = None, pr_layer_num = None, pr_total_layers = None\<rparr>"

record telemetry_cache =
  c_home_flag :: "u32 option"
  c_home_flag_generation :: "u32 option"
  c_gcode_state :: "string option"
  c_door_open :: "bool option"
  c_print_error :: "u32 option"
  c_job_id :: "string option"
  c_subtask_name :: "string option"
  c_nozzle_diameter :: "string option"
  c_nozzle_type :: "string option"
  c_sdcard :: "sdcard_state option"
  c_progress :: print_progress
  c_bed_temper :: "f64 option"
  c_bed_target_temper :: "f64 option"
  c_device :: "device_telemetry option"
  c_ams :: "ams_status_report option"
  c_vt_tray :: "ams_tray option"
  c_vir_slot :: "ams_tray list option"
  c_nozzle_temper :: "f64 option"
  c_nozzle_target_temper :: "f64 option"
  c_chamber_temper :: "f64 option"
  c_hms :: "hms_entry list option"
  c_cooling_fan_speed :: "string option"
  c_big_fan1_speed :: "string option"
  c_big_fan2_speed :: "string option"
  c_heatbreak_fan_speed :: "string option"
  c_spd_lvl :: "u8 option"
  c_spd_mag :: "u16 option"
  c_wifi_signal :: "string option"
  c_net_conf :: "u32 option"
  c_ipcam :: "ipcam_telemetry option"
  c_xcam :: "xcam_telemetry option"
  c_fun2 :: "string option"
  c_fun :: "string option"
  c_settings_home_flag :: "u32 option"
  c_settings_home_flag_generation :: "u32 option"
  c_reply_settings :: reply_settings
  c_cfg :: "string option"
  c_firmware :: "string option"
  c_firmware_generation :: "u32 option"
  c_np_format :: "bool option"
  c_support_flow_calibration :: "bool option"
  c_cali_version :: "int option"
  c_gcode_file :: "string option"
  c_plate_idx :: "u32 option"
  c_job_start :: "job_start option"
  c_reported_lights :: u8
  c_lights_list_complete :: bool

definition new_cache :: telemetry_cache where
  "new_cache =
     \<lparr>c_home_flag = None,
      c_home_flag_generation = None,
      c_gcode_state = None,
      c_door_open = None,
      c_print_error = None,
      c_job_id = None,
      c_subtask_name = None,
      c_nozzle_diameter = None,
      c_nozzle_type = None,
      c_sdcard = None,
      c_progress = new_progress,
      c_bed_temper = None,
      c_bed_target_temper = None,
      c_device = None,
      c_ams = None,
      c_vt_tray = None,
      c_vir_slot = None,
      c_nozzle_temper = None,
      c_nozzle_target_temper = None,
      c_chamber_temper = None,
      c_hms = None,
      c_cooling_fan_speed = None,
      c_big_fan1_speed = None,
      c_big_fan2_speed = None,
      c_heatbreak_fan_speed = None,
      c_spd_lvl = None,
      c_spd_mag = None,
      c_wifi_signal = None,
      c_net_conf = None,
      c_ipcam = None,
      c_xcam = None,
      c_fun2 = None,
      c_fun = None,
      c_settings_home_flag = None,
      c_settings_home_flag_generation = None,
      c_reply_settings = new_reply_settings,
      c_cfg = None,
      c_firmware = None,
      c_firmware_generation = None,
      c_np_format = None,
      c_support_flow_calibration = None,
      c_cali_version = None,
      c_gcode_file = None,
      c_plate_idx = None,
      c_job_start = None,
      c_reported_lights = 0,
      c_lights_list_complete = False\<rparr>"

section \<open>Taking in a push\<close>

text \<open>\<open>i32::saturating_mul\<close>\<close>

definition sat_mul_i32 :: "int \<Rightarrow> int \<Rightarrow> int" where
  "sat_mul_i32 a b = max (-2147483648) (min 2147483647 (a * b))"

definition update_job_cache :: "printer_telemetry \<Rightarrow> telemetry_cache \<Rightarrow> telemetry_cache" where
  "update_job_cache p c =
     (let c1 = (case p_gcode_file p of
                  None \<Rightarrow> c
                | Some f \<Rightarrow> if c_gcode_file c \<noteq> Some f then c\<lparr>c_plate_idx := None, c_gcode_file := Some f\<rparr> else c);
          c2 = (case p_plate_idx p of
                  None \<Rightarrow> c1
                | Some plate \<Rightarrow> if plate > 0 then c1\<lparr>c_plate_idx := Some (word_of_int plate)\<rparr> else c1);
          ended = (case p_gcode_state p of None \<Rightarrow> False | Some s \<Rightarrow> from_gcode_state s \<in> {Finished, StatusFailed});
          was_busy = (case c_gcode_state c2 of None \<Rightarrow> False | Some s \<Rightarrow> is_busy (from_gcode_state s))
      in if ended \<and> was_busy then c2\<lparr>c_job_start := None\<rparr> else c2)"

text \<open>The report format, once found new, stays so; a full push that doesn't show it settles on the old one.\<close>

definition np_format_after :: "bool option \<Rightarrow> printer_telemetry \<Rightarrow> bool option" where
  "np_format_after np p =
     (if reports_np_format p then Some True
      else if np = None \<and> p_command p = Some ''push_status'' then Some False else np)"

text \<open>A home flag is stamped with the connection it came on.\<close>

definition update_state_cache :: "door_sensor \<Rightarrow> u32 \<Rightarrow> printer_telemetry \<Rightarrow> telemetry_cache \<Rightarrow> telemetry_cache" where
  "update_state_cache sensor generation p c =
     (let c1 = (case p_home_flag p of
                  None \<Rightarrow> c
                | Some f \<Rightarrow> c\<lparr>c_home_flag := Some f, c_home_flag_generation := Some generation\<rparr>);
          c2 = c1\<lparr>c_gcode_state := keep_new (c_gcode_state c1) (p_gcode_state p),
                  c_cfg := keep_new (c_cfg c1) (p_cfg p)\<rparr>;
          c3 = (case door_state sensor p of None \<Rightarrow> c2 | Some opened \<Rightarrow> c2\<lparr>c_door_open := Some opened\<rparr>);
          c4 = c3\<lparr>c_print_error := keep_new (c_print_error c3) (p_print_error p),
                  c_job_id := keep_new (c_job_id c3) (p_job_id p),
                  c_subtask_name := keep_new (c_subtask_name c3) (p_subtask_name p),
                  c_nozzle_diameter := keep_new (c_nozzle_diameter c3) (p_nozzle_diameter p),
                  c_nozzle_type := keep_new (c_nozzle_type c3) (p_nozzle_type p),
                  c_sdcard := keep_new (c_sdcard c3) (sdcard_status p),
                  c_hms := keep_new (c_hms c3) (p_hms p),
                  c_support_flow_calibration := keep_new (c_support_flow_calibration c3) (p_support_flow_calibration p),
                  c_cali_version := keep_new (c_cali_version c3) (p_cali_version p)\<rparr>
      in c4\<lparr>c_np_format := np_format_after (c_np_format c4) p\<rparr>)"

definition update_progress_cache :: "printer_telemetry \<Rightarrow> telemetry_cache \<Rightarrow> telemetry_cache" where
  "update_progress_cache p c =
     (let g = c_progress c
      in c\<lparr>c_progress :=
        \<lparr>pr_percent = keep_new (pr_percent g) (p_mc_percent p),
         pr_remaining_secs = (case p_mc_remaining_time p of
             None \<Rightarrow> pr_remaining_secs g | Some m \<Rightarrow> Some (sat_mul_i32 m 60)),
         pr_layer_num = keep_new (pr_layer_num g) (p_layer_num p),
         pr_total_layers = (case p_total_layers p of
             None \<Rightarrow> pr_total_layers g | Some n \<Rightarrow> if n > 0 then Some n else pr_total_layers g)\<rparr>\<rparr>)"

definition update_temperature_cache :: "printer_telemetry \<Rightarrow> telemetry_cache \<Rightarrow> telemetry_cache" where
  "update_temperature_cache p c =
     c\<lparr>c_bed_temper := keep_new (c_bed_temper c) (p_bed_temper p),
        c_bed_target_temper := keep_new (c_bed_target_temper c) (p_bed_target_temper p),
        c_nozzle_temper := keep_new (c_nozzle_temper c) (p_nozzle_temper p),
        c_nozzle_target_temper := keep_new (c_nozzle_target_temper c) (p_nozzle_target_temper p),
        c_chamber_temper := keep_new (c_chamber_temper c) (p_chamber_temper p)\<rparr>"

definition update_ams_cache :: "printer_telemetry \<Rightarrow> telemetry_cache \<Rightarrow> telemetry_cache" where
  "update_ams_cache p c =
     c\<lparr>c_ams := merge_opt merge_report (c_ams c) (p_ams p),
        c_vt_tray := merge_opt merge_tray (c_vt_tray c) (p_vt_tray p),
        c_vir_slot := (case p_vir_slot p of
            None \<Rightarrow> c_vir_slot c
          | Some incoming \<Rightarrow>
              Some (merge_keyed merge_tray at_id (case c_vir_slot c of None \<Rightarrow> [] | Some slots \<Rightarrow> slots) incoming))\<rparr>"

definition update_fan_cache :: "printer_telemetry \<Rightarrow> telemetry_cache \<Rightarrow> telemetry_cache" where
  "update_fan_cache p c =
     c\<lparr>c_cooling_fan_speed := keep_new (c_cooling_fan_speed c) (p_cooling_fan_speed p),
        c_big_fan1_speed := keep_new (c_big_fan1_speed c) (p_big_fan1_speed p),
        c_big_fan2_speed := keep_new (c_big_fan2_speed c) (p_big_fan2_speed p),
        c_heatbreak_fan_speed := keep_new (c_heatbreak_fan_speed c) (p_heatbreak_fan_speed p)\<rparr>"

definition update_speed_and_signal_cache :: "printer_telemetry \<Rightarrow> telemetry_cache \<Rightarrow> telemetry_cache" where
  "update_speed_and_signal_cache p c =
     c\<lparr>c_spd_lvl := keep_new (c_spd_lvl c) (p_spd_lvl p),
        c_spd_mag := keep_new (c_spd_mag c) (p_spd_mag p),
        c_wifi_signal := keep_new (c_wifi_signal c) (p_wifi_signal p),
        c_net_conf := keep_new (c_net_conf c) (Option.bind (p_net p) net_conf)\<rparr>"

definition update_ipcam_cache :: "printer_telemetry \<Rightarrow> telemetry_cache \<Rightarrow> telemetry_cache" where
  "update_ipcam_cache p c = c\<lparr>c_ipcam := merge_opt merge_ipcam (c_ipcam c) (p_ipcam p)\<rparr>"

definition update_xcam_cache :: "printer_telemetry \<Rightarrow> telemetry_cache \<Rightarrow> telemetry_cache" where
  "update_xcam_cache p c = c\<lparr>c_xcam := merge_opt merge_xcam (c_xcam c) (p_xcam p)\<rparr>"

definition update_telemetry_cache :: "door_sensor \<Rightarrow> u32 \<Rightarrow> telemetry_report \<Rightarrow> telemetry_cache \<Rightarrow> telemetry_cache" where
  "update_telemetry_cache sensor generation r c =
     (let c1 = c\<lparr>c_device := merge_opt merge_device (c_device c) (report_device r),
                 c_fun2 := keep_new (c_fun2 c) (report_fun2 r),
                 c_fun := keep_new (c_fun c) (report_fun r)\<rparr>
      in case tr_print r of
           None \<Rightarrow> c1
         | Some p \<Rightarrow>
             update_xcam_cache p (update_ipcam_cache p (update_speed_and_signal_cache p (update_fan_cache p
               (update_ams_cache p (update_temperature_cache p (update_progress_cache p
                 (update_state_cache sensor generation p (update_job_cache p c1)))))))))"

end
