(* ===== verification/Core.thy ===== *)
theory Core
  imports Cache Tunnel FtpsClient
begin

text \<open>
  The part of a client that no connection owns (\<open>src/client/mod.rs\<close>, \<open>telemetry.rs\<close>, \<open>job.rs\<close>, \<open>print_options.rs\<close>,
  \<open>capabilities.rs\<close>, \<open>src/identity.rs\<close>): the printer it is for, its sequence ids, the tracker of its commands, the
  telemetry cache and what is read from it, and the classification of every message that arrives. The deserializers
  that \<open>serde\<close> derives are the fields of the record \<open>derived\<close>.
\<close>

unbundle bit_operations_syntax

section \<open>State\<close>

record printer_identity =
  pi_ip :: string
  pi_serial :: string
  pi_access_code :: string
  pi_model :: printer_model

definition new_identity :: "string \<Rightarrow> string \<Rightarrow> string \<Rightarrow> printer_identity" where
  "new_identity ip serial access_code =
     \<lparr>pi_ip = ip, pi_serial = serial, pi_access_code = access_code, pi_model = resolve_model serial None\<rparr>"

definition identity_with_model :: "printer_model \<Rightarrow> printer_identity \<Rightarrow> printer_identity" where
  "identity_with_model model i = i\<lparr>pi_model := model\<rparr>"

definition try_new_identity :: "string \<Rightarrow> string \<Rightarrow> string \<Rightarrow> error + printer_identity" where
  "try_new_identity ip serial access_code =
     (case validate_identity serial access_code of
        Inl e \<Rightarrow> Inl e | Inr _ \<Rightarrow> Inr (new_identity ip serial access_code))"

record printer_clock_reading =
  rd_at :: ftp_timestamp
  rd_read_at_ms :: nat

text \<open>A \<open>Duration\<close> is a number of nanoseconds.\<close>

type_synonym duration = nat

abbreviation (input) from_secs :: "nat \<Rightarrow> duration" where "from_secs s \<equiv> s * 1000000000"

definition duration_millis :: "duration \<Rightarrow> nat" where
  "duration_millis d = min (d div 1000000) 18446744073709551615"

abbreviation (input) SEQUENCE_ID_FLOOR :: nat where "SEQUENCE_ID_FLOOR \<equiv> 30000"
abbreviation (input) DEFAULT_COMMAND_TIMEOUT :: duration where "DEFAULT_COMMAND_TIMEOUT \<equiv> from_secs 10"
abbreviation (input) DEFAULT_CONNECT_TIMEOUT :: duration where "DEFAULT_CONNECT_TIMEOUT \<equiv> from_secs 10"
abbreviation (input) POLL_UNTIL_MAX_MESSAGES :: nat where "POLL_UNTIL_MAX_MESSAGES \<equiv> 200"
abbreviation (input) KEEPALIVE_TICK_SECS :: nat where "KEEPALIVE_TICK_SECS \<equiv> 15"
abbreviation (input) FULL_REPORT_MIN_KEYS :: nat where "FULL_REPORT_MIN_KEYS \<equiv> 30"

record client_core =
  cc_identity :: printer_identity
  cc_sequence_counter :: nat
  cc_commands :: command_tracker
  cc_k_profile_primed :: bool
  cc_generation :: u32
  cc_cache :: telemetry_cache
  cc_command_timeout :: "duration option"
  cc_connect_timeout :: "duration option"
  cc_mqtt_port :: u16
  cc_ftps_port :: u16
  cc_ftps_check :: tls_version_check
  cc_ftps_clock_probe :: bool
  cc_ftps_clock_reading :: "printer_clock_reading option"
  cc_camera_port :: u16
  cc_camera_max_frame_size :: "nat option"
  cc_file_tunnel_max_frame_size :: "nat option"
  cc_file_tunnel_failed_generation :: "u32 option"

definition new_core :: "printer_identity \<Rightarrow> client_core" where
  "new_core identity =
     \<lparr>cc_identity = identity, cc_sequence_counter = SEQUENCE_ID_FLOOR, cc_commands = new_tracker,
      cc_k_profile_primed = False, cc_generation = 0, cc_cache = new_cache,
      cc_command_timeout = Some DEFAULT_COMMAND_TIMEOUT, cc_connect_timeout = Some DEFAULT_CONNECT_TIMEOUT,
      cc_mqtt_port = 8883, cc_ftps_port = 990, cc_ftps_check = Enforce, cc_ftps_clock_probe = False,
      cc_ftps_clock_reading = None, cc_camera_port = default_port BinaryJpeg, cc_camera_max_frame_size = None,
      cc_file_tunnel_max_frame_size = None, cc_file_tunnel_failed_generation = None\<rparr>"

section \<open>Sequence ids and connections\<close>

definition sequence_id_from_seed :: "nat \<Rightarrow> nat" where
  "sequence_id_from_seed seed = SEQUENCE_ID_FLOOR + seed mod (TASK_ID_MAX - SEQUENCE_ID_FLOOR)"

definition next_sequence_id :: "client_core \<Rightarrow> nat \<times> client_core" where
  "next_sequence_id c =
     (let next_id = cc_sequence_counter c + 1;
          counter = (if next_id \<ge> TASK_ID_MAX then SEQUENCE_ID_FLOOR else next_id)
      in (counter, c\<lparr>cc_sequence_counter := counter\<rparr>))"

text \<open>\<open>wrapping_add\<close> of the generation.\<close>

definition begin_connection :: "client_core \<Rightarrow> client_core" where
  "begin_connection c =
     c\<lparr>cc_commands := connection_ended (cc_commands c), cc_k_profile_primed := False,
       cc_generation := cc_generation c + 1\<rparr>"

section \<open>Budgets\<close>

record wait_budget =
  wb_start_ms :: nat
  wb_timeout_ms :: "nat option"
  wb_real_clock :: bool
  wb_messages :: nat

definition start_budget :: "timer \<Rightarrow> nat \<Rightarrow> duration option \<Rightarrow> wait_budget" where
  "start_budget t now_ms timeout =
     \<lparr>wb_start_ms = now_ms, wb_timeout_ms = map_option duration_millis timeout,
      wb_real_clock = has_real_clock t, wb_messages = 0\<rparr>"

text \<open>\<open>wrapping_sub\<close> on \<open>u64\<close>\<close>

definition wrapping_sub64 :: "nat \<Rightarrow> nat \<Rightarrow> nat" where
  "wrapping_sub64 a b = nat ((int a - int b) mod 2 ^ 64)"

definition after_message :: "nat \<Rightarrow> wait_budget \<Rightarrow> (error + unit) \<times> wait_budget" where
  "after_message now_ms w =
     (if \<not> wb_real_clock w then
        let w1 = w\<lparr>wb_messages := wb_messages w + 1\<rparr>
        in if wb_messages w1 \<ge> POLL_UNTIL_MAX_MESSAGES then (Inl Timeout, w1) else (Inr (), w1)
      else
        let elapsed = wrapping_sub64 now_ms (wb_start_ms w)
        in case wb_timeout_ms w of
             Some limit \<Rightarrow> if elapsed \<ge> limit then (Inl Timeout, w) else (Inr (), w)
           | None \<Rightarrow> (Inr (), w))"

definition clamp_temp :: "u16 \<Rightarrow> u16 \<Rightarrow> u16" where
  "clamp_temp v limit = (if v > limit then limit else v)"

definition command_deadline_ms :: "timer \<Rightarrow> nat \<Rightarrow> client_core \<Rightarrow> nat option" where
  "command_deadline_ms t now_ms c =
     (if \<not> has_real_clock t then None
      else map_option (\<lambda>timeout. sat_add64 now_ms (duration_millis timeout)) (cc_command_timeout c))"

section \<open>What this connection has seen\<close>

definition client_quirks :: "client_core \<Rightarrow> model_quirks" where
  "client_quirks c = quirks (pi_model (cc_identity c))"

definition home_flag_this_connection :: "client_core \<Rightarrow> u32 option" where
  "home_flag_this_connection c =
     (case c_home_flag_generation (cc_cache c) of
        None \<Rightarrow> None
      | Some g \<Rightarrow> if g \<noteq> cc_generation c then None else c_home_flag (cc_cache c))"

definition settings_home_flag_this_connection :: "client_core \<Rightarrow> u32 option" where
  "settings_home_flag_this_connection c =
     (case c_settings_home_flag_generation (cc_cache c) of
        None \<Rightarrow> None
      | Some g \<Rightarrow> if g \<noteq> cc_generation c then None else c_settings_home_flag (cc_cache c))"

definition firmware_this_connection :: "client_core \<Rightarrow> string option" where
  "firmware_this_connection c =
     (case c_firmware_generation (cc_cache c) of
        None \<Rightarrow> None
      | Some g \<Rightarrow> if g \<noteq> cc_generation c then None else c_firmware (cc_cache c))"

text \<open>What the capabilities of the client are asked in.\<close>

definition client_quirk_context :: "client_core \<Rightarrow> quirk_context" where
  "client_quirk_context c =
     \<lparr>qc_fun2 = c_fun2 (cc_cache c), qc_firmware = firmware_this_connection c, qc_fun = c_fun (cc_cache c),
      qc_home_flag = settings_home_flag_this_connection c,
      qc_xcam_cfg = Option.bind (c_xcam (cc_cache c)) xc_cfg,
      qc_support_flow_calibration = c_support_flow_calibration (cc_cache c), qc_cali_version = c_cali_version (cc_cache c),
      qc_reported_lights = c_reported_lights (cc_cache c), qc_lights_list_complete = c_lights_list_complete (cc_cache c)\<rparr>"

text \<open>\<open>self.capabilities().f()\<close>\<close>

definition capability :: "(model_quirks \<Rightarrow> quirk_context \<Rightarrow> support) \<Rightarrow> client_core \<Rightarrow> support" where
  "capability f c = f (client_quirks c) (client_quirk_context c)"

section \<open>Settings\<close>

definition setting :: "setting_bits \<Rightarrow> client_core \<Rightarrow> bool option" where
  "setting sb c = setting_read sb (c_cfg (cc_cache c)) (c_settings_home_flag (cc_cache c))"

definition cfg_field :: "nat \<Rightarrow> client_core \<Rightarrow> nat option" where
  "cfg_field low c = Option.bind (c_cfg (cc_cache c)) (\<lambda>cfg. hex_field cfg low 2)"

abbreviation (input) replied :: "client_core \<Rightarrow> reply_settings" where
  "replied c \<equiv> c_reply_settings (cc_cache c)"

definition prompt_sound_enabled :: "client_core \<Rightarrow> bool option" where
  "prompt_sound_enabled c = opt_or (rs_prompt_sound (replied c)) (setting PROMPT_SOUND c)"

definition auto_recovery_enabled :: "client_core \<Rightarrow> bool option" where
  "auto_recovery_enabled c = opt_or (rs_auto_recovery (replied c)) (setting AUTO_RECOVERY c)"

definition filament_backup_enabled :: "client_core \<Rightarrow> bool option" where
  "filament_backup_enabled c = opt_or (rs_filament_backup (replied c)) (setting FILAMENT_BACKUP c)"

definition filament_tangle_detect_enabled :: "client_core \<Rightarrow> bool option" where
  "filament_tangle_detect_enabled c = opt_or (rs_filament_tangle_detect (replied c)) (setting FILAMENT_TANGLE_DETECT c)"

definition nozzle_blob_detect_enabled :: "client_core \<Rightarrow> bool option" where
  "nozzle_blob_detect_enabled c = opt_or (rs_nozzle_blob_detect (replied c)) (setting NOZZLE_BLOB_DETECT c)"

definition air_print_detect_enabled :: "client_core \<Rightarrow> bool option" where
  "air_print_detect_enabled c = opt_or (rs_air_print_detect (replied c)) (setting AIR_PRINT_DETECT c)"

definition smart_nozzle_blob_detect_mode :: "client_core \<Rightarrow> nozzle_blob_detect_mode option" where
  "smart_nozzle_blob_detect_mode c =
     opt_or (rs_smart_nozzle_blob_detect (replied c)) (Option.bind (cfg_field 43 c) blob_from_code)"

definition air_purification_setting :: "client_core \<Rightarrow> air_purification_mode option" where
  "air_purification_setting c = opt_or (rs_air_purification (replied c)) (Option.bind (cfg_field 36 c) air_from_code)"

definition door_open_check_setting :: "client_core \<Rightarrow> door_open_check option" where
  "door_open_check_setting c = Option.bind (cfg_field 20 c) door_from_code"

definition idle_heating_protection_setting :: "client_core \<Rightarrow> idle_heating_protection option" where
  "idle_heating_protection_setting c = Option.bind (cfg_field 32 c) protection_from_code"

definition first_layer_inspection_enabled :: "client_core \<Rightarrow> bool option" where
  "first_layer_inspection_enabled c =
     opt_or (setting FIRST_LAYER_INSPECT c) (Option.bind (c_xcam (cc_cache c)) xc_first_layer_inspector)"

definition store_sent_files_enabled :: "client_core \<Rightarrow> bool option" where
  "store_sent_files_enabled c = setting STORE_SENT_FILES c"

definition halt_of_level :: "xcam_sensitivity \<Rightarrow> xcam_halt_sensitivity" where
  "halt_of_level l = (case l of SensLow \<Rightarrow> HaltLow | SensMedium \<Rightarrow> HaltMedium | SensHigh \<Rightarrow> HaltHigh)"

definition ai_monitoring_state :: "client_core \<Rightarrow> xcam_detector_state" where
  "ai_monitoring_state c =
     (if c_cfg (cc_cache c) \<noteq> None then
        \<lparr>xd_enabled = setting AI_MONITORING c, xd_sensitivity = Option.bind (cfg_field 13 c) from_ai_monitoring_code\<rparr>
      else case c_xcam (cc_cache c) of
        None \<Rightarrow> \<lparr>xd_enabled = None, xd_sensitivity = None\<rparr>
      | Some x \<Rightarrow>
          let enabled = (if xc_cfg x \<noteq> None then None else opt_or (xc_printing_monitor x) (xc_spaghetti_detector x));
              oldest_gen_halts = (xc_cfg x = None \<and> xc_printing_monitor x = None \<and> xc_spaghetti_detector x \<noteq> None
                \<and> xc_print_halt x = Some True);
              parsed = Option.bind (xc_halt_print_sensitivity x) (\<lambda>level.
                case wire_from_str ''XcamHaltSensitivity'' XcamHaltSensitivity_wire level of Inl _ \<Rightarrow> None | Inr s \<Rightarrow> Some s)
          in \<lparr>xd_enabled = enabled, xd_sensitivity = opt_or parsed (if oldest_gen_halts then Some HaltMedium else None)\<rparr>)"

definition xcam_switch_state :: "xcam_module \<Rightarrow> client_core \<Rightarrow> xcam_detector_state" where
  "xcam_switch_state m c =
     (let x = c_xcam (cc_cache c);
          switch = (\<lambda>enabled. \<lparr>xd_enabled = enabled, xd_sensitivity = None\<rparr>);
          detector = (\<lambda>read. let state = Option.bind x read in
            \<lparr>xd_enabled = map_option xdet_enabled state,
             xd_sensitivity = map_option halt_of_level (Option.bind state xdet_sensitivity)\<rparr>)
      in case m of
           PrintingMonitor \<Rightarrow> ai_monitoring_state c
         | SpaghettiDetector \<Rightarrow> detector spaghetti_detection
         | PileupDetector \<Rightarrow> detector purge_chute_pileup_detection
         | ClumpDetector \<Rightarrow> detector nozzle_clumping_detection
         | AirprintDetector \<Rightarrow> detector air_printing_detection
         | FirstLayerInspector \<Rightarrow> switch (first_layer_inspection_enabled c)
         | BuildplateMarkerDetector \<Rightarrow> switch (Option.bind x xc_buildplate_marker_detector)
         | PlateOffsetSwitch \<Rightarrow> switch (Option.bind x buildplate_align_detection)
         | FodCheck \<Rightarrow> switch (Option.bind x fod_check)
         | ModelMovementCheck \<Rightarrow> switch (Option.bind x displacement_detection))"

section \<open>Readings\<close>

definition client_print_status :: "client_core \<Rightarrow> print_status option" where
  "client_print_status c = map_option from_gcode_state (c_gcode_state (cc_cache c))"

definition legacy_nozzle :: "client_core \<Rightarrow> string option \<times> string option" where
  "legacy_nozzle c = (c_nozzle_diameter (cc_cache c), c_nozzle_type (cc_cache c))"

definition client_is_220v_power :: "client_core \<Rightarrow> bool option" where
  "client_is_220v_power c = map_option is_220v (c_home_flag (cc_cache c))"

definition active_fault :: "client_core \<Rightarrow> decoded_print_error option" where
  "active_fault c = Option.bind (c_print_error (cc_cache c)) decode_print_error"

definition client_bed_temperatures :: "client_core \<Rightarrow> heater_temps option" where
  "client_bed_temperatures c =
     decode_bed_temperatures (c_device (cc_cache c)) (c_bed_temper (cc_cache c)) (c_bed_target_temper (cc_cache c))"

definition client_nozzle_temperatures :: "client_core \<Rightarrow> nozzle_temps list" where
  "client_nozzle_temperatures c =
     decode_nozzle_temperatures (c_device (cc_cache c)) (c_nozzle_temper (cc_cache c)) (c_nozzle_target_temper (cc_cache c))"

definition client_chamber_temperature :: "client_core \<Rightarrow> heater_temps option" where
  "client_chamber_temperature c =
     (if \<not> q_chamber_temperature_sensor (client_quirks c) then None
      else map_option unpack_temperature (c_chamber_temper (cc_cache c)))"

definition printing_tray_global_id :: "client_core \<Rightarrow> nat option" where
  "printing_tray_global_id c =
     (case Option.bind (c_device (cc_cache c)) dv_extruder of
        None \<Rightarrow> None
      | Some extruder \<Rightarrow>
          let active_idx = active_extruder_index extruder in
          Option.bind (find (\<lambda>e. ei_id e = active_idx) (case ec_info extruder of None \<Rightarrow> [] | Some es \<Rightarrow> es)) (\<lambda>info.
            Option.bind (current_ams_slot info) (\<lambda>(ams_id, slot_id). resolve_global_tray_id ams_id slot_id)))"

definition sanitized_ams :: "client_core \<Rightarrow> ams_status_report option" where
  "sanitized_ams c =
     map_option (\<lambda>r. r\<lparr>ar_ams := map (\<lambda>u. case unit_ams_id u of
            None \<Rightarrow> u
          | Some ams_id \<Rightarrow> u\<lparr>au_tray := map_option (map (\<lambda>t. clean_stale_tray_data t ams_id)) (au_tray u)\<rparr>) (ar_ams r)\<rparr>)
       (c_ams (cc_cache c))"

definition active_hms_alerts :: "client_core \<Rightarrow> decoded_hms_alert list" where
  "active_hms_alerts c =
     filter ha_is_genuine_fault
       (map (\<lambda>e. decode_hms_alert (he_attr e) (he_code e)) (case c_hms (cc_cache c) of None \<Rightarrow> [] | Some es \<Rightarrow> es))"

definition fan_speed :: "fan_target \<Rightarrow> client_core \<Rightarrow> nat option" where
  "fan_speed fan c =
     decode_fan_percent fan
       \<lparr>fs_part_cooling = c_cooling_fan_speed (cc_cache c), fs_aux_left = c_big_fan1_speed (cc_cache c),
        fs_chamber_exhaust = c_big_fan2_speed (cc_cache c)\<rparr> (c_device (cc_cache c))"

definition heatbreak_fan_speed :: "client_core \<Rightarrow> u8 option" where
  "heatbreak_fan_speed c = decode_fan_percentage (c_heatbreak_fan_speed (cc_cache c))"

definition client_print_speed :: "client_core \<Rightarrow> print_speed option" where
  "client_print_speed c = Option.bind (c_spd_lvl (cc_cache c)) (\<lambda>l. speed_from_level (unat l))"

definition client_wired_via_wifi_signal :: "client_core \<Rightarrow> bool" where
  "client_wired_via_wifi_signal c =
     (case c_wifi_signal (cc_cache c) of None \<Rightarrow> False | Some s \<Rightarrow> is_wired_wifi_signal s)"

definition client_is_ethernet_active :: "client_core \<Rightarrow> bool" where
  "client_is_ethernet_active c = (case c_net_conf (cc_cache c) of None \<Rightarrow> False | Some n \<Rightarrow> is_wired n)"

definition client_axis_homed :: "axis \<Rightarrow> client_core \<Rightarrow> bool option" where
  "client_axis_homed ax c = map_option (\<lambda>flag. is_axis_homed flag ax) (home_flag_this_connection c)"

definition client_all_axes_homed :: "client_core \<Rightarrow> bool option" where
  "client_all_axes_homed c = map_option is_all_axes_homed (home_flag_this_connection c)"

section \<open>The running job\<close>

definition running_job_start :: "client_core \<Rightarrow> job_start option" where
  "running_job_start c =
     (case c_job_start (cc_cache c) of
        None \<Rightarrow> None
      | Some start \<Rightarrow>
          (case map_option last_segment (c_gcode_file (cc_cache c)) of
             None \<Rightarrow> None
           | Some running \<Rightarrow>
               if js_generation start = cc_generation c \<and> js_file start = running then Some start else None))"

definition client_job_plate :: "client_core \<Rightarrow> job_plate option" where
  "client_job_plate c =
     (case c_plate_idx (cc_cache c) of
        Some plate \<Rightarrow> Some \<lparr>jp_plate = unat plate, jp_source = FromTelemetry\<rparr>
      | None \<Rightarrow> map_option (\<lambda>start. \<lparr>jp_plate = js_plate start, jp_source = FromStartCommand\<rparr>) (running_job_start c))"

definition strip_ftp_scheme :: "string \<Rightarrow> string option" where
  "strip_ftp_scheme url = (if take 6 url = ''ftp://'' then Some (drop 6 url) else None)"

definition record_job_start :: "start_echo_fields option \<Rightarrow> client_core \<Rightarrow> client_core" where
  "record_job_start echo c =
     (case echo of
        None \<Rightarrow> c
      | Some f \<Rightarrow>
          (case (Option.bind (se_param f) plate_of_gcode_param, opt_or (se_file f) (se_url f)) of
             (Some plate, Some file) \<Rightarrow>
               c\<lparr>cc_cache := (cc_cache c)\<lparr>c_job_start := Some
                 \<lparr>js_file = last_segment file,
                  js_path = map_option (\<lambda>rest. CHR ''/'' # dropWhile (\<lambda>ch. ch = CHR ''/'') rest)
                    (Option.bind (se_url f) strip_ftp_scheme),
                  js_plate = plate, js_generation = cc_generation c\<rparr>\<rparr>\<rparr>
           | _ \<Rightarrow> c))"

text \<open>The settings of an accepted reply, those the printer supports.\<close>

definition apply_print_option_reply :: "print_option_reply_fields option \<Rightarrow> client_core \<Rightarrow> client_core" where
  "apply_print_option_reply reply_fields c =
     (case reply_fields of
        None \<Rightarrow> c
      | Some f \<Rightarrow>
          let auto_recovery = opt_or (po_auto_recovery f)
                (map_option (\<lambda>v. drop_bit PRINT_OP_AUTO_RECOVERY v AND 1 \<noteq> 0) (po_option f));
              reply =
               \<lparr>rs_prompt_sound = if_supported (capability prompt_sound_support c) (po_sound_enable f),
                rs_auto_recovery = if_supported (capability auto_recovery_support c) auto_recovery,
                rs_filament_backup = if_supported (capability filament_backup_support c) (po_auto_switch_filament f),
                rs_filament_tangle_detect =
                  if_supported (capability filament_tangle_detect_support c) (po_filament_tangle_detect f),
                rs_nozzle_blob_detect = if_supported (capability nozzle_blob_detect_support c) (po_nozzle_blob_detect f),
                rs_smart_nozzle_blob_detect =
                  if_supported (capability smart_nozzle_blob_detect_support c)
                    (Option.bind (po_nozzle_blob_detect_v2 f) blob_from_code),
                rs_air_print_detect = if_supported (capability air_print_detect_support c) (po_air_print_detect f),
                rs_air_purification =
                  if_supported (capability air_purification_support c) (Option.bind (po_air_purification f) air_from_code)\<rparr>
          in c\<lparr>cc_cache := (cc_cache c)\<lparr>c_reply_settings := merge_reply_settings (c_reply_settings (cc_cache c)) reply\<rparr>\<rparr>)"

section \<open>Messages\<close>

record derived =
  de_report :: "bytes \<Rightarrow> telemetry_report option"
  de_echo :: "bytes \<Rightarrow> echo_envelope option"
  de_start_echo :: "bytes \<Rightarrow> start_echo_fields option"
  de_print_option_reply :: "bytes \<Rightarrow> print_option_reply_fields option"
  de_print_key_count :: "bytes \<Rightarrow> nat option"

datatype telemetry_event =
    EventReport telemetry_report mqtt_message
  | EventCommand command_resolution "mqtt_message option"
  | EventUnknown mqtt_message

fun event_raw :: "telemetry_event \<Rightarrow> mqtt_message option" where
  "event_raw (EventReport _ raw) = Some raw"
| "event_raw (EventUnknown raw) = Some raw"
| "event_raw (EventCommand _ raw) = raw"

fun event_report :: "telemetry_event \<Rightarrow> telemetry_report option" where
  "event_report (EventReport r _) = Some r"
| "event_report _ = None"

fun event_command :: "telemetry_event \<Rightarrow> command_resolution option" where
  "event_command (EventCommand r _) = Some r"
| "event_command _ = None"

definition is_full :: "derived \<Rightarrow> bytes \<Rightarrow> bool" where
  "is_full de payload = (case de_print_key_count de payload of None \<Rightarrow> False | Some keys \<Rightarrow> keys > FULL_REPORT_MIN_KEYS)"

text \<open>The home flag of a report, where it is trusted for settings.\<close>

definition report_settings_home_flag :: "derived \<Rightarrow> bytes \<Rightarrow> telemetry_report \<Rightarrow> telemetry_cache \<Rightarrow> u32 option" where
  "report_settings_home_flag de payload r cache =
     Option.bind (Option.bind (tr_print r) p_home_flag)
       (\<lambda>flag. if c_cfg cache = None \<or> is_full de payload then Some flag else None)"

definition note_settings :: "derived \<Rightarrow> bytes \<Rightarrow> telemetry_report \<Rightarrow> u32 \<Rightarrow> telemetry_cache \<Rightarrow> telemetry_cache" where
  "note_settings de payload r generation cache =
     (let settings_home_flag = report_settings_home_flag de payload r cache;
          carries_settings = (settings_home_flag \<noteq> None \<or> Option.bind (tr_print r) p_cfg \<noteq> None);
          c1 = (if carries_settings then cache\<lparr>c_reply_settings := new_reply_settings\<rparr> else cache)
      in case settings_home_flag of
           None \<Rightarrow> c1
         | Some flag \<Rightarrow> c1\<lparr>c_settings_home_flag := Some flag, c_settings_home_flag_generation := Some generation\<rparr>)"

definition note_lights :: "derived \<Rightarrow> bytes \<Rightarrow> telemetry_report \<Rightarrow> telemetry_cache \<Rightarrow> telemetry_cache" where
  "note_lights de payload r cache =
     (case Option.bind (tr_print r) p_lights_report of
        None \<Rightarrow> cache
      | Some lights \<Rightarrow>
          let c1 = cache\<lparr>c_reported_lights :=
                fold (\<lambda>node mask. mask OR light_bit node) (List.map_filter report_led_node lights) (c_reported_lights cache)\<rparr>
          in if is_full de payload then c1\<lparr>c_lights_list_complete := True\<rparr> else c1)"

definition receive_report :: "derived \<Rightarrow> bytes \<Rightarrow> telemetry_report \<Rightarrow> client_core \<Rightarrow> client_core" where
  "receive_report de payload r c =
     c\<lparr>cc_cache := update_telemetry_cache (q_door (client_quirks c)) (cc_generation c) r
         (note_lights de payload r (note_settings de payload r (cc_generation c) (cc_cache c)))\<rparr>"

definition is_push :: "telemetry_report option \<Rightarrow> bool" where
  "is_push report \<longleftrightarrow>
     (case Option.bind (Option.bind report tr_print) p_command of None \<Rightarrow> False | Some command \<Rightarrow> is_telemetry_command command)"

text \<open>What an accepted reply does besides settling its command.\<close>

definition note_accepted :: "derived \<Rightarrow> bytes \<Rightarrow> command_echo \<Rightarrow> client_core \<Rightarrow> client_core" where
  "note_accepted de payload echo c =
     (let accepted = (decode_verdict echo = Accepted);
          c1 = (if ce_command echo = ''print_option'' \<and> accepted
                then apply_print_option_reply (de_print_option_reply de payload) c else c)
      in if ce_command echo = ''project_file'' \<and> accepted
         then record_job_start (de_start_echo de payload) c1 else c1)"

definition classify_message :: "derived \<Rightarrow> mqtt_message \<Rightarrow> client_core \<Rightarrow> telemetry_event \<times> client_core" where
  "classify_message de msg c =
     (let report = de_report de (m_payload msg);
          echo = (if is_push report then None else parse_command_echo (de_echo de) (m_payload msg))
      in case echo of
           Some echo \<Rightarrow>
             let c1 = note_accepted de (m_payload msg) echo c in
             (case take_answered echo (cc_commands c1) of
                (Some handle, t) \<Rightarrow>
                  let resolution = \<lparr>cr_handle = handle, cr_outcome = decode_verdict echo\<rparr>
                  in (EventCommand resolution (Some msg), c1\<lparr>cc_commands := remember resolution t\<rparr>)
              | (None, t) \<Rightarrow> (EventUnknown msg, c1\<lparr>cc_commands := t\<rparr>))
         | None \<Rightarrow>
             (case report of
                Some r \<Rightarrow> (EventReport r msg, receive_report de (m_payload msg) r c)
              | None \<Rightarrow> (EventUnknown msg, c)))"

end
