(* ===== verification/Client.thy ===== *)
theory Client
  imports Core Requests
begin

text \<open>
  The client of one printer over MQTT (\<open>src/client/mod.rs\<close>, \<open>connect.rs\<close>, \<open>telemetry.rs\<close>, \<open>ams.rs\<close> for \<open>get_version\<close>): it
  dials when it has to, publishes commands under the ids it hands out, and sorts what arrives. The network is a
  script of the dials it will make: how long each takes and the socket it gives or the error it ends in. The time of
  the client is the clock of its socket, or the time its last socket was left at.
\<close>

section \<open>State\<close>

record version_module =
  vm_product_name :: string
  vm_name :: string
  vm_hw_ver :: string
  vm_sw_ver :: string
  vm_sn :: string
  vm_visible :: bool
  vm_project_name :: "string option"
  vm_loader_ver :: "string option"
  vm_ota_ver :: "string option"
  vm_flag :: "int option"

record version_info =
  vi_command :: string
  vi_sequence_id :: string
  vi_module :: "version_module list"

definition version_module_named :: "string \<Rightarrow> version_info \<Rightarrow> version_module option" where
  "version_module_named name info = find (\<lambda>m. vm_name m = name) (vi_module info)"

definition firmware_version :: "version_info \<Rightarrow> string option" where
  "firmware_version info = map_option vm_sw_ver (version_module_named ''ota'' info)"

text \<open>
  What the client is compiled with: the target, its timer, and the JSON code of \<open>serde\<close>, whose errors are texts.
  \<open>pl_type_name\<close> is the name \<open>core::any::type_name\<close> gives the type of a request.
\<close>

record platform =
  pl_target :: target
  pl_timer :: timer
  pl_unix_epoch_ms :: "nat option"
  pl_json :: "bytes \<Rightarrow> json option"
  pl_serialize :: "json \<Rightarrow> string + bytes"
  pl_type_name :: "json \<Rightarrow> string"
  pl_derived :: derived
  pl_version_info :: "json \<Rightarrow> string + version_info"

record dial_script =
  ds_delay_ms :: nat
  ds_outcome :: "socket_error + io"
  ds_sleep_error :: "timer_error option"

record printer_client =
  cl_mqtt :: "mqtt_client option"
  cl_core :: client_core
  cl_dials :: "dial_script list"
  cl_left_at :: nat
  cl_conn_counter :: nat

definition new_client :: "printer_identity \<Rightarrow> dial_script list \<Rightarrow> printer_client" where
  "new_client identity dials =
     \<lparr>cl_mqtt = None, cl_core = new_core identity, cl_dials = dials, cl_left_at = 0, cl_conn_counter = 0\<rparr>"

text \<open>A client around a given connection; its factory refuses every dial.\<close>

definition from_mqtt :: "mqtt_client \<Rightarrow> printer_model \<Rightarrow> printer_client" where
  "from_mqtt mqtt model =
     (new_client \<lparr>pi_ip = [], pi_serial = mq_serial mqtt, pi_access_code = [], pi_model = model\<rparr> [])\<lparr>cl_mqtt := Some mqtt\<rparr>"

definition client_time :: "printer_client \<Rightarrow> nat" where
  "client_time c = (case cl_mqtt c of Some m \<Rightarrow> now (mq_stream m) | None \<Rightarrow> cl_left_at c)"

text \<open>\<open>self.timer.now_millis()\<close>\<close>

definition client_now_ms :: "platform \<Rightarrow> printer_client \<Rightarrow> nat" where
  "client_now_ms p c = (if has_real_clock (pl_timer p) then client_time c else 0)"

abbreviation (input) on_core :: "(client_core \<Rightarrow> client_core) \<Rightarrow> printer_client \<Rightarrow> printer_client" where
  "on_core f c \<equiv> c\<lparr>cl_core := f (cl_core c)\<rparr>"

definition set_command_timeout :: "duration option \<Rightarrow> printer_client \<Rightarrow> printer_client" where
  "set_command_timeout timeout = on_core (\<lambda>k. k\<lparr>cc_command_timeout := timeout\<rparr>)"

definition client_next_sequence_id :: "printer_client \<Rightarrow> nat \<times> printer_client" where
  "client_next_sequence_id c = (case next_sequence_id (cl_core c) of (sid, k) \<Rightarrow> (sid, c\<lparr>cl_core := k\<rparr>))"

section \<open>Connecting\<close>

text \<open>A future that was begun at one time and is done at another with its result, raced against the timeout.\<close>

definition race_against_connect_timeout ::
  "timer \<Rightarrow> duration option \<Rightarrow> timer_error option \<Rightarrow> nat \<Rightarrow> (error + 'a) \<times> nat \<Rightarrow> (error + 'a) \<times> nat" where
  "race_against_connect_timeout t connect_timeout sleep_err begun fut =
     (case fut of (result, done_at) \<Rightarrow>
       (case connect_timeout of
          None \<Rightarrow> (result, done_at)
        | Some timeout \<Rightarrow>
            if \<not> has_real_clock t then (result, done_at)
            else let limit = (case sleep_err of None \<Rightarrow> duration_millis timeout | Some _ \<Rightarrow> 0)
              in if done_at \<le> begun + limit then (result, done_at)
                 else (Inl (Network (deadline_error sleep_err)), begun + limit)))"

text \<open>\<open>dial_mqtt\<close>: the TCP and TLS connections and the MQTT handshake, and when it is done.\<close>

definition dial_mqtt :: "target \<Rightarrow> printer_identity \<Rightarrow> nat \<Rightarrow> nat \<Rightarrow> dial_script \<Rightarrow> (error + mqtt_client) \<times> nat" where
  "dial_mqtt tgt identity conn_id begun d =
     (case ds_outcome d of
        Inl e \<Rightarrow> (Inl (Network e), begun + ds_delay_ms d)
      | Inr s \<Rightarrow>
          (case connect tgt conn_id (pi_serial identity) (pi_access_code identity) (s\<lparr>now := begun + ds_delay_ms d\<rparr>) of
             (r, s1) \<Rightarrow> (r, now s1)))"

text \<open>When the script is used up nothing answers any more.\<close>

definition next_dial :: "printer_client \<Rightarrow> dial_script \<times> printer_client" where
  "next_dial c =
     (case cl_dials c of
        [] \<Rightarrow> (\<lparr>ds_delay_ms = 0, ds_outcome = Inl NotConnected, ds_sleep_error = None\<rparr>, c)
      | d # ds \<Rightarrow> (d, c\<lparr>cl_dials := ds\<rparr>))"

definition reseed_sequence_counter :: "platform \<Rightarrow> printer_client \<Rightarrow> printer_client" where
  "reseed_sequence_counter p c =
     (if \<not> has_real_clock (pl_timer p) then c
      else
        let seed = (case pl_unix_epoch_ms p of None \<Rightarrow> client_now_ms p c | Some epoch \<Rightarrow> epoch + client_time c)
        in on_core (\<lambda>k. k\<lparr>cc_sequence_counter := sequence_id_from_seed seed\<rparr>) c)"

definition serialize :: "platform \<Rightarrow> json \<Rightarrow> error + bytes" where
  "serialize p request =
     (case pl_serialize p request of
        Inl e \<Rightarrow> Inl (Serialization (''serialize '' @ pl_type_name p request @ '': '' @ e)) | Inr payload \<Rightarrow> Inr payload)"

definition publish_payload :: "platform \<Rightarrow> bytes \<Rightarrow> echo_key option \<Rightarrow> printer_client \<Rightarrow> (error + unit) \<times> printer_client" where
  "publish_payload p payload echo c =
     (case cl_mqtt c of
        None \<Rightarrow> (Inl (Network NotConnected), c)
      | Some m \<Rightarrow>
          (case publish_keyed (pl_target p) (pl_timer p) payload echo m of
             (Inl e, m1) \<Rightarrow> (Inl e, c\<lparr>cl_mqtt := Some m1\<rparr>)
           | (Inr _, m1) \<Rightarrow> (Inr (), c\<lparr>cl_mqtt := Some m1\<rparr>)))"

text \<open>A failure of the first request of a connection is only logged.\<close>

definition publish_connect_pushall :: "platform \<Rightarrow> printer_client \<Rightarrow> printer_client" where
  "publish_connect_pushall p c =
     (case client_next_sequence_id c of (sid, c1) \<Rightarrow>
       (case serialize p (pushall_request sid) of
          Inl _ \<Rightarrow> c1
        | Inr payload \<Rightarrow> snd (publish_payload p payload (echo_key (pl_json p) payload) c1)))"

definition install_mqtt :: "platform \<Rightarrow> mqtt_client \<Rightarrow> printer_client \<Rightarrow> printer_client" where
  "install_mqtt p m c =
     publish_connect_pushall p (reseed_sequence_counter p (on_core begin_connection (c\<lparr>cl_mqtt := Some m\<rparr>)))"

text \<open>The process counts its MQTT connections in a \<open>u32\<close>; a dial that is cut off before its socket is there takes no number.\<close>

definition ensure_mqtt :: "platform \<Rightarrow> printer_client \<Rightarrow> (error + unit) \<times> printer_client" where
  "ensure_mqtt p c =
     (case cl_mqtt c of
        Some _ \<Rightarrow> (Inr (), c)
      | None \<Rightarrow>
          (case next_dial c of (d, c1) \<Rightarrow>
             let begun = client_time c1;
                 timeout = cc_connect_timeout (cl_core c1);
                 reached = race_against_connect_timeout (pl_timer p) timeout (ds_sleep_error d) begun
                   (map_sum Network id (ds_outcome d), begun + ds_delay_ms d)
             in case race_against_connect_timeout (pl_timer p) timeout (ds_sleep_error d) begun
                    (dial_mqtt (pl_target p) (cc_identity (cl_core c1)) (cl_conn_counter c1) begun d) of
               (r, done_at) \<Rightarrow>
                 let c2 = c1\<lparr>cl_left_at := done_at,
                       cl_conn_counter := (case fst reached of Inl _ \<Rightarrow> cl_conn_counter c1
                                           | Inr _ \<Rightarrow> (cl_conn_counter c1 + 1) mod 4294967296)\<rparr>
                 in case r of Inl e \<Rightarrow> (Inl e, c2) | Inr m \<Rightarrow> (Inr (), install_mqtt p m c2)))"

definition close_mqtt_session :: "printer_client \<Rightarrow> printer_client" where
  "close_mqtt_session c = c\<lparr>cl_mqtt := None, cl_left_at := client_time c\<rparr>"

definition attach_mqtt :: "platform \<Rightarrow> mqtt_client \<Rightarrow> printer_client \<Rightarrow> printer_client" where
  "attach_mqtt p m c = install_mqtt p m (close_mqtt_session c)"

definition disconnect_mqtt :: "printer_client \<Rightarrow> printer_client" where
  "disconnect_mqtt c = on_core begin_connection (close_mqtt_session c)"

definition is_mqtt_connected :: "printer_client \<Rightarrow> bool" where
  "is_mqtt_connected c \<longleftrightarrow> cl_mqtt c \<noteq> None"

section \<open>Publishing\<close>

definition publish_request :: "platform \<Rightarrow> json \<Rightarrow> printer_client \<Rightarrow> (error + unit) \<times> printer_client" where
  "publish_request p request c =
     (case ensure_mqtt p c of
        (Inl e, c1) \<Rightarrow> (Inl e, c1)
      | (Inr _, c1) \<Rightarrow>
          (case serialize p request of
             Inl e \<Rightarrow> (Inl e, c1)
           | Inr payload \<Rightarrow> publish_payload p payload (echo_key (pl_json p) payload) c1))"

text \<open>\<open>sid as u32\<close>; the command is tracked once its payload has been written.\<close>

definition client_dispatch :: "platform \<Rightarrow> (nat \<Rightarrow> json) \<Rightarrow> printer_client \<Rightarrow> (error + command_handle) \<times> printer_client" where
  "client_dispatch p build c =
     (case ensure_mqtt p c of
        (Inl e, c1) \<Rightarrow> (Inl e, c1)
      | (Inr _, c1) \<Rightarrow>
     (case client_next_sequence_id c1 of
        (sid, c2) \<Rightarrow>
     (case serialize p (build sid) of
        Inl e \<Rightarrow> (Inl e, c2)
      | Inr payload \<Rightarrow>
     (case echo_key (pl_json p) payload of
        None \<Rightarrow> (Inl (Serialization (pl_type_name p (build sid) @ '' serialized without a command name'')), c2)
      | Some echo \<Rightarrow>
     (case publish_payload p payload (Some echo) c2 of
        (Inl e, c3) \<Rightarrow> (Inl e, c3)
      | (Inr _, c3) \<Rightarrow>
          let handle = \<lparr>ch_command = ek_command echo, ch_sequence_id = sid mod 4294967296,
                ch_ack = (if command_echoes (ek_command echo) then Echoes else SettlesOnPublish)\<rparr>;
              deadline_ms = command_deadline_ms (pl_timer p) (client_now_ms p c3) (cl_core c3)
          in (Inr handle, on_core (\<lambda>k. k\<lparr>cc_commands := track handle deadline_ms (cc_commands k)\<rparr>) c3))))))"

definition request_pushall :: "platform \<Rightarrow> printer_client \<Rightarrow> (error + command_handle) \<times> printer_client" where
  "request_pushall p = client_dispatch p pushall_request"

text \<open>An operation on the session, once there is one.\<close>

definition with_mqtt ::
  "platform \<Rightarrow> (mqtt_client \<Rightarrow> (error + 'a) \<times> mqtt_client) \<Rightarrow> printer_client \<Rightarrow> (error + 'a) \<times> printer_client" where
  "with_mqtt p f c =
     (case ensure_mqtt p c of
        (Inl e, c1) \<Rightarrow> (Inl e, c1)
      | (Inr _, c1) \<Rightarrow>
          (case cl_mqtt c1 of
             None \<Rightarrow> (Inl (InvalidState ''connected above''), c1)
           | Some m \<Rightarrow> (case f m of (r, m1) \<Rightarrow> (r, c1\<lparr>cl_mqtt := Some m1\<rparr>))))"

definition client_send_ping :: "platform \<Rightarrow> printer_client \<Rightarrow> (error + unit) \<times> printer_client" where
  "client_send_ping p = with_mqtt p (send_ping (pl_timer p))"

definition keepalive_tick :: "platform \<Rightarrow> printer_client \<Rightarrow> (error + unit) \<times> printer_client" where
  "keepalive_tick p =
     with_mqtt p (\<lambda>m. case send_keepalive_if_due (pl_timer p) m of
        (Inl e, m1) \<Rightarrow> (Inl e, m1)
      | (Inr _, m1) \<Rightarrow>
          (case tick_zombie_check KEEPALIVE_TICK_SECS m1 of
             (Inl l, m2) \<Rightarrow> (Inl (Liveness l), m2) | (Inr _, m2) \<Rightarrow> (Inr (), m2)))"

definition poll_raw :: "platform \<Rightarrow> printer_client \<Rightarrow> (error + mqtt_message) \<times> printer_client" where
  "poll_raw p = with_mqtt p (poll_telemetry (pl_json p) (pl_target p) (pl_timer p))"

end
