(* ===== verification/ClientPoll.thy ===== *)
theory ClientPoll
  imports Client CommandProps
begin

text \<open>
  What a client does with the messages it receives (\<open>src/client/mod.rs\<close>, \<open>telemetry.rs\<close>, \<open>ams.rs\<close>, \<open>motion.rs\<close>): waiting for
  a reply, taking the next event, and the loops that poll until something is known. A loop ends because every round
  takes a message from the buffer, a command from the tracker, or a packet off the socket.
\<close>

section \<open>Progress\<close>

lemma write_frame_guarded_pending:
  "write_frame_guarded t packet c = (r, c') \<Longrightarrow> mq_pending c' = mq_pending c"
  by (auto simp: write_frame_guarded_def note_cancelled_def Let_def split: if_splits prod.splits sum.splits)

lemma send_keepalive_pending: "send_keepalive_if_due t c = (r, c') \<Longrightarrow> mq_pending c' = mq_pending c"
  by (auto simp: send_keepalive_if_due_def send_ping_def dest: write_frame_guarded_pending split: if_splits option.splits)

lemma dispatch_pending: "dispatch js h buf c = (r, c') \<Longrightarrow> mq_pending c' = mq_pending c"
  by (auto simp: dispatch_def settle_write_def Let_def split: if_splits sum.splits prod.splits)

lemma poll_frames_progress:
  "poll_frames js tgt t c = (Inr m, c') \<Longrightarrow> poll_measure c' < poll_measure c \<and> mq_pending c' = mq_pending c"
proof (induction js tgt t c arbitrary: m c' rule: poll_frames.induct)
  case (1 js tgt t c)
  obtain u c1 where k: "send_keepalive_if_due t c = (u, c1)" by fastforce
  with "1.prems" obtain v where u: "u = Inr v" by (cases u) (auto simp: poll_frames.simps)
  obtain r st s where rd: "read_exact_packet tgt t (MQTT_READ_TIMEOUT_SECS * 1000) (read_state c1) (mq_stream c1) = (r, st, s)"
    by (metis prod.exhaust)
  with "1.prems" k u obtain hd buf where r: "r = Inr (hd, buf)" by (cases r) (auto simp: poll_frames.simps)
  obtain r2 c2 where d: "dispatch js hd buf (c1\<lparr>read_state := st, mq_stream := s, secs_since_last_message := 0\<rparr>) = (r2, c2)"
    by fastforce
  have less: "poll_measure c2 < poll_measure c" by (rule poll_round_decreases [OF k rd [unfolded r] d])
  have pend: "mq_pending c2 = mq_pending c"
    using dispatch_pending [OF d] send_keepalive_pending [OF k] by simp
  show ?case
  proof (cases r2)
    case (Inl e)
    then show ?thesis using "1.prems" k u rd r d by (simp add: poll_frames.simps)
  next
    case (Inr o2)
    show ?thesis
    proof (cases o2)
      case None
      have "poll_frames js tgt t c2 = (Inr m, c')"
        using "1.prems" k u rd r d Inr None by (subst (asm) poll_frames.simps) simp
      from "1.IH" [OF k [symmetric] u rd [unfolded r, symmetric] _ _ _ d [symmetric] _ _ this] Inr None less pend
      show ?thesis by force
    next
      case (Some mm)
      then show ?thesis using "1.prems" k u rd r d Inr less pend by (subst (asm) poll_frames.simps) auto
    qed
  qed
qed

lemma poll_wire_progress:
  assumes "poll_wire js tgt t c = (Inr msg, c')"
  shows "poll_measure c' < poll_measure c \<and> mq_pending c' = mq_pending c"
proof -
  obtain r c1 where f: "poll_frames js tgt t c = (r, c1)" by fastforce
  with assms obtain m a where r: "r = Inr (m, a)" by (cases r) (auto simp: poll_wire_def)
  note p = poll_frames_progress [OF f [unfolded r]]
  show ?thesis
  proof (cases a)
    case None
    with assms f r p show ?thesis by (auto simp: poll_wire_def)
  next
    case (Some packet_id)
    obtain w c2 where w: "write_frame_guarded t (encode_puback packet_id) (park m c1) = (w, c2)" by fastforce
    have "poll_measure c2 = poll_measure c1" using write_frame_guarded_stream [OF w] by (simp add: park_def)
    moreover have "take_pending (mq_pending c2) = (Some m, mq_pending c1)"
      using write_frame_guarded_pending [OF w] by (simp add: park_def take_pending_def)
    then have "c' = c2\<lparr>mq_pending := mq_pending c1\<rparr>" using assms f r Some w by (simp add: poll_wire_def)
    ultimately show ?thesis using p by simp
  qed
qed

section \<open>Waiting for a reply\<close>

text \<open>The loop of \<open>poll_until\<close>. What does not match is set aside for later. For a matcher that keeps notes the result
  names the messages it was shown.\<close>

function poll_until_loop ::
  "platform \<Rightarrow> (mqtt_message \<Rightarrow> 'a option) \<Rightarrow> wait_budget \<Rightarrow> mqtt_message list \<Rightarrow> mqtt_client
     \<Rightarrow> (error + 'a) \<times> mqtt_message list \<times> mqtt_client" where
  "poll_until_loop p matcher wait shown m =
     (case poll_wire (pl_json p) (pl_target p) (pl_timer p) m of
        (Inl e, m1) \<Rightarrow> (Inl e, shown, m1)
      | (Inr msg, m1) \<Rightarrow>
     (case matcher msg of
        Some r \<Rightarrow> (Inr r, shown @ [msg], m1)
      | None \<Rightarrow>
          let m2 = m1\<lparr>mq_pending := push_pending (pl_target p) msg (mq_pending m1)\<rparr> in
          (case after_message (now_millis (pl_timer p) (mq_stream m2)) wait of
             (Inl e, _) \<Rightarrow> (Inl e, shown @ [msg], m2)
           | (Inr _, wait1) \<Rightarrow> poll_until_loop p matcher wait1 (shown @ [msg]) m2)))"
  by pat_completeness auto
termination
  by (relation "measure (\<lambda>(p, matcher, wait, shown, m). poll_measure m)")
    (auto dest!: sym [of "(Inr _, _)" "poll_wire _ _ _ _"] dest: poll_wire_progress)

declare poll_until_loop.simps [simp del]

definition poll_until ::
  "platform \<Rightarrow> duration option \<Rightarrow> (mqtt_message \<Rightarrow> 'a option) \<Rightarrow> printer_client
     \<Rightarrow> (error + 'a) \<times> mqtt_message list \<times> printer_client" where
  "poll_until p timeout matcher c =
     (case ensure_mqtt p c of
        (Inl e, c1) \<Rightarrow> (Inl e, [], c1)
      | (Inr _, c1) \<Rightarrow>
     (case cl_mqtt c1 of
        None \<Rightarrow> (Inl (InvalidState ''connected above''), [], c1)
      | Some m \<Rightarrow>
     (case take_pending_matching matcher (mq_pending m) of
        (Some r, pend) \<Rightarrow> (Inr r, [], c1\<lparr>cl_mqtt := Some (m\<lparr>mq_pending := pend\<rparr>)\<rparr>)
      | (None, pend) \<Rightarrow>
          let m1 = m\<lparr>mq_pending := pend\<rparr>;
              wait = start_budget (pl_timer p) (now_millis (pl_timer p) (mq_stream m1)) timeout
          in case poll_until_loop p matcher wait (pending_messages pend) m1 of
               (r, shown, m2) \<Rightarrow> (r, shown, c1\<lparr>cl_mqtt := Some m2\<rparr>))))"

definition poll_until_command_timeout ::
  "platform \<Rightarrow> (mqtt_message \<Rightarrow> 'a option) \<Rightarrow> printer_client \<Rightarrow> (error + 'a) \<times> mqtt_message list \<times> printer_client" where
  "poll_until_command_timeout p matcher c = poll_until p (cc_command_timeout (cl_core c)) matcher c"

text \<open>Awaiting the echo of a command.\<close>

definition answering_outcome :: "platform \<Rightarrow> command_handle \<Rightarrow> mqtt_message \<Rightarrow> command_outcome option" where
  "answering_outcome p handle msg =
     Option.bind (parse_command_echo (de_echo (pl_derived p)) (m_payload msg))
       (\<lambda>echo. if is_answered_by handle echo then Some (decode_verdict echo) else None)"

definition await_ack :: "platform \<Rightarrow> command_handle \<Rightarrow> printer_client \<Rightarrow> (error + command_outcome) \<times> printer_client" where
  "await_ack p handle c =
     (if ch_ack handle = SettlesOnPublish then (Inr SettledOnPublish, c)
      else case take_known handle (cc_commands (cl_core c)) of
        (Some outcome, t) \<Rightarrow> (Inr outcome, on_core (\<lambda>k. k\<lparr>cc_commands := t\<rparr>) c)
      | (None, t) \<Rightarrow>
          if \<not> is_pending handle t then (Inl (InvalidArgument ''no outcome held for this command handle''), c)
          else case poll_until_command_timeout p (answering_outcome p handle) c of
            (r, shown, c1) \<Rightarrow>
              let settled = on_core (\<lambda>k. k\<lparr>cc_commands := forget handle (cc_commands k)\<rparr>) c1
              in case r of
                   Inr outcome \<Rightarrow> (Inr outcome, settled)
                 | Inl e \<Rightarrow> if e = Timeout then (Inr TimedOut, settled) else (Inl e, c1))"

section \<open>Firmware\<close>

text \<open>The reply to \<open>get_version\<close>, bare or under \<open>info\<close>; a reply that cannot be read leaves its error.\<close>

definition version_node :: "platform \<Rightarrow> mqtt_message \<Rightarrow> json option" where
  "version_node p msg =
     (case pl_json p (m_payload msg) of
        None \<Rightarrow> None
      | Some v \<Rightarrow>
          let node = (case jget ''info'' v of None \<Rightarrow> v | Some n \<Rightarrow> n)
          in if Option.bind (jget ''command'' node) as_str = Some ''get_version'' then Some node else None)"

definition version_reply :: "platform \<Rightarrow> string \<Rightarrow> mqtt_message \<Rightarrow> version_info option" where
  "version_reply p expected_seq msg =
     (case version_node p msg of
        None \<Rightarrow> None
      | Some node \<Rightarrow>
          (case pl_version_info p node of
             Inl _ \<Rightarrow> None | Inr info \<Rightarrow> if vi_sequence_id info = expected_seq then Some info else None))"

definition version_parse_error :: "platform \<Rightarrow> mqtt_message \<Rightarrow> string option" where
  "version_parse_error p msg =
     (case version_node p msg of
        None \<Rightarrow> None
      | Some node \<Rightarrow> (case pl_version_info p node of Inl e \<Rightarrow> Some e | Inr _ \<Rightarrow> None))"

definition note_firmware :: "version_info \<Rightarrow> client_core \<Rightarrow> client_core" where
  "note_firmware info k =
     (case firmware_version info of
        None \<Rightarrow> k
      | Some firmware \<Rightarrow>
          k\<lparr>cc_cache := (cc_cache k)\<lparr>c_firmware := Some firmware, c_firmware_generation := Some (cc_generation k)\<rparr>\<rparr>)"

definition get_version :: "platform \<Rightarrow> printer_client \<Rightarrow> (error + version_info) \<times> printer_client" where
  "get_version p c =
     (case client_next_sequence_id c of
        (sid, c1) \<Rightarrow>
     (case publish_request p (get_version_request sid) c1 of
        (Inl e, c2) \<Rightarrow> (Inl e, c2)
      | (Inr _, c2) \<Rightarrow>
     (case poll_until_command_timeout p (version_reply p (dec sid)) c2 of
        (Inr info, _, c3) \<Rightarrow> (Inr info, on_core (note_firmware info) c3)
      | (Inl e, shown, c3) \<Rightarrow>
          (case find_map (version_parse_error p) shown of
             Some text \<Rightarrow> (Inl (Serialization (''get_version response: '' @ text)), c3)
           | None \<Rightarrow> (Inl e, c3)))))"

text \<open>A failure is only logged.\<close>

definition prime_firmware_version :: "platform \<Rightarrow> printer_client \<Rightarrow> printer_client" where
  "prime_firmware_version p c =
     (if firmware_this_connection (cl_core c) \<noteq> None then c else snd (get_version p c))"

definition connect_mqtt :: "platform \<Rightarrow> printer_client \<Rightarrow> (error + unit) \<times> printer_client" where
  "connect_mqtt p c =
     (case ensure_mqtt p c of (Inl e, c1) \<Rightarrow> (Inl e, c1) | (Inr _, c1) \<Rightarrow> (Inr (), prime_firmware_version p c1))"

section \<open>The next event\<close>

definition next_unanswered_outcome :: "platform \<Rightarrow> printer_client \<Rightarrow> telemetry_event option \<times> printer_client" where
  "next_unanswered_outcome p c =
     (let now_ms = (if has_real_clock (pl_timer p) then Some (client_now_ms p c) else None)
      in case next_unanswered now_ms (cc_commands (cl_core c)) of
           (None, t) \<Rightarrow> (None, on_core (\<lambda>k. k\<lparr>cc_commands := t\<rparr>) c)
         | (Some resolution, t) \<Rightarrow>
             (Some (EventCommand resolution None), on_core (\<lambda>k. k\<lparr>cc_commands := remember resolution t\<rparr>) c))"

definition classified :: "platform \<Rightarrow> mqtt_message \<Rightarrow> printer_client \<Rightarrow> (error + telemetry_event) \<times> printer_client" where
  "classified p msg c =
     (case classify_message (pl_derived p) msg (cl_core c) of (event, k) \<Rightarrow> (Inr event, c\<lparr>cl_core := k\<rparr>))"

definition take_buffered :: "printer_client \<Rightarrow> mqtt_message option \<times> printer_client" where
  "take_buffered c =
     (case cl_mqtt c of
        None \<Rightarrow> (None, c)
      | Some m \<Rightarrow> (case take_pending (mq_pending m) of (r, pend) \<Rightarrow> (r, c\<lparr>cl_mqtt := Some (m\<lparr>mq_pending := pend\<rparr>)\<rparr>)))"

definition next_event :: "platform \<Rightarrow> printer_client \<Rightarrow> (error + telemetry_event) \<times> printer_client" where
  "next_event p c =
     (case take_buffered c of
        (Some msg, c1) \<Rightarrow> classified p msg c1
      | (None, c1) \<Rightarrow>
     (case next_unanswered_outcome p c1 of
        (Some event, c2) \<Rightarrow> (Inr event, c2)
      | (None, c2) \<Rightarrow>
     (case ensure_mqtt p c2 of
        (Inl e, c3) \<Rightarrow> (Inl e, c3)
      | (Inr _, c3) \<Rightarrow>
     (case next_unanswered_outcome p c3 of
        (Some event, c4) \<Rightarrow> (Inr event, c4)
      | (None, c4) \<Rightarrow>
     (case with_mqtt p (poll_telemetry (pl_json p) (pl_target p) (pl_timer p)) c4 of
        (Inl e, c5) \<Rightarrow> (Inl e, c5)
      | (Inr msg, c5) \<Rightarrow> classified p msg c5)))))"

section \<open>Polling until something is known\<close>

text \<open>What a client can still hand out without new bytes, and what it has not read yet.\<close>

definition unsettled :: "command_tracker \<Rightarrow> nat" where
  "unsettled t = length (ct_ready t) + length (ct_pending t)"

definition backlog :: "printer_client \<Rightarrow> nat" where
  "backlog c = unsettled (cc_commands (cl_core c)) +
     (case cl_mqtt c of None \<Rightarrow> 0 | Some m \<Rightarrow> poll_measure m + length (pending_messages (mq_pending m)))"

definition rounds_left :: "printer_client rel" where
  "rounds_left = measures [\<lambda>c. of_bool (cl_mqtt c = None), backlog]"

lemma wf_rounds_left: "wf rounds_left"
  by (simp add: rounds_left_def)

lemma rounds_left_trans: "(a, b) \<in> rounds_left \<Longrightarrow> (b, c) \<in> rounds_left \<Longrightarrow> (a, c) \<in> rounds_left"
  by (auto simp: rounds_left_def of_bool_def split: if_splits)

lemma unsettled_remember [simp]: "unsettled (remember r t) = unsettled t"
  by (simp add: remember_def unsettled_def Let_def)

lemma unsettled_next:
  "next_unanswered n t = (Some r, t') \<Longrightarrow> unsettled t' < unsettled t"
  "next_unanswered n t = (None, t') \<Longrightarrow> t' = t"
  by (auto simp: next_unanswered_def unsettled_def length_remove_nth dest: position_SomeD
      split: list.splits option.splits)

lemma unsettled_answered: "take_answered echo t = (r, t') \<Longrightarrow> unsettled t' \<le> unsettled t"
  by (auto simp: take_answered_def unsettled_def length_remove_nth dest: position_SomeD split: option.splits)

lemma note_accepted_commands [simp]: "cc_commands (note_accepted de payload echo k) = cc_commands k"
  by (simp add: note_accepted_def Let_def record_job_start_def apply_print_option_reply_def split: option.split)

lemma classify_unsettled:
  "classify_message de msg k = (ev, k') \<Longrightarrow> unsettled (cc_commands k') \<le> unsettled (cc_commands k)"
  by (auto simp: classify_message_def receive_report_def Let_def dest: unsettled_answered
      split: option.splits prod.splits)

lemma next_outcome_progress:
  assumes "next_unanswered_outcome p c = (r, c')"
  shows "cl_mqtt c' = cl_mqtt c" "r = Some ev \<Longrightarrow> backlog c' < backlog c" "r = None \<Longrightarrow> c' = c"
  using assms by (auto simp: next_unanswered_outcome_def backlog_def Let_def dest: unsettled_next
      split: option.splits prod.splits)

lemma classified_progress:
  assumes "classified p msg c = (r, c')"
  shows "cl_mqtt c' = cl_mqtt c" "backlog c' \<le> backlog c"
  using assms by (auto simp: classified_def backlog_def dest: classify_unsettled split: prod.splits)

lemma take_pending_progress:
  "take_pending pend = (Some m, pend') \<Longrightarrow> length (pending_messages pend') < length (pending_messages pend)"
  "take_pending pend = (None, pend') \<Longrightarrow> pend' = pend"
  by (auto simp: take_pending_def split: list.splits)

lemma poll_telemetry_progress:
  assumes "poll_telemetry js tgt t m = (Inr msg, m')"
  shows "poll_measure m' + length (pending_messages (mq_pending m'))
    < poll_measure m + length (pending_messages (mq_pending m))"
proof (cases "pending_messages (mq_pending m)")
  case Nil
  then have "take_pending (mq_pending m) = (None, mq_pending m)" by (simp add: take_pending_def)
  with assms have "poll_wire js tgt t m = (Inr msg, m')" by (simp add: poll_telemetry_def)
  then show ?thesis using poll_wire_progress by fastforce
next
  case (Cons x xs)
  with assms show ?thesis by (auto simp: poll_telemetry_def take_pending_def)
qed

lemma take_buffered_progress:
  assumes "take_buffered c = (r, c')"
  shows "cl_mqtt c' = None \<longleftrightarrow> cl_mqtt c = None" "r = Some m \<Longrightarrow> backlog c' < backlog c" "r = None \<Longrightarrow> c' = c"
    "r = Some m \<Longrightarrow> cl_mqtt c \<noteq> None"
  using assms take_pending_progress(1) [of "mq_pending (the (cl_mqtt c))"]
    take_pending_progress(2) [of "mq_pending (the (cl_mqtt c))"]
  by (auto simp: take_buffered_def backlog_def split: option.splits prod.splits)

lemma publish_payload_connected: "cl_mqtt (snd (publish_payload p payload echo c)) = None \<longleftrightarrow> cl_mqtt c = None"
  by (auto simp: publish_payload_def split: option.split prod.split sum.split)

lemma next_id_frame [simp]:
  "client_next_sequence_id c = (sid, c') \<Longrightarrow> cl_mqtt c' = cl_mqtt c"
  "client_next_sequence_id c = (sid, c') \<Longrightarrow> cl_left_at c' = cl_left_at c"
  by (auto simp: client_next_sequence_id_def split: prod.splits)

lemma connect_pushall_connected: "cl_mqtt (publish_connect_pushall p c) = None \<longleftrightarrow> cl_mqtt c = None"
proof -
  obtain sid c1 where "client_next_sequence_id c = (sid, c1)" by fastforce
  then show ?thesis using publish_payload_connected [of p _ _ c1]
    by (simp add: publish_connect_pushall_def split: sum.split del: not_None_eq)
qed

lemma reseed_mqtt [simp]: "cl_mqtt (reseed_sequence_counter p c) = cl_mqtt c"
  by (simp add: reseed_sequence_counter_def Let_def)

lemma install_connected: "cl_mqtt (install_mqtt p m c) \<noteq> None"
  by (simp add: install_mqtt_def connect_pushall_connected)

lemma ensure_connected:
  assumes "ensure_mqtt p c = (Inr u, c')"
  shows "cl_mqtt c' \<noteq> None" "cl_mqtt c \<noteq> None \<Longrightarrow> c' = c"
  using assms install_connected by (auto simp: ensure_mqtt_def Let_def split: option.splits prod.splits sum.splits)

lemma ensure_id: "cl_mqtt c \<noteq> None \<Longrightarrow> ensure_mqtt p c = (Inr (), c)"
  by (auto simp: ensure_mqtt_def)

lemma with_mqtt_connected: "cl_mqtt c = Some m \<Longrightarrow> with_mqtt p f c = (case f m of (r, m1) \<Rightarrow> (r, c\<lparr>cl_mqtt := Some m1\<rparr>))"
  by (simp add: with_mqtt_def ensure_id)

lemma next_event_progress:
  assumes "next_event p c = (Inr ev, c')"
  shows "(c', c) \<in> rounds_left"
proof -
  obtain r1 c1 where b: "take_buffered c = (r1, c1)" by fastforce
  note bp = take_buffered_progress [OF b]
  show ?thesis
  proof (cases r1)
    case (Some msg)
    with assms b have "classified p msg c1 = (Inr ev, c')" by (simp add: next_event_def)
    from classified_progress [OF this] bp Some show ?thesis by (auto simp: rounds_left_def)
  next
    case None
    with bp have [simp]: "c1 = c" by simp
    obtain r2 c2 where u: "next_unanswered_outcome p c = (r2, c2)" by fastforce
    note up = next_outcome_progress [OF u]
    show ?thesis
    proof (cases r2)
      case (Some e)
      with assms b None u have "c' = c2" by (simp add: next_event_def)
      with up Some show ?thesis by (simp add: rounds_left_def)
    next
      case None2: None
      with up have [simp]: "c2 = c" by simp
      obtain r3 c3 where e: "ensure_mqtt p c = (r3, c3)" by fastforce
      with assms b None u None2 obtain v where r3: "r3 = Inr v" by (cases r3) (auto simp: next_event_def)
      note ep = ensure_connected [OF e [unfolded r3]]
      obtain r4 c4 where u4: "next_unanswered_outcome p c3 = (r4, c4)" by fastforce
      note up4 = next_outcome_progress [OF u4]
      have le: "(c', c3) \<in> rounds_left"
      proof (cases r4)
        case (Some e4)
        with assms b None u None2 e r3 u4 have "c' = c4" by (simp add: next_event_def)
        with up4 Some ep show ?thesis by (simp add: rounds_left_def)
      next
        case None4: None
        with up4 have [simp]: "c4 = c3" by simp
        from ep obtain m where m: "cl_mqtt c3 = Some m" by auto
        obtain r5 m5 where pt: "poll_telemetry (pl_json p) (pl_target p) (pl_timer p) m = (r5, m5)" by fastforce
        with assms b None u None2 e r3 u4 None4 m obtain msg where r5: "r5 = Inr msg"
          by (cases r5) (auto simp: next_event_def with_mqtt_connected)
        with assms b None u None2 e r3 u4 None4 m pt
        have "classified p msg (c3\<lparr>cl_mqtt := Some m5\<rparr>) = (Inr ev, c')"
          by (simp add: next_event_def with_mqtt_connected)
        from classified_progress [OF this] poll_telemetry_progress [OF pt [unfolded r5]] m
        show ?thesis by (auto simp: rounds_left_def backlog_def)
      qed
      show ?thesis
      proof (cases "cl_mqtt c")
        case None
        with ep have "(c3, c) \<in> rounds_left" by (simp add: rounds_left_def)
        then show ?thesis using le rounds_left_trans by blast
      next
        case (Some m)
        with ep(2) le show ?thesis by simp
      qed
    qed
  qed
qed

lemma next_event_round: "(Inr ev, c') = next_event p c \<Longrightarrow> (c', c) \<in> rounds_left"
  by (rule next_event_progress [OF sym])

function poll_until_done ::
  "platform \<Rightarrow> (printer_client \<Rightarrow> bool) \<Rightarrow> wait_budget \<Rightarrow> printer_client \<Rightarrow> (error + bool) \<times> printer_client" where
  "poll_until_done p is_done wait c =
     (if is_done c then (Inr True, c)
      else case next_event p c of
        (Inl e, c1) \<Rightarrow> (Inl e, c1)
      | (Inr _, c1) \<Rightarrow>
          (case after_message (client_now_ms p c1) wait of
             (r, wait1) \<Rightarrow> if r = Inl Timeout then (Inr (is_done c1), c1) else poll_until_done p is_done wait1 c1))"
  by pat_completeness auto
termination
proof (relation "inv_image rounds_left (\<lambda>(p, is_done, wait, c). c)", goal_cases)
  case 1
  show ?case using wf_rounds_left by simp
qed (auto intro: next_event_round)

declare poll_until_done.simps [simp del]

definition poll_telemetry_until ::
  "platform \<Rightarrow> duration \<Rightarrow> (printer_client \<Rightarrow> bool) \<Rightarrow> printer_client \<Rightarrow> (error + bool) \<times> printer_client" where
  "poll_telemetry_until p timeout is_done c =
     poll_until_done p is_done (start_budget (pl_timer p) (client_now_ms p c) (Some timeout)) c"

definition refresh_state :: "platform \<Rightarrow> duration \<Rightarrow> printer_client \<Rightarrow> (error + bool) \<times> printer_client" where
  "refresh_state p timeout c =
     (case request_pushall p c of
        (Inl e, c1) \<Rightarrow> (Inl e, c1)
      | (Inr _, c1) \<Rightarrow> poll_telemetry_until p timeout (\<lambda>c. client_print_status (cl_core c) \<noteq> None) c1)"

abbreviation (input) HOMING_WAIT_TIMEOUT :: duration where "HOMING_WAIT_TIMEOUT \<equiv> from_secs 90"

function homing_loop ::
  "platform \<Rightarrow> bool \<Rightarrow> wait_budget \<Rightarrow> printer_client \<Rightarrow> (error + unit) \<times> printer_client" where
  "homing_loop p saw_not_all_homed wait c =
     (case next_event p c of
        (Inl e, c1) \<Rightarrow> (Inl e, c1)
      | (Inr _, c1) \<Rightarrow>
          (let all_homed = client_all_axes_homed (cl_core c1) in
           if all_homed = Some True \<and> saw_not_all_homed then (Inr (), c1)
           else case after_message (client_now_ms p c1) wait of
             (Inl e, _) \<Rightarrow> (Inl e, c1)
           | (Inr _, wait1) \<Rightarrow> homing_loop p (saw_not_all_homed \<or> all_homed = Some False) wait1 c1))"
  by pat_completeness auto
termination
proof (relation "inv_image rounds_left (\<lambda>(p, saw, wait, c). c)", goal_cases)
  case 1
  show ?case using wf_rounds_left by simp
qed (auto intro: next_event_round)

declare homing_loop.simps [simp del]

definition wait_for_homing :: "platform \<Rightarrow> printer_client \<Rightarrow> (error + unit) \<times> printer_client" where
  "wait_for_homing p c =
     homing_loop p False (start_budget (pl_timer p) (client_now_ms p c) (Some HOMING_WAIT_TIMEOUT)) c"

end
