(* ===== verification/Kprofile.thy ===== *)
theory Kprofile
  imports Requests AmsParser SliceInfo
begin

text \<open>
  The management of flow-calibration profiles (\<open>src/diagnostics/kprofile.rs\<close>): setting ids, the requests, the address a
  profile is selected for, and what a reply lists.
\<close>

abbreviation (input) SETTING_ID_PREFIX :: string where "SETTING_ID_PREFIX \<equiv> ''PF''"
abbreviation (input) SETTING_ID_DIGITS :: nat where "SETTING_ID_DIGITS \<equiv> 17"

definition is_setting_id_valid :: "string \<Rightarrow> bool" where
  "is_setting_id_valid setting_id \<longleftrightarrow>
     (case strip_prefix SETTING_ID_PREFIX setting_id of
        None \<Rightarrow> False | Some d \<Rightarrow> length d = SETTING_ID_DIGITS \<and> list_all is_ascii_digit d)"

definition ensure_valid_setting_id :: "string \<Rightarrow> error + unit" where
  "ensure_valid_setting_id setting_id =
     (if is_setting_id_valid setting_id then Inr ()
      else Inl (InvalidArgument (''setting_id '' @ quoted setting_id @ '' must be '' @ quoted SETTING_ID_PREFIX
        @ '' followed by '' @ dec SETTING_ID_DIGITS @ '' decimal digits'')))"

record k_profile_entry =
  kp_cali_idx :: int
  kp_filament_id :: string
  kp_nozzle_diameter :: "string option"
  kp_nozzle_id :: string
  kp_extruder_id :: nat
  kp_name :: string
  kp_k_value :: string
  kp_n_coef :: "string option"
  kp_setting_id :: string
  kp_ams_id :: "int option"
  kp_tray_id :: "int option"

definition default_k_profile :: k_profile_entry where
  "default_k_profile =
     \<lparr>kp_cali_idx = -1, kp_filament_id = [], kp_nozzle_diameter = None, kp_nozzle_id = [], kp_extruder_id = 0, kp_name = [],
      kp_k_value = ''0'', kp_n_coef = None, kp_setting_id = [], kp_ams_id = None, kp_tray_id = None\<rparr>"

definition k_profile_json :: "k_profile_entry \<Rightarrow> json" where
  "k_profile_json e =
     JObject ([(''cali_idx'', jint (kp_cali_idx e)), (''filament_id'', JString (kp_filament_id e))]
       @ optional_field ''nozzle_diameter'' JString (kp_nozzle_diameter e)
       @ [(''nozzle_id'', JString (kp_nozzle_id e)), (''extruder_id'', jnat (kp_extruder_id e)),
          (''name'', JString (kp_name e)), (''k_value'', JString (kp_k_value e))]
       @ optional_field ''n_coef'' JString (kp_n_coef e)
       @ [(''setting_id'', JString (kp_setting_id e))]
       @ optional_field ''ams_id'' jint (kp_ams_id e)
       @ optional_field ''tray_id'' jint (kp_tray_id e))"

section \<open>Requests\<close>

record cali_get =
  cg_filament_id :: "string option"
  cg_nozzle_diameter :: "string option"
  cg_extruder_id :: "nat option"
  cg_nozzle_id :: "string option"
  cg_nozzle_pos :: "int option"
  cg_nozzle_sn :: "string option"

definition cali_get_new :: "string option \<Rightarrow> string option \<Rightarrow> cali_get" where
  "cali_get_new filament_id nozzle_diameter =
     \<lparr>cg_filament_id = filament_id, cg_nozzle_diameter = nozzle_diameter, cg_extruder_id = None, cg_nozzle_id = None,
      cg_nozzle_pos = None, cg_nozzle_sn = None\<rparr>"

definition with_extruder_id :: "nat \<Rightarrow> cali_get \<Rightarrow> cali_get" where
  "with_extruder_id extruder_id r = r\<lparr>cg_extruder_id := Some extruder_id\<rparr>"

definition with_nozzle_id :: "string \<Rightarrow> cali_get \<Rightarrow> cali_get" where
  "with_nozzle_id nozzle_id r = r\<lparr>cg_nozzle_id := Some nozzle_id\<rparr>"

definition with_nozzle_rack_position :: "int \<Rightarrow> string \<Rightarrow> cali_get \<Rightarrow> cali_get" where
  "with_nozzle_rack_position nozzle_pos nozzle_sn r = r\<lparr>cg_nozzle_pos := Some nozzle_pos, cg_nozzle_sn := Some nozzle_sn\<rparr>"

definition cali_get_request :: "cali_get \<Rightarrow> nat \<Rightarrow> json" where
  "cali_get_request r sid =
     namespaced ''print''
       ([command_field ''extrusion_cali_get'', sequence_field sid]
        @ optional_field ''filament_id'' JString (cg_filament_id r)
        @ optional_field ''nozzle_diameter'' JString (cg_nozzle_diameter r)
        @ optional_field ''extruder_id'' jnat (cg_extruder_id r)
        @ optional_field ''nozzle_id'' JString (cg_nozzle_id r)
        @ optional_field ''nozzle_pos'' jint (cg_nozzle_pos r)
        @ optional_field ''nozzle_sn'' JString (cg_nozzle_sn r))"

text \<open>The first bad id is the error.\<close>

fun ensure_all_valid :: "k_profile_entry list \<Rightarrow> error + unit" where
  "ensure_all_valid [] = Inr ()"
| "ensure_all_valid (e # es) =
     (case ensure_valid_setting_id (kp_setting_id e) of Inl err \<Rightarrow> Inl err | Inr _ \<Rightarrow> ensure_all_valid es)"

definition cali_set_request :: "k_profile_entry list \<Rightarrow> error + (nat \<Rightarrow> json)" where
  "cali_set_request profiles =
     (case ensure_all_valid profiles of
        Inl e \<Rightarrow> Inl e
      | Inr _ \<Rightarrow> Inr (\<lambda>sid. namespaced ''print''
          [command_field ''extrusion_cali_set'', (''filaments'', JArray (map k_profile_json profiles)), sequence_field sid]))"

record cali_sel_address =
  ca_ams_id :: nat
  ca_tray_id :: nat
  ca_slot_id :: nat

abbreviation (input) VALID_AMS_IDS_TEXT :: string where
  "VALID_AMS_IDS_TEXT \<equiv> ''0..=3, 6 or 16 (A2L AMS Lite), 128..=135, 254, 255''"

definition cali_sel_address_new :: "nat \<Rightarrow> nat \<Rightarrow> error + cali_sel_address" where
  "cali_sel_address_new ams_id slot_id =
     (case (if is_valid_ams_id ams_id then resolve_global_tray_id (normalize_ams_unit_id ams_id) slot_id else None) of
        None \<Rightarrow> Inl (InvalidArgument (''ams_id '' @ dec ams_id @ '' slot_id '' @ dec slot_id
          @ '' is not a tray (ams_id '' @ VALID_AMS_IDS_TEXT @ '')''))
      | Some tray_id \<Rightarrow>
          Inr \<lparr>ca_ams_id = wire_ams_id ams_id, ca_tray_id = tray_id,
               ca_slot_id = (if is_ams_ht_id ams_id \<or> is_external_spool_id ams_id then 0 else slot_id)\<rparr>)"

definition cali_sel_request :: "cali_sel_address \<Rightarrow> int \<Rightarrow> string \<Rightarrow> string \<Rightarrow> nat \<Rightarrow> json" where
  "cali_sel_request address cali_idx filament_id nozzle_diameter sid =
     namespaced ''print''
       [command_field ''extrusion_cali_sel'', (''ams_id'', jnat (ca_ams_id address)), (''tray_id'', jnat (ca_tray_id address)),
        (''slot_id'', jnat (ca_slot_id address)), (''cali_idx'', jint cali_idx), (''filament_id'', JString filament_id),
        (''nozzle_diameter'', JString nozzle_diameter), sequence_field sid]"

record standard_cali_del_entry =
  sd_extruder_id :: nat
  sd_cali_idx :: int
  sd_filament_id :: string
  sd_nozzle_diameter :: string
  sd_nozzle_id :: string
  sd_setting_id :: string

definition standard_cali_del_request :: "standard_cali_del_entry \<Rightarrow> error + (nat \<Rightarrow> json)" where
  "standard_cali_del_request e =
     (case ensure_valid_setting_id (sd_setting_id e) of
        Inl err \<Rightarrow> Inl err
      | Inr _ \<Rightarrow> Inr (\<lambda>sid. namespaced ''print''
          [command_field ''extrusion_cali_del'', (''extruder_id'', jnat (sd_extruder_id e)),
           (''cali_idx'', jint (sd_cali_idx e)), (''filament_id'', JString (sd_filament_id e)),
           (''nozzle_diameter'', JString (sd_nozzle_diameter e)), (''nozzle_id'', JString (sd_nozzle_id e)),
           (''setting_id'', JString (sd_setting_id e)), sequence_field sid]))"

record idex_cali_del_entry =
  xd_cali_idx :: int
  xd_filament_id :: string
  xd_nozzle_diameter :: string
  xd_nozzle_id :: string
  xd_extruder_id :: nat

definition idex_cali_del_request :: "idex_cali_del_entry \<Rightarrow> nat \<Rightarrow> json" where
  "idex_cali_del_request e sid =
     namespaced ''print''
       [command_field ''extrusion_cali_del'', (''cali_idx'', jint (xd_cali_idx e)), (''filament_id'', JString (xd_filament_id e)),
        (''nozzle_diameter'', JString (xd_nozzle_diameter e)), (''nozzle_id'', JString (xd_nozzle_id e)),
        (''extruder_id'', jnat (xd_extruder_id e)), sequence_field sid]"

section \<open>Replies\<close>

record cali_get_response =
  cr_command :: string
  cr_sequence_id :: string
  cr_nozzle_diameter :: "string option"
  cr_filaments :: "k_profile_entry list"

text \<open>Entries that name no diameter take the one of the envelope.\<close>

definition fill_diameters :: "cali_get_response \<Rightarrow> cali_get_response" where
  "fill_diameters r =
     r\<lparr>cr_filaments := map (\<lambda>e. if kp_nozzle_diameter e = None then e\<lparr>kp_nozzle_diameter := cr_nozzle_diameter r\<rparr> else e)
         (cr_filaments r)\<rparr>"

end
