(* ===== verification/Drying.thy ===== *)
theory Drying
  imports AmsTypes
begin

text \<open>
  What a filament takes in a dryer (\<open>src/types/drying.rs\<close>): the table of materials with their temperatures and times by
  unit and printer state, and the material a filament type names.
\<close>

datatype drying_material =
  Pla | Petg | Pctg | Abs | Asa | Hips | Pc | Pa | Pva | Bvoh | Tpu | Pp | Pe | Pha | Eva | Ppa | Pps

datatype fully_dryable_by = AnyDryer | AmsHtOnly | Neither

record drying_spec =
  dsp_material :: drying_material
  dsp_wire_name :: string
  dsp_temp :: "nat list"
  dsp_hours :: "nat list"
  dsp_softening :: nat
  dsp_heat_distortion :: nat
  dsp_fully_dryable_by :: fully_dryable_by

definition drying_row ::
  "drying_material \<Rightarrow> string \<Rightarrow> nat list \<Rightarrow> nat list \<Rightarrow> nat \<Rightarrow> nat \<Rightarrow> fully_dryable_by \<Rightarrow> drying_spec" where
  "drying_row m wire_name temp hours softening heat_distortion dryable =
     \<lparr>dsp_material = m, dsp_wire_name = wire_name, dsp_temp = temp, dsp_hours = hours, dsp_softening = softening,
      dsp_heat_distortion = heat_distortion, dsp_fully_dryable_by = dryable\<rparr>"

definition SPECS :: "drying_spec list" where
  "SPECS =
    [drying_row Pla ''PLA'' [45, 45, 45, 45] [12, 12, 12, 12] 50 45 AnyDryer,
     drying_row Petg ''PETG'' [65, 65, 55, 55] [12, 12, 12, 12] 60 75 AnyDryer,
     drying_row Pctg ''PCTG'' [65, 65, 55, 55] [12, 12, 12, 12] 60 75 AnyDryer,
     drying_row Abs ''ABS'' [65, 80, 65, 75] [12, 8, 12, 8] 80 90 AmsHtOnly,
     drying_row Asa ''ASA'' [65, 80, 65, 80] [12, 12, 12, 12] 85 100 AmsHtOnly,
     drying_row Hips ''HIPS'' [65, 80, 65, 75] [12, 12, 12, 12] 80 90 AmsHtOnly,
     drying_row Pc ''PC'' [65, 80, 65, 80] [12, 8, 12, 8] 90 105 AmsHtOnly,
     drying_row Pa ''PA'' [65, 85, 65, 85] [12, 12, 12, 12] 150 165 AmsHtOnly,
     drying_row Pva ''PVA'' [65, 85, 65, 70] [12, 18, 12, 18] 75 75 AmsHtOnly,
     drying_row Bvoh ''BVOH'' [60, 60, 45, 45] [12, 12, 12, 12] 50 65 AnyDryer,
     drying_row Tpu ''TPU'' [65, 75, 45, 45] [12, 18, 12, 18] 50 45 AmsHtOnly,
     drying_row Pp ''PP'' [60, 60, 50, 50] [12, 12, 12, 12] 55 60 AnyDryer,
     drying_row Pe ''PE'' [45, 45, 45, 45] [12, 12, 12, 12] 50 45 AnyDryer,
     drying_row Pha ''PHA'' [45, 45, 45, 45] [12, 12, 12, 12] 50 45 AnyDryer,
     drying_row Eva ''EVA'' [45, 45, 45, 45] [12, 12, 12, 12] 50 45 AnyDryer,
     drying_row Ppa ''PPA'' [65, 85, 65, 85] [12, 12, 12, 12] 150 165 Neither,
     drying_row Pps ''PPS'' [65, 85, 65, 85] [12, 12, 12, 12] 150 165 Neither]"

text \<open>\<open>m as usize\<close>: the position of a variant.\<close>

fun material_index :: "drying_material \<Rightarrow> nat" where
  "material_index Pla = 0" | "material_index Petg = 1" | "material_index Pctg = 2" | "material_index Abs = 3"
| "material_index Asa = 4" | "material_index Hips = 5" | "material_index Pc = 6" | "material_index Pa = 7"
| "material_index Pva = 8" | "material_index Bvoh = 9" | "material_index Tpu = 10" | "material_index Pp = 11"
| "material_index Pe = 12" | "material_index Pha = 13" | "material_index Eva = 14" | "material_index Ppa = 15"
| "material_index Pps = 16"

definition drying_spec_of :: "drying_material \<Rightarrow> drying_spec" where
  "drying_spec_of m = SPECS ! material_index m"

definition ALL_MATERIALS :: "drying_material list" where
  "ALL_MATERIALS = map dsp_material SPECS"

definition material_wire_name :: "drying_material \<Rightarrow> string" where
  "material_wire_name m = dsp_wire_name (drying_spec_of m)"

abbreviation (input) DEFAULT_COMMAND_COOLING_TEMP :: nat where "DEFAULT_COMMAND_COOLING_TEMP \<equiv> 50"

definition from_filament_type :: "string \<Rightarrow> drying_material option" where
  "from_filament_type filament_type =
     (let base = takeWhile is_ascii_alphabetic (trim_start filament_type) in
      if eq_ignore_ascii_case base ''PAHT'' then Some Pa
      else case find (\<lambda>m. eq_ignore_ascii_case base (material_wire_name m)) ALL_MATERIALS of
        Some m \<Rightarrow> Some m
      | None \<Rightarrow> if eq_ignore_ascii_case base ''PET'' then Some Petg else None)"

definition row_index :: "ams_unit_model \<Rightarrow> bool \<Rightarrow> nat option" where
  "row_index unit_type printing = map_option (\<lambda>column. if printing then column + 2 else column) (drying_column unit_type)"

definition softening_temp :: "drying_material \<Rightarrow> nat" where
  "softening_temp m = dsp_softening (drying_spec_of m)"

definition heat_distortion_temp :: "drying_material \<Rightarrow> nat" where
  "heat_distortion_temp m = dsp_heat_distortion (drying_spec_of m)"

definition default_temp :: "drying_material \<Rightarrow> ams_unit_model \<Rightarrow> bool \<Rightarrow> nat option" where
  "default_temp m unit_type printing =
     map_option (\<lambda>i. min (dsp_temp (drying_spec_of m) ! i) (heat_distortion_temp m)) (row_index unit_type printing)"

definition default_duration_hours :: "drying_material \<Rightarrow> ams_unit_model \<Rightarrow> bool \<Rightarrow> nat option" where
  "default_duration_hours m unit_type printing =
     map_option (\<lambda>i. dsp_hours (drying_spec_of m) ! i) (row_index unit_type printing)"

definition fully_dryable :: "drying_material \<Rightarrow> ams_unit_model \<Rightarrow> bool" where
  "fully_dryable m unit_type =
     (case dsp_fully_dryable_by (drying_spec_of m) of
        AnyDryer \<Rightarrow> model_supports_drying unit_type
      | AmsHtOnly \<Rightarrow> unit_type = MAmsHt
      | Neither \<Rightarrow> False)"

text \<open>Each variant has the row at its own position.\<close>

lemma material_row: "dsp_material (drying_spec_of m) = m"
  by (cases m) (simp_all add: drying_spec_of_def SPECS_def drying_row_def)

lemma materials_complete: "m \<in> set ALL_MATERIALS"
  by (cases m) (simp_all add: ALL_MATERIALS_def SPECS_def drying_row_def)

lemma spec_listed: "drying_spec_of m \<in> set SPECS"
  by (cases m) (simp_all add: drying_spec_of_def SPECS_def)

lemma table_bounds:
  "list_all (\<lambda>s. (\<exists>a b c d. dsp_temp s = [a, b, c, d] \<and> {a, c} \<subseteq> {45..65} \<and> {b, d} \<subseteq> {45..85})
     \<and> (\<exists>a b c d. dsp_hours s = [a, b, c, d] \<and> {a, b, c, d} \<subseteq> {8..18}) \<and> 45 \<le> dsp_heat_distortion s) SPECS"
  by (simp add: SPECS_def drying_row_def)

text \<open>A default never exceeds what the dryer of that kind can do, nor what the material stands, and is warm enough for it.\<close>

lemma default_temp_in_range:
  assumes "default_temp m unit_type printing = Some t"
  shows "(case model_dry_temp_range unit_type of None \<Rightarrow> False | Some (low, high) \<Rightarrow> low \<le> t \<and> t \<le> high)
    \<and> t \<le> heat_distortion_temp m"
proof -
  from table_bounds spec_listed [of m] obtain a b c d where
    "dsp_temp (drying_spec_of m) = [a, b, c, d]" "{a, c} \<subseteq> {45..65}" "{b, d} \<subseteq> {45..85}" "45 \<le> heat_distortion_temp m"
    by (fastforce simp: list_all_iff heat_distortion_temp_def)
  with assms show ?thesis
    by (cases unit_type; cases printing; auto simp: default_temp_def row_index_def numeral_nat min_def)
qed

lemma default_hours_positive:
  assumes "default_duration_hours m unit_type printing = Some h"
  shows "8 \<le> h \<and> h \<le> 18"
proof -
  from table_bounds spec_listed [of m] obtain a b c d where
    "dsp_hours (drying_spec_of m) = [a, b, c, d]" "{a, b, c, d} \<subseteq> {8..18}"
    by (fastforce simp: list_all_iff)
  with assms show ?thesis
    by (cases unit_type; cases printing; auto simp: default_duration_hours_def row_index_def numeral_nat)
qed

end
