(* ===== verification/ErrorText.thy ===== *)
theory ErrorText
  imports TunnelOps Stage
begin

text \<open>The texts errors are shown with: the \<open>Display\<close> of \<open>src/error.rs\<close> and of the types it wraps (\<open>src/io/mod.rs\<close>,
  \<open>src/mqtt/client/mod.rs\<close>).\<close>

fun certificate_failure_text :: "certificate_failure \<Rightarrow> string" where
  "certificate_failure_text UntrustedAnchor = ''chain reaches no trusted anchor''"
| "certificate_failure_text NameMismatch = ''certificate name does not match the host''"
| "certificate_failure_text Expired = ''certificate expired''"
| "certificate_failure_text NotYetValid = ''certificate not yet valid (check the device clock)''"
| "certificate_failure_text Revoked = ''certificate revoked''"
| "certificate_failure_text UnsupportedAlgorithm = ''unsupported signature algorithm or key''"
| "certificate_failure_text InvalidPurpose = ''certificate not valid for TLS server authentication''"
| "certificate_failure_text Missing = ''peer presented no certificate''"
| "certificate_failure_text Malformed = ''certificate could not be parsed''"
| "certificate_failure_text IncompleteTrustStore = ''no anchor matched, but some anchors failed to load''"
| "certificate_failure_text PinMismatch = ''certificate differs from the pinned one''"
| "certificate_failure_text Unspecified = ''certificate rejected for an unspecified reason''"

fun timer_error_text :: "timer_error \<Rightarrow> string" where
  "timer_error_text TimerExhausted = ''out of memory allocating a timer''"
| "timer_error_text (TimerOther msg) = msg"

fun socket_error_text :: "socket_error \<Rightarrow> string" where
  "socket_error_text ConnectionRefused = ''connection refused''"
| "socket_error_text ConnectionAborted = ''connection aborted''"
| "socket_error_text ConnectionReset = ''connection reset by peer''"
| "socket_error_text NotConnected = ''not connected''"
| "socket_error_text socket_error.TimedOut = ''timed out''"
| "socket_error_text AddressInUse = ''address in use''"
| "socket_error_text AddressNotAvailable = ''address not available''"
| "socket_error_text InvalidInput = ''invalid input''"
| "socket_error_text (CertificateInvalid reason) = ''certificate rejected: '' @ certificate_failure_text reason"
| "socket_error_text ResourceExhausted = ''out of memory or local resources''"
| "socket_error_text (Other msg) = msg"

fun liveness_text :: "liveness \<Rightarrow> string" where
  "liveness_text WriteZombie = ''command unanswered past the zombie timeout''"
| "liveness_text Stale = ''no packets received past the stale-connection timeout''"

fun error_text :: "error \<Rightarrow> string" where
  "error_text (Network e) = ''Network transport failure: '' @ socket_error_text e"
| "error_text (TimerFailure e) = ''Timer scheduling failure: '' @ timer_error_text e"
| "error_text TlsHandshakeFailed = ''TLS secure channel handshake failed''"
| "error_text (ProtocolViolation s) = ''Protocol violation: '' @ s"
| "error_text (Serialization s) = ''JSON serialization failure: '' @ s"
| "error_text (NotConfigured s) = ''Not configured: '' @ s"
| "error_text (Liveness l) = ''MQTT connection not live: '' @ liveness_text l"
| "error_text AccessDenied = ''Authentication credentials rejected (access denied)''"
| "error_text Timeout = ''Operational transaction timed out''"
| "error_text DiskWriteFailure = ''File upload verification failed (possible SD card write error)''"
| "error_text (FtpReply command reply_code reply) = ''FTP '' @ command @ '' rejected: '' @ dec reply_code @ '' '' @ reply"
| "error_text (TunnelReply command result) =
     ''file tunnel '' @ command @ '' failed: '' @ dec_int result
       @ (case result_name result of Some name \<Rightarrow> '' ('' @ name @ '')'' | None \<Rightarrow> [])"
| "error_text (ModelMismatch s) = ''Model capability mismatch: '' @ s"
| "error_text Backpressure = ''Command queue saturated with unacknowledged commands''"
| "error_text (InvalidArgument s) = ''Invalid argument: '' @ s"
| "error_text (InvalidState s) = ''Invalid printer state: '' @ s"

end
