(* ===== verification/ClientOps.thy ===== *)
theory ClientOps
  imports ClientPoll Kprofile Drying AmsAutoMap ErrorText
begin

text \<open>
  The commands of a client (\<open>src/client/thermal.rs\<close>, \<open>motion.rs\<close>, \<open>hardware.rs\<close>, \<open>print.rs\<close>, \<open>print_options.rs\<close>, \<open>ams.rs\<close>,
  \<open>drying.rs\<close>): what each one checks, and the request it dispatches when nothing speaks against it.
\<close>

type_synonym 'a command_run = "printer_client \<Rightarrow> (error + 'a) \<times> printer_client"

section \<open>Guards\<close>

definition require :: "bool \<Rightarrow> string \<Rightarrow> error + unit" where
  "require supported message = (if supported then Inr () else Inl (ModelMismatch message))"

fun bool_debug :: "bool \<Rightarrow> string" where
  "bool_debug True = ''true''" | "bool_debug False = ''false''"

fun support_debug :: "support \<Rightarrow> string" where
  "support_debug (Reported v) = ''Reported('' @ bool_debug v @ '')''"
| "support_debug (Inferred v) = ''Inferred('' @ bool_debug v @ '')''"
| "support_debug (Assumed v) = ''Assumed('' @ bool_debug v @ '')''"

definition refuse_unless :: "support \<Rightarrow> string \<Rightarrow> error + unit" where
  "refuse_unless answer setting_name =
     require (is_supported answer) (setting_name @ '' not available on this printer ('' @ support_debug answer @ '')'')"

text \<open>\<open>guard?; op\<close>: an operation that refuses before it does anything.\<close>

definition guarded :: "error + unit \<Rightarrow> 'a command_run \<Rightarrow> 'a command_run" where
  "guarded g f c = (case g of Inl e \<Rightarrow> (Inl e, c) | Inr _ \<Rightarrow> f c)"

abbreviation (input) model_limits :: "printer_client \<Rightarrow> model_quirks" where
  "model_limits c \<equiv> client_quirks (cl_core c)"

abbreviation (input) asked :: "(model_quirks \<Rightarrow> quirk_context \<Rightarrow> support) \<Rightarrow> printer_client \<Rightarrow> support" where
  "asked f c \<equiv> capability f (cl_core c)"

section \<open>G-code\<close>

definition send_gcode_raw :: "platform \<Rightarrow> string \<Rightarrow> command_handle command_run" where
  "send_gcode_raw p gcode_line = client_dispatch p (gcode_request gcode_line)"

definition send_gcode :: "platform \<Rightarrow> string \<Rightarrow> command_handle command_run" where
  "send_gcode p gcode_line c =
     guarded (validate_gcode (model_limits c) gcode_line (client_is_220v_power (cl_core c))) (send_gcode_raw p gcode_line) c"

definition home_all :: "platform \<Rightarrow> command_handle command_run" where
  "home_all p = send_gcode_raw p ''G28''"

definition home_z_only :: "platform \<Rightarrow> command_handle command_run" where
  "home_z_only p c =
     guarded (require (\<not> q_bed_on_z (model_limits c)) ''Z-only homing unsafe on bed-on-Z model'') (send_gcode_raw p ''G28 Z'') c"

text \<open>
  An \<open>f32\<close> argument: its sign and magnitude, or the text of a NaN or an infinity. The shortest decimal \<open>std\<close> prints a finite
  one as is the argument \<open>show_f32\<close>.
\<close>

datatype f32_arg = Finite bool rat | NotFinite string

fun f32_value :: "f32_arg \<Rightarrow> rat option" where
  "f32_value (Finite negative m) = Some (if negative then - m else m)"
| "f32_value (NotFinite _) = None"

fun f32_fixed2 :: "f32_arg \<Rightarrow> string" where
  "f32_fixed2 (Finite negative m) = (if negative then ''-'' else []) @ fixed2 m"
| "f32_fixed2 (NotFinite shown) = shown"

definition move_relative ::
  "platform \<Rightarrow> (f32_arg \<Rightarrow> string) \<Rightarrow> axis \<Rightarrow> f32_arg \<Rightarrow> u32 option \<Rightarrow> command_handle option command_run" where
  "move_relative p show_f32 ax distance feedrate c =
     (if f32_value distance = Some 0 then (Inr None, c)
      else
        let maximum = max_feedrate (model_limits c) ax;
            rate = (case feedrate of
                None \<Rightarrow> Inr (jog_feedrate (model_limits c) ax)
              | Some f \<Rightarrow>
                  if f = 0 then Inl (InvalidArgument ''move_relative feedrate must be nonzero'')
                  else if f > maximum
                  then Inl (ModelMismatch ([axis_letter ax] @ ''-axis feedrate '' @ dec (unat f) @ '' exceeds model maximum ''
                    @ dec (unat maximum) @ '' mm/min''))
                  else Inr f)
        in case rate of
             Inl e \<Rightarrow> (Inl e, c)
           | Inr rate \<Rightarrow>
               (case relative_move_gcode (model_limits c) ax (f32_value distance) rate of
                  None \<Rightarrow> (Inl (ModelMismatch ([axis_letter ax] @ ''-axis move of '' @ show_f32 distance
                    @ '' exceeds model travel limits'')), c)
                | Some gcode \<Rightarrow>
                    (case send_gcode_raw p gcode c of (Inl e, c1) \<Rightarrow> (Inl e, c1) | (Inr h, c1) \<Rightarrow> (Inr (Some h), c1))))"

definition extrude :: "platform \<Rightarrow> f32_arg \<Rightarrow> u32 \<Rightarrow> command_handle command_run" where
  "extrude p len feedrate = send_gcode_raw p (''M83'' @ nl @ ''G0 E'' @ f32_fixed2 len @ '' F'' @ dec (unat feedrate))"

section \<open>Heat\<close>

definition bed_gcode :: "client_core \<Rightarrow> u16 \<Rightarrow> string" where
  "bed_gcode k target_temp =
     ''M140 S'' @ dec (unat (clamp_temp target_temp (bed_temp_max (client_quirks k) (client_is_220v_power k))))"

definition set_bed_temperature :: "platform \<Rightarrow> u16 \<Rightarrow> command_handle command_run" where
  "set_bed_temperature p target_temp c = send_gcode_raw p (bed_gcode (cl_core c) target_temp) c"

definition nozzle_gcode :: "client_core \<Rightarrow> nat \<Rightarrow> u16 \<Rightarrow> string" where
  "nozzle_gcode k nozzle_id target_temp =
     ''M104 T'' @ dec nozzle_id @ '' S'' @ dec (unat (clamp_temp target_temp (q_nozzle_temp_max (client_quirks k))))"

definition set_nozzle_temperature :: "platform \<Rightarrow> nat \<Rightarrow> u16 \<Rightarrow> command_handle command_run" where
  "set_nozzle_temperature p nozzle_id target_temp c =
     guarded (require (is_valid_nozzle_id (model_limits c) nozzle_id)
         (''nozzle_id '' @ dec nozzle_id @ '' is not a nozzle on this model (see ModelQuirks::is_valid_nozzle_id)''))
       (send_gcode_raw p (nozzle_gcode (cl_core c) nozzle_id target_temp)) c"

definition chamber_gcode :: "u16 \<Rightarrow> u16 \<Rightarrow> string" where
  "chamber_gcode maximum target_temp = ''M141 S'' @ dec (unat (clamp_temp target_temp maximum))"

definition set_chamber_temperature :: "platform \<Rightarrow> u16 \<Rightarrow> command_handle command_run" where
  "set_chamber_temperature p target_temp c =
     (case q_chamber_heater_temp_max (model_limits c) of
        None \<Rightarrow> (Inl (ModelMismatch ''active chamber heater not available on this model''), c)
      | Some maximum \<Rightarrow> send_gcode_raw p (chamber_gcode maximum target_temp) c)"

record preheat_handles =
  ph_airduct :: "command_handle option"
  ph_chamber :: "command_handle option"

definition set_airduct_mode :: "platform \<Rightarrow> airduct_mode \<Rightarrow> command_handle command_run" where
  "set_airduct_mode p mode c =
     guarded (require (q_airduct_mode (model_limits c)) ''airduct damper control not available on this model'')
       (client_dispatch p (airduct_request mode)) c"

definition preheat_chamber :: "platform \<Rightarrow> u16 \<Rightarrow> preheat_handles command_run" where
  "preheat_chamber p target_temp c =
     (let has_flap = q_airduct_mode (model_limits c);
          has_heater = (q_chamber_heater_temp_max (model_limits c) \<noteq> None);
          heat = (\<lambda>duct c. case set_chamber_temperature p target_temp c of
             (Inl e, c1) \<Rightarrow> (Inl e, c1) | (Inr h, c1) \<Rightarrow> (Inr \<lparr>ph_airduct = duct, ph_chamber = Some h\<rparr>, c1))
      in if has_flap \<and> (has_heater \<or> target_temp = 0) then
           (case set_airduct_mode p (if target_temp > 0 then DuctHeating else DuctCooling) c of
              (Inl e, c1) \<Rightarrow> (Inl e, c1)
            | (Inr h, c1) \<Rightarrow>
                if \<not> has_heater then (Inr \<lparr>ph_airduct = Some h, ph_chamber = None\<rparr>, c1) else heat (Some h) c1)
         else heat None c)"

section \<open>Hardware\<close>

fun fan_debug :: "fan_target \<Rightarrow> string" where
  "fan_debug PartCooling = ''PartCooling''"
| "fan_debug AuxiliaryLeft = ''AuxiliaryLeft''"
| "fan_debug ChamberExhaust = ''ChamberExhaust''"
| "fan_debug AuxiliaryLeft2 = ''AuxiliaryLeft2''"

definition fan_gcode :: "fan_target \<Rightarrow> nat \<Rightarrow> string" where
  "fan_gcode fan speed_percent = ''M106 P'' @ dec (write_port fan) @ '' S'' @ dec (min speed_percent 100 * 255 div 100)"

definition set_fan_speed :: "platform \<Rightarrow> fan_target \<Rightarrow> nat \<Rightarrow> command_handle command_run" where
  "set_fan_speed p fan speed_percent c =
     guarded (require (fan_is_supported_by (model_limits c) fan) (fan_debug fan @ '' fan not available on this model''))
       (send_gcode_raw p (fan_gcode fan speed_percent)) c"

definition set_led :: "platform \<Rightarrow> led_node \<Rightarrow> bool \<Rightarrow> command_handle command_run" where
  "set_led p node turn_on c =
     guarded (require (is_supported (asked (\<lambda>q. light_support q node) c))
         (enum_as_wire LedNode_wire node @ '' light not available on this printer''))
       (client_dispatch p (led_ctrl_request node turn_on)) c"

definition set_buzzer_mode :: "platform \<Rightarrow> buzzer_mode \<Rightarrow> command_handle command_run" where
  "set_buzzer_mode p mode c =
     guarded (require (q_buzzer (model_limits c)) ''buzzer control not available on this model'')
       (client_dispatch p (buzzer_request mode)) c"

section \<open>Print options\<close>

definition set_prompt_sound :: "platform \<Rightarrow> bool \<Rightarrow> command_handle command_run" where
  "set_prompt_sound p enable c =
     guarded (refuse_unless (asked prompt_sound_support c) ''prompt sound'') (client_dispatch p (prompt_sound_request enable)) c"

definition set_auto_recovery :: "platform \<Rightarrow> bool \<Rightarrow> command_handle command_run" where
  "set_auto_recovery p enable c =
     guarded (refuse_unless (asked auto_recovery_support c) ''step-loss auto-recovery'')
       (client_dispatch p (auto_recovery_request enable)) c"

definition set_filament_backup :: "platform \<Rightarrow> bool \<Rightarrow> command_handle command_run" where
  "set_filament_backup p enable c =
     guarded (refuse_unless (asked filament_backup_support c) ''Filament Backup'')
       (client_dispatch p (filament_backup_request enable)) c"

definition set_filament_tangle_detect :: "platform \<Rightarrow> bool \<Rightarrow> command_handle command_run" where
  "set_filament_tangle_detect p enable c =
     guarded (refuse_unless (asked filament_tangle_detect_support c) ''filament tangle detection'')
       (client_dispatch p (filament_tangle_detect_request enable)) c"

definition set_nozzle_blob_detect :: "platform \<Rightarrow> bool \<Rightarrow> command_handle command_run" where
  "set_nozzle_blob_detect p enable c =
     guarded (refuse_unless (asked nozzle_blob_detect_support c) ''nozzle blob detection'')
       (client_dispatch p (nozzle_blob_detect_request enable)) c"

definition set_smart_nozzle_blob_detect :: "platform \<Rightarrow> nozzle_blob_detect_mode \<Rightarrow> command_handle command_run" where
  "set_smart_nozzle_blob_detect p mode c =
     guarded (refuse_unless (asked smart_nozzle_blob_detect_support c) ''smart nozzle blob detection'')
       (client_dispatch p (smart_nozzle_blob_detect_request mode)) c"

definition set_air_print_detect :: "platform \<Rightarrow> bool \<Rightarrow> command_handle command_run" where
  "set_air_print_detect p enable c =
     guarded (refuse_unless (asked air_print_detect_support c) ''air-printing detection'')
       (client_dispatch p (air_print_detect_request enable)) c"

definition set_air_purification :: "platform \<Rightarrow> air_purification_mode \<Rightarrow> command_handle command_run" where
  "set_air_purification p mode c =
     guarded (refuse_unless (asked air_purification_support c) ''end-of-print air purification'')
       (client_dispatch p (air_purification_request mode)) c"

definition set_door_open_check :: "platform \<Rightarrow> door_open_check \<Rightarrow> command_handle command_run" where
  "set_door_open_check p mode c =
     guarded (refuse_unless (asked door_open_check_support c) ''door-open check'')
       (client_dispatch p (door_open_check_request mode)) c"

definition set_idle_heating_protection :: "platform \<Rightarrow> bool \<Rightarrow> command_handle command_run" where
  "set_idle_heating_protection p enable c =
     guarded (refuse_unless (asked idle_heating_protection_support c) ''idle heating protection'')
       (client_dispatch p (idle_heating_protection_request enable)) c"

definition set_store_sent_files :: "platform \<Rightarrow> bool \<Rightarrow> command_handle command_run" where
  "set_store_sent_files p store c =
     guarded (require (q_store_sent_files (model_limits c)) ''storing sent files not available on this model'')
       (client_dispatch p (store_sent_files_request store)) c"

definition set_xcam_detector ::
  "platform \<Rightarrow> xcam_module \<Rightarrow> bool \<Rightarrow> xcam_halt_sensitivity option \<Rightarrow> command_handle command_run" where
  "set_xcam_detector p m enable sensitivity c =
     (if sensitivity \<noteq> None \<and> \<not> takes_sensitivity m
      then (Inl (InvalidArgument (enum_as_wire XcamModule_wire m @ '' takes no halt sensitivity'')), c)
      else guarded (refuse_unless (asked (\<lambda>q. xcam_module_support q m) c) (enum_as_wire XcamModule_wire m))
        (client_dispatch p (xcam_control_request m enable sensitivity)) c)"

section \<open>Printing\<close>

definition pause_print :: "platform \<Rightarrow> command_handle command_run" where
  "pause_print p = client_dispatch p (standard_control_request CPause)"

definition resume_print :: "platform \<Rightarrow> command_handle command_run" where
  "resume_print p = client_dispatch p (standard_control_request CResume)"

definition stop_print :: "platform \<Rightarrow> command_handle command_run" where
  "stop_print p = client_dispatch p (standard_control_request CStop)"

definition refresh_nozzle :: "platform \<Rightarrow> command_handle command_run" where
  "refresh_nozzle p = client_dispatch p (standard_control_request RefreshNozzle)"

definition disable_air_purification :: "platform \<Rightarrow> command_handle command_run" where
  "disable_air_purification p = client_dispatch p (standard_control_request CloseAirFilter)"

definition auto_stop_ams_drying :: "platform \<Rightarrow> command_handle command_run" where
  "auto_stop_ams_drying p = client_dispatch p (standard_control_request AutoStopAmsDry)"

definition clear_print_error :: "platform \<Rightarrow> command_handle command_run" where
  "clear_print_error p = client_dispatch p clean_print_error_request"

text \<open>The job an error belongs to is the one last reported.\<close>

abbreviation (input) last_job :: "printer_client \<Rightarrow> string option" where
  "last_job c \<equiv> c_job_id (cc_cache (cl_core c))"

definition ignore_error_and_resume :: "platform \<Rightarrow> u32 \<Rightarrow> command_handle command_run" where
  "ignore_error_and_resume p error_code c = client_dispatch p (ignore_error_request error_code (last_job c)) c"

definition resume_print_after_error :: "platform \<Rightarrow> u32 \<Rightarrow> command_handle command_run" where
  "resume_print_after_error p error_code c = client_dispatch p (resume_error_request error_code (last_job c)) c"

definition stop_print_after_error :: "platform \<Rightarrow> u32 \<Rightarrow> command_handle command_run" where
  "stop_print_after_error p error_code c = client_dispatch p (stop_error_request error_code (last_job c)) c"

definition dismiss_error :: "platform \<Rightarrow> u32 \<Rightarrow> idle_ignore_scope \<Rightarrow> command_handle command_run" where
  "dismiss_error p error_code scope = client_dispatch p (idle_ignore_request error_code scope)"

definition close_error_dialog :: "platform \<Rightarrow> u32 \<Rightarrow> command_handle command_run" where
  "close_error_dialog p error_code = client_dispatch p (close_print_error_request error_code)"

definition set_print_speed :: "platform \<Rightarrow> print_speed \<Rightarrow> command_handle command_run" where
  "set_print_speed p level = client_dispatch p (print_speed_request level)"

fun status_debug :: "print_status \<Rightarrow> string" where
  "status_debug StatusIdle = ''Idle''"
| "status_debug Preparing = ''Preparing''"
| "status_debug Slicing = ''Slicing''"
| "status_debug Running = ''Running''"
| "status_debug Paused = ''Paused''"
| "status_debug Finished = ''Finished''"
| "status_debug StatusFailed = ''Failed''"
| "status_debug StatusUnknown = ''Unknown''"

definition skip_objects :: "platform \<Rightarrow> nat list \<Rightarrow> command_handle command_run" where
  "skip_objects p object_ids c =
     (if object_ids = [] then (Inl (InvalidArgument ''skip_objects requires at least one object id''), c)
      else case client_print_status (cl_core c) of
        Some status \<Rightarrow>
          if status \<notin> {Running, Paused, StatusUnknown}
          then (Inl (InvalidState (''skip_objects requires a running or paused print (observed state: ''
            @ status_debug status @ '')'')), c)
          else client_dispatch p (skip_objects_request object_ids) c
      | None \<Rightarrow> client_dispatch p (skip_objects_request object_ids) c)"

definition start_calibration :: "platform \<Rightarrow> calibration_option \<Rightarrow> command_handle command_run" where
  "start_calibration p options c =
     (let effective = calibration_intersection options (supported_calibration (model_limits c))
      in guarded (require (\<not> calibration_is_empty effective) ''no requested calibration routine is supported on this model'')
           (client_dispatch p (calibration_request effective)) c)"

text \<open>What a file was sliced for.\<close>

definition refuse_unaccepted_model :: "printer_model \<Rightarrow> string option \<Rightarrow> string \<Rightarrow> error + unit" where
  "refuse_unaccepted_model model printer_model_id override_hint =
     (case printer_model_id of
        Some i \<Rightarrow>
          if accepts_sliced_for (quirks model) i then Inr ()
          else Inl (ModelMismatch (''the file was sliced for printer model id '' @ quoted i @ '', which this printer (''
            @ model_display_name model @ '') does not accept: its start G-code can command moves past this printer''
            @ [CHR 0x27] @ ''s travel (#657). Slice it for this printer, or override with '' @ override_hint))
      | None \<Rightarrow>
          Inl (ModelMismatch (''the file records no printer_model_id, so it can'' @ [CHR 0x27]
            @ ''t be checked against this printer ('' @ model_display_name model
            @ ''). Slice it for this printer, or override with '' @ override_hint)))"

definition find_listed_model :: "tunnel_file list \<Rightarrow> string \<Rightarrow> string + tunnel_file" where
  "find_listed_model files job_filename =
     (let name = last_segment job_filename in
      case filter (\<lambda>f. tf_name f = name) files of
        [] \<Rightarrow> Inl (quoted name @ '' is not in the printer'' @ [CHR 0x27] @ ''s model listing'')
      | [f] \<Rightarrow> Inr f
      | _ \<Rightarrow> Inl (''several listed files are named '' @ quoted name @ '', so the file is ambiguous''))"

abbreviation (input) SLICE_INFO_MEMBER :: string where "SLICE_INFO_MEMBER \<equiv> ''Metadata/slice_info.config''"
abbreviation (input) SLICE_INFO_MAX_BYTES :: nat where "SLICE_INFO_MAX_BYTES \<equiv> 2097152"

definition sliced_for_of_member :: "bytes option \<Rightarrow> string + string option" where
  "sliced_for_of_member member =
     (case member of
        None \<Rightarrow> Inl (''the file has no '' @ SLICE_INFO_MEMBER)
      | Some bs \<Rightarrow>
          (case from_utf8 bs of
             None \<Rightarrow> Inl (SLICE_INFO_MEMBER @ '' is not UTF-8'')
           | Some xml \<Rightarrow>
               (case parse_sliced_for xml of
                  Inl e \<Rightarrow> Inl (SLICE_INFO_MEMBER @ '' can'' @ [CHR 0x27] @ ''t be read: '' @ error_text e) | Inr i \<Rightarrow> Inr i)))"

text \<open>\<open>conn\<close> is what connecting the file tunnel comes to. The connection is closed afterwards either way.\<close>

definition read_sliced_for_through_tunnel ::
  "serde \<Rightarrow> timer \<Rightarrow> print_job_config \<Rightarrow> error + tunnel \<Rightarrow> string + string option" where
  "read_sliced_for_through_tunnel sd t config conn =
     (let storage = (case jc_file_location config of OnCard \<Rightarrow> None | OnInternalStorage \<Rightarrow> Some ''emmc'') in
      case conn of
        Inl e \<Rightarrow> Inl (''the connection failed: '' @ error_text e)
      | Inr tn \<Rightarrow>
     (case list_files sd t Model storage tn of
        (Inl e, _) \<Rightarrow> Inl (''listing the models failed: '' @ error_text e)
      | (Inr files, tn1) \<Rightarrow>
     (case find_listed_model files (jc_job_filename config) of
        Inl e \<Rightarrow> Inl e
      | Inr file \<Rightarrow>
     (case read_file_member sd t file SLICE_INFO_MEMBER SLICE_INFO_MAX_BYTES tn1 of
        (Inl e, _) \<Rightarrow> Inl (''reading '' @ SLICE_INFO_MEMBER @ '' failed: '' @ error_text e)
      | (Inr member, _) \<Rightarrow> sliced_for_of_member member))))"

definition ways_forward :: string where
  "ways_forward = ''Supply the id with PrintJobConfig::sliced_for (from PrinterFile::sliced_for after upload_file, or read_sliced_for on a local copy), or call PrintJobConfig::model_unchecked()''"

definition sliced_for_from_printer ::
  "serde \<Rightarrow> timer \<Rightarrow> error + tunnel \<Rightarrow> print_job_config \<Rightarrow> printer_client \<Rightarrow> error + string option" where
  "sliced_for_from_printer sd t conn config c =
     (let shown = jc_job_filename config @ '' was not checked against this printer (''
            @ model_display_name (pi_model (cc_identity (cl_core c)))
      in if \<not> is_supported (asked file_tunnel_support c)
         then Inl (ModelMismatch (shown @ ''): the config doesn'' @ [CHR 0x27]
           @ ''t say what model the file was sliced for, and this printer has no file tunnel to read it with. '' @ ways_forward))
         else case read_sliced_for_through_tunnel sd t config conn of
           Inr i \<Rightarrow> Inr i
         | Inl reason \<Rightarrow> Inl (ModelMismatch (shown
             @ ''): reading what model it was sliced for through the file tunnel failed ('' @ reason @ ''). '' @ ways_forward)))"

definition start_print_checks ::
  "serde \<Rightarrow> timer \<Rightarrow> error + tunnel \<Rightarrow> print_job_config \<Rightarrow> printer_client \<Rightarrow> error + unit" where
  "start_print_checks sd t conn config c =
     (let model = pi_model (cc_identity (cl_core c));
          auto_support = asked pa_calibration_auto_support c;
          mode_support = asked pa_mode_support c;
          hint = ''PrintJobConfig::model_unchecked()''
      in if jc_run_flow_calibration config = CaliAuto \<and> \<not> is_supported auto_support
         then Inl (ModelMismatch (''Auto flow dynamics calibration not available on this printer (''
           @ support_debug auto_support @ '')''))
         else if jc_pa_profile_shared_by_type config \<noteq> None \<and> \<not> is_supported mode_support
         then Inl (ModelMismatch (''PA profile sharing not available on this printer ('' @ support_debug mode_support @ '')''))
         else case jc_sliced_for config of
           NotSupplied \<Rightarrow>
             (case sliced_for_from_printer sd t conn config c of
                Inl e \<Rightarrow> Inl e | Inr i \<Rightarrow> refuse_unaccepted_model model i hint)
         | SlicedForModel i \<Rightarrow> refuse_unaccepted_model model i hint
         | ModelUnchecked \<Rightarrow> Inr ())"

definition start_print ::
  "platform \<Rightarrow> serde \<Rightarrow> timer \<Rightarrow> error + tunnel \<Rightarrow> print_job_config \<Rightarrow> command_handle command_run" where
  "start_print p sd t conn config c =
     guarded (start_print_checks sd t conn config c)
       (client_dispatch p (project_file_request config (pi_model (cc_identity (cl_core c))))) c"

section \<open>AMS\<close>

abbreviation (input) SLOT_EXTERNAL_LOAD :: nat where "SLOT_EXTERNAL_LOAD \<equiv> 254"

definition change_slot_valid :: "nat \<Rightarrow> nat \<Rightarrow> bool" where
  "change_slot_valid ams_id slot_id =
     (if slot_id = SLOT_UNLOAD then True
      else if slot_id = SLOT_EXTERNAL_LOAD then is_external_spool_id ams_id
      else if is_external_spool_id ams_id then slot_id < AMS_SLOTS_PER_UNIT
      else is_unit_slot ams_id slot_id)"

definition change_filament ::
  "platform \<Rightarrow> nat \<Rightarrow> nat \<Rightarrow> int \<Rightarrow> int \<Rightarrow> nat option \<Rightarrow> command_handle command_run" where
  "change_filament p ams_id slot_id curr_temp tar_temp extruder_id c =
     (if \<not> is_valid_ams_id ams_id \<or> \<not> change_slot_valid ams_id slot_id
      then (Inl (InvalidArgument (''change_filament: ams_id '' @ dec ams_id @ '' slot_id '' @ dec slot_id
        @ '' is not a load or unload address (ams_id '' @ VALID_AMS_IDS_TEXT
        @ ''; slot 0..=3, 0 on AMS-HT, 254 for an external spool, 255 to unload)'')), c)
      else
        let wire = wire_ams_id ams_id;
            temps = \<lparr>ct_current = curr_temp, ct_target = tar_temp\<rparr>
        in client_dispatch p
             (if slot_id = SLOT_UNLOAD then change_filament_unload wire temps extruder_id
              else change_filament_load wire slot_id temps extruder_id) c)"

definition client_ams_unit_model :: "nat \<Rightarrow> client_core \<Rightarrow> ams_unit_model option" where
  "client_ams_unit_model ams_id k =
     Option.bind (c_ams (cc_cache k)) (\<lambda>r. Option.bind (report_unit r (normalize_ams_unit_id ams_id)) unit_model)"

definition client_derive_ams_mapping ::
  "(colour \<Rightarrow> colour \<Rightarrow> rat) \<Rightarrow> plate_filaments \<Rightarrow> client_core \<Rightarrow> ams_mapping_result" where
  "client_derive_ams_mapping lab filaments k =
     derive_ams_mapping lab filaments (c_ams (cc_cache k))
       (case c_vir_slot (cc_cache k) of None \<Rightarrow> [] | Some ts \<Rightarrow> ts) (physical_nozzle_count (client_quirks k) > 1)"

abbreviation (input) AMS_TRAY_NOW_UNLOADED :: string where "AMS_TRAY_NOW_UNLOADED \<equiv> ''255''"

definition filament_loaded :: "client_core \<Rightarrow> bool" where
  "filament_loaded k =
     (case Option.bind (c_ams (cc_cache k)) ar_tray_now of None \<Rightarrow> False | Some tray_now \<Rightarrow> tray_now \<noteq> AMS_TRAY_NOW_UNLOADED)"

definition scan_rfid :: "platform \<Rightarrow> nat \<Rightarrow> nat \<Rightarrow> command_handle command_run" where
  "scan_rfid p ams_id slot_id c =
     (if \<not> is_bus_unit_id ams_id \<or> \<not> is_unit_slot ams_id slot_id
      then (Inl (InvalidArgument (''scan_rfid: ams_id '' @ dec ams_id @ '' slot_id '' @ dec slot_id
        @ '' is not an AMS slot (ams_id 0..=3, 6 or 16, 128..=135; slot 0..=3, 0 on AMS-HT)'')), c)
      else if filament_loaded (cl_core c)
      then (Inl (InvalidState (''filament is loaded to the toolhead '' @ [CHR 0xE2, CHR 0x80, CHR 0x94]
        @ '' unload it before scanning RFID'')), c)
      else if c_np_format (cc_cache (cl_core c)) = Some False
      then (case resolve_global_tray_id (normalize_ams_unit_id ams_id) slot_id of
          None \<Rightarrow> (Inl (ProtocolViolation ''AMS address has no global tray index for M620 R''), c)
        | Some global_tray \<Rightarrow> client_dispatch p (gcode_request (''M620 R'' @ dec global_tray)) c)
      else client_dispatch p (ams_get_rfid_request (int (wire_ams_id ams_id)) (int slot_id)) c)"

definition tray_filament_address_valid :: "model_quirks \<Rightarrow> nat \<Rightarrow> nat \<Rightarrow> bool" where
  "tray_filament_address_valid q ams_id slot_id =
     (if is_external_spool_id ams_id
      then slot_id = 0 \<and> (ams_id \<noteq> AMS_EXTERNAL_SPOOL_DEPUTY_ID \<or> physical_nozzle_count q > 1)
      else is_unit_slot ams_id slot_id)"

text \<open>The colour is checked before a sequence id is spent.\<close>

definition tray_filament_setting ::
  "nat \<Rightarrow> nat \<Rightarrow> filament_spec \<Rightarrow> tray_filament_details \<Rightarrow> error + ams_filament_setting" where
  "tray_filament_setting ams_id slot_id filament details =
     (let base = ams_filament_setting_new (int (wire_ams_id ams_id)) (int slot_id) filament in
      case (case td_color details of None \<Rightarrow> Inr base | Some color \<Rightarrow> with_color color base) of
        Inl e \<Rightarrow> Inl e
      | Inr r1 \<Rightarrow>
          let r2 = (case td_sub_brands details of None \<Rightarrow> r1 | Some sb \<Rightarrow> with_sub_brands sb r1)
          in Inr (case td_setting_id details of None \<Rightarrow> r2 | Some sid \<Rightarrow> with_setting_id sid r2))"

definition set_tray_filament ::
  "platform \<Rightarrow> nat \<Rightarrow> nat \<Rightarrow> filament_spec \<Rightarrow> tray_filament_details \<Rightarrow> command_handle command_run" where
  "set_tray_filament p ams_id slot_id filament details c =
     (if \<not> tray_filament_address_valid (model_limits c) ams_id slot_id
      then (Inl (InvalidArgument (''set_tray_filament: ams_id '' @ dec ams_id @ '' slot_id '' @ dec slot_id
        @ '' is not a filament address (ams_id 0..=3, 6 or 16, 128..=135; slot 0..=3, 0 on AMS-HT; or an external spool, slot 0: ams_id 255, or 254 on a model with two nozzles)'')), c)
      else case tray_filament_setting ams_id slot_id filament details of
        Inl e \<Rightarrow> (Inl e, c)
      | Inr r \<Rightarrow> client_dispatch p (ams_filament_setting_request r) c)"

definition select_k_profile ::
  "platform \<Rightarrow> nat \<Rightarrow> nat \<Rightarrow> int \<Rightarrow> string \<Rightarrow> string \<Rightarrow> command_handle command_run" where
  "select_k_profile p ams_id slot_id cali_idx filament_id nozzle_diameter c =
     (case cali_sel_address_new ams_id slot_id of
        Inl e \<Rightarrow> (Inl e, c)
      | Inr address \<Rightarrow> client_dispatch p (cali_sel_request address cali_idx filament_id nozzle_diameter) c)"

text \<open>\<open>dk\<close> is the derived deserializer of a reply. The first request of a connection only primes the printer.\<close>

definition k_profile_reply :: "(bytes \<Rightarrow> cali_get_response option) \<Rightarrow> string \<Rightarrow> mqtt_message \<Rightarrow> cali_get_response option" where
  "k_profile_reply dk expected_seq msg =
     (case dk (m_payload msg) of
        None \<Rightarrow> None
      | Some r \<Rightarrow>
          if cr_command r = ''extrusion_cali_get'' \<and> cr_sequence_id r = expected_seq then Some (fill_diameters r) else None)"

definition prime_k_profiles ::
  "platform \<Rightarrow> string option \<Rightarrow> string option \<Rightarrow> unit command_run" where
  "prime_k_profiles p filament_id nozzle_diameter c =
     (if cc_k_profile_primed (cl_core c) then (Inr (), c)
      else case client_next_sequence_id c of
        (sid, c1) \<Rightarrow>
     (case publish_request p (cali_get_request (cali_get_new filament_id nozzle_diameter) sid) c1 of
        (Inl e, c2) \<Rightarrow> (Inl e, c2)
      | (Inr _, c2) \<Rightarrow> (Inr (), c2\<lparr>cl_core := (cl_core c2)\<lparr>cc_k_profile_primed := True\<rparr>\<rparr>)))"

definition get_k_profiles ::
  "platform \<Rightarrow> (bytes \<Rightarrow> cali_get_response option) \<Rightarrow> string option \<Rightarrow> string option \<Rightarrow> cali_get_response command_run" where
  "get_k_profiles p dk filament_id nozzle_diameter c =
     (case prime_k_profiles p filament_id nozzle_diameter c of
        (Inl e, c1) \<Rightarrow> (Inl e, c1)
      | (Inr _, c1) \<Rightarrow>
     (case client_next_sequence_id c1 of
        (sid, c2) \<Rightarrow>
     (case publish_request p (cali_get_request (cali_get_new filament_id nozzle_diameter) sid) c2 of
        (Inl e, c3) \<Rightarrow> (Inl e, c3)
      | (Inr _, c3) \<Rightarrow>
          (case poll_until_command_timeout p (k_profile_reply dk (dec sid)) c3 of (r, _, c4) \<Rightarrow> (r, c4)))))"

section \<open>Drying\<close>

record drying_cycle =
  dc_ams_id :: nat
  dc_material :: "(drying_material \<times> ams_unit_model) option"
  dc_printing :: bool
  dc_temp :: "nat option"
  dc_duration_hours :: "nat option"
  dc_cooling_temp :: "nat option"
  dc_filament :: "string option"
  dc_humidity :: nat
  dc_rotate_tray :: bool
  dc_close_power_conflict :: bool

definition dry :: "nat \<Rightarrow> drying_cycle" where
  "dry ams_id =
     \<lparr>dc_ams_id = ams_id, dc_material = None, dc_printing = False, dc_temp = None, dc_duration_hours = None,
      dc_cooling_temp = None, dc_filament = None, dc_humidity = 0, dc_rotate_tray = False, dc_close_power_conflict = False\<rparr>"

definition or_default_of ::
  "(drying_material \<Rightarrow> ams_unit_model \<Rightarrow> bool \<Rightarrow> nat option) \<Rightarrow> drying_cycle \<Rightarrow> nat option \<Rightarrow> nat option" where
  "or_default_of pick d given =
     (case opt_or given (Option.bind (dc_material d) (\<lambda>(m, u). pick m u (dc_printing d))) of
        None \<Rightarrow> None | Some v \<Rightarrow> if v = 0 then None else Some v)"

text \<open>The parameters a cycle is started with, or what forbids it.\<close>

definition cycle_params :: "client_core \<Rightarrow> drying_cycle \<Rightarrow> error + drying_params" where
  "cycle_params k d =
     (let material = map_option fst (dc_material d) in
      case or_default_of default_temp d (dc_temp d) of
        None \<Rightarrow> Inl (InvalidArgument (''drying temperature not set '' @ [CHR 0xE2, CHR 0x80, CHR 0x94]
          @ '' call .material(..) or .temp(..)''))
      | Some temp \<Rightarrow>
     (case or_default_of default_duration_hours d (dc_duration_hours d) of
        None \<Rightarrow> Inl (InvalidArgument (''drying duration not set '' @ [CHR 0xE2, CHR 0x80, CHR 0x94]
          @ '' call .material(..) or .duration_hours(..)''))
      | Some duration_hours \<Rightarrow>
          let cooling_temp = (case opt_or (dc_cooling_temp d) (map_option softening_temp material) of
                None \<Rightarrow> DEFAULT_COMMAND_COOLING_TEMP | Some t \<Rightarrow> t);
              filament = (case opt_or (dc_filament d) (map_option material_wire_name material) of None \<Rightarrow> [] | Some f \<Rightarrow> f);
              unit_type = client_ams_unit_model (dc_ams_id d) k
          in if \<not> is_supported (capability ams_remote_drying_support k)
          then Inl (ModelMismatch (''AMS drying is screen-only on this host printer '' @ [CHR 0xE2, CHR 0x80, CHR 0x94]
            @ '' firmware acks this command but does not act on it''))
          else if \<not> is_valid_ams_id (dc_ams_id d)
          then Inl (InvalidArgument (''drying cycle: ams_id '' @ dec (dc_ams_id d) @ '' is not an AMS unit (''
            @ VALID_AMS_IDS_TEXT @ '')''))
          else if is_external_spool_id (dc_ams_id d)
          then Inl (ModelMismatch (''external spool has no drying chamber '' @ [CHR 0xE2, CHR 0x80, CHR 0x94]
            @ '' drying needs an AMS 2 Pro or AMS-HT''))
          else if is_ams_lite_on_a2l_id (dc_ams_id d)
          then Inl (ModelMismatch (''AMS Lite has no drying chamber '' @ [CHR 0xE2, CHR 0x80, CHR 0x94]
            @ '' drying needs an AMS 2 Pro or AMS-HT''))
          else if (case unit_type of None \<Rightarrow> False | Some u \<Rightarrow> \<not> model_supports_drying u)
          then Inl (ModelMismatch (''attached AMS unit has no drying chamber '' @ [CHR 0xE2, CHR 0x80, CHR 0x94]
            @ '' only the AMS 2 Pro and AMS-HT can dry''))
          else case model_dry_temp_range
              (case unit_type of Some u \<Rightarrow> u | None \<Rightarrow> if is_ams_ht_id (dc_ams_id d) then MAmsHt else MAms2Pro) of
            None \<Rightarrow> Inl (ModelMismatch ''attached AMS unit has no drying chamber'')
          | Some (min_temp, max_temp) \<Rightarrow>
              if temp < min_temp \<or> temp > max_temp
              then Inl (InvalidArgument (''AMS dry temperature '' @ dec temp @ [CHR 0xC2, CHR 0xB0] @ ''C outside this unit''
                @ [CHR 0x27] @ ''s '' @ dec min_temp @ ''-'' @ dec max_temp @ [CHR 0xC2, CHR 0xB0] @ ''C range''))
              else Inr \<lparr>dp_filament = filament, dp_temp = temp, dp_duration_hours = duration_hours,
                dp_humidity = dc_humidity d, dp_rotate_tray = dc_rotate_tray d, dp_cooling_temp = cooling_temp,
                dp_close_power_conflict = dc_close_power_conflict d\<rparr>))"

definition send_cycle :: "platform \<Rightarrow> drying_cycle \<Rightarrow> command_handle command_run" where
  "send_cycle p d c =
     (case cycle_params (cl_core c) d of
        Inl e \<Rightarrow> (Inl e, c)
      | Inr params \<Rightarrow> client_dispatch p (drying_start_request (int (wire_ams_id (dc_ams_id d))) params) c)"

definition stop_drying :: "platform \<Rightarrow> nat \<Rightarrow> command_handle command_run" where
  "stop_drying p ams_id c =
     (if \<not> is_valid_ams_id ams_id
      then (Inl (InvalidArgument (''stop_drying: ams_id '' @ dec ams_id @ '' is not an AMS unit ('' @ VALID_AMS_IDS_TEXT @ '')'')), c)
      else client_dispatch p (drying_stop_request (int (wire_ams_id ams_id))) c)"

end
