(* ===== verification/ClientRuns.thy ===== *)
theory ClientRuns
  imports ClientOps MqttSession RequestsProps
begin

text \<open>
  The steps of a client: every call of it, whatever it does and however it ends, is a run of a few kinds of small steps,
  so an invariant of the steps is one of all calls.
\<close>

section \<open>Steps\<close>

text \<open>Runs of the session alone, keepalives without a read among them.\<close>

inductive session_move :: "platform \<Rightarrow> mqtt_client \<Rightarrow> mqtt_client \<Rightarrow> bool" for p where
  stepped: "session_step (pl_json p) (pl_target p) m m' \<Longrightarrow> session_move p m m'"
| kept_alive: "send_keepalive_if_due (pl_timer p) m = (r, m') \<Longrightarrow> session_move p m m'"

abbreviation session_run :: "platform \<Rightarrow> mqtt_client \<Rightarrow> mqtt_client \<Rightarrow> bool" where
  "session_run p \<equiv> (session_move p)\<^sup>*\<^sup>*"

lemma session_run_step: "session_step (pl_json p) (pl_target p) m m' \<Longrightarrow> session_run p m m'"
  by (rule r_into_rtranclp) (rule stepped)

inductive client_step :: "platform \<Rightarrow> printer_client \<Rightarrow> printer_client \<Rightarrow> bool" for p where
  dialled: "cl_mqtt c = None \<Longrightarrow>
    client_step p c (c\<lparr>cl_dials := ds, cl_left_at := t, cl_conn_counter := n\<rparr>)"
| installed: "session_ok (pl_target p) m \<Longrightarrow> client_step p c (c\<lparr>cl_mqtt := Some m, cl_core := begin_connection (cl_core c)\<rparr>)"
| closed: "client_step p c (close_mqtt_session c)"
| ended: "client_step p c (c\<lparr>cl_core := begin_connection (cl_core c)\<rparr>)"
| reseeded: "client_step p c (reseed_sequence_counter p c)"
| numbered: "client_next_sequence_id c = (n, c') \<Longrightarrow> client_step p c c'"
| published: "publish_payload p payload echo c = (r, c') \<Longrightarrow> client_step p c c'"
| session: "cl_mqtt c = Some m \<Longrightarrow> session_move p m m' \<Longrightarrow> client_step p c (c\<lparr>cl_mqtt := Some m'\<rparr>)"
| tracked: "tracker_step e (cc_commands (cl_core c)) = (out, t) \<Longrightarrow>
    client_step p c (c\<lparr>cl_core := (cl_core c)\<lparr>cc_commands := t\<rparr>\<rparr>)"
| received: "classify_message (pl_derived p) msg (cl_core c) = (event, k) \<Longrightarrow> client_step p c (c\<lparr>cl_core := k\<rparr>)"
| firmware: "client_step p c (c\<lparr>cl_core := note_firmware info (cl_core c)\<rparr>)"
| primed: "client_step p c (c\<lparr>cl_core := (cl_core c)\<lparr>cc_k_profile_primed := True\<rparr>\<rparr>)"
| timeout_set: "client_step p c (set_command_timeout d c)"

abbreviation client_run :: "platform \<Rightarrow> printer_client \<Rightarrow> printer_client \<Rightarrow> bool" where
  "client_run p \<equiv> (client_step p)\<^sup>*\<^sup>*"

named_theorems client_runs

lemma run_step: "client_step p c c' \<Longrightarrow> client_run p c c'"
  by (rule r_into_rtranclp)

lemmas run_trans = rtranclp_trans [of "client_step p" for p]

lemma next_id_run [client_runs]: "client_next_sequence_id c = (n, c') \<Longrightarrow> client_run p c c'"
  by (rule run_step [OF numbered])

lemma publish_payload_run [client_runs]: "publish_payload p payload echo c = (r, c') \<Longrightarrow> client_run p c c'"
  by (rule run_step [OF published])

lemma connect_pushall_run: "client_run p c (publish_connect_pushall p c)"
proof -
  obtain sid c1 where n: "client_next_sequence_id c = (sid, c1)" by fastforce
  have "client_run p c1 (snd (publish_payload p payload echo c1))" for payload echo
    by (rule publish_payload_run [OF surjective_pairing])
  then show ?thesis using next_id_run [OF n]
    by (auto simp: publish_connect_pushall_def n split: sum.split intro: run_trans)
qed

lemma install_run:
  assumes "session_ok (pl_target p) m"
  shows "client_run p c (install_mqtt p m c)"
proof -
  let ?c1 = "c\<lparr>cl_mqtt := Some m, cl_core := begin_connection (cl_core c)\<rparr>"
  have "client_run p c ?c1" by (rule run_step [OF installed [OF assms]])
  also have "client_run p ?c1 (reseed_sequence_counter p ?c1)" by (rule run_step [OF reseeded])
  also have "client_run p \<dots> (publish_connect_pushall p \<dots>)" by (rule connect_pushall_run)
  finally show ?thesis by (simp add: install_mqtt_def)
qed

lemma connect_session:
  assumes "connect tgt conn_id serial access_code s = (Inr m, s')"
  shows "\<exists>s1. m = with_stream s1 serial"
  using assms by (auto simp: connect_def Let_def split: sum.splits prod.splits option.splits if_splits)

lemma race_result: "race_against_connect_timeout t timeout e begun (r, n) = (Inr x, n') \<Longrightarrow> r = Inr x"
  by (auto simp: race_against_connect_timeout_def Let_def split: option.splits if_splits)

lemma dialled_session:
  assumes "race_against_connect_timeout t timeout e begun (dial_mqtt tgt identity n begun d) = (Inr m, done_at)"
  shows "session_ok tgt m"
proof -
  obtain r k where d: "dial_mqtt tgt identity n begun d = (r, k)" by fastforce
  with race_result assms have "r = Inr m" by metis
  with d obtain s s' where "connect tgt n (pi_serial identity) (pi_access_code identity) s = (Inr m, s')"
    by (auto simp: dial_mqtt_def split: sum.splits prod.splits)
  from connect_session [OF this] show ?thesis using session_ok_start by auto
qed

lemma ensure_run [client_runs]:
  assumes "ensure_mqtt p c = (r, c')"
  shows "client_run p c c'"
proof (cases "cl_mqtt c")
  case (Some m)
  with assms show ?thesis by (simp add: ensure_mqtt_def)
next
  case None
  obtain d c1 where d: "next_dial c = (d, c1)" by fastforce
  then have c1: "\<exists>ds. c1 = c\<lparr>cl_dials := ds\<rparr>" by (auto simp: next_dial_def split: list.splits) (metis printer_client.surjective printer_client.update_convs(3))
  obtain x done_at where rc: "race_against_connect_timeout (pl_timer p) (cc_connect_timeout (cl_core c1)) (ds_sleep_error d)
      (client_time c1) (dial_mqtt (pl_target p) (cc_identity (cl_core c1)) (cl_conn_counter c1) (client_time c1) d) = (x, done_at)"
    by fastforce
  define k where "k = (case fst (race_against_connect_timeout (pl_timer p) (cc_connect_timeout (cl_core c1)) (ds_sleep_error d)
      (client_time c1) (map_sum Network id (ds_outcome d), client_time c1 + ds_delay_ms d)) of
      Inl _ \<Rightarrow> cl_conn_counter c1 | Inr _ \<Rightarrow> (cl_conn_counter c1 + 1) mod 4294967296)"
  define c2 where "c2 = c1\<lparr>cl_left_at := done_at, cl_conn_counter := k\<rparr>"
  have dial: "client_run p c c2"
    using c1 dialled [OF None, of p] unfolding c2_def by (auto intro: run_step)
  have "(case x of Inl e \<Rightarrow> (Inl e, c2) | Inr m \<Rightarrow> (Inr (), install_mqtt p m c2)) = (r, c')"
    unfolding c2_def k_def using assms None d rc by (simp add: ensure_mqtt_def Let_def)
  moreover have "session_ok (pl_target p) m" if "x = Inr m" for m
    by (rule dialled_session [OF rc [unfolded that]])
  ultimately show ?thesis using dial run_trans [OF dial install_run] by (auto split: sum.splits)
qed

lemma session_run_lifts:
  assumes "session_run p m m'" "cl_mqtt c = Some m"
  shows "client_run p c (c\<lparr>cl_mqtt := Some m'\<rparr>)"
  using assms
proof (induction rule: rtranclp_induct)
  case base
  then have "c\<lparr>cl_mqtt := Some m\<rparr> = c" by (cases c) simp
  then show ?case by simp
next
  case (step m1 m2)
  have "client_step p (c\<lparr>cl_mqtt := Some m1\<rparr>) (c\<lparr>cl_mqtt := Some m1\<rparr>\<lparr>cl_mqtt := Some m2\<rparr>)"
    by (rule session [OF _ step(2)]) simp
  with step show ?case by (auto intro: rtranclp.rtrancl_into_rtrancl)
qed

lemma with_mqtt_run:
  assumes "with_mqtt p f c = (r, c')"
    "\<And>m x m'. f m = (x, m') \<Longrightarrow> session_run p m m'"
  shows "client_run p c c'"
proof -
  obtain u c1 where e: "ensure_mqtt p c = (u, c1)" by fastforce
  note run = ensure_run [OF e]
  show ?thesis
  proof (cases u)
    case (Inl x)
    with assms(1) e run show ?thesis by (simp add: with_mqtt_def)
  next
    case (Inr x)
    then obtain m where m: "cl_mqtt c1 = Some m" using ensure_connected(1) [OF e [unfolded Inr]] by auto
    obtain y m' where f: "f m = (y, m')" by fastforce
    with assms(1) e Inr m have "c' = c1\<lparr>cl_mqtt := Some m'\<rparr>" by (simp add: with_mqtt_def)
    then show ?thesis using run_trans [OF run session_run_lifts [OF assms(2) [OF f] m]] by simp
  qed
qed

lemma poll_until_loop_run:
  "poll_until_loop p matcher wait shown m = (r, shown', m') \<Longrightarrow> session_run p m m'"
proof (induction p matcher wait shown m arbitrary: r shown' m' rule: poll_until_loop.induct)
  case (1 p matcher wait shown m)
  note unfold = poll_until_loop.simps [of p matcher wait shown m]
  obtain x m1 where w: "poll_wire (pl_json p) (pl_target p) (pl_timer p) m = (x, m1)" by fastforce
  have one: "session_run p m m1" by (rule session_run_step [OF wire [OF w]])
  show ?case
  proof (cases x)
    case (Inl e)
    with 1(2) w one show ?thesis by (simp add: unfold)
  next
    case (Inr msg)
    let ?m2 = "m1\<lparr>mq_pending := push_pending (pl_target p) msg (mq_pending m1)\<rparr>"
    have two: "session_run p m ?m2" by (rule session_run_step [OF set_aside [OF w [unfolded Inr]]])
    show ?thesis
    proof (cases "matcher msg")
      case (Some y)
      with 1(2) w Inr one show ?thesis by (simp add: unfold)
    next
      case None
      obtain a wait1 where am: "after_message (now_millis (pl_timer p) (mq_stream ?m2)) wait = (a, wait1)" by fastforce
      show ?thesis
      proof (cases a)
        case (Inl e)
        with 1(2) w Inr None two am show ?thesis by (simp add: unfold)
      next
        case (Inr u)
        then have "poll_until_loop p matcher wait1 (shown @ [msg]) ?m2 = (r, shown', m')"
          using 1(2) w \<open>x = Inr msg\<close> None am by (simp add: unfold)
        from 1(1) [OF w [symmetric] \<open>x = Inr msg\<close> None refl am [symmetric] Inr this] two
        show ?thesis by (rule rtranclp_trans [rotated])
      qed
    qed
  qed
qed

text \<open>Which message a matcher takes depends only on where it says yes.\<close>

lemma find_index_erase:
  "map_option fst (find_index i (\<lambda>m. if f m = None then None else Some m) ms) = map_option fst (find_index i f ms)"
  by (induction ms arbitrary: i) (auto split: option.split)

lemma take_matching_move:
  assumes "take_pending_matching f (mq_pending m) = (r, pend)"
  shows "session_run p m (m\<lparr>mq_pending := pend\<rparr>)"
proof -
  let ?g = "\<lambda>x. if f x = None then None else Some x"
  have "snd (take_pending_matching ?g (mq_pending m)) = pend"
    using assms find_index_erase [of 0 f "pending_messages (mq_pending m)"]
    by (auto simp: take_pending_matching_def split: option.splits)
  then have "take_pending_matching ?g (mq_pending m) = (fst (take_pending_matching ?g (mq_pending m)), pend)"
    by (simp add: prod_eq_iff)
  from session_run_step [OF take_match [OF this]] show ?thesis .
qed

lemma poll_until_run [client_runs]:
  assumes "poll_until p timeout matcher c = (r, shown, c')"
  shows "client_run p c c'"
proof -
  obtain u c1 where e: "ensure_mqtt p c = (u, c1)" by fastforce
  note run = ensure_run [OF e]
  show ?thesis
  proof (cases u)
    case (Inl x)
    with assms e run show ?thesis by (simp add: poll_until_def)
  next
    case (Inr x)
    then obtain m where m: "cl_mqtt c1 = Some m" using ensure_connected(1) [OF e [unfolded Inr]] by auto
    obtain y pend where t: "take_pending_matching matcher (mq_pending m) = (y, pend)" by fastforce
    let ?m1 = "m\<lparr>mq_pending := pend\<rparr>"
    have taken: "session_run p m ?m1" by (rule take_matching_move [OF t])
    show ?thesis
    proof (cases y)
      case (Some z)
      with assms e Inr m t have "c' = c1\<lparr>cl_mqtt := Some ?m1\<rparr>" by (simp add: poll_until_def)
      with run_trans [OF run session_run_lifts [OF taken m]] show ?thesis by simp
    next
      case None
      obtain q sh m2 where l: "poll_until_loop p matcher
          (start_budget (pl_timer p) (now_millis (pl_timer p) (mq_stream ?m1)) timeout) (pending_messages pend) ?m1 = (q, sh, m2)"
        by (metis prod.exhaust)
      have "session_run p m m2" by (rule rtranclp_trans [OF taken poll_until_loop_run [OF l]])
      from run_trans [OF run session_run_lifts [OF this m]] assms e Inr m t None l show ?thesis
        by (simp add: poll_until_def Let_def)
    qed
  qed
qed

lemma tracked_run: "tracker_step e (cc_commands (cl_core c)) = (out, t) \<Longrightarrow>
    client_run p c (c\<lparr>cl_core := (cl_core c)\<lparr>cc_commands := t\<rparr>\<rparr>)"
  by (rule run_step [OF tracked])

lemma same_commands [simp]: "c\<lparr>cl_core := (cl_core c)\<lparr>cc_commands := cc_commands (cl_core c)\<rparr>\<rparr> = c"
  by (cases c) simp

lemma publish_request_run [client_runs]:
  assumes "publish_request p request c = (r, c')"
  shows "client_run p c c'"
  using assms by (auto simp: publish_request_def split: prod.splits sum.splits) (meson client_runs run_trans)+

lemma dispatch_run [client_runs]:
  assumes "client_dispatch p build c = (r, c')"
  shows "client_run p c c'"
proof -
  have "client_run p c (c2\<lparr>cl_core := (cl_core c2)\<lparr>cc_commands := track h d (cc_commands (cl_core c2))\<rparr>\<rparr>)"
    if "client_run p c c2" for h d c2
    using that tracked_run [of "Published h d" c2] by (auto intro: run_trans)
  note tracked = this
  obtain u c1 sid c2 where e: "ensure_mqtt p c = (u, c1)" "client_next_sequence_id c1 = (sid, c2)" by fastforce
  have one: "client_run p c c1" "client_run p c c2" using e client_runs run_trans by meson+
  have "client_run p c c3" if "publish_payload p payload echo c2 = (x, c3)" for payload echo x c3
    using that one client_runs run_trans by meson
  with assms e one tracked show ?thesis
    by (auto simp: client_dispatch_def Let_def split: prod.splits sum.splits option.splits)
qed

lemma await_ack_run [client_runs]:
  assumes "await_ack p h c = (r, c')"
  shows "client_run p c c'"
proof -
  have forgotten: "client_run p c (c1\<lparr>cl_core := (cl_core c1)\<lparr>cc_commands := forget h (cc_commands (cl_core c1))\<rparr>\<rparr>)"
    if "client_run p c c1" for c1
    using that tracked_run [of "AwaitEnded h NoVerdict" c1] by (auto intro: run_trans)
  have known: "client_run p c (c\<lparr>cl_core := (cl_core c)\<lparr>cc_commands := t\<rparr>\<rparr>)"
    if "take_known h (cc_commands (cl_core c)) = (Some x, t)" for x t
    using that tracked_run [of "AwaitStarted h" c] by auto
  from assms show ?thesis
    by (auto simp: await_ack_def Let_def poll_until_command_timeout_def split: prod.splits sum.splits option.splits if_splits
        intro: known forgotten poll_until_run)
qed

lemma get_version_run [client_runs]:
  assumes "get_version p c = (r, c')"
  shows "client_run p c c'"
proof -
  have noted: "client_run p c (c1\<lparr>cl_core := note_firmware info (cl_core c1)\<rparr>)" if "client_run p c c1" for c1 info
    using that run_step [OF firmware] by (rule run_trans)
  obtain sid c1 where n: "client_next_sequence_id c = (sid, c1)" by fastforce
  obtain u c2 where q: "publish_request p (get_version_request sid) c1 = (u, c2)" by fastforce
  obtain y shown c3 where w: "poll_until_command_timeout p (version_reply p (dec sid)) c2 = (y, shown, c3)"
    by (metis prod.exhaust)
  have one: "client_run p c c2" using n q client_runs run_trans by meson
  moreover have "client_run p c c3" using one poll_until_run w [unfolded poll_until_command_timeout_def] run_trans by meson
  ultimately show ?thesis using assms n q w noted
    by (auto simp: get_version_def split: sum.splits option.splits)
qed

lemma connect_mqtt_run [client_runs]: "connect_mqtt p c = (r, c') \<Longrightarrow> client_run p c c'"
  by (auto simp: connect_mqtt_def prime_firmware_version_def split: prod.splits sum.splits if_splits
      intro: ensure_run run_trans [OF ensure_run get_version_run [OF surjective_pairing]])

lemma close_run: "client_run p c (close_mqtt_session c)"
  by (rule run_step [OF closed])

lemma disconnect_run [client_runs]: "client_run p c (disconnect_mqtt c)"
  unfolding disconnect_mqtt_def by (rule run_trans [OF close_run run_step [OF ended]])

lemma attach_run: "session_ok (pl_target p) m \<Longrightarrow> client_run p c (attach_mqtt p m c)"
  unfolding attach_mqtt_def by (rule run_trans [OF close_run install_run])

lemma next_outcome_run [client_runs]:
  assumes "next_unanswered_outcome p c = (r, c')"
  shows "client_run p c c'"
proof -
  let ?n = "if has_real_clock (pl_timer p) then Some (client_now_ms p c) else None"
  obtain x t where n: "next_unanswered ?n (cc_commands (cl_core c)) = (x, t)" by fastforce
  show ?thesis
    using assms n tracked_run [of "Polled ?n" c] unsettled_next(2)
    by (auto simp: next_unanswered_outcome_def Let_def split: option.splits)
qed

lemma classified_run [client_runs]: "classified p msg c = (r, c') \<Longrightarrow> client_run p c c'"
  by (auto simp: classified_def split: prod.splits intro: run_step [OF received])

lemma poll_run [client_runs]:
  "with_mqtt p (poll_telemetry (pl_json p) (pl_target p) (pl_timer p)) c = (r, c') \<Longrightarrow> client_run p c c'"
  by (erule with_mqtt_run) (rule session_run_step [OF poll])

lemma take_buffered_run [client_runs]:
  assumes "take_buffered c = (r, c')"
  shows "client_run p c c'"
proof (cases "cl_mqtt c")
  case None
  with assms show ?thesis by (simp add: take_buffered_def)
next
  case (Some m)
  obtain x pend where t: "take_pending (mq_pending m) = (x, pend)" by fastforce
  have "session_run p m (m\<lparr>mq_pending := pend\<rparr>)"
  proof (cases x)
    case None
    with take_pending_progress(2) t show ?thesis by fastforce
  next
    case (Some y)
    with t have "poll_telemetry (pl_json p) (pl_target p) (pl_timer p) m = (Inr y, m\<lparr>mq_pending := pend\<rparr>)"
      by (simp add: poll_telemetry_def)
    then show ?thesis by (rule session_run_step [OF poll])
  qed
  from session_run_lifts [OF this Some] assms Some t show ?thesis by (simp add: take_buffered_def)
qed

lemma next_event_run [client_runs]:
  assumes "next_event p c = (r, c')"
  shows "client_run p c c'"
  using assms unfolding next_event_def
  by (auto split: prod.splits sum.splits option.splits) (meson client_runs run_trans)+

lemma ping_run [client_runs]: "client_send_ping p c = (r, c') \<Longrightarrow> client_run p c c'"
  unfolding client_send_ping_def by (erule with_mqtt_run) (rule session_run_step [OF ping])

lemma keepalive_run [client_runs]:
  assumes "keepalive_tick p c = (r, c')"
  shows "client_run p c c'"
proof (rule with_mqtt_run [OF assms [unfolded keepalive_tick_def]])
  fix m x m'
  assume a: "(case send_keepalive_if_due (pl_timer p) m of
      (Inl e, m1) \<Rightarrow> (Inl e, m1)
    | (Inr _, m1) \<Rightarrow> (case tick_zombie_check KEEPALIVE_TICK_SECS m1 of
        (Inl l, m2) \<Rightarrow> (Inl (Liveness l), m2) | (Inr _, m2) \<Rightarrow> (Inr (), m2))) = (x, m')"
  obtain u m1 where k: "send_keepalive_if_due (pl_timer p) m = (u, m1)" by fastforce
  obtain v m2 where t: "tick_zombie_check KEEPALIVE_TICK_SECS m1 = (v, m2)" by fastforce
  have one: "session_run p m m1" by (rule r_into_rtranclp) (rule kept_alive [OF k])
  have "session_run p m1 m2" by (rule session_run_step [OF tick [OF t]])
  with one have "session_run p m m2" by (rule rtranclp_trans)
  with a k t one show "session_run p m m'" by (auto split: sum.splits)
qed

lemma poll_until_done_run [client_runs]: "poll_until_done p is_done wait c = (r, c') \<Longrightarrow> client_run p c c'"
proof (induction p is_done wait c arbitrary: r c' rule: poll_until_done.induct)
  case (1 p is_done wait c)
  obtain x c1 where n: "next_event p c = (x, c1)" by fastforce
  obtain a wait1 where am: "after_message (client_now_ms p c1) wait = (a, wait1)" by fastforce
  note run = next_event_run [OF n]
  show ?case
  proof (cases "is_done c \<or> (\<exists>e. x = Inl e) \<or> a = Inl Timeout")
    case True
    with 1(2) n am run show ?thesis
      by (subst (asm) poll_until_done.simps) (auto split: if_splits sum.splits)
  next
    case False
    then obtain ev where x: "x = Inr ev" by (cases x) auto
    with 1(2) n am False have "poll_until_done p is_done wait1 c1 = (r, c')"
      by (subst (asm) poll_until_done.simps) simp
    from 1(1) [OF _ n [symmetric] x am [symmetric] _ this] False run show ?thesis by (auto intro: run_trans)
  qed
qed

lemma homing_loop_run [client_runs]: "homing_loop p saw wait c = (r, c') \<Longrightarrow> client_run p c c'"
proof (induction p saw wait c arbitrary: r c' rule: homing_loop.induct)
  case (1 p saw wait c)
  obtain x c1 where n: "next_event p c = (x, c1)" by fastforce
  obtain a wait1 where am: "after_message (client_now_ms p c1) wait = (a, wait1)" by fastforce
  let ?h = "client_all_axes_homed (cl_core c1)"
  note run = next_event_run [OF n]
  show ?case
  proof (cases "(\<exists>e. x = Inl e) \<or> (?h = Some True \<and> saw) \<or> (\<exists>e. a = Inl e)")
    case True
    with 1(2) n am run show ?thesis
      by (subst (asm) homing_loop.simps) (auto simp: Let_def split: if_splits sum.splits)
  next
    case False
    then obtain ev u where x: "x = Inr ev" and a: "a = Inr u" by (cases x; cases a) auto
    with 1(2) n am False have "homing_loop p (saw \<or> ?h = Some False) wait1 c1 = (r, c')"
      by (subst (asm) homing_loop.simps) (auto simp: Let_def)
    from 1(1) [OF n [symmetric] x refl _ am [symmetric] a this] False run show ?thesis by (auto intro: run_trans)
  qed
qed

lemma refresh_run [client_runs]:
  assumes "refresh_state p d c = (r, c')"
  shows "client_run p c c'"
proof -
  obtain x c1 where q: "request_pushall p c = (x, c1)" by fastforce
  then have one: "client_run p c c1" unfolding request_pushall_def by (rule dispatch_run)
  have "client_run p c c2" if "poll_until_done p is_done wait c1 = (y, c2)" for is_done wait y c2
    using run_trans [OF one poll_until_done_run [OF that]] .
  with assms q one show ?thesis by (auto simp: refresh_state_def poll_telemetry_until_def split: sum.splits)
qed

lemma prime_k_run [client_runs]:
  assumes "prime_k_profiles p f d c = (r, c')"
  shows "client_run p c c'"
proof -
  obtain sid c1 where n: "client_next_sequence_id c = (sid, c1)" by fastforce
  obtain u c2 where q: "publish_request p (cali_get_request (cali_get_new f d) sid) c1 = (u, c2)" by fastforce
  have one: "client_run p c c2" using n q client_runs run_trans by meson
  with assms n q show ?thesis
    by (auto simp: prime_k_profiles_def split: if_splits sum.splits intro: run_trans [OF _ run_step [OF primed]])
qed

lemma get_k_profiles_run [client_runs]:
  assumes "get_k_profiles p dk f d c = (r, c')"
  shows "client_run p c c'"
proof -
  obtain x c1 where k: "prime_k_profiles p f d c = (x, c1)" by fastforce
  obtain sid c2 where n: "client_next_sequence_id c1 = (sid, c2)" by fastforce
  obtain u c3 where q: "publish_request p (cali_get_request (cali_get_new f d) sid) c2 = (u, c3)" by fastforce
  have one: "client_run p c c1" "client_run p c c3" using k n q client_runs run_trans by meson+
  have "client_run p c c4" if "poll_until_command_timeout p (k_profile_reply dk (dec sid)) c3 = (y, sh, c4)" for y sh c4
    using run_trans [OF one(2) poll_until_run [OF that [unfolded poll_until_command_timeout_def]]] .
  with assms k n q one show ?thesis by (auto simp: get_k_profiles_def split: sum.splits prod.splits)
qed

section \<open>Calls\<close>

text \<open>The commands of the client come down to \<open>client_dispatch\<close>, or refuse and leave the client as it was.\<close>

inductive client_call :: "platform \<Rightarrow> printer_client \<Rightarrow> printer_client \<Rightarrow> bool" for p where
  call_dispatch: "client_dispatch p build c = (r, c') \<Longrightarrow> client_call p c c'"
| call_next_event: "next_event p c = (ev, c') \<Longrightarrow> client_call p c c'"
| call_await: "await_ack p h c = (out, c') \<Longrightarrow> client_call p c c'"
| call_connect: "connect_mqtt p c = (u, c') \<Longrightarrow> client_call p c c'"
| call_disconnect: "client_call p c (disconnect_mqtt c)"
| call_attach: "session_ok (pl_target p) m \<Longrightarrow> client_call p c (attach_mqtt p m c)"
| call_version: "get_version p c = (v, c') \<Longrightarrow> client_call p c c'"
| call_k_profiles: "get_k_profiles p dk f d c = (kr, c') \<Longrightarrow> client_call p c c'"
| call_poll_raw: "poll_raw p c = (msg, c') \<Longrightarrow> client_call p c c'"
| call_ping: "client_send_ping p c = (u, c') \<Longrightarrow> client_call p c c'"
| call_keepalive: "keepalive_tick p c = (u, c') \<Longrightarrow> client_call p c c'"
| call_until: "poll_telemetry_until p d is_done c = (b, c') \<Longrightarrow> client_call p c c'"
| call_refresh: "refresh_state p d c = (b, c') \<Longrightarrow> client_call p c c'"
| call_homing: "wait_for_homing p c = (u, c') \<Longrightarrow> client_call p c c'"
| call_timeout: "client_call p c (set_command_timeout d c)"

lemma call_run: "client_call p c c' \<Longrightarrow> client_run p c c'"
  by (induction rule: client_call.induct)
    (auto simp: poll_raw_def poll_telemetry_until_def wait_for_homing_def
      intro: client_runs attach_run run_step [OF timeout_set])

text \<open>What a step keeps, every call keeps.\<close>

locale client_invariant =
  fixes p :: platform and inv :: "printer_client \<Rightarrow> bool"
  assumes step_keeps: "client_step p c c' \<Longrightarrow> inv c \<Longrightarrow> inv c'"
begin

lemma run_keeps: "client_run p c c' \<Longrightarrow> inv c \<Longrightarrow> inv c'"
  by (induction rule: rtranclp_induct) (auto intro: step_keeps)

lemma calls_keep: "(client_call p)\<^sup>*\<^sup>* c c' \<Longrightarrow> inv c \<Longrightarrow> inv c'"
  by (induction rule: rtranclp_induct) (auto intro: run_keeps call_run)

end

end
