(* ===== verification/ClientProps.thy ===== *)
theory ClientProps
  imports ClientRuns
begin

text \<open>
  What holds of a client however it is used. Its ids stay in the range the firmware keeps, its tracker and its session
  within their bounds, and its identity is the one it was made with.
\<close>

section \<open>The state of a client\<close>

definition ids_in_range :: "client_core \<Rightarrow> bool" where
  "ids_in_range k \<longleftrightarrow> SEQUENCE_ID_FLOOR \<le> cc_sequence_counter k \<and> cc_sequence_counter k < TASK_ID_MAX"

definition client_ok :: "target \<Rightarrow> printer_client \<Rightarrow> bool" where
  "client_ok tgt c \<longleftrightarrow> ids_in_range (cl_core c) \<and> tracker_ok (cc_commands (cl_core c))
     \<and> (case cl_mqtt c of None \<Rightarrow> True | Some m \<Rightarrow> session_ok tgt m)"

lemma begin_connection_select [simp]:
  "cc_sequence_counter (begin_connection k) = cc_sequence_counter k"
  "cc_commands (begin_connection k) = connection_ended (cc_commands k)"
  "cc_identity (begin_connection k) = cc_identity k"
  by (simp_all add: begin_connection_def)

lemma note_accepted_select [simp]:
  "cc_sequence_counter (note_accepted de payload echo k) = cc_sequence_counter k"
  "cc_commands (note_accepted de payload echo k) = cc_commands k"
  "cc_identity (note_accepted de payload echo k) = cc_identity k"
  by (simp_all add: note_accepted_def Let_def record_job_start_def apply_print_option_reply_def split: option.split)

lemma receive_report_select [simp]:
  "cc_sequence_counter (receive_report de payload r k) = cc_sequence_counter k"
  "cc_commands (receive_report de payload r k) = cc_commands k"
  "cc_identity (receive_report de payload r k) = cc_identity k"
  "cc_generation (receive_report de payload r k) = cc_generation k"
  by (simp_all add: receive_report_def)

lemma classify_select:
  assumes "classify_message de msg k = (event, k')"
  shows "cc_sequence_counter k' = cc_sequence_counter k" "cc_identity k' = cc_identity k"
    "tracker_ok (cc_commands k) \<Longrightarrow> tracker_ok (cc_commands k')"
  using assms
  by (auto simp: classify_message_def Let_def split: option.splits prod.splits)
    (auto dest: takes_ok(1) intro: remember_ok)

lemma note_firmware_select [simp]:
  "cc_sequence_counter (note_firmware info k) = cc_sequence_counter k"
  "cc_commands (note_firmware info k) = cc_commands k"
  "cc_identity (note_firmware info k) = cc_identity k"
  by (simp_all add: note_firmware_def split: option.split)

lemma next_in_range:
  assumes "next_sequence_id k = (n, k')" "ids_in_range k"
  shows "ids_in_range k'" "cc_sequence_counter k' = n" "k' = k\<lparr>cc_sequence_counter := n\<rparr>"
  using assms by (auto simp: next_sequence_id_def ids_in_range_def Let_def)

lemma seed_in_range: "ids_in_range (k\<lparr>cc_sequence_counter := sequence_id_from_seed seed\<rparr>)"
  using mod_less_divisor [of "TASK_ID_MAX - SEQUENCE_ID_FLOOR" seed]
  by (simp add: ids_in_range_def sequence_id_from_seed_def)

text \<open>What the moves of the client leave alone.\<close>

lemma publish_payload_same:
  assumes "publish_payload p payload echo c = (r, c')"
  shows "cl_core c' = cl_core c" "cl_left_at c' = cl_left_at c"
    "cl_mqtt c = None \<Longrightarrow> cl_mqtt c' = None"
    "cl_mqtt c = Some m \<Longrightarrow> \<exists>u m'. publish_keyed (pl_target p) (pl_timer p) payload echo m = (u, m') \<and> cl_mqtt c' = Some m'"
  using assms by (auto simp: publish_payload_def split: option.splits prod.splits sum.splits)

lemma next_id_same:
  assumes "client_next_sequence_id c = (n, c')"
  shows "cl_mqtt c' = cl_mqtt c" "next_sequence_id (cl_core c) = (n, cl_core c')" "cl_left_at c' = cl_left_at c"
    "cl_core c' = (cl_core c)\<lparr>cc_sequence_counter := n\<rparr>"
proof -
  obtain k where k: "next_sequence_id (cl_core c) = (n, k)" by (metis assms client_next_sequence_id_def old.prod.case prod.exhaust prod.inject)
  with assms have "c' = c\<lparr>cl_core := k\<rparr>" by (simp add: client_next_sequence_id_def)
  moreover have "k = (cl_core c)\<lparr>cc_sequence_counter := n\<rparr>"
    using k unfolding next_sequence_id_def Let_def prod.inject by blast
  ultimately show "cl_mqtt c' = cl_mqtt c" "next_sequence_id (cl_core c) = (n, cl_core c')" "cl_left_at c' = cl_left_at c"
    "cl_core c' = (cl_core c)\<lparr>cc_sequence_counter := n\<rparr>"
    using k by simp_all
qed

lemma reseed_same:
  "cl_mqtt (reseed_sequence_counter p c) = cl_mqtt c"
  "cc_commands (cl_core (reseed_sequence_counter p c)) = cc_commands (cl_core c)"
  "cc_identity (cl_core (reseed_sequence_counter p c)) = cc_identity (cl_core c)"
  "ids_in_range (cl_core c) \<Longrightarrow> ids_in_range (cl_core (reseed_sequence_counter p c))"
  by (simp_all add: reseed_sequence_counter_def Let_def seed_in_range)

lemma close_same:
  "cl_mqtt (close_mqtt_session c) = None" "cl_core (close_mqtt_session c) = cl_core c"
  by (auto simp: close_mqtt_session_def split: option.splits)

lemma connection_ended_ok [simp]: "tracker_ok t \<Longrightarrow> tracker_ok (connection_ended t)"
  by (simp add: connection_ended_def tracker_ok_def)

lemma session_ok_outbound [simp]: "session_ok tgt (m\<lparr>last_outbound_ms := x\<rparr>) = session_ok tgt m"
  by (simp add: session_ok_def ids_ok_def read_ok_def pending_ok_def dead_def)

lemma session_move_ok: "session_move p m m' \<Longrightarrow> session_ok (pl_target p) m \<Longrightarrow> session_ok (pl_target p) m'"
proof (induction rule: session_move.induct)
  case (stepped m m')
  then show ?case using session_step_ok by blast
next
  case (kept_alive m r m')
  show ?case
  proof (cases "send_ping (pl_timer p) m = (r, m')")
    case True
    then show ?thesis using ping_ok(1) kept_alive by (auto simp: send_ping_def)
  next
    case False
    with kept_alive show ?thesis by (auto simp: send_keepalive_if_due_def split: if_splits option.splits)
  qed
qed

lemma publish_payload_ok: "publish_payload p payload echo c = (r, c') \<Longrightarrow> client_ok (pl_target p) c \<Longrightarrow> client_ok (pl_target p) c'"
  using publish_payload_same [of p payload echo c r c'] publish_ok(1)
  by (cases "cl_mqtt c") (auto simp: client_ok_def)

lemma next_id_ok: "client_next_sequence_id c = (n, c') \<Longrightarrow> client_ok tgt c \<Longrightarrow> client_ok tgt c'"
  using next_id_same [of c n c'] next_in_range(1) [of "cl_core c" n "cl_core c'"] by (simp add: client_ok_def)

interpretation sound: client_invariant p "client_ok (pl_target p)" for p
proof
  fix c c'
  assume step: "client_step p c c'" and ok: "client_ok (pl_target p) c"
  from step show "client_ok (pl_target p) c'"
  proof (cases rule: client_step.cases)
    case (published payload echo r)
    then show ?thesis using ok by (rule publish_payload_ok)
  next
    case (numbered n)
    then show ?thesis using ok by (rule next_id_ok)
  next
    case (tracked e out t)
    then show ?thesis using ok step_ok by (auto simp: client_ok_def ids_in_range_def)
  next
    case (received msg event k)
    then show ?thesis using ok classify_select [of "pl_derived p" msg "cl_core c" event k]
      by (auto simp: client_ok_def ids_in_range_def)
  next
    case (session m m')
    then show ?thesis using ok session_move_ok by (auto simp: client_ok_def)
  next
    case reseeded
    then show ?thesis using ok by (simp add: client_ok_def reseed_same)
  next
    case closed
    then show ?thesis using ok by (simp add: client_ok_def close_same)
  qed (use ok in \<open>auto simp: client_ok_def ids_in_range_def set_command_timeout_def\<close>)
qed

interpretation same_printer: client_invariant p "\<lambda>c. cc_identity (cl_core c) = i" for p i
proof
  fix c c'
  assume step: "client_step p c c'" and same: "cc_identity (cl_core c) = i"
  from step show "cc_identity (cl_core c') = i"
  proof (cases rule: client_step.cases)
    case (published payload echo r)
    then show ?thesis using same publish_payload_same(1) by simp
  next
    case (numbered n)
    then show ?thesis using same next_id_same(4) by simp
  next
    case (received msg event k)
    then show ?thesis using same classify_select [of "pl_derived p" msg "cl_core c" event k] by simp
  qed (use same in \<open>auto simp: reseed_same close_same set_command_timeout_def\<close>)
qed

lemma new_client_ok: "client_ok tgt (new_client identity dials)"
  by (simp add: client_ok_def new_client_def new_core_def ids_in_range_def tracker_ok_def new_tracker_def)

lemma clamp_in_range: "ids_in_range k \<Longrightarrow> clamp_task_id (cc_sequence_counter k) = cc_sequence_counter k"
  by (simp add: ids_in_range_def clamp_task_id_def)

section \<open>Bounds\<close>

text \<open>A platform that serializes nothing, with a silent connection.\<close>

definition quiet_platform :: platform where
  "quiet_platform = \<lparr>pl_target = Embedded, pl_timer = DummyTimer, pl_unix_epoch_ms = None, pl_json = \<lambda>_. None,
     pl_serialize = \<lambda>_. Inl [], pl_type_name = \<lambda>_. [],
     pl_derived = \<lparr>de_report = \<lambda>_. None, de_echo = \<lambda>_. None, de_start_echo = \<lambda>_. None,
       de_print_option_reply = \<lambda>_. None, de_print_key_count = \<lambda>_. None\<rparr>, pl_version_info = \<lambda>_. Inl []\<rparr>"

definition quiet_identity :: printer_identity where
  "quiet_identity = \<lparr>pi_ip = [], pi_serial = ''S'', pi_access_code = [], pi_model = UnknownModel\<rparr>"

definition quiet_stream :: io where
  "quiet_stream = \<lparr>now = 0, sleep_error = None, inbound = [], write_script = [], outbound = []\<rparr>"

text \<open>C8. However a client is used, the ids it numbers its requests with stay from 30000 up and below the largest task id the
  firmware keeps, where clamping changes nothing; it tracks at most 200 commands and remembers at most 32 outcomes; a
  session holds at most 200 unacknowledged packets and no more set-aside bytes than its target allows, but for the one
  message whose acknowledgement was torn; and the printer it speaks to is the one it was made for.\<close>

theorem client_stays_in_bounds:
  assumes "(client_call p)\<^sup>*\<^sup>* (new_client identity dials) c"
  shows "30000 \<le> cc_sequence_counter (cl_core c) \<and> cc_sequence_counter (cl_core c) < 2147483647
    \<and> clamp_task_id (cc_sequence_counter (cl_core c)) = cc_sequence_counter (cl_core c)
    \<and> cc_identity (cl_core c) = identity
    \<and> length (ct_pending (cc_commands (cl_core c))) \<le> 200 \<and> length (ct_resolved (cc_commands (cl_core c))) \<le> 32
    \<and> (case cl_mqtt c of None \<Rightarrow> True
       | Some m \<Rightarrow> length (in_flight m) \<le> 200
           \<and> pending_bytes (mq_pending m) \<le> MQTT_PENDING_BUFFER_MAX_BYTES (pl_target p)
               + (if write_poisoned m \<or> write_in_progress m then MQTT_MAX_PAYLOAD_BYTES (pl_target p) else 0))"
proof -
  have "client_ok (pl_target p) c" by (rule sound.calls_keep [OF assms new_client_ok])
  moreover have "cc_identity (cl_core c) = identity"
    by (rule same_printer.calls_keep [OF assms]) (simp add: new_client_def new_core_def)
  ultimately show ?thesis using clamp_in_range [of "cl_core c"]
    by (auto simp: client_ok_def ids_in_range_def tracker_ok_def session_ok_def ids_ok_def pending_ok_def dead_def
        split: option.splits)
qed

theorem client_stays_in_bounds_witness:
  "\<exists>c. (client_call quiet_platform)\<^sup>*\<^sup>* (new_client quiet_identity []) c \<and> cl_mqtt c \<noteq> None
     \<and> 30000 \<le> cc_sequence_counter (cl_core c) \<and> cc_identity (cl_core c) = quiet_identity"
proof -
  let ?c = "attach_mqtt quiet_platform (with_stream quiet_stream ''S'') (new_client quiet_identity [])"
  have reached: "(client_call quiet_platform)\<^sup>*\<^sup>* (new_client quiet_identity []) ?c"
    by (rule r_into_rtranclp) (rule call_attach [OF session_ok_start])
  have "cl_mqtt ?c \<noteq> None" by (simp add: attach_mqtt_def install_connected)
  with reached client_stays_in_bounds [OF reached] show ?thesis by blast
qed

end
