(* ===== verification/ClientCommands.thy ===== *)
theory ClientCommands
  imports ClientProps MqttFlows
begin

text \<open>
  What the commands of a client have in common, and what some of them check: a command refuses before it does anything,
  or sends one request that its handle names.
\<close>

section \<open>The commands\<close>

inductive client_command :: "platform \<Rightarrow> command_handle command_run \<Rightarrow> bool" for p where
  "client_command p (request_pushall p)"
| "client_command p (send_gcode_raw p line)"
| "client_command p (send_gcode p line)"
| "client_command p (home_all p)"
| "client_command p (home_z_only p)"
| "client_command p (extrude p len feedrate)"
| "client_command p (set_bed_temperature p temp)"
| "client_command p (set_nozzle_temperature p nozzle temp)"
| "client_command p (set_chamber_temperature p temp)"
| "client_command p (set_airduct_mode p duct)"
| "client_command p (set_fan_speed p fan percent)"
| "client_command p (set_led p node turn_on)"
| "client_command p (set_buzzer_mode p buzzer)"
| "client_command p (set_prompt_sound p enable)"
| "client_command p (set_auto_recovery p enable)"
| "client_command p (set_filament_backup p enable)"
| "client_command p (set_filament_tangle_detect p enable)"
| "client_command p (set_nozzle_blob_detect p enable)"
| "client_command p (set_smart_nozzle_blob_detect p blob)"
| "client_command p (set_air_print_detect p enable)"
| "client_command p (set_air_purification p air)"
| "client_command p (set_door_open_check p door)"
| "client_command p (set_idle_heating_protection p enable)"
| "client_command p (set_store_sent_files p enable)"
| "client_command p (set_xcam_detector p detector enable sensitivity)"
| "client_command p (pause_print p)"
| "client_command p (resume_print p)"
| "client_command p (stop_print p)"
| "client_command p (refresh_nozzle p)"
| "client_command p (disable_air_purification p)"
| "client_command p (auto_stop_ams_drying p)"
| "client_command p (clear_print_error p)"
| "client_command p (ignore_error_and_resume p error_code)"
| "client_command p (resume_print_after_error p error_code)"
| "client_command p (stop_print_after_error p error_code)"
| "client_command p (dismiss_error p error_code scope)"
| "client_command p (close_error_dialog p error_code)"
| "client_command p (set_print_speed p speed)"
| "client_command p (skip_objects p ids)"
| "client_command p (start_calibration p options)"
| "client_command p (start_print p sd t conn config)"
| "client_command p (change_filament p ams_id slot_id curr_temp tar_temp extruder_id)"
| "client_command p (scan_rfid p ams_id slot_id)"
| "client_command p (set_tray_filament p ams_id slot_id filament details)"
| "client_command p (select_k_profile p ams_id slot_id cali_idx filament_id nozzle_diameter)"
| "client_command p (send_cycle p cycle)"
| "client_command p (stop_drying p ams_id)"

lemmas command_defs = request_pushall_def send_gcode_raw_def send_gcode_def home_all_def home_z_only_def extrude_def
  set_bed_temperature_def set_nozzle_temperature_def set_chamber_temperature_def set_airduct_mode_def set_fan_speed_def
  set_led_def set_buzzer_mode_def set_prompt_sound_def set_auto_recovery_def set_filament_backup_def
  set_filament_tangle_detect_def set_nozzle_blob_detect_def set_smart_nozzle_blob_detect_def set_air_print_detect_def
  set_air_purification_def set_door_open_check_def set_idle_heating_protection_def set_store_sent_files_def
  set_xcam_detector_def pause_print_def resume_print_def stop_print_def refresh_nozzle_def disable_air_purification_def
  auto_stop_ams_drying_def clear_print_error_def ignore_error_and_resume_def resume_print_after_error_def
  stop_print_after_error_def dismiss_error_def close_error_dialog_def set_print_speed_def skip_objects_def
  start_calibration_def start_print_def change_filament_def scan_rfid_def set_tray_filament_def select_k_profile_def
  send_cycle_def stop_drying_def

text \<open>Refused with the client as it was, or one request dispatched.\<close>

definition one_request :: "platform \<Rightarrow> (error + command_handle) \<times> printer_client \<Rightarrow> printer_client \<Rightarrow> bool" where
  "one_request p result c \<longleftrightarrow>
     (\<exists>e. result = (Inl e, c)) \<or> (\<exists>name build. addressed name build \<and> result = client_dispatch p build c)"

lemma one_refused: "one_request p (Inl e, c) c"
  by (simp add: one_request_def)

lemma one_sent: "addressed name build \<Longrightarrow> one_request p (client_dispatch p build c) c"
  by (auto simp: one_request_def)

lemma one_guarded: "one_request p (f c) c \<Longrightarrow> one_request p (guarded g f c) c"
  by (auto simp: guarded_def one_refused split: sum.split)

lemmas one_published = publishes.intros [THEN publishes_addressed, THEN one_sent]

lemma cali_sel_addressed: "addressed ''extrusion_cali_sel'' (cali_sel_request address cali_idx filament_id nozzle_diameter)"
  by (simp add: addressed_def cali_sel_request_def namespaced_def)

lemma command_one_request: "client_command p op \<Longrightarrow> one_request p (op c) c"
  by (induction rule: client_command.induct)
    (simp_all add: command_defs one_guarded one_published one_refused one_sent [OF cali_sel_addressed] Let_def
      split: option.split sum.split)

section \<open>On the wire\<close>

lemma publish_keyed_sends:
  assumes "publish_keyed tgt t payload echo m = (Inr i, m')"
  shows "outbound (mq_stream m') = outbound (mq_stream m) @ encode_publish_qos1 (next_packet_id m) (request_topic m) payload"
proof -
  let ?packet = "encode_publish_qos1 (next_packet_id m) (request_topic m) payload"
  let ?m1 = "m\<lparr>next_packet_id := advance_packet_id (next_packet_id m)\<rparr>"
  have b: "publish_begin tgt payload m = (Inr (next_packet_id m, ?packet), ?m1)"
    using assms by (auto simp: publish_keyed_def publish_begin_def Let_def split: if_splits)
  then obtain m2 where w: "write_frame_guarded t ?packet ?m1 = (Inr (), m2)" and m': "mq_stream m' = mq_stream m2"
    using assms by (auto simp: publish_keyed_def Let_def split: sum.splits prod.splits if_splits)
  have alive: "\<not> dead ?m1"
    using w by (auto simp: write_frame_guarded_def note_cancelled_def dead_def Let_def split: if_splits)
  have "is_packet ?packet"
    using assms is_packet_encodings by (auto simp: publish_keyed_def publish_begin_def split: if_splits)
  from write_frame_guarded_wrote(2) [OF w this alive] m' show ?thesis by simp
qed

text \<open>The packet a handle stands for, from the session before to the session after.\<close>

definition sent_as :: "platform \<Rightarrow> command_handle \<Rightarrow> mqtt_client \<Rightarrow> mqtt_client \<Rightarrow> bool" where
  "sent_as p h m m' \<longleftrightarrow>
     (\<exists>payload. outbound (mq_stream m') = outbound (mq_stream m) @ encode_publish_qos1 (next_packet_id m) (request_topic m) payload
        \<and> echo_key (pl_json p) payload = Some \<lparr>ek_command = ch_command h, ek_sequence_id = ch_sequence_id h\<rparr>)"

definition faithful_serde :: "platform \<Rightarrow> bool" where
  "faithful_serde p \<longleftrightarrow> (\<forall>request payload. pl_serialize p request = Inr payload \<longrightarrow> pl_json p payload = Some (canon request))"

lemma dispatch_sent:
  assumes "client_dispatch p build c = (Inr h, c')" "addressed name build" "faithful_serde p" "client_ok (pl_target p) c"
  shows "\<exists>c1 m m' d. ensure_mqtt p c = (Inr (), c1) \<and> cl_mqtt c1 = Some m \<and> cl_mqtt c' = Some m' \<and> sent_as p h m m'
    \<and> ch_sequence_id h = cc_sequence_counter (cl_core c') \<and> ids_in_range (cl_core c')
    \<and> ch_ack h = (if command_echoes (ch_command h) then Echoes else SettlesOnPublish)
    \<and> cc_commands (cl_core c') = track h d (cc_commands (cl_core c1))"
proof -
  obtain u c1 where e: "ensure_mqtt p c = (u, c1)" by fastforce
  with assms(1) have u: "u = Inr ()" by (cases u) (auto simp: client_dispatch_def)
  then obtain m where m: "cl_mqtt c1 = Some m" using ensure_connected(1) e by blast
  have ok1: "client_ok (pl_target p) c1" using sound.run_keeps [OF ensure_run [OF e] assms(4)] .
  obtain sid c2 where n: "client_next_sequence_id c1 = (sid, c2)" by fastforce
  note c2 = next_id_same [OF n] next_id_ok [OF n ok1]
  then have range: "ids_in_range (cl_core c2)" "cc_sequence_counter (cl_core c2) = sid" by (simp_all add: client_ok_def)
  then have sid: "clamp_task_id sid = sid" "sid mod 4294967296 = sid" using clamp_in_range [OF range(1)]
    by (simp_all add: ids_in_range_def)
  obtain payload where s: "pl_serialize p (build sid) = Inr payload"
    using assms(1) e u n by (auto simp: client_dispatch_def serialize_def split: sum.splits)
  with assms(3) have "pl_json p payload = Some (canon (build sid))" by (simp add: faithful_serde_def)
  then have "echo_key (pl_json p) payload = Some \<lparr>ek_command = name, ek_sequence_id = clamp_task_id sid\<rparr>"
    by (rule addressed_echo [OF assms(2)])
  then have echo: "echo_key (pl_json p) payload = Some \<lparr>ek_command = name, ek_sequence_id = sid\<rparr>" using sid by simp
  obtain x c3 where q: "publish_payload p payload (Some \<lparr>ek_command = name, ek_sequence_id = sid\<rparr>) c2 = (x, c3)" by fastforce
  with assms(1) e u n s echo have x: "x = Inr ()" by (cases x) (simp_all add: client_dispatch_def serialize_def)
  note same = publish_payload_same(1) [OF q]
  have h: "h = \<lparr>ch_command = name, ch_sequence_id = sid,
      ch_ack = (if command_echoes name then Echoes else SettlesOnPublish)\<rparr>"
    and c': "cl_mqtt c' = cl_mqtt c3" "cl_core c' = (cl_core c3)\<lparr>cc_commands := track h
      (command_deadline_ms (pl_timer p) (client_now_ms p c3) (cl_core c3)) (cc_commands (cl_core c3))\<rparr>"
    using assms(1) e u n s echo q x sid by (auto simp: client_dispatch_def serialize_def Let_def)
  have m2: "cl_mqtt c2 = Some m" using m c2(1) by simp
  then obtain i m' where k: "publish_keyed (pl_target p) (pl_timer p) payload (Some \<lparr>ek_command = name, ek_sequence_id = sid\<rparr>) m
      = (Inr i, m')" "cl_mqtt c3 = Some m'"
    using q x by (auto simp: publish_payload_def split: prod.splits sum.splits)
  from publish_keyed_sends [OF k(1)] echo have "sent_as p h m m'" by (auto simp: sent_as_def h)
  then show ?thesis using e u m k(2) c' same range c2(4) by (auto simp: h ids_in_range_def)
qed

lemma dispatch_failed:
  assumes "client_dispatch p build c = (Inl e, c')"
  shows "cc_commands (cl_core c') = cc_commands (cl_core (snd (ensure_mqtt p c)))"
proof -
  have "cc_commands (cl_core c2) = cc_commands (cl_core c1)" if "client_next_sequence_id c1 = (n, c2)" for c1 n c2
    using next_id_same(4) [OF that] by simp
  with assms show ?thesis
    by (auto simp: client_dispatch_def Let_def publish_payload_same(1) split: prod.splits sum.splits option.splits)
qed

text \<open>A connection that takes what is written to it, with room for a packet.\<close>

definition writable :: "mqtt_client \<Rightarrow> bool" where
  "writable m \<longleftrightarrow> \<not> dead m \<and> write_script (mq_stream m) = [] \<and> length (in_flight m) < MQTT_IN_FLIGHT_LIMIT"

lemma publish_keyed_goes_out:
  assumes "writable m" "length payload \<le> MQTT_MAX_PAYLOAD_BYTES tgt"
  shows "\<exists>m'. publish_keyed tgt DummyTimer payload echo m = (Inr (next_packet_id m), m')"
  using assms
  by (simp add: publish_keyed_def publish_begin_def writable_def dead_def write_frame_guarded_def note_cancelled_def
      write_frame_with_timer_def write_frame_through Let_def)

lemma dispatch_goes_out:
  assumes "cl_mqtt c = Some m" "writable m" "pl_timer p = DummyTimer" "addressed name build" "faithful_serde p"
    "client_ok (pl_target p) c" "next_sequence_id (cl_core c) = (sid, k)"
    "pl_serialize p (build sid) = Inr payload" "length payload \<le> MQTT_MAX_PAYLOAD_BYTES (pl_target p)"
  shows "\<exists>h c'. client_dispatch p build c = (Inr h, c')"
proof -
  have n: "client_next_sequence_id c = (sid, c\<lparr>cl_core := k\<rparr>)" using assms(7) by (simp add: client_next_sequence_id_def)
  have "pl_json p payload = Some (canon (build sid))" using assms(5,8) by (simp add: faithful_serde_def)
  then have "echo_key (pl_json p) payload = Some \<lparr>ek_command = name, ek_sequence_id = clamp_task_id sid\<rparr>"
    by (rule addressed_echo [OF assms(4)])
  then obtain echo where echo: "echo_key (pl_json p) payload = Some echo" by blast
  obtain m' where "publish_keyed (pl_target p) DummyTimer payload (Some echo) m = (Inr (next_packet_id m), m')"
    using publish_keyed_goes_out [OF assms(2,9)] by blast
  then show ?thesis using assms(1,3,8) n echo
    by (simp add: client_dispatch_def ensure_mqtt_def serialize_def publish_payload_def Let_def)
qed

text \<open>C3. In any state a client reaches, a command either refuses and leaves the client exactly as it was, or fails without
  being tracked, or returns the handle of the one request it appended to the connection: its packet is published with the
  next packet id, names the command and the sequence id of the handle, which is the next of the client's and in the range the
  firmware keeps, so that the reply can be told apart; and the handle is tracked, with an acknowledgement expected exactly for
  the commands that are echoed. (Serialization is trusted to write the document it is given.)\<close>

theorem command_refuses_or_sends_one:
  assumes "(client_call p)\<^sup>*\<^sup>* (new_client identity dials) c" "client_command p op" "op c = (r, c')" "faithful_serde p"
  shows "case r of
      Inl e \<Rightarrow> c' = c \<or> cc_commands (cl_core c') = cc_commands (cl_core (snd (ensure_mqtt p c)))
    | Inr h \<Rightarrow> \<exists>c1 m m' d. ensure_mqtt p c = (Inr (), c1) \<and> cl_mqtt c1 = Some m \<and> cl_mqtt c' = Some m' \<and> sent_as p h m m'
        \<and> ch_sequence_id h = cc_sequence_counter (cl_core c') \<and> 30000 \<le> ch_sequence_id h \<and> ch_sequence_id h < 2147483647
        \<and> ch_ack h = (if command_echoes (ch_command h) then Echoes else SettlesOnPublish)
        \<and> cc_commands (cl_core c') = track h d (cc_commands (cl_core c1))"
proof -
  have ok: "client_ok (pl_target p) c" by (rule sound.calls_keep [OF assms(1) new_client_ok])
  from command_one_request [OF assms(2), of c] assms(3)
  consider e where "r = Inl e" "c' = c" | name build where "addressed name build" "client_dispatch p build c = (r, c')"
    by (auto simp: one_request_def)
  then show ?thesis
  proof cases
    case 1
    then show ?thesis by simp
  next
    case (2 name build)
    show ?thesis
    proof (cases r)
      case (Inl e)
      with dispatch_failed 2(2) show ?thesis by auto
    next
      case (Inr h)
      from dispatch_sent [OF 2(2) [unfolded Inr] 2(1) assms(4) ok] Inr show ?thesis by (auto simp: ids_in_range_def)
    qed
  qed
qed

text \<open>A platform whose serializer knows one request.\<close>

definition pausing_platform :: platform where
  "pausing_platform = quiet_platform\<lparr>
     pl_serialize := \<lambda>request. if request = standard_control_request CPause 30002 then Inr [1] else Inl [],
     pl_json := \<lambda>_. Some (canon (standard_control_request CPause 30002))\<rparr>"

lemma pausing_select: "pl_timer pausing_platform = DummyTimer"
  "pl_serialize pausing_platform = (\<lambda>request. if request = standard_control_request CPause 30002 then Inr [1] else Inl [])"
  "pl_target pausing_platform = Embedded"
  by (simp_all add: pausing_platform_def quiet_platform_def)

lemma pausing_attached:
  defines "c \<equiv> attach_mqtt pausing_platform (with_stream quiet_stream ''S'') (new_client quiet_identity [])"
  shows "cl_mqtt c = Some (with_stream quiet_stream ''S'')" "cc_sequence_counter (cl_core c) = 30001"
proof -
  define c1 where "c1 = reseed_sequence_counter pausing_platform ((close_mqtt_session (new_client quiet_identity []))
    \<lparr>cl_mqtt := Some (with_stream quiet_stream ''S''),
     cl_core := begin_connection (cl_core (close_mqtt_session (new_client quiet_identity [])))\<rparr>)"
  have c1: "cl_mqtt c1 = Some (with_stream quiet_stream ''S'')" "cc_sequence_counter (cl_core c1) = 30000"
    by (simp_all add: c1_def reseed_same) (simp add: reseed_sequence_counter_def pausing_select close_same new_client_def new_core_def)
  obtain n c2 where n: "client_next_sequence_id c1 = (n, c2)" by fastforce
  have "n = 30001" using next_id_same(2) [OF n] c1(2) by (simp add: next_sequence_id_def)
  then have c2: "cl_mqtt c2 = Some (with_stream quiet_stream ''S'')" "cc_sequence_counter (cl_core c2) = 30001"
    using next_id_same [OF n] c1 by simp_all
  have "\<exists>e. serialize pausing_platform (pushall_request n) = Inl e"
    by (simp add: serialize_def pausing_select pushall_request_def standard_control_request_def namespaced_def)
  then have "publish_connect_pushall pausing_platform c1 = c2" by (auto simp: publish_connect_pushall_def n)
  then have "c = c2" by (simp add: c_def attach_mqtt_def install_mqtt_def c1_def)
  with c2 show "cl_mqtt c = Some (with_stream quiet_stream ''S'')" "cc_sequence_counter (cl_core c) = 30001"
    by simp_all
qed

theorem command_refuses_or_sends_one_witness:
  "\<exists>c h c' m m'. (client_call pausing_platform)\<^sup>*\<^sup>* (new_client quiet_identity []) c
     \<and> pause_print pausing_platform c = (Inr h, c') \<and> cl_mqtt c = Some m \<and> sent_as pausing_platform h m m'"
proof -
  let ?m = "with_stream quiet_stream ''S''"
  define c where "c = attach_mqtt pausing_platform ?m (new_client quiet_identity [])"
  note c = pausing_attached [folded c_def]
  have reached: "(client_call pausing_platform)\<^sup>*\<^sup>* (new_client quiet_identity []) c"
    unfolding c_def by (rule r_into_rtranclp) (rule call_attach [OF session_ok_start])
  have serde: "faithful_serde pausing_platform"
    by (simp add: faithful_serde_def pausing_platform_def)
  have "next_sequence_id (cl_core c) = (30002, (cl_core c)\<lparr>cc_sequence_counter := 30002\<rparr>)"
    using c(2) by (simp add: next_sequence_id_def)
  moreover have "writable ?m" by (simp add: writable_def with_stream_def quiet_stream_def dead_def)
  ultimately obtain h c' where sent: "pause_print pausing_platform c = (Inr h, c')"
    using dispatch_goes_out [where build = "standard_control_request CPause" and payload = "[1]",
        OF c(1) _ pausing_select(1) publishes_addressed [OF publishes.intros(5)] serde]
      sound.calls_keep [OF reached new_client_ok]
    by (auto simp: pausing_select pause_print_def)
  from command_refuses_or_sends_one [OF reached client_command.intros(26) sent serde]
  obtain m' where "sent_as pausing_platform h ?m m'"
    using c(1) by (auto simp: ensure_mqtt_def)
  then show ?thesis using reached sent c by blast
qed

end
