(* ===== verification/ClientSafety.thy ===== *)
theory ClientSafety
  imports ClientOps GcodeProps
begin

text \<open>
  What the commands check before they are sent: the G-code a client writes itself is G-code it would let through, a drying
  cycle is one the unit can run, and a print is of a file made for the printer.
\<close>

section \<open>The client's own G-code\<close>

lemma words_Nil [simp]: "words [] = []"
  by (subst words.simps) simp

lemma words_blank [simp]: "words (CHR '' '' # s) = words s"
  by (subst (1 2) words.simps) (simp add: is_ascii_alphabetic_def is_ascii_upper_def is_ascii_lower_def)

lemma words_number:
  assumes "is_ascii_alphabetic c" "ds \<noteq> []" "list_all is_ascii_digit ds" "rest = [] \<or> hd rest = CHR '' ''"
  shows "words (c # ds @ rest) = \<lparr>letter = to_ascii_upper c, arg = ds, ambiguous = False\<rparr> # words rest"
proof -
  have num: "\<forall>d \<in> set ds. is_numeric_char d" using assms(3) by (auto simp: list_all_iff is_numeric_char_def)
  obtain d ds' where ds: "ds = d # ds'" using assms(2) by (cases ds) auto
  with assms(3) have "\<not> is_blank d" by (auto simp: is_blank_def is_ascii_digit_def)
  then have r: "dropWhile is_blank (ds @ rest) = ds @ rest" by (simp add: ds)
  have "\<not> is_numeric_char (CHR '' '')" by (simp add: is_numeric_char_def is_ascii_digit_def)
  then have stop: "takeWhile is_numeric_char rest = []" "dropWhile is_numeric_char rest = rest"
    using assms(4) by (cases rest; auto)+
  have "takeWhile is_numeric_char (ds @ rest) = ds" "dropWhile is_numeric_char (ds @ rest) = rest"
    using num stop by (simp_all add: takeWhile_append dropWhile_append)
  then show ?thesis using assms(1,4) r by (subst words.simps) (auto simp: Let_def)
qed

definition plain_line :: "string \<Rightarrow> bool" where
  "plain_line line \<longleftrightarrow> list_all (\<lambda>c. c \<noteq> CHR '';'' \<and> c \<noteq> CHR ''('' \<and> code c \<noteq> 10 \<and> code c \<noteq> 13) line"

lemma plain_line_append [simp]: "plain_line (a @ b) \<longleftrightarrow> plain_line a \<and> plain_line b"
  by (simp add: plain_line_def)

lemma plain_line_dec [simp]: "plain_line (dec n)"
  using dec_digits [of n] by (auto simp: plain_line_def list_all_iff is_ascii_digit_def)

lemma validate_plain:
  assumes "plain_line line"
  shows "validate line reject temps = scan_words reject temps None True False (words line)"
proof -
  have "gcode_lines line = [line]"
    using assms split_on_none [of line "\<lambda>c. code c = 10 \<or> code c = 13"] by (simp add: gcode_lines_def plain_line_def list_all_iff)
  moreover have "position (\<lambda>c. c = CHR '';'' \<or> c = CHR ''('') line = None"
    using assms by (auto simp: position_None_iff plain_line_def list_all_iff)
  then have "executable line = line" by (subst executable.simps) simp
  ultimately show ?thesis by (simp add: validate_def scan_statement_def split: sum.split)
qed

lemma parse_dec_f32: "n < 65536 \<Longrightarrow> parse_finite_f32 (dec n) = Some (of_nat n)"
proof -
  assume n: "n < 65536"
  obtain c cs where d: "dec n = c # cs" using dec_digits [of n] by (cases "dec n") auto
  have digits: "\<forall>d \<in> set (dec n). is_ascii_digit d" using dec_digits [of n] by (simp add: list_all_iff)
  then have "c \<noteq> CHR ''-''" "c \<noteq> CHR ''+''" using d by (auto simp: is_ascii_digit_def)
  moreover have "decimal_magnitude (dec n) = Some (of_nat n)"
    using digits dec_digits [of n] by (simp add: decimal_magnitude_def takeWhile_eq_all_conv [THEN iffD2] dropWhile_eq_Nil_conv [THEN iffD2])
  ultimately show ?thesis using n d by (simp add: parse_finite_f32_def parse_decimal_def f32_whole_exact)
qed

lemma dec_token: "dec n \<noteq> []" "list_all is_ascii_digit (dec n)"
  using dec_digits [of n] by simp_all

lemma words_argument: "is_ascii_alphabetic c \<Longrightarrow> words (c # dec n) = [\<lparr>letter = to_ascii_upper c, arg = dec n, ambiguous = False\<rparr>]"
  using words_number [of c "dec n" "[]"] dec_token by simp

lemma words_command:
  assumes "list_all is_ascii_digit ds" "ds \<noteq> []"
  shows "words (CHR ''M'' # ds @ CHR '' '' # s) = \<lparr>letter = CHR ''M'', arg = ds, ambiguous = False\<rparr> # words s"
  using words_number [of "CHR ''M''" ds "CHR '' '' # s"] assms by (simp add: ascii_defs to_ascii_upper_def)

lemma command_numbers:
  "command_number ''104'' = Some 104" "command_number ''106'' = Some 106" "command_number ''140'' = Some 140"
  "command_number ''141'' = Some 141" "command_number ''28'' = Some 28"
  by (simp_all add: command_number_def parse_unsigned_def is_ascii_digit_def digits_value_def digit_value_def)

lemma letters: "is_ascii_alphabetic CHR ''S''" "is_ascii_alphabetic CHR ''T''" "is_ascii_alphabetic CHR ''P''"
  "to_ascii_upper CHR ''S'' = CHR ''S''" "to_ascii_upper CHR ''T'' = CHR ''T''" "to_ascii_upper CHR ''P'' = CHR ''P''"
  by (simp_all add: ascii_defs to_ascii_upper_def)

lemma clamped_checks:
  "clamp_temp t limit \<le> limit"
  "check_temp n \<lparr>letter = c, arg = dec (unat (clamp_temp t limit)), ambiguous = False\<rparr> limit label = Inr ()"
proof -
  show le: "clamp_temp t limit \<le> limit" by (auto simp: clamp_temp_def not_less)
  have "unat (clamp_temp t limit) < 65536" using unsigned_less [of "clamp_temp t limit"] by simp
  moreover have "unat (clamp_temp t limit) \<le> unat limit" using le by (simp add: word_le_nat_alt)
  ultimately have "parse_finite_f32 (dec (unat (clamp_temp t limit))) = Some (of_nat (unat (clamp_temp t limit)))"
    "\<not> (of_nat (unat limit) :: rat) < of_nat (unat (clamp_temp t limit))"
    by (simp add: parse_dec_f32) (metis not_less of_nat_le_iff \<open>unat (clamp_temp t limit) \<le> unat limit\<close>)
  then show "check_temp n \<lparr>letter = c, arg = dec (unat (clamp_temp t limit)), ambiguous = False\<rparr> limit label = Inr ()"
    by (simp only: check_temp_def gword.select_convs if_False option.case)
qed

lemmas token_simps = words_command [of "''140''"] words_command [of "''141''"] words_command [of "''104''"] words_command [of "''106''"]

lemma heat_words:
  "words (''M140 S'' @ dec n) = [\<lparr>letter = CHR ''M'', arg = ''140'', ambiguous = False\<rparr>, \<lparr>letter = CHR ''S'', arg = dec n, ambiguous = False\<rparr>]"
  "words (''M141 S'' @ dec n) = [\<lparr>letter = CHR ''M'', arg = ''141'', ambiguous = False\<rparr>, \<lparr>letter = CHR ''S'', arg = dec n, ambiguous = False\<rparr>]"
  "words (''M104 T'' @ dec i @ '' S'' @ dec n) = [\<lparr>letter = CHR ''M'', arg = ''104'', ambiguous = False\<rparr>,
     \<lparr>letter = CHR ''T'', arg = dec i, ambiguous = False\<rparr>, \<lparr>letter = CHR ''S'', arg = dec n, ambiguous = False\<rparr>]"
  "words (''M106 P'' @ dec i @ '' S'' @ dec n) = [\<lparr>letter = CHR ''M'', arg = ''106'', ambiguous = False\<rparr>,
     \<lparr>letter = CHR ''P'', arg = dec i, ambiguous = False\<rparr>, \<lparr>letter = CHR ''S'', arg = dec n, ambiguous = False\<rparr>]"
  using token_simps words_number [of "CHR ''T''" "dec i" "'' S'' @ dec n"] words_number [of "CHR ''P''" "dec i" "'' S'' @ dec n"]
  by (simp_all add: is_ascii_digit_def dec_token words_argument letters)

lemma home_words:
  "words ''G28'' = [\<lparr>letter = CHR ''G'', arg = ''28'', ambiguous = False\<rparr>]"
  "words ''G28 Z'' = [\<lparr>letter = CHR ''G'', arg = ''28'', ambiguous = False\<rparr>, \<lparr>letter = CHR ''Z'', arg = [], ambiguous = False\<rparr>]"
proof -
  have z: "words ''Z'' = [\<lparr>letter = CHR ''Z'', arg = [], ambiguous = False\<rparr>]"
    by (subst words.simps) (simp add: ascii_defs to_ascii_upper_def)
  show "words ''G28'' = [\<lparr>letter = CHR ''G'', arg = ''28'', ambiguous = False\<rparr>]"
    "words ''G28 Z'' = [\<lparr>letter = CHR ''G'', arg = ''28'', ambiguous = False\<rparr>, \<lparr>letter = CHR ''Z'', arg = [], ambiguous = False\<rparr>]"
    using words_number [of "CHR ''G''" "''28''" "[]"] words_number [of "CHR ''G''" "''28''" "'' Z''"] z
    by (simp_all add: ascii_defs to_ascii_upper_def)
qed

text \<open>C21. The G-code a client writes itself is G-code its own scan lets through, whatever was asked for: the bed, nozzle and
  chamber commands carry a temperature brought down to the limit the scan compares with (of the bed, the one for the mains
  voltage last reported), the fan command and homing all axes touch no limit, and homing Z alone, which the client
  refuses exactly where the bed moves on Z, is refused by the scan exactly there.\<close>

theorem own_gcode_passes:
  "validate_gcode (client_quirks k) (bed_gcode k t) (client_is_220v_power k) = Inr ()
    \<and> validate_gcode (client_quirks k) (nozzle_gcode k i t) (client_is_220v_power k) = Inr ()
    \<and> (case q_chamber_heater_temp_max (client_quirks k) of None \<Rightarrow> True
       | Some maximum \<Rightarrow> validate_gcode (client_quirks k) (chamber_gcode maximum t) (client_is_220v_power k) = Inr ())
    \<and> validate_gcode (client_quirks k) (fan_gcode fan percent) (client_is_220v_power k) = Inr ()
    \<and> validate_gcode (client_quirks k) ''G28'' (client_is_220v_power k) = Inr ()
    \<and> (validate_gcode (client_quirks k) ''G28 Z'' (client_is_220v_power k) = Inr () \<longleftrightarrow> \<not> q_bed_on_z (client_quirks k))"
proof -
  have plain: "plain_line (''M140 S'' @ dec n)" "plain_line (''M141 S'' @ dec n)" "plain_line (''M104 T'' @ dec m @ '' S'' @ dec n)"
    "plain_line (''M106 P'' @ dec m @ '' S'' @ dec n)" "plain_line ''G28''" "plain_line ''G28 Z''" for m n
    using plain_line_dec unfolding plain_line_append by (simp_all add: plain_line_def)
  note scan = word_command_def command_numbers heater_argument_def quirks_temp_limits_def clamped_checks(2)
    no_chamber_heater_def Let_def
  have "validate_gcode (client_quirks k) (bed_gcode k t) (client_is_220v_power k) = Inr ()"
    unfolding validate_gcode_def bed_gcode_def validate_plain [OF plain(1)] heat_words by (simp add: scan)
  moreover have "validate_gcode (client_quirks k) (nozzle_gcode k i t) (client_is_220v_power k) = Inr ()"
    unfolding validate_gcode_def nozzle_gcode_def validate_plain [OF plain(3)] heat_words by (simp add: scan)
  moreover have "validate_gcode (client_quirks k) (chamber_gcode maximum t) (client_is_220v_power k) = Inr ()"
    if "q_chamber_heater_temp_max (client_quirks k) = Some maximum" for maximum
    unfolding validate_gcode_def chamber_gcode_def validate_plain [OF plain(2)] heat_words by (simp add: scan that)
  moreover have "validate_gcode (client_quirks k) (fan_gcode fan percent) (client_is_220v_power k) = Inr ()"
    unfolding validate_gcode_def fan_gcode_def validate_plain [OF plain(4)] heat_words by (simp add: scan)
  moreover have "validate_gcode (client_quirks k) ''G28'' (client_is_220v_power k) = Inr ()"
    unfolding validate_gcode_def validate_plain [OF plain(5)] home_words by (simp add: scan)
  moreover have "validate_gcode (client_quirks k) ''G28 Z'' (client_is_220v_power k) = Inr () \<longleftrightarrow> \<not> q_bed_on_z (client_quirks k)"
    unfolding validate_gcode_def validate_plain [OF plain(6)] home_words by (simp add: scan)
  ultimately show ?thesis by (simp split: option.split)
qed

section \<open>Drying\<close>

text \<open>The dryer a unit is taken for: the kind it reported, or the one its id stands for.\<close>

definition dryer_of :: "client_core \<Rightarrow> nat \<Rightarrow> ams_unit_model" where
  "dryer_of k ams_id =
     (case client_ams_unit_model ams_id k of Some u \<Rightarrow> u | None \<Rightarrow> if is_ams_ht_id ams_id then MAmsHt else MAms2Pro)"

lemma cycle_params_started:
  assumes "cycle_params k d = Inr params"
  shows "is_supported (capability ams_remote_drying_support k)" "is_valid_ams_id (dc_ams_id d)"
    "\<not> is_external_spool_id (dc_ams_id d)" "\<not> is_ams_lite_on_a2l_id (dc_ams_id d)"
    "\<exists>low high. model_dry_temp_range (dryer_of k (dc_ams_id d)) = Some (low, high) \<and> low \<le> dp_temp params \<and> dp_temp params \<le> high"
    "or_default_of default_duration_hours d (dc_duration_hours d) = Some (dp_duration_hours params)"
    "or_default_of default_temp d (dc_temp d) = Some (dp_temp params)"
  using assms by (auto simp: cycle_params_def dryer_of_def Let_def split: option.splits if_splits prod.splits)

text \<open>A client of an unrecognised printer that has heard nothing yet.\<close>

definition bare_core :: client_core where
  "bare_core = new_core \<lparr>pi_ip = [], pi_serial = [], pi_access_code = [], pi_model = UnknownModel\<rparr>"

lemma bare_core_select: "c_ams (cc_cache bare_core) = None" "c_fun2 (cc_cache bare_core) = None"
  "client_quirks bare_core = UNKNOWN_quirks" "q_dry UNKNOWN_quirks = Unstated"
  by (simp_all add: bare_core_def new_core_def new_cache_def client_quirks_def quirks_def model_row_def MODELS_def
      UNKNOWN_quirks_def new_quirks_def)

lemma bare_core_dries: "is_supported (capability ams_remote_drying_support bare_core)"
  by (simp add: capability_def ams_remote_drying_support_def dry_remote_def reported_remote_dry_def bare_core_select
      client_quirk_context_def)



text \<open>The defaults of a material are never refused: where the printer dries at all, a cycle for any material on a unit whose
  dryer is the kind it was asked for starts with the table's temperature and duration and cools down to the temperature the
  material softens at.\<close>

theorem drying_defaults_start:
  assumes "is_supported (capability ams_remote_drying_support k)" "is_valid_ams_id ams_id"
    "\<not> is_external_spool_id ams_id" "\<not> is_ams_lite_on_a2l_id ams_id"
    "dryer_of k ams_id = u" "model_supports_drying u"
  shows "\<exists>params. cycle_params k ((dry ams_id)\<lparr>dc_material := Some (m, u), dc_printing := printing\<rparr>) = Inr params
    \<and> default_temp m u printing = Some (dp_temp params) \<and> default_duration_hours m u printing = Some (dp_duration_hours params)
    \<and> dp_cooling_temp params = softening_temp m \<and> dp_filament params = material_wire_name m"
proof -
  obtain i where i: "row_index u printing = Some i" using assms(6) by (auto simp: row_index_def model_supports_drying_def)
  then obtain temp hours where t: "default_temp m u printing = Some temp" "default_duration_hours m u printing = Some hours"
    by (simp add: default_temp_def default_duration_hours_def)
  from default_temp_in_range [OF t(1)] obtain low high
    where range: "model_dry_temp_range u = Some (low, high)" "low \<le> temp" "temp \<le> high" by (auto split: option.splits)
  then have "temp \<noteq> 0" by (cases u) auto
  moreover have "hours \<noteq> 0" using default_hours_positive [OF t(2)] by auto
  moreover have "case client_ams_unit_model ams_id k of None \<Rightarrow> True | Some v \<Rightarrow> v = u"
    using assms(5) by (auto simp: dryer_of_def split: option.splits)
  ultimately show ?thesis using assms t range
    by (cases "client_ams_unit_model ams_id k")
      (auto simp: cycle_params_def dry_def or_default_of_def opt_or_def dryer_of_def Let_def)
qed

theorem drying_defaults_start_witness:
  "\<exists>params. cycle_params bare_core ((dry 1)\<lparr>dc_material := Some (Petg, MAms2Pro), dc_printing := False\<rparr>) = Inr params
    \<and> dp_cooling_temp params = softening_temp Petg"
  using drying_defaults_start [OF bare_core_dries, where ams_id = 1 and u = MAms2Pro and m = Petg and printing = False]
  by (auto simp: dryer_of_def client_ams_unit_model_def bare_core_select ams_id_defs model_supports_drying_def)

section \<open>Starting a print\<close>

text \<open>What the printer's own copy of a file says it was sliced for: the file is the only listed one of its name.\<close>

definition printer_says :: "serde \<Rightarrow> timer \<Rightarrow> print_job_config \<Rightarrow> tunnel \<Rightarrow> string option \<Rightarrow> bool" where
  "printer_says sd t config tn i \<longleftrightarrow>
     (\<exists>files tn1 f member tn2 xml.
        list_files sd t Model (case jc_file_location config of OnCard \<Rightarrow> None | OnInternalStorage \<Rightarrow> Some ''emmc'') tn = (Inr files, tn1)
        \<and> filter (\<lambda>f. tf_name f = last_segment (jc_job_filename config)) files = [f]
        \<and> read_file_member sd t f ''Metadata/slice_info.config'' 2097152 tn1 = (Inr (Some member), tn2)
        \<and> from_utf8 member = Some xml \<and> parse_sliced_for xml = Inr i)"

lemma find_listed_only: "find_listed_model files name = Inr f \<Longrightarrow> filter (\<lambda>f. tf_name f = last_segment name) files = [f]"
  by (auto simp: find_listed_model_def Let_def split: list.splits)

lemma read_through_tunnel:
  assumes "read_sliced_for_through_tunnel sd t config conn = Inr i"
  shows "\<exists>tn. conn = Inr tn \<and> printer_says sd t config tn i"
proof -
  from assms obtain tn files tn1 f member tn2 where read: "conn = Inr tn"
    "list_files sd t Model (case jc_file_location config of OnCard \<Rightarrow> None | OnInternalStorage \<Rightarrow> Some ''emmc'') tn = (Inr files, tn1)"
    "find_listed_model files (jc_job_filename config) = Inr f"
    "read_file_member sd t f ''Metadata/slice_info.config'' 2097152 tn1 = (Inr member, tn2)" "sliced_for_of_member member = Inr i"
    by (auto simp: read_sliced_for_through_tunnel_def Let_def split: sum.splits prod.splits)
  moreover obtain bs xml where "member = Some bs" "from_utf8 bs = Some xml" "parse_sliced_for xml = Inr i"
    using read(5) by (auto simp: sliced_for_of_member_def split: option.splits sum.splits)
  ultimately show ?thesis using find_listed_only [OF read(3)] by (fastforce simp: printer_says_def)
qed

lemma accepted_model: "refuse_unaccepted_model model i hint = Inr () \<Longrightarrow> \<exists>j. i = Some j \<and> accepts_sliced_for (quirks model) j"
  by (auto simp: refuse_unaccepted_model_def split: option.splits if_splits)

text \<open>C15. A print is only started of a file made for the printer, unless the caller waived the check: the model the file was
  sliced for is one the printer accepts, and it is the one the caller gave or, where none was given, the one in the slice
  info the printer itself returned for the only file of that name. Automatic flow calibration and shared pressure advance
  profiles are only asked of printers that have them. A refused print leaves the client as it was.\<close>

theorem print_started_for_its_model:
  "case start_print p sd t conn config c of
     (Inl e, c') \<Rightarrow> c' = c \<or> start_print_checks sd t conn config c = Inr ()
   | (Inr h, c') \<Rightarrow>
       (case jc_sliced_for config of
          ModelUnchecked \<Rightarrow> True
        | SlicedForModel i \<Rightarrow> \<exists>j. i = Some j \<and> accepts_sliced_for (client_quirks (cl_core c)) j
        | NotSupplied \<Rightarrow> is_supported (capability file_tunnel_support (cl_core c))
            \<and> (\<exists>tn j. conn = Inr tn \<and> printer_says sd t config tn (Some j) \<and> accepts_sliced_for (client_quirks (cl_core c)) j))
       \<and> (if jc_run_flow_calibration config = CaliAuto
          then is_supported (capability pa_calibration_auto_support (cl_core c)) else True)
       \<and> (if jc_pa_profile_shared_by_type config = None then True
          else is_supported (capability pa_mode_support (cl_core c)))"
proof -
  have checked: "(case jc_sliced_for config of
          ModelUnchecked \<Rightarrow> True
        | SlicedForModel i \<Rightarrow> \<exists>j. i = Some j \<and> accepts_sliced_for (client_quirks (cl_core c)) j
        | NotSupplied \<Rightarrow> is_supported (capability file_tunnel_support (cl_core c))
            \<and> (\<exists>tn j. conn = Inr tn \<and> printer_says sd t config tn (Some j) \<and> accepts_sliced_for (client_quirks (cl_core c)) j))
       \<and> (if jc_run_flow_calibration config = CaliAuto
          then is_supported (capability pa_calibration_auto_support (cl_core c)) else True)
       \<and> (if jc_pa_profile_shared_by_type config = None then True
          else is_supported (capability pa_mode_support (cl_core c)))"
    if "start_print_checks sd t conn config c = Inr ()"
    using that read_through_tunnel accepted_model unfolding client_quirks_def
    by (cases "jc_sliced_for config")
      (fastforce simp: start_print_checks_def sliced_for_from_printer_def Let_def split: if_splits sum.splits)+
  show ?thesis
  proof (cases "start_print_checks sd t conn config c")
    case (Inl e)
    then show ?thesis by (simp add: start_print_def guarded_def)
  next
    case (Inr u)
    with checked show ?thesis by (simp split: prod.split sum.split)
  qed
qed

end
