(* ===== verification/PollProps.thy ===== *)
theory PollProps
  imports ClientProps
begin

text \<open>
  Waiting for a message: \<open>poll_until\<close> takes the first one that matches, in the order they arrived, and sets aside what came
  before it.
\<close>

lemma poll_frames_pending: "poll_frames js tgt t c = (r, c') \<Longrightarrow> mq_pending c' = mq_pending c"
proof (induction js tgt t c arbitrary: r c' rule: poll_frames.induct)
  case (1 js tgt t c)
  note unfold = poll_frames.simps [of js tgt t c]
  obtain u c1 where k: "send_keepalive_if_due t c = (u, c1)" by fastforce
  obtain x st s where rd: "read_exact_packet tgt t (MQTT_READ_TIMEOUT_SECS * 1000) (read_state c1) (mq_stream c1) = (x, st, s)"
    by (metis prod.exhaust)
  note same = send_keepalive_pending [OF k]
  consider (stop) "(\<exists>e. u = Inl e) \<or> (\<exists>e. x = Inl e)" | (frame) v hd buf where "u = Inr v" "x = Inr (hd, buf)"
    by (cases u; cases x) auto
  then show ?case
  proof cases
    case stop
    with "1.prems" k rd same show ?thesis by (cases u) (auto simp: unfold)
  next
    case frame
    obtain y c2 where d: "dispatch js hd buf (c1\<lparr>read_state := st, mq_stream := s, secs_since_last_message := 0\<rparr>) = (y, c2)"
      by fastforce
    have c2: "mq_pending c2 = mq_pending c" using dispatch_pending [OF d] same by simp
    show ?thesis
    proof (cases "y = Inr None")
      case True
      with "1.prems" k rd frame d have "poll_frames js tgt t c2 = (r, c')" by (simp add: unfold)
      from "1.IH" [OF k [symmetric] frame(1) rd [symmetric] frame(2) refl refl d [symmetric] True refl this] c2 show ?thesis by simp
    next
      case False
      with "1.prems" k rd frame d c2 show ?thesis by (auto simp: unfold split: sum.splits option.splits)
    qed
  qed
qed

lemma poll_wire_pending:
  assumes "poll_wire js tgt t c = (r, c')"
  shows "mq_pending c' = mq_pending c"
proof (cases r)
  case (Inr msg)
  with assms poll_wire_progress show ?thesis by blast
next
  case (Inl e)
  obtain x c1 where f: "poll_frames js tgt t c = (x, c1)" by fastforce
  note same = poll_frames_pending [OF f]
  show ?thesis
  proof (cases x)
    case (Inl e')
    with assms f same show ?thesis by (simp add: poll_wire_def)
  next
    case (Inr ma)
    obtain m a where ma: "ma = (m, a)" by fastforce
    show ?thesis
    proof (cases a)
      case None
      with assms f Inr ma Inl show ?thesis by (simp add: poll_wire_def)
    next
      case (Some packet_id)
      obtain w c2 where w: "write_frame_guarded t (encode_puback packet_id) (park m c1) = (w, c2)" by fastforce
      then have "take_pending (mq_pending c2) = (Some m, mq_pending c1)"
        using write_frame_guarded_pending [OF w] by (simp add: park_def take_pending_def)
      with assms f Inr ma Some w Inl show ?thesis by (simp add: poll_wire_def)
    qed
  qed
qed

text \<open>What was set aside, oldest first.\<close>

abbreviation (input) set_aside_all :: "target \<Rightarrow> mqtt_message list \<Rightarrow> pending \<Rightarrow> pending" where
  "set_aside_all tgt ms pend \<equiv> fold (push_pending tgt) ms pend"

definition waited :: "target \<Rightarrow> (mqtt_message \<Rightarrow> 'a option) \<Rightarrow> mqtt_message list \<Rightarrow> error + 'a \<Rightarrow> pending \<Rightarrow> pending \<Rightarrow> bool" where
  "waited tgt matcher arrived r before after \<longleftrightarrow>
     (case r of
        Inl e \<Rightarrow> list_all (\<lambda>m. matcher m = None) arrived \<and> after = set_aside_all tgt arrived before
      | Inr x \<Rightarrow> (\<exists>early msg. arrived = early @ [msg] \<and> list_all (\<lambda>m. matcher m = None) early \<and> matcher msg = Some x
          \<and> after = set_aside_all tgt early before))"

lemma poll_until_loop_waited:
  "poll_until_loop p matcher wait shown m = (r, shown', m') \<Longrightarrow>
    \<exists>arrived. shown' = shown @ arrived \<and> waited (pl_target p) matcher arrived r (mq_pending m) (mq_pending m')
      \<and> (\<not> wb_real_clock wait \<longrightarrow> wb_messages wait < 200 \<longrightarrow> wb_messages wait + length arrived \<le> 200)"
proof (induction p matcher wait shown m arbitrary: r shown' m' rule: poll_until_loop.induct)
  case (1 p matcher wait shown m)
  note unfold = poll_until_loop.simps [of p matcher wait shown m]
  obtain x m1 where w: "poll_wire (pl_json p) (pl_target p) (pl_timer p) m = (x, m1)" by fastforce
  note same = poll_wire_pending [OF w]
  show ?case
  proof (cases x)
    case (Inl e)
    with 1(2) w same show ?thesis by (intro exI [of _ "[]"]) (auto simp: unfold waited_def)
  next
    case (Inr msg)
    let ?m2 = "m1\<lparr>mq_pending := push_pending (pl_target p) msg (mq_pending m1)\<rparr>"
    show ?thesis
    proof (cases "matcher msg")
      case (Some y)
      with 1(2) w Inr same show ?thesis by (intro exI [of _ "[msg]"]) (auto simp: unfold waited_def)
    next
      case None
      obtain a wait1 where am: "after_message (now_millis (pl_timer p) (mq_stream ?m2)) wait = (a, wait1)" by fastforce
      show ?thesis
      proof (cases a)
        case (Inl e)
        with 1(2) w Inr None am same show ?thesis by (intro exI [of _ "[msg]"]) (auto simp: unfold waited_def)
      next
        case (Inr u)
        then have "poll_until_loop p matcher wait1 (shown @ [msg]) ?m2 = (r, shown', m')"
          using 1(2) w \<open>x = Inr msg\<close> None am by (simp add: unfold)
        from 1(1) [OF w [symmetric] \<open>x = Inr msg\<close> None refl am [symmetric] Inr this] obtain arrived where
          ih: "shown' = (shown @ [msg]) @ arrived"
            "waited (pl_target p) matcher arrived r (mq_pending ?m2) (mq_pending m')"
            "\<not> wb_real_clock wait1 \<longrightarrow> wb_messages wait1 < 200 \<longrightarrow> wb_messages wait1 + length arrived \<le> 200" by blast
        have "waited (pl_target p) matcher (msg # arrived) r (mq_pending m) (mq_pending m')"
        proof (cases r)
          case (Inl e)
          with ih(2) None same show ?thesis by (simp add: waited_def)
        next
          case (Inr z)
          with ih(2) obtain early last_one where "arrived = early @ [last_one]" "list_all (\<lambda>m. matcher m = None) early"
            "matcher last_one = Some z" "mq_pending m' = set_aside_all (pl_target p) early (mq_pending ?m2)"
            by (auto simp: waited_def)
          with Inr None same show ?thesis unfolding waited_def
            by (auto intro!: exI [of _ "msg # early"])
        qed
        moreover have "wb_real_clock wait1 = wb_real_clock wait" "\<not> wb_real_clock wait \<Longrightarrow> wb_messages wait1 = wb_messages wait + 1
            \<and> wb_messages wait1 < 200"
          using am Inr by (auto simp: after_message_def Let_def split: if_splits option.splits)
        ultimately show ?thesis using ih(1,3) by (intro exI [of _ "msg # arrived"]) auto
      qed
    qed
  qed
qed

text \<open>C11. Waiting for a message on an open connection takes the first one that matches: among the messages set aside before,
  the oldest that does, leaving all others and the socket alone; else the first that arrives, everything that arrived before
  it being set aside in order, as is everything that arrived when the wait fails. The matcher is shown every message once,
  oldest first. Without a clock the wait is over after 200 messages.\<close>

theorem poll_until_takes_first:
  assumes "cl_mqtt c = Some m" "poll_until p timeout matcher c = (r, shown, c')"
  shows "if list_ex (\<lambda>x. matcher x \<noteq> None) (pending_messages (mq_pending m))
    then \<exists>earlier msg later x m'. pending_messages (mq_pending m) = earlier @ msg # later
      \<and> list_all (\<lambda>x. matcher x = None) earlier \<and> matcher msg = Some x \<and> r = Inr x
      \<and> c' = c\<lparr>cl_mqtt := Some m'\<rparr> \<and> pending_messages (mq_pending m') = earlier @ later \<and> mq_stream m' = mq_stream m
    else \<exists>arrived m'. c' = c\<lparr>cl_mqtt := Some m'\<rparr> \<and> shown = pending_messages (mq_pending m) @ arrived
      \<and> waited (pl_target p) matcher arrived r (mq_pending m) (mq_pending m')
      \<and> (if has_real_clock (pl_timer p) then True else length arrived \<le> 200)"
proof -
  let ?ms = "pending_messages (mq_pending m)"
  obtain y pend where t: "take_pending_matching matcher (mq_pending m) = (y, pend)" by fastforce
  have e: "ensure_mqtt p c = (Inr (), c)" using assms(1) by (simp add: ensure_id)
  show ?thesis
  proof (cases "find_index 0 matcher ?ms")
    case None
    then have "\<forall>x \<in> set ?ms. matcher x = None" by (rule find_index_NoneD)
    then have f: "\<not> list_ex (\<lambda>x. matcher x \<noteq> None) ?ms" by (simp add: list_ex_iff)
    have tp: "y = None" "pend = mq_pending m" using t None by (simp_all add: take_pending_matching_def)
    let ?wait = "start_budget (pl_timer p) (now_millis (pl_timer p) (mq_stream (m\<lparr>mq_pending := pend\<rparr>))) timeout"
    obtain q sh m2 where l: "poll_until_loop p matcher ?wait (pending_messages pend) (m\<lparr>mq_pending := pend\<rparr>) = (q, sh, m2)"
      by (metis prod.exhaust)
    have "r = q" "shown = sh" "c' = c\<lparr>cl_mqtt := Some m2\<rparr>"
      using assms e t tp l by (simp_all add: poll_until_def Let_def)
    with poll_until_loop_waited [OF l] tp f show ?thesis by (auto simp: start_budget_def)
  next
    case (Some ir)
    obtain i x where ir: "ir = (i, x)" by fastforce
    with find_index_SomeD [OF Some [unfolded ir]] have hit: "i < length ?ms" "matcher (?ms ! i) = Some x"
      "\<forall>x \<in> set (take i ?ms). matcher x = None" by auto
    have split: "?ms = take i ?ms @ ?ms ! i # drop (Suc i) ?ms" using hit(1) by (rule id_take_nth_drop)
    have f: "list_ex (\<lambda>x. matcher x \<noteq> None) ?ms" using hit(1,2) by (auto simp: list_ex_iff)
    have tp: "y = Some x" "pending_messages pend = take i ?ms @ drop (Suc i) ?ms"
      using t Some ir by (auto simp: take_pending_matching_def)
    have "r = Inr x" "c' = c\<lparr>cl_mqtt := Some (m\<lparr>mq_pending := pend\<rparr>)\<rparr>"
      using assms e t tp by (simp_all add: poll_until_def)
    moreover have "list_all (\<lambda>x. matcher x = None) (take i ?ms)" using hit(3) by (simp add: list_all_iff)
    moreover have "pending_messages (mq_pending (m\<lparr>mq_pending := pend\<rparr>)) = take i ?ms @ drop (Suc i) ?ms"
      "mq_stream (m\<lparr>mq_pending := pend\<rparr>) = mq_stream m" using tp(2) by simp_all
    ultimately show ?thesis unfolding if_P [OF f] using split hit(2) by blast
  qed
qed

theorem poll_until_takes_first_witness:
  "\<exists>r shown c'. poll_until quiet_platform None (\<lambda>x. if m_payload x = [2] then Some () else None)
       (from_mqtt ((with_stream quiet_stream ''S'')
          \<lparr>mq_pending := \<lparr>pending_messages = [\<lparr>m_topic = [], m_payload = [1]\<rparr>, \<lparr>m_topic = [], m_payload = [2]\<rparr>], pending_bytes = 2\<rparr>\<rparr>)
        UnknownModel) = (r, shown, c')
     \<and> r = Inr () \<and> (\<exists>m'. cl_mqtt c' = Some m' \<and> pending_messages (mq_pending m') = [\<lparr>m_topic = [], m_payload = [1]\<rparr>])"
proof -
  let ?f = "\<lambda>x. if m_payload x = [2] then Some () else None"
  let ?m = "(with_stream quiet_stream ''S'')
    \<lparr>mq_pending := \<lparr>pending_messages = [\<lparr>m_topic = [], m_payload = [1]\<rparr>, \<lparr>m_topic = [], m_payload = [2]\<rparr>], pending_bytes = 2\<rparr>\<rparr>"
  obtain r shown c' where p: "poll_until quiet_platform None ?f (from_mqtt ?m UnknownModel) = (r, shown, c')"
    by (metis prod.exhaust)
  have "cl_mqtt (from_mqtt ?m UnknownModel) = Some ?m" by (simp add: from_mqtt_def)
  from poll_until_takes_first [OF this p] obtain earlier msg later m' where
    "[\<lparr>m_topic = [], m_payload = [1]\<rparr>, \<lparr>m_topic = [], m_payload = [2]\<rparr>] = earlier @ msg # later"
    "?f msg = Some ()" "r = Inr ()" "cl_mqtt c' = Some m'" "pending_messages (mq_pending m') = earlier @ later"
    by auto
  with p show ?thesis by (auto simp: Cons_eq_append_conv split: if_splits)
qed

end
