(* ===== verification/CacheProps.thy ===== *)
theory CacheProps
  imports Cache
begin

text \<open>
  What the telemetry cache promises: a push delivered again changes nothing, and after any pushes the cache holds what
  was last observed. Every update is first read field by field.
\<close>

section \<open>The updates, field by field\<close>

definition plate_after :: "string option \<Rightarrow> u32 option \<Rightarrow> printer_telemetry \<Rightarrow> u32 option" where
  "plate_after file plate p =
     (let kept = (if p_gcode_file p \<noteq> None \<and> file \<noteq> p_gcode_file p then None else plate)
      in case p_plate_idx p of None \<Rightarrow> kept | Some i \<Rightarrow> if i > 0 then Some (word_of_int i) else kept)"

definition job_ended :: "string option \<Rightarrow> printer_telemetry \<Rightarrow> bool" where
  "job_ended state p \<longleftrightarrow>
     (case p_gcode_state p of None \<Rightarrow> False | Some s \<Rightarrow> from_gcode_state s \<in> {Finished, StatusFailed})
     \<and> (case state of None \<Rightarrow> False | Some s \<Rightarrow> is_busy (from_gcode_state s))"

definition progress_after :: "print_progress \<Rightarrow> printer_telemetry \<Rightarrow> print_progress" where
  "progress_after g p =
     \<lparr>pr_percent = keep_new (pr_percent g) (p_mc_percent p),
      pr_remaining_secs = (case p_mc_remaining_time p of None \<Rightarrow> pr_remaining_secs g | Some m \<Rightarrow> Some (sat_mul_i32 m 60)),
      pr_layer_num = keep_new (pr_layer_num g) (p_layer_num p),
      pr_total_layers = (case p_total_layers p of
          None \<Rightarrow> pr_total_layers g | Some n \<Rightarrow> if n > 0 then Some n else pr_total_layers g)\<rparr>"

definition slots_after :: "ams_tray list option \<Rightarrow> ams_tray list option \<Rightarrow> ams_tray list option" where
  "slots_after c n =
     (case n of
        None \<Rightarrow> c
      | Some incoming \<Rightarrow> Some (merge_keyed merge_tray at_id (case c of None \<Rightarrow> [] | Some slots \<Rightarrow> slots) incoming))"

lemma update_job_cache_eq:
  "update_job_cache p c = c\<lparr>
     c_gcode_file := keep_new (c_gcode_file c) (p_gcode_file p),
     c_plate_idx := plate_after (c_gcode_file c) (c_plate_idx c) p,
     c_job_start := (if job_ended (c_gcode_state c) p then None else c_job_start c)\<rparr>"
  unfolding update_job_cache_def Let_def
  by (cases "p_gcode_file p"; cases "p_plate_idx p"; simp add: keep_new_def plate_after_def job_ended_def)

lemma update_job_cache_select [simp]:
  "c_home_flag (update_job_cache p c) = c_home_flag c"
  "c_home_flag_generation (update_job_cache p c) = c_home_flag_generation c"
  "c_gcode_state (update_job_cache p c) = c_gcode_state c"
  "c_door_open (update_job_cache p c) = c_door_open c"
  "c_print_error (update_job_cache p c) = c_print_error c"
  "c_job_id (update_job_cache p c) = c_job_id c"
  "c_subtask_name (update_job_cache p c) = c_subtask_name c"
  "c_nozzle_diameter (update_job_cache p c) = c_nozzle_diameter c"
  "c_nozzle_type (update_job_cache p c) = c_nozzle_type c"
  "c_sdcard (update_job_cache p c) = c_sdcard c"
  "c_progress (update_job_cache p c) = c_progress c"
  "c_bed_temper (update_job_cache p c) = c_bed_temper c"
  "c_bed_target_temper (update_job_cache p c) = c_bed_target_temper c"
  "c_device (update_job_cache p c) = c_device c"
  "c_ams (update_job_cache p c) = c_ams c"
  "c_vt_tray (update_job_cache p c) = c_vt_tray c"
  "c_vir_slot (update_job_cache p c) = c_vir_slot c"
  "c_nozzle_temper (update_job_cache p c) = c_nozzle_temper c"
  "c_nozzle_target_temper (update_job_cache p c) = c_nozzle_target_temper c"
  "c_chamber_temper (update_job_cache p c) = c_chamber_temper c"
  "c_hms (update_job_cache p c) = c_hms c"
  "c_cooling_fan_speed (update_job_cache p c) = c_cooling_fan_speed c"
  "c_big_fan1_speed (update_job_cache p c) = c_big_fan1_speed c"
  "c_big_fan2_speed (update_job_cache p c) = c_big_fan2_speed c"
  "c_heatbreak_fan_speed (update_job_cache p c) = c_heatbreak_fan_speed c"
  "c_spd_lvl (update_job_cache p c) = c_spd_lvl c"
  "c_spd_mag (update_job_cache p c) = c_spd_mag c"
  "c_wifi_signal (update_job_cache p c) = c_wifi_signal c"
  "c_net_conf (update_job_cache p c) = c_net_conf c"
  "c_ipcam (update_job_cache p c) = c_ipcam c"
  "c_xcam (update_job_cache p c) = c_xcam c"
  "c_fun2 (update_job_cache p c) = c_fun2 c"
  "c_fun (update_job_cache p c) = c_fun c"
  "c_settings_home_flag (update_job_cache p c) = c_settings_home_flag c"
  "c_settings_home_flag_generation (update_job_cache p c) = c_settings_home_flag_generation c"
  "c_reply_settings (update_job_cache p c) = c_reply_settings c"
  "c_cfg (update_job_cache p c) = c_cfg c"
  "c_firmware (update_job_cache p c) = c_firmware c"
  "c_firmware_generation (update_job_cache p c) = c_firmware_generation c"
  "c_np_format (update_job_cache p c) = c_np_format c"
  "c_support_flow_calibration (update_job_cache p c) = c_support_flow_calibration c"
  "c_cali_version (update_job_cache p c) = c_cali_version c"
  "c_gcode_file (update_job_cache p c) = keep_new (c_gcode_file c) (p_gcode_file p)"
  "c_plate_idx (update_job_cache p c) = plate_after (c_gcode_file c) (c_plate_idx c) p"
  "c_job_start (update_job_cache p c) = (if job_ended (c_gcode_state c) p then None else c_job_start c)"
  "c_reported_lights (update_job_cache p c) = c_reported_lights c"
  "c_lights_list_complete (update_job_cache p c) = c_lights_list_complete c"
  by (simp_all add: update_job_cache_eq)

lemma keep_new_simps [simp]: "keep_new c None = c" "keep_new c (Some v) = Some v"
  by (simp_all add: keep_new_def)

lemma update_state_cache_select [simp]:
  "c_home_flag (update_state_cache sensor g p c) = keep_new (c_home_flag c) (p_home_flag p)"
  "c_home_flag_generation (update_state_cache sensor g p c) = (if p_home_flag p = None then c_home_flag_generation c else Some g)"
  "c_gcode_state (update_state_cache sensor g p c) = keep_new (c_gcode_state c) (p_gcode_state p)"
  "c_door_open (update_state_cache sensor g p c) = keep_new (c_door_open c) (door_state sensor p)"
  "c_print_error (update_state_cache sensor g p c) = keep_new (c_print_error c) (p_print_error p)"
  "c_job_id (update_state_cache sensor g p c) = keep_new (c_job_id c) (p_job_id p)"
  "c_subtask_name (update_state_cache sensor g p c) = keep_new (c_subtask_name c) (p_subtask_name p)"
  "c_nozzle_diameter (update_state_cache sensor g p c) = keep_new (c_nozzle_diameter c) (p_nozzle_diameter p)"
  "c_nozzle_type (update_state_cache sensor g p c) = keep_new (c_nozzle_type c) (p_nozzle_type p)"
  "c_sdcard (update_state_cache sensor g p c) = keep_new (c_sdcard c) (sdcard_status p)"
  "c_progress (update_state_cache sensor g p c) = c_progress c"
  "c_bed_temper (update_state_cache sensor g p c) = c_bed_temper c"
  "c_bed_target_temper (update_state_cache sensor g p c) = c_bed_target_temper c"
  "c_device (update_state_cache sensor g p c) = c_device c"
  "c_ams (update_state_cache sensor g p c) = c_ams c"
  "c_vt_tray (update_state_cache sensor g p c) = c_vt_tray c"
  "c_vir_slot (update_state_cache sensor g p c) = c_vir_slot c"
  "c_nozzle_temper (update_state_cache sensor g p c) = c_nozzle_temper c"
  "c_nozzle_target_temper (update_state_cache sensor g p c) = c_nozzle_target_temper c"
  "c_chamber_temper (update_state_cache sensor g p c) = c_chamber_temper c"
  "c_hms (update_state_cache sensor g p c) = keep_new (c_hms c) (p_hms p)"
  "c_cooling_fan_speed (update_state_cache sensor g p c) = c_cooling_fan_speed c"
  "c_big_fan1_speed (update_state_cache sensor g p c) = c_big_fan1_speed c"
  "c_big_fan2_speed (update_state_cache sensor g p c) = c_big_fan2_speed c"
  "c_heatbreak_fan_speed (update_state_cache sensor g p c) = c_heatbreak_fan_speed c"
  "c_spd_lvl (update_state_cache sensor g p c) = c_spd_lvl c"
  "c_spd_mag (update_state_cache sensor g p c) = c_spd_mag c"
  "c_wifi_signal (update_state_cache sensor g p c) = c_wifi_signal c"
  "c_net_conf (update_state_cache sensor g p c) = c_net_conf c"
  "c_ipcam (update_state_cache sensor g p c) = c_ipcam c"
  "c_xcam (update_state_cache sensor g p c) = c_xcam c"
  "c_fun2 (update_state_cache sensor g p c) = c_fun2 c"
  "c_fun (update_state_cache sensor g p c) = c_fun c"
  "c_settings_home_flag (update_state_cache sensor g p c) = c_settings_home_flag c"
  "c_settings_home_flag_generation (update_state_cache sensor g p c) = c_settings_home_flag_generation c"
  "c_reply_settings (update_state_cache sensor g p c) = c_reply_settings c"
  "c_cfg (update_state_cache sensor g p c) = keep_new (c_cfg c) (p_cfg p)"
  "c_firmware (update_state_cache sensor g p c) = c_firmware c"
  "c_firmware_generation (update_state_cache sensor g p c) = c_firmware_generation c"
  "c_np_format (update_state_cache sensor g p c) = np_format_after (c_np_format c) p"
  "c_support_flow_calibration (update_state_cache sensor g p c) = keep_new (c_support_flow_calibration c) (p_support_flow_calibration p)"
  "c_cali_version (update_state_cache sensor g p c) = keep_new (c_cali_version c) (p_cali_version p)"
  "c_gcode_file (update_state_cache sensor g p c) = c_gcode_file c"
  "c_plate_idx (update_state_cache sensor g p c) = c_plate_idx c"
  "c_job_start (update_state_cache sensor g p c) = c_job_start c"
  "c_reported_lights (update_state_cache sensor g p c) = c_reported_lights c"
  "c_lights_list_complete (update_state_cache sensor g p c) = c_lights_list_complete c"
  by (cases "p_home_flag p"; cases "door_state sensor p"; simp add: update_state_cache_def Let_def)+

lemma update_progress_cache_select [simp]:
  "c_home_flag (update_progress_cache p c) = c_home_flag c"
  "c_home_flag_generation (update_progress_cache p c) = c_home_flag_generation c"
  "c_gcode_state (update_progress_cache p c) = c_gcode_state c"
  "c_door_open (update_progress_cache p c) = c_door_open c"
  "c_print_error (update_progress_cache p c) = c_print_error c"
  "c_job_id (update_progress_cache p c) = c_job_id c"
  "c_subtask_name (update_progress_cache p c) = c_subtask_name c"
  "c_nozzle_diameter (update_progress_cache p c) = c_nozzle_diameter c"
  "c_nozzle_type (update_progress_cache p c) = c_nozzle_type c"
  "c_sdcard (update_progress_cache p c) = c_sdcard c"
  "c_progress (update_progress_cache p c) = progress_after (c_progress c) p"
  "c_bed_temper (update_progress_cache p c) = c_bed_temper c"
  "c_bed_target_temper (update_progress_cache p c) = c_bed_target_temper c"
  "c_device (update_progress_cache p c) = c_device c"
  "c_ams (update_progress_cache p c) = c_ams c"
  "c_vt_tray (update_progress_cache p c) = c_vt_tray c"
  "c_vir_slot (update_progress_cache p c) = c_vir_slot c"
  "c_nozzle_temper (update_progress_cache p c) = c_nozzle_temper c"
  "c_nozzle_target_temper (update_progress_cache p c) = c_nozzle_target_temper c"
  "c_chamber_temper (update_progress_cache p c) = c_chamber_temper c"
  "c_hms (update_progress_cache p c) = c_hms c"
  "c_cooling_fan_speed (update_progress_cache p c) = c_cooling_fan_speed c"
  "c_big_fan1_speed (update_progress_cache p c) = c_big_fan1_speed c"
  "c_big_fan2_speed (update_progress_cache p c) = c_big_fan2_speed c"
  "c_heatbreak_fan_speed (update_progress_cache p c) = c_heatbreak_fan_speed c"
  "c_spd_lvl (update_progress_cache p c) = c_spd_lvl c"
  "c_spd_mag (update_progress_cache p c) = c_spd_mag c"
  "c_wifi_signal (update_progress_cache p c) = c_wifi_signal c"
  "c_net_conf (update_progress_cache p c) = c_net_conf c"
  "c_ipcam (update_progress_cache p c) = c_ipcam c"
  "c_xcam (update_progress_cache p c) = c_xcam c"
  "c_fun2 (update_progress_cache p c) = c_fun2 c"
  "c_fun (update_progress_cache p c) = c_fun c"
  "c_settings_home_flag (update_progress_cache p c) = c_settings_home_flag c"
  "c_settings_home_flag_generation (update_progress_cache p c) = c_settings_home_flag_generation c"
  "c_reply_settings (update_progress_cache p c) = c_reply_settings c"
  "c_cfg (update_progress_cache p c) = c_cfg c"
  "c_firmware (update_progress_cache p c) = c_firmware c"
  "c_firmware_generation (update_progress_cache p c) = c_firmware_generation c"
  "c_np_format (update_progress_cache p c) = c_np_format c"
  "c_support_flow_calibration (update_progress_cache p c) = c_support_flow_calibration c"
  "c_cali_version (update_progress_cache p c) = c_cali_version c"
  "c_gcode_file (update_progress_cache p c) = c_gcode_file c"
  "c_plate_idx (update_progress_cache p c) = c_plate_idx c"
  "c_job_start (update_progress_cache p c) = c_job_start c"
  "c_reported_lights (update_progress_cache p c) = c_reported_lights c"
  "c_lights_list_complete (update_progress_cache p c) = c_lights_list_complete c"
  by (simp_all add: update_progress_cache_def Let_def progress_after_def split: option.split)

lemma update_temperature_cache_select [simp]:
  "c_home_flag (update_temperature_cache p c) = c_home_flag c"
  "c_home_flag_generation (update_temperature_cache p c) = c_home_flag_generation c"
  "c_gcode_state (update_temperature_cache p c) = c_gcode_state c"
  "c_door_open (update_temperature_cache p c) = c_door_open c"
  "c_print_error (update_temperature_cache p c) = c_print_error c"
  "c_job_id (update_temperature_cache p c) = c_job_id c"
  "c_subtask_name (update_temperature_cache p c) = c_subtask_name c"
  "c_nozzle_diameter (update_temperature_cache p c) = c_nozzle_diameter c"
  "c_nozzle_type (update_temperature_cache p c) = c_nozzle_type c"
  "c_sdcard (update_temperature_cache p c) = c_sdcard c"
  "c_progress (update_temperature_cache p c) = c_progress c"
  "c_bed_temper (update_temperature_cache p c) = keep_new (c_bed_temper c) (p_bed_temper p)"
  "c_bed_target_temper (update_temperature_cache p c) = keep_new (c_bed_target_temper c) (p_bed_target_temper p)"
  "c_device (update_temperature_cache p c) = c_device c"
  "c_ams (update_temperature_cache p c) = c_ams c"
  "c_vt_tray (update_temperature_cache p c) = c_vt_tray c"
  "c_vir_slot (update_temperature_cache p c) = c_vir_slot c"
  "c_nozzle_temper (update_temperature_cache p c) = keep_new (c_nozzle_temper c) (p_nozzle_temper p)"
  "c_nozzle_target_temper (update_temperature_cache p c) = keep_new (c_nozzle_target_temper c) (p_nozzle_target_temper p)"
  "c_chamber_temper (update_temperature_cache p c) = keep_new (c_chamber_temper c) (p_chamber_temper p)"
  "c_hms (update_temperature_cache p c) = c_hms c"
  "c_cooling_fan_speed (update_temperature_cache p c) = c_cooling_fan_speed c"
  "c_big_fan1_speed (update_temperature_cache p c) = c_big_fan1_speed c"
  "c_big_fan2_speed (update_temperature_cache p c) = c_big_fan2_speed c"
  "c_heatbreak_fan_speed (update_temperature_cache p c) = c_heatbreak_fan_speed c"
  "c_spd_lvl (update_temperature_cache p c) = c_spd_lvl c"
  "c_spd_mag (update_temperature_cache p c) = c_spd_mag c"
  "c_wifi_signal (update_temperature_cache p c) = c_wifi_signal c"
  "c_net_conf (update_temperature_cache p c) = c_net_conf c"
  "c_ipcam (update_temperature_cache p c) = c_ipcam c"
  "c_xcam (update_temperature_cache p c) = c_xcam c"
  "c_fun2 (update_temperature_cache p c) = c_fun2 c"
  "c_fun (update_temperature_cache p c) = c_fun c"
  "c_settings_home_flag (update_temperature_cache p c) = c_settings_home_flag c"
  "c_settings_home_flag_generation (update_temperature_cache p c) = c_settings_home_flag_generation c"
  "c_reply_settings (update_temperature_cache p c) = c_reply_settings c"
  "c_cfg (update_temperature_cache p c) = c_cfg c"
  "c_firmware (update_temperature_cache p c) = c_firmware c"
  "c_firmware_generation (update_temperature_cache p c) = c_firmware_generation c"
  "c_np_format (update_temperature_cache p c) = c_np_format c"
  "c_support_flow_calibration (update_temperature_cache p c) = c_support_flow_calibration c"
  "c_cali_version (update_temperature_cache p c) = c_cali_version c"
  "c_gcode_file (update_temperature_cache p c) = c_gcode_file c"
  "c_plate_idx (update_temperature_cache p c) = c_plate_idx c"
  "c_job_start (update_temperature_cache p c) = c_job_start c"
  "c_reported_lights (update_temperature_cache p c) = c_reported_lights c"
  "c_lights_list_complete (update_temperature_cache p c) = c_lights_list_complete c"
  by (simp_all add: update_temperature_cache_def Let_def  split: option.split)

lemma update_ams_cache_select [simp]:
  "c_home_flag (update_ams_cache p c) = c_home_flag c"
  "c_home_flag_generation (update_ams_cache p c) = c_home_flag_generation c"
  "c_gcode_state (update_ams_cache p c) = c_gcode_state c"
  "c_door_open (update_ams_cache p c) = c_door_open c"
  "c_print_error (update_ams_cache p c) = c_print_error c"
  "c_job_id (update_ams_cache p c) = c_job_id c"
  "c_subtask_name (update_ams_cache p c) = c_subtask_name c"
  "c_nozzle_diameter (update_ams_cache p c) = c_nozzle_diameter c"
  "c_nozzle_type (update_ams_cache p c) = c_nozzle_type c"
  "c_sdcard (update_ams_cache p c) = c_sdcard c"
  "c_progress (update_ams_cache p c) = c_progress c"
  "c_bed_temper (update_ams_cache p c) = c_bed_temper c"
  "c_bed_target_temper (update_ams_cache p c) = c_bed_target_temper c"
  "c_device (update_ams_cache p c) = c_device c"
  "c_ams (update_ams_cache p c) = merge_opt merge_report (c_ams c) (p_ams p)"
  "c_vt_tray (update_ams_cache p c) = merge_opt merge_tray (c_vt_tray c) (p_vt_tray p)"
  "c_vir_slot (update_ams_cache p c) = slots_after (c_vir_slot c) (p_vir_slot p)"
  "c_nozzle_temper (update_ams_cache p c) = c_nozzle_temper c"
  "c_nozzle_target_temper (update_ams_cache p c) = c_nozzle_target_temper c"
  "c_chamber_temper (update_ams_cache p c) = c_chamber_temper c"
  "c_hms (update_ams_cache p c) = c_hms c"
  "c_cooling_fan_speed (update_ams_cache p c) = c_cooling_fan_speed c"
  "c_big_fan1_speed (update_ams_cache p c) = c_big_fan1_speed c"
  "c_big_fan2_speed (update_ams_cache p c) = c_big_fan2_speed c"
  "c_heatbreak_fan_speed (update_ams_cache p c) = c_heatbreak_fan_speed c"
  "c_spd_lvl (update_ams_cache p c) = c_spd_lvl c"
  "c_spd_mag (update_ams_cache p c) = c_spd_mag c"
  "c_wifi_signal (update_ams_cache p c) = c_wifi_signal c"
  "c_net_conf (update_ams_cache p c) = c_net_conf c"
  "c_ipcam (update_ams_cache p c) = c_ipcam c"
  "c_xcam (update_ams_cache p c) = c_xcam c"
  "c_fun2 (update_ams_cache p c) = c_fun2 c"
  "c_fun (update_ams_cache p c) = c_fun c"
  "c_settings_home_flag (update_ams_cache p c) = c_settings_home_flag c"
  "c_settings_home_flag_generation (update_ams_cache p c) = c_settings_home_flag_generation c"
  "c_reply_settings (update_ams_cache p c) = c_reply_settings c"
  "c_cfg (update_ams_cache p c) = c_cfg c"
  "c_firmware (update_ams_cache p c) = c_firmware c"
  "c_firmware_generation (update_ams_cache p c) = c_firmware_generation c"
  "c_np_format (update_ams_cache p c) = c_np_format c"
  "c_support_flow_calibration (update_ams_cache p c) = c_support_flow_calibration c"
  "c_cali_version (update_ams_cache p c) = c_cali_version c"
  "c_gcode_file (update_ams_cache p c) = c_gcode_file c"
  "c_plate_idx (update_ams_cache p c) = c_plate_idx c"
  "c_job_start (update_ams_cache p c) = c_job_start c"
  "c_reported_lights (update_ams_cache p c) = c_reported_lights c"
  "c_lights_list_complete (update_ams_cache p c) = c_lights_list_complete c"
  by (simp_all add: update_ams_cache_def Let_def slots_after_def split: option.split)

lemma update_fan_cache_select [simp]:
  "c_home_flag (update_fan_cache p c) = c_home_flag c"
  "c_home_flag_generation (update_fan_cache p c) = c_home_flag_generation c"
  "c_gcode_state (update_fan_cache p c) = c_gcode_state c"
  "c_door_open (update_fan_cache p c) = c_door_open c"
  "c_print_error (update_fan_cache p c) = c_print_error c"
  "c_job_id (update_fan_cache p c) = c_job_id c"
  "c_subtask_name (update_fan_cache p c) = c_subtask_name c"
  "c_nozzle_diameter (update_fan_cache p c) = c_nozzle_diameter c"
  "c_nozzle_type (update_fan_cache p c) = c_nozzle_type c"
  "c_sdcard (update_fan_cache p c) = c_sdcard c"
  "c_progress (update_fan_cache p c) = c_progress c"
  "c_bed_temper (update_fan_cache p c) = c_bed_temper c"
  "c_bed_target_temper (update_fan_cache p c) = c_bed_target_temper c"
  "c_device (update_fan_cache p c) = c_device c"
  "c_ams (update_fan_cache p c) = c_ams c"
  "c_vt_tray (update_fan_cache p c) = c_vt_tray c"
  "c_vir_slot (update_fan_cache p c) = c_vir_slot c"
  "c_nozzle_temper (update_fan_cache p c) = c_nozzle_temper c"
  "c_nozzle_target_temper (update_fan_cache p c) = c_nozzle_target_temper c"
  "c_chamber_temper (update_fan_cache p c) = c_chamber_temper c"
  "c_hms (update_fan_cache p c) = c_hms c"
  "c_cooling_fan_speed (update_fan_cache p c) = keep_new (c_cooling_fan_speed c) (p_cooling_fan_speed p)"
  "c_big_fan1_speed (update_fan_cache p c) = keep_new (c_big_fan1_speed c) (p_big_fan1_speed p)"
  "c_big_fan2_speed (update_fan_cache p c) = keep_new (c_big_fan2_speed c) (p_big_fan2_speed p)"
  "c_heatbreak_fan_speed (update_fan_cache p c) = keep_new (c_heatbreak_fan_speed c) (p_heatbreak_fan_speed p)"
  "c_spd_lvl (update_fan_cache p c) = c_spd_lvl c"
  "c_spd_mag (update_fan_cache p c) = c_spd_mag c"
  "c_wifi_signal (update_fan_cache p c) = c_wifi_signal c"
  "c_net_conf (update_fan_cache p c) = c_net_conf c"
  "c_ipcam (update_fan_cache p c) = c_ipcam c"
  "c_xcam (update_fan_cache p c) = c_xcam c"
  "c_fun2 (update_fan_cache p c) = c_fun2 c"
  "c_fun (update_fan_cache p c) = c_fun c"
  "c_settings_home_flag (update_fan_cache p c) = c_settings_home_flag c"
  "c_settings_home_flag_generation (update_fan_cache p c) = c_settings_home_flag_generation c"
  "c_reply_settings (update_fan_cache p c) = c_reply_settings c"
  "c_cfg (update_fan_cache p c) = c_cfg c"
  "c_firmware (update_fan_cache p c) = c_firmware c"
  "c_firmware_generation (update_fan_cache p c) = c_firmware_generation c"
  "c_np_format (update_fan_cache p c) = c_np_format c"
  "c_support_flow_calibration (update_fan_cache p c) = c_support_flow_calibration c"
  "c_cali_version (update_fan_cache p c) = c_cali_version c"
  "c_gcode_file (update_fan_cache p c) = c_gcode_file c"
  "c_plate_idx (update_fan_cache p c) = c_plate_idx c"
  "c_job_start (update_fan_cache p c) = c_job_start c"
  "c_reported_lights (update_fan_cache p c) = c_reported_lights c"
  "c_lights_list_complete (update_fan_cache p c) = c_lights_list_complete c"
  by (simp_all add: update_fan_cache_def Let_def  split: option.split)

lemma update_speed_and_signal_cache_select [simp]:
  "c_home_flag (update_speed_and_signal_cache p c) = c_home_flag c"
  "c_home_flag_generation (update_speed_and_signal_cache p c) = c_home_flag_generation c"
  "c_gcode_state (update_speed_and_signal_cache p c) = c_gcode_state c"
  "c_door_open (update_speed_and_signal_cache p c) = c_door_open c"
  "c_print_error (update_speed_and_signal_cache p c) = c_print_error c"
  "c_job_id (update_speed_and_signal_cache p c) = c_job_id c"
  "c_subtask_name (update_speed_and_signal_cache p c) = c_subtask_name c"
  "c_nozzle_diameter (update_speed_and_signal_cache p c) = c_nozzle_diameter c"
  "c_nozzle_type (update_speed_and_signal_cache p c) = c_nozzle_type c"
  "c_sdcard (update_speed_and_signal_cache p c) = c_sdcard c"
  "c_progress (update_speed_and_signal_cache p c) = c_progress c"
  "c_bed_temper (update_speed_and_signal_cache p c) = c_bed_temper c"
  "c_bed_target_temper (update_speed_and_signal_cache p c) = c_bed_target_temper c"
  "c_device (update_speed_and_signal_cache p c) = c_device c"
  "c_ams (update_speed_and_signal_cache p c) = c_ams c"
  "c_vt_tray (update_speed_and_signal_cache p c) = c_vt_tray c"
  "c_vir_slot (update_speed_and_signal_cache p c) = c_vir_slot c"
  "c_nozzle_temper (update_speed_and_signal_cache p c) = c_nozzle_temper c"
  "c_nozzle_target_temper (update_speed_and_signal_cache p c) = c_nozzle_target_temper c"
  "c_chamber_temper (update_speed_and_signal_cache p c) = c_chamber_temper c"
  "c_hms (update_speed_and_signal_cache p c) = c_hms c"
  "c_cooling_fan_speed (update_speed_and_signal_cache p c) = c_cooling_fan_speed c"
  "c_big_fan1_speed (update_speed_and_signal_cache p c) = c_big_fan1_speed c"
  "c_big_fan2_speed (update_speed_and_signal_cache p c) = c_big_fan2_speed c"
  "c_heatbreak_fan_speed (update_speed_and_signal_cache p c) = c_heatbreak_fan_speed c"
  "c_spd_lvl (update_speed_and_signal_cache p c) = keep_new (c_spd_lvl c) (p_spd_lvl p)"
  "c_spd_mag (update_speed_and_signal_cache p c) = keep_new (c_spd_mag c) (p_spd_mag p)"
  "c_wifi_signal (update_speed_and_signal_cache p c) = keep_new (c_wifi_signal c) (p_wifi_signal p)"
  "c_net_conf (update_speed_and_signal_cache p c) = keep_new (c_net_conf c) (Option.bind (p_net p) net_conf)"
  "c_ipcam (update_speed_and_signal_cache p c) = c_ipcam c"
  "c_xcam (update_speed_and_signal_cache p c) = c_xcam c"
  "c_fun2 (update_speed_and_signal_cache p c) = c_fun2 c"
  "c_fun (update_speed_and_signal_cache p c) = c_fun c"
  "c_settings_home_flag (update_speed_and_signal_cache p c) = c_settings_home_flag c"
  "c_settings_home_flag_generation (update_speed_and_signal_cache p c) = c_settings_home_flag_generation c"
  "c_reply_settings (update_speed_and_signal_cache p c) = c_reply_settings c"
  "c_cfg (update_speed_and_signal_cache p c) = c_cfg c"
  "c_firmware (update_speed_and_signal_cache p c) = c_firmware c"
  "c_firmware_generation (update_speed_and_signal_cache p c) = c_firmware_generation c"
  "c_np_format (update_speed_and_signal_cache p c) = c_np_format c"
  "c_support_flow_calibration (update_speed_and_signal_cache p c) = c_support_flow_calibration c"
  "c_cali_version (update_speed_and_signal_cache p c) = c_cali_version c"
  "c_gcode_file (update_speed_and_signal_cache p c) = c_gcode_file c"
  "c_plate_idx (update_speed_and_signal_cache p c) = c_plate_idx c"
  "c_job_start (update_speed_and_signal_cache p c) = c_job_start c"
  "c_reported_lights (update_speed_and_signal_cache p c) = c_reported_lights c"
  "c_lights_list_complete (update_speed_and_signal_cache p c) = c_lights_list_complete c"
  by (simp_all add: update_speed_and_signal_cache_def Let_def  split: option.split)

lemma update_ipcam_cache_select [simp]:
  "c_home_flag (update_ipcam_cache p c) = c_home_flag c"
  "c_home_flag_generation (update_ipcam_cache p c) = c_home_flag_generation c"
  "c_gcode_state (update_ipcam_cache p c) = c_gcode_state c"
  "c_door_open (update_ipcam_cache p c) = c_door_open c"
  "c_print_error (update_ipcam_cache p c) = c_print_error c"
  "c_job_id (update_ipcam_cache p c) = c_job_id c"
  "c_subtask_name (update_ipcam_cache p c) = c_subtask_name c"
  "c_nozzle_diameter (update_ipcam_cache p c) = c_nozzle_diameter c"
  "c_nozzle_type (update_ipcam_cache p c) = c_nozzle_type c"
  "c_sdcard (update_ipcam_cache p c) = c_sdcard c"
  "c_progress (update_ipcam_cache p c) = c_progress c"
  "c_bed_temper (update_ipcam_cache p c) = c_bed_temper c"
  "c_bed_target_temper (update_ipcam_cache p c) = c_bed_target_temper c"
  "c_device (update_ipcam_cache p c) = c_device c"
  "c_ams (update_ipcam_cache p c) = c_ams c"
  "c_vt_tray (update_ipcam_cache p c) = c_vt_tray c"
  "c_vir_slot (update_ipcam_cache p c) = c_vir_slot c"
  "c_nozzle_temper (update_ipcam_cache p c) = c_nozzle_temper c"
  "c_nozzle_target_temper (update_ipcam_cache p c) = c_nozzle_target_temper c"
  "c_chamber_temper (update_ipcam_cache p c) = c_chamber_temper c"
  "c_hms (update_ipcam_cache p c) = c_hms c"
  "c_cooling_fan_speed (update_ipcam_cache p c) = c_cooling_fan_speed c"
  "c_big_fan1_speed (update_ipcam_cache p c) = c_big_fan1_speed c"
  "c_big_fan2_speed (update_ipcam_cache p c) = c_big_fan2_speed c"
  "c_heatbreak_fan_speed (update_ipcam_cache p c) = c_heatbreak_fan_speed c"
  "c_spd_lvl (update_ipcam_cache p c) = c_spd_lvl c"
  "c_spd_mag (update_ipcam_cache p c) = c_spd_mag c"
  "c_wifi_signal (update_ipcam_cache p c) = c_wifi_signal c"
  "c_net_conf (update_ipcam_cache p c) = c_net_conf c"
  "c_ipcam (update_ipcam_cache p c) = merge_opt merge_ipcam (c_ipcam c) (p_ipcam p)"
  "c_xcam (update_ipcam_cache p c) = c_xcam c"
  "c_fun2 (update_ipcam_cache p c) = c_fun2 c"
  "c_fun (update_ipcam_cache p c) = c_fun c"
  "c_settings_home_flag (update_ipcam_cache p c) = c_settings_home_flag c"
  "c_settings_home_flag_generation (update_ipcam_cache p c) = c_settings_home_flag_generation c"
  "c_reply_settings (update_ipcam_cache p c) = c_reply_settings c"
  "c_cfg (update_ipcam_cache p c) = c_cfg c"
  "c_firmware (update_ipcam_cache p c) = c_firmware c"
  "c_firmware_generation (update_ipcam_cache p c) = c_firmware_generation c"
  "c_np_format (update_ipcam_cache p c) = c_np_format c"
  "c_support_flow_calibration (update_ipcam_cache p c) = c_support_flow_calibration c"
  "c_cali_version (update_ipcam_cache p c) = c_cali_version c"
  "c_gcode_file (update_ipcam_cache p c) = c_gcode_file c"
  "c_plate_idx (update_ipcam_cache p c) = c_plate_idx c"
  "c_job_start (update_ipcam_cache p c) = c_job_start c"
  "c_reported_lights (update_ipcam_cache p c) = c_reported_lights c"
  "c_lights_list_complete (update_ipcam_cache p c) = c_lights_list_complete c"
  by (simp_all add: update_ipcam_cache_def Let_def  split: option.split)

lemma update_xcam_cache_select [simp]:
  "c_home_flag (update_xcam_cache p c) = c_home_flag c"
  "c_home_flag_generation (update_xcam_cache p c) = c_home_flag_generation c"
  "c_gcode_state (update_xcam_cache p c) = c_gcode_state c"
  "c_door_open (update_xcam_cache p c) = c_door_open c"
  "c_print_error (update_xcam_cache p c) = c_print_error c"
  "c_job_id (update_xcam_cache p c) = c_job_id c"
  "c_subtask_name (update_xcam_cache p c) = c_subtask_name c"
  "c_nozzle_diameter (update_xcam_cache p c) = c_nozzle_diameter c"
  "c_nozzle_type (update_xcam_cache p c) = c_nozzle_type c"
  "c_sdcard (update_xcam_cache p c) = c_sdcard c"
  "c_progress (update_xcam_cache p c) = c_progress c"
  "c_bed_temper (update_xcam_cache p c) = c_bed_temper c"
  "c_bed_target_temper (update_xcam_cache p c) = c_bed_target_temper c"
  "c_device (update_xcam_cache p c) = c_device c"
  "c_ams (update_xcam_cache p c) = c_ams c"
  "c_vt_tray (update_xcam_cache p c) = c_vt_tray c"
  "c_vir_slot (update_xcam_cache p c) = c_vir_slot c"
  "c_nozzle_temper (update_xcam_cache p c) = c_nozzle_temper c"
  "c_nozzle_target_temper (update_xcam_cache p c) = c_nozzle_target_temper c"
  "c_chamber_temper (update_xcam_cache p c) = c_chamber_temper c"
  "c_hms (update_xcam_cache p c) = c_hms c"
  "c_cooling_fan_speed (update_xcam_cache p c) = c_cooling_fan_speed c"
  "c_big_fan1_speed (update_xcam_cache p c) = c_big_fan1_speed c"
  "c_big_fan2_speed (update_xcam_cache p c) = c_big_fan2_speed c"
  "c_heatbreak_fan_speed (update_xcam_cache p c) = c_heatbreak_fan_speed c"
  "c_spd_lvl (update_xcam_cache p c) = c_spd_lvl c"
  "c_spd_mag (update_xcam_cache p c) = c_spd_mag c"
  "c_wifi_signal (update_xcam_cache p c) = c_wifi_signal c"
  "c_net_conf (update_xcam_cache p c) = c_net_conf c"
  "c_ipcam (update_xcam_cache p c) = c_ipcam c"
  "c_xcam (update_xcam_cache p c) = merge_opt merge_xcam (c_xcam c) (p_xcam p)"
  "c_fun2 (update_xcam_cache p c) = c_fun2 c"
  "c_fun (update_xcam_cache p c) = c_fun c"
  "c_settings_home_flag (update_xcam_cache p c) = c_settings_home_flag c"
  "c_settings_home_flag_generation (update_xcam_cache p c) = c_settings_home_flag_generation c"
  "c_reply_settings (update_xcam_cache p c) = c_reply_settings c"
  "c_cfg (update_xcam_cache p c) = c_cfg c"
  "c_firmware (update_xcam_cache p c) = c_firmware c"
  "c_firmware_generation (update_xcam_cache p c) = c_firmware_generation c"
  "c_np_format (update_xcam_cache p c) = c_np_format c"
  "c_support_flow_calibration (update_xcam_cache p c) = c_support_flow_calibration c"
  "c_cali_version (update_xcam_cache p c) = c_cali_version c"
  "c_gcode_file (update_xcam_cache p c) = c_gcode_file c"
  "c_plate_idx (update_xcam_cache p c) = c_plate_idx c"
  "c_job_start (update_xcam_cache p c) = c_job_start c"
  "c_reported_lights (update_xcam_cache p c) = c_reported_lights c"
  "c_lights_list_complete (update_xcam_cache p c) = c_lights_list_complete c"
  by (simp_all add: update_xcam_cache_def Let_def  split: option.split)

lemma update_telemetry_cache_select [simp]:
  "c_home_flag (update_telemetry_cache sensor g r c) = keep_new (c_home_flag c) (Option.bind (tr_print r) p_home_flag)"
  "c_home_flag_generation (update_telemetry_cache sensor g r c) = (case tr_print r of None \<Rightarrow> c_home_flag_generation c | Some p \<Rightarrow> (if p_home_flag p = None then c_home_flag_generation c else Some g))"
  "c_gcode_state (update_telemetry_cache sensor g r c) = keep_new (c_gcode_state c) (Option.bind (tr_print r) p_gcode_state)"
  "c_door_open (update_telemetry_cache sensor g r c) = (case tr_print r of None \<Rightarrow> c_door_open c | Some p \<Rightarrow> keep_new (c_door_open c) (door_state sensor p))"
  "c_print_error (update_telemetry_cache sensor g r c) = keep_new (c_print_error c) (Option.bind (tr_print r) p_print_error)"
  "c_job_id (update_telemetry_cache sensor g r c) = keep_new (c_job_id c) (Option.bind (tr_print r) p_job_id)"
  "c_subtask_name (update_telemetry_cache sensor g r c) = keep_new (c_subtask_name c) (Option.bind (tr_print r) p_subtask_name)"
  "c_nozzle_diameter (update_telemetry_cache sensor g r c) = keep_new (c_nozzle_diameter c) (Option.bind (tr_print r) p_nozzle_diameter)"
  "c_nozzle_type (update_telemetry_cache sensor g r c) = keep_new (c_nozzle_type c) (Option.bind (tr_print r) p_nozzle_type)"
  "c_sdcard (update_telemetry_cache sensor g r c) = (case tr_print r of None \<Rightarrow> c_sdcard c | Some p \<Rightarrow> keep_new (c_sdcard c) (sdcard_status p))"
  "c_progress (update_telemetry_cache sensor g r c) = (case tr_print r of None \<Rightarrow> c_progress c | Some p \<Rightarrow> progress_after (c_progress c) p)"
  "c_bed_temper (update_telemetry_cache sensor g r c) = keep_new (c_bed_temper c) (Option.bind (tr_print r) p_bed_temper)"
  "c_bed_target_temper (update_telemetry_cache sensor g r c) = keep_new (c_bed_target_temper c) (Option.bind (tr_print r) p_bed_target_temper)"
  "c_device (update_telemetry_cache sensor g r c) = merge_opt merge_device (c_device c) (report_device r)"
  "c_ams (update_telemetry_cache sensor g r c) = (case tr_print r of None \<Rightarrow> c_ams c | Some p \<Rightarrow> merge_opt merge_report (c_ams c) (p_ams p))"
  "c_vt_tray (update_telemetry_cache sensor g r c) = (case tr_print r of None \<Rightarrow> c_vt_tray c | Some p \<Rightarrow> merge_opt merge_tray (c_vt_tray c) (p_vt_tray p))"
  "c_vir_slot (update_telemetry_cache sensor g r c) = (case tr_print r of None \<Rightarrow> c_vir_slot c | Some p \<Rightarrow> slots_after (c_vir_slot c) (p_vir_slot p))"
  "c_nozzle_temper (update_telemetry_cache sensor g r c) = keep_new (c_nozzle_temper c) (Option.bind (tr_print r) p_nozzle_temper)"
  "c_nozzle_target_temper (update_telemetry_cache sensor g r c) = keep_new (c_nozzle_target_temper c) (Option.bind (tr_print r) p_nozzle_target_temper)"
  "c_chamber_temper (update_telemetry_cache sensor g r c) = keep_new (c_chamber_temper c) (Option.bind (tr_print r) p_chamber_temper)"
  "c_hms (update_telemetry_cache sensor g r c) = keep_new (c_hms c) (Option.bind (tr_print r) p_hms)"
  "c_cooling_fan_speed (update_telemetry_cache sensor g r c) = keep_new (c_cooling_fan_speed c) (Option.bind (tr_print r) p_cooling_fan_speed)"
  "c_big_fan1_speed (update_telemetry_cache sensor g r c) = keep_new (c_big_fan1_speed c) (Option.bind (tr_print r) p_big_fan1_speed)"
  "c_big_fan2_speed (update_telemetry_cache sensor g r c) = keep_new (c_big_fan2_speed c) (Option.bind (tr_print r) p_big_fan2_speed)"
  "c_heatbreak_fan_speed (update_telemetry_cache sensor g r c) = keep_new (c_heatbreak_fan_speed c) (Option.bind (tr_print r) p_heatbreak_fan_speed)"
  "c_spd_lvl (update_telemetry_cache sensor g r c) = keep_new (c_spd_lvl c) (Option.bind (tr_print r) p_spd_lvl)"
  "c_spd_mag (update_telemetry_cache sensor g r c) = keep_new (c_spd_mag c) (Option.bind (tr_print r) p_spd_mag)"
  "c_wifi_signal (update_telemetry_cache sensor g r c) = keep_new (c_wifi_signal c) (Option.bind (tr_print r) p_wifi_signal)"
  "c_net_conf (update_telemetry_cache sensor g r c) = (case tr_print r of None \<Rightarrow> c_net_conf c | Some p \<Rightarrow> keep_new (c_net_conf c) (Option.bind (p_net p) net_conf))"
  "c_ipcam (update_telemetry_cache sensor g r c) = (case tr_print r of None \<Rightarrow> c_ipcam c | Some p \<Rightarrow> merge_opt merge_ipcam (c_ipcam c) (p_ipcam p))"
  "c_xcam (update_telemetry_cache sensor g r c) = (case tr_print r of None \<Rightarrow> c_xcam c | Some p \<Rightarrow> merge_opt merge_xcam (c_xcam c) (p_xcam p))"
  "c_fun2 (update_telemetry_cache sensor g r c) = keep_new (c_fun2 c) (report_fun2 r)"
  "c_fun (update_telemetry_cache sensor g r c) = keep_new (c_fun c) (report_fun r)"
  "c_settings_home_flag (update_telemetry_cache sensor g r c) = c_settings_home_flag c"
  "c_settings_home_flag_generation (update_telemetry_cache sensor g r c) = c_settings_home_flag_generation c"
  "c_reply_settings (update_telemetry_cache sensor g r c) = c_reply_settings c"
  "c_cfg (update_telemetry_cache sensor g r c) = keep_new (c_cfg c) (Option.bind (tr_print r) p_cfg)"
  "c_firmware (update_telemetry_cache sensor g r c) = c_firmware c"
  "c_firmware_generation (update_telemetry_cache sensor g r c) = c_firmware_generation c"
  "c_np_format (update_telemetry_cache sensor g r c) = (case tr_print r of None \<Rightarrow> c_np_format c | Some p \<Rightarrow> np_format_after (c_np_format c) p)"
  "c_support_flow_calibration (update_telemetry_cache sensor g r c) = keep_new (c_support_flow_calibration c) (Option.bind (tr_print r) p_support_flow_calibration)"
  "c_cali_version (update_telemetry_cache sensor g r c) = keep_new (c_cali_version c) (Option.bind (tr_print r) p_cali_version)"
  "c_gcode_file (update_telemetry_cache sensor g r c) = keep_new (c_gcode_file c) (Option.bind (tr_print r) p_gcode_file)"
  "c_plate_idx (update_telemetry_cache sensor g r c) = (case tr_print r of None \<Rightarrow> c_plate_idx c | Some p \<Rightarrow> plate_after (c_gcode_file c) (c_plate_idx c) p)"
  "c_job_start (update_telemetry_cache sensor g r c) = (case tr_print r of None \<Rightarrow> c_job_start c | Some p \<Rightarrow> (if job_ended (c_gcode_state c) p then None else c_job_start c))"
  "c_reported_lights (update_telemetry_cache sensor g r c) = c_reported_lights c"
  "c_lights_list_complete (update_telemetry_cache sensor g r c) = c_lights_list_complete c"
  by (simp_all add: update_telemetry_cache_def Let_def keep_new_def split: option.split)

section \<open>Well-formed reports\<close>

definition slots_ok :: "ams_tray list option \<Rightarrow> bool" where
  "slots_ok ss \<longleftrightarrow> (case ss of None \<Rightarrow> True | Some ss \<Rightarrow> distinct (map at_id ss))"

definition opt_ok :: "('a \<Rightarrow> bool) \<Rightarrow> 'a option \<Rightarrow> bool" where
  "opt_ok P v \<longleftrightarrow> (case v of None \<Rightarrow> True | Some x \<Rightarrow> P x)"

definition cache_ok :: "telemetry_cache \<Rightarrow> bool" where
  "cache_ok c \<longleftrightarrow> opt_ok device_ok (c_device c) \<and> opt_ok report_ok (c_ams c) \<and> slots_ok (c_vir_slot c)"

definition push_ok :: "telemetry_report \<Rightarrow> bool" where
  "push_ok r \<longleftrightarrow> opt_ok device_ok (report_device r)
     \<and> opt_ok report_ok (Option.bind (tr_print r) p_ams) \<and> slots_ok (Option.bind (tr_print r) p_vir_slot)"

lemma opt_ok_simps [simp]: "opt_ok P None" "opt_ok P (Some x) = P x"
  by (simp_all add: opt_ok_def)

lemma merge_opt_facts:
  assumes "opt_ok ok c" "opt_ok ok n"
  shows "(\<And>c n. ok c \<Longrightarrow> ok n \<Longrightarrow> ok (m c n)) \<Longrightarrow> opt_ok ok (merge_opt m c n)"
    "(\<And>c n. ok c \<Longrightarrow> ok n \<Longrightarrow> m (m c n) n = m c n) \<Longrightarrow> (\<And>n. ok n \<Longrightarrow> m n n = n)
      \<Longrightarrow> merge_opt m (merge_opt m c n) n = merge_opt m c n"
  using assms by (cases c; cases n; simp add: merge_opt_def)+

lemma merge_report_self: "report_ok n \<Longrightarrow> merge_report n n = n"
  by (simp add: report_ok_def merge_report_def units.merge_keyed_self)

lemma device_again:
  "opt_ok device_ok c \<Longrightarrow> opt_ok device_ok n \<Longrightarrow>
    merge_opt merge_device (merge_opt merge_device c n) n = merge_opt merge_device c n"
  by (rule merge_opt_facts(2) [of device_ok]) (simp_all add: merge_device_facts)

lemma ams_again:
  "opt_ok report_ok c \<Longrightarrow> opt_ok report_ok n \<Longrightarrow>
    merge_opt merge_report (merge_opt merge_report c n) n = merge_opt merge_report c n"
  by (rule merge_opt_facts(2) [of report_ok]) (simp_all add: merge_report_again merge_report_self)

lemma slots_after_facts:
  assumes "slots_ok c" "slots_ok n"
  shows "slots_ok (slots_after c n)" "slots_after (slots_after c n) n = slots_after c n"
  using assms trays.merge_keyed_distinct trays.merge_keyed_again
  by (auto simp: slots_ok_def slots_after_def list_all_iff split: option.splits)

lemma progress_again: "progress_after (progress_after g p) p = progress_after g p"
  by (simp add: progress_after_def split: option.split)

lemma np_format_again: "np_format_after (np_format_after np p) p = np_format_after np p"
  by (simp add: np_format_after_def)

lemma plate_again:
  "plate_after (keep_new file (p_gcode_file p)) (plate_after file plate p) p = plate_after file plate p"
  by (auto simp: plate_after_def keep_new_def Let_def split: option.split)

lemma job_ended_once: "\<not> job_ended (keep_new st (p_gcode_state p)) p"
  by (auto simp: job_ended_def keep_new_def is_busy_def split: option.splits)

lemma merge_tray_same: "merge_tray (merge_tray c n) n = merge_tray c n" "merge_tray n n = n"
  using trays.merge_again trays.merge_self by auto

lemma update_cache_ok:
  assumes "cache_ok c" "push_ok r"
  shows "cache_ok (update_telemetry_cache sensor g r c)"
proof -
  have "opt_ok device_ok (merge_opt merge_device (c_device c) (report_device r))"
    using assms by (intro merge_opt_facts(1)) (simp_all add: cache_ok_def push_ok_def merge_device_facts)
  moreover have "opt_ok report_ok (merge_opt merge_report (c_ams c) (p_ams p))" if "tr_print r = Some p" for p
    using assms that by (intro merge_opt_facts(1)) (simp_all add: cache_ok_def push_ok_def merge_report_ok)
  ultimately show ?thesis
    using assms slots_after_facts(1) by (auto simp: cache_ok_def push_ok_def split: option.split)
qed

lemma update_cache_again:
  assumes "cache_ok c" "push_ok r"
  shows "update_telemetry_cache sensor g r (update_telemetry_cache sensor g r c) = update_telemetry_cache sensor g r c"
proof -
  have d: "merge_opt merge_device (merge_opt merge_device (c_device c) (report_device r)) (report_device r)
      = merge_opt merge_device (c_device c) (report_device r)"
    using assms by (simp add: cache_ok_def push_ok_def device_again)
  show ?thesis
  proof (cases "tr_print r")
    case None
    with d show ?thesis by (intro telemetry_cache.equality) simp_all
  next
    case (Some p)
    have "merge_opt merge_report (merge_opt merge_report (c_ams c) (p_ams p)) (p_ams p) = merge_opt merge_report (c_ams c) (p_ams p)"
      "slots_after (slots_after (c_vir_slot c) (p_vir_slot p)) (p_vir_slot p) = slots_after (c_vir_slot c) (p_vir_slot p)"
      using assms Some by (simp_all add: cache_ok_def push_ok_def ams_again slots_after_facts)
    with d Some show ?thesis
      by (intro telemetry_cache.equality)
        (simp_all add: plate_again job_ended_once np_format_again progress_again merge_tray_same merge_ipcam_same merge_xcam_same)
  qed
qed

end
