(* ===== verification/CoreProps.thy ===== *)
theory CoreProps
  imports CacheProps ClientProps
begin

text \<open>
  What a client knows and since when: a reading counts only on the connection it was reported on, and a report that is
  delivered twice says nothing new.
\<close>

section \<open>What is heard\<close>

text \<open>A connection begins, a message is classified, a version reply is noted.\<close>

datatype core_event = Began | Heard mqtt_message | Versioned version_info

fun core_step :: "derived \<Rightarrow> core_event \<Rightarrow> client_core \<Rightarrow> client_core" where
  "core_step de Began k = begin_connection k"
| "core_step de (Heard msg) k = snd (classify_message de msg k)"
| "core_step de (Versioned info) k = note_firmware info k"

definition core_run :: "derived \<Rightarrow> core_event list \<Rightarrow> client_core \<Rightarrow> client_core" where
  "core_run de es k = fold (core_step de) es k"

text \<open>The report a message is taken as: the reply to a command is none.\<close>

definition heard_report :: "derived \<Rightarrow> mqtt_message \<Rightarrow> telemetry_report option" where
  "heard_report de msg =
     (let report = de_report de (m_payload msg) in
      if is_push report \<or> parse_command_echo (de_echo de) (m_payload msg) = None then report else None)"

fun home_news :: "derived \<Rightarrow> core_event \<Rightarrow> u32 option" where
  "home_news de (Heard msg) = Option.bind (Option.bind (heard_report de msg) tr_print) p_home_flag"
| "home_news de _ = None"

fun firmware_news :: "derived \<Rightarrow> core_event \<Rightarrow> string option" where
  "firmware_news de (Versioned info) = firmware_version info"
| "firmware_news de _ = None"

text \<open>What was last said since the connection began.\<close>

definition since_begun :: "(derived \<Rightarrow> core_event \<Rightarrow> 'a option) \<Rightarrow> derived \<Rightarrow> core_event list \<Rightarrow> 'a option" where
  "since_begun news de es = fold (\<lambda>e last_said. if e = Began then None else keep_new last_said (news de e)) es None"

lemma note_accepted_cache [simp]:
  "c_home_flag (cc_cache (note_accepted de payload echo k)) = c_home_flag (cc_cache k)"
  "c_home_flag_generation (cc_cache (note_accepted de payload echo k)) = c_home_flag_generation (cc_cache k)"
  "c_firmware (cc_cache (note_accepted de payload echo k)) = c_firmware (cc_cache k)"
  "c_firmware_generation (cc_cache (note_accepted de payload echo k)) = c_firmware_generation (cc_cache k)"
  "cc_generation (note_accepted de payload echo k) = cc_generation k"
  by (simp_all add: note_accepted_def Let_def record_job_start_def apply_print_option_reply_def split: option.split)

lemma note_settings_cache [simp]:
  "c_home_flag (note_settings de payload r g c) = c_home_flag c"
  "c_home_flag_generation (note_settings de payload r g c) = c_home_flag_generation c"
  "c_firmware (note_settings de payload r g c) = c_firmware c"
  "c_firmware_generation (note_settings de payload r g c) = c_firmware_generation c"
  by (simp_all add: note_settings_def Let_def split: option.split)

lemma note_lights_cache [simp]:
  "c_home_flag (note_lights de payload r c) = c_home_flag c"
  "c_home_flag_generation (note_lights de payload r c) = c_home_flag_generation c"
  "c_firmware (note_lights de payload r c) = c_firmware c"
  "c_firmware_generation (note_lights de payload r c) = c_firmware_generation c"
  by (simp_all add: note_lights_def Let_def split: option.split)

lemma classify_heard:
  "heard_report de msg = Some r \<Longrightarrow> snd (classify_message de msg k) = receive_report de (m_payload msg) r k"
  "heard_report de msg = None \<Longrightarrow> snd (classify_message de msg k) = k
     \<or> (\<exists>echo t. snd (classify_message de msg k) = (note_accepted de (m_payload msg) echo k)\<lparr>cc_commands := t\<rparr>)"
  by (auto simp: heard_report_def classify_message_def Let_def is_push_def split: if_splits option.splits prod.splits)

section \<open>Evidence\<close>

text \<open>A reading that is kept with the connection it was said on.\<close>

locale evidence =
  fixes reading :: "client_core \<Rightarrow> 'a option" and stamp :: "client_core \<Rightarrow> u32 option"
    and news :: "derived \<Rightarrow> core_event \<Rightarrow> 'a option"
  assumes unread: "reading (new_core i) = None" "stamp (new_core i) = None"
    and silent: "e = Began \<or> news de e = None \<Longrightarrow> reading (core_step de e k) = reading k \<and> stamp (core_step de e k) = stamp k"
    and said: "e \<noteq> Began \<Longrightarrow> news de e = Some v \<Longrightarrow>
      reading (core_step de e k) = Some v \<and> stamp (core_step de e k) = Some (cc_generation k)"
begin

definition current :: "client_core \<Rightarrow> 'a option" where
  "current k = (case stamp k of None \<Rightarrow> None | Some g \<Rightarrow> if g \<noteq> cc_generation k then None else reading k)"

definition stamped :: "nat \<Rightarrow> client_core \<Rightarrow> 'a option \<Rightarrow> bool" where
  "stamped n k last_said \<longleftrightarrow> cc_generation k = of_nat n
     \<and> (case stamp k of None \<Rightarrow> last_said = None
        | Some g \<Rightarrow> (\<exists>j \<le> n. g = of_nat j \<and> (if j = n then reading k = last_said else last_said = None)))"

lemma generation_step: "cc_generation (core_step de e k) = (if e = Began then cc_generation k + 1 else cc_generation k)"
proof (cases e)
  case (Heard msg)
  show ?thesis
  proof (cases "heard_report de msg")
    case None
    with Heard classify_heard(2) [OF None, of k] show ?thesis by auto
  next
    case (Some r)
    with Heard show ?thesis by (simp add: classify_heard receive_report_def)
  qed
qed (simp_all add: begin_connection_def note_firmware_def split: option.split)

lemma stamped_step:
  assumes "stamped n k last_said"
  shows "stamped (if e = Began then n + 1 else n) (core_step de e k) (if e = Began then None else keep_new last_said (news de e))"
proof (cases "e = Began \<or> news de e = None")
  case True
  note keep = silent [OF this, of k]
  show ?thesis
  proof (cases "stamp k")
    case None
    with assms keep True show ?thesis by (auto simp: stamped_def generation_step keep_new_def)
  next
    case (Some g)
    with assms obtain j where "j \<le> n" "g = of_nat j" "if j = n then reading k = last_said else last_said = None"
      by (auto simp: stamped_def)
    with assms keep True Some show ?thesis
      by (auto simp: stamped_def generation_step keep_new_def intro!: exI [of _ j])
  qed
next
  case False
  then obtain v where v: "e \<noteq> Began" "news de e = Some v" by auto
  from said [OF v, of k] assms v show ?thesis by (auto simp: stamped_def generation_step keep_new_def)
qed

lemma stamped_run:
  "stamped n k last_said \<Longrightarrow>
    stamped (n + length (filter (\<lambda>e. e = Began) es)) (core_run de es k)
      (fold (\<lambda>e said. if e = Began then None else keep_new said (news de e)) es last_said)"
proof (induction es arbitrary: n k last_said)
  case (Cons e es)
  from Cons.IH [OF stamped_step [OF Cons.prems, of e de]] show ?case by (simp add: core_run_def split: if_splits)
qed (simp add: core_run_def)

lemma stamped_current: "stamped n k last_said \<Longrightarrow> n < 2 ^ 32 \<Longrightarrow> current k = last_said"
  using of_nat_inverse
  by (auto simp: stamped_def current_def word_of_nat_eq_iff take_bit_nat_eq_self split: option.splits if_splits)

lemma current_since_begun:
  assumes "length (filter (\<lambda>e. e = Began) es) < 2 ^ 32"
  shows "current (core_run de es (new_core i)) = since_begun news de es"
proof -
  have "stamped 0 (new_core i) None" using unread by (simp add: stamped_def new_core_def)
  from stamped_current [OF stamped_run [OF this]] assms show ?thesis by (simp add: since_begun_def)
qed

end

lemma receive_report_home:
  "c_home_flag (cc_cache (receive_report de payload r k)) = keep_new (c_home_flag (cc_cache k)) (Option.bind (tr_print r) p_home_flag)"
  "c_home_flag_generation (cc_cache (receive_report de payload r k)) =
     (if Option.bind (tr_print r) p_home_flag = None then c_home_flag_generation (cc_cache k) else Some (cc_generation k))"
  "c_firmware (cc_cache (receive_report de payload r k)) = c_firmware (cc_cache k)"
  "c_firmware_generation (cc_cache (receive_report de payload r k)) = c_firmware_generation (cc_cache k)"
  by (simp_all add: receive_report_def split: option.split)

lemma heard_home_step:
  "Option.bind (Option.bind (heard_report de msg) tr_print) p_home_flag = v \<Longrightarrow>
    c_home_flag (cc_cache (snd (classify_message de msg k))) = keep_new (c_home_flag (cc_cache k)) v
    \<and> c_home_flag_generation (cc_cache (snd (classify_message de msg k))) =
      (if v = None then c_home_flag_generation (cc_cache k) else Some (cc_generation k))"
proof (cases "heard_report de msg")
  case None
  moreover assume "Option.bind (Option.bind (heard_report de msg) tr_print) p_home_flag = v"
  ultimately show ?thesis using classify_heard(2) [OF None, of k] by (auto simp: keep_new_def)
next
  case (Some r)
  moreover assume "Option.bind (Option.bind (heard_report de msg) tr_print) p_home_flag = v"
  ultimately show ?thesis by (simp add: classify_heard(1) receive_report_home)
qed

lemma heard_firmware_step:
  "c_firmware (cc_cache (snd (classify_message de msg k))) = c_firmware (cc_cache k)"
  "c_firmware_generation (cc_cache (snd (classify_message de msg k))) = c_firmware_generation (cc_cache k)"
proof -
  have "c_firmware (cc_cache (snd (classify_message de msg k))) = c_firmware (cc_cache k)
    \<and> c_firmware_generation (cc_cache (snd (classify_message de msg k))) = c_firmware_generation (cc_cache k)"
  proof (cases "heard_report de msg")
    case None
    from classify_heard(2) [OF None, of k] show ?thesis by auto
  next
    case (Some r)
    then show ?thesis by (simp add: classify_heard(1) receive_report_home)
  qed
  then show "c_firmware (cc_cache (snd (classify_message de msg k))) = c_firmware (cc_cache k)"
    "c_firmware_generation (cc_cache (snd (classify_message de msg k))) = c_firmware_generation (cc_cache k)" by simp_all
qed

interpretation home_flag: evidence "\<lambda>k. c_home_flag (cc_cache k)" "\<lambda>k. c_home_flag_generation (cc_cache k)" home_news
proof unfold_locales
  fix e :: core_event and de k
  show "e = Began \<or> home_news de e = None \<Longrightarrow> c_home_flag (cc_cache (core_step de e k)) = c_home_flag (cc_cache k)
      \<and> c_home_flag_generation (cc_cache (core_step de e k)) = c_home_flag_generation (cc_cache k)"
    using heard_home_step
    by (cases e) (auto simp: begin_connection_def note_firmware_def keep_new_def split: option.split)
  show "e \<noteq> Began \<Longrightarrow> home_news de e = Some v \<Longrightarrow> c_home_flag (cc_cache (core_step de e k)) = Some v
      \<and> c_home_flag_generation (cc_cache (core_step de e k)) = Some (cc_generation k)" for v
    using heard_home_step by (cases e) (auto simp: keep_new_def)
qed (simp_all add: new_core_def new_cache_def)

interpretation firmware: evidence "\<lambda>k. c_firmware (cc_cache k)" "\<lambda>k. c_firmware_generation (cc_cache k)" firmware_news
proof unfold_locales
  fix e :: core_event and de k
  show "e = Began \<or> firmware_news de e = None \<Longrightarrow> c_firmware (cc_cache (core_step de e k)) = c_firmware (cc_cache k)
      \<and> c_firmware_generation (cc_cache (core_step de e k)) = c_firmware_generation (cc_cache k)"
    by (cases e) (auto simp: begin_connection_def note_firmware_def heard_firmware_step)
  show "e \<noteq> Began \<Longrightarrow> firmware_news de e = Some v \<Longrightarrow> c_firmware (cc_cache (core_step de e k)) = Some v
      \<and> c_firmware_generation (cc_cache (core_step de e k)) = Some (cc_generation k)" for v
    by (cases e) (auto simp: note_firmware_def)
qed (simp_all add: new_core_def new_cache_def)

definition ota_reply :: version_info where
  "ota_reply = \<lparr>vi_command = [], vi_sequence_id = [], vi_module = [\<lparr>vm_product_name = [], vm_name = ''ota'', vm_hw_ver = [], vm_sw_ver = ''1'',
     vm_sn = [], vm_visible = True, vm_project_name = None, vm_loader_ver = None, vm_ota_ver = None, vm_flag = None\<rparr>]\<rparr>"

lemma ota_reply_firmware: "firmware_version ota_reply = Some ''1''"
  by (simp add: ota_reply_def firmware_version_def version_module_named_def)

text \<open>C12. What a client holds for true of the printer it heard on the connection it now has: the home flag it answers homing
  questions from is the last one reported since the connection began, and unknown when none was, whatever earlier
  connections said and whatever replies to commands came between; the same holds of the firmware version. (Below 2^32
  connections, where the count of connections starts anew.)\<close>

theorem evidence_of_this_connection:
  assumes "length (filter (\<lambda>e. e = Began) es) < 2 ^ 32"
  shows "home_flag_this_connection (core_run de es (new_core i)) = since_begun home_news de es
    \<and> client_all_axes_homed (core_run de es (new_core i)) = map_option is_all_axes_homed (since_begun home_news de es)
    \<and> firmware_this_connection (core_run de es (new_core i)) = since_begun firmware_news de es"
  using home_flag.current_since_begun [OF assms, of de i] firmware.current_since_begun [OF assms, of de i]
  by (simp add: home_flag.current_def firmware.current_def home_flag_this_connection_def firmware_this_connection_def
      client_all_axes_homed_def)

theorem evidence_of_this_connection_witness:
  "firmware_this_connection (core_run (pl_derived quiet_platform) [Began, Versioned ota_reply] (new_core quiet_identity)) = Some ''1''
    \<and> firmware_this_connection (core_run (pl_derived quiet_platform) [Began, Versioned ota_reply, Began] (new_core quiet_identity)) = None"
  using evidence_of_this_connection [of "[Began, Versioned ota_reply]" "pl_derived quiet_platform" quiet_identity]
    evidence_of_this_connection [of "[Began, Versioned ota_reply, Began]" "pl_derived quiet_platform" quiet_identity]
  by (simp add: since_begun_def ota_reply_firmware keep_new_def)

section \<open>Redelivery\<close>

lemma lights_again:
  fixes seen :: u8
  shows "fold (\<lambda>node m. m OR light_bit node) ns (fold (\<lambda>node m. m OR light_bit node) ns seen) = fold (\<lambda>node m. m OR light_bit node) ns seen"
proof -
  have absorbed: "fold (\<lambda>node m. m OR light_bit node) ns (a OR x) = fold (\<lambda>node m. m OR light_bit node) ns a OR x" for ns and a x :: u8
  proof (induction ns arbitrary: a)
    case (Cons n ns)
    have "(a OR x) OR light_bit n = (a OR light_bit n) OR x" by (simp only: or.assoc or.commute [of x])
    with Cons.IH [of "a OR light_bit n"] show ?case by simp
  qed simp
  show ?thesis by (induction ns arbitrary: seen) (simp_all add: absorbed or.assoc)
qed

lemma cache_kept:
  "c_settings_home_flag c = Some f \<Longrightarrow> c_settings_home_flag_generation c = Some g \<Longrightarrow>
    c\<lparr>c_settings_home_flag := Some f, c_settings_home_flag_generation := Some g\<rparr> = c"
  "c_reply_settings c = rs \<Longrightarrow> c\<lparr>c_reply_settings := rs\<rparr> = c"
  "c_reported_lights c = l \<Longrightarrow> c\<lparr>c_reported_lights := l\<rparr> = c"
  "c_lights_list_complete c \<Longrightarrow> c\<lparr>c_lights_list_complete := True\<rparr> = c"
  by (rule telemetry_cache.equality; simp)+

lemma settings_noted:
  assumes "c_settings_home_flag c2 = c_settings_home_flag (note_settings de payload r g c)"
    "c_settings_home_flag_generation c2 = c_settings_home_flag_generation (note_settings de payload r g c)"
    "c_reply_settings c2 = c_reply_settings (note_settings de payload r g c)"
    "c_cfg c2 = keep_new (c_cfg c) (Option.bind (tr_print r) p_cfg)"
  shows "note_settings de payload r g c2 = c2"
proof -
  let ?now = "report_settings_home_flag de payload r c" and ?again = "report_settings_home_flag de payload r c2"
  have again: "?now = Some f" if "?again = Some f" for f
    using that assms(4) by (auto simp: report_settings_home_flag_def bind_eq_Some_conv keep_new_def split: if_splits option.splits)
  show ?thesis
  proof (cases ?again)
    case None
    then show ?thesis using assms(3)
      by (auto simp: note_settings_def Let_def cache_kept split: option.splits)
  next
    case (Some f)
    note now = again [OF Some]
    have "c_settings_home_flag c2 = Some f" "c_settings_home_flag_generation c2 = Some g" "c_reply_settings c2 = new_reply_settings"
      using assms now by (simp_all add: note_settings_def Let_def)
    with Some show ?thesis by (simp add: note_settings_def Let_def cache_kept)
  qed
qed

lemma lights_noted:
  assumes "c_reported_lights c2 = c_reported_lights (note_lights de payload r c)"
    "c_lights_list_complete c2 = c_lights_list_complete (note_lights de payload r c)"
  shows "note_lights de payload r c2 = c2"
  using assms by (auto simp: note_lights_def Let_def lights_again cache_kept split: option.splits)

lemma note_lights_settings [simp]:
  "c_settings_home_flag (note_lights de payload r c) = c_settings_home_flag c"
  "c_settings_home_flag_generation (note_lights de payload r c) = c_settings_home_flag_generation c"
  "c_reply_settings (note_lights de payload r c) = c_reply_settings c" "c_cfg (note_lights de payload r c) = c_cfg c"
  "cache_ok (note_lights de payload r c) = cache_ok c"
  by (simp_all add: note_lights_def cache_ok_def Let_def split: option.split)

lemma note_settings_cfg [simp]: "c_cfg (note_settings de payload r g c) = c_cfg c"
  "cache_ok (note_settings de payload r g c) = cache_ok c"
  by (simp_all add: note_settings_def cache_ok_def Let_def split: option.split)

text \<open>C33. A report that is delivered again at once, as the broker may, tells the client nothing: the cache is well formed after
  the first delivery and stays as it is at the second, merged trays, units, devices, lights, job progress and settings
  included, and the event is the same. (The report names no unit, tray or part twice.)\<close>

theorem redelivered_report_unchanged:
  assumes "classify_message de msg k = (EventReport r msg, k1)" "cache_ok (cc_cache k)" "push_ok r"
  shows "cache_ok (cc_cache k1) \<and> classify_message de msg k1 = (EventReport r msg, k1)"
proof -
  have heard: "heard_report de msg = Some r" "is_push (de_report de (m_payload msg)) \<or> parse_command_echo (de_echo de) (m_payload msg) = None"
    "de_report de (m_payload msg) = Some r"
    using assms(1) by (auto simp: heard_report_def classify_message_def Let_def split: option.splits prod.splits if_splits)
  have k1: "k1 = receive_report de (m_payload msg) r k" using classify_heard(1) [OF heard(1), of k] assms(1) by simp
  define g where "g = cc_generation k"
  define c1 where "c1 = note_lights de (m_payload msg) r (note_settings de (m_payload msg) r g (cc_cache k))"
  define c2 where "c2 = update_telemetry_cache (q_door (client_quirks k)) g r c1"
  have c2: "cc_cache k1 = c2" by (simp add: k1 receive_report_def c2_def c1_def g_def)
  have "cache_ok c1" using assms(2) by (simp add: c1_def)
  then have ok: "cache_ok c2" and again: "update_telemetry_cache (q_door (client_quirks k)) g r c2 = c2"
    using update_cache_ok update_cache_again assms(3) by (simp_all add: c2_def)
  have settings: "note_settings de (m_payload msg) r g c2 = c2"
    by (rule settings_noted [of _ _ _ _ _ "cc_cache k"]) (simp_all add: c2_def c1_def)
  have lights: "note_lights de (m_payload msg) r c2 = c2"
    by (rule lights_noted [of _ _ _ _ "note_settings de (m_payload msg) r g (cc_cache k)"]) (simp_all add: c2_def c1_def)
  have "receive_report de (m_payload msg) r k1 = k1\<lparr>cc_cache := c2\<rparr>"
    using c2 settings lights again by (simp add: receive_report_def k1 g_def client_quirks_def)
  then have "receive_report de (m_payload msg) r k1 = k1" using c2 by (auto intro: client_core.equality)
  with heard ok c2 show ?thesis by (auto simp: classify_message_def Let_def split: option.split)
qed

theorem redelivered_report_unchanged_witness:
  "\<exists>k1. classify_message ((pl_derived quiet_platform)
       \<lparr>de_report := \<lambda>_. Some \<lparr>tr_print = None, tr_device = None, tr_fun = Some ''1'', tr_fun2 = Some ''2''\<rparr>\<rparr>)
       \<lparr>m_topic = [], m_payload = []\<rparr> k1
     = (EventReport \<lparr>tr_print = None, tr_device = None, tr_fun = Some ''1'', tr_fun2 = Some ''2''\<rparr> \<lparr>m_topic = [], m_payload = []\<rparr>, k1)
     \<and> c_fun2 (cc_cache k1) = Some ''2''"
proof -
  let ?r = "\<lparr>tr_print = None, tr_device = None, tr_fun = Some ''1'', tr_fun2 = Some ''2''\<rparr>"
  let ?de = "(pl_derived quiet_platform)\<lparr>de_report := \<lambda>_. Some ?r\<rparr>" and ?msg = "\<lparr>m_topic = [], m_payload = []\<rparr>"
  let ?k = "new_core quiet_identity" and ?k1 = "receive_report ?de [] ?r (new_core quiet_identity)"
  have first: "classify_message ?de ?msg ?k = (EventReport ?r ?msg, ?k1)"
    by (simp add: classify_message_def Let_def is_push_def parse_command_echo_def quiet_platform_def)
  have "cache_ok (cc_cache ?k)" by (simp add: new_core_def new_cache_def cache_ok_def slots_ok_def)
  moreover have "push_ok ?r" by (simp add: push_ok_def report_device_def opt_or_def slots_ok_def)
  moreover have "c_fun2 (cc_cache ?k1) = Some ''2''" by (simp add: receive_report_def report_fun2_def opt_or_def)
  ultimately show ?thesis using redelivered_report_unchanged [OF first] by blast
qed

end
