(* ===== verification/Spec2Isabelle.thy ===== *)
theory Spec2Isabelle
  imports MqttFlows TunnelProps FtpChannel GcodeProps CameraProps FtpsListingProps FtpsServed FtpsLogin
    AmsParser AmsAutoMapProps CommandProps ModelsProps QuirksProps FtpsProject ZipMember
    Device Report RequestsProps ClientCommands ClientSafety PollProps CoreProps
begin

text \<open>
  A verification development for the Rust crate \<open>bambino\<close>, a client library for Bambu Lab printers.

  The crate talks to a printer over three channels and a camera: MQTT for telemetry and commands, FTPS
  for files, a binary file tunnel on the camera port for newer models, and the camera stream itself.
  All of them go through one transport seam (\<open>src/io/mod.rs\<close>): asynchronous reads and writes raced
  against a timer. Around them are the codecs, the parsers of what the printer sends, and the rules
  that depend on the model.

  \<^bold>\<open>Layout.\<close> Theories follow the modules of \<open>src/\<close>; a theory \<open>X\<close> holds the definitions of a module and
  \<open>XProps\<close> (or the name of a larger topic) what is proved of them.

  \<^item> \<open>Prelude\<close>, \<open>RustStr\<close>, \<open>Json\<close>: machine integers, byte strings, the string functions of the standard
    library (UTF-8, trimming, integer parsing and printing), JSON values.
  \<^item> \<open>Io\<close>, \<open>Reader\<close>: \<open>src/io/mod.rs\<close>. The peer, the socket and the clock are a script the model is run
    against; every theorem quantifies over it. The locale \<open>chunk_invariant\<close> says what every read step
    keeps and is extended by each reader; the locale \<open>resumable_reader\<close> is the contract of a reader
    that may be called again after a failure, with the MQTT, FTPS and camera readers as its providers.
  \<^item> \<open>MqttCodec\<close>, \<open>MqttFrame\<close>, \<open>Pending\<close>, \<open>MqttClient\<close>, \<open>MqttSession\<close>, \<open>MqttFlows\<close>: \<open>src/mqtt/client/\<close>. The packet
    encoders, the frame reader (equivalent to a byte-at-a-time automaton), the bounded buffer of pending
    messages (locale \<open>byte_queue\<close>), the session with its operations, cancellation included, as a step
    relation with invariants over all reachable states, and what handshake, publishing and watchdog achieve.
  \<^item> \<open>Tunnel\<close>, \<open>Upload\<close>, \<open>TunnelUpload\<close>, \<open>TunnelOps\<close>, \<open>TunnelProps\<close>: \<open>src/file_tunnel/\<close> and \<open>src/upload.rs\<close>. Frames, request
    and reply, listing, download, upload with its hash, deletion, poisoning.
  \<^item> \<open>FtpProtocol\<close>, \<open>FtpChannel\<close>: \<open>src/ftps/protocol.rs\<close>. Reply lines, multi-line replies, passive ports, paths,
    and the loops that drain a data connection.
  \<^item> \<open>Calendar\<close>, \<open>FtpsListing\<close>, \<open>FtpsListingProps\<close>: \<open>src/ftps/parser.rs\<close>. Dates, \<open>MDTM\<close> replies, listing lines.
  \<^item> \<open>FtpsClient\<close>, \<open>FtpsClientProps\<close>, \<open>FtpsServed\<close>, \<open>FtpsLogin\<close>: \<open>src/ftps/client.rs\<close>. Login, commands, transfers,
    poisoning. The exchange on the control channel is refined to a trace over a three-state automaton.
  \<^item> \<open>Gcode\<close>, \<open>GcodeProps\<close>: \<open>src/quirks/gcode.rs\<close>. The safety scan of G-code before it is sent.
  \<^item> \<open>Camera\<close>, \<open>CameraProps\<close>: \<open>src/camera/binary.rs\<close>. The camera's authentication packet and frame reader.
  \<^item> \<open>Bits\<close>, \<open>Merge\<close>, \<open>AmsTypes\<close>: \<open>src/types/telemetry/\<close> (\<open>bits.rs\<close>, \<open>merge.rs\<close>, \<open>ams.rs\<close>). Bit fields, the merge of
    partial pushes (locale \<open>keyed_merge\<close>, with trays and units as its instances), the AMS report.
  \<^item> \<open>AmsMapping\<close>, \<open>AmsParser\<close>: \<open>src/ams/ids.rs\<close>, \<open>mapping.rs\<close>, \<open>parser.rs\<close>. Addresses of trays, the mapping arrays of a
    print job and the checks on them, cleansing, and the cached report over any sequence of pushes.
  \<^item> \<open>SliceInfo\<close>, \<open>ZipMember\<close>: \<open>src/ftps/project/slice_info.rs\<close>. The scan of the slicer's XML for a plate's filaments,
    and the reader of the archive member that holds it, by windows over a source that may return short pieces.
  \<^item> \<open>Zip\<close>, \<open>ZipProps\<close>, \<open>FtpsProject\<close>: \<open>src/ftps/project.rs\<close> and its two callers in \<open>src/ftps/client.rs\<close>. The walk over
    the front of a project file: what it hands out is checked, what a well-formed archive holds is found, and it
    returns within a bound on its rounds.
  \<^item> \<open>AmsAutoMap\<close>, \<open>AmsAutoMapProps\<close>: \<open>src/ams/auto_map.rs\<close>. The greedy choice of a tray for each filament of a plate.
  \<^item> \<open>Hms\<close>, \<open>Command\<close>, \<open>CommandProps\<close>: \<open>src/diagnostics/hms.rs\<close>, \<open>src/client/command.rs\<close>. Health alerts and their codes;
    the tracker of sent commands, the verdict of an echo, and the accounting of outcomes over any history.
  \<^item> \<open>Control\<close>: \<open>src/types/control.rs\<close>. The enumerations a command takes, with their wire names as tables (locale
    \<open>wire_table\<close>).
  \<^item> \<open>Temps\<close>, \<open>Stage\<close>, \<open>Device\<close>, \<open>Report\<close>: the other modules of \<open>src/types/telemetry/\<close>. The records of a report, how a
    partial one is merged into what is known, and the readings decoded from them.
  \<^item> \<open>Requests\<close>, \<open>RequestsProps\<close>: \<open>src/mqtt/commands/\<close>. The JSON of every request, the job a print config is turned into,
    and that a request is matched to its echo.
  \<^item> \<open>Cache\<close>, \<open>CacheProps\<close>, \<open>Core\<close>: \<open>src/client/mod.rs\<close>, \<open>telemetry.rs\<close>, \<open>job.rs\<close>, \<open>print_options.rs\<close>, \<open>src/identity.rs\<close>.
    The telemetry cache of a client, what is read from it, and how each message that arrives is classified.
  \<^item> \<open>Client\<close>, \<open>ClientPoll\<close>, \<open>ClientOps\<close>: \<open>src/client/\<close>. Dialling and reconnecting, publishing, the loops that wait for
    a reply or an event (they end because every round uses something up), and every command with its guards. \<open>Kprofile\<close>,
    \<open>Drying\<close>, \<open>ErrorText\<close>: \<open>src/diagnostics/kprofile.rs\<close>, \<open>src/types/drying.rs\<close>, \<open>src/error.rs\<close>, which they use.
  \<^item> \<open>ClientRuns\<close>, \<open>ClientProps\<close>, \<open>ClientCommands\<close>: every call of a client is a run of a few kinds of steps (locale
    \<open>client_invariant\<close>), what holds in all states so reached, and that a command refuses or sends the one request its
    handle names. \<open>PollProps\<close>, \<open>CoreProps\<close>, \<open>ClientSafety\<close>: which message a wait takes; what counts as known on a
    connection (locale \<open>evidence\<close>) and that a repeated report says nothing new; what G-code, drying cycles and prints
    are let through.
  \<^item> \<open>Quirks\<close>, \<open>Models\<close>, \<open>ModelsProps\<close>, \<open>QuirksProps\<close>: \<open>src/quirks/\<close>, \<open>src/models.rs\<close>. What each model can do and how much
    heat and travel it takes, what a report says about a feature, the table of models and how one is recognised.

  \<^bold>\<open>Conventions.\<close> A fallible function returns \<open>error + 'a\<close>; a \<open>&mut self\<close> method takes the state last and
  returns it last; a callback that only collects is the list of what it was given. A loop over a stream
  is a \<open>function\<close> whose measure is the number of bytes the script still delivers, so termination holds
  for every script; no fuel is used. Buffers and counters that a \<open>usize\<close> holds are naturals; integers
  whose width matters are words or are reduced explicitly.

  \<^bold>\<open>Parameters.\<close> \<open>serde_json::from_slice\<close>, MD5, the square and cube roots of \<open>libm\<close>, and the zip and TLS libraries
  are third-party code. Where the code
  relies on one, the definitions take it as an argument, or its outcome is part of the script (a TLS
  handshake succeeds or fails).

  \<^bold>\<open>Not modelled.\<close> The platform adapters (tokio, ESP-IDF, embassy), the command-line front end and the
  hardware probes: system calls, third-party TLS and terminal output. Logging. Still to come, in this
  order: the remaining telemetry report types, the printer client that composes the components, discovery.
\<close>

end
